(* ===== verification/Prelude.thy ===== *)
theory Prelude
  imports Main "HOL-Library.AList" "HOL-Library.Char_ord" "HOL-Library.List_Lexorder"
begin

text \<open>
  The vocabulary the component theories share.

  \<^item> Python dictionaries: association lists in insertion order (\<open>dict\<close>), with
    \<open>dict_set\<close>, \<open>dict_pop\<close> and \<open>dict_merge\<close> for \<open>d[k] = v\<close>, \<open>d.pop(k, None)\<close>
    and \<open>{**a, **b}\<close>. The locale \<open>dictionary\<close> is the contract the components use.
  \<^item> Python strings: lists of characters, one per code point (code points up to 255), with the
    string methods the code calls.
  \<^item> Errors as values: \<open>bind_sum\<close> for pure code that may raise, and the state-and-error
    functions \<open>('s, 'e, 'a) act\<close> for code that runs in a database session, where the writes made
    before a raise are still in the session.
\<close>

named_theorems dict_simps \<open>equations about dictionary lookups, keys and updates\<close>
named_theorems act_simps \<open>equations that run a state-and-error function\<close>

subsection \<open>Lists\<close>

lemma find_append: "List.find P (xs @ ys) = (case List.find P xs of None \<Rightarrow> List.find P ys | Some x \<Rightarrow> Some x)"
  by (induction xs) auto

lemma dropWhile_stop: "x \<notin> set ys \<Longrightarrow> dropWhile (\<lambda>c. c \<noteq> x) (ys @ x # zs) = x # zs"
  by (induction ys) auto

lemma takeWhile_stop: "x \<notin> set ys \<Longrightarrow> takeWhile (\<lambda>c. c \<noteq> x) (ys @ x # zs) = ys"
  by (induction ys) auto

lemma find_mem: "List.find P xs = Some x \<Longrightarrow> x \<in> set xs \<and> P x"
  by (metis find_Some_iff nth_mem)

lemma bex_enumerate [simp]: "(\<exists>x \<in> set (enumerate n xs). P (snd x)) \<longleftrightarrow> (\<exists>x \<in> set xs. P x)"
  by (induction xs arbitrary: n) auto

lemma concat_map_Nil: "concat (map f xs) = [] \<longleftrightarrow> (\<forall>x \<in> set xs. f x = [])"
  by (induction xs) auto

subsection \<open>Dictionaries\<close>

type_synonym ('k, 'v) dict = "('k \<times> 'v) list"

abbreviation dict_get :: "('k, 'v) dict \<Rightarrow> 'k \<Rightarrow> 'v option" where
  "dict_get d \<equiv> map_of d"

abbreviation dict_keys :: "('k, 'v) dict \<Rightarrow> 'k list" where
  "dict_keys d \<equiv> map fst d"

abbreviation dict_vals :: "('k, 'v) dict \<Rightarrow> 'v list" where
  "dict_vals d \<equiv> map snd d"

definition dict_has :: "'k \<Rightarrow> ('k, 'v) dict \<Rightarrow> bool" where
  "dict_has k d = (k \<in> set (dict_keys d))"

definition dict_ok :: "('k, 'v) dict \<Rightarrow> bool" where
  "dict_ok d = distinct (dict_keys d)"

definition dict_set :: "'k \<Rightarrow> 'v \<Rightarrow> ('k, 'v) dict \<Rightarrow> ('k, 'v) dict" where
  "dict_set k v d = AList.update k v d"

definition dict_pop :: "'k \<Rightarrow> ('k, 'v) dict \<Rightarrow> ('k, 'v) dict" where
  "dict_pop k d = AList.delete k d"

fun dict_merge :: "('k, 'v) dict \<Rightarrow> ('k, 'v) dict \<Rightarrow> ('k, 'v) dict" where
  "dict_merge a [] = a"
| "dict_merge a ((k, v) # b) = dict_merge (dict_set k v a) b"

text \<open>Python compares dictionaries by their entries, not by their order.\<close>

definition dict_eq :: "('v \<Rightarrow> 'v \<Rightarrow> bool) \<Rightarrow> ('k, 'v) dict \<Rightarrow> ('k, 'v) dict \<Rightarrow> bool" where
  "dict_eq eq a b =
     ((\<forall>k\<in>set (dict_keys a). dict_has k b) \<and>
      (\<forall>k\<in>set (dict_keys b).
         (case (dict_get a k, dict_get b k) of (Some v, Some w) \<Rightarrow> eq v w | _ \<Rightarrow> False)))"

lemma dict_has_iff_get: "dict_has k d \<longleftrightarrow> (\<exists>v. dict_get d k = Some v)"
  by (induction d) (auto simp: dict_has_def)

lemma dict_has_get_None [dict_simps]: "\<not> dict_has k d \<longleftrightarrow> dict_get d k = None"
  by (auto simp: dict_has_iff_get)

lemma dict_has_code [simp]: "dict_has k [] \<longleftrightarrow> False" "dict_has k (p # d) \<longleftrightarrow> k = fst p \<or> dict_has k d"
  by (auto simp: dict_has_def)

lemma get_set [dict_simps]: "dict_get (dict_set k v d) = (dict_get d)(k \<mapsto> v)"
  by (simp add: dict_set_def update_conv')

lemma get_pop [dict_simps]: "dict_get (dict_pop k d) = (dict_get d)(k := None)"
  by (simp add: dict_pop_def delete_conv')

lemma has_set [dict_simps]: "dict_has j (dict_set k v d) \<longleftrightarrow> j = k \<or> dict_has j d"
  by (auto simp: dict_has_iff_get get_set)

lemma has_pop [dict_simps]: "dict_has j (dict_pop k d) \<longleftrightarrow> j \<noteq> k \<and> dict_has j d"
  by (auto simp: dict_has_iff_get get_pop)

lemma ok_set [dict_simps]: "dict_ok d \<Longrightarrow> dict_ok (dict_set k v d)"
  by (simp add: dict_ok_def dict_set_def distinct_update)

lemma ok_pop [dict_simps]: "dict_ok d \<Longrightarrow> dict_ok (dict_pop k d)"
  by (simp add: dict_ok_def dict_pop_def distinct_delete)

lemma ok_Nil [simp]: "dict_ok []"
  by (simp add: dict_ok_def)

lemma set_pop_subset: "set (dict_pop k d) = {p \<in> set d. fst p \<noteq> k}"
  by (auto simp: dict_pop_def AList.delete_eq)

lemma set_set: "dict_ok d \<Longrightarrow> set (dict_set k v d) = insert (k, v) {p \<in> set d. fst p \<noteq> k}"
  by (induction d) (force simp: dict_set_def dict_ok_def image_iff)+

lemma get_iff_mem: "dict_ok d \<Longrightarrow> dict_get d k = Some v \<longleftrightarrow> (k, v) \<in> set d"
  by (simp add: dict_ok_def)

lemma get_merge [dict_simps]: "dict_ok b \<Longrightarrow> dict_get (dict_merge a b) = dict_get a ++ dict_get b"
proof (induction a b rule: dict_merge.induct)
  case (2 a k v b)
  then have "k \<notin> dom (dict_get b)" and "dict_ok b"
    by (auto simp: dict_ok_def dom_map_of_conv_image_fst)
  with 2 show ?case
    by (auto simp: get_set map_add_def fun_eq_iff split: option.splits)
qed simp

lemma ok_merge [dict_simps]: "dict_ok a \<Longrightarrow> dict_ok (dict_merge a b)"
  by (induction a b rule: dict_merge.induct) (auto simp: ok_set)

lemma has_merge [dict_simps]: "dict_has k (dict_merge a b) \<longleftrightarrow> dict_has k a \<or> dict_has k b"
  by (induction a b rule: dict_merge.induct) (auto simp: has_set)

lemma dict_eq_refl:
  assumes "\<And>v. v \<in> set (dict_vals d) \<Longrightarrow> eq v v"
  shows "dict_eq eq d d"
proof -
  have "\<exists>v. dict_get d k = Some v \<and> eq v v" if "k \<in> set (dict_keys d)" for k
  proof -
    from that obtain v where v: "dict_get d k = Some v"
      using dict_has_iff_get [of k d] by (auto simp: dict_has_def)
    then have "v \<in> set (dict_vals d)"
      by (force dest: map_of_SomeD)
    with v assms show ?thesis by blast
  qed
  then show ?thesis
    by (fastforce simp: dict_eq_def dict_has_def)
qed

text \<open>
  The contract of a dictionary: what a lookup returns after an update or a removal, and that both
  keep the keys distinct. Clients prove their facts from these laws.
\<close>

locale dictionary =
  fixes get :: "'d \<Rightarrow> 'k \<Rightarrow> 'v option"
    and put :: "'k \<Rightarrow> 'v \<Rightarrow> 'd \<Rightarrow> 'd"
    and pop :: "'k \<Rightarrow> 'd \<Rightarrow> 'd"
    and inv :: "'d \<Rightarrow> bool"
  assumes get_put: "get (put k v d) = (get d)(k \<mapsto> v)"
    and get_del: "get (pop k d) = (get d)(k := None)"
    and inv_put: "inv d \<Longrightarrow> inv (put k v d)"
    and inv_del: "inv d \<Longrightarrow> inv (pop k d)"
begin

lemma get_put_same: "get (put k v d) k = Some v"
  by (simp add: get_put)

lemma get_put_other: "j \<noteq> k \<Longrightarrow> get (put k v d) j = get d j"
  by (simp add: get_put)

lemma get_del_same: "get (pop k d) k = None"
  by (simp add: get_del)

lemma get_del_other: "j \<noteq> k \<Longrightarrow> get (pop k d) j = get d j"
  by (simp add: get_del)

lemma put_put: "get (put k v (put k w d)) = get (put k v d)"
  by (simp add: get_put)

lemma put_commute: "j \<noteq> k \<Longrightarrow> get (put k v (put j w d)) = get (put j w (put k v d))"
  by (simp add: get_put fun_upd_twist)

lemma del_put: "get d k = None \<Longrightarrow> get (pop k (put k v d)) = get d"
  by (auto simp: get_put get_del)

end

interpretation py_dict: dictionary map_of dict_set dict_pop dict_ok
  by unfold_locales (simp_all add: dict_simps)

subsection \<open>Errors in pure code\<close>

fun bind_sum :: "'e + 'a \<Rightarrow> ('a \<Rightarrow> 'e + 'b) \<Rightarrow> 'e + 'b" where
  "bind_sum (Inl e) f = Inl e"
| "bind_sum (Inr x) f = f x"

lemma bind_sum_Inr: "bind_sum m f = Inr y \<longleftrightarrow> (\<exists>x. m = Inr x \<and> f x = Inr y)"
  by (cases m) auto

lemma bind_sum_Inl: "bind_sum m f = Inl e \<longleftrightarrow> m = Inl e \<or> (\<exists>x. m = Inr x \<and> f x = Inl e)"
  by (cases m) auto

subsection \<open>Code that runs in a database session\<close>

text \<open>
  A function of the session returns its result or its exception, and the session's state after it.
  A raise does not undo the statements already run: only a rollback does.
\<close>

type_synonym ('s, 'e, 'a) act = "'s \<Rightarrow> ('e + 'a) \<times> 's"

definition ret :: "'a \<Rightarrow> ('s, 'e, 'a) act" where
  "ret x = (\<lambda>s. (Inr x, s))"

definition raise :: "'e \<Rightarrow> ('s, 'e, 'a) act" where
  "raise e = (\<lambda>s. (Inl e, s))"

definition bind :: "('s, 'e, 'a) act \<Rightarrow> ('a \<Rightarrow> ('s, 'e, 'b) act) \<Rightarrow> ('s, 'e, 'b) act" where
  "bind m f = (\<lambda>s. case m s of (Inl e, s') \<Rightarrow> (Inl e, s') | (Inr x, s') \<Rightarrow> f x s')"

definition lift_sum :: "'e + 'a \<Rightarrow> ('s, 'e, 'a) act" where
  "lift_sum r = (\<lambda>s. (r, s))"

definition reads :: "('s \<Rightarrow> 'a) \<Rightarrow> ('s, 'e, 'a) act" where
  "reads f = (\<lambda>s. (Inr (f s), s))"

definition modify :: "('s \<Rightarrow> 's) \<Rightarrow> ('s, 'e, unit) act" where
  "modify f = (\<lambda>s. (Inr (), f s))"

lemma ret_apply [act_simps]: "ret x s = (Inr x, s)"
  by (simp add: ret_def)

lemma raise_apply [act_simps]: "raise e s = (Inl e, s)"
  by (simp add: raise_def)

lemma lift_sum_apply [act_simps]: "lift_sum r s = (r, s)"
  by (simp add: lift_sum_def)

lemma reads_apply [act_simps]: "reads f s = (Inr (f s), s)"
  by (simp add: reads_def)

lemma modify_apply [act_simps]: "modify f s = (Inr (), f s)"
  by (simp add: modify_def)

lemma bind_apply [act_simps]:
  "bind m f s = (case m s of (Inl e, s') \<Rightarrow> (Inl e, s') | (Inr x, s') \<Rightarrow> f x s')"
  by (simp add: bind_def)

lemma bind_InrE:
  assumes "bind m f s = (Inr y, t)"
  obtains x u where "m s = (Inr x, u)" and "f x u = (Inr y, t)"
  using assms by (auto simp: bind_def split: prod.splits sum.splits)

subsection \<open>Strings\<close>

abbreviation code_point :: "char \<Rightarrow> nat" where
  "code_point c \<equiv> of_char c"

definition is_space :: "char \<Rightarrow> bool" where
  "is_space c =
     (let n = code_point c in (9 \<le> n \<and> n \<le> 13) \<or> (28 \<le> n \<and> n \<le> 32) \<or> n = 133 \<or> n = 160)"

definition py_strip :: "string \<Rightarrow> string" where
  "py_strip s = rev (dropWhile is_space (rev (dropWhile is_space s)))"

definition lower_char :: "char \<Rightarrow> char" where
  "lower_char c =
     (let n = code_point c in
      if (65 \<le> n \<and> n \<le> 90) \<or> (192 \<le> n \<and> n \<le> 222 \<and> n \<noteq> 215) then char_of (n + 32) else c)"

definition py_lower :: "string \<Rightarrow> string" where
  "py_lower s = map lower_char s"

fun starts_with :: "string \<Rightarrow> string \<Rightarrow> bool" where
  "starts_with [] s = True"
| "starts_with (p # ps) [] = False"
| "starts_with (p # ps) (c # s) = (p = c \<and> starts_with ps s)"

fun contains_str :: "string \<Rightarrow> string \<Rightarrow> bool" where
  "contains_str p [] = (p = [])"
| "contains_str p (c # s) = (starts_with p (c # s) \<or> contains_str p s)"

fun join_str :: "string \<Rightarrow> string list \<Rightarrow> string" where
  "join_str sep [] = []"
| "join_str sep [x] = x"
| "join_str sep (x # y # ys) = x @ sep @ join_str sep (y # ys)"

lemma starts_with_iff: "starts_with p s \<longleftrightarrow> (\<exists>r. s = p @ r)"
  by (induction p s rule: starts_with.induct) auto

lemma contains_str_iff: "contains_str p s \<longleftrightarrow> (\<exists>a b. s = a @ p @ b)"
proof (induction s)
  case (Cons c s)
  have "(\<exists>a b. c # s = a @ p @ b) \<longleftrightarrow> (\<exists>r. c # s = p @ r) \<or> (\<exists>a b. s = a @ p @ b)"
    by (metis append_Cons append_Nil list.exhaust list.inject)
  with Cons.IH show ?case by (simp add: starts_with_iff)
qed auto

definition hex_digit :: "nat \<Rightarrow> char" where
  "hex_digit n = ''0123456789abcdef'' ! n"

fun nat_str :: "nat \<Rightarrow> string" where
  "nat_str n = (if n < 10 then [hex_digit n] else nat_str (n div 10) @ [hex_digit (n mod 10)])"

declare nat_str.simps [simp del]

definition int_str :: "int \<Rightarrow> string" where
  "int_str i = (if i < 0 then CHR ''-'' # nat_str (nat (- i)) else nat_str (nat i))"

text \<open>\<open>repr\<close> of a string, as an f-string's \<open>!r\<close> prints it.\<close>

definition repr_char :: "char \<Rightarrow> char \<Rightarrow> string" where
  "repr_char quote c =
     (let n = code_point c in
      if c = quote \<or> n = 92 then [char_of (92::nat), c]
      else if n = 9 then [char_of (92::nat), CHR ''t'']
      else if n = 10 then [char_of (92::nat), CHR ''n'']
      else if n = 13 then [char_of (92::nat), CHR ''r'']
      else if n < 32 \<or> (127 \<le> n \<and> n \<le> 160) \<or> n = 173
      then [char_of (92::nat), CHR ''x'', hex_digit (n div 16), hex_digit (n mod 16)]
      else [c])"

definition py_repr :: "string \<Rightarrow> string" where
  "py_repr s =
     (let sq = char_of (39::nat); dq = char_of (34::nat);
          q = (if sq \<in> set s \<and> dq \<notin> set s then dq else sq)
      in [q] @ concat (map (repr_char q) s) @ [q])"

end
