(* ===== verification/Proto_Models.thy ===== *)
theory Proto_Models
  imports Prelude Complex_Main
begin

text \<open>
  The data model of \<open>onto_platform/proto_models.py\<close>: the enumerations, the configuration
  records, the five entity kinds and the registry that holds them. A string-keyed dictionary is an
  association list, an \<open>Any\<close> value is \<open>json\<close>, a \<open>float\<close> (never NaN or infinite in JSON) is a
  rational. Each record's defaults are a \<open>mk_\<close> constant taking the fields without default.
\<close>

datatype json =
    JNull
  | JBool bool
  | JInt int
  | JFloat rat
  | JStr string
  | JList "json list"
  | JObj "(string \<times> json) list"

subsection \<open>Enumerations\<close>

datatype data_type =
    DT_UNKNOWN | DT_STRING | DT_INTEGER | DT_DOUBLE | DT_BOOLEAN | DT_TIMESTAMP | DT_DATE
  | DT_ATTACHMENT

datatype lifecycle_status =
    LIFECYCLE_UNSPECIFIED | ACTIVE | EXPERIMENTAL | DEPRECATED | EXAMPLE

datatype sensitivity =
    SENSITIVITY_UNSPECIFIED | PUBLIC | INTERNAL | CONFIDENTIAL | RESTRICTED

datatype masking_strategy =
    MASK_NONE | MASK_NULLIFY | MASK_REDACT_FULL | SHOW_LAST_4 | SHOW_FIRST_2
  | MASK_EMAIL_DOMAIN | MASK_EMAIL_USER | MASK_PHONE_MIDDLE

datatype interface_category = INTERFACE_CATEGORY_INVALID | OBJECT_INTERFACE | LINK_INTERFACE

datatype cardinality = CARDINALITY_UNSPECIFIED | ONE_TO_ONE | ONE_TO_MANY | MANY_TO_MANY

fun data_type_value :: "data_type \<Rightarrow> string" where
  "data_type_value DT_UNKNOWN = ''DT_UNKNOWN''"
| "data_type_value DT_STRING = ''DT_STRING''"
| "data_type_value DT_INTEGER = ''DT_INTEGER''"
| "data_type_value DT_DOUBLE = ''DT_DOUBLE''"
| "data_type_value DT_BOOLEAN = ''DT_BOOLEAN''"
| "data_type_value DT_TIMESTAMP = ''DT_TIMESTAMP''"
| "data_type_value DT_DATE = ''DT_DATE''"
| "data_type_value DT_ATTACHMENT = ''DT_ATTACHMENT''"

fun lifecycle_status_value :: "lifecycle_status \<Rightarrow> string" where
  "lifecycle_status_value LIFECYCLE_UNSPECIFIED = ''LIFECYCLE_UNSPECIFIED''"
| "lifecycle_status_value ACTIVE = ''ACTIVE''"
| "lifecycle_status_value EXPERIMENTAL = ''EXPERIMENTAL''"
| "lifecycle_status_value DEPRECATED = ''DEPRECATED''"
| "lifecycle_status_value EXAMPLE = ''EXAMPLE''"

fun sensitivity_value :: "sensitivity \<Rightarrow> string" where
  "sensitivity_value SENSITIVITY_UNSPECIFIED = ''SENSITIVITY_UNSPECIFIED''"
| "sensitivity_value PUBLIC = ''PUBLIC''"
| "sensitivity_value INTERNAL = ''INTERNAL''"
| "sensitivity_value CONFIDENTIAL = ''CONFIDENTIAL''"
| "sensitivity_value RESTRICTED = ''RESTRICTED''"

fun masking_strategy_value :: "masking_strategy \<Rightarrow> string" where
  "masking_strategy_value MASK_NONE = ''MASK_NONE''"
| "masking_strategy_value MASK_NULLIFY = ''MASK_NULLIFY''"
| "masking_strategy_value MASK_REDACT_FULL = ''MASK_REDACT_FULL''"
| "masking_strategy_value SHOW_LAST_4 = ''SHOW_LAST_4''"
| "masking_strategy_value SHOW_FIRST_2 = ''SHOW_FIRST_2''"
| "masking_strategy_value MASK_EMAIL_DOMAIN = ''MASK_EMAIL_DOMAIN''"
| "masking_strategy_value MASK_EMAIL_USER = ''MASK_EMAIL_USER''"
| "masking_strategy_value MASK_PHONE_MIDDLE = ''MASK_PHONE_MIDDLE''"

fun interface_category_value :: "interface_category \<Rightarrow> string" where
  "interface_category_value INTERFACE_CATEGORY_INVALID = ''INTERFACE_CATEGORY_INVALID''"
| "interface_category_value OBJECT_INTERFACE = ''OBJECT_INTERFACE''"
| "interface_category_value LINK_INTERFACE = ''LINK_INTERFACE''"

subsection \<open>Compliance, binding and validation rules\<close>

record compliance_config =
  cc_sensitivity :: sensitivity
  cc_masking :: masking_strategy

definition mk_compliance_config :: compliance_config where
  "mk_compliance_config = \<lparr>cc_sensitivity = SENSITIVITY_UNSPECIFIED, cc_masking = MASK_NONE\<rparr>"

record asset_mapping =
  read_connection_id :: string
  read_asset_path :: string
  writeback_enabled :: bool
  writeback_connection_id :: string
  writeback_asset_path :: string

definition mk_asset_mapping :: asset_mapping where
  "mk_asset_mapping =
     \<lparr>read_connection_id = [], read_asset_path = [], writeback_enabled = False,
      writeback_connection_id = [], writeback_asset_path = []\<rparr>"

datatype not_null_rule = NotNullRule

record range_rule =
  rr_min :: "rat option"
  rr_max :: "rat option"
  rr_min_inclusive :: bool
  rr_max_inclusive :: bool

record length_rule =
  min_length :: "int option"
  max_length :: "int option"

record enum_value =
  ev_value :: string
  ev_display_name :: string

record property_validation_rule =
  pvr_error_message :: string
  pvr_not_null :: "not_null_rule option"
  pvr_range :: "range_rule option"
  pvr_length :: "length_rule option"
  pvr_pattern :: "string option"
  pvr_enum_values :: "enum_value list option"

record entity_validation_rule =
  evr_error_message :: string
  evr_cross_property :: "string option"

subsection \<open>Properties\<close>

record shared_property_type_definition =
  sp_rid :: string
  sp_api_name :: string
  sp_display_name :: string
  sp_description :: string
  sp_lifecycle_status :: lifecycle_status
  sp_data_type :: data_type
  sp_widget :: "(string, json) dict"
  sp_validation :: "property_validation_rule list"
  sp_compliance :: compliance_config

definition mk_shared_property_type :: "string \<Rightarrow> shared_property_type_definition" where
  "mk_shared_property_type rid =
     \<lparr>sp_rid = rid, sp_api_name = [], sp_display_name = [], sp_description = [],
      sp_lifecycle_status = LIFECYCLE_UNSPECIFIED, sp_data_type = DT_UNKNOWN, sp_widget = [],
      sp_validation = [], sp_compliance = mk_compliance_config\<rparr>"

record property_type_definition =
  pt_rid :: string
  pt_api_name :: string
  pt_display_name :: string
  pt_description :: string
  pt_lifecycle_status :: lifecycle_status
  pt_data_type :: data_type
  inherit_from_shared_property_type_rid :: string
  physical_column :: string
  virtual_expression :: string
  pt_widget :: "(string, json) dict"
  pt_validation :: "property_validation_rule list"
  pt_compliance :: compliance_config

definition mk_property_type :: "string \<Rightarrow> property_type_definition" where
  "mk_property_type rid =
     \<lparr>pt_rid = rid, pt_api_name = [], pt_display_name = [], pt_description = [],
      pt_lifecycle_status = LIFECYCLE_UNSPECIFIED, pt_data_type = DT_UNKNOWN,
      inherit_from_shared_property_type_rid = [], physical_column = [], virtual_expression = [],
      pt_widget = [], pt_validation = [], pt_compliance = mk_compliance_config\<rparr>"

subsection \<open>Interfaces, objects and links\<close>

datatype reference_type = REFERENCE_TYPE_INVALID | SELF | EXPLICIT_OBJECT | EXPLICIT_INTERFACE

record object_type_spec =
  ots_reference_type :: reference_type
  ots_object_type_rid :: string
  ots_interface_type_rid :: string

definition mk_object_type_spec :: object_type_spec where
  "mk_object_type_spec =
     \<lparr>ots_reference_type = REFERENCE_TYPE_INVALID, ots_object_type_rid = [],
      ots_interface_type_rid = []\<rparr>"

record object_link_requirement =
  olr_rid :: string
  olr_api_name :: string
  olr_display_name :: string
  olr_description :: string
  olr_cardinality :: cardinality
  olr_source_object :: object_type_spec
  olr_target_object :: object_type_spec

record link_object_constraint =
  loc_source_object :: object_type_spec
  loc_target_object :: object_type_spec

record interface_type_definition =
  if_rid :: string
  if_api_name :: string
  if_display_name :: string
  if_description :: string
  if_lifecycle_status :: lifecycle_status
  if_category :: interface_category
  extends_interface_type_rids :: "string list"
  required_shared_property_type_rids :: "string list"
  link_requirements :: "object_link_requirement list"
  object_constraint :: "link_object_constraint option"

definition mk_interface_type :: "string \<Rightarrow> interface_type_definition" where
  "mk_interface_type rid =
     \<lparr>if_rid = rid, if_api_name = [], if_display_name = [], if_description = [],
      if_lifecycle_status = LIFECYCLE_UNSPECIFIED, if_category = INTERFACE_CATEGORY_INVALID,
      extends_interface_type_rids = [], required_shared_property_type_rids = [],
      link_requirements = [], object_constraint = None\<rparr>"

record object_type_definition =
  ob_rid :: string
  ob_api_name :: string
  ob_display_name :: string
  ob_description :: string
  ob_lifecycle_status :: lifecycle_status
  ob_property_types :: "(string, property_type_definition) dict"
  ob_implements :: "string list"
  ob_primary_key :: "string list"
  ob_validation :: "entity_validation_rule list"
  ob_asset_mapping :: asset_mapping

definition mk_object_type :: "string \<Rightarrow> object_type_definition" where
  "mk_object_type rid =
     \<lparr>ob_rid = rid, ob_api_name = [], ob_display_name = [], ob_description = [],
      ob_lifecycle_status = LIFECYCLE_UNSPECIFIED, ob_property_types = [], ob_implements = [],
      ob_primary_key = [], ob_validation = [], ob_asset_mapping = mk_asset_mapping\<rparr>"

record link_type_definition =
  lk_rid :: string
  lk_api_name :: string
  lk_display_name :: string
  lk_description :: string
  lk_lifecycle_status :: lifecycle_status
  source_object_type_rid :: string
  source_interface_type_rid :: string
  target_object_type_rid :: string
  target_interface_type_rid :: string
  lk_property_types :: "(string, property_type_definition) dict"
  lk_cardinality :: cardinality
  lk_primary_key :: "string list"
  lk_validation :: "entity_validation_rule list"
  lk_implements :: "string list"
  lk_asset_mapping :: asset_mapping

definition mk_link_type :: "string \<Rightarrow> link_type_definition" where
  "mk_link_type rid =
     \<lparr>lk_rid = rid, lk_api_name = [], lk_display_name = [], lk_description = [],
      lk_lifecycle_status = LIFECYCLE_UNSPECIFIED, source_object_type_rid = [],
      source_interface_type_rid = [], target_object_type_rid = [], target_interface_type_rid = [],
      lk_property_types = [], lk_cardinality = CARDINALITY_UNSPECIFIED, lk_primary_key = [],
      lk_validation = [], lk_implements = [], lk_asset_mapping = mk_asset_mapping\<rparr>"

subsection \<open>Actions\<close>

datatype action_safety_level =
    SAFETY_UNSPECIFIED | SAFETY_READ_ONLY | SAFETY_IDEMPOTENT_WRITE | SAFETY_NON_IDEMPOTENT
  | SAFETY_CRITICAL

datatype side_effect_category =
    CATEGORY_UNSPECIFIED | DATA_MUTATION | DATA_DELETION | NOTIFICATION | EXTERNAL_API_CALL
  | BILLING_EVENT | ACCESS_CONTROL | OTHER

record action_parameter =
  ap_api_name :: string
  ap_display_name :: string
  ap_description :: string
  ap_required :: bool
  ap_explicit_type :: "data_type option"
  derived_from_object_type_rid :: string
  derived_from_link_type_rid :: string
  derived_from_interface_type_rid :: string

datatype engine_type =
    ENGINE_UNSPECIFIED | ENGINE_NATIVE_CRUD | ENGINE_PYTHON_VENV | ENGINE_SQL_RUNNER
  | ENGINE_WEBHOOK

record action_execution_config =
  aec_type :: engine_type
  is_batch :: bool
  is_sync :: bool
  native_crud_json :: string
  python_script :: string
  sql_template :: string
  webhook_config_json :: string

definition mk_action_execution_config :: action_execution_config where
  "mk_action_execution_config =
     \<lparr>aec_type = ENGINE_UNSPECIFIED, is_batch = False, is_sync = True, native_crud_json = [],
      python_script = [], sql_template = [], webhook_config_json = []\<rparr>"

record edit_declaration =
  edit_type :: string
  ed_object_type :: string
  target_object_type :: string
  property_updates :: "(string, json) dict list"
  target_property :: string
  property_value_change :: string
  ed_condition :: string
  ed_error_message :: string

record side_effect_declaration =
  se_category :: side_effect_category
  se_description :: string

record action_type_definition =
  ac_rid :: string
  ac_api_name :: string
  ac_display_name :: string
  ac_description :: string
  ac_lifecycle_status :: lifecycle_status
  ac_parameters :: "action_parameter list"
  ac_execution :: action_execution_config
  safety_level :: action_safety_level
  side_effects :: "side_effect_declaration list"
  edited_object_types :: "string list"
  ac_edits :: "edit_declaration list"

definition mk_action_type :: "string \<Rightarrow> action_type_definition" where
  "mk_action_type rid =
     \<lparr>ac_rid = rid, ac_api_name = [], ac_display_name = [], ac_description = [],
      ac_lifecycle_status = LIFECYCLE_UNSPECIFIED, ac_parameters = [],
      ac_execution = mk_action_execution_config, safety_level = SAFETY_UNSPECIFIED,
      side_effects = [], edited_object_types = [], ac_edits = []\<rparr>"

subsection \<open>The registry\<close>

record registry =
  rg_version :: string
  shared_property_types :: "(string, shared_property_type_definition) dict"
  interface_types :: "(string, interface_type_definition) dict"
  object_types :: "(string, object_type_definition) dict"
  link_types :: "(string, link_type_definition) dict"
  action_types :: "(string, action_type_definition) dict"

definition EMPTY_REGISTRY_VERSION :: string where
  "EMPTY_REGISTRY_VERSION = ''__empty__''"

definition empty_registry :: registry where
  "empty_registry =
     \<lparr>rg_version = EMPTY_REGISTRY_VERSION, shared_property_types = [], interface_types = [],
      object_types = [], link_types = [], action_types = []\<rparr>"

text \<open>
  What Python guarantees of every dictionary: one entry per key, in the registry's five maps and in
  the property maps of its objects and links.
\<close>

definition keys_ok :: "registry \<Rightarrow> bool" where
  "keys_ok r =
     (dict_ok (shared_property_types r) \<and> dict_ok (interface_types r) \<and> dict_ok (object_types r)
      \<and> dict_ok (link_types r) \<and> dict_ok (action_types r)
      \<and> list_all (\<lambda>obj. dict_ok (ob_property_types obj)) (dict_vals (object_types r))
      \<and> list_all (\<lambda>lt. dict_ok (lk_property_types lt)) (dict_vals (link_types r)))"

lemma keys_ok_empty: "keys_ok empty_registry"
  by (simp add: keys_ok_def empty_registry_def)

end
