(* ===== verification/Registry_Types.thy ===== *)
theory Registry_Types
  imports Proto_Models
begin

text \<open>
  What the registry's operations report: the validator's findings
  (\<open>registry/validator.py\<close>), the reference scanner's referrers (\<open>registry/refs_scan.py\<close>), the
  environments (\<open>registry/store.py\<close>), and the exceptions the backend raises, as one datatype whose
  constructors carry the fields of the Python exceptions.
\<close>

datatype severity = ERROR | WARNING

record finding =
  fd_severity :: severity
  fd_code :: string
  fd_path :: string
  fd_message :: string
  fd_details :: "(string, json) dict"

definition is_error :: "finding \<Rightarrow> bool" where
  "is_error f = (fd_severity f = ERROR)"

definition err :: "string \<Rightarrow> string \<Rightarrow> string \<Rightarrow> (string, json) dict \<Rightarrow> finding" where
  "err code path msg details =
     \<lparr>fd_severity = ERROR, fd_code = code, fd_path = path, fd_message = msg, fd_details = details\<rparr>"

definition warn :: "string \<Rightarrow> string \<Rightarrow> string \<Rightarrow> finding" where
  "warn code path msg =
     \<lparr>fd_severity = WARNING, fd_code = code, fd_path = path, fd_message = msg, fd_details = []\<rparr>"

lemma is_error_err [simp]: "is_error (err c p m d)"
  by (simp add: is_error_def err_def)

lemma is_error_warn [simp]: "\<not> is_error (warn c p m)"
  by (simp add: is_error_def warn_def)

record referrer =
  rf_rid :: string
  rf_kind :: string
  rf_field :: string
  rf_path :: string

datatype env = Staging | Production | Previous_production

fun env_value :: "env \<Rightarrow> string" where
  "env_value Staging = ''staging''"
| "env_value Production = ''production''"
| "env_value Previous_production = ''previous_production''"

datatype exn =
    ValidationFailedError "finding list"
  | ReferencedError string "referrer list"
  | StaleVersionError env int int
  | UndoUnavailableError
  | KeyError string
  | ValueError string
  | TypeError string
  | NoResultFound
  | IntegrityError
  | SqlRejectedError string "string option"
  | ConnectionProbeError string
  | ConnectionNotFound string
  | ConnectionAlreadyExists string
  | BoundAssetNotFoundError string
  | AssetUnboundError string
  | AgentToolError string
  | ExtractionFailure string
  | StepCapExceeded int
  | CancelledError
  | QueryBuildError string
  | UnsupportedDialectError string
  | SessionNotFoundError string
  | TurnInFlightError string
  | StaleStagingError string
  | TooManySessionsError string
  | HTTPException int string
  | OtherException string string

end
