(* ===== verification/Database.thy ===== *)
theory Database
  imports Registry_Types
begin

text \<open>
  The tables the backend keeps in PostgreSQL (\<open>migrations/versions/0001\<close> to \<open>0004\<close>), as one
  record: the state every store function reads and writes. A \<open>uuid\<close> column is its canonical
  string, a timestamp a number of microseconds, a \<open>jsonb\<close> registry payload the registry that
  \<open>model_validate\<close> reads back from it. \<open>now()\<close>, which PostgreSQL fixes for a transaction, is
  \<open>db_now\<close>. A statement that PostgreSQL rejects aborts the transaction (\<open>tx_aborted\<close>): it then
  refuses every further statement until the rollback.
\<close>

type_synonym uuid = string
type_synonym timestamp = int

record registry_row =
  rr_payload :: registry
  rr_version :: int
  rr_updated_at :: timestamp
  rr_updated_by :: "string option"
  rr_commit_message :: "string option"

record token_row =
  tk_id :: uuid
  tk_hash :: string
  tk_prefix :: string
  tk_scope :: string
  tk_label :: string
  tk_created_at :: timestamp
  tk_created_by :: "uuid option"
  tk_revoked_at :: "timestamp option"

record connection_row =
  cn_id :: uuid
  cn_label :: string
  cn_kind :: string
  cn_dsn_encrypted :: string
  cn_created_at :: timestamp
  cn_last_probe_ok_at :: "timestamp option"

record audit_row =
  au_token_id :: "uuid option"
  au_token_label :: "string option"
  au_scope :: "string option"
  au_tool :: string
  au_args_summary :: "(string, json) dict"
  au_outcome :: string
  au_error_code :: "string option"
  au_ts :: timestamp

record ui_session_row =
  us_id :: uuid
  us_token_id :: uuid
  us_scope :: string
  us_created_at :: timestamp
  us_expires_at :: timestamp
  us_revoked_at :: "timestamp option"

record upload_row =
  up_id :: uuid
  up_job_id :: "uuid option"
  up_filename :: string
  up_kind :: string
  up_size_bytes :: int
  up_sha256 :: string
  up_path :: string
  up_created_at :: timestamp
  up_created_by :: "uuid option"

record job_row =
  jb_id :: uuid
  jb_mode :: string
  jb_instructions :: "string option"
  jb_status :: string
  jb_phase_message :: "string option"
  jb_progress_pct :: int
  jb_decisions_report :: "json option"
  jb_staging_version_after :: "int option"
  jb_error_code :: "string option"
  jb_error_details :: "json option"
  jb_created_at :: timestamp
  jb_created_by :: "uuid option"
  jb_started_at :: "timestamp option"
  jb_finished_at :: "timestamp option"
  jb_chat_session_id :: "uuid option"

record chat_session_row =
  cs_id :: uuid
  cs_token_id :: uuid
  cs_status :: string
  cs_pre_registry :: registry
  cs_pre_version :: int
  cs_created_at :: timestamp
  cs_last_turn_at :: "timestamp option"

record chat_message_row =
  cm_id :: int
  cm_session_id :: uuid
  cm_turn_index :: int
  cm_role :: string
  cm_content :: json
  cm_created_at :: timestamp

record db =
  db_now :: timestamp
  tx_aborted :: bool
  registries :: "env \<Rightarrow> registry_row option"
  api_tokens :: "token_row list"
  connections :: "connection_row list"
  audit_log :: "audit_row list"
  ui_sessions :: "ui_session_row list"
  ingestion_uploads :: "upload_row list"
  ingestion_jobs :: "job_row list"
  chat_sessions :: "chat_session_row list"
  chat_messages :: "chat_message_row list"

text \<open>The database the migrations leave: three rows with the empty registry, nothing else.\<close>

definition migrated :: "timestamp \<Rightarrow> db" where
  "migrated t =
     \<lparr>db_now = t, tx_aborted = False,
      registries = (\<lambda>e. Some \<lparr>rr_payload = empty_registry, rr_version = 0, rr_updated_at = t,
                              rr_updated_by = None, rr_commit_message = None\<rparr>),
      api_tokens = [], connections = [], audit_log = [], ui_sessions = [],
      ingestion_uploads = [], ingestion_jobs = [], chat_sessions = [], chat_messages = []\<rparr>"

text \<open>A statement in the current transaction.\<close>

definition statement :: "(db, exn, 'a) act \<Rightarrow> (db, exn, 'a) act" where
  "statement m = (\<lambda>s. if tx_aborted s
     then (Inl (OtherException ''InFailedSQLTransactionError''
                 ''current transaction is aborted, commands ignored until end of transaction block''), s)
     else m s)"

text \<open>The SQL clauses the stores use: \<open>UPDATE ... SET ... WHERE\<close> and \<open>COALESCE\<close>.\<close>

definition update_where :: "('r \<Rightarrow> bool) \<Rightarrow> ('r \<Rightarrow> 'r) \<Rightarrow> 'r list \<Rightarrow> 'r list" where
  "update_where p f rows = map (\<lambda>r. if p r then f r else r) rows"

fun coalesce :: "'a option \<Rightarrow> 'a option \<Rightarrow> 'a option" where
  "coalesce (Some x) y = Some x"
| "coalesce None y = y"

lemma length_update_where [simp]: "length (update_where p f rows) = length rows"
  by (simp add: update_where_def)

lemma filter_update_where:
  "(\<And>r. p r \<Longrightarrow> \<not> q r \<and> \<not> q (f r)) \<Longrightarrow> filter q (update_where p f rows) = filter q rows"
  by (induction rows) (auto simp: update_where_def)

lemma map_update_where:
  "(\<And>r. p r \<Longrightarrow> g (f r) = g r) \<Longrightarrow> map g (update_where p f rows) = map g rows"
  by (simp add: update_where_def)

lemma update_where_none: "\<forall>r \<in> set rows. \<not> p r \<Longrightarrow> update_where p f rows = rows"
  by (induction rows) (auto simp: update_where_def)

lemma set_update_where: "r \<in> set (update_where p f rows) \<Longrightarrow>
    (\<exists>r0 \<in> set rows. p r0 \<and> r = f r0) \<or> (r \<in> set rows \<and> \<not> p r)"
  by (auto simp: update_where_def)

lemma find_update_where:
  "(\<And>r. q (f r) = q r) \<Longrightarrow> List.find q (update_where p f rows) =
     map_option (\<lambda>r. if p r then f r else r) (List.find q rows)"
  by (induction rows) (auto simp: update_where_def)

lemma statement_ok [act_simps]: "\<not> tx_aborted s \<Longrightarrow> statement m s = m s"
  by (simp add: statement_def)

end
