(* ===== verification/Connection_Store.thy ===== *)
theory Connection_Store
  imports Database
begin

text \<open>
  \<open>connections/store.py\<close>, \<open>connections/probe.py\<close> and \<open>connections/pool.py\<close>: registered data
  sources, with their DSN encrypted at rest; the probe that precedes a registration; the engine
  cache and the statements that make a session read-only. Fernet and the database drivers are
  parameters.
\<close>

datatype connection_kind = Postgres | Mysql | Sqlite

fun kind_value :: "connection_kind \<Rightarrow> string" where
  "kind_value Postgres = ''postgres''"
| "kind_value Mysql = ''mysql''"
| "kind_value Sqlite = ''sqlite''"

text \<open>\<open>ConnectionKind(s)\<close>, which raises ValueError for any other string.\<close>

definition parse_kind :: "string \<Rightarrow> exn + connection_kind" where
  "parse_kind s =
     (if s = ''postgres'' then Inr Postgres else if s = ''mysql'' then Inr Mysql
      else if s = ''sqlite'' then Inr Sqlite
      else Inl (ValueError (py_repr s @ '' is not a valid ConnectionKind'')))"

record fernet =
  fernet_encrypt :: "string \<Rightarrow> string"
  fernet_decrypt :: "string \<Rightarrow> exn + string"

record connection =
  co_id :: uuid
  co_label :: string
  co_kind :: connection_kind
  co_last_probe :: "timestamp option"

subsection \<open>The store\<close>

definition connection_of_row :: "connection_row \<Rightarrow> exn + connection" where
  "connection_of_row row =
     bind_sum (parse_kind (cn_kind row)) (\<lambda>k.
       Inr \<lparr>co_id = cn_id row, co_label = cn_label row, co_kind = k,
            co_last_probe = cn_last_probe_ok_at row\<rparr>)"

definition insert_connection ::
  "fernet \<Rightarrow> uuid \<Rightarrow> string \<Rightarrow> connection_kind \<Rightarrow> string \<Rightarrow> (db, exn, connection) act" where
  "insert_connection F new_id label kind dsn = statement (\<lambda>s.
     if label \<in> set (map cn_label (connections s))
     then (Inl (ConnectionAlreadyExists label), s\<lparr>tx_aborted := True\<rparr>)
     else (Inr \<lparr>co_id = new_id, co_label = label, co_kind = kind, co_last_probe = None\<rparr>,
           s\<lparr>connections := connections s @
               [\<lparr>cn_id = new_id, cn_label = label, cn_kind = kind_value kind,
                 cn_dsn_encrypted = fernet_encrypt F dsn, cn_created_at = db_now s,
                 cn_last_probe_ok_at = None\<rparr>]\<rparr>))"

definition find_connection :: "uuid \<Rightarrow> db \<Rightarrow> connection_row option" where
  "find_connection cid s = List.find (\<lambda>r. cn_id r = cid) (connections s)"

definition get_by_id :: "uuid \<Rightarrow> (db, exn, connection) act" where
  "get_by_id cid = statement (\<lambda>s. (case find_connection cid s of
     None \<Rightarrow> Inl (ConnectionNotFound cid) | Some row \<Rightarrow> connection_of_row row, s))"

definition get_by_label :: "string \<Rightarrow> (db, exn, connection) act" where
  "get_by_label label = statement (\<lambda>s.
     (case List.find (\<lambda>r. cn_label r = label) (connections s) of
        None \<Rightarrow> Inl (ConnectionNotFound label) | Some row \<Rightarrow> connection_of_row row, s))"

fun collect :: "(exn + 'a) list \<Rightarrow> exn + 'a list" where
  "collect [] = Inr []"
| "collect (Inl e # xs) = Inl e"
| "collect (Inr x # xs) = bind_sum (collect xs) (\<lambda>ys. Inr (x # ys))"

definition list_all_connections :: "(db, exn, connection list) act" where
  "list_all_connections = statement (\<lambda>s.
     (collect (map connection_of_row (sort_key cn_label (connections s))), s))"

definition decrypt_dsn :: "fernet \<Rightarrow> uuid \<Rightarrow> (db, exn, string) act" where
  "decrypt_dsn F cid = statement (\<lambda>s. (case find_connection cid s of
     None \<Rightarrow> Inl (ConnectionNotFound cid) | Some row \<Rightarrow> fernet_decrypt F (cn_dsn_encrypted row), s))"

definition update_dsn :: "fernet \<Rightarrow> uuid \<Rightarrow> string \<Rightarrow> (db, exn, unit) act" where
  "update_dsn F cid dsn = statement (modify (\<lambda>s. s\<lparr>connections :=
     update_where (\<lambda>r. cn_id r = cid) (\<lambda>r. r\<lparr>cn_dsn_encrypted := fernet_encrypt F dsn\<rparr>) (connections s)\<rparr>))"

definition mark_probe_ok :: "uuid \<Rightarrow> (db, exn, unit) act" where
  "mark_probe_ok cid = statement (modify (\<lambda>s. s\<lparr>connections :=
     update_where (\<lambda>r. cn_id r = cid) (\<lambda>r. r\<lparr>cn_last_probe_ok_at := Some (db_now s)\<rparr>) (connections s)\<rparr>))"

definition delete_connection_row :: "uuid \<Rightarrow> (db, exn, unit) act" where
  "delete_connection_row cid = statement (modify (\<lambda>s.
     s\<lparr>connections := filter (\<lambda>r. cn_id r \<noteq> cid) (connections s)\<rparr>))"

definition conn_ids_of :: "db \<Rightarrow> string set" where
  "conn_ids_of s = set (map cn_id (connections s))"

subsection \<open>Probe and registration\<close>

text \<open>
  \<open>re.sub(r"(://[^:]+:)[^@]+(@)", r"\1***\2", msg)\<close> without the backslashes: at each \<open>://\<close>, a user
  part without colon, a colon, a password part without at-sign, an at-sign. Both classes exclude
  the character that follows them, so the greedy runs are the only possible match at a position.
\<close>

definition dsn_match :: "string \<Rightarrow> (string \<times> string) option" where
  "dsn_match s =
     (if \<not> starts_with ''://'' s then None
      else let user = takeWhile (\<lambda>c. c \<noteq> CHR '':'') (drop 3 s);
               rest = dropWhile (\<lambda>c. c \<noteq> CHR '':'') (drop 3 s);
               pw = takeWhile (\<lambda>c. c \<noteq> CHR ''@'') (drop 1 rest);
               tail = dropWhile (\<lambda>c. c \<noteq> CHR ''@'') (drop 1 rest)
           in if user = [] \<or> rest = [] \<or> pw = [] \<or> tail = [] then None
              else Some (''://'' @ user @ '':'' @ ''***'' @ ''@'', drop 1 tail))"

fun redact_fuel :: "nat \<Rightarrow> string \<Rightarrow> string" where
  "redact_fuel 0 s = s"
| "redact_fuel (Suc n) [] = []"
| "redact_fuel (Suc n) (c # s) =
     (case dsn_match (c # s) of
        None \<Rightarrow> c # redact_fuel n s
      | Some (masked, rest) \<Rightarrow> masked @ redact_fuel n rest)"

definition redact :: "string \<Rightarrow> string" where
  "redact msg = redact_fuel (length msg) msg"

text \<open>The driver: None when \<open>SELECT 1\<close> succeeds in time, else the text of the exception.\<close>

type_synonym prober = "string \<Rightarrow> connection_kind \<Rightarrow> string option"

definition probe :: "prober \<Rightarrow> string \<Rightarrow> connection_kind \<Rightarrow> bool \<times> string option" where
  "probe drv dsn kind =
     (case drv dsn kind of None \<Rightarrow> (True, None) | Some e \<Rightarrow> (False, Some (redact e)))"

definition register_connection ::
  "fernet \<Rightarrow> prober \<Rightarrow> uuid \<Rightarrow> string \<Rightarrow> connection_kind \<Rightarrow> string \<Rightarrow> (db, exn, connection) act" where
  "register_connection F drv new_id label kind dsn =
     (case probe drv dsn kind of
        (False, e) \<Rightarrow>
          raise (ConnectionProbeError (case e of None \<Rightarrow> ''unknown error'' | Some m \<Rightarrow>
                   if m = [] then ''unknown error'' else m))
      | (True, _) \<Rightarrow>
          bind (insert_connection F new_id label kind dsn) (\<lambda>c.
          bind (mark_probe_ok (co_id c)) (\<lambda>_.
          get_by_id (co_id c))))"

subsection \<open>The pool\<close>

record engine =
  eg_dsn :: string
  eg_readonly :: bool

type_synonym pool = "(uuid, engine \<times> connection_kind) dict"

definition get_or_create ::
  "fernet \<Rightarrow> uuid \<Rightarrow> (pool \<times> db, exn, engine \<times> connection_kind) act" where
  "get_or_create F cid = (\<lambda>(p, s).
     case dict_get p cid of
       Some ek \<Rightarrow> (Inr ek, (p, s))
     | None \<Rightarrow>
         (case bind (get_by_id cid) (\<lambda>meta. bind (decrypt_dsn F cid) (\<lambda>dsn. ret (meta, dsn))) s of
            (Inl e, s') \<Rightarrow> (Inl e, (p, s'))
          | (Inr (meta, dsn), s') \<Rightarrow>
              (let ek = (\<lparr>eg_dsn = dsn, eg_readonly = (co_kind meta \<noteq> Sqlite)\<rparr>, co_kind meta)
               in (Inr ek, (dict_set cid ek p, s')))))"

text \<open>The statements sent on a fresh connection before the caller's.\<close>

definition enforce_read_only :: "connection_kind \<Rightarrow> int option \<Rightarrow> string list" where
  "enforce_read_only kind timeout_ms =
     (case kind of
        Postgres \<Rightarrow>
          [''SET TRANSACTION READ ONLY'']
          @ (case timeout_ms of None \<Rightarrow> [] | Some t \<Rightarrow>
               if t = 0 then [] else [''SET LOCAL statement_timeout = '' @ int_str t])
      | Mysql \<Rightarrow>
          [''SET SESSION TRANSACTION READ ONLY'']
          @ (case timeout_ms of None \<Rightarrow> [] | Some t \<Rightarrow>
               if t = 0 then [] else [''SET SESSION MAX_EXECUTION_TIME = '' @ int_str t])
      | Sqlite \<Rightarrow> [])"

definition invalidate :: "uuid \<Rightarrow> pool \<Rightarrow> pool" where
  "invalidate cid p = dict_pop cid p"

definition dispose_all :: "pool \<Rightarrow> pool" where
  "dispose_all p = []"

subsection \<open>Facts\<close>

lemma parse_kind_value [simp]: "parse_kind (kind_value k) = Inr k"
  by (cases k) (simp_all add: parse_kind_def)

lemma not_aborted_insert:
  "\<not> tx_aborted s \<Longrightarrow> label \<notin> set (map cn_label (connections s)) \<Longrightarrow>
     insert_connection F cid label kind dsn s =
       (Inr \<lparr>co_id = cid, co_label = label, co_kind = kind, co_last_probe = None\<rparr>,
        s\<lparr>connections := connections s @
            [\<lparr>cn_id = cid, cn_label = label, cn_kind = kind_value kind,
              cn_dsn_encrypted = fernet_encrypt F dsn, cn_created_at = db_now s,
              cn_last_probe_ok_at = None\<rparr>]\<rparr>)"
  by (simp add: insert_connection_def statement_def)

lemma find_fresh: "cid \<notin> conn_ids_of s \<Longrightarrow> find_connection cid s = None"
  by (auto simp: find_connection_def conn_ids_of_def find_None_iff)

lemma update_where_fresh:
  "cid \<notin> conn_ids_of s \<Longrightarrow> update_where (\<lambda>r. cn_id r = cid) f (connections s) = connections s"
  by (rule update_where_none) (auto simp: conn_ids_of_def)

lemma dsn_match_userinfo:
  assumes "CHR '':'' \<notin> set u" "u \<noteq> []" "CHR ''@'' \<notin> set p" "p \<noteq> []"
  shows "dsn_match (''://'' @ u @ '':'' @ p @ ''@'' @ rest) = Some (''://'' @ u @ '':***@'', rest)"
  using assms by (simp add: dsn_match_def Let_def dropWhile_stop takeWhile_stop)

lemma dsn_match_no_colon: "c \<noteq> CHR '':'' \<Longrightarrow> dsn_match (c # s) = None"
  by (simp add: dsn_match_def)

lemma redact_no_colon: "CHR '':'' \<notin> set s \<Longrightarrow> redact_fuel n s = s"
  by (induction n s rule: redact_fuel.induct) (auto simp: dsn_match_no_colon split: option.splits)

lemma redact_skip:
  "CHR '':'' \<notin> set a \<Longrightarrow> redact_fuel (length a + n) (a @ s) = a @ redact_fuel n s"
  by (induction a) (auto simp: dsn_match_no_colon)

lemma redact_userinfo:
  assumes "CHR '':'' \<notin> set a" "CHR '':'' \<notin> set u" "u \<noteq> []" "CHR ''@'' \<notin> set p" "p \<noteq> []"
    "CHR '':'' \<notin> set b"
  shows "redact (a @ ''://'' @ u @ '':'' @ p @ ''@'' @ b) = a @ ''://'' @ u @ '':***@'' @ b"
proof -
  let ?s = "''://'' @ u @ '':'' @ p @ ''@'' @ b"
  obtain m where m: "length ?s = Suc m" by simp
  have "redact (a @ ?s) = a @ redact_fuel (Suc m) ?s"
    using redact_skip [OF assms(1), of "Suc m" ?s] m by (simp add: redact_def)
  also have "redact_fuel (Suc m) ?s = ''://'' @ u @ '':***@'' @ redact_fuel m b"
    using dsn_match_userinfo [OF assms(2-5), of b] by simp
  finally show ?thesis using redact_no_colon [OF assms(6), of m] by simp
qed

subsection \<open>Properties\<close>

text \<open>Registering a connection. When the probe fails nothing is written and the error's text is
  the driver's with the userinfo password masked; when it succeeds with an unused label and a fresh
  identifier, exactly one row is added, it holds the encrypted DSN only, it is stamped as probed,
  and the DSN can be decrypted back.\<close>
theorem register_connection_correct:
  assumes "\<not> tx_aborted s" and "label \<notin> set (map cn_label (connections s))"
    and "cid \<notin> conn_ids_of s" and "fernet_decrypt F (fernet_encrypt F dsn) = Inr dsn"
  shows "case drv dsn kind of
      Some e \<Rightarrow> \<exists>m. register_connection F drv cid label kind dsn s = (Inl (ConnectionProbeError m), s)
                 \<and> (e \<noteq> [] \<and> redact e \<noteq> [] \<longrightarrow> m = redact e)
    | None \<Rightarrow> \<exists>c s'. register_connection F drv cid label kind dsn s = (Inr c, s')
                 \<and> c = \<lparr>co_id = cid, co_label = label, co_kind = kind, co_last_probe = Some (db_now s)\<rparr>
                 \<and> connections s' = connections s @
                     [\<lparr>cn_id = cid, cn_label = label, cn_kind = kind_value kind,
                       cn_dsn_encrypted = fernet_encrypt F dsn, cn_created_at = db_now s,
                       cn_last_probe_ok_at = Some (db_now s)\<rparr>]
                 \<and> s' = s\<lparr>connections := connections s'\<rparr>
                 \<and> decrypt_dsn F cid s' = (Inr dsn, s')"
proof (cases "drv dsn kind")
  case None
  define row where "row = \<lparr>cn_id = cid, cn_label = label, cn_kind = kind_value kind,
    cn_dsn_encrypted = fernet_encrypt F dsn, cn_created_at = db_now s,
    cn_last_probe_ok_at = Some (db_now s)\<rparr>"
  define s' where "s' = s\<lparr>connections := connections s @ [row]\<rparr>"
  have ok: "\<not> tx_aborted s'" using assms(1) by (simp add: s'_def)
  have found: "find_connection cid s' = Some row"
    using find_fresh [OF assms(3)] by (simp add: s'_def find_connection_def find_append row_def)
  have "mark_probe_ok cid (s\<lparr>connections := connections s @
          [\<lparr>cn_id = cid, cn_label = label, cn_kind = kind_value kind,
            cn_dsn_encrypted = fernet_encrypt F dsn, cn_created_at = db_now s,
            cn_last_probe_ok_at = None\<rparr>]\<rparr>) = (Inr (), s')"
    using assms(1) update_where_fresh [OF assms(3)]
    by (simp add: mark_probe_ok_def act_simps s'_def row_def update_where_def)
  then have "register_connection F drv cid label kind dsn s = get_by_id cid s'"
    by (simp add: register_connection_def probe_def None act_simps not_aborted_insert [OF assms(1,2)])
  also have "\<dots> = (Inr \<lparr>co_id = cid, co_label = label, co_kind = kind, co_last_probe = Some (db_now s)\<rparr>, s')"
    using ok found by (simp add: get_by_id_def act_simps connection_of_row_def row_def)
  finally show ?thesis
    using None ok found assms(4) by (simp add: s'_def decrypt_dsn_def act_simps row_def)
next
  case (Some e)
  then show ?thesis by (auto simp: register_connection_def probe_def act_simps)
qed

definition plain_fernet :: fernet where
  "plain_fernet = \<lparr>fernet_encrypt = rev, fernet_decrypt = (\<lambda>b. Inr (rev b))\<rparr>"

theorem register_connection_correct_witness:
  "\<exists>c s'. register_connection plain_fernet (\<lambda>_ _. None) ''c1'' ''main'' Sqlite ''sqlite:///x'' (migrated 5)
      = (Inr c, s') \<and> decrypt_dsn plain_fernet ''c1'' s' = (Inr ''sqlite:///x'', s')"
  using register_connection_correct [of "migrated 5" "''main''" "''c1''" plain_fernet "''sqlite:///x''"
      "\<lambda>_ _. None" Sqlite]
  by (auto simp: migrated_def conn_ids_of_def plain_fernet_def)

text \<open>A connection string in an error text is redacted: the password between the user's colon
  and the first at-sign is replaced by three stars, and nothing else changes.\<close>
theorem redact_hides_password:
  assumes "CHR '':'' \<notin> set a" and "CHR '':'' \<notin> set u" and "u \<noteq> []" and "CHR ''@'' \<notin> set p"
    and "p \<noteq> []" and "CHR '':'' \<notin> set b"
  shows "redact (a @ ''://'' @ u @ '':'' @ p @ ''@'' @ b) = a @ ''://'' @ u @ '':***@'' @ b"
  by (rule redact_userinfo [OF assms])

theorem redact_hides_password_witness:
  "redact ''cannot reach mysql://bob:hunter2@db/x'' = ''cannot reach mysql://bob:***@db/x''"
  using redact_hides_password [of "''cannot reach mysql''" "''bob''" "''hunter2''" "''db/x''"] by simp

end
