(* ===== verification/Audit_Log.thy ===== *)
theory Audit_Log
  imports Connection_Store
begin

text \<open>
  \<open>audit.py\<close>: the summary of a call's arguments that may be kept, and the writer of the audit log.
\<close>

definition SQL_TRUNC :: nat where
  "SQL_TRUNC = 500"

definition REGISTRY_FIELDS :: "string list" where
  "REGISTRY_FIELDS =
     [''shared_property_types'', ''interface_types'', ''object_types'', ''link_types'', ''action_types'']"

subsection \<open>Redaction\<close>

text \<open>\<open>re.sub(rf"({k}=)[^&\s]+", r"\1***", s, flags=re.IGNORECASE)\<close> without the backslashes.\<close>

definition is_value_char :: "char \<Rightarrow> bool" where
  "is_value_char c \<longleftrightarrow> c \<noteq> CHR ''&'' \<and> \<not> is_space c"

definition kv_match :: "string \<Rightarrow> string \<Rightarrow> (string \<times> string) option" where
  "kv_match key s =
     (let n = length key + 1; v = takeWhile is_value_char (drop n s) in
      if starts_with (key @ ''='') (py_lower (take n s)) \<and> v \<noteq> []
      then Some (take n s @ ''***'', drop (length v) (drop n s)) else None)"

fun redact_kv_fuel :: "string \<Rightarrow> nat \<Rightarrow> string \<Rightarrow> string" where
  "redact_kv_fuel key 0 s = s"
| "redact_kv_fuel key (Suc n) [] = []"
| "redact_kv_fuel key (Suc n) (c # s) =
     (case kv_match key (c # s) of
        None \<Rightarrow> c # redact_kv_fuel key n s
      | Some (masked, rest) \<Rightarrow> masked @ redact_kv_fuel key n rest)"

definition redact_kv :: "string \<Rightarrow> string \<Rightarrow> string" where
  "redact_kv key s = redact_kv_fuel key (length s) s"

definition redact_dsn :: "string \<Rightarrow> string" where
  "redact_dsn s = redact (redact_kv ''pwd'' (redact_kv ''password'' s))"

subsection \<open>The summary\<close>

text \<open>\<open>len\<close> of a JSON value: TypeError for numbers, booleans and null.\<close>

fun json_len :: "json \<Rightarrow> exn + nat" where
  "json_len (JObj d) = Inr (length d)"
| "json_len (JList xs) = Inr (length xs)"
| "json_len (JStr s) = Inr (length s)"
| "json_len _ = Inl (TypeError ''object has no len()'')"

fun entity_counts :: "(string, json) dict \<Rightarrow> string list \<Rightarrow> exn + (string, json) dict" where
  "entity_counts v [] = Inr []"
| "entity_counts v (f # fs) =
     bind_sum (case dict_get v f of None \<Rightarrow> Inr 0 | Some x \<Rightarrow> json_len x) (\<lambda>n.
     bind_sum (entity_counts v fs) (\<lambda>rest. Inr ((f, JInt (int n)) # rest)))"

definition summarize_arg :: "string \<Rightarrow> json \<Rightarrow> (string, json) dict \<Rightarrow> exn + (string, json) dict" where
  "summarize_arg k v out =
     (case (k, v) of
        (_, JStr s) \<Rightarrow>
          (if k = ''sql''
           then Inr (if length s > SQL_TRUNC
                     then dict_set ''sql_truncated'' (JBool True) (dict_set ''sql'' (JStr (take SQL_TRUNC s)) out)
                     else dict_set ''sql'' (JStr s) out)
           else if k = ''dsn'' then Inr (dict_set ''dsn'' (JStr (redact_dsn s)) out)
           else if k = ''token'' \<or> k = ''token_plaintext'' then Inr (dict_set k (JStr ''***'') out)
           else Inr (dict_set k v out))
      | (_, JObj d) \<Rightarrow>
          (if k = ''registry''
           then bind_sum (entity_counts d REGISTRY_FIELDS) (\<lambda>c. Inr (dict_set ''entity_counts'' (JObj c) out))
           else if k = ''token'' \<or> k = ''token_plaintext'' then Inr (dict_set k (JStr ''***'') out)
           else Inr (dict_set k v out))
      | _ \<Rightarrow>
          (if k = ''token'' \<or> k = ''token_plaintext'' then Inr (dict_set k (JStr ''***'') out)
           else Inr (dict_set k v out)))"

fun summarize_from :: "(string, json) dict \<Rightarrow> (string, json) dict \<Rightarrow> exn + (string, json) dict" where
  "summarize_from [] out = Inr out"
| "summarize_from ((k, v) # args) out = bind_sum (summarize_arg k v out) (summarize_from args)"

definition summarize_args :: "(string, json) dict \<Rightarrow> exn + (string, json) dict" where
  "summarize_args args = summarize_from args []"

subsection \<open>The writer\<close>

definition record_audit ::
  "string \<Rightarrow> uuid option \<Rightarrow> string option \<Rightarrow> string option \<Rightarrow> (string, json) dict \<Rightarrow> string
     \<Rightarrow> string option \<Rightarrow> (db, exn, unit) act" where
  "record_audit tool token_id token_label scope args outcome error_code =
     bind (lift_sum (summarize_args args)) (\<lambda>summary.
     statement (modify (\<lambda>s. s\<lparr>audit_log := audit_log s @
       [\<lparr>au_token_id = token_id, au_token_label = token_label, au_scope = scope, au_tool = tool,
         au_args_summary = summary, au_outcome = outcome, au_error_code = error_code,
         au_ts = db_now s\<rparr>]\<rparr>)))"

subsection \<open>Facts\<close>

text \<open>What the summary may say of an argument of a name.\<close>

definition safe_entry :: "(string, json) dict \<Rightarrow> string \<Rightarrow> json \<Rightarrow> bool" where
  "safe_entry args k v \<longleftrightarrow>
     (k \<in> {''token'', ''token_plaintext''} \<longrightarrow> v = JStr ''***'')
     \<and> (k = ''sql'' \<longrightarrow> (\<forall>s. v = JStr s \<longrightarrow> length s \<le> SQL_TRUNC))
     \<and> (k = ''dsn'' \<longrightarrow> (\<forall>s. v = JStr s \<longrightarrow> (\<exists>raw. s = redact_dsn raw)))
     \<and> (k = ''registry'' \<longrightarrow> (\<forall>d. v \<noteq> JObj d))"

definition safe :: "(string, json) dict \<Rightarrow> (string, json) dict \<Rightarrow> bool" where
  "safe args out \<longleftrightarrow> (\<forall>k v. dict_get out k = Some v \<longrightarrow> safe_entry args k v)"

lemma safe_set: "safe args out \<Longrightarrow> safe_entry args k v \<Longrightarrow> safe args (dict_set k v out)"
  by (auto simp: safe_def get_set)

lemma summarize_arg_safe:
  assumes "safe args out" "summarize_arg k v out = Inr out'"
  shows "safe args out'"
proof -
  have counts: "safe_entry args ''entity_counts'' x" "safe_entry args ''sql_truncated'' x" for x
    by (simp_all add: safe_entry_def)
  show ?thesis
    using assms
    by (cases v; simp add: summarize_arg_def bind_sum_Inr split: if_splits)
      (auto simp: safe_entry_def SQL_TRUNC_def intro!: safe_set counts)
qed

lemma summarize_from_safe: "safe args out \<Longrightarrow> summarize_from as out = Inr out' \<Longrightarrow> safe args out'"
  by (induction as out rule: summarize_from.induct) (auto simp: bind_sum_Inr dest: summarize_arg_safe)

lemma summarize_keeps_token:
  "summarize_from as out = Inr out' \<Longrightarrow> k \<in> {''token'', ''token_plaintext''} \<Longrightarrow>
     dict_has k as \<or> dict_has k out \<Longrightarrow> dict_has k out'"
proof (induction as out rule: summarize_from.induct)
  case (2 j v as out)
  then obtain m where m: "summarize_arg j v out = Inr m" "summarize_from as m = Inr out'"
    by (auto simp: bind_sum_Inr)
  have "dict_has k m" if "k = j \<or> dict_has k out"
    using that m(1) "2.prems"(2)
    by (cases v; auto simp: summarize_arg_def bind_sum_Inr has_set split: if_splits)
  with 2 m show ?case by auto
qed auto

subsection \<open>Properties\<close>



end
