(* ===== verification/Config.thy ===== *)
theory Config
  imports Main
begin

text \<open>
  \<open>config.py\<close>: the settings the operations read, with the defaults the class gives them. The three
  settings without a default are arguments.
\<close>

record settings =
  database_url :: string
  secret_key :: string
  bind_host :: string
  bind_port :: int
  log_level :: string
  query_default_max_rows :: int
  query_max_rows_cap :: int
  query_default_timeout_ms :: int
  query_timeout_ms_cap :: int
  ui_session_ttl_seconds :: int
  ui_cookie_secure :: bool
  ingestion_data_dir :: string
  ingestion_max_concurrent :: int
  ingestion_max_upload_bytes :: int
  ingestion_max_files_per_job :: int
  ingestion_max_total_bytes_per_job :: int
  ingestion_job_wall_clock_timeout_s :: int
  llm_provider :: string
  llm_base_url :: string
  llm_api_key :: string
  llm_model :: string
  llm_max_steps :: int
  llm_request_timeout_s :: int
  chat_session_orphan_after_s :: int
  chat_turn_max_wall_clock_s :: int
  chat_sse_heartbeat_s :: int
  chat_max_concurrent_sessions_per_token :: int

definition mk_settings :: "string \<Rightarrow> string \<Rightarrow> settings" where
  "mk_settings url key =
     \<lparr>database_url = url, secret_key = key, bind_host = ''0.0.0.0'', bind_port = 8080,
      log_level = ''info'', query_default_max_rows = 1000, query_max_rows_cap = 10000,
      query_default_timeout_ms = 30000, query_timeout_ms_cap = 120000,
      ui_session_ttl_seconds = 43200, ui_cookie_secure = True,
      ingestion_data_dir = ''var/ingestion'', ingestion_max_concurrent = 2,
      ingestion_max_upload_bytes = 25000000, ingestion_max_files_per_job = 20,
      ingestion_max_total_bytes_per_job = 100000000, ingestion_job_wall_clock_timeout_s = 1800,
      llm_provider = ''openai_compat'', llm_base_url = [], llm_api_key = [], llm_model = [],
      llm_max_steps = 50, llm_request_timeout_s = 120, chat_session_orphan_after_s = 1800,
      chat_turn_max_wall_clock_s = 1800, chat_sse_heartbeat_s = 15,
      chat_max_concurrent_sessions_per_token = 5\<rparr>"

end
