(* ===== verification/Py_Parse.thy ===== *)
theory Py_Parse
  imports Prelude
begin

text \<open>
  Parsers of the Python standard library the code calls on user input: \<open>int(s)\<close>,
  \<open>int(s, 16)\<close>, \<open>str.replace\<close>, \<open>str.partition\<close>, \<open>str.split\<close> and \<open>uuid.UUID(s)\<close> with the
  canonical form \<open>str\<close> gives back.
\<close>

fun digit_value :: "nat \<Rightarrow> char \<Rightarrow> nat option" where
  "digit_value b c =
     (let n = code_point c;
          d = (if 48 \<le> n \<and> n \<le> 57 then n - 48 else if 97 \<le> n \<and> n \<le> 122 then n - 87
               else if 65 \<le> n \<and> n \<le> 90 then n - 55 else 99)
      in if d < b then Some d else None)"

fun digits_value :: "nat \<Rightarrow> string \<Rightarrow> nat \<Rightarrow> bool \<Rightarrow> nat option" where
  "digits_value b [] acc after_digit = (if after_digit then Some acc else None)"
| "digits_value b (c # cs) acc after_digit =
     (if c = CHR ''_'' then (if after_digit then digits_value b cs acc False else None)
      else case digit_value b c of
             None \<Rightarrow> None
           | Some d \<Rightarrow> digits_value b cs (b * acc + d) True)"

definition strip_prefix16 :: "string \<Rightarrow> string" where
  "strip_prefix16 s =
     (if starts_with ''0x'' s \<or> starts_with ''0X'' s
      then (case drop 2 s of [] \<Rightarrow> [] | c # cs \<Rightarrow> if c = CHR ''_'' then cs else c # cs)
      else s)"

definition py_int_base :: "nat \<Rightarrow> string \<Rightarrow> int option" where
  "py_int_base b s =
     (case py_strip s of
        [] \<Rightarrow> None
      | c # cs \<Rightarrow>
          (let body = (if c = CHR ''+'' \<or> c = CHR ''-'' then cs else c # cs);
               body = (if b = 16 then strip_prefix16 body else body)
           in map_option (\<lambda>n. if c = CHR ''-'' then - int n else int n) (digits_value b body 0 False)))"

definition py_int :: "string \<Rightarrow> int option" where
  "py_int s = py_int_base 10 s"

fun replace_fuel :: "nat \<Rightarrow> string \<Rightarrow> string \<Rightarrow> string \<Rightarrow> string" where
  "replace_fuel 0 old new s = s"
| "replace_fuel (Suc n) old new [] = []"
| "replace_fuel (Suc n) old new (c # s) =
     (if starts_with old (c # s) then new @ replace_fuel n old new (drop (length old) (c # s))
      else c # replace_fuel n old new s)"

text \<open>Each round consumes a character when \<open>old\<close> is not empty, so the length is fuel enough.\<close>

definition py_replace :: "string \<Rightarrow> string \<Rightarrow> string \<Rightarrow> string" where
  "py_replace old new s = replace_fuel (length s) old new s"

text \<open>\<open>s.partition(c)\<close> for a one-character separator that occurs in \<open>s\<close>.\<close>

definition before_char :: "char \<Rightarrow> string \<Rightarrow> string" where
  "before_char c s = takeWhile (\<lambda>d. d \<noteq> c) s"

definition after_char :: "char \<Rightarrow> string \<Rightarrow> string" where
  "after_char c s = drop 1 (dropWhile (\<lambda>d. d \<noteq> c) s)"

fun split_char :: "char \<Rightarrow> string \<Rightarrow> string list" where
  "split_char c [] = [[]]"
| "split_char c (d # s) =
     (if d = c then [] # split_char c s
      else case split_char c s of [] \<Rightarrow> [[d]] | w # ws \<Rightarrow> (d # w) # ws)"

lemma split_char_no_sep: "w \<in> set (split_char c s) \<Longrightarrow> c \<notin> set w"
  by (induction s arbitrary: w) (auto split: if_splits list.splits)

subsection \<open>UUIDs\<close>

definition strip_braces :: "string \<Rightarrow> string" where
  "strip_braces s =
     (let b = (\<lambda>c. c = CHR ''{'' \<or> c = CHR ''}'') in rev (dropWhile b (rev (dropWhile b s))))"

fun hex_pad :: "nat \<Rightarrow> nat \<Rightarrow> string" where
  "hex_pad 0 n = []"
| "hex_pad (Suc k) n = hex_pad k (n div 16) @ [hex_digit (n mod 16)]"

lemma hex_pad_numeral [simp]:
  "hex_pad (numeral v) n = hex_pad (pred_numeral v) (n div 16) @ [hex_digit (n mod 16)]"
  by (subst numeral_eq_Suc) (rule hex_pad.simps)

definition uuid_str :: "nat \<Rightarrow> string" where
  "uuid_str n =
     (let h = hex_pad 32 n in
      take 8 h @ ''-'' @ take 4 (drop 8 h) @ ''-'' @ take 4 (drop 12 h) @ ''-''
        @ take 4 (drop 16 h) @ ''-'' @ drop 20 h)"

text \<open>\<open>str(uuid.UUID(s))\<close>, or None where the constructor raises ValueError.\<close>

definition py_uuid :: "string \<Rightarrow> string option" where
  "py_uuid s =
     (let hex = filter (\<lambda>c. c \<noteq> CHR ''-'')
                  (strip_braces (py_replace ''uuid:'' [] (py_replace ''urn:'' [] s)))
      in if length hex \<noteq> 32 then None
         else map_option (\<lambda>n. uuid_str (nat n)) (py_int_base 16 hex))"

lemma replace_fuel_absent:
  "\<not> contains_str old s \<Longrightarrow> old \<noteq> [] \<Longrightarrow> replace_fuel n old new s = s"
  by (induction n old new s rule: replace_fuel.induct) auto

lemma replace_fuel_char: "c \<notin> set s \<Longrightarrow> replace_fuel n (c # old) new s = s"
  by (induction n "c # old" new s rule: replace_fuel.induct) (auto elim: starts_with.elims)

lemma py_replace_char: "c \<notin> set s \<Longrightarrow> py_replace (c # old) new s = s"
  by (simp add: py_replace_def replace_fuel_char)

lemma py_uuidI:
  assumes "CHR ''u'' \<notin> set s" "filter (\<lambda>c. c \<noteq> CHR ''-'') (strip_braces s) = hex"
    "length hex = 32" "py_int_base 16 hex = Some n"
  shows "py_uuid s = Some (uuid_str (nat n))"
  using assms by (simp add: py_uuid_def py_replace_char)

lemma uuid_str_sample: "uuid_str (nat 10) = ''00000000-0000-0000-0000-00000000000a''"
  by (simp add: uuid_str_def hex_digit_def)

lemmas hex_parse_simps = strip_braces_def py_int_base_def py_strip_def strip_prefix16_def is_space_def

lemma py_uuid_sample:
  "py_uuid ''00000000-0000-0000-0000-00000000000A'' = Some ''00000000-0000-0000-0000-00000000000a''"
  unfolding uuid_str_sample [symmetric]
  by (rule py_uuidI [where hex = "''0000000000000000000000000000000A''"])
    (simp_all add: hex_parse_simps)

lemma py_uuid_sample_canonical:
  "py_uuid ''00000000-0000-0000-0000-00000000000a'' = Some ''00000000-0000-0000-0000-00000000000a''"
  by (rule py_uuidI [of "''00000000-0000-0000-0000-00000000000a''" "''0000000000000000000000000000000a''"
        10, unfolded uuid_str_sample])
    (simp_all add: hex_parse_simps)

end
