(* ===== verification/Auth.thy ===== *)
theory Auth
  imports Database Config Py_Parse
begin

text \<open>
  \<open>auth.py\<close>, \<open>token_store.py\<close>, \<open>ui_auth.py\<close> and \<open>bootstrap.py\<close>: API tokens, the scope a request
  runs with, browser sessions, and the first admin token. Argon2 is a parameter: \<open>hs_hash\<close> the hash
  it stores for a plaintext, \<open>hs_verify\<close> whether a plaintext matches a stored hash (its mismatch
  and invalid-hash exceptions are False, as the code catches them).
\<close>

subsection \<open>Scopes and principals\<close>

datatype scope = Read | Editor | Admin

fun scope_level :: "scope \<Rightarrow> nat" where
  "scope_level Read = 1"
| "scope_level Editor = 2"
| "scope_level Admin = 3"

fun scope_name :: "scope \<Rightarrow> string" where
  "scope_name Read = ''read''"
| "scope_name Editor = ''editor''"
| "scope_name Admin = ''admin''"

instantiation scope :: linorder
begin

definition less_eq_scope :: "scope \<Rightarrow> scope \<Rightarrow> bool" where
  "less_eq_scope a b \<longleftrightarrow> scope_level a \<le> scope_level b"

definition less_scope :: "scope \<Rightarrow> scope \<Rightarrow> bool" where
  "less_scope a b \<longleftrightarrow> scope_level a < scope_level b"

instance
proof
  fix a b c :: scope
  show "a < b \<longleftrightarrow> a \<le> b \<and> \<not> b \<le> a" by (auto simp: less_eq_scope_def less_scope_def)
  show "a \<le> a" by (simp add: less_eq_scope_def)
  show "a \<le> b \<Longrightarrow> b \<le> c \<Longrightarrow> a \<le> c" by (simp add: less_eq_scope_def)
  show "a \<le> b \<Longrightarrow> b \<le> a \<Longrightarrow> a = b" by (cases a; cases b) (simp_all add: less_eq_scope_def)
  show "a \<le> b \<or> b \<le> a" by (auto simp: less_eq_scope_def)
qed

end

text \<open>\<open>Scope[name]\<close>, which raises KeyError for an unknown name.\<close>

definition scope_of_name :: "string \<Rightarrow> exn + scope" where
  "scope_of_name n =
     (if n = ''read'' then Inr Read else if n = ''editor'' then Inr Editor
      else if n = ''admin'' then Inr Admin else Inl (KeyError n))"

lemma scope_of_scope_name [simp]: "scope_of_name (scope_name sc) = Inr sc"
  by (cases sc) (simp_all add: scope_of_name_def)

record principal =
  pr_token_id :: uuid
  pr_label :: string
  pr_scope :: scope

record hasher =
  hs_hash :: "string \<Rightarrow> string"
  hs_verify :: "string \<Rightarrow> string \<Rightarrow> bool"

definition TOKEN_PREFIX :: string where
  "TOKEN_PREFIX = ''op_''"

definition generate_token :: "string \<Rightarrow> string" where
  "generate_token random = TOKEN_PREFIX @ random"

definition token_prefix :: "string \<Rightarrow> string" where
  "token_prefix plaintext = take 8 plaintext"

definition extract_bearer :: "string \<Rightarrow> string option" where
  "extract_bearer header =
     (if \<not> starts_with ''Bearer '' header then None
      else let t = py_strip (drop 7 header) in if t = [] then None else Some t)"

subsection \<open>The token store\<close>

definition insert_token ::
  "hasher \<Rightarrow> uuid \<Rightarrow> string \<Rightarrow> scope \<Rightarrow> string \<Rightarrow> uuid option \<Rightarrow> (db, exn, uuid) act" where
  "insert_token H new_id plaintext scope label created_by = statement (\<lambda>s.
     if hs_hash H plaintext \<in> set (map tk_hash (api_tokens s))
     then (Inl IntegrityError, s\<lparr>tx_aborted := True\<rparr>)
     else (Inr new_id, s\<lparr>api_tokens := api_tokens s @
             [\<lparr>tk_id = new_id, tk_hash = hs_hash H plaintext, tk_prefix = token_prefix plaintext,
               tk_scope = scope_name scope, tk_label = label, tk_created_at = db_now s,
               tk_created_by = created_by, tk_revoked_at = None\<rparr>]\<rparr>))"

text \<open>The live tokens whose prefix is the plaintext's, in the table's order.\<close>

definition candidates :: "string \<Rightarrow> db \<Rightarrow> token_row list" where
  "candidates plaintext s =
     filter (\<lambda>r. tk_prefix r = token_prefix plaintext \<and> tk_revoked_at r = None) (api_tokens s)"

definition principal_of :: "token_row \<Rightarrow> exn + principal" where
  "principal_of r =
     bind_sum (scope_of_name (tk_scope r)) (\<lambda>sc.
       Inr \<lparr>pr_token_id = tk_id r, pr_label = tk_label r, pr_scope = sc\<rparr>)"

definition lookup_token :: "hasher \<Rightarrow> string \<Rightarrow> (db, exn, principal option) act" where
  "lookup_token H plaintext = statement (\<lambda>s.
     (case List.find (\<lambda>r. hs_verify H plaintext (tk_hash r)) (candidates plaintext s) of
        None \<Rightarrow> Inr None
      | Some r \<Rightarrow> bind_sum (principal_of r) (\<lambda>p. Inr (Some p)), s))"

definition revoke_token :: "uuid \<Rightarrow> (db, exn, bool) act" where
  "revoke_token tid = statement (\<lambda>s.
     (let hit = (\<lambda>r. tk_id r = tid \<and> tk_revoked_at r = None) in
      (Inr (list_ex hit (api_tokens s)),
       s\<lparr>api_tokens := update_where hit (\<lambda>r. r\<lparr>tk_revoked_at := Some (db_now s)\<rparr>) (api_tokens s)\<rparr>)))"

record token_item =
  ti_token_id :: uuid
  ti_scope :: scope
  ti_label :: string
  ti_created_at :: timestamp
  ti_revoked_at :: "timestamp option"

fun token_items :: "token_row list \<Rightarrow> exn + token_item list" where
  "token_items [] = Inr []"
| "token_items (r # rs) =
     bind_sum (scope_of_name (tk_scope r)) (\<lambda>sc.
     bind_sum (token_items rs) (\<lambda>items.
       Inr (\<lparr>ti_token_id = tk_id r, ti_scope = sc, ti_label = tk_label r,
             ti_created_at = tk_created_at r, ti_revoked_at = tk_revoked_at r\<rparr> # items)))"

definition list_tokens :: "(db, exn, token_item list) act" where
  "list_tokens = statement (\<lambda>s. (token_items (sort_key (\<lambda>r. - tk_created_at r) (api_tokens s)), s))"

subsection \<open>Authorisation of a request\<close>

definition unauthorized :: "string \<Rightarrow> exn" where
  "unauthorized msg = HTTPException 401 msg"

definition check_scope :: "scope \<Rightarrow> principal \<Rightarrow> (db, exn, principal) act" where
  "check_scope min_scope p =
     (if pr_scope p < min_scope
      then raise (HTTPException 403 (''Requires scope >= '' @ scope_name min_scope))
      else ret p)"

definition require_scope :: "hasher \<Rightarrow> scope \<Rightarrow> string \<Rightarrow> (db, exn, principal) act" where
  "require_scope H min_scope header =
     (case extract_bearer header of
        None \<Rightarrow> raise (unauthorized ''Missing or malformed Authorization header'')
      | Some token \<Rightarrow>
          bind (lookup_token H token) (\<lambda>res. case res of
            None \<Rightarrow> raise (unauthorized ''Invalid or revoked token'')
          | Some p \<Rightarrow> check_scope min_scope p))"

subsection \<open>Browser sessions\<close>

definition resolve_session :: "timestamp \<Rightarrow> uuid \<Rightarrow> (db, exn, principal option) act" where
  "resolve_session clock sid = statement (\<lambda>s.
     (case List.find (\<lambda>u. us_id u = sid) (ui_sessions s) of
        None \<Rightarrow> Inr None
      | Some u \<Rightarrow>
          (case List.find (\<lambda>t. tk_id t = us_token_id u) (api_tokens s) of
             None \<Rightarrow> Inr None
           | Some t \<Rightarrow>
               (if us_revoked_at u \<noteq> None \<or> tk_revoked_at t \<noteq> None then Inr None
                else if us_expires_at u < clock then Inr None
                else bind_sum (scope_of_name (us_scope u)) (\<lambda>sc.
                       Inr (Some \<lparr>pr_token_id = us_token_id u, pr_label = tk_label t, pr_scope = sc\<rparr>)))), s))"

text \<open>Login answers with the principal, and the cookie's value and lifetime in seconds.\<close>

definition login ::
  "settings \<Rightarrow> hasher \<Rightarrow> timestamp \<Rightarrow> uuid \<Rightarrow> string \<Rightarrow> (db, exn, principal \<times> uuid \<times> int) act" where
  "login cfg H clock sid token =
     bind (lookup_token H token) (\<lambda>res. case res of
       None \<Rightarrow> raise (unauthorized ''Invalid or revoked token'')
     | Some p \<Rightarrow>
         bind (statement (modify (\<lambda>s. s\<lparr>ui_sessions := ui_sessions s @
             [\<lparr>us_id = sid, us_token_id = pr_token_id p, us_scope = scope_name (pr_scope p),
               us_created_at = db_now s,
               us_expires_at = clock + 1000000 * ui_session_ttl_seconds cfg, us_revoked_at = None\<rparr>]\<rparr>)))
           (\<lambda>_. ret (p, sid, ui_session_ttl_seconds cfg)))"

text \<open>The cookie is revoked when it is a UUID; the response clears it in any case.\<close>

definition logout :: "string option \<Rightarrow> (db, exn, unit) act" where
  "logout cookie =
     (case (case cookie of None \<Rightarrow> None | Some raw \<Rightarrow> if raw = [] then None else py_uuid raw) of
        None \<Rightarrow> ret ()
      | Some sid \<Rightarrow> statement (modify (\<lambda>s. s\<lparr>ui_sessions :=
            update_where (\<lambda>u. us_id u = sid) (\<lambda>u. u\<lparr>us_revoked_at := Some (db_now s)\<rparr>) (ui_sessions s)\<rparr>)))"

definition require_scope_via_cookie_or_bearer ::
  "hasher \<Rightarrow> timestamp \<Rightarrow> scope \<Rightarrow> string \<Rightarrow> string option
     \<Rightarrow> (db, exn, principal) act" where
  "require_scope_via_cookie_or_bearer H clock min_scope header cookie =
     (case extract_bearer header of
        Some token \<Rightarrow>
          bind (lookup_token H token) (\<lambda>res. case res of
            None \<Rightarrow> raise (unauthorized ''UNAUTHORIZED'')
          | Some p \<Rightarrow> check_scope min_scope p)
      | None \<Rightarrow>
          (case cookie of
             None \<Rightarrow> raise (unauthorized ''UNAUTHORIZED'')
           | Some raw \<Rightarrow>
               (if raw = [] then raise (unauthorized ''UNAUTHORIZED'')
                else case py_uuid raw of
                  None \<Rightarrow> raise (unauthorized ''UNAUTHORIZED'')
                | Some sid \<Rightarrow>
                    bind (resolve_session clock sid) (\<lambda>res. case res of
                      None \<Rightarrow> raise (unauthorized ''UNAUTHORIZED'')
                    | Some p \<Rightarrow> check_scope min_scope p))))"

subsection \<open>The first token\<close>

definition bootstrap_admin_token_if_needed ::
  "hasher \<Rightarrow> uuid \<Rightarrow> string \<Rightarrow> (db, exn, string option) act" where
  "bootstrap_admin_token_if_needed H new_id random =
     bind (reads (\<lambda>s. length (api_tokens s))) (\<lambda>n.
       if n > 0 then ret None
       else let plaintext = generate_token random in
            bind (insert_token H new_id plaintext Admin ''bootstrap'' None) (\<lambda>_.
            ret (Some plaintext)))"

subsection \<open>Facts\<close>

lemma less_scope_iff: "\<not> a < b \<longleftrightarrow> b \<le> (a::scope)"
  by (rule not_less)

lemma check_scope_Inr: "check_scope m p s = (Inr q, s') \<longleftrightarrow> q = p \<and> s' = s \<and> m \<le> pr_scope p"
  by (auto simp: check_scope_def act_simps)

text \<open>The token row a principal comes from.\<close>

definition token_grants :: "token_row \<Rightarrow> principal \<Rightarrow> bool" where
  "token_grants r p \<longleftrightarrow> tk_revoked_at r = None \<and> tk_id r = pr_token_id p \<and> tk_label r = pr_label p
     \<and> scope_of_name (tk_scope r) = Inr (pr_scope p)"

lemma principal_of_Inr: "principal_of r = Inr p \<longleftrightarrow>
    scope_of_name (tk_scope r) = Inr (pr_scope p) \<and> tk_id r = pr_token_id p \<and> tk_label r = pr_label p"
  by (cases p) (auto simp: principal_of_def bind_sum_Inr)

lemma lookup_token_Some:
  assumes "lookup_token H token s = (Inr (Some p), s')"
  shows "\<exists>r \<in> set (api_tokens s). token_grants r p \<and> hs_verify H token (tk_hash r)
     \<and> tk_prefix r = token_prefix token"
proof -
  let ?found = "List.find (\<lambda>r. hs_verify H token (tk_hash r)) (candidates token s)"
  from assms have "\<not> tx_aborted s" by (auto simp: lookup_token_def statement_def)
  with assms obtain r where r: "?found = Some r" "bind_sum (principal_of r) (\<lambda>p. Inr (Some p)) = Inr (Some p)"
    by (cases ?found) (simp_all add: lookup_token_def statement_def)
  from r(2) have "token_grants r p \<longleftrightarrow> tk_revoked_at r = None"
    by (simp add: bind_sum_Inr principal_of_Inr token_grants_def)
  with find_mem [OF r(1)] show ?thesis
    by (auto simp: candidates_def)
qed

lemma lookup_token_frame: "lookup_token H token s = (res, s') \<Longrightarrow> s' = s"
  by (auto simp: lookup_token_def statement_def split: if_splits option.splits)

text \<open>A bearer token that passes: the shared part of the two dependencies.\<close>

lemma bearer_Inr:
  assumes "bind (lookup_token H token) (\<lambda>res. case res of None \<Rightarrow> raise e | Some p \<Rightarrow> check_scope m p) s
      = (Inr p, s')"
  shows "s' = s \<and> m \<le> pr_scope p \<and>
     (\<exists>r \<in> set (api_tokens s). token_grants r p \<and> hs_verify H token (tk_hash r))"
proof -
  from assms obtain res u where l: "lookup_token H token s = (Inr res, u)"
    and k: "(case res of None \<Rightarrow> raise e | Some p \<Rightarrow> check_scope m p) u = (Inr p, s')"
    by (rule bind_InrE)
  from k obtain q where q: "res = Some q" by (cases res) (auto simp: raise_apply)
  with k have "p = q" "s' = u" "m \<le> pr_scope p" by (auto simp: check_scope_Inr)
  with l q lookup_token_Some lookup_token_frame show ?thesis by blast
qed

lemma require_scope_Inr:
  assumes "require_scope H m header s = (Inr p, s')"
  shows "s' = s \<and> m \<le> pr_scope p \<and> (\<exists>token. extract_bearer header = Some token
     \<and> (\<exists>r \<in> set (api_tokens s). token_grants r p \<and> hs_verify H token (tk_hash r)))"
proof (cases "extract_bearer header")
  case (Some token)
  with assms have "bind (lookup_token H token) (\<lambda>res. case res of
      None \<Rightarrow> raise (unauthorized ''Invalid or revoked token'') | Some p \<Rightarrow> check_scope m p) s = (Inr p, s')"
    by (simp add: require_scope_def)
  from bearer_Inr [OF this] Some show ?thesis by blast
qed (use assms in \<open>simp add: require_scope_def raise_apply\<close>)

lemma bind_frame:
  assumes "bind m f s = (res, s')" "\<And>r u. m s = (r, u) \<Longrightarrow> u = s" "\<And>x r u. f x s = (r, u) \<Longrightarrow> u = s"
  shows "s' = s"
  using assms by (auto simp: bind_def split: prod.splits sum.splits)

lemma check_scope_frame: "check_scope m p s = (res, s') \<Longrightarrow> s' = s"
  by (auto simp: check_scope_def act_simps split: if_splits)

lemma require_scope_frame:
  assumes "require_scope H m header s = (res, s')"
  shows "s' = s"
proof (cases "extract_bearer header")
  case (Some token)
  show ?thesis
    by (rule bind_frame [OF assms [unfolded require_scope_def Some option.case]])
      (auto simp: raise_apply split: option.splits dest: lookup_token_frame check_scope_frame)
qed (use assms in \<open>simp add: require_scope_def raise_apply\<close>)

definition session_grants :: "timestamp \<Rightarrow> db \<Rightarrow> ui_session_row \<Rightarrow> principal \<Rightarrow> bool" where
  "session_grants clock s u p \<longleftrightarrow> u \<in> set (ui_sessions s) \<and> us_revoked_at u = None
     \<and> clock \<le> us_expires_at u \<and> us_token_id u = pr_token_id p
     \<and> scope_of_name (us_scope u) = Inr (pr_scope p)
     \<and> (\<exists>t \<in> set (api_tokens s). tk_id t = pr_token_id p \<and> tk_revoked_at t = None
          \<and> List.find (\<lambda>t. tk_id t = pr_token_id p) (api_tokens s) = Some t)"

lemma resolve_session_Some:
  assumes "resolve_session clock sid s = (Inr (Some p), s')"
  shows "\<exists>u. us_id u = sid \<and> session_grants clock s u p"
proof -
  have live: "\<not> tx_aborted s" using assms by (auto simp: resolve_session_def statement_def)
  with assms obtain u where u: "List.find (\<lambda>u. us_id u = sid) (ui_sessions s) = Some u"
    by (cases "List.find (\<lambda>u. us_id u = sid) (ui_sessions s)") (auto simp: resolve_session_def statement_def)
  with assms live obtain t where t: "List.find (\<lambda>t. tk_id t = us_token_id u) (api_tokens s) = Some t"
    by (cases "List.find (\<lambda>t. tk_id t = us_token_id u) (api_tokens s)")
      (auto simp: resolve_session_def statement_def)
  from assms live u t have rest: "us_revoked_at u = None" "tk_revoked_at t = None"
      "clock \<le> us_expires_at u" "scope_of_name (us_scope u) = Inr (pr_scope p)"
      "us_token_id u = pr_token_id p"
    by (auto simp: resolve_session_def statement_def bind_sum_Inr split: if_splits)
  with find_mem [OF u] find_mem [OF t] t show ?thesis
    unfolding session_grants_def by auto
qed

lemma resolve_session_frame: "resolve_session clock sid s = (res, s') \<Longrightarrow> s' = s"
  by (auto simp: resolve_session_def statement_def split: if_splits option.splits)

text \<open>Every way a request can be authorised.\<close>

definition authorised :: "hasher \<Rightarrow> timestamp \<Rightarrow> scope \<Rightarrow> string \<Rightarrow> string option \<Rightarrow> db \<Rightarrow> principal \<Rightarrow> bool" where
  "authorised H clock m header cookie s p \<longleftrightarrow>
     (\<exists>s'. require_scope H m header s = (Inr p, s'))
     \<or> (\<exists>s'. require_scope_via_cookie_or_bearer H clock m header cookie s = (Inr p, s'))"

lemma via_cookie_Inr:
  assumes "require_scope_via_cookie_or_bearer H clock m header cookie s = (Inr p, s')"
  shows "s' = s \<and> m \<le> pr_scope p \<and>
     ((\<exists>token r. extract_bearer header = Some token \<and> r \<in> set (api_tokens s) \<and> token_grants r p
         \<and> hs_verify H token (tk_hash r))
      \<or> (\<exists>raw sid u. cookie = Some raw \<and> py_uuid raw = Some sid \<and> us_id u = sid
         \<and> session_grants clock s u p))"
proof (cases "extract_bearer header")
  case (Some token)
  with assms have "bind (lookup_token H token) (\<lambda>res. case res of
      None \<Rightarrow> raise (unauthorized ''UNAUTHORIZED'') | Some p \<Rightarrow> check_scope m p) s = (Inr p, s')"
    by (simp add: require_scope_via_cookie_or_bearer_def)
  from bearer_Inr [OF this] Some show ?thesis by blast
next
  case None
  with assms obtain raw sid where c: "cookie = Some raw" "py_uuid raw = Some sid"
    and b: "bind (resolve_session clock sid) (\<lambda>res. case res of
      None \<Rightarrow> raise (unauthorized ''UNAUTHORIZED'') | Some p \<Rightarrow> check_scope m p) s = (Inr p, s')"
    by (auto simp: require_scope_via_cookie_or_bearer_def raise_apply split: option.splits if_splits)
  from b obtain res u where l: "resolve_session clock sid s = (Inr res, u)"
    and k: "(case res of None \<Rightarrow> raise (unauthorized ''UNAUTHORIZED'') | Some p \<Rightarrow> check_scope m p) u
      = (Inr p, s')" by (rule bind_InrE)
  from k obtain q where q: "res = Some q" by (cases res) (auto simp: raise_apply)
  with k have "p = q" "s' = u" "m \<le> pr_scope p" by (auto simp: check_scope_Inr)
  from resolve_session_frame [OF l] \<open>s' = u\<close> have "s' = s" by simp
  moreover from l q \<open>p = q\<close> obtain w where "us_id w = sid" "session_grants clock s w p"
    using resolve_session_Some by blast
  ultimately show ?thesis using c \<open>m \<le> pr_scope p\<close> by blast
qed

lemma token_grants_live: "r \<in> set (api_tokens s) \<Longrightarrow> token_grants r p \<Longrightarrow>
    \<exists>t \<in> set (api_tokens s). tk_id t = pr_token_id p \<and> tk_revoked_at t = None"
  unfolding token_grants_def by blast

lemma session_grants_live: "session_grants clock s u p \<Longrightarrow>
    \<exists>t \<in> set (api_tokens s). tk_id t = pr_token_id p \<and> tk_revoked_at t = None"
  unfolding session_grants_def by blast

lemma authorised_live:
  assumes "authorised H clock m header cookie s p"
  shows "m \<le> pr_scope p" "\<exists>t \<in> set (api_tokens s). tk_id t = pr_token_id p \<and> tk_revoked_at t = None"
proof -
  consider (bearer) s' where "require_scope H m header s = (Inr p, s')"
    | (cookie) s' where "require_scope_via_cookie_or_bearer H clock m header cookie s = (Inr p, s')"
    using assms unfolding authorised_def by blast
  then have "m \<le> pr_scope p \<and>
      (\<exists>t \<in> set (api_tokens s). tk_id t = pr_token_id p \<and> tk_revoked_at t = None)"
  proof cases
    case bearer
    from require_scope_Inr [OF this] obtain r where "r \<in> set (api_tokens s)" "token_grants r p"
      "m \<le> pr_scope p" by blast
    with token_grants_live show ?thesis by blast
  next
    case cookie
    from via_cookie_Inr [OF this] have m: "m \<le> pr_scope p"
      and "(\<exists>r \<in> set (api_tokens s). token_grants r p) \<or> (\<exists>u. session_grants clock s u p)" by blast+
    then show ?thesis
    proof (elim disjE bexE exE)
      fix r assume "r \<in> set (api_tokens s)" "token_grants r p"
      with m token_grants_live show ?thesis by blast
    next
      fix u assume "session_grants clock s u p"
      from session_grants_live [OF this] m show ?thesis by blast
    qed
  qed
  then show "m \<le> pr_scope p" "\<exists>t \<in> set (api_tokens s). tk_id t = pr_token_id p \<and> tk_revoked_at t = None"
    by simp_all
qed

lemma revoke_token_eq:
  assumes "revoke_token tid s = (Inr b, s')"
  shows "b = list_ex (\<lambda>r. tk_id r = tid \<and> tk_revoked_at r = None) (api_tokens s)"
    and "s' = s\<lparr>api_tokens := update_where (\<lambda>r. tk_id r = tid \<and> tk_revoked_at r = None)
            (\<lambda>r. r\<lparr>tk_revoked_at := Some (db_now s)\<rparr>) (api_tokens s)\<rparr>"
  using assms by (simp_all add: revoke_token_def statement_def Let_def split: if_splits)

lemma revoke_token_run:
  assumes "revoke_token tid s = (Inr b, s')"
  shows "\<forall>t \<in> set (api_tokens s'). tk_id t = tid \<longrightarrow> tk_revoked_at t \<noteq> None"
    and "b \<longleftrightarrow> (\<exists>t \<in> set (api_tokens s). tk_id t = tid \<and> tk_revoked_at t = None)"
    and "s' = s\<lparr>api_tokens := api_tokens s'\<rparr>"
    and "filter (\<lambda>t. tk_id t \<noteq> tid) (api_tokens s') = filter (\<lambda>t. tk_id t \<noteq> tid) (api_tokens s)"
proof -
  let ?hit = "\<lambda>r. tk_id r = tid \<and> tk_revoked_at r = None"
  let ?rows = "update_where ?hit (\<lambda>r. r\<lparr>tk_revoked_at := Some (db_now s)\<rparr>) (api_tokens s)"
  have rows: "api_tokens s' = ?rows" unfolding revoke_token_eq(2) [OF assms] by simp
  show "\<forall>t \<in> set (api_tokens s'). tk_id t = tid \<longrightarrow> tk_revoked_at t \<noteq> None"
  proof (intro ballI impI)
    fix t assume "t \<in> set (api_tokens s')" "tk_id t = tid"
    with set_update_where [of t ?hit "\<lambda>r. r\<lparr>tk_revoked_at := Some (db_now s)\<rparr>" "api_tokens s"]
    show "tk_revoked_at t \<noteq> None" unfolding rows by (metis option.distinct(1) token_row.select_convs(8) token_row.surjective token_row.update_convs(8))
  qed
  show "b \<longleftrightarrow> (\<exists>t \<in> set (api_tokens s). tk_id t = tid \<and> tk_revoked_at t = None)"
    unfolding revoke_token_eq(1) [OF assms] list_ex_iff by blast
  show "s' = s\<lparr>api_tokens := api_tokens s'\<rparr>"
    unfolding rows by (rule revoke_token_eq(2) [OF assms])
  show "filter (\<lambda>t. tk_id t \<noteq> tid) (api_tokens s') = filter (\<lambda>t. tk_id t \<noteq> tid) (api_tokens s)"
    unfolding rows by (rule filter_update_where) simp
qed

lemma insert_token_run:
  assumes "\<not> tx_aborted s" "hs_hash H plaintext \<notin> set (map tk_hash (api_tokens s))"
  shows "insert_token H tid plaintext scope label cb s =
    (Inr tid, s\<lparr>api_tokens := api_tokens s @
       [\<lparr>tk_id = tid, tk_hash = hs_hash H plaintext, tk_prefix = token_prefix plaintext,
         tk_scope = scope_name scope, tk_label = label, tk_created_at = db_now s,
         tk_created_by = cb, tk_revoked_at = None\<rparr>]\<rparr>)"
  using assms by (simp add: insert_token_def statement_def)

text \<open>No token of the table is live for this plaintext.\<close>

definition unknown_token :: "hasher \<Rightarrow> string \<Rightarrow> db \<Rightarrow> bool" where
  "unknown_token H plaintext s \<longleftrightarrow> (\<forall>r \<in> set (candidates plaintext s). \<not> hs_verify H plaintext (tk_hash r))"

lemma lookup_after_insert:
  assumes "\<not> tx_aborted s" "unknown_token H plaintext s" "hs_verify H plaintext (hs_hash H plaintext)"
    "hs_hash H plaintext \<notin> set (map tk_hash (api_tokens s))"
    "insert_token H tid plaintext scope label cb s = (Inr r, s')"
  shows "lookup_token H plaintext s' =
    (Inr (Some \<lparr>pr_token_id = tid, pr_label = label, pr_scope = scope\<rparr>), s')"
proof -
  have none: "List.find (\<lambda>r. hs_verify H plaintext (tk_hash r)) (candidates plaintext s) = None"
    using assms(2) by (auto simp: unknown_token_def find_None_iff)
  show ?thesis
    using assms none
    by (auto simp: insert_token_run lookup_token_def statement_def candidates_def find_append
        principal_of_def)
qed

subsection \<open>Properties\<close>

text \<open>Authorisation is sound. A request that is let through, by bearer token or by session
  cookie, belongs to a token of the table that is not revoked, and it runs with at least the scope
  the route demands; by bearer, that scope and label are the token's own and the token's hash
  matches. The check changes nothing in the database.\<close>
theorem authorisation_sound:
  assumes "authorised H clock min_scope header cookie s p"
  shows "min_scope \<le> pr_scope p
     \<and> (\<exists>t \<in> set (api_tokens s). tk_id t = pr_token_id p \<and> tk_revoked_at t = None)
     \<and> (\<forall>s'. require_scope H min_scope header s = (Inr p, s') \<longrightarrow> s' = s
          \<and> (\<exists>token. extract_bearer header = Some token
               \<and> (\<exists>t \<in> set (api_tokens s). token_grants t p \<and> hs_verify H token (tk_hash t))))"
  using authorised_live [OF assms] require_scope_Inr [of H min_scope header s p] by blast

definition plain_hasher :: hasher where
  "plain_hasher = \<lparr>hs_hash = rev, hs_verify = (\<lambda>p h. h = rev p)\<rparr>"

definition auth_db :: db where
  "auth_db = snd (insert_token plain_hasher ''t1'' ''op_secret_1'' Editor ''ed'' None (migrated 7))"

lemma auth_db_tokens: "api_tokens auth_db =
    [\<lparr>tk_id = ''t1'', tk_hash = rev ''op_secret_1'', tk_prefix = ''op_secre'', tk_scope = ''editor'',
      tk_label = ''ed'', tk_created_at = 7, tk_created_by = None, tk_revoked_at = None\<rparr>]"
    "\<not> tx_aborted auth_db"
  by (simp_all add: auth_db_def insert_token_def statement_def migrated_def plain_hasher_def token_prefix_def)

lemma auth_db_passes:
  "require_scope plain_hasher Read ''Bearer op_secret_1'' auth_db =
     (Inr \<lparr>pr_token_id = ''t1'', pr_label = ''ed'', pr_scope = Editor\<rparr>, auth_db)"
  by (simp add: require_scope_def extract_bearer_def py_strip_def is_space_def act_simps
      lookup_token_def candidates_def auth_db_tokens statement_def token_prefix_def plain_hasher_def
      principal_of_def scope_of_name_def check_scope_def less_scope_def)

theorem authorisation_sound_witness:
  "\<exists>t \<in> set (api_tokens auth_db). tk_id t = ''t1'' \<and> tk_revoked_at t = None"
proof -
  have "authorised plain_hasher 0 Read ''Bearer op_secret_1'' None auth_db
      \<lparr>pr_token_id = ''t1'', pr_label = ''ed'', pr_scope = Editor\<rparr>"
    using auth_db_passes by (auto simp: authorised_def)
  from authorisation_sound [OF this] show ?thesis by simp
qed

text \<open>C25: revocation takes effect at once and for every route. After a revoke, no request is
  authorised as that token any more, neither by bearer nor by a session opened earlier; the call
  answers True exactly when the token was live, and touches no other token and no other table.\<close>
theorem revocation_is_final:
  assumes "revoke_token tid s = (Inr b, s')"
  shows "\<not> (\<exists>p. authorised H clock m header cookie s' p \<and> pr_token_id p = tid)
     \<and> (b \<longleftrightarrow> (\<exists>t \<in> set (api_tokens s). tk_id t = tid \<and> tk_revoked_at t = None))
     \<and> filter (\<lambda>t. tk_id t \<noteq> tid) (api_tokens s') = filter (\<lambda>t. tk_id t \<noteq> tid) (api_tokens s)
     \<and> s' = s\<lparr>api_tokens := api_tokens s'\<rparr>"
  using revoke_token_run [OF assms] authorised_live by blast

theorem revocation_is_final_witness:
  "\<exists>s'. revoke_token ''t1'' auth_db = (Inr True, s')
     \<and> \<not> (\<exists>p. authorised plain_hasher 0 Read ''Bearer op_secret_1'' None s' p \<and> pr_token_id p = ''t1'')"
proof -
  obtain s' where run: "revoke_token ''t1'' auth_db = (Inr True, s')"
    by (simp add: revoke_token_def statement_def auth_db_tokens Let_def)
  from revocation_is_final [OF this] run show ?thesis by blast
qed

text \<open>A minted token works, with the scope it was minted with, until it is revoked, when Argon2
  accepts its own hash and no live token of the table already answers to the same plaintext.\<close>
theorem minted_token_authenticates:
  assumes "\<not> tx_aborted s" and "unknown_token H plaintext s"
    and "hs_verify H plaintext (hs_hash H plaintext)"
    and "hs_hash H plaintext \<notin> set (map tk_hash (api_tokens s))"
    and "py_strip plaintext = plaintext" and "plaintext \<noteq> []" and "m \<le> scope"
  shows "\<exists>s'. insert_token H tid plaintext scope label creator s = (Inr tid, s')
     \<and> require_scope H m (''Bearer '' @ plaintext) s' =
         (Inr \<lparr>pr_token_id = tid, pr_label = label, pr_scope = scope\<rparr>, s')"
proof -
  obtain s' where ins: "insert_token H tid plaintext scope label creator s = (Inr tid, s')"
    using insert_token_run [OF assms(1,4)] by blast
  from lookup_after_insert [OF assms(1-4) this] assms(5-7) have
    "require_scope H m (''Bearer '' @ plaintext) s' =
       (Inr \<lparr>pr_token_id = tid, pr_label = label, pr_scope = scope\<rparr>, s')"
    by (simp add: require_scope_def extract_bearer_def act_simps check_scope_def not_less [symmetric])
  with ins show ?thesis by blast
qed

theorem minted_token_authenticates_witness:
  "\<exists>s'. insert_token plain_hasher ''t2'' ''op_another'' Admin ''boss'' None auth_db = (Inr ''t2'', s')
     \<and> require_scope plain_hasher Editor ''Bearer op_another'' s' =
         (Inr \<lparr>pr_token_id = ''t2'', pr_label = ''boss'', pr_scope = Admin\<rparr>, s')"
  using minted_token_authenticates [of auth_db plain_hasher "''op_another''" Editor Admin "''t2''" "''boss''" None]
  by (simp add: auth_db_tokens unknown_token_def candidates_def token_prefix_def plain_hasher_def
      py_strip_def is_space_def less_eq_scope_def)

text \<open>Bootstrap mints one admin token on an empty token table, that token is accepted for admin
  routes, and a second start mints nothing.\<close>
theorem bootstrap_once:
  assumes "api_tokens s = []" and "\<not> tx_aborted s"
    and "hs_verify H (generate_token random) (hs_hash H (generate_token random))"
  shows "\<exists>s'. bootstrap_admin_token_if_needed H tid random s = (Inr (Some (generate_token random)), s')
     \<and> lookup_token H (generate_token random) s' =
         (Inr (Some \<lparr>pr_token_id = tid, pr_label = ''bootstrap'', pr_scope = Admin\<rparr>), s')
     \<and> bootstrap_admin_token_if_needed H tid' random' s' = (Inr None, s')"
proof -
  have fresh: "hs_hash H (generate_token random) \<notin> set (map tk_hash (api_tokens s))"
      "unknown_token H (generate_token random) s"
    using assms(1) by (simp_all add: unknown_token_def candidates_def)
  obtain s' where ins: "insert_token H tid (generate_token random) Admin ''bootstrap'' None s = (Inr tid, s')"
    and tokens: "api_tokens s' \<noteq> []"
    using insert_token_run [OF assms(2) fresh(1)] by auto
  have "bootstrap_admin_token_if_needed H tid random s = (Inr (Some (generate_token random)), s')"
    using ins assms(1) by (simp add: bootstrap_admin_token_if_needed_def act_simps Let_def)
  moreover have "bootstrap_admin_token_if_needed H tid' random' s' = (Inr None, s')"
    using tokens by (simp add: bootstrap_admin_token_if_needed_def act_simps)
  ultimately show ?thesis
    using lookup_after_insert [OF assms(2) fresh(2) assms(3) fresh(1) ins] by blast
qed

theorem bootstrap_once_witness:
  "\<exists>s'. bootstrap_admin_token_if_needed plain_hasher ''t0'' ''abc'' (migrated 0) = (Inr (Some ''op_abc''), s')
     \<and> bootstrap_admin_token_if_needed plain_hasher ''t9'' ''xyz'' s' = (Inr None, s')"
  using bootstrap_once [of "migrated 0" plain_hasher "''abc''" "''t0''" "''t9''" "''xyz''"]
  by (auto simp: migrated_def plain_hasher_def generate_token_def TOKEN_PREFIX_def)

end
