(* ===== verification/Mcp_Server.thy ===== *)
theory Mcp_Server
  imports Audit_Log Auth
begin

text \<open>
  \<open>mcp_server.py\<close>: the JSON-RPC endpoint over the tool table. A request authenticates, is answered
  from the table filtered by scope, and a call runs its handler in the request's transaction, is
  written to the audit log and committed, on the error path as well. The table is a parameter here:
  the handlers of the repository are in \<open>Mcp_Tools\<close>. \<open>repr\<close> of a float is a parameter.
\<close>

type_synonym args = "(string, json) dict"
type_synonym handler = "principal \<Rightarrow> args \<Rightarrow> (db, exn, json) act"

record tool_spec =
  ts_name :: string
  ts_scope :: scope
  ts_description :: string
  ts_schema :: json
  ts_handler :: handler

type_synonym tools = "(string, tool_spec) dict"

text \<open>The decorator \<open>mcp_tool\<close>: it enters the function in the table under its name.\<close>

definition mcp_tool :: "string \<Rightarrow> scope \<Rightarrow> string \<Rightarrow> json \<Rightarrow> handler \<Rightarrow> tools \<Rightarrow> tools" where
  "mcp_tool name scope description schema fn ts =
     dict_set name \<lparr>ts_name = name, ts_scope = scope, ts_description = description,
                    ts_schema = schema, ts_handler = fn\<rparr> ts"

subsection \<open>Errors\<close>

definition finding_json :: "finding \<Rightarrow> json" where
  "finding_json f =
     JObj [(''severity'', JStr (case fd_severity f of ERROR \<Rightarrow> ''ERROR'' | WARNING \<Rightarrow> ''WARNING'')),
           (''code'', JStr (fd_code f)), (''path'', JStr (fd_path f)),
           (''message'', JStr (fd_message f)), (''details'', JObj (fd_details f))]"

definition referrer_json :: "referrer \<Rightarrow> json" where
  "referrer_json r =
     JObj [(''rid'', JStr (rf_rid r)), (''kind'', JStr (rf_kind r)), (''field'', JStr (rf_field r)),
           (''path'', JStr (rf_path r))]"

definition opt_str :: "string option \<Rightarrow> json" where
  "opt_str s = (case s of None \<Rightarrow> JNull | Some t \<Rightarrow> JStr t)"

text \<open>HTTP status, error code and details of an exception.\<close>

fun exc_to_error :: "exn \<Rightarrow> nat \<times> string \<times> json option" where
  "exc_to_error (ValidationFailedError fs) =
     (422, ''VALIDATION_FAILED'', Some (JObj [(''findings'', JList (map finding_json fs))]))"
| "exc_to_error (StaleVersionError e expected current) =
     (409, ''STALE_VERSION'',
      Some (JObj [(''current_version'', JInt current), (''expected_version'', JInt expected)]))"
| "exc_to_error (ReferencedError rid rs) =
     (409, ''REFERENCED'', Some (JObj [(''referrers'', JList (map referrer_json rs))]))"
| "exc_to_error UndoUnavailableError = (409, ''UNDO_UNAVAILABLE'', None)"
| "exc_to_error (SqlRejectedError reason detail) =
     (400, ''SQL_REJECTED'', Some (JObj [(''reason'', JStr reason), (''detail'', opt_str detail)]))"
| "exc_to_error (ConnectionProbeError e) =
     (502, ''CONNECTION_PROBE_FAILED'', Some (JObj [(''driver_error'', JStr e)]))"
| "exc_to_error (ConnectionNotFound _) = (404, ''NOT_FOUND'', None)"
| "exc_to_error (BoundAssetNotFoundError _) = (404, ''NOT_FOUND'', None)"
| "exc_to_error (AssetUnboundError _) = (404, ''NOT_FOUND'', None)"
| "exc_to_error (KeyError _) = (404, ''NOT_FOUND'', None)"
| "exc_to_error (ConnectionAlreadyExists _) = (409, ''ALREADY_EXISTS'', None)"
| "exc_to_error _ = (500, ''INTERNAL'', None)"

definition err_code :: "exn \<Rightarrow> string" where
  "err_code e = fst (snd (exc_to_error e))"

definition err_details :: "exn \<Rightarrow> json option" where
  "err_details e = snd (snd (exc_to_error e))"

text \<open>\<open>except Exception\<close> lets a cancellation through.\<close>

definition is_exception :: "exn \<Rightarrow> bool" where
  "is_exception e = (e \<noteq> CancelledError)"

subsection \<open>Requests\<close>

text \<open>Python's truth of a JSON value, and \<open>x or y\<close>.\<close>

fun truthy :: "json \<Rightarrow> bool" where
  "truthy JNull = False"
| "truthy (JBool b) = b"
| "truthy (JInt i) = (i \<noteq> 0)"
| "truthy (JFloat q) = (q \<noteq> 0)"
| "truthy (JStr s) = (s \<noteq> [])"
| "truthy (JList xs) = (xs \<noteq> [])"
| "truthy (JObj d) = (d \<noteq> [])"

definition get_or :: "string \<Rightarrow> json \<Rightarrow> (string, json) dict \<Rightarrow> json" where
  "get_or k dflt d =
     (case dict_get d k of None \<Rightarrow> dflt | Some v \<Rightarrow> if truthy v then v else dflt)"

fun json_repr :: "(rat \<Rightarrow> string) \<Rightarrow> json \<Rightarrow> string" where
  "json_repr rf JNull = ''None''"
| "json_repr rf (JBool b) = (if b then ''True'' else ''False'')"
| "json_repr rf (JInt i) = int_str i"
| "json_repr rf (JFloat q) = rf q"
| "json_repr rf (JStr s) = py_repr s"
| "json_repr rf (JList xs) = ''['' @ join_str '', '' (map (json_repr rf) xs) @ '']''"
| "json_repr rf (JObj d) =
     ''{'' @ join_str '', '' (map (\<lambda>p. py_repr (fst p) @ '': '' @ json_repr rf (snd p)) d) @ ''}''"

datatype response =
    Tools "json list"
  | Result json
  | Rpc_error int string "json option"
  | Http_error int string
  | Server_error exn

definition tool_json :: "tool_spec \<Rightarrow> json" where
  "tool_json t =
     JObj [(''name'', JStr (ts_name t)), (''description'', JStr (ts_description t)),
           (''inputSchema'', ts_schema t)]"

definition list_tools :: "tools \<Rightarrow> principal \<Rightarrow> json list" where
  "list_tools ts p = map tool_json (filter (\<lambda>t. ts_scope t \<le> pr_scope p) (dict_vals ts))"

text \<open>The handler called with the request's keyword arguments, and a value \<open>.items()\<close> works on.\<close>

definition call_handler :: "tool_spec \<Rightarrow> principal \<Rightarrow> json \<Rightarrow> (db, exn, json) act" where
  "call_handler spec p a =
     (case a of
        JObj d \<Rightarrow>
          (if dict_has ''principal'' d \<or> dict_has ''session'' d
           then raise (TypeError ''got multiple values for keyword argument'')
           else ts_handler spec p d)
      | _ \<Rightarrow> raise (TypeError ''argument after ** must be a mapping''))"

definition audit_call ::
  "tool_spec \<Rightarrow> principal \<Rightarrow> json \<Rightarrow> string \<Rightarrow> string option \<Rightarrow> (db, exn, unit) act" where
  "audit_call spec p a outcome code =
     (case a of
        JObj d \<Rightarrow> record_audit (ts_name spec) (Some (pr_token_id p)) (Some (pr_label p))
                    (Some (scope_name (pr_scope p))) d outcome code
      | _ \<Rightarrow> raise (OtherException ''AttributeError'' ''object has no attribute items''))"

text \<open>
  What the endpoint leaves: its answer and the committed database. An exception that escapes closes
  the session without a commit, so the database is the one before the request.
\<close>

definition finish :: "db \<Rightarrow> (exn + response) \<times> db \<Rightarrow> response \<times> db" where
  "finish s0 r = (case r of (Inl e, s) \<Rightarrow> (Server_error e, s0) | (Inr resp, s) \<Rightarrow> (resp, s))"

definition call_tool :: "tool_spec \<Rightarrow> principal \<Rightarrow> json \<Rightarrow> (db, exn, response) act" where
  "call_tool spec p a = (\<lambda>s.
     if pr_scope p < ts_scope spec
     then bind (audit_call spec p a ''forbidden'' (Some ''FORBIDDEN'')) (\<lambda>_.
          ret (Rpc_error (-32000) ''FORBIDDEN''
                (Some (JObj [(''required_scope'', JStr (scope_name (ts_scope spec)))])))) s
     else case call_handler spec p a s of
            (Inl e, s1) \<Rightarrow>
              (if \<not> is_exception e then (Inl e, s1)
               else bind (audit_call spec p a ''error'' (Some (err_code e))) (\<lambda>_.
                    ret (Rpc_error (-32000) (err_code e) (err_details e))) s1)
          | (Inr res, s1) \<Rightarrow>
              bind (audit_call spec p a ''ok'' None) (\<lambda>_. ret (Result res)) s1)"

definition mcp_call :: "(rat \<Rightarrow> string) \<Rightarrow> tools \<Rightarrow> principal \<Rightarrow> (string, json) dict \<Rightarrow> (db, exn, response) act" where
  "mcp_call rf ts p params =
     (let name = (case dict_get params ''name'' of None \<Rightarrow> JNull | Some n \<Rightarrow> n);
          a = get_or ''arguments'' (JObj []) params in
      case (if truthy name then name else JStr []) of
        JList _ \<Rightarrow> raise (TypeError ''unhashable type'')
      | JObj _ \<Rightarrow> raise (TypeError ''unhashable type'')
      | JStr n \<Rightarrow>
          (case dict_get ts n of
             None \<Rightarrow> ret (Rpc_error (-32601) (''Unknown tool '' @ json_repr rf name) None)
           | Some spec \<Rightarrow> call_tool spec p a)
      | _ \<Rightarrow> ret (Rpc_error (-32601) (''Unknown tool '' @ json_repr rf name) None))"

definition mcp_endpoint ::
  "(rat \<Rightarrow> string) \<Rightarrow> hasher \<Rightarrow> tools \<Rightarrow> string \<Rightarrow> (string, json) dict \<Rightarrow> db \<Rightarrow> response \<times> db" where
  "mcp_endpoint rf H ts header body s0 =
     (case require_scope H Read header s0 of
        (Inl (HTTPException st msg), _) \<Rightarrow> (Http_error st msg, s0)
      | (Inl e, _) \<Rightarrow> (Server_error e, s0)
      | (Inr p, s) \<Rightarrow>
          (let meth = dict_get body ''method''; params = get_or ''params'' (JObj []) body in
           if meth = Some (JStr ''tools/list'') then (Tools (list_tools ts p), s0)
           else if meth = Some (JStr ''tools/call'')
           then (case params of
                   JObj d \<Rightarrow> finish s0 (mcp_call rf ts p d s)
                 | _ \<Rightarrow> (Server_error (OtherException ''AttributeError'' ''object has no attribute get''), s0))
           else (Rpc_error (-32601)
                   (''Unknown method '' @ json_repr rf (case meth of None \<Rightarrow> JNull | Some m \<Rightarrow> m)) None, s0)))"

subsection \<open>Facts\<close>

lemma record_audit_cases:
  "record_audit tool tid lbl sc args outcome code s = (res, s') \<Longrightarrow>
     (res = Inr () \<and> (\<exists>row. audit_log s' = audit_log s @ [row] \<and> s' = s\<lparr>audit_log := audit_log s'\<rparr>
        \<and> au_tool row = tool \<and> au_outcome row = outcome \<and> au_error_code row = code
        \<and> au_token_id row = tid))
     \<or> ((\<exists>e. res = Inl e) \<and> s' = s)"
  by (auto simp: record_audit_def act_simps statement_def split: sum.splits if_splits)

lemma audit_call_cases:
  assumes "audit_call spec p a outcome code s = (res, s')"
  obtains (logged) row where "res = Inr ()" "audit_log s' = audit_log s @ [row]"
      "s' = s\<lparr>audit_log := audit_log s'\<rparr>" "au_tool row = ts_name spec" "au_outcome row = outcome"
      "au_error_code row = code" "au_token_id row = Some (pr_token_id p)"
  | (failed) e where "res = Inl e" "s' = s"
proof (cases "\<exists>d. a = JObj d")
  case True
  then obtain d where "record_audit (ts_name spec) (Some (pr_token_id p)) (Some (pr_label p))
      (Some (scope_name (pr_scope p))) d outcome code s = (res, s')"
    using assms by (auto simp: audit_call_def)
  from record_audit_cases [OF this] logged failed show thesis by blast
next
  case False
  with assms failed show thesis by (cases a) (auto simp: audit_call_def raise_apply)
qed

text \<open>A handler that leaves the audit log to the endpoint.\<close>

definition no_audit :: "tools \<Rightarrow> bool" where
  "no_audit ts \<longleftrightarrow> (\<forall>spec \<in> set (dict_vals ts). \<forall>p d s res s'.
     ts_handler spec p d s = (res, s') \<longrightarrow> audit_log s' = audit_log s)"

lemma call_handler_audit:
  "no_audit ts \<Longrightarrow> spec \<in> set (dict_vals ts) \<Longrightarrow> call_handler spec p a s = (res, s') \<Longrightarrow>
     audit_log s' = audit_log s"
  unfolding no_audit_def by (cases a) (auto simp: call_handler_def raise_apply split: if_splits)

text \<open>How a call ends.\<close>

lemma call_tool_cases:
  assumes "call_tool spec p a s = (Inr resp, s')"
  obtains (forbidden) row where "pr_scope p < ts_scope spec"
      "resp = Rpc_error (-32000) ''FORBIDDEN''
         (Some (JObj [(''required_scope'', JStr (scope_name (ts_scope spec)))]))"
      "audit_log s' = audit_log s @ [row]" "s' = s\<lparr>audit_log := audit_log s'\<rparr>"
      "au_outcome row = ''forbidden''" "au_tool row = ts_name spec"
      "au_token_id row = Some (pr_token_id p)"
  | (error) e s1 row where "ts_scope spec \<le> pr_scope p" "call_handler spec p a s = (Inl e, s1)"
      "resp = Rpc_error (-32000) (err_code e) (err_details e)"
      "audit_log s' = audit_log s1 @ [row]" "s' = s1\<lparr>audit_log := audit_log s'\<rparr>"
      "au_outcome row = ''error''" "au_error_code row = Some (err_code e)" "au_tool row = ts_name spec"
      "au_token_id row = Some (pr_token_id p)"
  | (ok) res s1 row where "ts_scope spec \<le> pr_scope p" "call_handler spec p a s = (Inr res, s1)"
      "resp = Result res"
      "audit_log s' = audit_log s1 @ [row]" "s' = s1\<lparr>audit_log := audit_log s'\<rparr>"
      "au_outcome row = ''ok''" "au_tool row = ts_name spec"
      "au_token_id row = Some (pr_token_id p)"
proof -
  have step: "\<exists>u. audit_call spec p a oc code t = (Inr u, s') \<and> resp = r"
    if "bind (audit_call spec p a oc code) (\<lambda>_. ret r) t = (Inr resp, s')" for oc code r t
    using that by (auto simp: act_simps split: sum.splits prod.splits)
  show thesis
  proof (cases "pr_scope p < ts_scope spec")
    case True
    with assms have "bind (audit_call spec p a ''forbidden'' (Some ''FORBIDDEN'')) (\<lambda>_.
        ret (Rpc_error (-32000) ''FORBIDDEN''
          (Some (JObj [(''required_scope'', JStr (scope_name (ts_scope spec)))])))) s = (Inr resp, s')"
      by (simp add: call_tool_def)
    with step obtain u where "audit_call spec p a ''forbidden'' (Some ''FORBIDDEN'') s = (Inr u, s')"
      and "resp = Rpc_error (-32000) ''FORBIDDEN''
         (Some (JObj [(''required_scope'', JStr (scope_name (ts_scope spec)))]))"
      by blast
    with True that(1) show thesis by (auto elim!: audit_call_cases)
  next
    case False
    then have le: "ts_scope spec \<le> pr_scope p" by simp
    obtain r s1 where h: "call_handler spec p a s = (r, s1)" by (cases "call_handler spec p a s")
    show thesis
    proof (cases r)
      case (Inl e)
      with assms False h have "is_exception e" and
        "bind (audit_call spec p a ''error'' (Some (err_code e))) (\<lambda>_.
           ret (Rpc_error (-32000) (err_code e) (err_details e))) s1 = (Inr resp, s')"
        by (auto simp: call_tool_def split: if_splits)
      with step obtain u where "audit_call spec p a ''error'' (Some (err_code e)) s1 = (Inr u, s')"
        "resp = Rpc_error (-32000) (err_code e) (err_details e)" by blast
      with le h Inl that(2) show thesis by (auto elim!: audit_call_cases)
    next
      case (Inr res)
      with assms False h have "bind (audit_call spec p a ''ok'' None) (\<lambda>_. ret (Result res)) s1 = (Inr resp, s')"
        by (simp add: call_tool_def)
      with step obtain u where "audit_call spec p a ''ok'' None s1 = (Inr u, s')" "resp = Result res" by blast
      with le h Inr that(3) show thesis by (auto elim!: audit_call_cases)
    qed
  qed
qed

text \<open>A call the endpoint accepts: who calls, which tool, with which arguments.\<close>

definition accepted_call ::
  "hasher \<Rightarrow> tools \<Rightarrow> string \<Rightarrow> (string, json) dict \<Rightarrow> db \<Rightarrow> principal \<Rightarrow> tool_spec \<Rightarrow> json \<Rightarrow> bool" where
  "accepted_call H ts header body s p spec a \<longleftrightarrow>
     require_scope H Read header s = (Inr p, s)
     \<and> dict_get body ''method'' = Some (JStr ''tools/call'')
     \<and> (\<exists>params n. get_or ''params'' (JObj []) body = JObj params
          \<and> dict_get params ''name'' = Some (JStr n) \<and> n \<noteq> []
          \<and> a = get_or ''arguments'' (JObj []) params \<and> dict_get ts n = Some spec)"

lemma endpoint_accepted:
  "accepted_call H ts header body s p spec a \<Longrightarrow>
     mcp_endpoint rf H ts header body s = finish s (call_tool spec p a s)"
  by (auto simp: accepted_call_def mcp_endpoint_def mcp_call_def Let_def)

lemma mcp_call_Result:
  assumes "mcp_call rf ts p params s = (Inr (Result res), s')" "dict_get ts [] = None"
  shows "\<exists>n spec. dict_get params ''name'' = Some (JStr n) \<and> n \<noteq> [] \<and> dict_get ts n = Some spec
     \<and> call_tool spec p (get_or ''arguments'' (JObj []) params) s = (Inr (Result res), s')"
  using assms
  by (auto simp: mcp_call_def Let_def act_simps split: option.splits json.splits if_splits)

lemma endpoint_Result:
  assumes "mcp_endpoint rf H ts header body s = (Result res, s')" "dict_get ts [] = None"
  shows "\<exists>p spec a. accepted_call H ts header body s p spec a
     \<and> call_tool spec p a s = (Inr (Result res), s')"
proof -
  obtain r u where auth: "require_scope H Read header s = (r, u)" by fastforce
  with assms(1) obtain p where r: "r = Inr p"
    by (cases r) (auto simp: mcp_endpoint_def split: exn.splits)
  have u: "u = s" using require_scope_frame [OF auth] .
  from assms(1) auth r u obtain params where m: "dict_get body ''method'' = Some (JStr ''tools/call'')"
    and ps: "get_or ''params'' (JObj []) body = JObj params"
    and f: "finish s (mcp_call rf ts p params s) = (Result res, s')"
    by (auto simp: mcp_endpoint_def Let_def split: if_splits json.splits)
  from f have "mcp_call rf ts p params s = (Inr (Result res), s')"
    by (auto simp: finish_def split: prod.splits sum.splits)
  from mcp_call_Result [OF this assms(2)] auth r u m ps show ?thesis
    unfolding accepted_call_def by blast
qed

lemma finish_Inr: "finish s0 r = (resp, s') \<Longrightarrow> (\<forall>e. resp \<noteq> Server_error e) \<Longrightarrow> r = (Inr resp, s')"
  by (auto simp: finish_def split: prod.splits sum.splits)

subsection \<open>Properties\<close>

text \<open>No tool runs above the caller's scope. When the endpoint answers a result, the caller is a
  principal of a live token, the tool is in the table and its required scope is at most the
  caller's; the result is what the handler returned, and the committed database is the one the
  handler left plus one audit row saying ok.\<close>
theorem results_need_scope:
  assumes "mcp_endpoint rf H ts header body s = (Result res, s')" and "dict_get ts [] = None"
  shows "\<exists>p spec d s1 row. require_scope H Read header s = (Inr p, s) \<and> spec \<in> set (dict_vals ts)
     \<and> ts_scope spec \<le> pr_scope p \<and> ts_handler spec p d s = (Inr res, s1)
     \<and> s' = s1\<lparr>audit_log := audit_log s1 @ [row]\<rparr> \<and> au_outcome row = ''ok'' \<and> au_tool row = ts_name spec"
proof -
  from endpoint_Result [OF assms] obtain p spec a where acc: "accepted_call H ts header body s p spec a"
    and call: "call_tool spec p a s = (Inr (Result res), s')" by blast
  have mem: "spec \<in> set (dict_vals ts)"
    using acc unfolding accepted_call_def by (force dest: map_of_SomeD)
  from call show ?thesis
  proof (cases rule: call_tool_cases)
    case (ok r s1 row)
    from ok(2,3) obtain d where "ts_handler spec p d s = (Inr res, s1)"
      by (cases a) (auto simp: call_handler_def raise_apply split: if_splits)
    moreover have "s' = s1\<lparr>audit_log := audit_log s1 @ [row]\<rparr>"
      using ok(4,5) by simp
    ultimately show ?thesis
      using ok mem acc unfolding accepted_call_def by blast
  qed auto
qed

definition whoami :: handler where
  "whoami p a = ret (JObj [(''token_label'', JStr (pr_label p)),
     (''scope'', JStr (scope_name (pr_scope p))), (''server_version'', JStr ''0.1.0'')])"

definition no_args_schema :: json where
  "no_args_schema = JObj [(''type'', JStr ''object''), (''properties'', JObj []),
     (''additionalProperties'', JBool False)]"

definition base_tools :: tools where
  "base_tools = mcp_tool ''whoami'' Read ''Identify the calling principal'' no_args_schema whoami []"

definition whoami_call :: "(string, json) dict" where
  "whoami_call = [(''method'', JStr ''tools/call''), (''params'', JObj [(''name'', JStr ''whoami'')])]"

lemma base_tools_get: "dict_get base_tools ''whoami'' = Some \<lparr>ts_name = ''whoami'', ts_scope = Read,
    ts_description = ''Identify the calling principal'', ts_schema = no_args_schema, ts_handler = whoami\<rparr>"
  by (simp add: base_tools_def mcp_tool_def get_set)

lemma whoami_answers: "\<exists>res s'. mcp_endpoint rf plain_hasher base_tools ''Bearer op_secret_1'' whoami_call auth_db
    = (Result res, s')"
proof -
  let ?p = "\<lparr>pr_token_id = ''t1'', pr_label = ''ed'', pr_scope = Editor\<rparr>"
  let ?spec = "the (dict_get base_tools ''whoami'')"
  have "accepted_call plain_hasher base_tools ''Bearer op_secret_1'' whoami_call auth_db ?p ?spec (JObj [])"
    unfolding accepted_call_def
    by (simp add: auth_db_passes base_tools_get whoami_call_def get_or_def)
  then show ?thesis
    by (simp add: endpoint_accepted base_tools_get call_tool_def call_handler_def whoami_def
        audit_call_def record_audit_def summarize_args_def statement_def auth_db_tokens act_simps finish_def
        less_scope_def)
qed

theorem results_need_scope_witness:
  "\<exists>p spec. require_scope plain_hasher Read ''Bearer op_secret_1'' auth_db = (Inr p, auth_db)
     \<and> spec \<in> set (dict_vals base_tools) \<and> ts_scope spec \<le> pr_scope p"
proof -
  obtain res s' where "mcp_endpoint (\<lambda>_. []) plain_hasher base_tools ''Bearer op_secret_1'' whoami_call auth_db
      = (Result res, s')" using whoami_answers by blast
  from results_need_scope [OF this] show ?thesis
    by (simp add: base_tools_def mcp_tool_def get_set) blast
qed

text \<open>Every call of a known tool that is answered is audited once, whatever its outcome: exactly
  one row is appended, it names the tool and the token, and its outcome says which of the three ways
  it went. A forbidden call changes nothing else; a failed one commits what its handler had written
  before it raised.\<close>
theorem calls_are_audited_once:
  assumes "accepted_call H ts header body s p spec a" and "no_audit ts"
    and "mcp_endpoint rf H ts header body s = (resp, s')" and "\<And>e. resp \<noteq> Server_error e"
  shows "\<exists>row. audit_log s' = audit_log s @ [row] \<and> au_tool row = ts_name spec
     \<and> au_token_id row = Some (pr_token_id p)
     \<and> (au_outcome row = ''forbidden'' \<and> pr_scope p < ts_scope spec \<and> s' = s\<lparr>audit_log := audit_log s'\<rparr>
        \<or> au_outcome row = ''ok'' \<and> (\<exists>res s1. call_handler spec p a s = (Inr res, s1)
              \<and> resp = Result res \<and> s' = s1\<lparr>audit_log := audit_log s'\<rparr>)
        \<or> au_outcome row = ''error'' \<and> (\<exists>e s1. call_handler spec p a s = (Inl e, s1)
              \<and> resp = Rpc_error (-32000) (err_code e) (err_details e)
              \<and> au_error_code row = Some (err_code e) \<and> s' = s1\<lparr>audit_log := audit_log s'\<rparr>))"
proof -
  have "spec \<in> set (dict_vals ts)"
    using assms(1) unfolding accepted_call_def by (force dest: map_of_SomeD)
  note frame = call_handler_audit [OF assms(2) this]
  from assms(3,4) endpoint_accepted [OF assms(1), of rf] have
    "call_tool spec p a s = (Inr resp, s')" by (auto intro: finish_Inr)
  then show ?thesis
  proof (cases rule: call_tool_cases)
    case (forbidden row)
    then show ?thesis by (intro exI [where x = row]) simp
  next
    case (error e s1 row)
    with frame [OF error(2)] show ?thesis by (intro exI [where x = row]) auto
  next
    case (ok res s1 row)
    with frame [OF ok(2)] show ?thesis by (intro exI [where x = row]) auto
  qed
qed

lemma base_tools_no_audit: "no_audit base_tools"
  by (simp add: no_audit_def base_tools_def mcp_tool_def dict_set_def whoami_def ret_apply)

theorem calls_are_audited_once_witness:
  "\<exists>(s' :: db) (row :: audit_row). audit_log s' = audit_log auth_db @ [row] \<and> au_tool row = ''whoami''
     \<and> au_token_id row = Some ''t1''"
proof -
  let ?p = "\<lparr>pr_token_id = ''t1'', pr_label = ''ed'', pr_scope = Editor\<rparr>"
  let ?spec = "the (dict_get base_tools ''whoami'')"
  have acc: "accepted_call plain_hasher base_tools ''Bearer op_secret_1'' whoami_call auth_db ?p ?spec (JObj [])"
    unfolding accepted_call_def
    by (simp add: auth_db_passes base_tools_get whoami_call_def get_or_def)
  obtain res s' where run: "mcp_endpoint (\<lambda>_. []) plain_hasher base_tools ''Bearer op_secret_1'' whoami_call
      auth_db = (Result res, s')" using whoami_answers by blast
  obtain row where "audit_log s' = audit_log auth_db @ [row]" "au_tool row = ts_name ?spec"
      "au_token_id row = Some (pr_token_id ?p)"
    using calls_are_audited_once [OF acc base_tools_no_audit run] by blast
  then show ?thesis by (intro exI [where x = s'] exI [where x = row]) (simp add: base_tools_get)
qed

text \<open>What tools/list shows is what the caller may call: the listed names are exactly those of
  the tools whose required scope is at most the caller's, and a call of any other tool of the table
  is refused with FORBIDDEN and the scope it would need.\<close>
theorem listing_matches_permission:
  assumes "require_scope H Read header s = (Inr p, s)"
  shows "mcp_endpoint rf H ts header [(''method'', JStr ''tools/list'')] s =
       (Tools (map tool_json (filter (\<lambda>t. ts_scope t \<le> pr_scope p) (dict_vals ts))), s)
     \<and> (\<forall>spec \<in> set (dict_vals ts). \<forall>d resp s'. \<not> ts_scope spec \<le> pr_scope p \<longrightarrow>
          call_tool spec p (JObj d) s = (Inr resp, s') \<longrightarrow>
            resp = Rpc_error (-32000) ''FORBIDDEN''
              (Some (JObj [(''required_scope'', JStr (scope_name (ts_scope spec)))])))"
proof -
  have "mcp_endpoint rf H ts header [(''method'', JStr ''tools/list'')] s = (Tools (list_tools ts p), s)"
    using assms by (simp add: mcp_endpoint_def)
  moreover have "resp = Rpc_error (-32000) ''FORBIDDEN''
      (Some (JObj [(''required_scope'', JStr (scope_name (ts_scope spec)))]))"
    if "\<not> ts_scope spec \<le> pr_scope p" "call_tool spec p (JObj d) s = (Inr resp, s')" for spec d resp s'
    using that(2) by (cases rule: call_tool_cases) (use that(1) in auto)
  ultimately show ?thesis
    unfolding list_tools_def by blast
qed

theorem listing_matches_permission_witness:
  "mcp_endpoint (\<lambda>_. []) plain_hasher base_tools ''Bearer op_secret_1'' [(''method'', JStr ''tools/list'')] auth_db =
     (Tools [tool_json (the (dict_get base_tools ''whoami''))], auth_db)"
  using listing_matches_permission [OF auth_db_passes, of "\<lambda>_. []" base_tools]
  by (simp add: base_tools_def mcp_tool_def dict_set_def less_eq_scope_def)

end
