(* ===== verification/Sql_Gate.thy ===== *)
theory Sql_Gate
  imports Registry_Types Py_Parse
begin

text \<open>
  \<open>connections/sql_gate.py\<close>: the check that a statement only reads. The SQL parser (sqlglot) is not
  part of the repository: its syntax trees are values of a type \<open>'n\<close> and the record \<open>sqlglot\<close> holds
  the operations the code calls on them.
\<close>

datatype sql_class =
    Select | Union | With | Subquery
  | Insert | Update | Delete | Merge_into | Command | Create | Drop | Alter
  | Column | Alias

record 'n sqlglot =
  sg_parse :: "string \<Rightarrow> string \<Rightarrow> string + 'n option list"
  sg_parse_one :: "string \<Rightarrow> string \<Rightarrow> string + 'n"
  sg_is :: "'n \<Rightarrow> sql_class \<Rightarrow> bool"
  sg_type_name :: "'n \<Rightarrow> string"
  sg_this :: "'n \<Rightarrow> 'n option"
  sg_this_text :: "'n \<Rightarrow> string"
  sg_expressions :: "'n \<Rightarrow> 'n list"
  sg_left :: "'n \<Rightarrow> 'n"
  sg_walk :: "'n \<Rightarrow> 'n list"
  sg_columns :: "'n \<Rightarrow> 'n list"
  sg_name :: "'n \<Rightarrow> string"
  sg_alias_or_name :: "'n \<Rightarrow> string"
  sg_str :: "'n \<Rightarrow> string"
  sg_limit :: "'n \<Rightarrow> 'n option"
  sg_limit_value :: "'n \<Rightarrow> 'n option"
  sg_set_limit :: "'n \<Rightarrow> int \<Rightarrow> 'n"
  sg_set_this :: "'n \<Rightarrow> 'n \<Rightarrow> 'n"
  sg_wrap_star :: "'n \<Rightarrow> int \<Rightarrow> 'n"
  sg_sql :: "'n \<Rightarrow> string \<Rightarrow> string"

definition FORBIDDEN :: "sql_class list" where
  "FORBIDDEN = [Insert, Update, Delete, Merge_into, Command, Create, Drop, Alter]"

definition FORBIDDEN_COMMAND_NAMES :: "string list" where
  "FORBIDDEN_COMMAND_NAMES =
     [''TRUNCATE'', ''GRANT'', ''REVOKE'', ''COPY'', ''LOAD'', ''LOCK'',
      ''RENAME'', ''CALL'', ''SET'', ''ALTER'', ''CREATE'', ''DROP'']"

text \<open>Upper-casing: the capitals of code points 181 and 255 are outside Latin-1 and kept as they are.\<close>

definition upper_char :: "char \<Rightarrow> string" where
  "upper_char c =
     (let n = code_point c in
      if (97 \<le> n \<and> n \<le> 122) \<or> (224 \<le> n \<and> n \<le> 254 \<and> n \<noteq> 247) then [char_of (n - 32)]
      else if n = 223 then ''SS'' else [c])"

definition py_upper :: "string \<Rightarrow> string" where
  "py_upper s = concat (map upper_char s)"

record gate_result =
  gr_ok :: bool
  gr_reason :: "string option"
  gr_detail :: "string option"

definition refuse :: "string \<Rightarrow> string \<Rightarrow> gate_result" where
  "refuse reason detail = \<lparr>gr_ok = False, gr_reason = Some reason, gr_detail = Some detail\<rparr>"

definition pass :: gate_result where
  "pass = \<lparr>gr_ok = True, gr_reason = None, gr_detail = None\<rparr>"

definition is_any :: "'n sqlglot \<Rightarrow> 'n \<Rightarrow> sql_class list \<Rightarrow> bool" where
  "is_any G n cs = list_ex (sg_is G n) cs"

definition write_node :: "'n sqlglot \<Rightarrow> 'n \<Rightarrow> string" where
  "write_node G n = ''WRITE_NODE_'' @ py_upper (sg_type_name G n)"

text \<open>The common table expressions of a WITH, in order.\<close>

fun gate_ctes :: "'n sqlglot \<Rightarrow> 'n list \<Rightarrow> gate_result option" where
  "gate_ctes G [] = None"
| "gate_ctes G (cte # rest) =
     (case sg_this G cte of
        Some body \<Rightarrow>
          (if is_any G body FORBIDDEN
           then Some (refuse (write_node G body) (''CTE contains '' @ sg_type_name G body))
           else gate_ctes G rest)
      | None \<Rightarrow> gate_ctes G rest)"

definition gate_with :: "'n sqlglot \<Rightarrow> 'n \<Rightarrow> gate_result option" where
  "gate_with G stmt =
     (if \<not> sg_is G stmt With then None
      else case sg_this G stmt of
             Some body \<Rightarrow>
               (if \<not> is_any G body [Select, Union]
                then Some (refuse ''NOT_SELECT'' ''WITH body is not SELECT/UNION'')
                else gate_ctes G (sg_expressions G stmt))
           | None \<Rightarrow> Some (refuse ''NOT_SELECT'' ''WITH body is not SELECT/UNION''))"

text \<open>The sweep over the whole tree.\<close>

fun gate_nodes :: "'n sqlglot \<Rightarrow> 'n list \<Rightarrow> gate_result" where
  "gate_nodes G [] = pass"
| "gate_nodes G (n # rest) =
     (if is_any G n FORBIDDEN then refuse (write_node G n) (take 120 (sg_str G n))
      else if sg_is G n Command \<and> py_upper (sg_this_text G n) \<in> set FORBIDDEN_COMMAND_NAMES
      then refuse (''WRITE_NODE_'' @ py_upper (sg_this_text G n)) (take 120 (sg_str G n))
      else gate_nodes G rest)"

definition gate :: "'n sqlglot \<Rightarrow> string \<Rightarrow> string \<Rightarrow> gate_result" where
  "gate G sql dialect =
     (if sql = [] \<or> py_strip sql = [] then refuse ''PARSE_ERROR'' ''empty SQL''
      else case sg_parse G sql dialect of
        Inl e \<Rightarrow> refuse ''PARSE_ERROR'' e
      | Inr parsed \<Rightarrow>
          (case List.map_filter (\<lambda>x. x) parsed of
             [stmt] \<Rightarrow>
               (if \<not> is_any G stmt [Select, Union, With, Subquery]
                then refuse ''NOT_SELECT'' (''root is '' @ sg_type_name G stmt)
                else case gate_with G stmt of
                       Some res \<Rightarrow> res
                     | None \<Rightarrow> gate_nodes G (sg_walk G stmt))
           | statements \<Rightarrow>
               refuse ''MULTIPLE_STATEMENTS'' (''got '' @ nat_str (length statements) @ '' statements'')))"

subsection \<open>Facts\<close>

lemma gate_result_simps [simp]: "gr_ok pass" "\<not> gr_ok (refuse r d)"
  by (simp_all add: pass_def refuse_def)

lemma gate_nodes_ok: "gr_ok (gate_nodes G ns) \<longleftrightarrow> (\<forall>n \<in> set ns. \<forall>c \<in> set FORBIDDEN. \<not> sg_is G n c)"
  by (induction ns) (auto simp: is_any_def list_ex_iff FORBIDDEN_def)

lemma gate_ctes_refuses: "gate_ctes G cs = Some res \<Longrightarrow> \<not> gr_ok res"
  by (induction cs) (auto split: option.splits if_splits)

lemma gate_with_refuses: "gate_with G stmt = Some res \<Longrightarrow> \<not> gr_ok res"
  by (auto simp: gate_with_def gate_ctes_refuses split: option.splits if_splits)

lemma gate_nodes_reason: "gate_nodes G ns = r \<Longrightarrow> \<not> gr_ok r \<Longrightarrow>
    \<exists>n \<in> set ns. gr_reason r = Some (write_node G n) \<and> is_any G n FORBIDDEN"
proof (induction ns)
  case (Cons n ns)
  have "sg_is G n Command \<Longrightarrow> is_any G n FORBIDDEN"
    by (simp add: is_any_def FORBIDDEN_def)
  with Cons show ?case by (auto simp: refuse_def split: if_splits)
qed auto

subsection \<open>Properties\<close>

text \<open>C16: what passes the gate. The text parses to exactly one statement, it is a SELECT, a set
  operation, a WITH or a subquery, a WITH has a SELECT or UNION body, and no node the tree walk
  visits is an INSERT, UPDATE, DELETE, MERGE, CREATE, DROP, ALTER or an opaque command.\<close>
theorem gate_admits_only_reads:
  assumes "gr_ok (gate G sql dialect)"
  shows "\<exists>parsed stmt. sg_parse G sql dialect = Inr parsed \<and> List.map_filter (\<lambda>x. x) parsed = [stmt]
     \<and> is_any G stmt [Select, Union, With, Subquery]
     \<and> (sg_is G stmt With \<longrightarrow> (\<exists>body. sg_this G stmt = Some body \<and> is_any G body [Select, Union]))
     \<and> (\<forall>n \<in> set (sg_walk G stmt). \<forall>c \<in> {Insert, Update, Delete, Merge_into, Command, Create, Drop, Alter}.
          \<not> sg_is G n c)"
proof -
  from assms obtain parsed where parsed: "sg_parse G sql dialect = Inr parsed"
    by (auto simp: gate_def split: if_splits sum.splits)
  from assms parsed obtain stmt where stmt: "List.map_filter (\<lambda>x. x) parsed = [stmt]"
    by (auto simp: gate_def split: if_splits list.splits)
  from assms parsed stmt have shape: "is_any G stmt [Select, Union, With, Subquery]"
    by (auto simp: gate_def split: if_splits)
  from assms parsed stmt shape have "gate_with G stmt = None \<and> gr_ok (gate_nodes G (sg_walk G stmt))"
    by (auto simp: gate_def dest: gate_with_refuses split: if_splits option.splits)
  then have wf: "sg_is G stmt With \<longrightarrow> (\<exists>body. sg_this G stmt = Some body \<and> is_any G body [Select, Union])"
    and nodes: "gr_ok (gate_nodes G (sg_walk G stmt))"
    by (auto simp: gate_with_def split: if_splits option.splits)
  have "\<forall>n \<in> set (sg_walk G stmt). \<forall>c \<in> set FORBIDDEN. \<not> sg_is G n c"
    using nodes by (simp add: gate_nodes_ok)
  with parsed stmt shape wf show ?thesis
    by (intro exI conjI) (auto simp: FORBIDDEN_def)
qed

text \<open>
  A small parser for the examples: trees with a class, children and a name; it reads a text as one
  SELECT whose projections are the comma-separated words.
\<close>

datatype tree = Tree sql_class string "tree list"

fun tree_class :: "tree \<Rightarrow> sql_class" where "tree_class (Tree c _ _) = c"
fun tree_name :: "tree \<Rightarrow> string" where "tree_name (Tree _ n _) = n"
fun tree_children :: "tree \<Rightarrow> tree list" where "tree_children (Tree _ _ ts) = ts"

fun tree_nodes :: "tree \<Rightarrow> tree list" where
  "tree_nodes (Tree c n ts) = Tree c n ts # concat (map tree_nodes ts)"

definition tree_of :: "string \<Rightarrow> tree" where
  "tree_of sql = Tree Select [] (map (\<lambda>w. Tree Column w []) (split_char (CHR '','') sql))"

definition toy_sqlglot :: "tree sqlglot" where
  "toy_sqlglot =
     \<lparr>sg_parse = (\<lambda>sql d. Inr [Some (tree_of sql), None]), sg_parse_one = (\<lambda>sql d. Inr (tree_of sql)),
      sg_is = (\<lambda>t c. tree_class t = c), sg_type_name = (\<lambda>t. ''Node''), sg_this = (\<lambda>t. None),
      sg_this_text = (\<lambda>t. []), sg_expressions = tree_children, sg_left = (\<lambda>t. t),
      sg_walk = tree_nodes, sg_columns = (\<lambda>t. filter (\<lambda>u. tree_class u = Column) (tree_nodes t)),
      sg_name = tree_name, sg_alias_or_name = tree_name, sg_str = tree_name, sg_limit = (\<lambda>t. None),
      sg_limit_value = (\<lambda>t. None), sg_set_limit = (\<lambda>t n. t), sg_set_this = (\<lambda>t u. t),
      sg_wrap_star = (\<lambda>t n. t), sg_sql = (\<lambda>t d. ''SELECT'')\<rparr>"

theorem gate_admits_only_reads_witness:
  "\<exists>stmt. List.map_filter (\<lambda>x. x) [Some (tree_of ''name,phone''), None] = [stmt]
     \<and> is_any toy_sqlglot stmt [Select, Union, With, Subquery]"
proof -
  have "gr_ok (gate toy_sqlglot ''name,phone'' ''postgres'')"
    by (simp add: gate_def toy_sqlglot_def py_strip_def is_space_def tree_of_def is_any_def
        gate_with_def FORBIDDEN_def List.map_filter_simps)
  from gate_admits_only_reads [OF this] show ?thesis
    by (auto simp: toy_sqlglot_def)
qed

end
