(* ===== verification/Masking.thy ===== *)
theory Masking
  imports Sql_Gate
begin

text \<open>
  \<open>connections/masking.py\<close>: which property a result column stands for, and what of its values may
  be shown. A cell of a result is NULL, a driver value \<open>Raw v\<close> or a text the masking made; the
  text of a driver value, \<open>str(v)\<close>, is a parameter.
\<close>

fun SENSITIVITY_ORDER :: "sensitivity \<Rightarrow> nat" where
  "SENSITIVITY_ORDER SENSITIVITY_UNSPECIFIED = 0"
| "SENSITIVITY_ORDER PUBLIC = 1"
| "SENSITIVITY_ORDER INTERNAL = 2"
| "SENSITIVITY_ORDER CONFIDENTIAL = 3"
| "SENSITIVITY_ORDER RESTRICTED = 4"

definition rank :: "property_type_definition \<Rightarrow> nat" where
  "rank pt = SENSITIVITY_ORDER (cc_sensitivity (pt_compliance pt))"

record resolved_column =
  rc_name :: string
  rc_sensitivity :: sensitivity
  rc_masking :: masking_strategy
  rc_is_resolved :: bool

definition unresolved_column :: "string \<Rightarrow> resolved_column" where
  "unresolved_column name =
     \<lparr>rc_name = name, rc_sensitivity = SENSITIVITY_UNSPECIFIED, rc_masking = MASK_NONE,
      rc_is_resolved = False\<rparr>"

subsection \<open>The index from physical columns to properties\<close>

type_synonym column_index = "(string, property_type_definition) dict"

definition consider_property :: "property_type_definition \<Rightarrow> column_index \<Rightarrow> column_index" where
  "consider_property pt out =
     (if physical_column pt = [] then out
      else case dict_get out (physical_column pt) of
             None \<Rightarrow> dict_set (physical_column pt) pt out
           | Some existing \<Rightarrow>
               (if rank pt > rank existing then dict_set (physical_column pt) pt out else out))"

definition all_properties :: "registry \<Rightarrow> property_type_definition list" where
  "all_properties r =
     concat (map (\<lambda>obj. dict_vals (ob_property_types obj)) (dict_vals (object_types r)))
     @ concat (map (\<lambda>lt. dict_vals (lk_property_types lt)) (dict_vals (link_types r)))"

definition build_physical_to_property_index :: "registry \<Rightarrow> column_index" where
  "build_physical_to_property_index r = fold consider_property (all_properties r) []"

text \<open>\<open>max(real, key=...)\<close>: the first of the greatest.\<close>

fun highest :: "property_type_definition option list \<Rightarrow> property_type_definition option" where
  "highest pts =
     (case List.map_filter (\<lambda>x. x) pts of
        [] \<Rightarrow> None
      | p # ps \<Rightarrow> Some (foldl (\<lambda>best q. if rank q > rank best then q else best) p ps))"

declare highest.simps [simp del]

subsection \<open>Resolving the projections of a statement\<close>

definition collect_source_columns :: "'n sqlglot \<Rightarrow> 'n \<Rightarrow> string list" where
  "collect_source_columns G node =
     (if sg_is G node Column then [sg_name G node] else map (sg_name G) (sg_columns G node))"

definition output_name :: "'n sqlglot \<Rightarrow> 'n \<Rightarrow> string" where
  "output_name G proj =
     (if sg_is G proj Alias then sg_alias_or_name G proj
      else if sg_alias_or_name G proj \<noteq> [] then sg_alias_or_name G proj
      else if sg_name G proj \<noteq> [] then sg_name G proj else sg_str G proj)"

definition projection_body :: "'n sqlglot \<Rightarrow> 'n \<Rightarrow> 'n" where
  "projection_body G proj =
     (if sg_is G proj Alias then (case sg_this G proj of Some inner \<Rightarrow> inner | None \<Rightarrow> proj) else proj)"

definition resolve_projection :: "column_index \<Rightarrow> 'n sqlglot \<Rightarrow> 'n \<Rightarrow> resolved_column" where
  "resolve_projection idx G proj =
     (let sources = collect_source_columns G (projection_body G proj) in
      if sources = [] then unresolved_column (output_name G proj)
      else case highest (map (dict_get idx) sources) of
             None \<Rightarrow> unresolved_column (output_name G proj)
           | Some winner \<Rightarrow>
               \<lparr>rc_name = output_name G proj,
                rc_sensitivity = cc_sensitivity (pt_compliance winner),
                rc_masking = cc_masking (pt_compliance winner), rc_is_resolved = True\<rparr>)"

text \<open>The SELECT whose projections name the result's columns: inside a WITH, left in a UNION.\<close>

definition outer_select :: "'n sqlglot \<Rightarrow> 'n \<Rightarrow> 'n option" where
  "outer_select G parsed =
     (case (if sg_is G parsed With then sg_this G parsed else Some parsed) of
        None \<Rightarrow> None
      | Some sel \<Rightarrow>
          (let sel = (if sg_is G sel Union then sg_left G sel else sel) in
           if sg_is G sel Select then Some sel else None))"

definition resolve :: "'n sqlglot \<Rightarrow> registry \<Rightarrow> string \<Rightarrow> string \<Rightarrow> exn + resolved_column list" where
  "resolve G r dialect sql =
     (case sg_parse_one G sql dialect of
        Inl e \<Rightarrow> Inl (OtherException ''ParseError'' e)
      | Inr parsed \<Rightarrow>
          (case outer_select G parsed of
             None \<Rightarrow> Inr []
           | Some sel \<Rightarrow>
               Inr (map (resolve_projection (build_physical_to_property_index r) G)
                        (sg_expressions G sel))))"

subsection \<open>Masking a value\<close>

datatype 'v cell = Null | Raw 'v | Text string

fun cell_str :: "('v \<Rightarrow> string) \<Rightarrow> 'v cell \<Rightarrow> string" where
  "cell_str py_str Null = ''None''"
| "cell_str py_str (Raw v) = py_str v"
| "cell_str py_str (Text s) = s"

definition last_n :: "nat \<Rightarrow> string \<Rightarrow> string" where
  "last_n n s = drop (length s - n) s"

fun mask_text :: "masking_strategy \<Rightarrow> string \<Rightarrow> string option" where
  "mask_text SHOW_LAST_4 s =
     (if length s < 4 then None else Some (replicate (length s - 4) (CHR ''*'') @ last_n 4 s))"
| "mask_text SHOW_FIRST_2 s = (if length s < 2 then None else Some (take 2 s @ ''****''))"
| "mask_text MASK_EMAIL_DOMAIN s =
     (if CHR ''@'' \<notin> set s then None else Some (before_char (CHR ''@'') s @ ''@***''))"
| "mask_text MASK_EMAIL_USER s =
     (if CHR ''@'' \<notin> set s then None else Some (''***@'' @ after_char (CHR ''@'') s))"
| "mask_text MASK_PHONE_MIDDLE s =
     (if length s < 7 then None else Some (take 3 s @ ''****'' @ last_n 4 s))"
| "mask_text MASK_NULLIFY s = None"
| "mask_text MASK_REDACT_FULL s = Some ''***''"
| "mask_text MASK_NONE s = Some s"

fun apply_mask :: "('v \<Rightarrow> string) \<Rightarrow> 'v cell \<Rightarrow> masking_strategy \<Rightarrow> 'v cell" where
  "apply_mask py_str Null strategy = Null"
| "apply_mask py_str value MASK_NONE = value"
| "apply_mask py_str value strategy =
     (case mask_text strategy (cell_str py_str value) of None \<Rightarrow> Null | Some t \<Rightarrow> Text t)"

subsection \<open>Facts about the index\<close>

lemma get_consider:
  "dict_get (consider_property pt out) c =
     (if c = physical_column pt \<and> c \<noteq> []
         \<and> (case dict_get out c of None \<Rightarrow> True | Some old \<Rightarrow> rank old < rank pt)
      then Some pt else dict_get out c)"
  by (auto simp: consider_property_def get_set split: option.splits)

text \<open>What an index holds for a column, given the properties it was built from.\<close>

definition holds_max :: "property_type_definition list \<Rightarrow> string \<Rightarrow> property_type_definition option \<Rightarrow> bool" where
  "holds_max pts c res \<longleftrightarrow>
     (case res of
        None \<Rightarrow> \<forall>pt \<in> set pts. physical_column pt \<noteq> c \<or> c = []
      | Some w \<Rightarrow> w \<in> set pts \<and> physical_column w = c \<and> c \<noteq> []
          \<and> (\<forall>pt \<in> set pts. physical_column pt = c \<longrightarrow> rank pt \<le> rank w))"

lemma fold_consider:
  "holds_max done_pts c (dict_get out c) \<Longrightarrow>
     holds_max (done_pts @ pts) c (dict_get (fold consider_property pts out) c)"
proof (induction pts arbitrary: done_pts out)
  case (Cons pt pts)
  have "holds_max (done_pts @ [pt]) c (dict_get (consider_property pt out) c)"
    using Cons.prems by (auto simp: holds_max_def get_consider split: option.splits)
  from Cons.IH [OF this] show ?case by simp
qed simp

lemma index_holds: "holds_max (all_properties r) c (dict_get (build_physical_to_property_index r) c)"
  using fold_consider [of "[]" c "[]" "all_properties r"]
  by (simp add: build_physical_to_property_index_def holds_max_def)

lemma foldl_best:
  fixes p :: property_type_definition
  defines "best \<equiv> \<lambda>b q. if rank q > rank b then q else b"
  shows "foldl best p ps \<in> set (p # ps) \<and> (\<forall>q \<in> set (p # ps). rank q \<le> rank (foldl best p ps))"
proof (induction ps arbitrary: p)
  case (Cons q ps)
  have b: "best p q = p \<or> best p q = q" "rank p \<le> rank (best p q)" "rank q \<le> rank (best p q)"
    by (auto simp: best_def)
  from Cons.IH [of "best p q"] b show ?case by (auto intro: order_trans)
qed simp

lemma map_filter_set: "set (List.map_filter (\<lambda>x. x) xs) = {v. Some v \<in> set xs}"
  by (induction xs) (auto simp: List.map_filter_simps split: option.splits)

lemma highest_None: "highest pts = None \<longleftrightarrow> (\<forall>v. Some v \<notin> set pts)"
  using map_filter_set [of pts] by (auto simp: highest.simps split: list.splits)

lemma highest_Some:
  assumes "highest pts = Some w"
  shows "Some w \<in> set pts \<and> (\<forall>v. Some v \<in> set pts \<longrightarrow> rank v \<le> rank w)"
proof -
  from assms obtain p ps where ps: "List.map_filter (\<lambda>x. x) pts = p # ps"
    and w: "w = foldl (\<lambda>best q. if rank q > rank best then q else best) p ps"
    by (auto simp: highest.simps split: list.splits)
  have "set (p # ps) = {v. Some v \<in> set pts}"
    unfolding ps [symmetric] by (rule map_filter_set)
  with foldl_best [of p ps] w show ?thesis by blast
qed

subsection \<open>What a mask lets through\<close>

text \<open>The part of a value's text that its masked form determines; None where nothing is shown.\<close>

fun visible :: "masking_strategy \<Rightarrow> string \<Rightarrow> (nat \<times> string) option" where
  "visible SHOW_LAST_4 s = (if length s < 4 then None else Some (length s, last_n 4 s))"
| "visible SHOW_FIRST_2 s = (if length s < 2 then None else Some (0, take 2 s))"
| "visible MASK_EMAIL_DOMAIN s = (if CHR ''@'' \<notin> set s then None else Some (0, before_char (CHR ''@'') s))"
| "visible MASK_EMAIL_USER s = (if CHR ''@'' \<notin> set s then None else Some (0, after_char (CHR ''@'') s))"
| "visible MASK_PHONE_MIDDLE s = (if length s < 7 then None else Some (0, take 3 s @ last_n 4 s))"
| "visible MASK_NULLIFY s = None"
| "visible MASK_REDACT_FULL s = Some (0, [])"
| "visible MASK_NONE s = Some (0, s)"

lemma length_last_n: "n \<le> length s \<Longrightarrow> length (last_n n s) = n"
  by (simp add: last_n_def)

lemma mask_text_visible: "mask_text st s = mask_text st t \<longleftrightarrow> visible st s = visible st t"
proof (cases st)
  case SHOW_LAST_4
  have "replicate (length s - 4) (CHR ''*'') @ last_n 4 s = replicate (length t - 4) (CHR ''*'') @ last_n 4 t
      \<longleftrightarrow> length s = length t \<and> last_n 4 s = last_n 4 t" if "4 \<le> length s" "4 \<le> length t"
  proof
    assume eq: "replicate (length s - 4) (CHR ''*'') @ last_n 4 s
        = replicate (length t - 4) (CHR ''*'') @ last_n 4 t"
    from arg_cong [OF eq, of length] that have "length s = length t" by (simp add: length_last_n)
    with eq show "length s = length t \<and> last_n 4 s = last_n 4 t" by simp
  qed simp
  with SHOW_LAST_4 show ?thesis by (simp add: not_less)
next
  case MASK_PHONE_MIDDLE
  have "take 3 s @ ''****'' @ last_n 4 s = take 3 t @ ''****'' @ last_n 4 t
      \<longleftrightarrow> take 3 s @ last_n 4 s = take 3 t @ last_n 4 t" if "7 \<le> length s" "7 \<le> length t"
    using that append_eq_append_conv [of "take 3 s" "take 3 t"] by auto
  with MASK_PHONE_MIDDLE show ?thesis by (simp add: not_less)
qed (auto simp: append_eq_append_conv)

subsection \<open>Properties\<close>

text \<open>The column index holds, for every physical column, one of the registry's properties bound
  to it with the greatest sensitivity among them, and nothing exactly when no property of an object
  or link is bound to it.\<close>
theorem index_most_restrictive:
  "case dict_get (build_physical_to_property_index r) c of
     None \<Rightarrow> \<not> (\<exists>pt \<in> set (all_properties r). physical_column pt = c \<and> c \<noteq> [])
   | Some w \<Rightarrow> w \<in> set (all_properties r) \<and> physical_column w = c
       \<and> \<not> (\<exists>pt \<in> set (all_properties r). physical_column pt = c \<and> rank w < rank pt)"
  using index_holds [of r c] unfolding holds_max_def
  by (auto simp: not_less split: option.splits)

text \<open>A result column is tied to the most sensitive property it is computed from. If any column
  reference in the projection names the physical column of a property, the projection is resolved,
  and at no lower sensitivity than that property; an alias does not change this.\<close>
theorem projection_takes_highest:
  assumes "pt \<in> set (all_properties r)" and "physical_column pt \<noteq> []"
    and "physical_column pt \<in> set (collect_source_columns G (projection_body G proj))"
  shows "rc_is_resolved (resolve_projection (build_physical_to_property_index r) G proj)
     \<and> rank pt \<le> SENSITIVITY_ORDER
          (rc_sensitivity (resolve_projection (build_physical_to_property_index r) G proj))
     \<and> rc_name (resolve_projection (build_physical_to_property_index r) G proj) = output_name G proj"
proof -
  let ?idx = "build_physical_to_property_index r"
  let ?sources = "collect_source_columns G (projection_body G proj)"
  obtain w where w: "dict_get ?idx (physical_column pt) = Some w" "rank pt \<le> rank w"
    using index_holds [of r "physical_column pt"] assms(1,2)
    by (auto simp: holds_max_def split: option.splits)
  then have mem: "Some w \<in> set (map (dict_get ?idx) ?sources)"
    using assms(3) by (metis image_eqI list.set_map)
  then obtain v where v: "highest (map (dict_get ?idx) ?sources) = Some v"
    using highest_None by (metis not_None_eq)
  with highest_Some [OF v] mem w(2) have "rank pt \<le> rank v" by (blast intro: order_trans)
  moreover have "?sources \<noteq> []" using assms(3) by auto
  ultimately show ?thesis
    using v by (simp add: resolve_projection_def Let_def rank_def)
qed

definition phone_property :: property_type_definition where
  "phone_property = (mk_property_type ''ri.prop.1'')\<lparr>physical_column := ''phone'',
     pt_compliance := \<lparr>cc_sensitivity = RESTRICTED, cc_masking = MASK_PHONE_MIDDLE\<rparr>\<rparr>"

definition phone_registry :: registry where
  "phone_registry = empty_registry\<lparr>object_types :=
     [(''ri.obj.1'', (mk_object_type ''ri.obj.1'')\<lparr>ob_property_types := [(''p'', phone_property)]\<rparr>)]\<rparr>"

theorem projection_takes_highest_witness:
  "rc_is_resolved (resolve_projection (build_physical_to_property_index phone_registry) toy_sqlglot
     (Tree Column ''phone'' []))"
proof -
  have "phone_property \<in> set (all_properties phone_registry)"
    by (simp add: all_properties_def phone_registry_def empty_registry_def mk_object_type_def)
  moreover have "physical_column phone_property = ''phone''"
    by (simp add: phone_property_def)
  moreover have "''phone'' \<in> set (collect_source_columns toy_sqlglot
      (projection_body toy_sqlglot (Tree Column ''phone'' [])))"
    by (simp add: collect_source_columns_def projection_body_def toy_sqlglot_def)
  ultimately show ?thesis
    using projection_takes_highest [of phone_property phone_registry toy_sqlglot "Tree Column ''phone'' []"]
    by simp
qed

text \<open>Exactly what a mask reveals. For two values that are not NULL, the masked cells are equal
  if and only if the visible parts of their texts are: the last four characters and the length, the
  first two, the local part, the domain, the first three and last four; full redaction and
  nullification reveal nothing.\<close>
theorem mask_reveals_only_visible:
  assumes "strategy \<noteq> MASK_NONE"
  shows "apply_mask py_str (Raw v) strategy = apply_mask py_str (Raw w) strategy \<longleftrightarrow>
     visible strategy (py_str v) = visible strategy (py_str w)"
proof -
  have "apply_mask py_str (Raw u) strategy
      = (case mask_text strategy (py_str u) of None \<Rightarrow> Null | Some t \<Rightarrow> Text t)" for u
    using assms by (cases strategy) simp_all
  then show ?thesis
    using mask_text_visible [of strategy "py_str v" "py_str w"] by (auto split: option.splits)
qed

theorem mask_reveals_only_visible_witness:
  "apply_mask (\<lambda>v. v) (Raw ''13800001234'') MASK_PHONE_MIDDLE
     = apply_mask (\<lambda>v. v) (Raw ''13899991234'') MASK_PHONE_MIDDLE"
  using mask_reveals_only_visible [of MASK_PHONE_MIDDLE "\<lambda>v. v" "''13800001234''" "''13899991234''"]
  by (simp add: last_n_def)

text \<open>Two strategies stop masking at their shortest inputs: a text of four characters is shown
  whole by SHOW_LAST_4, and MASK_PHONE_MIDDLE shows every character of a text of seven.\<close>
theorem mask_boundary_leaks:
  assumes "length s = 4" and "length t = 7"
  shows "apply_mask (\<lambda>v. v) (Raw s) SHOW_LAST_4 = Text s
     \<and> apply_mask (\<lambda>v. v) (Raw t) MASK_PHONE_MIDDLE = Text (take 3 t @ ''****'' @ drop 3 t)"
  using assms by (simp add: last_n_def)

theorem mask_boundary_leaks_witness:
  "apply_mask (\<lambda>v. v) (Raw ''1234'') SHOW_LAST_4 = Text ''1234''"
  using mask_boundary_leaks [of "''1234''" "''1234567''"] by simp

end
