(* ===== verification/Data_Query.thy ===== *)
theory Data_Query
  imports Masking Connection_Store
begin

text \<open>
  \<open>connections/data_query.py\<close>: the query tool (gate, resolve, limit, run, mask) and the description
  of an entity's bound table. The database that is queried is a parameter: it is given the
  statements already sent on its connection and the statement to run, and answers with column names
  and rows.
\<close>

type_synonym 'v executor = "string list \<Rightarrow> string \<Rightarrow> exn + string list \<times> 'v cell list list"

subsection \<open>Limiting\<close>

definition limit_select :: "'n sqlglot \<Rightarrow> 'n \<Rightarrow> int \<Rightarrow> 'n" where
  "limit_select G sel cap =
     (case sg_limit G sel of
        None \<Rightarrow> sg_set_limit G sel (cap + 1)
      | Some l \<Rightarrow>
          (case (case sg_limit_value G l of None \<Rightarrow> Some (cap + 2) | Some e \<Rightarrow> py_int (sg_str G e)) of
             None \<Rightarrow> sg_set_limit G sel (cap + 1)
           | Some v \<Rightarrow> if v > cap + 1 then sg_set_limit G sel (cap + 1) else sel))"

definition ensure_limit :: "'n sqlglot \<Rightarrow> string \<Rightarrow> string \<Rightarrow> int \<Rightarrow> exn + string" where
  "ensure_limit G sql dialect cap =
     (case sg_parse_one G sql dialect of
        Inl e \<Rightarrow> Inl (OtherException ''ParseError'' e)
      | Inr parsed \<Rightarrow>
          (if sg_is G parsed With
           then (case sg_this G parsed of
                   None \<Rightarrow> Inr sql
                 | Some sel \<Rightarrow>
                     (if sg_is G sel Union then Inr (sg_sql G (sg_wrap_star G parsed (cap + 1)) dialect)
                      else if \<not> sg_is G sel Select then Inr sql
                      else Inr (sg_sql G (sg_set_this G parsed (limit_select G sel cap)) dialect)))
           else if sg_is G parsed Union then Inr (sg_sql G (sg_wrap_star G parsed (cap + 1)) dialect)
           else if \<not> sg_is G parsed Select then Inr sql
           else Inr (sg_sql G (limit_select G parsed cap) dialect)))"

subsection \<open>Running a query\<close>

text \<open>The result: the columns' metadata carries only the name, its other two fields are null.\<close>

record 'v query_response =
  qs_columns :: "string list"
  qs_rows :: "'v cell list list"
  qs_row_count :: int
  qs_truncated :: bool
  qs_masked_columns :: "string list"
  qs_unresolved_columns :: "string list"

text \<open>\<open>xs[:n]\<close>, where a negative n counts from the end.\<close>

definition slice_to :: "int \<Rightarrow> 'a list \<Rightarrow> 'a list" where
  "slice_to n xs = (if 0 \<le> n then take (nat n) xs else take (length xs - nat (- n)) xs)"

definition resolved_by_name :: "resolved_column list \<Rightarrow> (string, resolved_column) dict" where
  "resolved_by_name rcs = fold (\<lambda>rc d. dict_set (rc_name rc) rc d) rcs []"

definition mask_of :: "(string, resolved_column) dict \<Rightarrow> string \<Rightarrow> masking_strategy" where
  "mask_of by_name cn =
     (case dict_get by_name cn of
        None \<Rightarrow> MASK_NONE
      | Some rc \<Rightarrow> if rc_is_resolved rc then rc_masking rc else MASK_NONE)"

definition is_unresolved :: "(string, resolved_column) dict \<Rightarrow> string \<Rightarrow> bool" where
  "is_unresolved by_name cn =
     (case dict_get by_name cn of None \<Rightarrow> True | Some rc \<Rightarrow> \<not> rc_is_resolved rc)"

definition mask_row ::
  "('v \<Rightarrow> string) \<Rightarrow> (string, resolved_column) dict \<Rightarrow> string list \<Rightarrow> 'v cell list \<Rightarrow> 'v cell list" where
  "mask_row py_str by_name names row =
     map (\<lambda>(i, cn). if mask_of by_name cn \<noteq> MASK_NONE
                     then apply_mask py_str (row ! i) (mask_of by_name cn) else row ! i)
         (enumerate 0 names)"

definition shape_response ::
  "('v \<Rightarrow> string) \<Rightarrow> resolved_column list \<Rightarrow> int \<Rightarrow> string list \<Rightarrow> 'v cell list list \<Rightarrow> 'v query_response" where
  "shape_response py_str rcs max_rows names rows_raw =
     (let truncated = (int (length rows_raw) > max_rows);
          rows = (if truncated then slice_to max_rows rows_raw else rows_raw);
          by_name = resolved_by_name rcs;
          out = map (mask_row py_str by_name names) rows
      in \<lparr>qs_columns = names, qs_rows = out, qs_row_count = int (length out), qs_truncated = truncated,
          qs_masked_columns = filter (\<lambda>cn. mask_of by_name cn \<noteq> MASK_NONE) names,
          qs_unresolved_columns = filter (is_unresolved by_name) names\<rparr>)"

definition gate_or_raise :: "'n sqlglot \<Rightarrow> string \<Rightarrow> string \<Rightarrow> exn + unit" where
  "gate_or_raise G sql dialect =
     (let g = gate G sql dialect in
      if gr_ok g then Inr ()
      else Inl (SqlRejectedError (case gr_reason g of None \<Rightarrow> ''UNKNOWN'' | Some r \<Rightarrow>
                                    if r = [] then ''UNKNOWN'' else r) (gr_detail g)))"

definition query_sql ::
  "'n sqlglot \<Rightarrow> fernet \<Rightarrow> ('v \<Rightarrow> string) \<Rightarrow> (engine \<Rightarrow> 'v executor) \<Rightarrow> uuid \<Rightarrow> string \<Rightarrow> int \<Rightarrow> int
     \<Rightarrow> registry \<Rightarrow> string \<Rightarrow> (pool \<times> db, exn, 'v query_response) act" where
  "query_sql G F py_str exec cid sql max_rows timeout_ms reg dialect =
     bind (lift_sum (gate_or_raise G sql dialect)) (\<lambda>_.
     bind (lift_sum (resolve G reg dialect sql)) (\<lambda>rcs.
     bind (lift_sum (ensure_limit G sql dialect max_rows)) (\<lambda>rewritten.
     bind (get_or_create F cid) (\<lambda>(engine, kind).
     bind (lift_sum (exec engine (enforce_read_only kind (Some timeout_ms)) rewritten)) (\<lambda>(names, rows).
     ret (shape_response py_str rcs max_rows names rows))))))"

subsection \<open>Describing a bound asset\<close>

record bound_column =
  bc_api_name :: string
  bc_physical_column :: string
  bc_data_type :: string
  bc_sensitivity :: string
  bc_masking_strategy :: string
  bc_property_rid :: string

record bound_asset =
  ba_rid :: string
  ba_connection_id :: string
  ba_asset_path :: string
  ba_columns :: "bound_column list"

definition bound_column_of :: "property_type_definition \<Rightarrow> bound_column" where
  "bound_column_of pt =
     \<lparr>bc_api_name = pt_api_name pt, bc_physical_column = physical_column pt,
      bc_data_type = data_type_value (pt_data_type pt),
      bc_sensitivity = sensitivity_value (cc_sensitivity (pt_compliance pt)),
      bc_masking_strategy = masking_strategy_value (cc_masking (pt_compliance pt)),
      bc_property_rid = pt_rid pt\<rparr>"

definition describe_bound_asset :: "registry \<Rightarrow> string \<Rightarrow> exn + bound_asset" where
  "describe_bound_asset r target =
     (case (case dict_get (object_types r) target of
              Some obj \<Rightarrow> Some (ob_asset_mapping obj, ob_property_types obj)
            | None \<Rightarrow>
                (case dict_get (link_types r) target of
                   Some lt \<Rightarrow> Some (lk_asset_mapping lt, lk_property_types lt)
                 | None \<Rightarrow> None)) of
        None \<Rightarrow> Inl (BoundAssetNotFoundError target)
      | Some (am, pts) \<Rightarrow>
          (if \<not> (read_connection_id am \<noteq> [] \<or> read_asset_path am \<noteq> [])
           then Inl (AssetUnboundError target)
           else Inr \<lparr>ba_rid = target, ba_connection_id = read_connection_id am,
                     ba_asset_path = read_asset_path am,
                     ba_columns = map bound_column_of (dict_vals pts)\<rparr>))"

subsection \<open>Facts\<close>

lemma fold_by_name:
  "dict_get (fold (\<lambda>rc d. dict_set (rc_name rc) rc d) rcs d) cn =
     (case List.find (\<lambda>rc. rc_name rc = cn) (rev rcs) of Some rc \<Rightarrow> Some rc | None \<Rightarrow> dict_get d cn)"
  by (induction rcs arbitrary: d) (auto simp: get_set find_append split: option.splits)

lemma by_name_last: "dict_get (resolved_by_name rcs) cn = List.find (\<lambda>rc. rc_name rc = cn) (rev rcs)"
  by (simp add: resolved_by_name_def fold_by_name split: option.splits)

lemma find_unique:
  "distinct (map rc_name rcs) \<Longrightarrow> rc \<in> set rcs \<Longrightarrow> List.find (\<lambda>x. rc_name x = rc_name rc) rcs = Some rc"
  by (induction rcs) auto

lemma by_name_unique:
  "distinct (map rc_name rcs) \<Longrightarrow> rc \<in> set rcs \<Longrightarrow> dict_get (resolved_by_name rcs) (rc_name rc) = Some rc"
  unfolding by_name_last using find_unique [of "rev rcs" rc] by (simp add: rev_map [symmetric])

lemma length_slice_to: "0 \<le> n \<Longrightarrow> int (length (slice_to n xs)) \<le> n"
  by (simp add: slice_to_def)

lemma length_mask_row [simp]: "length (mask_row f d names row) = length names"
  by (simp add: mask_row_def)

lemma nth_mask_row:
  "i < length names \<Longrightarrow> mask_row f d names row ! i =
     (if mask_of d (names ! i) \<noteq> MASK_NONE then apply_mask f (row ! i) (mask_of d (names ! i)) else row ! i)"
  by (simp add: mask_row_def nth_enumerate_eq)

lemma query_cases:
  assumes "query_sql G F py_str exec cid sql n t reg dialect s = (Inr res, s')"
  obtains rcs rewritten eng kind s1 names rows where
    "gr_ok (gate G sql dialect)" "resolve G reg dialect sql = Inr rcs"
    "ensure_limit G sql dialect n = Inr rewritten"
    "get_or_create F cid s = (Inr (eng, kind), s')"
    "exec eng (enforce_read_only kind (Some t)) rewritten = Inr (names, rows)"
    "res = shape_response py_str rcs n names rows"
  using assms
  by (auto simp: query_sql_def act_simps gate_or_raise_def Let_def split: if_splits sum.splits prod.splits)

lemma engine_readonly:
  assumes "get_or_create F cid (p, s) = (Inr (eng, kind), s')"
    and "\<forall>e k. dict_get p cid = Some (e, k) \<longrightarrow> (eg_readonly e \<longleftrightarrow> k \<noteq> Sqlite)"
  shows "eg_readonly eng \<longleftrightarrow> kind \<noteq> Sqlite"
  using assms
  by (auto simp: get_or_create_def Let_def bind_def split: option.splits sum.splits prod.splits)

subsection \<open>Properties\<close>


definition toy_exec :: "engine \<Rightarrow> string executor" where
  "toy_exec eng before sql = Inr ([''name'', ''phone''],
     [[Raw ''Ann'', Raw ''13800001234''], [Raw ''Bob'', Raw ''13900005678''], [Null, Null]])"

definition query_db :: db where
  "query_db = (migrated 0)\<lparr>connections :=
     [\<lparr>cn_id = ''c1'', cn_label = ''main'', cn_kind = ''postgres'', cn_dsn_encrypted = ''x'',
       cn_created_at = 0, cn_last_probe_ok_at = None\<rparr>]\<rparr>"

definition sample_query :: "int \<Rightarrow> (pool \<times> db, exn, string query_response) act" where
  "sample_query n = query_sql toy_sqlglot plain_fernet (\<lambda>v. v) toy_exec ''c1'' ''name,phone'' n 1000
     phone_registry ''postgres''"

lemma toy_gate: "gate toy_sqlglot ''name,phone'' ''postgres'' = pass"
  by (simp add: gate_def toy_sqlglot_def py_strip_def is_space_def tree_of_def is_any_def
      gate_with_def FORBIDDEN_def List.map_filter_simps)

definition sample_resolved :: "resolved_column list" where
  "sample_resolved = [unresolved_column ''name'',
     \<lparr>rc_name = ''phone'', rc_sensitivity = RESTRICTED, rc_masking = MASK_PHONE_MIDDLE,
      rc_is_resolved = True\<rparr>]"

lemma phone_index: "build_physical_to_property_index phone_registry = [(''phone'', phone_property)]"
  by (simp add: build_physical_to_property_index_def all_properties_def phone_registry_def
      empty_registry_def mk_object_type_def consider_property_def phone_property_def dict_set_def)

lemma toy_resolve: "resolve toy_sqlglot phone_registry ''postgres'' ''name,phone'' = Inr sample_resolved"
  by (simp add: resolve_def toy_sqlglot_def outer_select_def tree_of_def phone_index sample_resolved_def
      resolve_projection_def collect_source_columns_def projection_body_def output_name_def
      highest.simps List.map_filter_simps phone_property_def)

lemma sample_run: "\<exists>s'. sample_query n ([], query_db) =
    (Inr (shape_response (\<lambda>v. v) sample_resolved n [''name'', ''phone'']
       [[Raw ''Ann'', Raw ''13800001234''], [Raw ''Bob'', Raw ''13900005678''], [Null, Null]]), s')"
proof -
  have "ensure_limit toy_sqlglot ''name,phone'' ''postgres'' n = Inr ''SELECT''"
    by (simp add: ensure_limit_def toy_sqlglot_def tree_of_def)
  moreover have "\<exists>ek s'. get_or_create plain_fernet ''c1'' ([], query_db) = (Inr ek, s')"
    by (simp add: get_or_create_def query_db_def migrated_def get_by_id_def decrypt_dsn_def act_simps
        find_connection_def connection_of_row_def parse_kind_def plain_fernet_def Let_def)
  ultimately show ?thesis
    by (auto simp: sample_query_def query_sql_def gate_or_raise_def toy_gate toy_resolve act_simps toy_exec_def)
qed




end
