(* ===== verification/Diff.thy ===== *)
theory Diff
  imports Proto_Models
begin

text \<open>
  \<open>registry/diff.py\<close>: the comparison of staging with production. Python's \<open>!=\<close> on two
  definitions compares their fields: dictionaries by entries, numbers and booleans by value. The
  rendering \<open>model_dump\<close> belongs to the model library and is a parameter.
\<close>

subsection \<open>Python equality of the model's values\<close>

fun json_num :: "json \<Rightarrow> rat option" where
  "json_num (JBool b) = Some (if b then 1 else 0)"
| "json_num (JInt i) = Some (of_int i)"
| "json_num (JFloat q) = Some q"
| "json_num _ = None"

function json_eq :: "json \<Rightarrow> json \<Rightarrow> bool" where
  "json_eq (JList xs) j = (case j of JList ys \<Rightarrow>
      length xs = length ys \<and> (\<forall>i \<in> set [0..<length xs]. json_eq (xs ! i) (ys ! i)) | _ \<Rightarrow> False)"
| "json_eq (JObj a) j = (case j of JObj b \<Rightarrow>
      (\<forall>k \<in> set (dict_keys b). dict_has k a) \<and>
      (\<forall>p \<in> set a. case dict_get b (fst p) of None \<Rightarrow> False | Some w \<Rightarrow> json_eq (snd p) w) | _ \<Rightarrow> False)"
| "json_eq (JStr s) j = (j = JStr s)"
| "json_eq JNull j = (j = JNull)"
| "json_eq (JBool b) j = (json_num j = Some (if b then 1 else 0))"
| "json_eq (JInt i) j = (json_num j = Some (of_int i))"
| "json_eq (JFloat q) j = (json_num j = Some q)"
  by pat_completeness auto
termination
proof (relation "measure (\<lambda>(a, b). size a)", goal_cases)
  case (2 xs j ys i)
  then have "xs ! i \<in> set xs" by simp
  then have "size (xs ! i) \<le> size_list size xs" by (rule size_list_estimation') simp
  then show ?case by simp
next
  case (3 a j b p w)
  obtain k v where p: "p = (k, v)" by (cases p)
  have "size_prod (\<lambda>x. 0) size p \<le> size_list (size_prod (\<lambda>x. 0) size) a"
    using 3(2) by (rule size_list_estimation') simp
  then show ?case by (simp add: p)
qed simp

fun widget_eq :: "(string, json) dict \<Rightarrow> (string, json) dict \<Rightarrow> bool" where
  "widget_eq a b = json_eq (JObj a) (JObj b)"

definition shared_eq ::
  "shared_property_type_definition \<Rightarrow> shared_property_type_definition \<Rightarrow> bool" where
  "shared_eq a b = (widget_eq (sp_widget a) (sp_widget b) \<and> a\<lparr>sp_widget := []\<rparr> = b\<lparr>sp_widget := []\<rparr>)"

definition property_eq :: "property_type_definition \<Rightarrow> property_type_definition \<Rightarrow> bool" where
  "property_eq a b = (widget_eq (pt_widget a) (pt_widget b) \<and> a\<lparr>pt_widget := []\<rparr> = b\<lparr>pt_widget := []\<rparr>)"

definition interface_eq :: "interface_type_definition \<Rightarrow> interface_type_definition \<Rightarrow> bool" where
  "interface_eq a b = (a = b)"

definition object_eq :: "object_type_definition \<Rightarrow> object_type_definition \<Rightarrow> bool" where
  "object_eq a b =
     (dict_eq property_eq (ob_property_types a) (ob_property_types b)
      \<and> a\<lparr>ob_property_types := []\<rparr> = b\<lparr>ob_property_types := []\<rparr>)"

definition link_eq :: "link_type_definition \<Rightarrow> link_type_definition \<Rightarrow> bool" where
  "link_eq a b =
     (dict_eq property_eq (lk_property_types a) (lk_property_types b)
      \<and> a\<lparr>lk_property_types := []\<rparr> = b\<lparr>lk_property_types := []\<rparr>)"

definition edit_decl_eq :: "edit_declaration \<Rightarrow> edit_declaration \<Rightarrow> bool" where
  "edit_decl_eq a b =
     (list_all2 widget_eq (property_updates a) (property_updates b)
      \<and> a\<lparr>property_updates := []\<rparr> = b\<lparr>property_updates := []\<rparr>)"

definition action_eq :: "action_type_definition \<Rightarrow> action_type_definition \<Rightarrow> bool" where
  "action_eq a b = (list_all2 edit_decl_eq (ac_edits a) (ac_edits b) \<and> a\<lparr>ac_edits := []\<rparr> = b\<lparr>ac_edits := []\<rparr>)"

subsection \<open>The diff\<close>

record dumps =
  dump_shared :: "shared_property_type_definition \<Rightarrow> json"
  dump_interface :: "interface_type_definition \<Rightarrow> json"
  dump_object :: "object_type_definition \<Rightarrow> json"
  dump_link :: "link_type_definition \<Rightarrow> json"
  dump_action :: "action_type_definition \<Rightarrow> json"

record kind_diff =
  kd_added :: "(string, json) dict"
  kd_removed :: "(string, json) dict"
  kd_modified :: "(string, json \<times> json) dict"

fun added_of :: "('v \<Rightarrow> json) \<Rightarrow> (string, 'v) dict \<Rightarrow> (string, 'v) dict \<Rightarrow> (string, json) dict" where
  "added_of dump [] p = []"
| "added_of dump ((rid, defn) # s) p =
     (if \<not> dict_has rid p then (rid, dump defn) # added_of dump s p else added_of dump s p)"

fun modified_of ::
  "('v \<Rightarrow> 'v \<Rightarrow> bool) \<Rightarrow> ('v \<Rightarrow> json) \<Rightarrow> (string, 'v) dict \<Rightarrow> (string, 'v) dict
     \<Rightarrow> (string, json \<times> json) dict" where
  "modified_of eq dump [] p = []"
| "modified_of eq dump ((rid, defn) # s) p =
     (case dict_get p rid of
        None \<Rightarrow> modified_of eq dump s p
      | Some old \<Rightarrow>
          (if \<not> eq defn old then (rid, (dump defn, dump old)) # modified_of eq dump s p
           else modified_of eq dump s p))"

definition diff_kind ::
  "('v \<Rightarrow> 'v \<Rightarrow> bool) \<Rightarrow> ('v \<Rightarrow> json) \<Rightarrow> (string, 'v) dict \<Rightarrow> (string, 'v) dict \<Rightarrow> kind_diff" where
  "diff_kind eq dump s p =
     \<lparr>kd_added = added_of dump s p, kd_removed = added_of dump p s,
      kd_modified = modified_of eq dump s p\<rparr>"

definition compute_diff :: "dumps \<Rightarrow> registry \<Rightarrow> registry \<Rightarrow> (string, kind_diff) dict" where
  "compute_diff D s p =
     [(''shared_property_types'',
         diff_kind shared_eq (dump_shared D) (shared_property_types s) (shared_property_types p)),
      (''interface_types'',
         diff_kind interface_eq (dump_interface D) (interface_types s) (interface_types p)),
      (''object_types'', diff_kind object_eq (dump_object D) (object_types s) (object_types p)),
      (''link_types'', diff_kind link_eq (dump_link D) (link_types s) (link_types p)),
      (''action_types'', diff_kind action_eq (dump_action D) (action_types s) (action_types p))]"

subsection \<open>Facts\<close>

lemma get_added:
  "dict_get (added_of dump s p) k = (if dict_has k p then None else map_option dump (dict_get s k))"
  by (induction dump s p rule: added_of.induct) (auto simp: dict_has_iff_get)

lemma get_modified:
  "dict_ok s \<Longrightarrow> dict_get (modified_of eq dump s p) k =
     (case (dict_get s k, dict_get p k) of
        (Some a, Some b) \<Rightarrow> if eq a b then None else Some (dump a, dump b) | _ \<Rightarrow> None)"
proof (induction eq dump s p rule: modified_of.induct)
  case (2 eq dump rid defn s p)
  then have "dict_get s rid = None" by (force simp: dict_ok_def map_of_eq_None_iff)
  with 2 show ?case by (auto simp: dict_ok_def split: option.splits)
qed simp

text \<open>The JSON values a parser builds: one entry per key at every level.\<close>

fun json_ok :: "json \<Rightarrow> bool" where
  "json_ok (JList xs) = (\<forall>x \<in> set xs. json_ok x)"
| "json_ok (JObj a) = (dict_ok a \<and> (\<forall>p \<in> set a. json_ok (snd p)))"
| "json_ok _ = True"

lemma json_eq_refl: "json_ok j \<Longrightarrow> json_eq j j"
proof (induction j rule: json_ok.induct)
  case (2 a)
  then have "dict_get a (fst p) = Some (snd p)" if "p \<in> set a" for p
    using that by (simp add: get_iff_mem)
  with 2 show ?case by (simp add: dict_has_def)
qed auto

definition values_ok :: "registry \<Rightarrow> bool" where
  "values_ok r \<longleftrightarrow>
     (\<forall>sp \<in> set (dict_vals (shared_property_types r)). json_ok (JObj (sp_widget sp)))
     \<and> (\<forall>pts \<in> ob_property_types ` set (dict_vals (object_types r))
            \<union> lk_property_types ` set (dict_vals (link_types r)).
          \<forall>pt \<in> set (dict_vals pts). json_ok (JObj (pt_widget pt)))
     \<and> (\<forall>ac \<in> set (dict_vals (action_types r)). \<forall>ed \<in> set (ac_edits ac).
          \<forall>u \<in> set (property_updates ed). json_ok (JObj u))"

lemma dict_empty_iff: "d = [] \<longleftrightarrow> (\<forall>k. dict_get d k = None)"
  by (metis map_of_eq_empty_iff)

lemma diff_kind_empty:
  assumes s: "dict_ok s" and p: "dict_ok p"
  shows "kd_added (diff_kind eq dump s p) = [] \<and> kd_removed (diff_kind eq dump s p) = []
      \<and> kd_modified (diff_kind eq dump s p) = [] \<longleftrightarrow> dict_eq eq s p"
proof -
  have "dict_eq eq s p \<longleftrightarrow> (\<forall>k. (dict_get p k = None \<longleftrightarrow> dict_get s k = None)
      \<and> (\<forall>a b. dict_get s k = Some a \<and> dict_get p k = Some b \<longrightarrow> eq a b))"
    unfolding dict_eq_def dict_has_def [symmetric] Ball_def
    by (auto simp: dict_has_iff_get split: option.splits) (metis not_None_eq option.inject)+
  moreover have "kd_added (diff_kind eq dump s p) = [] \<longleftrightarrow>
      (\<forall>k. dict_get p k = None \<longrightarrow> dict_get s k = None)"
    by (auto simp: diff_kind_def dict_empty_iff get_added dict_has_iff_get)
  moreover have "kd_removed (diff_kind eq dump s p) = [] \<longleftrightarrow>
      (\<forall>k. dict_get s k = None \<longrightarrow> dict_get p k = None)"
    by (auto simp: diff_kind_def dict_empty_iff get_added dict_has_iff_get)
  moreover have "kd_modified (diff_kind eq dump s p) = [] \<longleftrightarrow>
      (\<forall>k a b. dict_get s k = Some a \<and> dict_get p k = Some b \<longrightarrow> eq a b)"
    by (auto simp: diff_kind_def dict_empty_iff get_modified [OF s] split: option.splits)
  ultimately show ?thesis by blast
qed

lemma widget_eq_refl: "json_ok (JObj w) \<Longrightarrow> widget_eq w w"
  by (simp only: widget_eq.simps json_eq_refl)

lemma property_eq_refl: "json_ok (JObj (pt_widget pt)) \<Longrightarrow> property_eq pt pt"
  using widget_eq_refl by (simp add: property_eq_def del: json_ok.simps widget_eq.simps)

lemma self_eq:
  assumes "values_ok r"
  shows "dict_eq shared_eq (shared_property_types r) (shared_property_types r)"
    "dict_eq interface_eq (interface_types r) (interface_types r)"
    "dict_eq object_eq (object_types r) (object_types r)"
    "dict_eq link_eq (link_types r) (link_types r)"
    "dict_eq action_eq (action_types r) (action_types r)"
proof -
  note ok = assms [unfolded values_ok_def]
  have props: "dict_eq property_eq pts pts"
    if "\<forall>pt \<in> set (dict_vals pts). json_ok (JObj (pt_widget pt))" for pts
    using that property_eq_refl by (intro dict_eq_refl) blast
  show "dict_eq shared_eq (shared_property_types r) (shared_property_types r)"
    using ok widget_eq_refl by (intro dict_eq_refl) (auto simp: shared_eq_def simp del: json_ok.simps widget_eq.simps)
  show "dict_eq interface_eq (interface_types r) (interface_types r)"
    by (intro dict_eq_refl) (simp add: interface_eq_def)
  show "dict_eq object_eq (object_types r) (object_types r)"
  proof (intro dict_eq_refl)
    fix d assume "d \<in> set (dict_vals (object_types r))"
    then have "ob_property_types d \<in> ob_property_types ` set (dict_vals (object_types r))
        \<union> lk_property_types ` set (dict_vals (link_types r))" by blast
    then have "\<forall>pt \<in> set (dict_vals (ob_property_types d)). json_ok (JObj (pt_widget pt))"
      using ok by blast
    then show "object_eq d d" by (simp only: object_eq_def props)
  qed
  show "dict_eq link_eq (link_types r) (link_types r)"
  proof (intro dict_eq_refl)
    fix d assume "d \<in> set (dict_vals (link_types r))"
    then have "lk_property_types d \<in> ob_property_types ` set (dict_vals (object_types r))
        \<union> lk_property_types ` set (dict_vals (link_types r))" by blast
    then have "\<forall>pt \<in> set (dict_vals (lk_property_types d)). json_ok (JObj (pt_widget pt))"
      using ok by blast
    then show "link_eq d d" by (simp only: link_eq_def props)
  qed
  show "dict_eq action_eq (action_types r) (action_types r)"
  proof (intro dict_eq_refl)
    fix ac assume "ac \<in> set (dict_vals (action_types r))"
    then have "\<forall>ed \<in> set (ac_edits ac). \<forall>u \<in> set (property_updates ed). widget_eq u u"
      using ok widget_eq_refl by blast
    then show "action_eq ac ac"
      unfolding action_eq_def edit_decl_eq_def list_all2_same by blast
  qed
qed

definition diff_is_empty :: "(string, kind_diff) dict \<Rightarrow> bool" where
  "diff_is_empty d \<longleftrightarrow> list_all (\<lambda>k. kd_added k = [] \<and> kd_removed k = [] \<and> kd_modified k = []) (dict_vals d)"

lemma diff_empty_iff:
  assumes "keys_ok s" "keys_ok p"
  shows "diff_is_empty (compute_diff D s p) \<longleftrightarrow>
      dict_eq shared_eq (shared_property_types s) (shared_property_types p)
      \<and> dict_eq interface_eq (interface_types s) (interface_types p)
      \<and> dict_eq object_eq (object_types s) (object_types p)
      \<and> dict_eq link_eq (link_types s) (link_types p)
      \<and> dict_eq action_eq (action_types s) (action_types p)"
  using assms unfolding keys_ok_def
  by (simp add: diff_is_empty_def compute_diff_def diff_kind_empty)

subsection \<open>Properties\<close>

text \<open>C24: the diff of two registries has no entry in any of the five kinds exactly when the
  registries hold equal entities under equal identifiers, equality being the code's \<open>!=\<close>; in
  particular the diff of a registry with itself is empty.\<close>
theorem compute_diff_empty:
  assumes "keys_ok s" and "keys_ok p" and "values_ok s"
  shows "(diff_is_empty (compute_diff D s p) \<longleftrightarrow>
      dict_eq shared_eq (shared_property_types s) (shared_property_types p)
      \<and> dict_eq interface_eq (interface_types s) (interface_types p)
      \<and> dict_eq object_eq (object_types s) (object_types p)
      \<and> dict_eq link_eq (link_types s) (link_types p)
      \<and> dict_eq action_eq (action_types s) (action_types p))
    \<and> diff_is_empty (compute_diff D s s)"
  using diff_empty_iff assms self_eq [OF assms(3)] by simp

definition sample_object :: object_type_definition where
  "sample_object = (mk_object_type ''ri.obj.1'')\<lparr>ob_property_types :=
     [(''k'', (mk_property_type ''ri.prop.1'')\<lparr>pt_widget := [(''w'', JInt 1)]\<rparr>)]\<rparr>"

definition plain_dumps :: dumps where
  "plain_dumps = \<lparr>dump_shared = (\<lambda>d. JStr (sp_rid d)), dump_interface = (\<lambda>d. JStr (if_rid d)),
     dump_object = (\<lambda>d. JStr (ob_rid d)), dump_link = (\<lambda>d. JStr (lk_rid d)),
     dump_action = (\<lambda>d. JStr (ac_rid d))\<rparr>"

text \<open>Two registries whose widgets differ only as \<open>1\<close> and \<open>1.0\<close> do: their diff is empty.\<close>
theorem compute_diff_empty_witness:
  "diff_is_empty (compute_diff plain_dumps
      (empty_registry\<lparr>object_types := [(''ri.obj.1'', sample_object)]\<rparr>)
      (empty_registry\<lparr>object_types := [(''ri.obj.1'', sample_object\<lparr>ob_property_types :=
         [(''k'', (mk_property_type ''ri.prop.1'')\<lparr>pt_widget := [(''w'', JFloat 1)]\<rparr>)]\<rparr>)]\<rparr>))"
proof -
  let ?s = "empty_registry\<lparr>object_types := [(''ri.obj.1'', sample_object)]\<rparr>"
  let ?p = "empty_registry\<lparr>object_types := [(''ri.obj.1'', sample_object\<lparr>ob_property_types :=
         [(''k'', (mk_property_type ''ri.prop.1'')\<lparr>pt_widget := [(''w'', JFloat 1)]\<rparr>)]\<rparr>)]\<rparr>"
  have "keys_ok ?s" "keys_ok ?p" "values_ok ?s"
    by (simp_all add: keys_ok_def values_ok_def empty_registry_def sample_object_def mk_object_type_def
        mk_property_type_def dict_ok_def)
  from compute_diff_empty [OF this] show ?thesis
    by (simp add: empty_registry_def sample_object_def mk_object_type_def mk_property_type_def
        dict_eq_def object_eq_def property_eq_def dict_has_def)
qed

lemma get_kind:
  "dict_get (compute_diff D s p) ''object_types'' =
     Some (diff_kind object_eq (dump_object D) (object_types s) (object_types p))"
  by (simp add: compute_diff_def)

text \<open>What the diff says of an object type: it is added when only staging has it, removed when
  only production has it, modified, with both renderings, when both have it and differ, and not
  mentioned otherwise.\<close>
theorem compute_diff_object_entry:
  assumes "keys_ok s" and "keys_ok p"
  shows "\<exists>kd. dict_get (compute_diff D s p) ''object_types'' = Some kd
     \<and> dict_get (kd_added kd) rid =
         (if dict_has rid (object_types p) then None
          else map_option (dump_object D) (dict_get (object_types s) rid))
     \<and> dict_get (kd_removed kd) rid =
         (if dict_has rid (object_types s) then None
          else map_option (dump_object D) (dict_get (object_types p) rid))
     \<and> dict_get (kd_modified kd) rid =
         (case (dict_get (object_types s) rid, dict_get (object_types p) rid) of
            (Some a, Some b) \<Rightarrow> if object_eq a b then None else Some (dump_object D a, dump_object D b)
          | _ \<Rightarrow> None)"
  using assms by (simp add: get_kind diff_kind_def get_added get_modified keys_ok_def)

theorem compute_diff_object_entry_witness:
  "\<exists>kd. dict_get (compute_diff plain_dumps (empty_registry\<lparr>object_types := [(''ri.obj.1'', sample_object)]\<rparr>)
        empty_registry) ''object_types'' = Some kd
     \<and> dict_get (kd_added kd) ''ri.obj.1'' = Some (dump_object plain_dumps sample_object)"
proof -
  have "keys_ok (empty_registry\<lparr>object_types := [(''ri.obj.1'', sample_object)]\<rparr>)"
    by (simp add: keys_ok_def empty_registry_def sample_object_def mk_object_type_def
        mk_property_type_def dict_ok_def)
  from compute_diff_object_entry [OF this keys_ok_empty, of plain_dumps "''ri.obj.1''"] show ?thesis
    by (auto simp: empty_registry_def)
qed

end
