(* ===== verification/Registry_Store.thy ===== *)
theory Registry_Store
  imports Database
begin

text \<open>
  \<open>registry/store.py\<close>: loading and saving a registry under an optimistic version check. The locale
  \<open>versioned_store\<close> is the contract of such a store; its facts (a save is read back, a version is
  used up by one save, other environments stay) are proved from the contract and interpreted on
  the two functions of the code.
\<close>

record snapshot =
  sn_env :: env
  sn_registry :: registry
  sn_version :: int

definition load :: "env \<Rightarrow> (db, exn, snapshot) act" where
  "load e = (\<lambda>s. case registries s e of
     None \<Rightarrow> (Inl NoResultFound, s)
   | Some row \<Rightarrow> (Inr \<lparr>sn_env = e, sn_registry = rr_payload row, sn_version = rr_version row\<rparr>, s))"

definition save ::
  "env \<Rightarrow> registry \<Rightarrow> int option \<Rightarrow> string option \<Rightarrow> string option \<Rightarrow> (db, exn, int) act" where
  "save e reg expected_version token_label commit_message = (\<lambda>s.
     case registries s e of
       None \<Rightarrow> (Inl NoResultFound, s)
     | Some row \<Rightarrow>
         (let current = rr_version row in
          if expected_version \<noteq> None \<and> expected_version \<noteq> Some current
          then (Inl (StaleVersionError e (the expected_version) current), s)
          else (let new_version = current + 1;
                    row' = row\<lparr>rr_payload := reg, rr_version := new_version,
                              rr_updated_at := db_now s, rr_updated_by := token_label,
                              rr_commit_message := coalesce commit_message (rr_commit_message row)\<rparr>
                in (Inr new_version, s\<lparr>registries := (registries s)(e \<mapsto> row')\<rparr>))))"

text \<open>What a reader of an environment sees: the payload and its version.\<close>

definition slot :: "db \<Rightarrow> env \<Rightarrow> (registry \<times> int) option" where
  "slot s e = map_option (\<lambda>row. (rr_payload row, rr_version row)) (registries s e)"

definition seeded :: "db \<Rightarrow> bool" where
  "seeded s \<longleftrightarrow> (\<forall>e. registries s e \<noteq> None)"

subsection \<open>The contract\<close>

locale versioned_store =
  fixes view :: "'s \<Rightarrow> 'k \<Rightarrow> ('v \<times> int) option"
    and fetch :: "'k \<Rightarrow> ('s, exn, 'snap) act"
    and put :: "'k \<Rightarrow> 'v \<Rightarrow> int option \<Rightarrow> ('s, exn, int) act"
    and value_of :: "'snap \<Rightarrow> 'v"
    and version_of :: "'snap \<Rightarrow> int"
    and stale :: "'k \<Rightarrow> int \<Rightarrow> int \<Rightarrow> exn"
  assumes read_ok: "view s k = Some (v, n) \<Longrightarrow>
      \<exists>snap. fetch k s = (Inr snap, s) \<and> value_of snap = v \<and> version_of snap = n"
    and read_missing: "view s k = None \<Longrightarrow> \<exists>e. fetch k s = (Inl e, s)"
    and write_ok: "view s k = Some (v, n) \<Longrightarrow> x = None \<or> x = Some n \<Longrightarrow>
      \<exists>s'. put k w x s = (Inr (n + 1), s') \<and> view s' = (view s)(k \<mapsto> (w, n + 1))"
    and write_stale: "view s k = Some (v, n) \<Longrightarrow> m \<noteq> n \<Longrightarrow>
      put k w (Some m) s = (Inl (stale k m n), s)"
    and write_missing: "view s k = None \<Longrightarrow> \<exists>e. put k w x s = (Inl e, s)"
begin

lemma write_cases:
  assumes "put k w x s = (res, s')"
  obtains (saved) v n where "view s k = Some (v, n)" "res = Inr (n + 1)" "x = None \<or> x = Some n"
      "view s' = (view s)(k \<mapsto> (w, n + 1))"
  | (failed) e where "res = Inl e" "s' = s"
proof (cases "view s k")
  case None
  with write_missing [of s k w x] assms that(2) show ?thesis by auto
next
  case (Some vn)
  obtain v n where v: "view s k = Some (v, n)" using Some by (cases vn) auto
  show ?thesis
  proof (cases "x = None \<or> x = Some n")
    case True
    with write_ok [OF v True, of w] assms that(1) [OF v] show ?thesis by auto
  next
    case False
    then obtain m where m: "x = Some m" "m \<noteq> n" by auto
    with write_stale [OF v m(2), of w] assms that(2) show ?thesis by auto
  qed
qed

lemma write_result: "put k w x s = (Inr m, s') \<Longrightarrow> \<exists>v n. view s k = Some (v, n) \<and> m = n + 1
    \<and> (x = None \<or> x = Some n) \<and> view s' = (view s)(k \<mapsto> (w, n + 1))"
  by (erule write_cases) auto

lemma failed_write_frame: "put k w x s = (Inl e, s') \<Longrightarrow> s' = s"
  by (erule write_cases) auto

lemma read_frame: "fetch k s = (res, s') \<Longrightarrow> s' = s"
  by (cases "view s k") (auto dest: read_missing [of s k] read_ok [of s k])

lemma read_result: "fetch k s = (Inr snap, s') \<Longrightarrow> view s k = Some (value_of snap, version_of snap)"
proof (cases "view s k")
  case None
  with read_missing [OF None] show "fetch k s = (Inr snap, s') \<Longrightarrow> ?thesis" by auto
next
  case (Some vn)
  then obtain v n where v: "view s k = Some (v, n)" by (cases vn) auto
  with read_ok [OF v] show "fetch k s = (Inr snap, s') \<Longrightarrow> ?thesis" by auto
qed

lemma read_back:
  assumes "put k w x s = (Inr m, s')"
  shows "\<exists>snap. fetch k s' = (Inr snap, s') \<and> value_of snap = w \<and> version_of snap = m"
proof -
  from write_result [OF assms] have "view s' k = Some (w, m)" by auto
  then show ?thesis by (rule read_ok)
qed

lemma other_keys: "put k w x s = (res, s') \<Longrightarrow> j \<noteq> k \<Longrightarrow> view s' j = view s j"
  by (erule write_cases) auto

text \<open>A version is used up by the first save that names it: no update is lost.\<close>

lemma second_write_stale:
  assumes "put k w (Some n) s = (Inr m, s')"
  shows "put k w' (Some n) s' = (Inl (stale k n m), s')"
proof -
  from write_result [OF assms] have "view s' k = Some (w, m)" "m \<noteq> n" by auto
  then show ?thesis by (intro write_stale) auto
qed

lemma version_grows: "put k w x s = (res, s') \<Longrightarrow> view s j = Some (v, n) \<Longrightarrow>
    \<exists>v' n'. view s' j = Some (v', n') \<and> n \<le> n'"
  by (erule write_cases) (auto split: if_splits)

end

interpretation registry_store: versioned_store slot load "\<lambda>e reg x. save e reg x label msg"
    sn_registry sn_version StaleVersionError for label msg
  by unfold_locales (auto simp: slot_def load_def save_def Let_def fun_eq_iff split: option.splits)

lemma seeded_slot: "seeded s \<longleftrightarrow> (\<forall>e. slot s e \<noteq> None)"
  by (simp add: seeded_def slot_def)

subsection \<open>Running loads and saves\<close>

lemma load_run [act_simps]:
  "load e s = (case slot s e of None \<Rightarrow> (Inl NoResultFound, s)
     | Some (reg, n) \<Rightarrow> (Inr \<lparr>sn_env = e, sn_registry = reg, sn_version = n\<rparr>, s))"
  by (simp add: load_def slot_def split: option.splits)

text \<open>The rest of the database is not the store's business.\<close>

definition same_tables :: "db \<Rightarrow> db \<Rightarrow> bool" where
  "same_tables s s' \<longleftrightarrow> s' = s\<lparr>registries := registries s'\<rparr>"

lemma same_tables_refl [simp]: "same_tables s s"
  by (simp add: same_tables_def)

lemma same_tables_trans: "same_tables s t \<Longrightarrow> same_tables t u \<Longrightarrow> same_tables s u"
  unfolding same_tables_def by (cases s; cases t; cases u) auto

lemma same_tables_fields:
  "same_tables s s' \<Longrightarrow> connections s' = connections s \<and> api_tokens s' = api_tokens s
     \<and> audit_log s' = audit_log s \<and> tx_aborted s' = tx_aborted s \<and> db_now s' = db_now s \<and> ingestion_jobs s' = ingestion_jobs s
     \<and> chat_sessions s' = chat_sessions s \<and> chat_messages s' = chat_messages s"
  unfolding same_tables_def by (cases s; cases s') auto

lemma save_same_tables: "save e reg x label msg s = (res, s') \<Longrightarrow> same_tables s s'"
  by (auto simp: save_def same_tables_def Let_def split: option.splits if_splits)

lemma save_seeded: "save e reg x label msg s = (res, s') \<Longrightarrow> seeded s \<Longrightarrow> seeded s'"
  by (auto simp: save_def seeded_def Let_def split: option.splits if_splits)

text \<open>The state a successful save leaves.\<close>

definition saved :: "env \<Rightarrow> registry \<Rightarrow> string option \<Rightarrow> string option \<Rightarrow> db \<Rightarrow> db" where
  "saved e reg label msg s = snd (save e reg None label msg s)"

lemma save_run [act_simps]:
  "save e reg x label msg s = (case slot s e of
     None \<Rightarrow> (Inl NoResultFound, s)
   | Some (_, n) \<Rightarrow>
       if x \<noteq> None \<and> x \<noteq> Some n then (Inl (StaleVersionError e (the x) n), s)
       else (Inr (n + 1), saved e reg label msg s))"
  by (auto simp: saved_def save_def slot_def Let_def split: option.splits)

lemma slot_saved [simp]:
  "slot s e = Some (r, n) \<Longrightarrow> slot (saved e reg label msg s) = (slot s)(e \<mapsto> (reg, n + 1))"
  by (auto simp: saved_def save_def slot_def Let_def fun_eq_iff)

lemma saved_same_tables: "same_tables s (saved e reg label msg s)"
  by (rule save_same_tables [of e reg None label msg s "fst (save e reg None label msg s)"])
    (simp add: saved_def)

lemma saved_message:
  "registries s e = Some row \<Longrightarrow> registries (saved e reg label msg s) e =
     Some (row\<lparr>rr_payload := reg, rr_version := rr_version row + 1, rr_updated_at := db_now s,
               rr_updated_by := label, rr_commit_message := coalesce msg (rr_commit_message row)\<rparr>)"
  by (simp add: saved_def save_def Let_def)

subsection \<open>Properties\<close>

text \<open>C18: no update is lost. A save that names the version it read succeeds only on that version,
  moves to the next one and is what the next reader sees; any other client that read the same
  version is then refused with the versions it disagrees about and changes nothing; the other
  environments and tables are untouched.\<close>
theorem no_lost_update:
  assumes "save e reg (Some n) label msg s = (Inr m, s')"
  shows "m = n + 1
     \<and> load e s' = (Inr \<lparr>sn_env = e, sn_registry = reg, sn_version = m\<rparr>, s')
     \<and> save e reg' (Some n) label' msg' s' = (Inl (StaleVersionError e n m), s')
     \<and> (\<forall>d. d \<noteq> e \<longrightarrow> slot s' d = slot s d) \<and> same_tables s s'"
proof -
  from registry_store.write_result [OF assms] have view: "m = n + 1" "slot s' e = Some (reg, m)"
      "\<forall>d. d \<noteq> e \<longrightarrow> slot s' d = slot s d"
    by auto
  then have "load e s' = (Inr \<lparr>sn_env = e, sn_registry = reg, sn_version = m\<rparr>, s')"
    by (simp add: load_run)
  with view show ?thesis
    using registry_store.write_stale [OF view(2), of n] save_same_tables [OF assms] by simp
qed

theorem no_lost_update_witness:
  "\<exists>s'. save Staging empty_registry (Some 0) None None (migrated 0) = (Inr 1, s')
     \<and> save Staging empty_registry (Some 0) None None s' = (Inl (StaleVersionError Staging 0 1), s')"
proof -
  obtain s' where run: "save Staging empty_registry (Some 0) None None (migrated 0) = (Inr 1, s')"
    by (simp add: save_run slot_def migrated_def)
  from no_lost_update [OF this] run show ?thesis by blast
qed

end
