(* ===== verification/Regex.thy ===== *)
theory Regex
  imports Prelude
begin

text \<open>
  The regular expressions of the validator and the redactors, as data. \<open>re_full\<close> decides whether
  a whole string is in the language (by derivatives); \<open>re_match_end\<close> is \<open>re.match\<close> with a
  pattern that starts with \<open>^\<close> and ends with \<open>$\<close>, where Python's \<open>$\<close> also matches just
  before one final newline. \<open>re_full_iff\<close> proves the matcher against the language.
\<close>

datatype re =
    Zero
  | One
  | Cls "char \<Rightarrow> bool"
  | Alt re re
  | Cat re re
  | Rep re

inductive_set star_set :: "string set \<Rightarrow> string set" for A :: "string set" where
  star_nil: "[] \<in> star_set A"
| star_step: "u \<in> A \<Longrightarrow> v \<in> star_set A \<Longrightarrow> u @ v \<in> star_set A"

primrec lang :: "re \<Rightarrow> string set" where
  "lang Zero = {}"
| "lang One = {[]}"
| "lang (Cls p) = {[c] | c. p c}"
| "lang (Alt r s) = lang r \<union> lang s"
| "lang (Cat r s) = {u @ v | u v. u \<in> lang r \<and> v \<in> lang s}"
| "lang (Rep r) = star_set (lang r)"

primrec accepts_nil :: "re \<Rightarrow> bool" where
  "accepts_nil Zero = False"
| "accepts_nil One = True"
| "accepts_nil (Cls p) = False"
| "accepts_nil (Alt r s) = (accepts_nil r \<or> accepts_nil s)"
| "accepts_nil (Cat r s) = (accepts_nil r \<and> accepts_nil s)"
| "accepts_nil (Rep r) = True"

primrec after :: "char \<Rightarrow> re \<Rightarrow> re" where
  "after c Zero = Zero"
| "after c One = Zero"
| "after c (Cls p) = (if p c then One else Zero)"
| "after c (Alt r s) = Alt (after c r) (after c s)"
| "after c (Cat r s) =
     (if accepts_nil r then Alt (Cat (after c r) s) (after c s) else Cat (after c r) s)"
| "after c (Rep r) = Cat (after c r) (Rep r)"

fun re_full :: "re \<Rightarrow> string \<Rightarrow> bool" where
  "re_full r [] = accepts_nil r"
| "re_full r (c # s) = re_full (after c r) s"

definition newline :: char where
  "newline = char_of (10::nat)"

definition re_match_end :: "re \<Rightarrow> string \<Rightarrow> bool" where
  "re_match_end r s =
     (re_full r s \<or> (s \<noteq> [] \<and> last s = newline \<and> re_full r (butlast s)))"

subsection \<open>The matcher decides the language\<close>

lemma accepts_nil_iff: "accepts_nil r \<longleftrightarrow> [] \<in> lang r"
  by (induction r) (auto intro: star_nil)

lemma star_set_ConsD:
  assumes "w \<in> star_set A" and "w = c # s"
  shows "\<exists>u v. s = u @ v \<and> c # u \<in> A \<and> v \<in> star_set A"
  using assms
proof (induction arbitrary: c s rule: star_set.induct)
  case (star_step u v)
  then show ?case by (cases u) auto
qed simp

lemma star_set_Cons: "c # s \<in> star_set A \<longleftrightarrow> (\<exists>u v. s = u @ v \<and> c # u \<in> A \<and> v \<in> star_set A)"
proof
  assume "\<exists>u v. s = u @ v \<and> c # u \<in> A \<and> v \<in> star_set A"
  then obtain u v where "s = u @ v" "c # u \<in> A" "v \<in> star_set A" by blast
  then show "c # s \<in> star_set A"
    using star_set.star_step [of "c # u" A v] by simp
qed (blast dest: star_set_ConsD)

lemma in_Cat_Cons:
  "c # s \<in> lang (Cat r q) \<longleftrightarrow>
     (\<exists>u v. s = u @ v \<and> c # u \<in> lang r \<and> v \<in> lang q) \<or> ([] \<in> lang r \<and> c # s \<in> lang q)"
  by (auto simp: Cons_eq_append_conv)

lemma lang_after: "s \<in> lang (after c r) \<longleftrightarrow> c # s \<in> lang r"
proof (induction r arbitrary: s)
  case (Cat r1 r2)
  have "s \<in> lang (Cat (after c r1) r2) \<longleftrightarrow> (\<exists>u v. s = u @ v \<and> c # u \<in> lang r1 \<and> v \<in> lang r2)"
    using Cat.IH(1) by auto
  then show ?case
    using Cat.IH(2) [of s] in_Cat_Cons [of c s r1 r2] by (auto simp: accepts_nil_iff simp del: lang.simps(5))
next
  case (Rep r)
  then show ?case by (auto simp: star_set_Cons)
qed auto

theorem re_full_iff: "re_full r s \<longleftrightarrow> s \<in> lang r"
  by (induction s arbitrary: r) (simp_all add: accepts_nil_iff lang_after)

subsection \<open>Building blocks of patterns\<close>

fun lit :: "string \<Rightarrow> re" where
  "lit [] = One"
| "lit (c # s) = Cat (Cls (\<lambda>x. x = c)) (lit s)"

fun times :: "nat \<Rightarrow> re \<Rightarrow> re" where
  "times 0 r = One"
| "times (Suc n) r = Cat r (times n r)"

definition is_az :: "char \<Rightarrow> bool" where
  "is_az c = (97 \<le> code_point c \<and> code_point c \<le> 122)"

definition is_digit :: "char \<Rightarrow> bool" where
  "is_digit c = (48 \<le> code_point c \<and> code_point c \<le> 57)"

definition is_hex :: "char \<Rightarrow> bool" where
  "is_hex c = (is_digit c \<or> (97 \<le> code_point c \<and> code_point c \<le> 102)
               \<or> (65 \<le> code_point c \<and> code_point c \<le> 70))"

lemma lang_lit [simp]: "lang (lit w) = {w}"
  by (induction w) auto

lemma in_Cat_Cls: "s \<in> lang (Cat (Cls p) r) \<longleftrightarrow> (\<exists>c v. s = c # v \<and> p c \<and> v \<in> lang r)"
  by (cases s) (auto simp: in_Cat_Cons accepts_nil_iff [symmetric] simp del: lang.simps(5))

lemma in_Cat: "s \<in> lang (Cat r q) \<longleftrightarrow> (\<exists>u v. s = u @ v \<and> u \<in> lang r \<and> v \<in> lang q)"
  by auto

lemma in_Cat_lit: "s \<in> lang (Cat (lit w) r) \<longleftrightarrow> (\<exists>v. s = w @ v \<and> v \<in> lang r)"
  by auto

lemma lang_times_Cls: "s \<in> lang (times n (Cls p)) \<longleftrightarrow> length s = n \<and> list_all p s"
proof (induction n arbitrary: s)
  case (Suc n)
  have "s \<in> lang (times (Suc n) (Cls p)) \<longleftrightarrow>
      (\<exists>c v. s = c # v \<and> p c \<and> v \<in> lang (times n (Cls p)))"
    by (simp only: times.simps in_Cat_Cls)
  also have "\<dots> \<longleftrightarrow> (\<exists>c v. s = c # v \<and> p c \<and> length v = n \<and> list_all p v)"
    by (simp only: Suc.IH)
  also have "\<dots> \<longleftrightarrow> length s = Suc n \<and> list_all p s"
    by (cases s) auto
  finally show ?case .
qed auto

lemma star_set_Cls: "s \<in> star_set {[c] | c. p c} \<longleftrightarrow> list_all p s"
proof (induction s)
  case (Cons c s)
  then show ?case by (auto simp: star_set_Cons)
qed (auto intro: star_nil)

end
