(* ===== verification/Interface_Cycles.thy ===== *)
theory Interface_Cycles
  imports Registry_Types
begin

text \<open>
  The depth-first search of \<open>checks/interface_category.py\<close> (rule 3) that reports EXTENDS
  cycles. \<open>visit\<close> is the inner function: colour 0 (absent), 1 (on the stack) or 2 (done), the
  stack as a list, the findings in the order they are yielded. The recursion carries fuel, and
  \<open>visit_enough\<close> shows that one unit per interface plus one always suffices, since each nested
  call first colours an unseen interface. The theorems relate what is reported to the EXTENDS
  relation between interfaces of the registry.
\<close>

type_synonym ifaces = "(string, interface_type_definition) dict"

record dfs =
  colour :: "(string, nat) dict"
  reported :: "finding list"

definition colour_of :: "dfs \<Rightarrow> string \<Rightarrow> nat" where
  "colour_of st rid = (case dict_get (colour st) rid of None \<Rightarrow> 0 | Some c \<Rightarrow> c)"

definition paint :: "string \<Rightarrow> nat \<Rightarrow> dfs \<Rightarrow> dfs" where
  "paint rid c st = st\<lparr>colour := dict_set rid c (colour st)\<rparr>"

definition cycle_finding :: "string \<Rightarrow> string list \<Rightarrow> finding" where
  "cycle_finding rid stack =
     (let cycle = dropWhile (\<lambda>x. x \<noteq> rid) stack @ [rid] in
      err ''INTERFACE_EXTENDS_CYCLE''
        (''interface_types['' @ rid @ ''].extends_interface_type_rids'')
        (''Cycle detected: '' @ join_str '' -> '' cycle)
        [(''cycle'', JList (map JStr cycle))])"

definition report :: "string \<Rightarrow> string list \<Rightarrow> dfs \<Rightarrow> dfs" where
  "report rid stack st = st\<lparr>reported := reported st @ [cycle_finding rid stack]\<rparr>"

text \<open>The parents \<open>visit\<close> follows: those of the node's EXTENDS list that are interfaces.\<close>

definition parents_of :: "ifaces \<Rightarrow> string \<Rightarrow> string list" where
  "parents_of ifs rid =
     (case dict_get ifs rid of
        None \<Rightarrow> []
      | Some node \<Rightarrow> filter (\<lambda>p. dict_has p ifs) (extends_interface_type_rids node))"

function visit :: "ifaces \<Rightarrow> nat \<Rightarrow> string \<Rightarrow> string list \<Rightarrow> dfs \<Rightarrow> dfs option"
  and visit_all :: "ifaces \<Rightarrow> nat \<Rightarrow> string list \<Rightarrow> string list \<Rightarrow> dfs \<Rightarrow> dfs option"
  where
  "visit ifs 0 rid stack st = None"
| "visit ifs (Suc n) rid stack st =
     (if colour_of st rid = 1 then Some (report rid stack st)
      else if colour_of st rid = 2 then Some st
      else map_option (paint rid 2)
             (visit_all ifs n (parents_of ifs rid) (stack @ [rid]) (paint rid 1 st)))"
| "visit_all ifs n [] stack st = Some st"
| "visit_all ifs n (p # ps) stack st =
     (case visit ifs n p stack st of None \<Rightarrow> None | Some st' \<Rightarrow> visit_all ifs n ps stack st')"
  by pat_completeness auto
termination
  by (relation "measures
       [case_sum (\<lambda>(ifs, n, rid, stack, st). n) (\<lambda>(ifs, n, ps, stack, st). n),
        case_sum (\<lambda>x. 0) (\<lambda>(ifs, n, ps, stack, st). Suc (length ps))]") auto

text \<open>The outer loop: every interface that is still unseen.\<close>

fun visit_roots :: "ifaces \<Rightarrow> nat \<Rightarrow> string list \<Rightarrow> dfs \<Rightarrow> dfs option" where
  "visit_roots ifs n [] st = Some st"
| "visit_roots ifs n (rid # rids) st =
     (if colour_of st rid = 0
      then case visit ifs n rid [] st of None \<Rightarrow> None | Some st' \<Rightarrow> visit_roots ifs n rids st'
      else visit_roots ifs n rids st)"

definition dfs_start :: dfs where
  "dfs_start = \<lparr>colour = [], reported = []\<rparr>"

definition check_cycles :: "ifaces \<Rightarrow> finding list" where
  "check_cycles ifs =
     (case visit_roots ifs (Suc (length ifs)) (dict_keys ifs) dfs_start of
        None \<Rightarrow> [] | Some st \<Rightarrow> reported st)"

subsection \<open>Colours\<close>

definition with_colour :: "nat \<Rightarrow> dfs \<Rightarrow> string set" where
  "with_colour c st = {k. colour_of st k = c}"

lemma colour_of_paint [simp]: "colour_of (paint k c st) j = (if j = k then c else colour_of st j)"
  by (simp add: colour_of_def paint_def get_set)

lemma colour_of_report [simp]: "colour_of (report k stack st) j = colour_of st j"
  by (simp add: colour_of_def report_def)

lemma reported_paint [simp]: "reported (paint k c st) = reported st"
  by (simp add: paint_def)

lemma with_colour_report [simp]: "with_colour c (report k stack st) = with_colour c st"
  by (simp add: with_colour_def)

lemma with_colour_paint:
  "with_colour c (paint k d st) =
     (if c = d then insert k (with_colour c st) else with_colour c st - {k})"
  by (auto simp: with_colour_def)

lemma set_parents_of: "p \<in> set (parents_of ifs rid) \<Longrightarrow> dict_has p ifs"
  by (auto simp: parents_of_def split: option.splits)

lemma parents_of_known: "p \<in> set (parents_of ifs rid) \<Longrightarrow> dict_has rid ifs"
  by (cases "dict_get ifs rid") (auto simp: parents_of_def dict_has_iff_get)

subsection \<open>Enough fuel\<close>

definition unseen :: "ifaces \<Rightarrow> dfs \<Rightarrow> string set" where
  "unseen ifs st = {k \<in> set (dict_keys ifs). colour_of st k = 0}"

lemma finite_unseen [simp]: "finite (unseen ifs st)"
  by (simp add: unseen_def)

lemma unseen_paint: "c \<noteq> 0 \<Longrightarrow> unseen ifs (paint k c st) = unseen ifs st - {k}"
  by (auto simp: unseen_def)

lemma card_unseen_le: "card (unseen ifs st) \<le> length ifs"
proof -
  have "card (unseen ifs st) \<le> card (set (dict_keys ifs))"
    by (intro card_mono) (auto simp: unseen_def)
  also have "\<dots> \<le> length ifs"
    using card_length [of "dict_keys ifs"] by simp
  finally show ?thesis .
qed

lemma unseen_report [simp]: "unseen ifs (report k stack st) = unseen ifs st"
  by (simp add: unseen_def)

lemma visit_enough:
  "dict_has rid ifs \<Longrightarrow> card (unseen ifs st) < n \<Longrightarrow> colour_of st rid \<le> 2 \<Longrightarrow>
     (\<forall>k. colour_of st k \<le> 2) \<Longrightarrow>
     \<exists>st'. visit ifs n rid stack st = Some st' \<and> unseen ifs st' \<subseteq> unseen ifs st \<and>
          (\<forall>k. colour_of st' k \<le> 2)"
  "(\<forall>p \<in> set ps. dict_has p ifs) \<Longrightarrow> card (unseen ifs st) < n \<Longrightarrow>
     (\<forall>k. colour_of st k \<le> 2) \<Longrightarrow>
     \<exists>st'. visit_all ifs n ps stack st = Some st' \<and> unseen ifs st' \<subseteq> unseen ifs st \<and>
          (\<forall>k. colour_of st' k \<le> 2)"
proof (induction ifs n rid stack st and ifs n ps stack st rule: visit_visit_all.induct)
  case (2 ifs n rid stack st)
  consider "colour_of st rid = 1" | "colour_of st rid = 2" | "colour_of st rid = 0"
    using "2.prems"(3) by linarith
  then show ?case
  proof cases
    case 3
    have "rid \<in> unseen ifs st"
      using 3 "2.prems"(1) by (simp add: unseen_def dict_has_def)
    then have "card (unseen ifs (paint rid 1 st)) < card (unseen ifs st)"
      using card_Diff1_less [OF finite_unseen] by (simp add: unseen_paint)
    then have "card (unseen ifs (paint rid 1 st)) < n"
      using "2.prems"(2) by simp
    then obtain st' where "visit_all ifs n (parents_of ifs rid) (stack @ [rid]) (paint rid 1 st)
        = Some st'" and "unseen ifs st' \<subseteq> unseen ifs (paint rid 1 st)"
      and "\<forall>k. colour_of st' k \<le> 2"
      using "2.IH" 3 "2.prems"(4) set_parents_of by fastforce
    with 3 show ?thesis by (auto simp: unseen_paint)
  qed (use "2.prems" in auto)
next
  case (4 ifs n p ps stack st)
  then obtain st1 where st1: "visit ifs n p stack st = Some st1"
    "unseen ifs st1 \<subseteq> unseen ifs st" "\<forall>k. colour_of st1 k \<le> 2"
    by fastforce
  then have "card (unseen ifs st1) < n"
    using "4.prems"(2) card_mono [OF finite_unseen st1(2)] by linarith
  with 4 st1 show ?case by fastforce
qed auto

lemma visit_roots_enough:
  "(\<forall>r \<in> set rids. dict_has r ifs) \<Longrightarrow> card (unseen ifs st) < n \<Longrightarrow>
     (\<forall>k. colour_of st k \<le> 2) \<Longrightarrow> \<exists>st'. visit_roots ifs n rids st = Some st'"
proof (induction rids arbitrary: st)
  case (Cons r rids)
  show ?case
  proof (cases "colour_of st r = 0")
    case True
    obtain st1 where st1: "visit ifs n r [] st = Some st1" "unseen ifs st1 \<subseteq> unseen ifs st"
      "\<forall>k. colour_of st1 k \<le> 2"
      using visit_enough(1) [of r ifs st n] Cons.prems by fastforce
    then have "card (unseen ifs st1) < n"
      using Cons.prems(2) card_mono [OF finite_unseen st1(2)] by linarith
    with Cons st1 True show ?thesis by simp
  qed (use Cons in simp)
qed simp

lemma check_cycles_runs:
  "\<exists>st. visit_roots ifs (Suc (length ifs)) (dict_keys ifs) dfs_start = Some st"
  by (rule visit_roots_enough)
    (auto simp: dict_has_def dfs_start_def colour_of_def less_Suc_eq_le card_unseen_le)

subsection \<open>What is reported\<close>

definition extends_rel :: "ifaces \<Rightarrow> (string \<times> string) set" where
  "extends_rel ifs = {(a, b). b \<in> set (parents_of ifs a)}"

definition extends_path :: "ifaces \<Rightarrow> string list \<Rightarrow> bool" where
  "extends_path ifs xs = successively (\<lambda>a b. b \<in> set (parents_of ifs a)) xs"

text \<open>A reported cycle: a path of EXTENDS steps that comes back to where it started.\<close>

definition real_cycle :: "ifaces \<Rightarrow> string list \<Rightarrow> bool" where
  "real_cycle ifs c \<longleftrightarrow> 2 \<le> length c \<and> hd c = last c \<and> extends_path ifs c"

definition cycle_of :: "string \<Rightarrow> string list \<Rightarrow> string list" where
  "cycle_of rid stack = dropWhile (\<lambda>x. x \<noteq> rid) stack @ [rid]"

definition is_report :: "ifaces \<Rightarrow> finding \<Rightarrow> bool" where
  "is_report ifs f \<longleftrightarrow> (\<exists>rid stack. f = cycle_finding rid stack \<and> real_cycle ifs (cycle_of rid stack))"

definition settled :: "ifaces \<Rightarrow> dfs \<Rightarrow> bool" where
  "settled ifs st \<longleftrightarrow>
     (\<forall>a \<in> with_colour 2 st. set (parents_of ifs a) \<subseteq> with_colour 2 st)
     \<and> acyclic (extends_rel ifs \<inter> with_colour 2 st \<times> with_colour 2 st)"

definition advances :: "ifaces \<Rightarrow> dfs \<Rightarrow> dfs \<Rightarrow> string set \<Rightarrow> bool" where
  "advances ifs st st' done \<longleftrightarrow>
     with_colour 1 st' = with_colour 1 st \<and> with_colour 2 st \<subseteq> with_colour 2 st' \<and>
     (\<exists>fs. reported st' = reported st @ fs \<and> list_all (is_report ifs) fs \<and>
        (fs = [] \<longrightarrow> settled ifs st \<longrightarrow> settled ifs st' \<and> done \<subseteq> with_colour 2 st'))"

lemma advances_refl: "done \<subseteq> with_colour 2 st \<Longrightarrow> advances ifs st st done"
  by (auto simp: advances_def)

lemma advances_trans:
  assumes "advances ifs st st1 D" and "advances ifs st1 st2 F"
  shows "advances ifs st st2 (D \<union> F)"
proof -
  obtain fs gs where "reported st1 = reported st @ fs" "list_all (is_report ifs) fs"
    "fs = [] \<longrightarrow> settled ifs st \<longrightarrow> settled ifs st1 \<and> D \<subseteq> with_colour 2 st1"
    "reported st2 = reported st1 @ gs" "list_all (is_report ifs) gs"
    "gs = [] \<longrightarrow> settled ifs st1 \<longrightarrow> settled ifs st2 \<and> F \<subseteq> with_colour 2 st2"
    using assms by (auto simp: advances_def)
  with assms show ?thesis
    by (auto simp: advances_def intro!: exI [where x = "fs @ gs"])
qed

text \<open>The stack holds the nodes in progress, and is a path that the current node continues.\<close>

definition on_stack :: "ifaces \<Rightarrow> string list \<Rightarrow> dfs \<Rightarrow> bool" where
  "on_stack ifs stack st \<longleftrightarrow> with_colour 1 st = set stack \<and> extends_path ifs stack"

lemma path_snoc:
  "extends_path ifs (stack @ [rid]) \<longleftrightarrow>
     extends_path ifs stack \<and> (stack = [] \<or> rid \<in> set (parents_of ifs (last stack)))"
  by (auto simp: extends_path_def successively_append_iff)

lemma path_dropWhile: "extends_path ifs xs \<Longrightarrow> extends_path ifs (dropWhile P xs)"
  unfolding extends_path_def
  by (metis successively_append_iff takeWhile_dropWhile_id)

lemma stack_gives_cycle:
  assumes "rid \<in> set stack" and "extends_path ifs (stack @ [rid])"
  shows "real_cycle ifs (cycle_of rid stack)"
proof -
  define d where "d = dropWhile (\<lambda>x. x \<noteq> rid) stack"
  have ne: "d \<noteq> []" and hd: "hd d = rid"
    using assms(1) hd_dropWhile [of "\<lambda>x. x \<noteq> rid" stack] by (auto simp: d_def)
  have last: "last d = last stack"
    using ne by (metis d_def last_appendR takeWhile_dropWhile_id)
  have "extends_path ifs (d @ [rid])"
    using assms ne path_dropWhile [of ifs stack "\<lambda>x. x \<noteq> rid"]
    by (auto simp: path_snoc last simp flip: d_def)
  then show ?thesis
    using ne hd by (cases d) (auto simp: real_cycle_def cycle_of_def simp flip: d_def)
qed

lemma acyclic_add_source:
  assumes "acyclic R" and "R \<subseteq> B \<times> B" and "x \<notin> B" and "Y \<subseteq> B"
  shows "acyclic (R \<union> {x} \<times> Y)"
proof -
  have "b \<in> B \<and> (a \<in> B \<longrightarrow> (a, b) \<in> R\<^sup>+)" if "(a, b) \<in> (R \<union> {x} \<times> Y)\<^sup>+" for a b
    using that
  proof (induction rule: trancl_induct)
    case (base y)
    then show ?case using assms by auto
  next
    case (step y z)
    then show ?case using assms by (auto intro: trancl_into_trancl)
  qed
  with assms(1) show ?thesis by (auto simp: acyclic_def)
qed

lemma settled_paint:
  assumes "settled ifs st" and "colour_of st rid \<noteq> 2"
    and "set (parents_of ifs rid) \<subseteq> with_colour 2 st"
  shows "settled ifs (paint rid 2 st)"
proof -
  let ?B = "with_colour 2 st"
  have B: "with_colour 2 (paint rid 2 st) = insert rid ?B"
    by (simp add: with_colour_paint)
  have rid: "rid \<notin> ?B" using assms(2) by (simp add: with_colour_def)
  have closed: "\<forall>a \<in> ?B. set (parents_of ifs a) \<subseteq> ?B"
    using assms(1) by (simp add: settled_def)
  have "extends_rel ifs \<inter> insert rid ?B \<times> insert rid ?B \<subseteq>
      (extends_rel ifs \<inter> ?B \<times> ?B) \<union> {rid} \<times> set (parents_of ifs rid)"
    using closed by (auto simp: extends_rel_def)
  moreover have "acyclic ((extends_rel ifs \<inter> ?B \<times> ?B) \<union> {rid} \<times> set (parents_of ifs rid))"
    using assms rid by (intro acyclic_add_source [where B = ?B]) (auto simp: settled_def)
  ultimately show ?thesis
    using closed assms(3) by (auto simp: settled_def B intro: acyclic_subset)
qed

lemma visit_advances:
  "visit ifs n rid stack st = Some st' \<Longrightarrow> on_stack ifs stack st \<Longrightarrow>
     extends_path ifs (stack @ [rid]) \<Longrightarrow> advances ifs st st' {rid}"
  "visit_all ifs n ps stack st = Some st' \<Longrightarrow> on_stack ifs stack st \<Longrightarrow>
     (\<forall>p \<in> set ps. extends_path ifs (stack @ [p])) \<Longrightarrow> advances ifs st st' (set ps)"
proof (induction ifs n rid stack st and ifs n ps stack st arbitrary: st' and st'
    rule: visit_visit_all.induct)
  case (2 ifs n rid stack st)
  show ?case
  proof (cases "colour_of st rid = 1")
    case True
    then have "rid \<in> set stack"
      using "2.prems"(2) by (auto simp: on_stack_def with_colour_def)
    then have "is_report ifs (cycle_finding rid stack)"
      using stack_gives_cycle [OF _ "2.prems"(3)] unfolding is_report_def by blast
    with True "2.prems"(1) show ?thesis
      by (auto simp: advances_def report_def with_colour_def colour_of_def)
  next
    case not1: False
    show ?thesis
    proof (cases "colour_of st rid = 2")
      case True
      with not1 "2.prems"(1) show ?thesis
        by (auto simp: with_colour_def intro: advances_refl)
    next
      case False
      let ?st1 = "paint rid 1 st"
      obtain st2 where st2: "visit_all ifs n (parents_of ifs rid) (stack @ [rid]) ?st1 = Some st2"
        and st': "st' = paint rid 2 st2"
        using not1 False "2.prems"(1) by auto
      have "on_stack ifs (stack @ [rid]) ?st1"
        using "2.prems"(2,3) by (auto simp: on_stack_def with_colour_paint)
      moreover have "\<forall>p \<in> set (parents_of ifs rid). extends_path ifs ((stack @ [rid]) @ [p])"
        using "2.prems"(3) by (subst path_snoc) simp
      ultimately have adv: "advances ifs ?st1 st2 (set (parents_of ifs rid))"
        using "2.IH" not1 False st2 by blast
      have white: "with_colour 2 ?st1 = with_colour 2 st"
        using False by (auto simp: with_colour_paint) (simp add: with_colour_def)
      have grey: "rid \<in> with_colour 1 st2" and "with_colour 1 st2 = insert rid (with_colour 1 st)"
        using adv by (auto simp: advances_def with_colour_paint)
      then have "with_colour 1 st' = with_colour 1 st"
        using not1 by (auto simp: st' with_colour_paint) (simp add: with_colour_def)
      moreover have "settled ifs ?st1 = settled ifs st"
        by (simp only: settled_def white)
      moreover have "colour_of st2 rid \<noteq> 2"
        using grey by (simp add: with_colour_def)
      ultimately show ?thesis
        using adv settled_paint [of ifs st2 rid] white
        by (auto simp: advances_def st' with_colour_paint)
    qed
  qed
next
  case (4 ifs n p ps stack st)
  then obtain st1 where st1: "visit ifs n p stack st = Some st1"
    and rest: "visit_all ifs n ps stack st1 = Some st'"
    by (auto split: option.splits)
  have adv1: "advances ifs st st1 {p}"
    using 4 st1 by auto
  then have "on_stack ifs stack st1"
    using "4.prems"(2) by (auto simp: on_stack_def advances_def)
  then have "advances ifs st1 st' (set ps)"
    using "4.IH"(2) [OF st1 rest] "4.prems"(3) by simp
  from advances_trans [OF adv1 this] show ?case by simp
qed (auto simp: advances_refl)

lemma visit_roots_advances:
  "visit_roots ifs n rids st = Some st' \<Longrightarrow> with_colour 1 st = {} \<Longrightarrow>
     \<forall>k. colour_of st k \<le> 2 \<Longrightarrow> \<forall>r \<in> set rids. dict_has r ifs \<Longrightarrow> card (unseen ifs st) < n \<Longrightarrow>
     advances ifs st st' (set rids)"
proof (induction rids arbitrary: st)
  case (Cons r rids)
  show ?case
  proof (cases "colour_of st r = 0")
    case True
    then obtain st1 where st1: "visit ifs n r [] st = Some st1"
      and rest: "visit_roots ifs n rids st1 = Some st'"
      using Cons.prems(1) by (auto split: option.splits)
    have adv: "advances ifs st st1 {r}"
      using st1 Cons.prems(2) by (intro visit_advances(1)) (auto simp: on_stack_def extends_path_def)
    have more: "unseen ifs st1 \<subseteq> unseen ifs st \<and> (\<forall>k. colour_of st1 k \<le> 2)"
      using visit_enough(1) [of r ifs st n "[]"] st1 Cons.prems by auto
    then have "card (unseen ifs st1) < n"
      using Cons.prems(5) card_mono [OF finite_unseen, of "unseen ifs st1" ifs st] by linarith
    moreover have "with_colour 1 st1 = {}"
      using adv Cons.prems(2) by (simp add: advances_def)
    ultimately have "advances ifs st1 st' (set rids)"
      using more rest Cons.IH Cons.prems(4) by simp
    from advances_trans [OF adv this] show ?thesis by simp
  next
    case False
    moreover have "colour_of st r \<noteq> 1"
      using Cons.prems(2) by (auto simp: with_colour_def)
    moreover have "colour_of st r \<le> 2"
      using Cons.prems(3) by blast
    ultimately have "colour_of st r = 2"
      by linarith
    then have "r \<in> with_colour 2 st"
      by (simp add: with_colour_def)
    then have "advances ifs st st {r}" by (simp add: advances_refl)
    moreover have "advances ifs st st' (set rids)"
      using False Cons by simp
    ultimately show ?thesis using advances_trans by fastforce
  qed
qed (simp add: advances_refl)

lemma check_cycles_advances:
  "\<exists>st. check_cycles ifs = reported st \<and> advances ifs dfs_start st (set (dict_keys ifs))"
proof -
  obtain st where st: "visit_roots ifs (Suc (length ifs)) (dict_keys ifs) dfs_start = Some st"
    using check_cycles_runs by blast
  have "advances ifs dfs_start st (set (dict_keys ifs))"
    by (intro visit_roots_advances [OF st])
      (auto simp: dfs_start_def with_colour_def colour_of_def dict_has_def less_Suc_eq_le
        card_unseen_le)
  with st show ?thesis by (auto simp: check_cycles_def)
qed

lemma real_cycle_not_acyclic:
  assumes "real_cycle ifs c"
  shows "\<not> acyclic (extends_rel ifs)"
proof -
  have "(hd xs, last xs) \<in> (extends_rel ifs)\<^sup>+" if "extends_path ifs xs" "2 \<le> length xs" for xs
    using that
  proof (induction xs rule: induct_list012)
    case (3 x y zs)
    then have "(x, y) \<in> extends_rel ifs" by (simp add: extends_path_def extends_rel_def)
    with 3 show ?case
      by (cases zs) (auto simp: extends_path_def intro: trancl_into_trancl2)
  qed auto
  from this [of c] assms show ?thesis
    by (auto simp: real_cycle_def acyclic_def)
qed

text \<open>Every finding is a real cycle of EXTENDS edges; none is missed.\<close>

lemma check_cycles_sound: "f \<in> set (check_cycles ifs) \<Longrightarrow> is_report ifs f"
  using check_cycles_advances [of ifs]
  by (auto simp: advances_def dfs_start_def list_all_iff)

lemma check_cycles_errors: "f \<in> set (check_cycles ifs) \<Longrightarrow> is_error f"
  using check_cycles_sound [of f ifs] by (auto simp: is_report_def cycle_finding_def Let_def)

lemma check_cycles_iff: "check_cycles ifs = [] \<longleftrightarrow> acyclic (extends_rel ifs)"
proof
  assume none: "check_cycles ifs = []"
  then obtain st where adv: "advances ifs dfs_start st (set (dict_keys ifs))" "reported st = []"
    using check_cycles_advances [of ifs] by auto
  have "settled ifs dfs_start"
    by (simp add: settled_def with_colour_def dfs_start_def colour_of_def acyclic_def)
  then have st: "settled ifs st" "set (dict_keys ifs) \<subseteq> with_colour 2 st"
    using adv by (auto simp: advances_def)
  have "extends_rel ifs \<subseteq> set (dict_keys ifs) \<times> set (dict_keys ifs)"
    using set_parents_of [of _ ifs] parents_of_known [of _ ifs] by (auto simp: extends_rel_def dict_has_def)
  with st(2) have "extends_rel ifs \<subseteq> extends_rel ifs \<inter> with_colour 2 st \<times> with_colour 2 st"
    by blast
  with st(1) show "acyclic (extends_rel ifs)"
    unfolding settled_def by (blast intro: acyclic_subset)
next
  assume ac: "acyclic (extends_rel ifs)"
  show "check_cycles ifs = []"
  proof (rule ccontr)
    assume "check_cycles ifs \<noteq> []"
    then obtain f where "f \<in> set (check_cycles ifs)"
      by (cases "check_cycles ifs") auto
    then have "is_report ifs f" by (rule check_cycles_sound)
    with ac show False by (auto simp: is_report_def dest: real_cycle_not_acyclic)
  qed
qed

subsection \<open>Properties\<close>

text \<open>C4: cycle detection. The depth-first search ends on every set of interfaces, reports nothing
  exactly when the extension relation between known interfaces has no cycle, and every finding it
  reports is an error about a real cycle: a path of extensions that returns to its start.\<close>
theorem cycle_detection_correct:
  "(check_cycles ifs = [] \<longleftrightarrow> acyclic (extends_rel ifs))
   \<and> \<not> (\<exists>f \<in> set (check_cycles ifs). \<not> (is_error f \<and> is_report ifs f))
   \<and> (\<exists>st. visit_roots ifs (Suc (length ifs)) (dict_keys ifs) dfs_start = Some st)"
  using check_cycles_iff [of ifs] check_cycles_sound [of _ ifs] check_cycles_errors [of _ ifs]
    check_cycles_runs [of ifs] by blast

end
