(* ===== verification/Validator.thy ===== *)
theory Validator
  imports Regex Interface_Cycles
begin

text \<open>
  The validator: the six checkers of \<open>registry/checks/\<close> in the order \<open>checks/__init__.py\<close>
  registers them, and \<open>validate\<close> of \<open>registry/validator.py\<close>, which runs them all and
  collects what they yield. A checker is a function from the registry (and the connection ids) to
  the list of its findings.
\<close>

named_theorems check_defs \<open>the checkers' definitions\<close>

definition entity_path :: "string \<Rightarrow> string \<Rightarrow> string" where
  "entity_path kind rid = kind @ ''['' @ rid @ '']''"

definition pt_path :: "string \<Rightarrow> string \<Rightarrow> string" where
  "pt_path base k = base @ ''.property_types['' @ k @ '']''"

subsection \<open>Structure: RIDs and API names\<close>

definition hex_run :: "nat \<Rightarrow> re" where
  "hex_run n = times n (Cls is_hex)"

definition rid_kinds :: "string list" where
  "rid_kinds = [''shprop'', ''prop'', ''iface'', ''obj'', ''link'', ''action'']"

definition uuid_re :: re where
  "uuid_re =
     Cat (hex_run 8) (Cat (lit ''-'') (Cat (hex_run 4) (Cat (lit ''-'') (Cat (hex_run 4)
       (Cat (lit ''-'') (Cat (hex_run 4) (Cat (lit ''-'') (hex_run 12))))))))"

definition RID_RE :: re where
  "RID_RE =
     Cat (lit ''ri.'') (Cat (foldr (\<lambda>k r. Alt (lit k) r) rid_kinds Zero) (Cat (lit ''.'') uuid_re))"

definition is_name_char :: "char \<Rightarrow> bool" where
  "is_name_char c = (is_az c \<or> is_digit c)"

definition API_NAME_RE :: re where
  "API_NAME_RE =
     Cat (Cls is_az) (Cat (Rep (Cls is_name_char))
       (Rep (Cat (lit ''_'') (Cat (Cls is_name_char) (Rep (Cls is_name_char))))))"

definition api_name_pattern :: string where
  "api_name_pattern = ''^[a-z][a-z0-9]*(_[a-z0-9]+)*$''"

text \<open>Group 1 of a match of \<open>RID_RE\<close>: the text between the first two dots.\<close>

definition rid_kind :: "string \<Rightarrow> string" where
  "rid_kind rid = takeWhile (\<lambda>c. c \<noteq> CHR ''.'') (drop 3 rid)"

definition check_rid :: "string \<Rightarrow> string \<Rightarrow> string \<Rightarrow> finding list" where
  "check_rid rid expected path =
     (if \<not> re_match_end RID_RE rid
      then [err ''RID_FORMAT'' path
              (''Invalid RID format (expected ri.'' @ expected @ ''.<uuid>): '' @ py_repr rid) []]
      else if rid_kind rid \<noteq> expected
      then [err ''RID_FORMAT'' path
              (''RID prefix '' @ py_repr (rid_kind rid) @ '' does not match entity kind ''
                @ py_repr expected) []]
      else [])"

definition check_api_name :: "string \<Rightarrow> string \<Rightarrow> finding list" where
  "check_api_name api_name path =
     (if re_match_end API_NAME_RE api_name then []
      else [err ''API_NAME_FORMAT'' path
              (''Invalid api_name '' @ py_repr api_name @ '' (must match '' @ api_name_pattern @ '')'') []])"

definition check_name_fields :: "string \<Rightarrow> string \<Rightarrow> string \<Rightarrow> string \<Rightarrow> finding list" where
  "check_name_fields prefix base rid api_name =
     check_rid rid prefix (base @ ''.rid'')
     @ (if api_name \<noteq> [] then check_api_name api_name (base @ ''.api_name'') else [])"

definition check_property_names :: "string \<Rightarrow> (string, property_type_definition) dict \<Rightarrow> finding list" where
  "check_property_names base pts =
     concat (map (\<lambda>(k, pt). check_name_fields ''prop'' (pt_path base k) (pt_rid pt) (pt_api_name pt)) pts)"

definition check_structural :: "registry \<Rightarrow> finding list" where
  "check_structural r =
     concat (map (\<lambda>(rid, d). check_name_fields ''shprop'' (entity_path ''shared_property_types'' rid)
                    (sp_rid d) (sp_api_name d)) (shared_property_types r))
     @ concat (map (\<lambda>(rid, d). check_name_fields ''iface'' (entity_path ''interface_types'' rid)
                    (if_rid d) (if_api_name d)) (interface_types r))
     @ concat (map (\<lambda>(rid, d). check_name_fields ''obj'' (entity_path ''object_types'' rid)
                    (ob_rid d) (ob_api_name d)
                  @ check_property_names (entity_path ''object_types'' rid) (ob_property_types d))
                (object_types r))
     @ concat (map (\<lambda>(rid, d). check_name_fields ''link'' (entity_path ''link_types'' rid)
                    (lk_rid d) (lk_api_name d)
                  @ check_property_names (entity_path ''link_types'' rid) (lk_property_types d))
                (link_types r))
     @ concat (map (\<lambda>(rid, d). check_name_fields ''action'' (entity_path ''action_types'' rid)
                    (ac_rid d) (ac_api_name d)) (action_types r))"

subsection \<open>References\<close>

definition missing ::
  "string \<Rightarrow> string set \<Rightarrow> string set \<Rightarrow> string set \<Rightarrow> string set \<Rightarrow> string set \<Rightarrow> string list \<Rightarrow> bool" where
  "missing rid sp_set iface_set obj_set link_set action_set kinds =
     (if rid = [] then False
      else \<not> list_ex
        (\<lambda>k. case map_of
             [(''shared_property_types'', sp_set), (''interface_types'', iface_set),
              (''object_types'', obj_set), (''link_types'', link_set),
              (''action_types'', action_set)] k of
           None \<Rightarrow> False | Some pool \<Rightarrow> rid \<in> pool)
        kinds)"

definition missing_in :: "registry \<Rightarrow> string \<Rightarrow> string \<Rightarrow> bool" where
  "missing_in r kind rid =
     missing rid (set (dict_keys (shared_property_types r))) (set (dict_keys (interface_types r)))
       (set (dict_keys (object_types r))) (set (dict_keys (link_types r)))
       (set (dict_keys (action_types r))) [kind]"

definition ref_err :: "string \<Rightarrow> string \<Rightarrow> string \<Rightarrow> finding" where
  "ref_err path rid expected =
     err ''REF_NOT_FOUND'' path (''Referenced '' @ expected @ '' '' @ py_repr rid @ '' does not exist'')
       [(''rid'', JStr rid), (''expected'', JStr expected)]"

definition check_ref :: "registry \<Rightarrow> string \<Rightarrow> string \<Rightarrow> string \<Rightarrow> string \<Rightarrow> finding list" where
  "check_ref r kind expected path rid = (if missing_in r kind rid then [ref_err path rid expected] else [])"

definition check_local_keys ::
  "string \<Rightarrow> (string, property_type_definition) dict \<Rightarrow> string list \<Rightarrow> finding list" where
  "check_local_keys base pts keys =
     concat (map (\<lambda>k. if k \<noteq> [] \<and> k \<notin> set (map pt_rid (dict_vals pts))
                      then [ref_err (base @ ''.primary_key_property_type_rids'') k ''local PropertyType'']
                      else []) keys)"

definition check_inherits :: "registry \<Rightarrow> string \<Rightarrow> (string, property_type_definition) dict \<Rightarrow> finding list" where
  "check_inherits r base pts =
     concat (map (\<lambda>(k, pt). check_ref r ''shared_property_types'' ''SharedPropertyType''
                     (pt_path base k @ ''.inherit_from_shared_property_type_rid'')
                     (inherit_from_shared_property_type_rid pt)) pts)"

definition refs_of_object :: "registry \<Rightarrow> string \<Rightarrow> object_type_definition \<Rightarrow> finding list" where
  "refs_of_object r rid obj =
     (let base = entity_path ''object_types'' rid in
      concat (map (check_ref r ''interface_types'' ''InterfaceType''
                     (base @ ''.implements_interface_type_rids'')) (ob_implements obj))
      @ check_local_keys base (ob_property_types obj) (ob_primary_key obj)
      @ check_inherits r base (ob_property_types obj))"

definition refs_of_link :: "registry \<Rightarrow> string \<Rightarrow> link_type_definition \<Rightarrow> finding list" where
  "refs_of_link r rid lt =
     (let base = entity_path ''link_types'' rid in
      check_ref r ''object_types'' ''ObjectType'' (base @ ''.source_object_type_rid'')
        (source_object_type_rid lt)
      @ check_ref r ''interface_types'' ''InterfaceType'' (base @ ''.source_interface_type_rid'')
        (source_interface_type_rid lt)
      @ check_ref r ''object_types'' ''ObjectType'' (base @ ''.target_object_type_rid'')
        (target_object_type_rid lt)
      @ check_ref r ''interface_types'' ''InterfaceType'' (base @ ''.target_interface_type_rid'')
        (target_interface_type_rid lt)
      @ concat (map (check_ref r ''interface_types'' ''InterfaceType''
                     (base @ ''.implements_interface_type_rids'')) (lk_implements lt))
      @ check_local_keys base (lk_property_types lt) (lk_primary_key lt)
      @ check_inherits r base (lk_property_types lt))"

definition refs_of_interface :: "registry \<Rightarrow> string \<Rightarrow> interface_type_definition \<Rightarrow> finding list" where
  "refs_of_interface r rid iface =
     (let base = entity_path ''interface_types'' rid in
      concat (map (check_ref r ''interface_types'' ''InterfaceType''
                     (base @ ''.extends_interface_type_rids'')) (extends_interface_type_rids iface))
      @ concat (map (check_ref r ''shared_property_types'' ''SharedPropertyType''
                     (base @ ''.required_shared_property_type_rids''))
                 (required_shared_property_type_rids iface)))"

definition param_path :: "string \<Rightarrow> nat \<Rightarrow> string" where
  "param_path base i = base @ ''.parameters['' @ nat_str i @ '']''"

definition refs_of_action :: "registry \<Rightarrow> string \<Rightarrow> action_type_definition \<Rightarrow> finding list" where
  "refs_of_action r rid action =
     concat (map (\<lambda>(i, p).
         (let base = param_path (entity_path ''action_types'' rid) i in
          check_ref r ''object_types'' ''ObjectType'' (base @ ''.derived_from_object_type_rid'')
            (derived_from_object_type_rid p)
          @ check_ref r ''link_types'' ''LinkType'' (base @ ''.derived_from_link_type_rid'')
            (derived_from_link_type_rid p)
          @ check_ref r ''interface_types'' ''InterfaceType'' (base @ ''.derived_from_interface_type_rid'')
            (derived_from_interface_type_rid p)))
       (enumerate 0 (ac_parameters action)))"

definition check_refs :: "registry \<Rightarrow> finding list" where
  "check_refs r =
     concat (map (\<lambda>(rid, d). refs_of_object r rid d) (object_types r))
     @ concat (map (\<lambda>(rid, d). refs_of_link r rid d) (link_types r))
     @ concat (map (\<lambda>(rid, d). refs_of_interface r rid d) (interface_types r))
     @ concat (map (\<lambda>(rid, d). refs_of_action r rid d) (action_types r))"

subsection \<open>Interface categories\<close>

text \<open>\<open>f"{category}"\<close> and \<open>f"{category!r}"\<close> of a \<open>(str, Enum)\<close> member.\<close>

definition category_str :: "interface_category \<Rightarrow> string" where
  "category_str c = ''InterfaceCategory.'' @ interface_category_value c"

definition category_repr :: "interface_category \<Rightarrow> string" where
  "category_repr c = ''<'' @ category_str c @ '': '' @ py_repr (interface_category_value c) @ ''>''"

definition category_shape :: "string \<Rightarrow> interface_type_definition \<Rightarrow> finding list" where
  "category_shape base iface =
     (case if_category iface of
        OBJECT_INTERFACE \<Rightarrow>
          (if object_constraint iface \<noteq> None
           then [err ''INTERFACE_CATEGORY_MISMATCH'' (base @ ''.object_constraint'')
                   ''OBJECT_INTERFACE must not carry object_constraint'' []]
           else [])
      | LINK_INTERFACE \<Rightarrow>
          (if link_requirements iface \<noteq> []
           then [err ''INTERFACE_CATEGORY_MISMATCH'' (base @ ''.link_requirements'')
                   ''LINK_INTERFACE must not carry link_requirements'' []]
           else [])
      | INTERFACE_CATEGORY_INVALID \<Rightarrow>
          [err ''INTERFACE_CATEGORY_INVALID'' (base @ ''.category'')
             (''Interface category '' @ category_repr (if_category iface) @ '' is invalid'') []])"

definition extends_category :: "ifaces \<Rightarrow> string \<Rightarrow> interface_type_definition \<Rightarrow> finding list" where
  "extends_category ifs base iface =
     concat (map (\<lambda>parent_rid.
         (case dict_get ifs parent_rid of
            None \<Rightarrow> []
          | Some parent \<Rightarrow>
              (if if_category parent \<noteq> if_category iface
               then [err ''INTERFACE_EXTENDS_CATEGORY_MISMATCH'' (base @ ''.extends_interface_type_rids'')
                       (''Cannot extend '' @ parent_rid @ '' ('' @ category_str (if_category parent)
                         @ '') from interface of category '' @ category_str (if_category iface)) []]
               else [])))
       (extends_interface_type_rids iface))"

definition check_interface_category :: "registry \<Rightarrow> finding list" where
  "check_interface_category r =
     concat (map (\<lambda>(rid, iface).
         category_shape (entity_path ''interface_types'' rid) iface
         @ extends_category (interface_types r) (entity_path ''interface_types'' rid) iface)
       (interface_types r))
     @ check_cycles (interface_types r)"

subsection \<open>Property backing\<close>

definition data_type_str :: "data_type \<Rightarrow> string" where
  "data_type_str d = ''DataType.'' @ data_type_value d"

definition check_one_backing ::
  "(string, shared_property_type_definition) dict \<Rightarrow> string \<Rightarrow> property_type_definition \<Rightarrow> finding list" where
  "check_one_backing sps base pt =
     (let has_physical = (physical_column pt \<noteq> []); has_virtual = (virtual_expression pt \<noteq> []) in
      (if \<not> has_physical \<and> \<not> has_virtual
       then [err ''PROPERTY_BACKING_MISSING'' base
               ''PropertyType must set either physical_column or virtual_expression'' []]
       else if has_physical \<and> has_virtual
       then [err ''PROPERTY_BACKING_BOTH_SET'' base
               ''PropertyType must set only one of physical_column or virtual_expression'' []]
       else [])
      @ (if inherit_from_shared_property_type_rid pt \<noteq> []
         then case dict_get sps (inherit_from_shared_property_type_rid pt) of
                None \<Rightarrow> []
              | Some sp \<Rightarrow>
                  (if pt_data_type pt \<noteq> sp_data_type sp
                   then [err ''INHERITED_DATA_TYPE_MISMATCH'' (base @ ''.data_type'')
                           (''Inherited data_type mismatch: local='' @ data_type_str (pt_data_type pt)
                             @ '', shared('' @ inherit_from_shared_property_type_rid pt @ '')=''
                             @ data_type_str (sp_data_type sp))
                           [(''local'', JStr (data_type_str (pt_data_type pt))),
                            (''shared'', JStr (data_type_str (sp_data_type sp)))]]
                   else [])
         else []))"

definition check_property_backing :: "registry \<Rightarrow> finding list" where
  "check_property_backing r =
     concat (map (\<lambda>(rid, obj). concat (map (\<lambda>(k, pt).
         check_one_backing (shared_property_types r) (pt_path (entity_path ''object_types'' rid) k) pt)
       (ob_property_types obj))) (object_types r))
     @ concat (map (\<lambda>(rid, lt). concat (map (\<lambda>(k, pt).
         check_one_backing (shared_property_types r) (pt_path (entity_path ''link_types'' rid) k) pt)
       (lk_property_types lt))) (link_types r))"

subsection \<open>Asset mappings\<close>

definition asset_is_empty :: "asset_mapping \<Rightarrow> bool" where
  "asset_is_empty am =
     (\<not> (read_connection_id am \<noteq> [] \<or> read_asset_path am \<noteq> [] \<or> writeback_enabled am))"

definition check_asset :: "string set \<Rightarrow> string \<Rightarrow> asset_mapping \<Rightarrow> finding list" where
  "check_asset conn_ids base am =
     (if asset_is_empty am
      then [warn ''ASSET_MAPPING_EMPTY'' base
              ''No AssetMapping configured (cannot run query_sql against this entity)'']
      else if read_connection_id am \<noteq> [] \<and> read_connection_id am \<notin> conn_ids
      then [err ''ASSET_MAPPING_CONNECTION_NOT_FOUND'' (base @ ''.read_connection_id'')
              (''Connection '' @ py_repr (read_connection_id am) @ '' is not registered'')
              [(''connection_id'', JStr (read_connection_id am))]]
      else [])"

definition check_asset_mapping :: "string set \<Rightarrow> registry \<Rightarrow> finding list" where
  "check_asset_mapping conn_ids r =
     concat (map (\<lambda>(rid, obj). check_asset conn_ids (entity_path ''object_types'' rid @ ''.asset_mapping'')
                    (ob_asset_mapping obj)) (object_types r))
     @ concat (map (\<lambda>(rid, lt). check_asset conn_ids (entity_path ''link_types'' rid @ ''.asset_mapping'')
                    (lk_asset_mapping lt)) (link_types r))"

subsection \<open>Cross-property expressions\<close>

definition is_ref_char :: "char \<Rightarrow> bool" where
  "is_ref_char c = (is_az c \<or> is_digit c \<or> c = CHR ''_'')"

text \<open>
  \<open>re.findall(r"{([a-z][a-z0-9_]*)}", expr)\<close> with the braces escaped: leftmost, non-overlapping;
  the run of name characters is maximal, since a closing brace is not one of them.
\<close>

function find_refs :: "string \<Rightarrow> string list" where
  "find_refs [] = []"
| "find_refs (c # s) =
     (let name = takeWhile is_ref_char s; rest = dropWhile is_ref_char s in
      if c = CHR ''{'' \<and> name \<noteq> [] \<and> is_az (hd name) \<and> rest \<noteq> [] \<and> hd rest = CHR ''}''
      then name # find_refs (tl rest)
      else find_refs s)"
  by pat_completeness auto
termination
  by (relation "measure length")
    (auto simp: less_Suc_eq_le intro: le_trans [OF _ length_dropWhile_le] order_trans [OF diff_le_self])

declare find_refs.simps(2) [simp del]

definition api_names_of :: "(string, property_type_definition) dict \<Rightarrow> string set" where
  "api_names_of pts = set (filter (\<lambda>n. n \<noteq> []) (map pt_api_name (dict_vals pts)))"

definition cross_finding :: "string \<Rightarrow> nat \<Rightarrow> string set \<Rightarrow> string \<Rightarrow> finding" where
  "cross_finding base i names ref =
     err ''CROSS_PROPERTY_UNRESOLVED''
       (base @ ''.validation.rules['' @ nat_str i @ ''].cross_property.expression'')
       (''Reference {'' @ ref @ ''} does not resolve to a property of this entity'')
       [(''reference'', JStr ref), (''available'', JList (map JStr (sorted_list_of_set names)))]"

definition check_cross ::
  "string \<Rightarrow> (string, property_type_definition) dict \<Rightarrow> entity_validation_rule list \<Rightarrow> finding list" where
  "check_cross base pts rules =
     concat (map (\<lambda>(i, rule).
         (case evr_cross_property rule of
            None \<Rightarrow> []
          | Some expr \<Rightarrow>
              map (cross_finding base i (api_names_of pts))
                (filter (\<lambda>ref. ref \<notin> api_names_of pts) (find_refs expr))))
       (enumerate 0 rules))"

definition check_cross_property :: "registry \<Rightarrow> finding list" where
  "check_cross_property r =
     concat (map (\<lambda>(rid, obj). check_cross (entity_path ''object_types'' rid) (ob_property_types obj)
                    (ob_validation obj)) (object_types r))
     @ concat (map (\<lambda>(rid, lt). check_cross (entity_path ''link_types'' rid) (lk_property_types lt)
                    (lk_validation lt)) (link_types r))"

subsection \<open>The validator\<close>

definition validate :: "string set \<Rightarrow> registry \<Rightarrow> finding list" where
  "validate conn_ids r =
     check_structural r @ check_refs r @ check_interface_category r @ check_property_backing r
     @ check_asset_mapping conn_ids r @ check_cross_property r"

definition has_errors :: "finding list \<Rightarrow> bool" where
  "has_errors fs = list_ex is_error fs"

end
