(* ===== verification/Wellformed.thy ===== *)
theory Wellformed
  imports Validator
begin

text \<open>
  What the validator promises, stated without it: \<open>wf_ontology\<close> is the declarative
  well-formedness of a registry (the rules of section 7.1 of the design document as the code has
  them), and \<open>validate_correct\<close> shows that the validator reports no error exactly on the
  registries that satisfy it. The components that edit registries use the declarative form.
\<close>

subsection \<open>Error-free finding lists\<close>

lemma has_errors_Nil [simp]: "\<not> has_errors []"
  by (simp add: has_errors_def)

lemma has_errors_append [simp]: "has_errors (xs @ ys) \<longleftrightarrow> has_errors xs \<or> has_errors ys"
  by (simp add: has_errors_def)

lemma has_errors_Cons [simp]: "has_errors (x # xs) \<longleftrightarrow> is_error x \<or> has_errors xs"
  by (simp add: has_errors_def)

lemma has_errors_concat_map [simp]:
  "has_errors (concat (map f xs)) \<longleftrightarrow> (\<exists>x \<in> set xs. has_errors (f x))"
  by (induction xs) auto

lemma has_errors_map [simp]: "has_errors (map f xs) \<longleftrightarrow> (\<exists>x \<in> set xs. is_error (f x))"
  by (induction xs) auto

definition clean :: "string set \<Rightarrow> registry \<Rightarrow> bool" where
  "clean conn_ids r = (\<not> has_errors (validate conn_ids r))"

subsection \<open>Names\<close>

definition uuid_form :: "string \<Rightarrow> bool" where
  "uuid_form u \<longleftrightarrow>
     (\<exists>a b c d e. u = a @ ''-'' @ b @ ''-'' @ c @ ''-'' @ d @ ''-'' @ e \<and>
        list_all is_hex (a @ b @ c @ d @ e) \<and>
        length a = 8 \<and> length b = 4 \<and> length c = 4 \<and> length d = 4 \<and> length e = 12)"

text \<open>Python's \<open>$\<close> also matches before a final newline, so one is let through.\<close>

definition maybe_newline :: "string \<Rightarrow> bool" where
  "maybe_newline t \<longleftrightarrow> t = [] \<or> t = [newline]"

definition rid_form :: "string \<Rightarrow> string \<Rightarrow> bool" where
  "rid_form kind rid \<longleftrightarrow>
     (\<exists>u t. rid = ''ri.'' @ kind @ ''.'' @ u @ t \<and> uuid_form u \<and> maybe_newline t)"

definition name_word :: "string \<Rightarrow> bool" where
  "name_word w \<longleftrightarrow> w \<noteq> [] \<and> list_all is_name_char w"

definition api_name_form :: "string \<Rightarrow> bool" where
  "api_name_form s \<longleftrightarrow>
     (\<exists>ws t. s = join_str ''_'' ws @ t \<and> ws \<noteq> [] \<and> list_all name_word ws \<and> is_az (hd (hd ws))
        \<and> maybe_newline t)"

lemma re_match_end_iff:
  "re_match_end r s \<longleftrightarrow> (\<exists>w t. s = w @ t \<and> w \<in> lang r \<and> maybe_newline t)"
proof
  assume "re_match_end r s"
  then consider "s \<in> lang r" | "s \<noteq> []" "last s = newline" "butlast s \<in> lang r"
    by (auto simp: re_match_end_def re_full_iff)
  then show "\<exists>w t. s = w @ t \<and> w \<in> lang r \<and> maybe_newline t"
  proof cases
    case 2
    then have "s = butlast s @ [newline]" by (metis append_butlast_last_id)
    with 2 show ?thesis unfolding maybe_newline_def by blast
  qed (auto simp: maybe_newline_def)
qed (auto simp: re_match_end_def re_full_iff maybe_newline_def)

lemma lang_uuid: "u \<in> lang uuid_re \<longleftrightarrow> uuid_form u"
proof -
  have run: "s \<in> lang (hex_run n) \<longleftrightarrow> list_all is_hex s \<and> length s = n" for s n
    by (simp add: hex_run_def lang_times_Cls conj_commute)
  show ?thesis
    unfolding uuid_re_def uuid_form_def list_all_append in_Cat lang_lit singleton_iff run
    by (intro iffI; elim exE conjE; hypsubst; intro exI conjI; ((rule refl | assumption)+)?)
qed

lemma lang_kinds: "w \<in> lang (foldr (\<lambda>k r. Alt (lit k) r) ks Zero) \<longleftrightarrow> w \<in> set ks"
  by (induction ks) auto

lemma lang_RID:
  "w \<in> lang RID_RE \<longleftrightarrow> (\<exists>k u. w = ''ri.'' @ k @ ''.'' @ u \<and> k \<in> set rid_kinds \<and> uuid_form u)"
  unfolding RID_RE_def
  by (simp only: lang.simps(5) mem_Collect_eq lang_lit singleton_iff lang_kinds lang_uuid) blast

lemma kind_no_dot: "k \<in> set rid_kinds \<Longrightarrow> list_all (\<lambda>c. c \<noteq> CHR ''.'') k"
  by (auto simp: rid_kinds_def)

lemma rid_kind_of: "list_all (\<lambda>c. c \<noteq> CHR ''.'') k \<Longrightarrow> rid_kind (''ri.'' @ k @ ''.'' @ u) = k"
  by (simp add: rid_kind_def takeWhile_append2 list_all_iff)

lemma check_rid_ok:
  assumes "kind \<in> set rid_kinds"
  shows "\<not> has_errors (check_rid rid kind path) \<longleftrightarrow> rid_form kind rid"
proof -
  have split: "(\<exists>w t. rid = w @ t \<and> (\<exists>k u. w = p @ k @ d @ u \<and> k \<in> K \<and> U u) \<and> N t) \<longleftrightarrow>
      (\<exists>k \<in> K. \<exists>u t. rid = p @ k @ d @ u @ t \<and> U u \<and> N t)"
    for p d :: string and K :: "string set" and U N :: "string \<Rightarrow> bool"
    by (metis append_assoc)
  have "re_match_end RID_RE rid \<longleftrightarrow> (\<exists>k \<in> set rid_kinds. rid_form k rid)"
    unfolding re_match_end_iff lang_RID rid_form_def by (rule split)
  moreover have "rid_kind rid = k" if "rid_form k rid" "k \<in> set rid_kinds" for k
  proof -
    from that(1) obtain u where "rid = ''ri.'' @ k @ ''.'' @ u"
      by (auto simp: rid_form_def)
    with kind_no_dot [OF that(2)] show ?thesis by (simp only: rid_kind_of)
  qed
  ultimately show ?thesis
    using assms by (auto simp: check_rid_def)
qed

lemma join_str_Cons: "join_str sep (w # ws) = w @ concat (map (\<lambda>x. sep @ x) ws)"
  by (induction ws arbitrary: w) auto

lemma star_tail:
  "s \<in> star_set {''_'' @ x | x. name_word x} \<longleftrightarrow>
     (\<exists>ws. list_all name_word ws \<and> s = concat (map (\<lambda>x. ''_'' @ x) ws))"
proof
  assume "s \<in> star_set {''_'' @ x | x. name_word x}"
  then show "\<exists>ws. list_all name_word ws \<and> s = concat (map (\<lambda>x. ''_'' @ x) ws)"
  proof (induction rule: star_set.induct)
    case star_nil
    show ?case by (rule exI [where x = "[]"]) simp
  next
    case (star_step u v)
    then obtain x ws where "u = ''_'' @ x" "name_word x" "list_all name_word ws"
      "v = concat (map (\<lambda>x. ''_'' @ x) ws)" by blast
    then show ?case by (intro exI [where x = "x # ws"]) simp
  qed
next
  assume "\<exists>ws. list_all name_word ws \<and> s = concat (map (\<lambda>x. ''_'' @ x) ws)"
  then obtain ws where ws: "list_all name_word ws" "s = concat (map (\<lambda>x. ''_'' @ x) ws)" by blast
  show "s \<in> star_set {''_'' @ x | x. name_word x}"
    unfolding ws(2) using ws(1)
  proof (induction ws)
    case (Cons w ws)
    then have "''_'' @ w \<in> {''_'' @ x | x. name_word x}" by auto
    from star_set.star_step [OF this Cons.IH] Cons.prems show ?case by simp
  qed (simp add: star_set.star_nil)
qed

lemma lang_API_NAME:
  "s \<in> lang API_NAME_RE \<longleftrightarrow>
     (\<exists>ws. s = join_str ''_'' ws \<and> ws \<noteq> [] \<and> list_all name_word ws \<and> is_az (hd (hd ws)))"
proof -
  have az: "is_az c \<Longrightarrow> is_name_char c" for c by (simp add: is_name_char_def)
  have word: "lang (Cat (lit ''_'') (Cat (Cls is_name_char) (Rep (Cls is_name_char))))
      = {''_'' @ x | x. name_word x}"
    unfolding set_eq_iff in_Cat_lit in_Cat_Cls lang.simps(3,6) star_set_Cls
    by (auto simp: name_word_def neq_Nil_conv)
  have "s \<in> lang API_NAME_RE \<longleftrightarrow> (\<exists>c u v. s = c # u @ v \<and> is_az c \<and> list_all is_name_char u
      \<and> v \<in> star_set {''_'' @ x | x. name_word x})"
    unfolding API_NAME_RE_def in_Cat_Cls word [symmetric]
    by (simp only: in_Cat lang.simps(3,6) star_set_Cls) blast
  also have "\<dots> \<longleftrightarrow> (\<exists>c u ws. s = join_str ''_'' ((c # u) # ws) \<and> is_az c
      \<and> list_all is_name_char u \<and> list_all name_word ws)"
    unfolding star_tail join_str_Cons by auto
  also have "\<dots> \<longleftrightarrow> (\<exists>ws. s = join_str ''_'' ws \<and> ws \<noteq> [] \<and> list_all name_word ws
      \<and> is_az (hd (hd ws)))"
  proof
    assume "\<exists>c u ws. s = join_str ''_'' ((c # u) # ws) \<and> is_az c
      \<and> list_all is_name_char u \<and> list_all name_word ws"
    then obtain c u ws where "s = join_str ''_'' ((c # u) # ws)" "is_az c"
      "list_all is_name_char u" "list_all name_word ws" by blast
    then show "\<exists>ws. s = join_str ''_'' ws \<and> ws \<noteq> [] \<and> list_all name_word ws \<and> is_az (hd (hd ws))"
      by (intro exI [where x = "(c # u) # ws"]) (simp add: name_word_def az)
  next
    assume "\<exists>ws. s = join_str ''_'' ws \<and> ws \<noteq> [] \<and> list_all name_word ws \<and> is_az (hd (hd ws))"
    then obtain w ws where "s = join_str ''_'' (w # ws)" "name_word w" "list_all name_word ws"
      "is_az (hd w)" by (metis hd_Cons_tl list.pred_inject(2) list.sel(1))
    then show "\<exists>c u ws. s = join_str ''_'' ((c # u) # ws) \<and> is_az c
      \<and> list_all is_name_char u \<and> list_all name_word ws"
      by (cases w) (auto simp: name_word_def)
  qed
  finally show ?thesis .
qed

lemma check_api_name_ok: "\<not> has_errors (check_api_name s path) \<longleftrightarrow> api_name_form s"
  unfolding api_name_form_def check_api_name_def re_match_end_iff
  by (auto simp: lang_API_NAME)

subsection \<open>Well-formed registries\<close>

definition named :: "string \<Rightarrow> string \<Rightarrow> string \<Rightarrow> bool" where
  "named kind rid name \<longleftrightarrow> rid_form kind rid \<and> (name = [] \<or> api_name_form name)"

definition resolves :: "(string, 'v) dict \<Rightarrow> string \<Rightarrow> bool" where
  "resolves d rid \<longleftrightarrow> rid = [] \<or> dict_has rid d"

definition keys_local :: "(string, property_type_definition) dict \<Rightarrow> string list \<Rightarrow> bool" where
  "keys_local pts keys \<longleftrightarrow> (\<forall>k \<in> set keys. k = [] \<or> k \<in> pt_rid ` set (dict_vals pts))"

definition exprs_resolve ::
  "(string, property_type_definition) dict \<Rightarrow> entity_validation_rule list \<Rightarrow> bool" where
  "exprs_resolve pts rules \<longleftrightarrow>
     (\<forall>rule \<in> set rules. \<forall>e. evr_cross_property rule = Some e \<longrightarrow> set (find_refs e) \<subseteq> api_names_of pts)"

definition same_type ::
  "(string, shared_property_type_definition) dict \<Rightarrow> property_type_definition \<Rightarrow> bool" where
  "same_type sps pt \<longleftrightarrow>
     (\<forall>sp. inherit_from_shared_property_type_rid pt \<noteq> []
        \<and> dict_get sps (inherit_from_shared_property_type_rid pt) = Some sp
        \<longrightarrow> pt_data_type pt = sp_data_type sp)"

definition wf_property ::
  "(string, shared_property_type_definition) dict \<Rightarrow> property_type_definition \<Rightarrow> bool" where
  "wf_property sps pt \<longleftrightarrow>
     named ''prop'' (pt_rid pt) (pt_api_name pt)
     \<and> resolves sps (inherit_from_shared_property_type_rid pt)
     \<and> (physical_column pt = [] \<longleftrightarrow> virtual_expression pt \<noteq> [])
     \<and> same_type sps pt"

definition asset_ok :: "string set \<Rightarrow> asset_mapping \<Rightarrow> bool" where
  "asset_ok C am \<longleftrightarrow> read_connection_id am = [] \<or> read_connection_id am \<in> C"

definition wf_properties ::
  "registry \<Rightarrow> (string, property_type_definition) dict \<Rightarrow> string list
    \<Rightarrow> entity_validation_rule list \<Rightarrow> bool" where
  "wf_properties r pts keys rules \<longleftrightarrow>
     (\<forall>pt \<in> set (dict_vals pts). wf_property (shared_property_types r) pt)
     \<and> keys_local pts keys \<and> exprs_resolve pts rules"

definition wf_shared :: "shared_property_type_definition \<Rightarrow> bool" where
  "wf_shared sp \<longleftrightarrow> named ''shprop'' (sp_rid sp) (sp_api_name sp)"

definition wf_object :: "string set \<Rightarrow> registry \<Rightarrow> object_type_definition \<Rightarrow> bool" where
  "wf_object C r obj \<longleftrightarrow>
     named ''obj'' (ob_rid obj) (ob_api_name obj)
     \<and> (\<forall>i \<in> set (ob_implements obj). resolves (interface_types r) i)
     \<and> wf_properties r (ob_property_types obj) (ob_primary_key obj) (ob_validation obj)
     \<and> asset_ok C (ob_asset_mapping obj)"

definition wf_link :: "string set \<Rightarrow> registry \<Rightarrow> link_type_definition \<Rightarrow> bool" where
  "wf_link C r lt \<longleftrightarrow>
     named ''link'' (lk_rid lt) (lk_api_name lt)
     \<and> resolves (object_types r) (source_object_type_rid lt)
     \<and> resolves (interface_types r) (source_interface_type_rid lt)
     \<and> resolves (object_types r) (target_object_type_rid lt)
     \<and> resolves (interface_types r) (target_interface_type_rid lt)
     \<and> (\<forall>i \<in> set (lk_implements lt). resolves (interface_types r) i)
     \<and> wf_properties r (lk_property_types lt) (lk_primary_key lt) (lk_validation lt)
     \<and> asset_ok C (lk_asset_mapping lt)"

definition wf_interface :: "registry \<Rightarrow> interface_type_definition \<Rightarrow> bool" where
  "wf_interface r iface \<longleftrightarrow>
     named ''iface'' (if_rid iface) (if_api_name iface)
     \<and> (\<forall>i \<in> set (extends_interface_type_rids iface). resolves (interface_types r) i
          \<and> (\<forall>p. dict_get (interface_types r) i = Some p \<longrightarrow> if_category p = if_category iface))
     \<and> (\<forall>sp \<in> set (required_shared_property_type_rids iface). resolves (shared_property_types r) sp)
     \<and> if_category iface \<noteq> INTERFACE_CATEGORY_INVALID
     \<and> (if_category iface = OBJECT_INTERFACE \<longrightarrow> object_constraint iface = None)
     \<and> (if_category iface = LINK_INTERFACE \<longrightarrow> link_requirements iface = [])"

definition wf_parameter :: "registry \<Rightarrow> action_parameter \<Rightarrow> bool" where
  "wf_parameter r p \<longleftrightarrow>
     resolves (object_types r) (derived_from_object_type_rid p)
     \<and> resolves (link_types r) (derived_from_link_type_rid p)
     \<and> resolves (interface_types r) (derived_from_interface_type_rid p)"

definition wf_action :: "registry \<Rightarrow> action_type_definition \<Rightarrow> bool" where
  "wf_action r ac \<longleftrightarrow>
     named ''action'' (ac_rid ac) (ac_api_name ac) \<and> (\<forall>p \<in> set (ac_parameters ac). wf_parameter r p)"

definition wf_ontology :: "string set \<Rightarrow> registry \<Rightarrow> bool" where
  "wf_ontology C r \<longleftrightarrow>
     (\<forall>sp \<in> set (dict_vals (shared_property_types r)). wf_shared sp)
     \<and> (\<forall>iface \<in> set (dict_vals (interface_types r)). wf_interface r iface)
     \<and> (\<forall>obj \<in> set (dict_vals (object_types r)). wf_object C r obj)
     \<and> (\<forall>lt \<in> set (dict_vals (link_types r)). wf_link C r lt)
     \<and> (\<forall>ac \<in> set (dict_vals (action_types r)). wf_action r ac)
     \<and> acyclic (extends_rel (interface_types r))"

subsection \<open>The validator decides well-formedness\<close>

lemma name_fields_ok:
  "kind \<in> set rid_kinds \<Longrightarrow>
     \<not> has_errors (check_name_fields kind base rid name) \<longleftrightarrow> named kind rid name"
  by (simp add: check_name_fields_def named_def check_rid_ok check_api_name_ok)

lemma kinds_known:
  "''shprop'' \<in> set rid_kinds" "''prop'' \<in> set rid_kinds" "''iface'' \<in> set rid_kinds"
  "''obj'' \<in> set rid_kinds" "''link'' \<in> set rid_kinds" "''action'' \<in> set rid_kinds"
  by (simp_all add: rid_kinds_def)

lemmas name_fields_errors = name_fields_ok [OF kinds_known(1)] name_fields_ok [OF kinds_known(2)]
  name_fields_ok [OF kinds_known(3)] name_fields_ok [OF kinds_known(4)]
  name_fields_ok [OF kinds_known(5)] name_fields_ok [OF kinds_known(6)]

lemma missing_in_iff:
  "missing_in r ''shared_property_types'' rid \<longleftrightarrow> \<not> resolves (shared_property_types r) rid"
  "missing_in r ''interface_types'' rid \<longleftrightarrow> \<not> resolves (interface_types r) rid"
  "missing_in r ''object_types'' rid \<longleftrightarrow> \<not> resolves (object_types r) rid"
  "missing_in r ''link_types'' rid \<longleftrightarrow> \<not> resolves (link_types r) rid"
  by (auto simp: missing_in_def missing_def resolves_def dict_has_def)

lemma check_ref_ok: "has_errors (check_ref r kind expected path rid) \<longleftrightarrow> missing_in r kind rid"
  by (simp add: check_ref_def ref_err_def)

lemma local_keys_ok: "\<not> has_errors (check_local_keys base pts keys) \<longleftrightarrow> keys_local pts keys"
  by (auto simp: check_local_keys_def keys_local_def ref_err_def split: if_splits)

lemma inherits_ok:
  "\<not> has_errors (check_inherits r base pts) \<longleftrightarrow>
     (\<forall>pt \<in> set (dict_vals pts). resolves (shared_property_types r) (inherit_from_shared_property_type_rid pt))"
  by (auto simp: check_inherits_def check_ref_ok missing_in_iff)

lemma one_backing_ok:
  "\<not> has_errors (check_one_backing sps base pt) \<longleftrightarrow>
     (physical_column pt = [] \<longleftrightarrow> virtual_expression pt \<noteq> []) \<and> same_type sps pt"
  by (auto simp: check_one_backing_def same_type_def Let_def split: option.splits)

lemma cross_rule_ok:
  "has_errors (case x of (i, rule) \<Rightarrow> case evr_cross_property rule of None \<Rightarrow> []
       | Some expr \<Rightarrow> map (cross_finding base i ns) (filter (\<lambda>ref. ref \<notin> ns) (find_refs expr)))
     \<longleftrightarrow> (\<exists>e. evr_cross_property (snd x) = Some e \<and> \<not> set (find_refs e) \<subseteq> ns)"
  by (auto simp: cross_finding_def split: prod.splits option.splits)

lemma check_cross_ok: "\<not> has_errors (check_cross base pts rules) \<longleftrightarrow> exprs_resolve pts rules"
  using bex_enumerate [where P = "\<lambda>rule. \<exists>e. evr_cross_property rule = Some e
      \<and> \<not> set (find_refs e) \<subseteq> api_names_of pts"]
  unfolding check_cross_def has_errors_concat_map cross_rule_ok exprs_resolve_def
  by blast

lemma asset_check_ok: "\<not> has_errors (check_asset C base am) \<longleftrightarrow> asset_ok C am"
  by (auto simp: check_asset_def asset_is_empty_def asset_ok_def)

lemma property_names_ok:
  "\<not> has_errors (check_property_names base pts) \<longleftrightarrow>
     (\<forall>pt \<in> set (dict_vals pts). named ''prop'' (pt_rid pt) (pt_api_name pt))"
  by (simp add: check_property_names_def name_fields_errors case_prod_beta)

lemma category_shape_ok:
  "\<not> has_errors (category_shape base iface) \<longleftrightarrow>
     if_category iface \<noteq> INTERFACE_CATEGORY_INVALID
     \<and> (if_category iface = OBJECT_INTERFACE \<longrightarrow> object_constraint iface = None)
     \<and> (if_category iface = LINK_INTERFACE \<longrightarrow> link_requirements iface = [])"
  by (auto simp: category_shape_def split: interface_category.splits)

lemma extends_category_ok:
  "\<not> has_errors (extends_category ifs base iface) \<longleftrightarrow>
     (\<forall>i \<in> set (extends_interface_type_rids iface).
        \<forall>p. dict_get ifs i = Some p \<longrightarrow> if_category p = if_category iface)"
  by (auto simp: extends_category_def split: option.splits if_splits)

text \<open>Each checker, one rule per kind of entity.\<close>

lemma structural_ok:
  "\<not> has_errors (check_structural r) \<longleftrightarrow>
     (\<forall>sp \<in> set (dict_vals (shared_property_types r)). wf_shared sp)
     \<and> (\<forall>i \<in> set (dict_vals (interface_types r)). named ''iface'' (if_rid i) (if_api_name i))
     \<and> (\<forall>obj \<in> set (dict_vals (object_types r)). named ''obj'' (ob_rid obj) (ob_api_name obj)
          \<and> (\<forall>pt \<in> set (dict_vals (ob_property_types obj)). named ''prop'' (pt_rid pt) (pt_api_name pt)))
     \<and> (\<forall>lt \<in> set (dict_vals (link_types r)). named ''link'' (lk_rid lt) (lk_api_name lt)
          \<and> (\<forall>pt \<in> set (dict_vals (lk_property_types lt)). named ''prop'' (pt_rid pt) (pt_api_name pt)))
     \<and> (\<forall>ac \<in> set (dict_vals (action_types r)). named ''action'' (ac_rid ac) (ac_api_name ac))"
  unfolding check_structural_def has_errors_append has_errors_concat_map case_prod_beta
    de_Morgan_disj bex_simps ball_simps wf_shared_def
  by (simp add: name_fields_errors property_names_ok)

lemma object_refs_ok:
  "\<not> has_errors (refs_of_object r rid obj) \<longleftrightarrow>
     (\<forall>i \<in> set (ob_implements obj). resolves (interface_types r) i)
     \<and> keys_local (ob_property_types obj) (ob_primary_key obj)
     \<and> (\<forall>pt \<in> set (dict_vals (ob_property_types obj)).
          resolves (shared_property_types r) (inherit_from_shared_property_type_rid pt))"
  by (simp add: refs_of_object_def Let_def local_keys_ok inherits_ok check_ref_ok missing_in_iff)

lemma link_refs_ok:
  "\<not> has_errors (refs_of_link r rid lt) \<longleftrightarrow>
     resolves (object_types r) (source_object_type_rid lt)
     \<and> resolves (interface_types r) (source_interface_type_rid lt)
     \<and> resolves (object_types r) (target_object_type_rid lt)
     \<and> resolves (interface_types r) (target_interface_type_rid lt)
     \<and> (\<forall>i \<in> set (lk_implements lt). resolves (interface_types r) i)
     \<and> keys_local (lk_property_types lt) (lk_primary_key lt)
     \<and> (\<forall>pt \<in> set (dict_vals (lk_property_types lt)).
          resolves (shared_property_types r) (inherit_from_shared_property_type_rid pt))"
  by (auto simp: refs_of_link_def Let_def local_keys_ok inherits_ok check_ref_ok missing_in_iff)

lemma interface_refs_ok:
  "\<not> has_errors (refs_of_interface r rid iface) \<longleftrightarrow>
     (\<forall>i \<in> set (extends_interface_type_rids iface). resolves (interface_types r) i)
     \<and> (\<forall>sp \<in> set (required_shared_property_type_rids iface). resolves (shared_property_types r) sp)"
  by (simp add: refs_of_interface_def Let_def check_ref_ok missing_in_iff)

lemma action_refs_ok:
  "\<not> has_errors (refs_of_action r rid ac) \<longleftrightarrow> (\<forall>p \<in> set (ac_parameters ac). wf_parameter r p)"
proof -
  have "has_errors (refs_of_action r rid ac) \<longleftrightarrow>
      (\<exists>x \<in> set (enumerate 0 (ac_parameters ac)). \<not> wf_parameter r (snd x))"
    unfolding refs_of_action_def has_errors_concat_map
    by (intro bex_cong refl)
      (auto simp: Let_def check_ref_ok missing_in_iff wf_parameter_def split: prod.splits)
  then show ?thesis
    using bex_enumerate [where P = "\<lambda>p. \<not> wf_parameter r p"] by blast
qed

lemma category_ok:
  "\<not> has_errors (check_interface_category r) \<longleftrightarrow>
     (\<forall>iface \<in> set (dict_vals (interface_types r)).
        if_category iface \<noteq> INTERFACE_CATEGORY_INVALID
        \<and> (if_category iface = OBJECT_INTERFACE \<longrightarrow> object_constraint iface = None)
        \<and> (if_category iface = LINK_INTERFACE \<longrightarrow> link_requirements iface = [])
        \<and> (\<forall>i \<in> set (extends_interface_type_rids iface).
             \<forall>p. dict_get (interface_types r) i = Some p \<longrightarrow> if_category p = if_category iface))
     \<and> acyclic (extends_rel (interface_types r))"
proof -
  have "has_errors (check_cycles (interface_types r)) \<longleftrightarrow> check_cycles (interface_types r) \<noteq> []"
    using check_cycles_errors [of _ "interface_types r"]
    by (cases "check_cycles (interface_types r)") (auto simp: has_errors_def)
  then show ?thesis
    by (simp add: check_interface_category_def case_prod_beta category_shape_ok extends_category_ok
        check_cycles_iff)
qed

lemma backing_ok:
  "\<not> has_errors (check_property_backing r) \<longleftrightarrow>
     (\<forall>pts \<in> ob_property_types ` set (dict_vals (object_types r))
           \<union> lk_property_types ` set (dict_vals (link_types r)).
        \<forall>pt \<in> set (dict_vals pts).
          (physical_column pt = [] \<longleftrightarrow> virtual_expression pt \<noteq> [])
          \<and> same_type (shared_property_types r) pt)"
  unfolding check_property_backing_def has_errors_append has_errors_concat_map case_prod_beta
    de_Morgan_disj bex_simps ball_simps ball_Un one_backing_ok
  by simp

lemma assets_ok:
  "\<not> has_errors (check_asset_mapping C r) \<longleftrightarrow>
     (\<forall>obj \<in> set (dict_vals (object_types r)). asset_ok C (ob_asset_mapping obj))
     \<and> (\<forall>lt \<in> set (dict_vals (link_types r)). asset_ok C (lk_asset_mapping lt))"
  by (simp add: check_asset_mapping_def case_prod_beta asset_check_ok)

lemma exprs_ok:
  "\<not> has_errors (check_cross_property r) \<longleftrightarrow>
     (\<forall>obj \<in> set (dict_vals (object_types r)). exprs_resolve (ob_property_types obj) (ob_validation obj))
     \<and> (\<forall>lt \<in> set (dict_vals (link_types r)). exprs_resolve (lk_property_types lt) (lk_validation lt))"
  by (simp add: check_cross_property_def case_prod_beta check_cross_ok)

lemma refs_ok:
  "\<not> has_errors (check_refs r) \<longleftrightarrow>
     (\<forall>x \<in> set (object_types r). \<not> has_errors (refs_of_object r (fst x) (snd x)))
     \<and> (\<forall>x \<in> set (link_types r). \<not> has_errors (refs_of_link r (fst x) (snd x)))
     \<and> (\<forall>x \<in> set (interface_types r). \<not> has_errors (refs_of_interface r (fst x) (snd x)))
     \<and> (\<forall>x \<in> set (action_types r). \<not> has_errors (refs_of_action r (fst x) (snd x)))"
  by (simp add: check_refs_def case_prod_beta)

lemma clean_iff_wf: "clean C r \<longleftrightarrow> wf_ontology C r"
  unfolding clean_def validate_def has_errors_append de_Morgan_disj structural_ok refs_ok category_ok
    backing_ok assets_ok exprs_ok object_refs_ok link_refs_ok interface_refs_ok action_refs_ok
    wf_ontology_def wf_object_def wf_link_def wf_interface_def wf_action_def wf_properties_def
    wf_property_def
  by (simp add: ball_Un ball_conj_distrib, intro iffI; elim conjE; intro conjI; assumption)

subsection \<open>Properties\<close>

text \<open>C2: the validator is sound and complete. It reports an error on a registry exactly when the
  registry breaks a rule of the ontology: identifiers and names of the right form, every reference
  resolved, one backing per property and inherited types equal, interface categories consistent and
  the extension relation acyclic, asset mappings on registered connections, cross-property
  expressions over the entity's own properties.\<close>
theorem validate_correct: "has_errors (validate C r) \<longleftrightarrow> \<not> wf_ontology C r"
  using clean_iff_wf [of C r] unfolding clean_def by blast

end
