(* ===== verification/Refs_Scan.thy ===== *)
theory Refs_Scan
  imports Wellformed
begin

text \<open>
  \<open>registry/refs_scan.py\<close>: the list of the places that reference an entity, which a delete
  consults, and what its emptiness means (\<open>unreferenced\<close>). The main fact is that removing an
  unreferenced entity keeps the ontology well-formed (\<open>wf_remove\<close>).
\<close>

subsection \<open>The scanner\<close>

definition add_if :: "bool \<Rightarrow> string \<Rightarrow> string \<Rightarrow> string \<Rightarrow> string \<Rightarrow> referrer list" where
  "add_if hit rid kind field path =
     (if hit then [\<lparr>rf_rid = rid, rf_kind = kind, rf_field = field, rf_path = path @ ''.'' @ field\<rparr>]
      else [])"

definition scan_object :: "string \<Rightarrow> string \<Rightarrow> object_type_definition \<Rightarrow> referrer list" where
  "scan_object target rid obj =
     (let base = entity_path ''object_types'' rid in
      add_if (target \<in> set (ob_implements obj)) rid ''object_type'' ''implements_interface_type_rids'' base
      @ concat (map (\<lambda>(k, pt).
            add_if (inherit_from_shared_property_type_rid pt = target) rid ''property_type''
              ''inherit_from_shared_property_type_rid'' (pt_path base k)
            @ add_if (pt_rid pt = target) rid ''property_type'' ''rid'' (pt_path base k))
          (ob_property_types obj)))"

definition scan_link :: "string \<Rightarrow> string \<Rightarrow> link_type_definition \<Rightarrow> referrer list" where
  "scan_link target rid lt =
     (let base = entity_path ''link_types'' rid in
      add_if (source_object_type_rid lt = target) rid ''link_type'' ''source_object_type_rid'' base
      @ add_if (source_interface_type_rid lt = target) rid ''link_type'' ''source_interface_type_rid'' base
      @ add_if (target_object_type_rid lt = target) rid ''link_type'' ''target_object_type_rid'' base
      @ add_if (target_interface_type_rid lt = target) rid ''link_type'' ''target_interface_type_rid'' base
      @ add_if (target \<in> set (lk_implements lt)) rid ''link_type'' ''implements_interface_type_rids'' base
      @ concat (map (\<lambda>(k, pt).
            add_if (inherit_from_shared_property_type_rid pt = target) rid ''property_type''
              ''inherit_from_shared_property_type_rid'' (pt_path base k))
          (lk_property_types lt)))"

definition scan_interface :: "string \<Rightarrow> string \<Rightarrow> interface_type_definition \<Rightarrow> referrer list" where
  "scan_interface target rid iface =
     (let base = entity_path ''interface_types'' rid in
      add_if (target \<in> set (extends_interface_type_rids iface)) rid ''interface_type''
        ''extends_interface_type_rids'' base
      @ add_if (target \<in> set (required_shared_property_type_rids iface)) rid ''interface_type''
        ''required_shared_property_type_rids'' base)"

definition scan_action :: "string \<Rightarrow> string \<Rightarrow> action_type_definition \<Rightarrow> referrer list" where
  "scan_action target rid action =
     concat (map (\<lambda>(i, p).
         (let base = param_path (entity_path ''action_types'' rid) i in
          add_if (derived_from_object_type_rid p = target) rid ''action_type''
            ''derived_from_object_type_rid'' base
          @ add_if (derived_from_link_type_rid p = target) rid ''action_type''
            ''derived_from_link_type_rid'' base
          @ add_if (derived_from_interface_type_rid p = target) rid ''action_type''
            ''derived_from_interface_type_rid'' base))
       (enumerate 0 (ac_parameters action)))"

definition find_referrers :: "registry \<Rightarrow> string \<Rightarrow> referrer list" where
  "find_referrers r target =
     concat (map (\<lambda>(rid, obj). scan_object target rid obj) (object_types r))
     @ concat (map (\<lambda>(rid, lt). scan_link target rid lt) (link_types r))
     @ concat (map (\<lambda>(rid, iface). scan_interface target rid iface) (interface_types r))
     @ concat (map (\<lambda>(rid, action). scan_action target rid action) (action_types r))"

subsection \<open>What an empty scan says\<close>

definition object_mentions :: "string \<Rightarrow> object_type_definition \<Rightarrow> bool" where
  "object_mentions t obj \<longleftrightarrow>
     t \<in> set (ob_implements obj)
     \<or> (\<exists>pt \<in> set (dict_vals (ob_property_types obj)).
          inherit_from_shared_property_type_rid pt = t \<or> pt_rid pt = t)"

definition link_mentions :: "string \<Rightarrow> link_type_definition \<Rightarrow> bool" where
  "link_mentions t lt \<longleftrightarrow>
     t \<in> {source_object_type_rid lt, source_interface_type_rid lt, target_object_type_rid lt,
          target_interface_type_rid lt} \<union> set (lk_implements lt)
     \<or> (\<exists>pt \<in> set (dict_vals (lk_property_types lt)). inherit_from_shared_property_type_rid pt = t)"

definition interface_mentions :: "string \<Rightarrow> interface_type_definition \<Rightarrow> bool" where
  "interface_mentions t iface \<longleftrightarrow>
     t \<in> set (extends_interface_type_rids iface) \<union> set (required_shared_property_type_rids iface)"

definition action_mentions :: "string \<Rightarrow> action_type_definition \<Rightarrow> bool" where
  "action_mentions t ac \<longleftrightarrow>
     (\<exists>p \<in> set (ac_parameters ac). t \<in> {derived_from_object_type_rid p, derived_from_link_type_rid p,
        derived_from_interface_type_rid p})"

definition unreferenced :: "string \<Rightarrow> registry \<Rightarrow> bool" where
  "unreferenced t r \<longleftrightarrow>
     (\<forall>obj \<in> set (dict_vals (object_types r)). \<not> object_mentions t obj)
     \<and> (\<forall>lt \<in> set (dict_vals (link_types r)). \<not> link_mentions t lt)
     \<and> (\<forall>iface \<in> set (dict_vals (interface_types r)). \<not> interface_mentions t iface)
     \<and> (\<forall>ac \<in> set (dict_vals (action_types r)). \<not> action_mentions t ac)"

lemma add_if_Nil [simp]: "add_if hit rid kind field path = [] \<longleftrightarrow> \<not> hit"
  by (simp add: add_if_def)

lemma scan_object_Nil: "scan_object t rid obj = [] \<longleftrightarrow> \<not> object_mentions t obj"
  by (auto simp: scan_object_def Let_def object_mentions_def concat_map_Nil case_prod_beta)

lemma scan_link_Nil: "scan_link t rid lt = [] \<longleftrightarrow> \<not> link_mentions t lt"
  by (auto simp: scan_link_def Let_def link_mentions_def concat_map_Nil case_prod_beta)

lemma scan_interface_Nil: "scan_interface t rid iface = [] \<longleftrightarrow> \<not> interface_mentions t iface"
  by (auto simp: scan_interface_def Let_def interface_mentions_def)

lemma scan_action_Nil: "scan_action t rid ac = [] \<longleftrightarrow> \<not> action_mentions t ac"
proof -
  have "scan_action t rid ac = [] \<longleftrightarrow>
      \<not> (\<exists>x \<in> set (enumerate 0 (ac_parameters ac)). action_mentions t (ac\<lparr>ac_parameters := [snd x]\<rparr>))"
    by (auto simp: scan_action_def Let_def action_mentions_def concat_map_Nil case_prod_beta)
  also have "\<dots> \<longleftrightarrow> \<not> action_mentions t ac"
    using bex_enumerate [of 0 _ "\<lambda>p. action_mentions t (ac\<lparr>ac_parameters := [p]\<rparr>)"]
    by (simp add: action_mentions_def)
  finally show ?thesis .
qed

lemma find_referrers_Nil: "find_referrers r t = [] \<longleftrightarrow> unreferenced t r"
  by (simp add: find_referrers_def unreferenced_def concat_map_Nil case_prod_beta scan_object_Nil
      scan_link_Nil scan_interface_Nil scan_action_Nil)

subsection \<open>Removing an unreferenced entity\<close>

text \<open>\<open>without t r r'\<close>: each map of \<open>r'\<close> is that of \<open>r\<close>, or that of \<open>r\<close> with \<open>t\<close> popped.\<close>

definition pops :: "string \<Rightarrow> (string, 'v) dict \<Rightarrow> (string, 'v) dict \<Rightarrow> bool" where
  "pops t d d' \<longleftrightarrow> d' = d \<or> d' = dict_pop t d"

definition without :: "string \<Rightarrow> registry \<Rightarrow> registry \<Rightarrow> bool" where
  "without t r r' \<longleftrightarrow>
     pops t (shared_property_types r) (shared_property_types r')
     \<and> pops t (interface_types r) (interface_types r')
     \<and> pops t (object_types r) (object_types r')
     \<and> pops t (link_types r) (link_types r')
     \<and> pops t (action_types r) (action_types r')"

lemma pops_vals: "pops t d d' \<Longrightarrow> v \<in> set (dict_vals d') \<Longrightarrow> v \<in> set (dict_vals d)"
  by (auto simp: pops_def set_pop_subset)

lemma pops_get: "pops t d d' \<Longrightarrow> dict_get d' k = Some v \<Longrightarrow> dict_get d k = Some v"
  by (auto simp: pops_def get_pop split: if_splits)

lemma pops_resolves: "pops t d d' \<Longrightarrow> resolves d k \<Longrightarrow> k \<noteq> t \<Longrightarrow> resolves d' k"
  by (auto simp: pops_def resolves_def has_pop)

lemma pops_extends: "pops t ifs ifs' \<Longrightarrow> extends_rel ifs' \<subseteq> extends_rel ifs"
  by (fastforce simp: extends_rel_def parents_of_def pops_def dict_simps split: option.splits if_splits)

lemma pops_property:
  assumes "pops t sps sps'" "wf_property sps pt" "inherit_from_shared_property_type_rid pt \<noteq> t"
  shows "wf_property sps' pt"
  using assms pops_resolves [OF assms(1)] pops_get [OF assms(1)]
  unfolding wf_property_def same_type_def by blast

lemma pops_properties:
  assumes "pops t (shared_property_types r) (shared_property_types r')" "wf_properties r pts keys rules"
    "\<forall>pt \<in> set (dict_vals pts). inherit_from_shared_property_type_rid pt \<noteq> t"
  shows "wf_properties r' pts keys rules"
  using assms pops_property unfolding wf_properties_def by blast

lemma remove_interface:
  assumes wo: "without t r r'" and "wf_interface r iface" "\<not> interface_mentions t iface"
  shows "wf_interface r' iface"
proof -
  have p: "pops t (interface_types r) (interface_types r')"
      "pops t (shared_property_types r) (shared_property_types r')"
    using wo by (simp_all add: without_def)
  show ?thesis
    using assms(2,3) pops_resolves [OF p(1)] pops_resolves [OF p(2)] pops_get [OF p(1)]
    unfolding wf_interface_def interface_mentions_def by blast
qed

lemma remove_object:
  assumes wo: "without t r r'" and "wf_object C r obj" "\<not> object_mentions t obj"
  shows "wf_object C r' obj"
proof -
  have p: "pops t (interface_types r) (interface_types r')"
      "pops t (shared_property_types r) (shared_property_types r')"
    using wo by (simp_all add: without_def)
  show ?thesis
    using assms(2,3) pops_resolves [OF p(1)] pops_properties [OF p(2)]
    unfolding wf_object_def object_mentions_def by blast
qed

lemma remove_link:
  assumes wo: "without t r r'" and "wf_link C r lt" "\<not> link_mentions t lt"
  shows "wf_link C r' lt"
proof -
  have p: "pops t (interface_types r) (interface_types r')" "pops t (object_types r) (object_types r')"
      "pops t (shared_property_types r) (shared_property_types r')"
    using wo by (simp_all add: without_def)
  have "wf_properties r' (lk_property_types lt) (lk_primary_key lt) (lk_validation lt)"
    using assms(2,3) pops_properties [OF p(3)] unfolding wf_link_def link_mentions_def by blast
  then show ?thesis
    using assms(2,3) pops_resolves [OF p(1)] pops_resolves [OF p(2)]
    unfolding wf_link_def link_mentions_def by auto
qed

lemma remove_action:
  assumes wo: "without t r r'" and "wf_action r ac" "\<not> action_mentions t ac"
  shows "wf_action r' ac"
proof -
  have p: "pops t (interface_types r) (interface_types r')" "pops t (object_types r) (object_types r')"
      "pops t (link_types r) (link_types r')"
    using wo by (simp_all add: without_def)
  show ?thesis
    using assms(2,3) pops_resolves [OF p(1)] pops_resolves [OF p(2)] pops_resolves [OF p(3)]
    unfolding wf_action_def wf_parameter_def action_mentions_def by blast
qed

lemma wf_remove:
  assumes wf: "wf_ontology C r" and un: "unreferenced t r" and wo: "without t r r'"
  shows "wf_ontology C r'"
proof -
  have p: "pops t (shared_property_types r) (shared_property_types r')"
      "pops t (interface_types r) (interface_types r')" "pops t (object_types r) (object_types r')"
      "pops t (link_types r) (link_types r')" "pops t (action_types r) (action_types r')"
    using wo by (simp_all add: without_def)
  note vals = pops_vals [OF p(1)] pops_vals [OF p(2)] pops_vals [OF p(3)] pops_vals [OF p(4)]
    pops_vals [OF p(5)]
  show ?thesis
    unfolding wf_ontology_def
  proof (intro conjI ballI)
    show "acyclic (extends_rel (interface_types r'))"
      using wf pops_extends [OF p(2)] acyclic_subset unfolding wf_ontology_def by blast
    show "wf_shared sp" if "sp \<in> set (dict_vals (shared_property_types r'))" for sp
      using wf vals(1) [OF that] unfolding wf_ontology_def by blast
    show "wf_interface r' i" if "i \<in> set (dict_vals (interface_types r'))" for i
      using wf un vals(2) [OF that] remove_interface [OF wo]
      unfolding wf_ontology_def unreferenced_def by blast
    show "wf_object C r' obj" if "obj \<in> set (dict_vals (object_types r'))" for obj
      using wf un vals(3) [OF that] remove_object [OF wo]
      unfolding wf_ontology_def unreferenced_def by blast
    show "wf_link C r' lt" if "lt \<in> set (dict_vals (link_types r'))" for lt
      using wf un vals(4) [OF that] remove_link [OF wo]
      unfolding wf_ontology_def unreferenced_def by blast
    show "wf_action r' ac" if "ac \<in> set (dict_vals (action_types r'))" for ac
      using wf un vals(5) [OF that] remove_action [OF wo]
      unfolding wf_ontology_def unreferenced_def by blast
  qed
qed

lemma pops_ok: "pops t d d' \<Longrightarrow> dict_ok d \<Longrightarrow> dict_ok d'"
  by (auto simp: pops_def ok_pop)

lemma pops_all: "pops t d d' \<Longrightarrow> list_all P (dict_vals d) \<Longrightarrow> list_all P (dict_vals d')"
  using pops_vals unfolding list_all_iff by metis

lemma keys_ok_remove: "keys_ok r \<Longrightarrow> without t r r' \<Longrightarrow> keys_ok r'"
  unfolding keys_ok_def without_def by (elim conjE, intro conjI; (rule pops_ok pops_all; assumption))

end
