(* ===== verification/Crud.thy ===== *)
theory Crud
  imports Refs_Scan
begin

text \<open>
  \<open>registry/crud.py\<close> and \<open>registry/imports.py\<close>: every operation that makes a new registry from
  an old one. A put, a binding or an import validates its candidate and raises when the validator
  reports an error; a delete refuses a referenced entity and does not validate. The locale
  \<open>registry_component\<close> is the contract of one of the five entity maps; \<open>registry_editor\<close> is
  what any edit promises a caller.
\<close>

subsection \<open>Helpers\<close>

definition replace_map :: "(string, 'v) dict \<Rightarrow> string \<Rightarrow> 'v option \<Rightarrow> (string, 'v) dict" where
  "replace_map src rid defn =
     (case defn of None \<Rightarrow> dict_pop rid src | Some v \<Rightarrow> dict_set rid v src)"

definition validate_or_raise :: "registry \<Rightarrow> string set \<Rightarrow> exn + unit" where
  "validate_or_raise r conn_ids =
     (let errs = filter is_error (validate conn_ids r) in
      if errs \<noteq> [] then Inl (ValidationFailedError errs) else Inr ())"

definition refuse_if_referenced :: "registry \<Rightarrow> string \<Rightarrow> exn + unit" where
  "refuse_if_referenced r target =
     (let refs = find_referrers r target in
      if refs \<noteq> [] then Inl (ReferencedError target refs) else Inr ())"

definition validated :: "registry \<Rightarrow> string set \<Rightarrow> exn + registry" where
  "validated candidate conn_ids =
     bind_sum (validate_or_raise candidate conn_ids) (\<lambda>_. Inr candidate)"

subsection \<open>Puts and deletes\<close>

definition put_shared_property_type ::
  "registry \<Rightarrow> shared_property_type_definition \<Rightarrow> string set \<Rightarrow> exn + registry" where
  "put_shared_property_type r defn conn_ids =
     validated (r\<lparr>shared_property_types := replace_map (shared_property_types r) (sp_rid defn) (Some defn)\<rparr>)
       conn_ids"

definition delete_shared_property_type :: "registry \<Rightarrow> string \<Rightarrow> exn + registry" where
  "delete_shared_property_type r rid =
     bind_sum (refuse_if_referenced r rid)
       (\<lambda>_. Inr (r\<lparr>shared_property_types := replace_map (shared_property_types r) rid None\<rparr>))"

definition put_interface_type ::
  "registry \<Rightarrow> interface_type_definition \<Rightarrow> string set \<Rightarrow> exn + registry" where
  "put_interface_type r defn conn_ids =
     validated (r\<lparr>interface_types := replace_map (interface_types r) (if_rid defn) (Some defn)\<rparr>) conn_ids"

definition delete_interface_type :: "registry \<Rightarrow> string \<Rightarrow> exn + registry" where
  "delete_interface_type r rid =
     bind_sum (refuse_if_referenced r rid)
       (\<lambda>_. Inr (r\<lparr>interface_types := replace_map (interface_types r) rid None\<rparr>))"

definition put_object_type ::
  "registry \<Rightarrow> object_type_definition \<Rightarrow> string set \<Rightarrow> exn + registry" where
  "put_object_type r defn conn_ids =
     validated (r\<lparr>object_types := replace_map (object_types r) (ob_rid defn) (Some defn)\<rparr>) conn_ids"

definition delete_object_type :: "registry \<Rightarrow> string \<Rightarrow> exn + registry" where
  "delete_object_type r rid =
     bind_sum (refuse_if_referenced r rid)
       (\<lambda>_. Inr (r\<lparr>object_types := replace_map (object_types r) rid None\<rparr>))"

definition put_link_type ::
  "registry \<Rightarrow> link_type_definition \<Rightarrow> string set \<Rightarrow> exn + registry" where
  "put_link_type r defn conn_ids =
     validated (r\<lparr>link_types := replace_map (link_types r) (lk_rid defn) (Some defn)\<rparr>) conn_ids"

definition delete_link_type :: "registry \<Rightarrow> string \<Rightarrow> exn + registry" where
  "delete_link_type r rid =
     bind_sum (refuse_if_referenced r rid)
       (\<lambda>_. Inr (r\<lparr>link_types := replace_map (link_types r) rid None\<rparr>))"

definition put_action_type ::
  "registry \<Rightarrow> action_type_definition \<Rightarrow> string set \<Rightarrow> exn + registry" where
  "put_action_type r defn conn_ids =
     validated (r\<lparr>action_types := replace_map (action_types r) (ac_rid defn) (Some defn)\<rparr>) conn_ids"

definition delete_action_type :: "registry \<Rightarrow> string \<Rightarrow> exn + registry" where
  "delete_action_type r rid =
     bind_sum (refuse_if_referenced r rid)
       (\<lambda>_. Inr (r\<lparr>action_types := replace_map (action_types r) rid None\<rparr>))"

definition set_asset_mapping ::
  "registry \<Rightarrow> string \<Rightarrow> asset_mapping \<Rightarrow> string set \<Rightarrow> exn + registry" where
  "set_asset_mapping r target mapping conn_ids =
     (case dict_get (object_types r) target of
        Some obj \<Rightarrow>
          validated (r\<lparr>object_types := replace_map (object_types r) target
                        (Some (obj\<lparr>ob_asset_mapping := mapping\<rparr>))\<rparr>) conn_ids
      | None \<Rightarrow>
          (case dict_get (link_types r) target of
             Some lt \<Rightarrow>
               validated (r\<lparr>link_types := replace_map (link_types r) target
                             (Some (lt\<lparr>lk_asset_mapping := mapping\<rparr>))\<rparr>) conn_ids
           | None \<Rightarrow> Inl (KeyError (''Target RID '' @ py_repr target
                            @ '' not found in object_types or link_types''))))"

subsection \<open>Imports\<close>

datatype import_mode = Replace | Merge

definition merge_registry :: "registry \<Rightarrow> registry \<Rightarrow> registry" where
  "merge_registry base incoming =
     base\<lparr>rg_version := (if rg_version incoming \<noteq> [] then rg_version incoming else rg_version base),
          shared_property_types := dict_merge (shared_property_types base) (shared_property_types incoming),
          interface_types := dict_merge (interface_types base) (interface_types incoming),
          object_types := dict_merge (object_types base) (object_types incoming),
          link_types := dict_merge (link_types base) (link_types incoming),
          action_types := dict_merge (action_types base) (action_types incoming)\<rparr>"

definition import_into_registry ::
  "registry \<Rightarrow> registry \<Rightarrow> import_mode \<Rightarrow> string set \<Rightarrow> exn + registry" where
  "import_into_registry base incoming mode conn_ids =
     validated (case mode of Replace \<Rightarrow> incoming | Merge \<Rightarrow> merge_registry base incoming) conn_ids"

subsection \<open>The guards\<close>

lemma validate_or_raise_ok: "validate_or_raise r C = Inr () \<longleftrightarrow> wf_ontology C r"
  unfolding clean_iff_wf [symmetric] clean_def has_errors_def validate_or_raise_def Let_def
  by (simp add: filter_empty_conv list_ex_iff)

lemma validated_Inr: "validated c C = Inr r \<longleftrightarrow> c = r \<and> wf_ontology C r"
  using validate_or_raise_ok [of c C] by (auto simp: validated_def bind_sum_Inr)

lemma validated_Inl:
  "validated c C = Inl e \<longleftrightarrow>
     \<not> wf_ontology C c \<and> e = ValidationFailedError (filter is_error (validate C c))"
  unfolding clean_iff_wf [symmetric] clean_def has_errors_def
  by (auto simp: validated_def validate_or_raise_def Let_def filter_empty_conv list_ex_iff)

lemma refuse_ok: "refuse_if_referenced r t = Inr () \<longleftrightarrow> unreferenced t r"
  by (simp add: refuse_if_referenced_def Let_def find_referrers_Nil)

lemma refuse_bind_Inr:
  "bind_sum (refuse_if_referenced r t) (\<lambda>_. Inr x) = Inr y \<longleftrightarrow> x = y \<and> unreferenced t r"
  using refuse_ok [of r t] by (auto simp: bind_sum_Inr)

lemma refuse_bind_Inl:
  "bind_sum (refuse_if_referenced r t) (\<lambda>_. Inr x) = Inl e \<longleftrightarrow>
     \<not> unreferenced t r \<and> e = ReferencedError t (find_referrers r t)"
  by (auto simp: refuse_if_referenced_def Let_def find_referrers_Nil)

subsection \<open>One entity map of the registry\<close>

text \<open>
  A map of the registry with its accessor, its update, and the put and delete the module gives
  for it. The clients' facts say what a successful edit does to this map, and that it is the only
  thing that changes.
\<close>

locale registry_component =
  fixes get :: "registry \<Rightarrow> (string, 'v) dict"
    and upd :: "((string, 'v) dict \<Rightarrow> (string, 'v) dict) \<Rightarrow> registry \<Rightarrow> registry"
    and rid_of :: "'v \<Rightarrow> string"
    and put :: "registry \<Rightarrow> 'v \<Rightarrow> string set \<Rightarrow> exn + registry"
    and del :: "registry \<Rightarrow> string \<Rightarrow> exn + registry"
    and inner :: "'v \<Rightarrow> bool"
  assumes get_upd: "get (upd f r) = f (get r)"
    and upd_id: "upd (\<lambda>_. get r) r = r"
    and upd_upd: "upd f (upd g r) = upd (f \<circ> g) r"
    and put_is: "put r v C = validated (upd (\<lambda>_. replace_map (get r) (rid_of v) (Some v)) r) C"
    and del_is: "del r t =
          bind_sum (refuse_if_referenced r t) (\<lambda>_. Inr (upd (\<lambda>_. replace_map (get r) t None) r))"
    and pop_without: "without t r (upd (\<lambda>_. dict_pop t (get r)) r)"
    and keys_ok_upd: "keys_ok r \<Longrightarrow> dict_ok d \<Longrightarrow> (\<And>v. v \<in> set (dict_vals d) \<Longrightarrow> inner v)
          \<Longrightarrow> keys_ok (upd (\<lambda>_. d) r)"
    and keys_ok_get: "keys_ok r \<Longrightarrow> dict_ok (get r) \<and> (\<forall>v \<in> set (dict_vals (get r)). inner v)"
begin

lemma put_result:
  "put r v C = Inr r' \<longleftrightarrow> r' = upd (\<lambda>_. dict_set (rid_of v) v (get r)) r \<and> wf_ontology C r'"
  by (auto simp: put_is validated_Inr replace_map_def)

lemma put_wf: "put r v C = Inr r' \<Longrightarrow> wf_ontology C r'"
  using put_result by blast

lemma put_lookup: "put r v C = Inr r' \<Longrightarrow> dict_get (get r') = (dict_get (get r))(rid_of v \<mapsto> v)"
  by (simp add: put_result get_upd get_set)

lemma put_frame: "put r v C = Inr r' \<Longrightarrow> upd (\<lambda>_. get r) r' = r"
  by (simp add: put_result upd_upd comp_def upd_id)

lemma put_refused:
  "put r v C = Inl e \<Longrightarrow> \<exists>fs. e = ValidationFailedError fs \<and> fs \<noteq> [] \<and> (\<forall>f \<in> set fs. is_error f)"
  using validate_or_raise_ok
  by (auto simp: put_is validated_def validate_or_raise_def Let_def bind_sum_Inl split: if_splits)

lemma put_keys_ok:
  assumes "keys_ok r" "inner v" "put r v C = Inr r'"
  shows "keys_ok r'"
proof -
  have ok: "dict_ok (get r)" and inn: "\<forall>v \<in> set (dict_vals (get r)). inner v"
    using keys_ok_get [OF assms(1)] by auto
  have "inner w" if "w \<in> set (dict_vals (dict_set (rid_of v) v (get r)))" for w
    using that inn assms(2) by (auto simp: set_set [OF ok])
  from keys_ok_upd [OF assms(1) ok_set [OF ok] this] show ?thesis
    using assms(3) unfolding put_result by blast
qed

lemma del_result:
  "del r t = Inr r' \<longleftrightarrow> r' = upd (\<lambda>_. dict_pop t (get r)) r \<and> unreferenced t r"
  by (auto simp: del_is refuse_bind_Inr replace_map_def)

lemma del_wf: "wf_ontology C r \<Longrightarrow> del r t = Inr r' \<Longrightarrow> wf_ontology C r'"
  using wf_remove [OF _ _ pop_without] by (auto simp: del_result)

lemma del_lookup: "del r t = Inr r' \<Longrightarrow> dict_get (get r') = (dict_get (get r))(t := None)"
  by (simp add: del_result get_upd get_pop)

lemma del_frame: "del r t = Inr r' \<Longrightarrow> upd (\<lambda>_. get r) r' = r"
  by (simp add: del_result upd_upd comp_def upd_id)

lemma del_refused: "del r t = Inl e \<longleftrightarrow>
    e = ReferencedError t (find_referrers r t) \<and> \<not> unreferenced t r"
  unfolding del_is refuse_bind_Inl by (rule conj_commute)

lemma del_keys_ok: "keys_ok r \<Longrightarrow> del r t = Inr r' \<Longrightarrow> keys_ok r'"
  using keys_ok_remove [OF _ pop_without] by (auto simp: del_result)

lemma put_then_del:
  assumes "put r v C = Inr r1" "del r1 (rid_of v) = Inr r2" "dict_get (get r) (rid_of v) = None"
  shows "dict_get (get r2) = dict_get (get r) \<and> upd (\<lambda>_. get r) r2 = r"
  using put_lookup [OF assms(1)] del_lookup [OF assms(2)] del_frame [OF assms(2)]
    put_frame [OF assms(1)] assms(2,3) py_dict.del_put
  by (auto simp: del_result upd_upd comp_def fun_eq_iff)

end

lemma pops_refl [simp]: "pops t d d"
  by (simp add: pops_def)

lemma pops_pop [simp]: "pops t d (dict_pop t d)"
  by (simp add: pops_def)

lemmas component_simps = without_def keys_ok_def list_all_iff

interpretation shared: registry_component shared_property_types shared_property_types_update sp_rid
    put_shared_property_type delete_shared_property_type "\<lambda>_. True"
  by unfold_locales (auto simp: put_shared_property_type_def delete_shared_property_type_def
      component_simps)

interpretation iface: registry_component interface_types interface_types_update if_rid
    put_interface_type delete_interface_type "\<lambda>_. True"
  by unfold_locales (auto simp: put_interface_type_def delete_interface_type_def component_simps)

interpretation obj: registry_component object_types object_types_update ob_rid
    put_object_type delete_object_type "\<lambda>d. dict_ok (ob_property_types d)"
  by unfold_locales (auto simp: put_object_type_def delete_object_type_def component_simps)

interpretation link: registry_component link_types link_types_update lk_rid
    put_link_type delete_link_type "\<lambda>d. dict_ok (lk_property_types d)"
  by unfold_locales (auto simp: put_link_type_def delete_link_type_def component_simps)

interpretation action: registry_component action_types action_types_update ac_rid
    put_action_type delete_action_type "\<lambda>_. True"
  by unfold_locales (auto simp: put_action_type_def delete_action_type_def component_simps)

subsection \<open>Bindings and imports\<close>

lemma set_asset_result:
  assumes "set_asset_mapping r t am C = Inr r'"
  obtains (object) ob where "dict_get (object_types r) t = Some ob"
      "r' = r\<lparr>object_types := dict_set t (ob\<lparr>ob_asset_mapping := am\<rparr>) (object_types r)\<rparr>"
      "wf_ontology C r'"
  | (link) lk where "dict_get (object_types r) t = None" "dict_get (link_types r) t = Some lk"
      "r' = r\<lparr>link_types := dict_set t (lk\<lparr>lk_asset_mapping := am\<rparr>) (link_types r)\<rparr>"
      "wf_ontology C r'"
  using assms by (auto simp: set_asset_mapping_def validated_Inr replace_map_def split: option.splits)

lemma keys_ok_inner:
  assumes "keys_ok r"
  shows "dict_get (object_types r) t = Some ob \<Longrightarrow> dict_ok (ob_property_types ob)"
    and "dict_get (link_types r) t = Some lk \<Longrightarrow> dict_ok (lk_property_types lk)"
  using assms by (force simp: keys_ok_def list_all_iff dest: map_of_SomeD)+

lemma set_asset_keys_ok:
  assumes ok: "keys_ok r" and res: "set_asset_mapping r t am C = Inr r'"
  shows "keys_ok r'"
  using res
proof (cases rule: set_asset_result)
  case (object ob)
  with ok keys_ok_inner(1) [OF ok object(1)] show ?thesis
    by (auto simp: keys_ok_def ok_set list_all_iff set_set)
next
  case (link lk)
  with ok keys_ok_inner(2) [OF ok link(2)] show ?thesis
    by (auto simp: keys_ok_def ok_set list_all_iff set_set)
qed

lemma import_result:
  "import_into_registry base incoming mode C = Inr r \<longleftrightarrow>
     r = (case mode of Replace \<Rightarrow> incoming | Merge \<Rightarrow> merge_registry base incoming) \<and> wf_ontology C r"
  by (auto simp: import_into_registry_def validated_Inr)

lemma merge_vals:
  assumes a: "dict_ok a" and b: "dict_ok b" and P: "\<forall>v \<in> set (dict_vals a). P v" "\<forall>v \<in> set (dict_vals b). P v"
  shows "\<forall>v \<in> set (dict_vals (dict_merge a b)). P v"
proof
  fix v assume "v \<in> set (dict_vals (dict_merge a b))"
  then obtain k where "(k, v) \<in> set (dict_merge a b)" by auto
  then have "dict_get (dict_merge a b) k = Some v"
    by (simp add: get_iff_mem ok_merge [OF a])
  then have "dict_get b k = Some v \<or> dict_get a k = Some v"
    by (auto simp: get_merge [OF b])
  with P show "P v" by (force dest: map_of_SomeD)
qed

lemma keys_ok_merge:
  assumes "keys_ok base" "keys_ok incoming"
  shows "keys_ok (merge_registry base incoming)"
  using assms
    merge_vals [of "object_types base" "object_types incoming" "\<lambda>d. dict_ok (ob_property_types d)"]
    merge_vals [of "link_types base" "link_types incoming" "\<lambda>d. dict_ok (lk_property_types d)"]
  by (simp add: keys_ok_def merge_registry_def list_all_iff ok_merge)

lemma import_keys_ok:
  "keys_ok base \<Longrightarrow> keys_ok incoming \<Longrightarrow> import_into_registry base incoming mode C = Inr r \<Longrightarrow> keys_ok r"
  by (cases mode) (simp_all add: import_result keys_ok_merge)

subsection \<open>Every edit\<close>

text \<open>
  The edits a caller can ask for, each with the function that performs it. \<open>apply_edit\<close> is what the
  HTTP, MCP and agent layers dispatch to.
\<close>

datatype edit =
    Put_shared shared_property_type_definition
  | Put_interface interface_type_definition
  | Put_object object_type_definition
  | Put_link link_type_definition
  | Put_action action_type_definition
  | Delete_shared string
  | Delete_interface string
  | Delete_object string
  | Delete_link string
  | Delete_action string
  | Bind_asset string asset_mapping
  | Import import_mode registry

fun apply_edit :: "string set \<Rightarrow> edit \<Rightarrow> registry \<Rightarrow> exn + registry" where
  "apply_edit C (Put_shared d) r = put_shared_property_type r d C"
| "apply_edit C (Put_interface d) r = put_interface_type r d C"
| "apply_edit C (Put_object d) r = put_object_type r d C"
| "apply_edit C (Put_link d) r = put_link_type r d C"
| "apply_edit C (Put_action d) r = put_action_type r d C"
| "apply_edit C (Delete_shared rid) r = delete_shared_property_type r rid"
| "apply_edit C (Delete_interface rid) r = delete_interface_type r rid"
| "apply_edit C (Delete_object rid) r = delete_object_type r rid"
| "apply_edit C (Delete_link rid) r = delete_link_type r rid"
| "apply_edit C (Delete_action rid) r = delete_action_type r rid"
| "apply_edit C (Bind_asset rid am) r = set_asset_mapping r rid am C"
| "apply_edit C (Import mode incoming) r = import_into_registry r incoming mode C"

text \<open>What the parser of the request guarantees: one entry per key in the maps it builds.\<close>

fun edit_ok :: "edit \<Rightarrow> bool" where
  "edit_ok (Put_object d) = dict_ok (ob_property_types d)"
| "edit_ok (Put_link d) = dict_ok (lk_property_types d)"
| "edit_ok (Import mode incoming) = keys_ok incoming"
| "edit_ok e = True"

definition good :: "string set \<Rightarrow> registry \<Rightarrow> bool" where
  "good C r \<longleftrightarrow> keys_ok r \<and> wf_ontology C r"

lemmas put_wfs = shared.put_wf iface.put_wf obj.put_wf link.put_wf action.put_wf
lemmas del_wfs = shared.del_wf iface.del_wf obj.del_wf link.del_wf action.del_wf

lemma edit_wf: "wf_ontology C r \<Longrightarrow> apply_edit C e r = Inr r' \<Longrightarrow> wf_ontology C r'"
  by (cases e) (auto simp: import_result elim: set_asset_result dest: put_wfs del_wfs)

lemmas put_keys = shared.put_keys_ok iface.put_keys_ok obj.put_keys_ok link.put_keys_ok
  action.put_keys_ok
lemmas del_keys = shared.del_keys_ok iface.del_keys_ok obj.del_keys_ok link.del_keys_ok
  action.del_keys_ok

lemma edit_keys_ok: "keys_ok r \<Longrightarrow> edit_ok e \<Longrightarrow> apply_edit C e r = Inr r' \<Longrightarrow> keys_ok r'"
  by (cases e) (auto intro: put_keys del_keys set_asset_keys_ok import_keys_ok)

lemma edit_good: "good C r \<Longrightarrow> edit_ok e \<Longrightarrow> apply_edit C e r = Inr r' \<Longrightarrow> good C r'"
  using edit_wf edit_keys_ok unfolding good_def by blast

text \<open>
  The contract a sequence of edits relies on: each step keeps the invariant or leaves the state
  alone. A caller that drops the failing edits ends in a state that satisfies the invariant.
\<close>

locale registry_editor =
  fixes step :: "'e \<Rightarrow> 'r \<Rightarrow> exn + 'r"
    and allowed :: "'e \<Rightarrow> bool"
    and inv :: "'r \<Rightarrow> bool"
  assumes step_inv: "inv r \<Longrightarrow> allowed e \<Longrightarrow> step e r = Inr r' \<Longrightarrow> inv r'"
begin

lemma run_inv:
  "inv r \<Longrightarrow> \<forall>e \<in> set es. allowed e \<Longrightarrow>
     inv (fold (\<lambda>e r. case step e r of Inl _ \<Rightarrow> r | Inr r' \<Rightarrow> r') es r)"
  by (induction es arbitrary: r) (auto intro: step_inv split: sum.splits)

end

interpretation editor: registry_editor "apply_edit C" edit_ok "good C" for C
  by unfold_locales (rule edit_good)

text \<open>A caller that keeps the registry it had when an edit fails.\<close>

definition run_edits :: "string set \<Rightarrow> edit list \<Rightarrow> registry \<Rightarrow> registry" where
  "run_edits C es r =
     fold (\<lambda>e r. case apply_edit C e r of Inl _ \<Rightarrow> r | Inr r' \<Rightarrow> r') es r"

lemma run_edits_good: "good C r \<Longrightarrow> \<forall>e \<in> set es. edit_ok e \<Longrightarrow> good C (run_edits C es r)"
  unfolding run_edits_def by (rule editor.run_inv)

lemma good_empty: "good C empty_registry"
  by (simp add: good_def keys_ok_empty wf_ontology_def)
    (auto simp: empty_registry_def extends_rel_def parents_of_def acyclic_def)

subsection \<open>A small registry for the examples\<close>

lemma wf_empty: "wf_ontology C empty_registry"
  using good_empty by (simp add: good_def)

definition sample_action :: action_type_definition where
  "sample_action = mk_action_type ''ri.action.00000000-0000-0000-0000-000000000001''"

definition built_registry :: registry where
  "built_registry = run_edits {} [Put_action sample_action] empty_registry"

lemma sample_uuid: "uuid_form ''00000000-0000-0000-0000-000000000001''"
  unfolding uuid_form_def
  by (intro exI [where x = "''00000000''"] exI [where x = "''0000''"]
      exI [where x = "''000000000001''"]) (simp add: is_hex_def is_digit_def)

lemma built_registry_put:
  "built_registry = empty_registry\<lparr>action_types := [(ac_rid sample_action, sample_action)]\<rparr>
   \<and> put_action_type empty_registry sample_action {} = Inr built_registry \<and> wf_ontology {} built_registry"
proof -
  let ?r = "empty_registry\<lparr>action_types := [(ac_rid sample_action, sample_action)]\<rparr>"
  have "rid_form ''action'' (ac_rid sample_action)"
    unfolding rid_form_def using sample_uuid
    by (intro exI [where x = "''00000000-0000-0000-0000-000000000001''"] exI [where x = "[]"])
      (simp add: sample_action_def mk_action_type_def maybe_newline_def)
  then have "wf_ontology {} ?r"
    using wf_empty [of "{}"] by (simp add: wf_ontology_def empty_registry_def wf_action_def named_def
        sample_action_def mk_action_type_def)
  moreover from this have "put_action_type empty_registry sample_action {} = Inr ?r"
    by (simp add: action.put_result dict_set_def empty_registry_def)
  ultimately show ?thesis by (simp add: built_registry_def run_edits_def)
qed

lemmas built_registry_is = built_registry_put [THEN conjunct1]

subsection \<open>Properties\<close>

text \<open>C5: every edit keeps the ontology well-formed. Each put, delete, binding and import that
  succeeds on a well-formed registry with unique keys gives one again; a delete does so without
  running the validator, because it refuses whatever is still referenced.\<close>
theorem edits_preserve_wellformedness:
  assumes "good C r" and "edit_ok e" and "apply_edit C e r = Inr r'"
  shows "keys_ok r' \<and> wf_ontology C r'"
  using edit_good [OF assms] by (simp add: good_def)

theorem edits_preserve_wellformedness_witness:
  "keys_ok built_registry \<and> wf_ontology {} built_registry"
proof -
  have "wf_ontology {} built_registry \<and> apply_edit {} (Put_action sample_action) empty_registry = Inr built_registry"
    using built_registry_put by simp
  with edits_preserve_wellformedness [OF good_empty, of "Put_action sample_action" "{}" built_registry]
  show ?thesis by simp
qed

text \<open>C22: a put changes one entry. For each of the five kinds, it succeeds exactly when the registry
  with the definition stored under its own identifier is well-formed, and that registry is the
  result; otherwise it raises the validator's errors on it.\<close>
theorem put_changes_one_entry:
  "put_shared_property_type r sp C =
     (let c = r\<lparr>shared_property_types := dict_set (sp_rid sp) sp (shared_property_types r)\<rparr> in
      if wf_ontology C c then Inr c else Inl (ValidationFailedError (filter is_error (validate C c))))
   \<and> put_interface_type r ifc C =
     (let c = r\<lparr>interface_types := dict_set (if_rid ifc) ifc (interface_types r)\<rparr> in
      if wf_ontology C c then Inr c else Inl (ValidationFailedError (filter is_error (validate C c))))
   \<and> put_object_type r ob C =
     (let c = r\<lparr>object_types := dict_set (ob_rid ob) ob (object_types r)\<rparr> in
      if wf_ontology C c then Inr c else Inl (ValidationFailedError (filter is_error (validate C c))))
   \<and> put_link_type r lk C =
     (let c = r\<lparr>link_types := dict_set (lk_rid lk) lk (link_types r)\<rparr> in
      if wf_ontology C c then Inr c else Inl (ValidationFailedError (filter is_error (validate C c))))
   \<and> put_action_type r ac C =
     (let c = r\<lparr>action_types := dict_set (ac_rid ac) ac (action_types r)\<rparr> in
      if wf_ontology C c then Inr c else Inl (ValidationFailedError (filter is_error (validate C c))))"
proof -
  have v: "validated c C = (if wf_ontology C c then Inr c
      else Inl (ValidationFailedError (filter is_error (validate C c))))" for c
    using validated_Inr [of c C c] validated_Inl [of c C] by (cases "validated c C") auto
  show ?thesis
    by (simp add: Let_def v replace_map_def put_shared_property_type_def put_interface_type_def
        put_object_type_def put_link_type_def put_action_type_def)
qed

text \<open>C23: a delete removes one entry or refuses. For each of the five kinds, it answers the
  registry without the entry exactly when nothing that the scanner looks at mentions the
  identifier; otherwise it raises the list of the referring places.\<close>
theorem delete_removes_or_refuses:
  "delete_shared_property_type r t = (if unreferenced t r
      then Inr (r\<lparr>shared_property_types := dict_pop t (shared_property_types r)\<rparr>)
      else Inl (ReferencedError t (find_referrers r t)))
   \<and> delete_interface_type r t = (if unreferenced t r
      then Inr (r\<lparr>interface_types := dict_pop t (interface_types r)\<rparr>)
      else Inl (ReferencedError t (find_referrers r t)))
   \<and> delete_object_type r t = (if unreferenced t r
      then Inr (r\<lparr>object_types := dict_pop t (object_types r)\<rparr>)
      else Inl (ReferencedError t (find_referrers r t)))
   \<and> delete_link_type r t = (if unreferenced t r
      then Inr (r\<lparr>link_types := dict_pop t (link_types r)\<rparr>)
      else Inl (ReferencedError t (find_referrers r t)))
   \<and> delete_action_type r t = (if unreferenced t r
      then Inr (r\<lparr>action_types := dict_pop t (action_types r)\<rparr>)
      else Inl (ReferencedError t (find_referrers r t)))"
proof -
  have v: "bind_sum (refuse_if_referenced r t) (\<lambda>_. Inr x) = (if unreferenced t r then Inr x
      else Inl (ReferencedError t (find_referrers r t)))" for x
    using refuse_bind_Inr [of r t x x] refuse_bind_Inl [of r t x]
    by (cases "bind_sum (refuse_if_referenced r t) (\<lambda>_. Inr x)") auto
  show ?thesis
    by (simp add: v replace_map_def delete_shared_property_type_def delete_interface_type_def
        delete_object_type_def delete_link_type_def delete_action_type_def)
qed

text \<open>A merge import is right-biased and total on both sides: every entity of either registry is
  kept, the incoming one where both have the identifier, and the version string is the incoming one
  unless that is empty.\<close>
theorem merge_is_right_biased:
  assumes "keys_ok incoming" and "import_into_registry base incoming Merge C = Inr r"
  shows "rg_version r = (if rg_version incoming = [] then rg_version base else rg_version incoming)
     \<and> dict_get (shared_property_types r) =
         dict_get (shared_property_types base) ++ dict_get (shared_property_types incoming)
     \<and> dict_get (interface_types r) = dict_get (interface_types base) ++ dict_get (interface_types incoming)
     \<and> dict_get (object_types r) = dict_get (object_types base) ++ dict_get (object_types incoming)
     \<and> dict_get (link_types r) = dict_get (link_types base) ++ dict_get (link_types incoming)
     \<and> dict_get (action_types r) = dict_get (action_types base) ++ dict_get (action_types incoming)
     \<and> wf_ontology C r"
proof -
  from assms(2) have "r = merge_registry base incoming \<and> wf_ontology C r"
    unfolding import_result import_mode.case .
  then have r: "r = merge_registry base incoming" and wf: "wf_ontology C r" by blast+
  show ?thesis
    using assms(1) wf unfolding r keys_ok_def
    by (intro conjI) (simp_all add: merge_registry_def get_merge)
qed

theorem merge_is_right_biased_witness:
  "\<exists>r. import_into_registry empty_registry (empty_registry\<lparr>rg_version := ''2''\<rparr>) Merge {} = Inr r
     \<and> rg_version r = ''2''"
proof -
  let ?i = "empty_registry\<lparr>rg_version := ''2''\<rparr>"
  have wf: "wf_ontology {} (empty_registry\<lparr>rg_version := ''2''\<rparr>)"
    using good_empty [of "{}"] by (simp add: good_def wf_ontology_def empty_registry_def)
  then have "import_into_registry empty_registry ?i Merge {} = Inr ?i"
    by (simp add: import_result merge_registry_def empty_registry_def)
  moreover have "keys_ok ?i"
    using keys_ok_empty by (simp add: keys_ok_def)
  ultimately show ?thesis using merge_is_right_biased [of ?i empty_registry "{}" ?i] by auto
qed

end
