(* ===== verification/Lifecycle.thy ===== *)
theory Lifecycle
  imports Registry_Store Crud
begin

text \<open>
  \<open>registry/lifecycle.py\<close>: promotion of staging, its undo, and the revert of staging. Each runs in
  the caller's transaction; the lemmas say what the three slots hold afterwards, on every branch.
\<close>

definition promote_staging_to_production ::
  "string \<Rightarrow> string option \<Rightarrow> string set \<Rightarrow> (db, exn, unit) act" where
  "promote_staging_to_production commit_message token_label conn_ids =
     bind (load Staging) (\<lambda>staging.
     bind (lift_sum (validate_or_raise (sn_registry staging) conn_ids)) (\<lambda>_.
     bind (load Production) (\<lambda>production.
     bind (load Previous_production) (\<lambda>prev.
     bind (save Previous_production (sn_registry production) (Some (sn_version prev)) token_label None) (\<lambda>_.
     bind (save Production (sn_registry staging) (Some (sn_version production)) token_label
             (Some commit_message)) (\<lambda>_.
     ret ()))))))"

definition revert_staging_to_production :: "string option \<Rightarrow> (db, exn, unit) act" where
  "revert_staging_to_production token_label =
     bind (load Production) (\<lambda>production.
     bind (load Staging) (\<lambda>staging.
     bind (save Staging (sn_registry production) (Some (sn_version staging)) token_label None) (\<lambda>_.
     ret ())))"

definition undo_promote :: "string option \<Rightarrow> (db, exn, unit) act" where
  "undo_promote token_label =
     bind (load Previous_production) (\<lambda>prev.
     if rg_version (sn_registry prev) = EMPTY_REGISTRY_VERSION then raise UndoUnavailableError
     else
       bind (load Production) (\<lambda>production.
       bind (save Production (sn_registry prev) (Some (sn_version production)) token_label None) (\<lambda>_.
       bind (save Previous_production empty_registry (Some (sn_version prev)) token_label None) (\<lambda>_.
       ret ()))))"

subsection \<open>Results\<close>

definition slots :: "db \<Rightarrow> registry \<times> int \<Rightarrow> registry \<times> int \<Rightarrow> registry \<times> int \<Rightarrow> bool" where
  "slots s st pr pp \<longleftrightarrow>
     slot s Staging = Some st \<and> slot s Production = Some pr \<and> slot s Previous_production = Some pp"

lemma slots_seeded: "seeded s \<Longrightarrow> \<exists>st pr pp. slots s st pr pp"
  by (auto simp: seeded_slot slots_def)

lemma slots_iff: "slots s st pr pp \<longleftrightarrow>
    slot s = (\<lambda>e. case e of Staging \<Rightarrow> Some st | Production \<Rightarrow> Some pr | Previous_production \<Rightarrow> Some pp)"
  by (auto simp: slots_def fun_eq_iff split: env.splits)

lemma validate_sum: "validate_or_raise r C =
    (if wf_ontology C r then Inr ()
     else Inl (ValidationFailedError (filter is_error (validate C r))))"
  using validate_or_raise_ok [of r C] validated_Inl [of r C]
  by (cases "validate_or_raise r C") (auto simp: validated_def)

lemma promote_run:
  assumes "slots s (st, v1) (pr, v2) (pp, v3)"
  shows "promote_staging_to_production msg label C s =
     (if wf_ontology C st
      then (Inr (), saved Production st label (Some msg) (saved Previous_production pr label None s))
      else (Inl (ValidationFailedError (filter is_error (validate C st))), s))"
  using assms unfolding promote_staging_to_production_def slots_def
  by (simp add: act_simps validate_sum)

lemma promote_slots:
  assumes "slots s (st, v1) (pr, v2) (pp, v3)"
    and "promote_staging_to_production msg label C s = (Inr (), s')"
  shows "wf_ontology C st \<and> slots s' (st, v1) (st, v2 + 1) (pr, v3 + 1)"
proof -
  from promote_run [OF assms(1), of msg label C] assms(2) have wf: "wf_ontology C st"
    and s': "s' = saved Production st label (Some msg) (saved Previous_production pr label None s)"
    by (auto split: if_splits)
  have "slot (saved Previous_production pr label None s) = (slot s)(Previous_production \<mapsto> (pr, v3 + 1))"
    using assms(1) by (auto simp: slots_def)
  then have "slot s' = (slot s)(Previous_production \<mapsto> (pr, v3 + 1), Production \<mapsto> (st, v2 + 1))"
    unfolding s' using assms(1) by (simp add: slots_def)
  with wf assms(1) show ?thesis by (simp add: slots_def)
qed

lemma revert_run:
  assumes "slots s (st, v1) (pr, v2) (pp, v3)"
  shows "\<exists>s'. revert_staging_to_production label s = (Inr (), s')
      \<and> slots s' (pr, v1 + 1) (pr, v2) (pp, v3) \<and> same_tables s s'"
  using assms saved_same_tables [of s Staging pr label None]
  by (auto simp: revert_staging_to_production_def slots_def act_simps)

lemma undo_run:
  assumes "slots s (st, v1) (pr, v2) (pp, v3)"
  shows "undo_promote label s =
     (if rg_version pp = EMPTY_REGISTRY_VERSION then (Inl UndoUnavailableError, s)
      else (Inr (), saved Previous_production empty_registry label None
                      (saved Production pp label None s)))"
  using assms by (simp add: undo_promote_def slots_def act_simps)

lemma undo_slots:
  assumes "slots s (st, v1) (pr, v2) (pp, v3)" "undo_promote label s = (Inr (), s')"
  shows "rg_version pp \<noteq> EMPTY_REGISTRY_VERSION
      \<and> slots s' (st, v1) (pp, v2 + 1) (empty_registry, v3 + 1)"
proof -
  from undo_run [OF assms(1), of label] assms(2) have pp: "rg_version pp \<noteq> EMPTY_REGISTRY_VERSION"
    and s': "s' = saved Previous_production empty_registry label None (saved Production pp label None s)"
    by (auto split: if_splits)
  have "slot (saved Production pp label None s) = (slot s)(Production \<mapsto> (pp, v2 + 1))"
    using assms(1) by (auto simp: slots_def)
  then have "slot s' = (slot s)(Production \<mapsto> (pp, v2 + 1), Previous_production \<mapsto> (empty_registry, v3 + 1))"
    unfolding s' using assms(1) by (simp add: slots_def)
  with pp assms(1) show ?thesis by (simp add: slots_def)
qed

lemma migrated_slots: "slots (migrated t) (empty_registry, 0) (empty_registry, 0) (empty_registry, 0)"
  by (simp add: slots_def slot_def migrated_def)

subsection \<open>Properties\<close>

text \<open>C19: promotion. On a seeded database it either raises the validator's errors about the staged
  registry and leaves the database as it was, or moves production to previous_production and
  staging to production, each under its next version, leaving staging and every other table alone
  and recording the commit message on production.\<close>
theorem promote_correct:
  assumes "slots s (st, v1) (pr, v2) (pp, v3)"
  shows "if wf_ontology C st
    then \<exists>s'. promote_staging_to_production msg label C s = (Inr (), s')
           \<and> slots s' (st, v1) (st, v2 + 1) (pr, v3 + 1) \<and> same_tables s s'
           \<and> map_option rr_commit_message (registries s' Production) = Some (Some msg)
    else promote_staging_to_production msg label C s =
           (Inl (ValidationFailedError (filter is_error (validate C st))), s)"
proof (cases "wf_ontology C st")
  case True
  define m where "m = saved Previous_production pr label None s"
  define s' where "s' = saved Production st label (Some msg) m"
  have run: "promote_staging_to_production msg label C s = (Inr (), s')"
    using promote_run [OF assms, of msg label C] True by (simp add: s'_def m_def)
  have "slot m Production = Some (pr, v2)"
    using assms by (simp add: m_def slots_def)
  then obtain row where "registries m Production = Some row"
    by (auto simp: slot_def)
  then have "map_option rr_commit_message (registries s' Production) = Some (Some msg)"
    by (simp add: s'_def saved_message)
  moreover have "same_tables s s'"
    unfolding s'_def m_def by (blast intro: same_tables_trans saved_same_tables)
  ultimately show ?thesis
    using True run promote_slots [OF assms run] by simp
qed (simp add: promote_run [OF assms])

theorem promote_correct_witness:
  "\<exists>s'. promote_staging_to_production ''first'' None {} (migrated 0) = (Inr (), s')
     \<and> slots s' (empty_registry, 0) (empty_registry, 1) (empty_registry, 1)"
  using promote_correct [OF migrated_slots, of "{}" "''first''" None 0] wf_empty by auto


definition sample_registry :: registry where
  "sample_registry = empty_registry\<lparr>rg_version := ''1.0''\<rparr>"

definition sample_db :: db where
  "sample_db = saved Production sample_registry None None (migrated 0)"

lemma sample_slots: "slots sample_db (empty_registry, 0) (sample_registry, 1) (empty_registry, 0)"
  using migrated_slots by (simp add: sample_db_def slots_def)


text \<open>The guard of undo looks at the registry's own version string, not at the slot. A
  production whose registry still has the version string of the empty registry, as every registry
  built by puts from the initial state has, cannot be restored after a promotion, whatever its
  entities are.\<close>
theorem undo_refuses_unversioned:
  assumes "slots s (st, v1) (pr, v2) (pp, v3)"
    and "promote_staging_to_production msg label C s = (Inr (), s1)"
    and "rg_version pr = EMPTY_REGISTRY_VERSION"
  shows "undo_promote label' s1 = (Inl UndoUnavailableError, s1)"
  using undo_run [of s1 st v1 st "v2 + 1" pr "v3 + 1" label'] promote_slots [OF assms(1,2)] assms(3)
  by simp

definition built_db :: db where
  "built_db = saved Production built_registry None None (migrated 0)"

lemma built_slots: "slots built_db (empty_registry, 0) (built_registry, 1) (empty_registry, 0)"
  using migrated_slots by (simp add: built_db_def slots_def)

theorem undo_refuses_unversioned_witness:
  "\<exists>s1. promote_staging_to_production ''m'' None {} built_db = (Inr (), s1)
     \<and> undo_promote None s1 = (Inl UndoUnavailableError, s1)
     \<and> dict_has (ac_rid sample_action) (action_types built_registry)"
proof -
  obtain s1 where run: "promote_staging_to_production ''m'' None {} built_db = (Inr (), s1)"
    using promote_run [OF built_slots, of "''m''" None "{}"] wf_empty by auto
  from undo_refuses_unversioned [OF built_slots this, of None] run show ?thesis
    by (simp add: built_registry_is) (simp add: empty_registry_def)
qed

end
