(* ===== verification/Ingestion_Store.thy ===== *)
theory Ingestion_Store
  imports Database Crud Py_Parse
begin

text \<open>
  \<open>ingestion/store.py\<close>: the tables of uploads and ingestion jobs. A job's row is changed only by
  \<open>set_status\<close>, whose NULL arguments keep the old values.
\<close>

datatype job_status = Queued | Extracting | Agent_running | Validating | Imported | Failed | Cancelled

fun status_value :: "job_status \<Rightarrow> string" where
  "status_value Queued = ''queued''"
| "status_value Extracting = ''extracting''"
| "status_value Agent_running = ''agent_running''"
| "status_value Validating = ''validating''"
| "status_value Imported = ''imported''"
| "status_value Failed = ''failed''"
| "status_value Cancelled = ''cancelled''"

definition all_statuses :: "job_status list" where
  "all_statuses = [Queued, Extracting, Agent_running, Validating, Imported, Failed, Cancelled]"

definition parse_status :: "string \<Rightarrow> exn + job_status" where
  "parse_status v =
     (case List.find (\<lambda>st. status_value st = v) all_statuses of
        None \<Rightarrow> Inl (ValueError (py_repr v @ '' is not a valid JobStatus'')) | Some st \<Rightarrow> Inr st)"

fun mode_value :: "import_mode \<Rightarrow> string" where
  "mode_value Replace = ''replace''"
| "mode_value Merge = ''merge''"

definition parse_mode :: "string \<Rightarrow> exn + import_mode" where
  "parse_mode v =
     (if v = ''replace'' then Inr Replace else if v = ''merge'' then Inr Merge
      else Inl (ValueError (py_repr v @ '' is not a valid ImportMode'')))"

record job =
  jo_id :: uuid
  jo_mode :: import_mode
  jo_instructions :: "string option"
  jo_status :: job_status
  jo_phase_message :: string
  jo_progress_pct :: int
  jo_decisions_report :: "json option"
  jo_staging_version_after :: "int option"
  jo_error_code :: "string option"
  jo_error_details :: "json option"
  jo_created_at :: timestamp
  jo_started_at :: "timestamp option"
  jo_finished_at :: "timestamp option"

subsection \<open>Operations\<close>

definition insert_upload ::
  "uuid \<Rightarrow> string \<Rightarrow> string \<Rightarrow> int \<Rightarrow> string \<Rightarrow> string \<Rightarrow> uuid option \<Rightarrow> (db, exn, uuid) act" where
  "insert_upload new_id filename kind size_bytes sha256 path created_by = statement (\<lambda>s.
     (Inr new_id, s\<lparr>ingestion_uploads := ingestion_uploads s @
        [\<lparr>up_id = new_id, up_job_id = None, up_filename = filename, up_kind = kind,
          up_size_bytes = size_bytes, up_sha256 = sha256, up_path = path, up_created_at = db_now s,
          up_created_by = created_by\<rparr>]\<rparr>))"

definition is_orphan :: "int \<Rightarrow> db \<Rightarrow> upload_row \<Rightarrow> bool" where
  "is_orphan older_than_minutes s u \<longleftrightarrow>
     up_job_id u = None \<and> up_created_at u < db_now s - older_than_minutes * 60000000"

definition list_orphan_uploads :: "int \<Rightarrow> (db, exn, upload_row list) act" where
  "list_orphan_uploads m = statement (reads (\<lambda>s. filter (is_orphan m s) (ingestion_uploads s)))"

text \<open>The uploads are attached one by one; one that has a job already is left alone.\<close>

definition attach_upload :: "uuid \<Rightarrow> uuid \<Rightarrow> upload_row list \<Rightarrow> upload_row list" where
  "attach_upload jid up rows =
     update_where (\<lambda>u. up_id u = up \<and> up_job_id u = None) (\<lambda>u. u\<lparr>up_job_id := Some jid\<rparr>) rows"

definition new_job :: "uuid \<Rightarrow> import_mode \<Rightarrow> string option \<Rightarrow> uuid option \<Rightarrow> timestamp \<Rightarrow> job_row" where
  "new_job jid mode instructions created_by t =
     \<lparr>jb_id = jid, jb_mode = mode_value mode, jb_instructions = instructions, jb_status = ''queued'',
      jb_phase_message = Some [], jb_progress_pct = 0, jb_decisions_report = None,
      jb_staging_version_after = None, jb_error_code = None, jb_error_details = None,
      jb_created_at = t, jb_created_by = created_by, jb_started_at = None, jb_finished_at = None,
      jb_chat_session_id = None\<rparr>"

definition create_job ::
  "uuid \<Rightarrow> import_mode \<Rightarrow> string option \<Rightarrow> uuid list \<Rightarrow> uuid option \<Rightarrow> (db, exn, uuid) act" where
  "create_job new_id mode instructions upload_ids created_by = statement (\<lambda>s.
     (Inr new_id,
      s\<lparr>ingestion_jobs := ingestion_jobs s @ [new_job new_id mode instructions created_by (db_now s)],
        ingestion_uploads := fold (attach_upload new_id) upload_ids (ingestion_uploads s)\<rparr>))"

definition find_job :: "uuid \<Rightarrow> db \<Rightarrow> job_row option" where
  "find_job jid s = List.find (\<lambda>j. jb_id j = jid) (ingestion_jobs s)"

definition job_of_row :: "job_row \<Rightarrow> exn + job" where
  "job_of_row j =
     bind_sum (parse_mode (jb_mode j)) (\<lambda>mode.
     bind_sum (parse_status (jb_status j)) (\<lambda>st.
       Inr \<lparr>jo_id = jb_id j, jo_mode = mode, jo_instructions = jb_instructions j, jo_status = st,
            jo_phase_message = (case jb_phase_message j of None \<Rightarrow> [] | Some p \<Rightarrow> p),
            jo_progress_pct = jb_progress_pct j, jo_decisions_report = jb_decisions_report j,
            jo_staging_version_after = jb_staging_version_after j, jo_error_code = jb_error_code j,
            jo_error_details = jb_error_details j, jo_created_at = jb_created_at j,
            jo_started_at = jb_started_at j, jo_finished_at = jb_finished_at j\<rparr>))"

definition get_job :: "uuid \<Rightarrow> (db, exn, job) act" where
  "get_job jid = statement (\<lambda>s.
     (case find_job jid s of None \<Rightarrow> Inl NoResultFound | Some j \<Rightarrow> job_of_row j, s))"

definition list_uploads_for_job :: "uuid \<Rightarrow> (db, exn, upload_row list) act" where
  "list_uploads_for_job jid = statement (reads (\<lambda>s.
     sort_key up_created_at (filter (\<lambda>u. up_job_id u = Some jid) (ingestion_uploads s))))"

text \<open>The optional arguments of \<open>set_status\<close> with their defaults.\<close>

record status_update =
  su_phase :: string
  su_progress :: "int option"
  su_error_code :: "string option"
  su_error_details :: "json option"
  su_decisions_report :: "json option"
  su_staging_version_after :: "int option"
  su_mark_started :: bool
  su_mark_finished :: bool

definition no_update :: status_update where
  "no_update =
     \<lparr>su_phase = [], su_progress = None, su_error_code = None, su_error_details = None,
      su_decisions_report = None, su_staging_version_after = None, su_mark_started = False,
      su_mark_finished = False\<rparr>"

definition updated_job :: "job_status \<Rightarrow> status_update \<Rightarrow> timestamp \<Rightarrow> job_row \<Rightarrow> job_row" where
  "updated_job st u now j =
     j\<lparr>jb_status := status_value st, jb_phase_message := Some (su_phase u),
       jb_progress_pct := (case su_progress u of None \<Rightarrow> jb_progress_pct j | Some p \<Rightarrow> p),
       jb_error_code := coalesce (su_error_code u) (jb_error_code j),
       jb_error_details := coalesce (su_error_details u) (jb_error_details j),
       jb_decisions_report := coalesce (su_decisions_report u) (jb_decisions_report j),
       jb_staging_version_after := coalesce (su_staging_version_after u) (jb_staging_version_after j),
       jb_started_at := (if su_mark_started u then coalesce (jb_started_at j) (Some now) else jb_started_at j),
       jb_finished_at := (if su_mark_finished u then Some now else jb_finished_at j)\<rparr>"

definition set_status :: "uuid \<Rightarrow> job_status \<Rightarrow> status_update \<Rightarrow> (db, exn, unit) act" where
  "set_status jid st u = statement (modify (\<lambda>s. s\<lparr>ingestion_jobs :=
     update_where (\<lambda>j. jb_id j = jid) (updated_job st u (db_now s)) (ingestion_jobs s)\<rparr>))"

subsection \<open>Facts\<close>

lemma parse_status_value [simp]: "parse_status (status_value st) = Inr st"
  by (cases st) (simp_all add: parse_status_def all_statuses_def)

lemma parse_mode_value [simp]: "parse_mode (mode_value m) = Inr m"
  by (cases m) (simp_all add: parse_mode_def)

lemma find_set_status:
  "find_job jid s = Some j \<Longrightarrow>
     find_job jid (s\<lparr>ingestion_jobs := update_where (\<lambda>j. jb_id j = jid) (updated_job st u now) (ingestion_jobs s)\<rparr>)
       = Some (updated_job st u now j)"
  using find_mem [of "\<lambda>j. jb_id j = jid" "ingestion_jobs s" j]
    find_update_where [of "\<lambda>j. jb_id j = jid" "updated_job st u now" "\<lambda>j. jb_id j = jid" "ingestion_jobs s"]
  by (simp add: find_job_def updated_job_def)

lemma set_status_run:
  assumes "\<not> tx_aborted s" "find_job jid s = Some j"
  shows "\<exists>s'. set_status jid st u s = (Inr (), s')
     \<and> find_job jid s' = Some (updated_job st u (db_now s) j)
     \<and> s' = s\<lparr>ingestion_jobs := ingestion_jobs s'\<rparr>"
  using assms find_set_status [OF assms(2)] by (simp add: set_status_def act_simps)

lemma attach_keeps: "u \<in> set (attach_upload jid up rows) \<Longrightarrow> up_job_id u \<noteq> Some jid \<Longrightarrow> u \<in> set rows"
  by (auto simp: attach_upload_def update_where_def split: if_splits)

end
