(* ===== verification/Platform.thy ===== *)
theory Platform
  imports Mcp_Server Data_Query Diff Lifecycle Ingestion_Store
begin

text \<open>
  What the tool handlers share: the third-party services they call, gathered in one record that is a
  parameter of every handler, and the reading of keyword arguments. A missing or unexpected
  argument raises TypeError, as the Python call does. The model covers requests whose arguments
  have the JSON types of the tool's schema: for others \<open>ill_typed\<close> stands for whatever the code
  that uses the value raises.
\<close>

record 'n platform =
  pf_settings :: settings
  pf_fernet :: fernet
  pf_prober :: prober
  pf_hasher :: hasher
  pf_sqlglot :: "'n sqlglot"
  pf_executor :: "engine \<Rightarrow> json executor"
  pf_value_str :: "json \<Rightarrow> string"
  pf_new_uuid :: "db \<Rightarrow> uuid"
  pf_random :: "db \<Rightarrow> string"
  pf_parse_shared :: "json \<Rightarrow> exn + shared_property_type_definition"
  pf_parse_interface :: "json \<Rightarrow> exn + interface_type_definition"
  pf_parse_object :: "json \<Rightarrow> exn + object_type_definition"
  pf_parse_link :: "json \<Rightarrow> exn + link_type_definition"
  pf_parse_action :: "json \<Rightarrow> exn + action_type_definition"
  pf_parse_asset :: "json \<Rightarrow> exn + asset_mapping"
  pf_parse_registry :: "json \<Rightarrow> exn + registry"
  pf_dumps :: dumps
  pf_dump_registry :: "registry \<Rightarrow> json"
  pf_isoformat :: "timestamp \<Rightarrow> string"
  pf_b64decode :: "string \<Rightarrow> exn + string"
  pf_sha256 :: "string \<Rightarrow> string"

text \<open>The parsers build dictionaries, so their results have one entry per key.\<close>

definition parsers_ok :: "'n platform \<Rightarrow> bool" where
  "parsers_ok P \<longleftrightarrow>
     (\<forall>j d. pf_parse_object P j = Inr d \<longrightarrow> dict_ok (ob_property_types d))
     \<and> (\<forall>j d. pf_parse_link P j = Inr d \<longrightarrow> dict_ok (lk_property_types d))
     \<and> (\<forall>j r. pf_parse_registry P j = Inr r \<longrightarrow> keys_ok r)"

subsection \<open>Keyword arguments\<close>

definition ill_typed :: exn where
  "ill_typed = OtherException ''ArgumentType'' ''argument does not have the schema's type''"

definition only_keys :: "string list \<Rightarrow> args \<Rightarrow> exn + unit" where
  "only_keys ks a =
     (if set (dict_keys a) \<subseteq> set ks then Inr ()
      else Inl (TypeError ''got an unexpected keyword argument''))"

definition arg :: "string \<Rightarrow> args \<Rightarrow> exn + json" where
  "arg k a = (case dict_get a k of
     None \<Rightarrow> Inl (TypeError ''missing a required keyword-only argument'') | Some v \<Rightarrow> Inr v)"

definition arg_str :: "string \<Rightarrow> args \<Rightarrow> exn + string" where
  "arg_str k a = bind_sum (arg k a) (\<lambda>v. case v of JStr s \<Rightarrow> Inr s | _ \<Rightarrow> Inl ill_typed)"

definition arg_obj :: "string \<Rightarrow> args \<Rightarrow> exn + json" where
  "arg_obj k a = bind_sum (arg k a) (\<lambda>v. case v of JObj d \<Rightarrow> Inr v | _ \<Rightarrow> Inl ill_typed)"

definition opt_arg_str :: "string \<Rightarrow> args \<Rightarrow> exn + string option" where
  "opt_arg_str k a = (case dict_get a k of
     None \<Rightarrow> Inr None | Some JNull \<Rightarrow> Inr None | Some (JStr s) \<Rightarrow> Inr (Some s) | _ \<Rightarrow> Inl ill_typed)"

definition opt_arg_int :: "string \<Rightarrow> args \<Rightarrow> exn + int option" where
  "opt_arg_int k a = (case dict_get a k of
     None \<Rightarrow> Inr None | Some JNull \<Rightarrow> Inr None | Some (JInt i) \<Rightarrow> Inr (Some i) | _ \<Rightarrow> Inl ill_typed)"

definition parse_env :: "string \<Rightarrow> exn + env" where
  "parse_env v =
     (if v = ''staging'' then Inr Staging else if v = ''production'' then Inr Production
      else if v = ''previous_production'' then Inr Previous_production
      else Inl (ValueError (py_repr v @ '' is not a valid Env'')))"

definition parse_uuid :: "string \<Rightarrow> exn + uuid" where
  "parse_uuid v = (case py_uuid v of
     None \<Rightarrow> Inl (ValueError ''badly formed hexadecimal UUID string'') | Some u \<Rightarrow> Inr u)"

definition iso_opt :: "'n platform \<Rightarrow> timestamp option \<Rightarrow> json" where
  "iso_opt P t = (case t of None \<Rightarrow> JNull | Some x \<Rightarrow> JStr (pf_isoformat P x))"

text \<open>The identifiers of the registered connections, as every handler that validates reads them.\<close>

definition conn_ids :: "(db, exn, string set) act" where
  "conn_ids = bind list_all_connections (\<lambda>cs. ret (set (map co_id cs)))"

subsection \<open>One view of the five kinds\<close>

record entity_view =
  ev_rid :: string
  ev_api_name :: string
  ev_display_name :: string
  ev_status :: lifecycle_status
  ev_dump :: json

definition shared_views :: "'n platform \<Rightarrow> registry \<Rightarrow> (string, entity_view) dict" where
  "shared_views P r = map (\<lambda>(k, d). (k, \<lparr>ev_rid = sp_rid d, ev_api_name = sp_api_name d,
     ev_display_name = sp_display_name d, ev_status = sp_lifecycle_status d,
     ev_dump = dump_shared (pf_dumps P) d\<rparr>)) (shared_property_types r)"

definition interface_views :: "'n platform \<Rightarrow> registry \<Rightarrow> (string, entity_view) dict" where
  "interface_views P r = map (\<lambda>(k, d). (k, \<lparr>ev_rid = if_rid d, ev_api_name = if_api_name d,
     ev_display_name = if_display_name d, ev_status = if_lifecycle_status d,
     ev_dump = dump_interface (pf_dumps P) d\<rparr>)) (interface_types r)"

definition object_views :: "'n platform \<Rightarrow> registry \<Rightarrow> (string, entity_view) dict" where
  "object_views P r = map (\<lambda>(k, d). (k, \<lparr>ev_rid = ob_rid d, ev_api_name = ob_api_name d,
     ev_display_name = ob_display_name d, ev_status = ob_lifecycle_status d,
     ev_dump = dump_object (pf_dumps P) d\<rparr>)) (object_types r)"

definition link_views :: "'n platform \<Rightarrow> registry \<Rightarrow> (string, entity_view) dict" where
  "link_views P r = map (\<lambda>(k, d). (k, \<lparr>ev_rid = lk_rid d, ev_api_name = lk_api_name d,
     ev_display_name = lk_display_name d, ev_status = lk_lifecycle_status d,
     ev_dump = dump_link (pf_dumps P) d\<rparr>)) (link_types r)"

definition action_views :: "'n platform \<Rightarrow> registry \<Rightarrow> (string, entity_view) dict" where
  "action_views P r = map (\<lambda>(k, d). (k, \<lparr>ev_rid = ac_rid d, ev_api_name = ac_api_name d,
     ev_display_name = ac_display_name d, ev_status = ac_lifecycle_status d,
     ev_dump = dump_action (pf_dumps P) d\<rparr>)) (action_types r)"

text \<open>The kinds in the order the code tries them.\<close>

definition kind_views :: "'n platform \<Rightarrow> registry \<Rightarrow> (string \<times> (string, entity_view) dict) list" where
  "kind_views P r =
     [(''shared_property_types'', shared_views P r), (''interface_types'', interface_views P r),
      (''object_types'', object_views P r), (''link_types'', link_views P r),
      (''action_types'', action_views P r)]"

lemma conn_ids_run:
  assumes "\<not> tx_aborted s" "\<forall>row \<in> set (connections s). cn_kind row \<in> {''postgres'', ''mysql'', ''sqlite''}"
  shows "conn_ids s = (Inr (conn_ids_of s), s)"
proof -
  have "\<exists>cs. collect (map connection_of_row rows) = Inr cs \<and> map co_id cs = map cn_id rows"
    if "\<forall>row \<in> set rows. cn_kind row \<in> {''postgres'', ''mysql'', ''sqlite''}" for rows
    using that by (induction rows) (auto simp: connection_of_row_def parse_kind_def)
  from this [of "sort_key cn_label (connections s)"] assms(2) obtain cs
    where cs: "collect (map connection_of_row (sort_key cn_label (connections s))) = Inr cs"
      "map co_id cs = map cn_id (sort_key cn_label (connections s))" by auto
  have "set (map co_id cs) = conn_ids_of s"
    unfolding cs(2) conn_ids_of_def by simp
  then show ?thesis
    using assms(1) cs(1) by (simp add: conn_ids_def list_all_connections_def act_simps)
qed

subsection \<open>A platform for the examples\<close>

definition toy_platform :: "tree platform" where
  "toy_platform =
     \<lparr>pf_settings = mk_settings ''postgresql://db'' ''key'', pf_fernet = plain_fernet, pf_prober = (\<lambda>_ _. None),
      pf_hasher = plain_hasher, pf_sqlglot = toy_sqlglot, pf_executor = (\<lambda>_ _ _. Inr ([], [])),
      pf_value_str = (\<lambda>_. []), pf_new_uuid = (\<lambda>_. ''u1''), pf_random = (\<lambda>_. ''abc''),
      pf_parse_shared = (\<lambda>_. Inl ill_typed), pf_parse_interface = (\<lambda>_. Inl ill_typed),
      pf_parse_object = (\<lambda>_. Inl ill_typed), pf_parse_link = (\<lambda>_. Inl ill_typed),
      pf_parse_action = (\<lambda>_. Inr sample_action), pf_parse_asset = (\<lambda>_. Inl ill_typed),
      pf_parse_registry = (\<lambda>_. Inr empty_registry), pf_dumps = plain_dumps, pf_dump_registry = (\<lambda>_. JNull),
      pf_isoformat = (\<lambda>_. []), pf_b64decode = (\<lambda>x. Inr x), pf_sha256 = (\<lambda>x. x)\<rparr>"

lemma toy_parsers: "parsers_ok toy_platform"
  by (simp add: parsers_ok_def toy_platform_def keys_ok_empty)

end
