(* ===== verification/Mcp_Read.thy ===== *)
theory Mcp_Read
  imports Platform
begin

text \<open>
  \<open>mcp_tools_read.py\<close>: the read-scope tools. None of them writes. \<open>query_sql\<close> reads the production
  registry for its masking rules and clamps its limits to the configured caps.
\<close>

definition matches :: "string option \<Rightarrow> string list \<Rightarrow> bool" where
  "matches filter_str texts =
     (case filter_str of
        None \<Rightarrow> True
      | Some f \<Rightarrow> if f = [] then True else list_ex (\<lambda>x. contains_str (py_lower f) (py_lower x)) texts)"

definition compact_json :: "entity_view \<Rightarrow> json" where
  "compact_json v =
     JObj [(''rid'', JStr (ev_rid v)), (''api_name'', JStr (ev_api_name v)),
           (''display_name'', JStr (ev_display_name v)),
           (''lifecycle_status'', JStr (lifecycle_status_value (ev_status v)))]"

definition list_compact :: "(string, entity_view) dict \<Rightarrow> string option \<Rightarrow> json list" where
  "list_compact d filter_str =
     map compact_json (filter (\<lambda>v. matches filter_str [ev_api_name v, ev_display_name v]) (dict_vals d))"

definition get_registry :: "'n platform \<Rightarrow> handler" where
  "get_registry P p a =
     bind (lift_sum (only_keys [''env''] a)) (\<lambda>_.
     bind (lift_sum (arg_str ''env'' a)) (\<lambda>env.
     bind (lift_sum (parse_env env)) (\<lambda>e.
     bind (load e) (\<lambda>snap.
     ret (pf_dump_registry P (sn_registry snap))))))"

definition lister :: "'n platform \<Rightarrow> ('n platform \<Rightarrow> registry \<Rightarrow> (string, entity_view) dict) \<Rightarrow> handler" where
  "lister P views p a =
     bind (lift_sum (only_keys [''env'', ''filter''] a)) (\<lambda>_.
     bind (lift_sum (arg_str ''env'' a)) (\<lambda>env.
     bind (lift_sum (opt_arg_str ''filter'' a)) (\<lambda>filter_str.
     bind (lift_sum (parse_env env)) (\<lambda>e.
     bind (load e) (\<lambda>snap.
     ret (JObj [(''items'', JList (list_compact (views P (sn_registry snap)) filter_str))]))))))"

text \<open>\<open>kind_field[:-1]\<close>: the plural without its last letter.\<close>

definition entity_answer :: "string \<Rightarrow> entity_view \<Rightarrow> json" where
  "entity_answer kind_field v = JObj [(''entity'', ev_dump v), (''kind'', JStr (butlast kind_field))]"

fun first_entity :: "string \<Rightarrow> (string \<times> (string, entity_view) dict) list \<Rightarrow> json option" where
  "first_entity rid [] = None"
| "first_entity rid ((kf, d) # ks) =
     (case dict_get d rid of Some v \<Rightarrow> Some (entity_answer kf v) | None \<Rightarrow> first_entity rid ks)"

definition get_entity :: "'n platform \<Rightarrow> handler" where
  "get_entity P p a =
     bind (lift_sum (only_keys [''env'', ''rid''] a)) (\<lambda>_.
     bind (lift_sum (arg_str ''env'' a)) (\<lambda>env.
     bind (lift_sum (arg_str ''rid'' a)) (\<lambda>rid.
     bind (lift_sum (parse_env env)) (\<lambda>e.
     bind (load e) (\<lambda>snap.
     case first_entity rid (kind_views P (sn_registry snap)) of
       Some j \<Rightarrow> ret j | None \<Rightarrow> raise (KeyError rid))))))"

fun first_named :: "string \<Rightarrow> (string \<times> (string, entity_view) dict) list \<Rightarrow> json option" where
  "first_named name [] = None"
| "first_named name ((kf, d) # ks) =
     (case List.find (\<lambda>v. ev_api_name v = name) (dict_vals d) of
        Some v \<Rightarrow> Some (entity_answer kf v) | None \<Rightarrow> first_named name ks)"

text \<open>\<open>getattr(registry, kind + "s", {})\<close>: a kind that names no entity map gives no entities.\<close>

definition chosen_kinds :: "'n platform \<Rightarrow> registry \<Rightarrow> string option \<Rightarrow> (string \<times> (string, entity_view) dict) list" where
  "chosen_kinds P r kind =
     (case kind of
        None \<Rightarrow> kind_views P r
      | Some k \<Rightarrow> if k = [] then kind_views P r else filter (\<lambda>kv. fst kv = k @ ''s'') (kind_views P r))"

definition find_by_api_name :: "'n platform \<Rightarrow> handler" where
  "find_by_api_name P p a =
     bind (lift_sum (only_keys [''env'', ''api_name'', ''kind''] a)) (\<lambda>_.
     bind (lift_sum (arg_str ''env'' a)) (\<lambda>env.
     bind (lift_sum (arg_str ''api_name'' a)) (\<lambda>name.
     bind (lift_sum (opt_arg_str ''kind'' a)) (\<lambda>kind.
     bind (lift_sum (parse_env env)) (\<lambda>e.
     bind (load e) (\<lambda>snap.
     case first_named name (chosen_kinds P (sn_registry snap) kind) of
       Some j \<Rightarrow> ret j | None \<Rightarrow> raise (KeyError name)))))))"

definition bound_column_json :: "bound_column \<Rightarrow> json" where
  "bound_column_json c =
     JObj [(''api_name'', JStr (bc_api_name c)), (''physical_column'', JStr (bc_physical_column c)),
           (''data_type'', JStr (bc_data_type c)), (''sensitivity'', JStr (bc_sensitivity c)),
           (''masking_strategy'', JStr (bc_masking_strategy c)), (''property_rid'', JStr (bc_property_rid c))]"

definition mcp_describe_bound_asset :: "'n platform \<Rightarrow> handler" where
  "mcp_describe_bound_asset P p a =
     bind (lift_sum (only_keys [''env'', ''rid''] a)) (\<lambda>_.
     bind (lift_sum (arg_str ''env'' a)) (\<lambda>env.
     bind (lift_sum (arg_str ''rid'' a)) (\<lambda>rid.
     bind (lift_sum (parse_env env)) (\<lambda>e.
     bind (load e) (\<lambda>snap.
     bind (lift_sum (describe_bound_asset (sn_registry snap) rid)) (\<lambda>ba.
     ret (JObj [(''rid'', JStr (ba_rid ba)), (''connection_id'', JStr (ba_connection_id ba)),
                (''asset_path'', JStr (ba_asset_path ba)),
                (''columns'', JList (map bound_column_json (ba_columns ba)))])))))))"

text \<open>\<open>min(x or default, cap)\<close>: zero and None are the default; a negative value is kept.\<close>

definition effective_limit :: "int option \<Rightarrow> int \<Rightarrow> int \<Rightarrow> int" where
  "effective_limit x dflt cap =
     min (case x of None \<Rightarrow> dflt | Some v \<Rightarrow> if v = 0 then dflt else v) cap"

fun cell_json :: "json cell \<Rightarrow> json" where
  "cell_json Null = JNull"
| "cell_json (Raw v) = v"
| "cell_json (Text s) = JStr s"

definition response_json :: "json query_response \<Rightarrow> json" where
  "response_json q =
     JObj [(''columns'', JList (map (\<lambda>cn. JObj [(''name'', JStr cn), (''data_type'', JNull),
                                 (''resolved_property_rid'', JNull)]) (qs_columns q))),
           (''rows'', JList (map (\<lambda>r. JList (map cell_json r)) (qs_rows q))),
           (''row_count'', JInt (qs_row_count q)), (''truncated'', JBool (qs_truncated q)),
           (''masked_columns'', JList (map JStr (qs_masked_columns q))),
           (''unresolved_columns'', JList (map JStr (qs_unresolved_columns q)))]"

text \<open>The pool lives for this call: it starts empty and is disposed of whatever happens.\<close>

definition with_pool :: "(pool \<times> db, exn, 'a) act \<Rightarrow> (db, exn, 'a) act" where
  "with_pool m = (\<lambda>s. case m ([], s) of (r, (_, s')) \<Rightarrow> (r, s'))"

definition mcp_query_sql :: "'n platform \<Rightarrow> handler" where
  "mcp_query_sql P p a =
     bind (lift_sum (only_keys [''connection_id'', ''sql'', ''max_rows'', ''timeout_ms''] a)) (\<lambda>_.
     bind (lift_sum (arg_str ''connection_id'' a)) (\<lambda>connection_id.
     bind (lift_sum (arg_str ''sql'' a)) (\<lambda>sql.
     bind (lift_sum (opt_arg_int ''max_rows'' a)) (\<lambda>max_rows.
     bind (lift_sum (opt_arg_int ''timeout_ms'' a)) (\<lambda>timeout_ms.
     bind (lift_sum (parse_uuid connection_id)) (\<lambda>cid.
     bind (get_by_id cid) (\<lambda>meta.
     bind (load Production) (\<lambda>snap.
     bind (with_pool (query_sql (pf_sqlglot P) (pf_fernet P) (pf_value_str P) (pf_executor P) cid sql
             (effective_limit max_rows (query_default_max_rows (pf_settings P)) (query_max_rows_cap (pf_settings P)))
             (effective_limit timeout_ms (query_default_timeout_ms (pf_settings P)) (query_timeout_ms_cap (pf_settings P)))
             (sn_registry snap) (kind_value (co_kind meta)))) (\<lambda>q.
     ret (response_json q))))))))))"

subsection \<open>Facts\<close>

text \<open>Actions that do not write.\<close>

definition read_only :: "(db, exn, 'a) act \<Rightarrow> bool" where
  "read_only m \<longleftrightarrow> (\<forall>s r s'. m s = (r, s') \<longrightarrow> s' = s)"

named_theorems read_only_intros \<open>read-only actions\<close>

lemma read_only_bind [read_only_intros]:
  assumes "read_only m" "\<And>x. read_only (f x)"
  shows "read_only (bind m f)"
  unfolding read_only_def
proof (intro allI impI)
  fix s r s' assume run: "bind m f s = (r, s')"
  obtain r1 s1 where m: "m s = (r1, s1)" by (cases "m s")
  with assms(1) have "s1 = s" by (auto simp: read_only_def)
  with run m assms(2) show "s' = s"
    by (cases r1) (auto simp: bind_def read_only_def)
qed

lemma read_only_simple [read_only_intros]:
  "read_only (ret x)" "read_only (raise e)" "read_only (lift_sum r)" "read_only (reads f)"
  by (simp_all add: read_only_def act_simps)

lemma read_only_statement [read_only_intros]: "read_only m \<Longrightarrow> read_only (statement m)"
  by (auto simp: read_only_def statement_def)

lemma read_only_load [read_only_intros]: "read_only (load e)"
  by (auto simp: read_only_def load_run split: option.splits)

lemma read_only_get_by_id [read_only_intros]: "read_only (get_by_id cid)"
  by (auto simp: read_only_def get_by_id_def statement_def split: option.splits if_splits)

lemma read_only_decrypt [read_only_intros]: "read_only (decrypt_dsn F cid)"
  by (auto simp: read_only_def decrypt_dsn_def statement_def split: option.splits if_splits)

lemma read_only_option [read_only_intros]:
  "read_only m \<Longrightarrow> (\<And>x. read_only (f x)) \<Longrightarrow> read_only (case y of None \<Rightarrow> m | Some x \<Rightarrow> f x)"
  by (cases y) auto

lemma read_only_some [read_only_intros]:
  "(\<And>x. read_only (f x)) \<Longrightarrow> read_only m \<Longrightarrow> read_only (case y of Some x \<Rightarrow> f x | None \<Rightarrow> m)"
  by (cases y) auto

lemma get_or_create_frame:
  "get_or_create F cid (p, s) = (r, (p', s')) \<Longrightarrow> s' = s"
proof -
  assume run: "get_or_create F cid (p, s) = (r, (p', s'))"
  have "read_only (bind (get_by_id cid) (\<lambda>meta. bind (decrypt_dsn F cid) (\<lambda>dsn. ret (meta, dsn))))"
    by (intro read_only_intros)
  with run show "s' = s"
    unfolding get_or_create_def read_only_def
    by (auto simp: Let_def split: option.splits sum.splits prod.splits)
qed

lemma query_sql_frame: "query_sql G F f x cid sql n t reg d (p, s) = (r, (p', s')) \<Longrightarrow> s' = s"
  by (auto simp: query_sql_def act_simps dest: get_or_create_frame split: sum.splits prod.splits)

lemma read_only_query [read_only_intros]: "read_only (with_pool (query_sql G F f x cid sql n t reg d))"
  by (auto simp: read_only_def with_pool_def dest: query_sql_frame split: prod.splits)

definition read_handlers :: "'n platform \<Rightarrow> handler list" where
  "read_handlers P =
     [get_registry P, lister P shared_views, lister P interface_views, lister P object_views,
      lister P link_views, lister P action_views, get_entity P, find_by_api_name P,
      mcp_describe_bound_asset P, mcp_query_sql P, whoami]"

lemma read_handlers_read_only: "h \<in> set (read_handlers P) \<Longrightarrow> read_only (h p a)"
  unfolding read_handlers_def
  by (auto simp: get_registry_def lister_def get_entity_def find_by_api_name_def
      mcp_describe_bound_asset_def mcp_query_sql_def whoami_def intro!: read_only_intros)

subsection \<open>Properties\<close>

text \<open>The read tools do not write: whatever the arguments and the outcome, the database is as it
  was.\<close>
theorem read_tools_do_not_write:
  assumes "h \<in> set (read_handlers P)" and "h p a s = (r, s')"
  shows "s' = s"
  using read_handlers_read_only [OF assms(1), of p a] assms(2) unfolding read_only_def by blast

theorem read_tools_do_not_write_witness:
  "\<exists>r. whoami \<lparr>pr_token_id = ''t'', pr_label = ''l'', pr_scope = Read\<rparr> [] (migrated 3) = (Inr r, migrated 3)"
proof -
  obtain r s' where run: "whoami \<lparr>pr_token_id = ''t'', pr_label = ''l'', pr_scope = Read\<rparr> [] (migrated 3) = (Inr r, s')"
    by (simp add: whoami_def ret_apply)
  have "whoami \<in> set (read_handlers (undefined :: nat platform))"
    by (simp add: read_handlers_def)
  from read_tools_do_not_write [OF this run] run show ?thesis by blast
qed

text \<open>The clamp of a query's limits, and its hole. Every request gives at most the configured cap;
  a missing or zero request gives the default, a positive one itself or the cap. A negative request
  passes the clamp unchanged, and a negative bound does not bound the answer: cut down by
  \<open>rows[:max_rows]\<close> it still grows with what the database returned.\<close>
theorem query_limit_clamp:
  assumes "0 < dflt" and "0 \<le> cap"
  shows "effective_limit x dflt cap \<le> cap
     \<and> (x = None \<or> x = Some 0 \<longrightarrow> effective_limit x dflt cap = min dflt cap)
     \<and> (\<forall>v > 0. x = Some v \<longrightarrow> effective_limit x dflt cap = min v cap)
     \<and> (\<forall>v < 0. x = Some v \<longrightarrow> effective_limit x dflt cap = v
          \<and> (\<forall>k. int (length (qs_rows (shape_response f rcs v names (replicate (k + nat (- v)) row)))) = int k))"
  using assms by (auto simp: effective_limit_def shape_response_def Let_def slice_to_def)

theorem query_limit_clamp_witness:
  "effective_limit (Some (-5)) 1000 10000 = -5
     \<and> int (length (qs_rows (shape_response id [] (-5) [''a''] (replicate (20000 + 5) [Null])))) = 20000"
proof -
  from query_limit_clamp [of 1000 10000 "Some (-5)" id "[]" "[''a'']" "[Null]"]
  have eff: "effective_limit (Some (-5)) 1000 10000 = -5"
    and rows: "\<forall>k. int (length (qs_rows (shape_response id [] (-5) [''a''] (replicate (k + nat 5) [Null])))) = int k"
    by auto
  from rows [rule_format, of 20000] eff show ?thesis by simp
qed

end
