(* ===== verification/Dialect_Engine.thy ===== *)
theory Dialect_Engine
  imports Connection_Store
begin

text \<open>
  \<open>connections/dialect_engine.py\<close>: the queries the backend builds itself. The code assembles
  sqlglot expressions; the constructors it uses are the datatype \<open>sql_expr\<close> and the record
  \<open>select_ast\<close>. Printing a finished query (\<open>ast.sql(dialect=...)\<close>) is sqlglot's and a parameter;
  the two \<open>re.sub\<close> calls on the printed text are modelled.
\<close>

datatype sql_expr =
    Quoted_column string
  | String_literal string
  | ILike sql_expr sql_expr
  | And_expr sql_expr sql_expr
  | Or_expr sql_expr sql_expr
  | Count_star

record ordering_term =
  od_column :: sql_expr
  od_desc :: bool
  od_nulls_first :: bool

text \<open>Conditions added by \<open>where\<close> one after the other are a conjunction.\<close>

record select_ast =
  sl_expressions :: "sql_expr list"
  sl_from :: string
  sl_where :: "sql_expr list"
  sl_order :: "ordering_term list"
  sl_limit :: "int option"
  sl_offset :: "int option"

definition select_from :: "sql_expr list \<Rightarrow> string \<Rightarrow> select_ast" where
  "select_from es table = \<lparr>sl_expressions = es, sl_from = table, sl_where = [], sl_order = [],
     sl_limit = None, sl_offset = None\<rparr>"

definition add_where :: "sql_expr \<Rightarrow> select_ast \<Rightarrow> select_ast" where
  "add_where p q = q\<lparr>sl_where := sl_where q @ [p]\<rparr>"

subsection \<open>Building\<close>

text \<open>Callers pass a non-empty sequence.\<close>

definition chain_and :: "sql_expr list \<Rightarrow> sql_expr" where
  "chain_and conditions = foldl And_expr (hd conditions) (tl conditions)"

definition build_where :: "sql_expr list option \<Rightarrow> select_ast \<Rightarrow> select_ast" where
  "build_where conditions q =
     (case conditions of None \<Rightarrow> q | Some cs \<Rightarrow> if cs = [] then q else add_where (chain_and cs) q)"

definition build_order :: "(string \<times> string) option \<Rightarrow> select_ast \<Rightarrow> select_ast" where
  "build_order order_by q =
     (case order_by of
        None \<Rightarrow> q
      | Some (col_name, direction) \<Rightarrow>
          (let is_desc = (py_lower direction = ''desc'') in
           q\<lparr>sl_order := sl_order q @ [\<lparr>od_column = Quoted_column col_name, od_desc = is_desc,
               od_nulls_first = (\<not> is_desc)\<rparr>]\<rparr>))"

definition build_select ::
  "string list \<Rightarrow> string \<Rightarrow> sql_expr list option \<Rightarrow> (string \<times> string) option \<Rightarrow> int option \<Rightarrow> int option
     \<Rightarrow> select_ast" where
  "build_select columns table conditions order_by n off =
     (let q = build_order order_by (build_where conditions (select_from (map Quoted_column columns) table));
          q = (case n of None \<Rightarrow> q | Some k \<Rightarrow> q\<lparr>sl_limit := Some k\<rparr>)
      in case off of None \<Rightarrow> q | Some k \<Rightarrow> q\<lparr>sl_offset := Some k\<rparr>)"

definition build_count :: "string \<Rightarrow> sql_expr list option \<Rightarrow> select_ast" where
  "build_count table conditions = build_where conditions (select_from [Count_star] table)"

definition build_like_condition :: "string \<Rightarrow> string \<Rightarrow> sql_expr" where
  "build_like_condition column keyword =
     ILike (Quoted_column column) (String_literal (''%'' @ keyword @ ''%''))"

subsection \<open>Printing\<close>

definition SUPPORTED :: "string list" where
  "SUPPORTED = [''postgres'', ''sqlite'', ''mysql'', ''mssql'', ''bigquery'', ''duckdb'']"

text \<open>
  \<open>re.sub\<close> with a pattern whose match at a position is unique: \<open>m s\<close> is the replacement and the
  rest of the text when the pattern matches at the start of \<open>s\<close>. Every match consumes a character.
\<close>

fun sub_fuel :: "(string \<Rightarrow> (string \<times> string) option) \<Rightarrow> nat \<Rightarrow> string \<Rightarrow> string" where
  "sub_fuel m 0 s = s"
| "sub_fuel m (Suc n) [] = []"
| "sub_fuel m (Suc n) (c # s) =
     (case m (c # s) of
        None \<Rightarrow> c # sub_fuel m n s
      | Some (new, rest) \<Rightarrow> new @ sub_fuel m n rest)"

definition re_sub :: "(string \<Rightarrow> (string \<times> string) option) \<Rightarrow> string \<Rightarrow> string" where
  "re_sub m s = sub_fuel m (length s) s"

text \<open>One or more spaces, then the word: the text after both.\<close>

definition spaces_then :: "string \<Rightarrow> string \<Rightarrow> string option" where
  "spaces_then w s =
     (case s of
        [] \<Rightarrow> None
      | c # cs \<Rightarrow>
          (if \<not> is_space c then None
           else let rest = dropWhile is_space cs in
             if starts_with w rest then Some (drop (length w) rest) else None))"

definition nulls_match :: "string \<Rightarrow> (string \<times> string) option" where
  "nulls_match s =
     (case spaces_then ''NULLS'' s of
        None \<Rightarrow> None
      | Some r \<Rightarrow>
          (case spaces_then ''FIRST'' r of
             Some rest \<Rightarrow> Some ([], rest)
           | None \<Rightarrow> map_option (\<lambda>rest. ([], rest)) (spaces_then ''LAST'' r)))"

text \<open>\<open>LOWER\((...)\)\<close> with no closing parenthesis inside: the group and the text after it.\<close>

definition lower_call :: "string \<Rightarrow> (string \<times> string) option" where
  "lower_call s =
     (if \<not> starts_with ''LOWER('' s then None
      else let a = takeWhile (\<lambda>c. c \<noteq> CHR '')'') (drop 6 s); r = dropWhile (\<lambda>c. c \<noteq> CHR '')'') (drop 6 s)
           in if a = [] \<or> r = [] then None else Some (a, drop 1 r))"

definition lower_like_match :: "string \<Rightarrow> (string \<times> string) option" where
  "lower_like_match s =
     (case lower_call s of
        None \<Rightarrow> None
      | Some (a, r1) \<Rightarrow>
          (case spaces_then ''LIKE'' r1 of
             None \<Rightarrow> None
           | Some r2 \<Rightarrow>
               (case spaces_then [] r2 of
                  None \<Rightarrow> None
                | Some r3 \<Rightarrow>
                    (case lower_call r3 of
                       None \<Rightarrow> None
                     | Some (b, rest) \<Rightarrow> Some (a @ '' LIKE '' @ b, rest)))))"

definition generate_sql ::
  "(select_ast \<Rightarrow> string \<Rightarrow> string) \<Rightarrow> select_ast \<Rightarrow> string \<Rightarrow> exn + string" where
  "generate_sql to_sql ast dialect =
     (if dialect \<notin> set SUPPORTED
      then Inl (UnsupportedDialectError (''Dialect '' @ [char_of (39::nat)] @ dialect @ [char_of (39::nat)]
             @ '' is not supported. Supported dialects: bigquery, duckdb, mssql, mysql, postgres, sqlite''))
      else let result = re_sub nulls_match (to_sql ast dialect) in
        Inr (if dialect \<in> {''sqlite'', ''mysql''} then re_sub lower_like_match result else result))"

subsection \<open>The meaning of a built query\<close>

text \<open>
  A reference reading of the built queries over the rows of one table, used to state what they
  select: SQL's \<open>LIKE\<close> with its two wildcards, compared without case; a comparison with NULL does
  not select a row.
\<close>

fun like_match :: "string \<Rightarrow> string \<Rightarrow> bool" where
  "like_match [] s = (s = [])"
| "like_match (p # ps) [] = (p = CHR ''%'' \<and> like_match ps [])"
| "like_match (p # ps) (c # s) =
     (if p = CHR ''%'' then like_match ps (c # s) \<or> like_match (p # ps) s
      else if p = CHR ''_'' then like_match ps s
      else p = c \<and> like_match ps s)"

fun holds :: "(string \<Rightarrow> string option) \<Rightarrow> sql_expr \<Rightarrow> bool" where
  "holds row (ILike (Quoted_column c) (String_literal p)) =
     (case row c of None \<Rightarrow> False | Some v \<Rightarrow> like_match (py_lower p) (py_lower v))"
| "holds row (And_expr a b) = (holds row a \<and> holds row b)"
| "holds row (Or_expr a b) = (holds row a \<or> holds row b)"
| "holds row e = False"

definition selected :: "select_ast \<Rightarrow> (string \<Rightarrow> string option) list \<Rightarrow> (string \<Rightarrow> string option) list" where
  "selected q rows = filter (\<lambda>r. \<forall>p \<in> set (sl_where q). holds r p) rows"

text \<open>The page of the selected rows, which the database has put in some order.\<close>

definition window :: "select_ast \<Rightarrow> 'r list \<Rightarrow> 'r list" where
  "window q rows =
     (let rows = (case sl_offset q of None \<Rightarrow> rows | Some k \<Rightarrow> drop (nat k) rows)
      in case sl_limit q of None \<Rightarrow> rows | Some k \<Rightarrow> take (nat k) rows)"

subsection \<open>Facts\<close>

lemma build_select_simps [simp]:
  "sl_expressions (build_select cs t w d n off) = map Quoted_column cs"
  "sl_from (build_select cs t w d n off) = t"
  "sl_where (build_select cs t w d n off) =
     (case w of None \<Rightarrow> [] | Some ps \<Rightarrow> if ps = [] then [] else [chain_and ps])"
  "sl_limit (build_select cs t w d n off) = n"
  "sl_offset (build_select cs t w d n off) = off"
  by (auto simp: build_select_def build_order_def build_where_def select_from_def add_where_def Let_def
      split: option.splits prod.splits)

lemma build_count_simps [simp]:
  "sl_expressions (build_count t w) = [Count_star]" "sl_from (build_count t w) = t"
  "sl_where (build_count t w) = (case w of None \<Rightarrow> [] | Some ps \<Rightarrow> if ps = [] then [] else [chain_and ps])"
  by (auto simp: build_count_def build_where_def select_from_def add_where_def split: option.splits)

lemma holds_foldl_And: "holds r (foldl And_expr p ps) \<longleftrightarrow> holds r p \<and> (\<forall>q \<in> set ps. holds r q)"
  by (induction ps arbitrary: p) auto

lemma holds_foldl_Or: "holds r (foldl Or_expr p ps) \<longleftrightarrow> holds r p \<or> (\<exists>q \<in> set ps. holds r q)"
  by (induction ps arbitrary: p) auto

lemma holds_chain_and: "ps \<noteq> [] \<Longrightarrow> holds r (chain_and ps) \<longleftrightarrow> (\<forall>p \<in> set ps. holds r p)"
  by (cases ps) (auto simp: chain_and_def holds_foldl_And)

text \<open>A keyword without wildcards, between two percent signs, is searched as it is.\<close>

lemma like_exact: "CHR ''%'' \<notin> set p \<Longrightarrow> CHR ''_'' \<notin> set p \<Longrightarrow>
    like_match (p @ ''%'') s \<longleftrightarrow> starts_with p s"
proof (induction p arbitrary: s)
  case Nil
  show ?case by (induction s) simp_all
next
  case (Cons c p)
  then show ?case by (cases s) auto
qed

lemma like_contains: "CHR ''%'' \<notin> set p \<Longrightarrow> CHR ''_'' \<notin> set p \<Longrightarrow>
    like_match (CHR ''%'' # p @ ''%'') s \<longleftrightarrow> contains_str p s"
proof (induction s)
  case Nil
  then show ?case using like_exact [of p "[]"] by (cases p) auto
next
  case (Cons c s)
  then show ?case using like_exact [of p "c # s"] by auto
qed

lemma lower_wildcard: "lower_char c = CHR ''%'' \<longleftrightarrow> c = CHR ''%''" "lower_char c = CHR ''_'' \<longleftrightarrow> c = CHR ''_''"
proof -
  have same: "lower_char c = d \<longleftrightarrow> c = d" if "code_point d < (97::nat)" "lower_char d = d" for d
  proof (cases "(65 \<le> code_point c \<and> code_point c \<le> (90::nat))
      \<or> (192 \<le> code_point c \<and> code_point c \<le> (222::nat) \<and> code_point c \<noteq> (215::nat))")
    case True
    then have "code_point (lower_char c) = code_point c + (32::nat)"
      by (auto simp: lower_char_def Let_def of_char_of)
    with True that(1) have "code_point (lower_char c) \<noteq> (code_point d :: nat)"
      by auto
    then have "lower_char c \<noteq> d" by auto
    with that(2) show ?thesis by auto
  next
    case False
    then show ?thesis unfolding lower_char_def Let_def by (simp only: if_False)
  qed
  show "lower_char c = CHR ''%'' \<longleftrightarrow> c = CHR ''%''" "lower_char c = CHR ''_'' \<longleftrightarrow> c = CHR ''_''"
    by (rule same; simp add: lower_char_def)+
qed

lemma holds_like_condition:
  assumes "CHR ''%'' \<notin> set k" "CHR ''_'' \<notin> set k"
  shows "holds r (build_like_condition c k) \<longleftrightarrow>
           (\<exists>v. r c = Some v \<and> contains_str (py_lower k) (py_lower v))"
proof -
  have "CHR ''%'' \<notin> set (py_lower k)" "CHR ''_'' \<notin> set (py_lower k)"
    unfolding py_lower_def set_map image_iff using assms
    by (metis lower_wildcard(1), metis lower_wildcard(2))
  moreover have "py_lower (''%'' @ k @ ''%'') = CHR ''%'' # py_lower k @ ''%''"
    by (simp add: py_lower_def lower_char_def)
  ultimately show ?thesis
    by (auto simp: build_like_condition_def like_contains split: option.splits)
qed

lemma window_page: "window (q\<lparr>sl_limit := Some n, sl_offset := Some k\<rparr>) rows = take (nat n) (drop (nat k) rows)"
  by (simp add: window_def)

lemma sub_fuel_no_match: "(\<And>i. m (drop i s) = None) \<Longrightarrow> sub_fuel m n s = s"
proof (induction n arbitrary: s)
  case (Suc n)
  show ?case
  proof (cases s)
    case (Cons c t)
    have "m (drop i t) = None" for i
      using Suc.prems [of "Suc i"] Cons by simp
    moreover have "m (c # t) = None"
      using Suc.prems [of 0] Cons by simp
    ultimately show ?thesis using Suc.IH [of t] Cons by simp
  qed simp
qed simp

lemma generate_sql_supported: "generate_sql f q d = Inr sql \<Longrightarrow> d \<in> set SUPPORTED"
  by (auto simp: generate_sql_def split: if_splits)

lemma generate_sql_kind: "\<exists>sql. generate_sql f q (kind_value k) = Inr sql"
  by (cases k) (simp_all add: generate_sql_def SUPPORTED_def Let_def)

end
