(* ===== verification/Query_Builder.thy ===== *)
theory Query_Builder
  imports Mcp_Read Dialect_Engine
begin

text \<open>
  \<open>connections/query_builder.py\<close> and \<open>data_routes.py\<close>: the page of instances of an object type. The
  builder reads the object's mapping from the registry, builds a COUNT and a SELECT over its mapped
  columns, passes both through the SQL gate, and runs them on one read-only connection of the pool.
  The printing of a query is sqlglot's, the executor is the platform's. The dash of two messages is
  written as a hyphen.
\<close>

record instance_column =
  ic_api_name :: string
  ic_display_name :: string
  ic_physical_column :: string

record 'v instance_data =
  id_object_type_rid :: string
  id_object_type_name :: string
  id_columns :: "instance_column list"
  id_data :: "(string, 'v cell) dict list"
  id_total :: int
  id_page :: int
  id_page_size :: int
  id_has_more :: bool

definition DEFAULT_PAGE_SIZE :: int where "DEFAULT_PAGE_SIZE = 20"
definition MAX_PAGE_SIZE :: int where "MAX_PAGE_SIZE = 100"

definition or_else :: "string \<Rightarrow> string \<Rightarrow> string" where
  "or_else a b = (if a = [] then b else a)"

subsection \<open>Columns and conditions\<close>

definition instance_column_of :: "property_type_definition \<Rightarrow> instance_column" where
  "instance_column_of p =
     \<lparr>ic_api_name = pt_api_name p, ic_display_name = or_else (pt_display_name p) (pt_api_name p),
      ic_physical_column = physical_column p\<rparr>"

definition build_columns ::
  "(string, property_type_definition) dict \<Rightarrow> instance_column list \<times> (string, string) dict" where
  "build_columns property_types =
     (let mapped = filter (\<lambda>p. physical_column p \<noteq> []) (dict_vals property_types)
      in (map instance_column_of mapped,
          fold (\<lambda>p d. dict_set (pt_api_name p) (physical_column p) d) mapped []))"

definition search_conditions :: "string option \<Rightarrow> instance_column list \<Rightarrow> sql_expr list" where
  "search_conditions search columns =
     (case search of
        None \<Rightarrow> []
      | Some k \<Rightarrow> if k = [] then [] else map (\<lambda>c. build_like_condition (ic_physical_column c) k) columns)"

definition searching :: "string option \<Rightarrow> bool" where
  "searching search = (search \<noteq> None \<and> search \<noteq> Some [])"

text \<open>The conditions of a search are joined with OR, outside the builders.\<close>

definition add_search :: "string option \<Rightarrow> sql_expr list \<Rightarrow> select_ast \<Rightarrow> select_ast" where
  "add_search search conds q =
     (if searching search \<and> conds \<noteq> [] then add_where (foldl Or_expr (hd conds) (tl conds)) q else q)"

definition order_of ::
  "string option \<Rightarrow> string \<Rightarrow> (string, string) dict \<Rightarrow> exn + (string \<times> string) option" where
  "order_of sort_field sort_order col_map =
     (case sort_field of
        None \<Rightarrow> Inr None
      | Some f \<Rightarrow>
          (if f = [] then Inr None
           else case dict_get col_map f of
             None \<Rightarrow> Inl (QueryBuildError (''Sort field '' @ f @ '' not found in ObjectType property types''))
           | Some physical \<Rightarrow>
               (if physical = []
                then Inl (QueryBuildError (''Sort field '' @ f @ '' not found in ObjectType property types''))
                else Inr (Some (physical, sort_order)))))"

definition clamp_page :: "int \<Rightarrow> int" where
  "clamp_page page = max 1 page"

definition clamp_page_size :: "int \<Rightarrow> int" where
  "clamp_page_size n = min (max 1 n) MAX_PAGE_SIZE"

definition count_query ::
  "string \<Rightarrow> instance_column list \<Rightarrow> string option \<Rightarrow> select_ast" where
  "count_query table columns search =
     (let conds = search_conditions search columns
      in add_search search conds (build_count table (if searching search then None else Some conds)))"

definition page_query ::
  "string \<Rightarrow> instance_column list \<Rightarrow> string option \<Rightarrow> (string \<times> string) option \<Rightarrow> int \<Rightarrow> int \<Rightarrow> select_ast" where
  "page_query table columns search order_by page page_size =
     (let conds = search_conditions search columns
      in add_search search conds
           (build_select (map ic_physical_column columns) table
              (if searching search then None else Some conds) order_by
              (Some page_size) (Some ((page - 1) * page_size))))"

subsection \<open>Running\<close>

fun kind_to_dialect :: "connection_kind \<Rightarrow> string" where
  "kind_to_dialect Postgres = ''postgres''"
| "kind_to_dialect Mysql = ''mysql''"
| "kind_to_dialect Sqlite = ''sqlite''"

definition resolve_object_type :: "string \<Rightarrow> env \<Rightarrow> (db, exn, object_type_definition) act" where
  "resolve_object_type rid env =
     bind (load env) (\<lambda>snap.
       case dict_get (object_types (sn_registry snap)) rid of
         None \<Rightarrow> raise (QueryBuildError (''ObjectType rid='' @ rid @ '' not found in '' @ env_value env))
       | Some obj \<Rightarrow> ret obj)"

definition gate_built :: "'n sqlglot \<Rightarrow> string \<Rightarrow> string \<Rightarrow> string \<Rightarrow> exn + unit" where
  "gate_built G what sql dialect =
     (let g = gate G sql dialect; str = (\<lambda>x. case x of None \<Rightarrow> ''None'' | Some t \<Rightarrow> t) in
      if gr_ok g then Inr ()
      else Inl (QueryBuildError (''SQL gate rejected '' @ what @ '' query: '' @ str (gr_reason g)
                  @ '' - '' @ str (gr_detail g))))"

text \<open>\<open>scalar_one\<close>: exactly one row, its first value.\<close>

definition scalar_one :: "string list \<times> json cell list list \<Rightarrow> exn + int" where
  "scalar_one res =
     (case snd res of
        [] \<Rightarrow> Inl NoResultFound
      | [(Raw (JInt n)) # _] \<Rightarrow> Inr n
      | [_] \<Rightarrow> Inl ill_typed
      | _ \<Rightarrow> Inl (OtherException ''MultipleResultsFound'' ''Multiple rows were found when exactly one was required''))"

definition row_dict :: "string list \<Rightarrow> 'v cell list \<Rightarrow> (string, 'v cell) dict" where
  "row_dict names row = fold (\<lambda>(n, v) d. dict_set n v d) (zip names row) []"

text \<open>\<open>{c.api_name: row.get(c.physical_column) for c in columns}\<close>.\<close>

definition format_row :: "instance_column list \<Rightarrow> (string, 'v cell) dict \<Rightarrow> (string, 'v cell) dict" where
  "format_row columns row =
     fold (\<lambda>c d. dict_set (ic_api_name c)
        (case dict_get row (ic_physical_column c) of None \<Rightarrow> Null | Some v \<Rightarrow> v) d) columns []"

record query_plan =
  qp_connection :: uuid
  qp_object :: object_type_definition
  qp_columns :: "instance_column list"
  qp_count_sql :: string
  qp_select_sql :: string
  qp_page :: int
  qp_page_size :: int

text \<open>Everything up to the execution: both statements have passed the gate.\<close>

definition plan_statements ::
  "'n platform \<Rightarrow> (select_ast \<Rightarrow> string \<Rightarrow> string) \<Rightarrow> string \<Rightarrow> int \<Rightarrow> int \<Rightarrow> string option
     \<Rightarrow> string option \<Rightarrow> string \<Rightarrow> object_type_definition \<Rightarrow> uuid \<Rightarrow> string \<Rightarrow> exn + query_plan" where
  "plan_statements P to_sql rid page page_size search sort_field sort_order obj cid dialect =
     (let (columns, col_map) = build_columns (ob_property_types obj); table = read_asset_path (ob_asset_mapping obj);
          p = clamp_page page; n = clamp_page_size page_size in
      if columns = []
      then Inl (QueryBuildError (''ObjectType '' @ rid @ '' has no property types with physical_column''))
      else
        bind_sum (order_of sort_field sort_order col_map) (\<lambda>order_by.
        bind_sum (generate_sql to_sql (count_query table columns search) dialect) (\<lambda>count_sql.
        bind_sum (gate_built (pf_sqlglot P) ''COUNT'' count_sql dialect) (\<lambda>_.
        bind_sum (generate_sql to_sql (page_query table columns search order_by p n) dialect) (\<lambda>select_sql.
        bind_sum (gate_built (pf_sqlglot P) ''SELECT'' select_sql dialect) (\<lambda>_.
        Inr \<lparr>qp_connection = cid, qp_object = obj, qp_columns = columns, qp_count_sql = count_sql,
             qp_select_sql = select_sql, qp_page = p, qp_page_size = n\<rparr>))))))"

definition plan_query ::
  "'n platform \<Rightarrow> (select_ast \<Rightarrow> string \<Rightarrow> string) \<Rightarrow> string \<Rightarrow> int \<Rightarrow> int \<Rightarrow> string option
     \<Rightarrow> string option \<Rightarrow> string \<Rightarrow> env \<Rightarrow> (db, exn, query_plan) act" where
  "plan_query P to_sql rid page page_size search sort_field sort_order env =
     bind (resolve_object_type rid env) (\<lambda>obj.
     if read_connection_id (ob_asset_mapping obj) = []
     then raise (QueryBuildError (''ObjectType '' @ rid @ '' has no read_connection_id in asset_mapping''))
     else if read_asset_path (ob_asset_mapping obj) = []
     then raise (QueryBuildError (''ObjectType '' @ rid @ '' has no read_asset_path in asset_mapping''))
     else
       bind (lift_sum (parse_uuid (read_connection_id (ob_asset_mapping obj)))) (\<lambda>cid.
       bind (get_by_id cid) (\<lambda>meta.
       lift_sum (plan_statements P to_sql rid page page_size search sort_field sort_order obj cid
         (kind_to_dialect (co_kind meta))))))"

definition on_db :: "(db, exn, 'a) act \<Rightarrow> (pool \<times> db, exn, 'a) act" where
  "on_db m = (\<lambda>(p, s). case m s of (r, s') \<Rightarrow> (r, (p, s')))"

text \<open>Both statements run on one connection of the pool, the count first.\<close>

definition run_plan :: "'n platform \<Rightarrow> string \<Rightarrow> query_plan \<Rightarrow> (pool \<times> db, exn, json instance_data) act" where
  "run_plan P rid q =
     bind (get_or_create (pf_fernet P) (qp_connection q)) (\<lambda>(engine, kind).
     let sent = enforce_read_only kind (Some 30000) in
     bind (lift_sum (pf_executor P engine sent (qp_count_sql q))) (\<lambda>count_row.
     bind (lift_sum (scalar_one count_row)) (\<lambda>total.
     bind (lift_sum (pf_executor P engine (sent @ [qp_count_sql q]) (qp_select_sql q))) (\<lambda>(names, rows).
     ret \<lparr>id_object_type_rid = rid,
          id_object_type_name = or_else (ob_display_name (qp_object q)) (ob_api_name (qp_object q)),
          id_columns = qp_columns q,
          id_data = map (\<lambda>row. format_row (qp_columns q) (row_dict names row)) rows,
          id_total = total, id_page = qp_page q, id_page_size = qp_page_size q,
          id_has_more = (total > qp_page q * qp_page_size q)\<rparr>))))"

definition instance_query ::
  "'n platform \<Rightarrow> (select_ast \<Rightarrow> string \<Rightarrow> string) \<Rightarrow> string \<Rightarrow> int \<Rightarrow> int \<Rightarrow> string option
     \<Rightarrow> string option \<Rightarrow> string \<Rightarrow> env \<Rightarrow> (pool \<times> db, exn, json instance_data) act" where
  "instance_query P to_sql rid page page_size search sort_field sort_order env =
     bind (on_db (plan_query P to_sql rid page page_size search sort_field sort_order env))
       (run_plan P rid)"

subsection \<open>The route\<close>

text \<open>
  \<open>GET /api/data/{rid}/instances\<close>. FastAPI has checked the bounds of the query parameters. The
  router makes the dependency that checks a read token, but the route does not declare it.
\<close>

definition instance_column_json :: "instance_column \<Rightarrow> json" where
  "instance_column_json c =
     JObj [(''api_name'', JStr (ic_api_name c)), (''display_name'', JStr (ic_display_name c)),
           (''physical_column'', JStr (ic_physical_column c))]"

definition instance_data_json :: "json instance_data \<Rightarrow> json" where
  "instance_data_json r =
     JObj [(''object_type_rid'', JStr (id_object_type_rid r)),
           (''object_type_name'', JStr (id_object_type_name r)),
           (''columns'', JList (map instance_column_json (id_columns r))),
           (''data'', JList (map (\<lambda>row. JObj (map (\<lambda>(k, v). (k, cell_json v)) row)) (id_data r))),
           (''total'', JInt (id_total r)), (''page'', JInt (id_page r)),
           (''page_size'', JInt (id_page_size r)), (''has_more'', JBool (id_has_more r))]"

definition list_instances ::
  "'n platform \<Rightarrow> (select_ast \<Rightarrow> string \<Rightarrow> string) \<Rightarrow> string \<Rightarrow> int \<Rightarrow> int \<Rightarrow> string option
     \<Rightarrow> string option \<Rightarrow> string \<Rightarrow> (pool \<times> db, exn, json) act" where
  "list_instances P to_sql rid page page_size search sort_field sort_order = (\<lambda>st.
     case instance_query P to_sql rid page page_size search sort_field sort_order Production st of
       (Inr r, st') \<Rightarrow> (Inr (instance_data_json r), st')
     | (Inl (QueryBuildError m), st') \<Rightarrow> (Inl (HTTPException 400 ''QUERY_BUILD_ERROR''), st')
     | (Inl _, st') \<Rightarrow> (Inl (HTTPException 500 ''QUERY_EXECUTION_ERROR''), st'))"

subsection \<open>Facts\<close>

lemma build_columns_physical: "build_columns pts = (columns, col_map) \<Longrightarrow>
    set (map ic_physical_column columns) = physical_column ` set (dict_vals pts) - {[]}"
  by (force simp: build_columns_def Let_def instance_column_of_def)

lemma page_query_simps:
  "sl_from (page_query t cs search ob p n) = t"
  "sl_expressions (page_query t cs search ob p n) = map Quoted_column (map ic_physical_column cs)"
  "sl_limit (page_query t cs search ob p n) = Some n"
  "sl_offset (page_query t cs search ob p n) = Some ((p - 1) * n)"
  by (simp_all add: page_query_def add_search_def add_where_def Let_def)

lemma col_map_values: "dict_get (fold (\<lambda>p d. dict_set (pt_api_name p) (physical_column p) d) ps d0) f = Some v \<Longrightarrow>
    dict_get d0 f = Some v \<or> v \<in> physical_column ` set ps"
proof (induction ps arbitrary: d0)
  case (Cons p ps)
  then have "dict_get (dict_set (pt_api_name p) (physical_column p) d0) f = Some v
      \<or> v \<in> physical_column ` set ps" by simp
  then show ?case by (auto simp: get_set split: if_splits)
qed simp

lemma order_of_mapped: "order_of f dir (snd (build_columns pts)) = Inr (Some (c, dir')) \<Longrightarrow>
    c \<in> set (map ic_physical_column (fst (build_columns pts))) \<and> dir' = dir"
  by (auto simp: order_of_def build_columns_def Let_def instance_column_of_def image_image
      split: option.splits if_splits dest!: col_map_values)

lemma gate_built_Inr: "gate_built G w sql d = Inr u \<Longrightarrow> gr_ok (gate G sql d)"
  by (auto simp: gate_built_def Let_def split: if_splits)

lemma resolve_object_type_Inr: "resolve_object_type rid env s = (Inr obj, s') \<Longrightarrow>
    s' = s \<and> (\<exists>r v. slot s env = Some (r, v) \<and> dict_get (object_types r) rid = Some obj)"
  by (auto simp: resolve_object_type_def load_def slot_def act_simps split: option.splits)

lemma get_by_id_Inr: "get_by_id cid s = (Inr c, s') \<Longrightarrow> s' = s \<and> (\<exists>row. find_connection cid s = Some row
    \<and> connection_of_row row = Inr c)"
  by (auto simp: get_by_id_def statement_def split: if_splits option.splits)

lemma plan_statements_Inr:
  assumes "plan_statements P to_sql rid page page_size search sort_field sort_order obj cid dialect = Inr q"
  shows "\<exists>columns col_map order_by. build_columns (ob_property_types obj) = (columns, col_map) \<and> columns \<noteq> []
    \<and> qp_columns q = columns \<and> qp_object q = obj \<and> qp_connection q = cid
    \<and> qp_page q = clamp_page page \<and> qp_page_size q = clamp_page_size page_size
    \<and> order_of sort_field sort_order col_map = Inr order_by
    \<and> generate_sql to_sql (count_query (read_asset_path (ob_asset_mapping obj)) columns search) dialect
        = Inr (qp_count_sql q)
    \<and> generate_sql to_sql (page_query (read_asset_path (ob_asset_mapping obj)) columns search order_by
        (qp_page q) (qp_page_size q)) dialect = Inr (qp_select_sql q)
    \<and> gr_ok (gate (pf_sqlglot P) (qp_count_sql q) dialect) \<and> gr_ok (gate (pf_sqlglot P) (qp_select_sql q) dialect)"
  using assms
  by (auto simp: plan_statements_def Let_def bind_sum_Inr dest!: gate_built_Inr split: prod.splits if_splits)

lemma plan_query_Inr:
  assumes "plan_query P to_sql rid page page_size search sort_field sort_order env s = (Inr q, s')"
  shows "s' = s \<and> (\<exists>r v obj meta. slot s env = Some (r, v) \<and> dict_get (object_types r) rid = Some obj
    \<and> get_by_id (qp_connection q) s = (Inr meta, s)
    \<and> plan_statements P to_sql rid page page_size search sort_field sort_order obj (qp_connection q)
        (kind_to_dialect (co_kind meta)) = Inr q)"
proof -
  let ?obj = "\<lambda>obj. if read_connection_id (ob_asset_mapping obj) = []
     then raise (QueryBuildError (''ObjectType '' @ rid @ '' has no read_connection_id in asset_mapping''))
     else if read_asset_path (ob_asset_mapping obj) = []
     then raise (QueryBuildError (''ObjectType '' @ rid @ '' has no read_asset_path in asset_mapping''))
     else
       bind (lift_sum (parse_uuid (read_connection_id (ob_asset_mapping obj)))) (\<lambda>cid.
       bind (get_by_id cid) (\<lambda>meta.
       lift_sum (plan_statements P to_sql rid page page_size search sort_field sort_order obj cid
         (kind_to_dialect (co_kind meta)))))"
  from assms obtain obj s1 where obj: "resolve_object_type rid env s = (Inr obj, s1)"
    and rest: "?obj obj s1 = (Inr q, s')"
    unfolding plan_query_def by (rule bind_InrE)
  from resolve_object_type_Inr [OF obj] obtain r v where
    s1: "s1 = s" "slot s env = Some (r, v)" "dict_get (object_types r) rid = Some obj" by blast
  from rest s1(1) obtain cid meta s2 where meta: "get_by_id cid s = (Inr meta, s2)"
    and plan: "plan_statements P to_sql rid page page_size search sort_field sort_order obj cid
         (kind_to_dialect (co_kind meta)) = Inr q" and s': "s' = s2"
    by (auto simp: act_simps split: if_splits sum.splits prod.splits)
  have "s2 = s" and "qp_connection q = cid"
    using get_by_id_Inr [OF meta] plan_statements_Inr [OF plan] by auto
  with s1 meta plan s' show ?thesis by auto
qed

lemma read_only_plan [read_only_intros]: "read_only (plan_query P to_sql rid page n search f dir env)"
  unfolding plan_query_def resolve_object_type_def by (auto intro!: read_only_intros)

lemma instance_query_frame:
  assumes "instance_query P to_sql rid page n search f dir env (p, s) = (r, (p', s'))"
  shows "s' = s"
proof -
  have "snd (plan_query P to_sql rid page n search f dir env s) = s"
    using read_only_plan [of P to_sql rid page n search f dir env] unfolding read_only_def
    by (metis prod.collapse)
  then show ?thesis
    using assms
    by (auto simp: instance_query_def on_db_def run_plan_def act_simps Let_def
        dest!: get_or_create_frame split: prod.splits sum.splits)
qed

subsection \<open>Properties\<close>


definition sample_asset :: asset_mapping where
  "sample_asset = mk_asset_mapping\<lparr>read_connection_id := ''00000000-0000-0000-0000-00000000000a'',
     read_asset_path := ''customer''\<rparr>"

definition mapped_object :: object_type_definition where
  "mapped_object = (mk_object_type ''ri.obj.1'')\<lparr>ob_api_name := ''Customer'', ob_asset_mapping := sample_asset,
     ob_property_types := [(''name'', (mk_property_type ''ri.prop.1'')\<lparr>pt_api_name := ''name'', physical_column := ''nm''\<rparr>),
                           (''note'', (mk_property_type ''ri.prop.2'')\<lparr>pt_api_name := ''note''\<rparr>)]\<rparr>"

definition mapped_db :: db where
  "mapped_db = (migrated 0)\<lparr>registries := (\<lambda>e. Some \<lparr>rr_payload =
          empty_registry\<lparr>object_types := [(''ri.obj.1'', mapped_object)]\<rparr>, rr_version = 1, rr_updated_at = 0,
          rr_updated_by = None, rr_commit_message = None\<rparr>),
        connections := [\<lparr>cn_id = ''00000000-0000-0000-0000-00000000000a'', cn_label = ''mes'',
        cn_kind = ''postgres'', cn_dsn_encrypted = [], cn_created_at = 0, cn_last_probe_ok_at = None\<rparr>]\<rparr>"

definition print_names :: "select_ast \<Rightarrow> string \<Rightarrow> string" where
  "print_names q d = concat (map (\<lambda>e. case e of Quoted_column c \<Rightarrow> c | _ \<Rightarrow> ''count'') (sl_expressions q))"

lemma sample_columns: "build_columns (ob_property_types mapped_object)
    = ([\<lparr>ic_api_name = ''name'', ic_display_name = ''name'', ic_physical_column = ''nm''\<rparr>], [(''name'', ''nm'')])"
  by (simp add: build_columns_def mapped_object_def mk_object_type_def mk_property_type_def
      instance_column_of_def or_else_def dict_set_def)

lemma sample_gate: "gr_ok (gate toy_sqlglot ''nm'' d)" "gr_ok (gate toy_sqlglot ''count'' d)"
  by (simp_all add: gate_def toy_sqlglot_def py_strip_def is_space_def tree_of_def is_any_def
      gate_with_def FORBIDDEN_def List.map_filter_simps)

lemma sample_plan:
  "\<exists>q. plan_query toy_platform print_names ''ri.obj.1'' 0 500 (Some ''a'') (Some ''name'') ''desc'' Production mapped_db
     = (Inr q, mapped_db)"
proof -
  have load: "resolve_object_type ''ri.obj.1'' Production mapped_db = (Inr mapped_object, mapped_db)"
    by (simp add: resolve_object_type_def mapped_db_def migrated_def load_def act_simps)
  have conn: "get_by_id ''00000000-0000-0000-0000-00000000000a'' mapped_db
      = (Inr \<lparr>co_id = ''00000000-0000-0000-0000-00000000000a'', co_label = ''mes'', co_kind = Postgres,
              co_last_probe = None\<rparr>, mapped_db)"
    by (simp add: get_by_id_def mapped_db_def migrated_def statement_def find_connection_def
        connection_of_row_def parse_kind_def)
  have sql: "re_sub nulls_match ''nm'' = ''nm''" "re_sub nulls_match ''count'' = ''count''"
    by (simp_all add: re_sub_def nulls_match_def spaces_then_def is_space_def)
  have plan: "\<exists>q. plan_statements toy_platform print_names ''ri.obj.1'' 0 500 (Some ''a'') (Some ''name'') ''desc''
      mapped_object ''00000000-0000-0000-0000-00000000000a'' ''postgres'' = Inr q"
    by (simp add: plan_statements_def sample_columns order_of_def generate_sql_def SUPPORTED_def print_names_def
        page_query_simps count_query_def add_search_def searching_def add_where_def sql gate_built_def
        sample_gate toy_platform_def Let_def)
  have "read_connection_id (ob_asset_mapping mapped_object) = ''00000000-0000-0000-0000-00000000000a''"
    "read_asset_path (ob_asset_mapping mapped_object) = ''customer''"
    by (simp_all add: mapped_object_def sample_asset_def mk_object_type_def)
  with load conn plan show ?thesis
    by (auto simp: plan_query_def act_simps parse_uuid_def py_uuid_sample_canonical)
qed



text \<open>What a search finds. With a keyword that is not empty and holds no LIKE wildcard, the SELECT
  and the COUNT choose exactly the rows in which some mapped column that is not NULL contains the
  keyword, whatever the case; so the total counts the rows the pages show. Without a keyword both
  choose every row.\<close>
theorem search_matches_any_column:
  assumes "CHR ''%'' \<notin> set k" "CHR ''_'' \<notin> set k" "columns \<noteq> []"
  shows "selected (page_query table columns (Some k) order_by p n) rows =
      filter (\<lambda>r. k = [] \<or> (\<exists>c \<in> set columns. \<exists>v. r (ic_physical_column c) = Some v
                            \<and> contains_str (py_lower k) (py_lower v))) rows
    \<and> selected (count_query table columns (Some k)) rows = selected (page_query table columns (Some k) order_by p n) rows
    \<and> selected (page_query table columns None order_by p n) rows = rows
    \<and> selected (count_query table columns None) rows = rows"
proof -
  obtain c cs where cs: "columns = c # cs" using assms(3) by (cases columns) auto
  have "holds r (foldl Or_expr (hd (search_conditions (Some k) columns)) (tl (search_conditions (Some k) columns)))
      \<longleftrightarrow> (\<exists>c \<in> set columns. \<exists>v. r (ic_physical_column c) = Some v \<and> contains_str (py_lower k) (py_lower v))"
    if "k \<noteq> []" for r
    using that holds_like_condition [OF assms(1,2)]
    by (simp add: search_conditions_def cs holds_foldl_Or image_iff)
  then show ?thesis
    using cs by (auto simp: selected_def page_query_def count_query_def add_search_def searching_def
        search_conditions_def add_where_def Let_def)
qed

theorem search_matches_any_column_witness:
  "selected (page_query ''t'' [\<lparr>ic_api_name = ''name'', ic_display_name = ''name'', ic_physical_column = ''nm''\<rparr>]
     (Some ''AB'') None 1 20) [(\<lambda>c. Some ''xaby''), (\<lambda>c. None)] = [\<lambda>c. Some ''xaby'']"
proof -
  have lows: "py_lower ''AB'' = ''ab''" "py_lower ''xaby'' = ''xaby''" by code_simp+
  show ?thesis
    by (subst search_matches_any_column [THEN conjunct1]) (simp_all add: lows)
qed

text \<open>An instance query returns what the database holds. For a row the SELECT returned, the cell
  under a property's API name is the database's value of its physical column, whatever masking the
  property's compliance asks for.\<close>
theorem instance_values_unmasked:
  fixes row :: "'v cell list"
  assumes "distinct names" "length row = length names" "i < length names" "distinct (map ic_api_name columns)"
    and "c \<in> set columns" "ic_physical_column c = names ! i"
  shows "dict_get (format_row columns (row_dict names row)) (ic_api_name c) = Some (row ! i)"
proof -
  have row: "dict_get (fold (\<lambda>(n, v) d. dict_set n v d) ps d) k
      = (if k \<in> fst ` set ps then map_of ps k else dict_get d k)" if "distinct (map fst ps)" for ps d k
    using that by (induction ps arbitrary: d) (auto simp: get_set)
  have "dict_get (row_dict names row) (names ! i) = Some (row ! i)"
  proof -
    have "(names ! i, row ! i) \<in> set (zip names row)"
      using assms(2,3) by (force simp: set_zip)
    moreover from this have "names ! i \<in> fst ` set (zip names row)" by force
    ultimately show ?thesis using assms(1,2) by (simp add: row_dict_def row)
  qed
  moreover have fmt: "dict_get (fold (\<lambda>c d. dict_set (ic_api_name c) (f c) d) cs d) (ic_api_name c) = Some (f c)"
    if "distinct (map ic_api_name cs)" "c \<in> set cs \<or> (ic_api_name c \<notin> ic_api_name ` set cs \<and> dict_get d (ic_api_name c) = Some (f c))"
    for f :: "instance_column \<Rightarrow> 'v cell" and cs d using that by (induction cs arbitrary: d) (auto simp: get_set)
  ultimately show ?thesis
    using fmt [OF assms(4)] assms(5,6) by (simp add: format_row_def)
qed

theorem instance_values_unmasked_witness:
  "dict_get (format_row [instance_column_of ((mk_property_type ''ri.prop.1'')\<lparr>pt_api_name := ''phone'',
       physical_column := ''tel'', pt_compliance := mk_compliance_config\<lparr>cc_masking := MASK_REDACT_FULL\<rparr>\<rparr>)]
     (row_dict [''id'', ''tel''] [Raw (JInt 1), Raw (JStr ''5551234'')])) ''phone'' = Some (Raw (JStr ''5551234''))"
  using instance_values_unmasked [of "[''id'', ''tel'']" "[Raw (JInt 1), Raw (JStr ''5551234'')]" 1
      "[instance_column_of ((mk_property_type ''ri.prop.1'')\<lparr>pt_api_name := ''phone'',
       physical_column := ''tel'', pt_compliance := mk_compliance_config\<lparr>cc_masking := MASK_REDACT_FULL\<rparr>\<rparr>)]"
      "instance_column_of ((mk_property_type ''ri.prop.1'')\<lparr>pt_api_name := ''phone'',
       physical_column := ''tel'', pt_compliance := mk_compliance_config\<lparr>cc_masking := MASK_REDACT_FULL\<rparr>\<rparr>)"]
  by (simp add: instance_column_of_def mk_property_type_def)

text \<open>A failing instance query. Whatever goes wrong, the route answers 400 with
  QUERY_BUILD_ERROR or 500 with QUERY_EXECUTION_ERROR, and in every case the tables are as before.\<close>
theorem list_instances_outcomes:
  "(\<exists>res p'. list_instances P to_sql rid page n search f dir (p, s) = (res, (p', s))
     \<and> ((\<exists>r. instance_query P to_sql rid page n search f dir Production (p, s) = (Inr r, (p', s))
              \<and> res = Inr (instance_data_json r))
        \<or> res = Inl (HTTPException 400 ''QUERY_BUILD_ERROR'')
        \<or> res = Inl (HTTPException 500 ''QUERY_EXECUTION_ERROR'')))"
proof -
  obtain r p' s' where run: "instance_query P to_sql rid page n search f dir Production (p, s) = (r, (p', s'))"
    by (metis prod.exhaust)
  have "s' = s" by (rule instance_query_frame [OF run])
  with run show ?thesis
    by (auto simp: list_instances_def split: sum.splits exn.splits)
qed

end
