(* ===== verification/Extractors.thy ===== *)
theory Extractors
  imports Registry_Types Py_Parse
begin

text \<open>
  \<open>ingestion/extractors\<close>: from a parsed file to an \<open>ExtractedDocument\<close>. The libraries that read the
  files are parameters: what the code sees of a document (its paragraphs, pages, slides, statements
  or rows) is an argument, and a failure to open it is \<open>Inl\<close> of the exception's text. What the code
  makes of it, section by section, is defined here.
\<close>

record section_text =
  sx_heading :: string
  sx_text :: string
  sx_structured :: "(string, json) dict"

definition mk_section :: "string \<Rightarrow> string \<Rightarrow> section_text" where
  "mk_section heading txt = \<lparr>sx_heading = heading, sx_text = txt, sx_structured = []\<rparr>"

record extracted_document =
  xd_kind :: string
  xd_source_filename :: string
  xd_sections :: "section_text list"

abbreviation newline :: string where
  "newline \<equiv> [CHR 0x0A]"

subsection \<open>Word documents\<close>

text \<open>A paragraph as \<open>python-docx\<close> gives it: the name of its style, if any, and its text.\<close>

record paragraph_text =
  pg_style :: "string option"
  pg_text :: string

definition flush_section :: "string \<Rightarrow> string list \<Rightarrow> section_text list" where
  "flush_section heading txt =
     (if heading \<noteq> [] \<or> txt \<noteq> [] then [mk_section heading (join_str newline txt)] else [])"

definition is_heading :: "paragraph_text \<Rightarrow> bool" where
  "is_heading p = starts_with ''heading'' (py_lower (case pg_style p of None \<Rightarrow> [] | Some s \<Rightarrow> s))"

fun docx_sections :: "string \<Rightarrow> string list \<Rightarrow> paragraph_text list \<Rightarrow> section_text list" where
  "docx_sections heading txt [] = flush_section heading txt"
| "docx_sections heading txt (p # ps) =
     (if is_heading p then flush_section heading txt @ docx_sections (pg_text p) [] ps
      else docx_sections heading (txt @ [pg_text p]) ps)"

definition extract_docx :: "string + paragraph_text list \<Rightarrow> string \<Rightarrow> exn + extracted_document" where
  "extract_docx d filename =
     (case d of
        Inl e \<Rightarrow> Inl (ExtractionFailure (''python-docx failed on '' @ filename @ '': '' @ e))
      | Inr paragraphs \<Rightarrow>
          Inr \<lparr>xd_kind = ''docx'', xd_source_filename = filename,
               xd_sections = docx_sections [] [] paragraphs\<rparr>)"

subsection \<open>PDF files\<close>

text \<open>A page is the text \<open>extract_text\<close> returns, or the text of the exception it raises.\<close>

fun pdf_sections :: "string \<Rightarrow> nat \<Rightarrow> (string + string option) list \<Rightarrow> exn + section_text list" where
  "pdf_sections filename i [] = Inr []"
| "pdf_sections filename i (Inl e # pages) =
     Inl (ExtractionFailure (''pypdf page '' @ nat_str (i + 1) @ '' failed on '' @ filename @ '': '' @ e))"
| "pdf_sections filename i (Inr txt # pages) =
     bind_sum (pdf_sections filename (i + 1) pages) (\<lambda>rest.
       Inr (mk_section (''page '' @ nat_str (i + 1)) (case txt of None \<Rightarrow> [] | Some t \<Rightarrow> t) # rest))"

definition extract_pdf ::
  "string + (string + string option) list \<Rightarrow> string \<Rightarrow> exn + extracted_document" where
  "extract_pdf d filename =
     (case d of
        Inl e \<Rightarrow> Inl (ExtractionFailure (''pypdf failed on '' @ filename @ '': '' @ e))
      | Inr pages \<Rightarrow>
          bind_sum (pdf_sections filename 0 pages) (\<lambda>secs.
            Inr \<lparr>xd_kind = ''pdf'', xd_source_filename = filename, xd_sections = secs\<rparr>))"

subsection \<open>Presentations\<close>

text \<open>A shape: the text of its frame, if it has one, and whether it is the slide's title.\<close>

record shape_view =
  sh_frame :: "string option"
  sh_is_title :: bool

fun slide_parts :: "string \<Rightarrow> string list \<Rightarrow> shape_view list \<Rightarrow> string \<times> string list" where
  "slide_parts heading body [] = (heading, body)"
| "slide_parts heading body (sh # shs) =
     (case sh_frame sh of
        None \<Rightarrow> slide_parts heading body shs
      | Some t \<Rightarrow>
          (if t = [] then slide_parts heading body shs
           else if sh_is_title sh then slide_parts t body shs
           else slide_parts heading (body @ [t]) shs))"

definition slide_section :: "nat \<Rightarrow> shape_view list \<Rightarrow> section_text" where
  "slide_section i shapes =
     (let (heading, body) = slide_parts [] [] shapes in
      mk_section (if heading \<noteq> [] then heading else ''slide '' @ nat_str (i + 1)) (join_str newline body))"

definition extract_pptx :: "string + shape_view list list \<Rightarrow> string \<Rightarrow> exn + extracted_document" where
  "extract_pptx d filename =
     (case d of
        Inl e \<Rightarrow> Inl (ExtractionFailure (''python-pptx failed on '' @ filename @ '': '' @ e))
      | Inr slides \<Rightarrow>
          Inr \<lparr>xd_kind = ''pptx'', xd_source_filename = filename,
               xd_sections = map (\<lambda>(i, shapes). slide_section i shapes) (enumerate 0 slides)\<rparr>)"

subsection \<open>SQL scripts\<close>

text \<open>
  A statement as \<open>sqlglot\<close> gives it: \<open>None\<close>, a CREATE over a schema with the table's name, the
  columns' names and types and the statement's own text, or anything else. Opening the file is
  outside the code's \<open>try\<close>: what it raises passes through.
\<close>

datatype sql_statement =
    Create_schema "string option" "(string \<times> string option) list" string
  | Other_statement

definition column_json :: "string \<times> string option \<Rightarrow> json" where
  "column_json c = JObj [(''name'', JStr (fst c)), (''type'', JStr (case snd c of None \<Rightarrow> [] | Some t \<Rightarrow> t))]"

fun sql_sections :: "sql_statement option list \<Rightarrow> section_text list" where
  "sql_sections [] = []"
| "sql_sections (Some (Create_schema tname cols txt) # sts) =
     (let t = (case tname of None \<Rightarrow> ''?'' | Some n \<Rightarrow> n) in
      \<lparr>sx_heading = ''CREATE TABLE '' @ t, sx_text = txt,
       sx_structured = [(''table'', JStr t), (''columns'', JList (map column_json cols))]\<rparr> # sql_sections sts)"
| "sql_sections (_ # sts) = sql_sections sts"

definition extract_sql ::
  "exn + (string + sql_statement option list) \<Rightarrow> string \<Rightarrow> exn + extracted_document" where
  "extract_sql d filename =
     (case d of
        Inl e \<Rightarrow> Inl e
      | Inr (Inl e) \<Rightarrow> Inl (ExtractionFailure (''sqlglot failed on '' @ filename @ '': '' @ e))
      | Inr (Inr statements) \<Rightarrow>
          Inr \<lparr>xd_kind = ''sql'', xd_source_filename = filename, xd_sections = sql_sections statements\<rparr>)"

subsection \<open>Spreadsheets\<close>

definition SAMPLE_ROW_LIMIT :: nat where
  "SAMPLE_ROW_LIMIT = 5"

text \<open>A worksheet: its title and its rows of cells, each a value with its text, or empty.\<close>

record worksheet =
  ws_title :: string
  ws_rows :: "(json \<times> string) option list list"

definition cell_str :: "(json \<times> string) option \<Rightarrow> string" where
  "cell_str c = (case c of None \<Rightarrow> [] | Some (v, t) \<Rightarrow> t)"

definition cell_json :: "(json \<times> string) option \<Rightarrow> json" where
  "cell_json c = (case c of None \<Rightarrow> JNull | Some (v, t) \<Rightarrow> v)"

definition sheet_section :: "worksheet \<Rightarrow> section_text" where
  "sheet_section ws =
     (let headers = map cell_str (case ws_rows ws of [] \<Rightarrow> [] | r # _ \<Rightarrow> r);
          sample = take SAMPLE_ROW_LIMIT (drop 1 (ws_rows ws))
      in \<lparr>sx_heading = ws_title ws,
          sx_text = join_str newline (join_str '', '' headers # map (\<lambda>r. join_str '', '' (map cell_str r)) sample),
          sx_structured = [(''headers'', JList (map JStr headers)),
                           (''sample_rows'', JList (map (\<lambda>r. JList (map cell_json r)) sample))]\<rparr>)"

definition extract_xlsx :: "string + worksheet list \<Rightarrow> string \<Rightarrow> exn + extracted_document" where
  "extract_xlsx d filename =
     (case d of
        Inl e \<Rightarrow> Inl (ExtractionFailure (''openpyxl failed on '' @ filename @ '': '' @ e))
      | Inr sheets \<Rightarrow>
          Inr \<lparr>xd_kind = ''xlsx'', xd_source_filename = filename, xd_sections = map sheet_section sheets\<rparr>)"

subsection \<open>Choosing the extractor\<close>

text \<open>What the libraries read from a path.\<close>

record file_readers =
  fr_sql :: "string \<Rightarrow> exn + (string + sql_statement option list)"
  fr_pdf :: "string \<Rightarrow> string + (string + string option) list"
  fr_docx :: "string \<Rightarrow> string + paragraph_text list"
  fr_pptx :: "string \<Rightarrow> string + shape_view list list"
  fr_xlsx :: "string \<Rightarrow> string + worksheet list"

definition lstrip_dots :: "string \<Rightarrow> string" where
  "lstrip_dots s = dropWhile (\<lambda>c. c = CHR ''.'') s"

definition get_extractor :: "file_readers \<Rightarrow> string \<Rightarrow> exn + (string \<Rightarrow> string \<Rightarrow> exn + extracted_document)" where
  "get_extractor R ext =
     (let e = lstrip_dots (py_lower ext) in
      if e = ''sql'' then Inr (\<lambda>path. extract_sql (fr_sql R path))
      else if e = ''pdf'' then Inr (\<lambda>path. extract_pdf (fr_pdf R path))
      else if e = ''docx'' then Inr (\<lambda>path. extract_docx (fr_docx R path))
      else if e = ''pptx'' then Inr (\<lambda>path. extract_pptx (fr_pptx R path))
      else if e = ''xlsx'' then Inr (\<lambda>path. extract_xlsx (fr_xlsx R path))
      else Inl (ExtractionFailure (''Unsupported extension: '' @ e)))"

end
