(* ===== verification/Agent_Tools.thy ===== *)
theory Agent_Tools
  imports Platform Extractors
begin

text \<open>
  \<open>ingestion/working_registry.py\<close>, \<open>working_ops.py\<close> and \<open>tools.py\<close>: the registry in memory that an
  agent edits, one operation per edit, and the dispatch of a tool call to its operation. An
  operation that raises leaves the working registry as it was.
\<close>

subsection \<open>The working registry\<close>

record working_registry =
  wr_registry :: registry

definition wr_empty :: working_registry where
  "wr_empty = \<lparr>wr_registry = empty_registry\<rparr>"

definition from_registry :: "registry \<Rightarrow> working_registry" where
  "from_registry r = \<lparr>wr_registry = r\<rparr>"

definition wr_replace :: "registry \<Rightarrow> (working_registry, exn, unit) act" where
  "wr_replace new = modify (\<lambda>wr. wr\<lparr>wr_registry := new\<rparr>)"

definition wr_snapshot :: "working_registry \<Rightarrow> registry" where
  "wr_snapshot wr = wr_registry wr"

text \<open>Computing the new registry from the present one, then replacing it.\<close>

definition working :: "(registry \<Rightarrow> exn + registry) \<Rightarrow> (working_registry, exn, unit) act" where
  "working f = bind (reads wr_registry) (\<lambda>r. bind (lift_sum (f r)) wr_replace)"

subsection \<open>Its operations\<close>

definition working_put_shared_property_type ::
  "string set \<Rightarrow> shared_property_type_definition \<Rightarrow> (working_registry, exn, unit) act" where
  "working_put_shared_property_type C defn = working (\<lambda>r. put_shared_property_type r defn C)"

definition working_delete_shared_property_type :: "string \<Rightarrow> (working_registry, exn, unit) act" where
  "working_delete_shared_property_type rid = working (\<lambda>r. delete_shared_property_type r rid)"

definition working_put_interface_type ::
  "string set \<Rightarrow> interface_type_definition \<Rightarrow> (working_registry, exn, unit) act" where
  "working_put_interface_type C defn = working (\<lambda>r. put_interface_type r defn C)"

definition working_delete_interface_type :: "string \<Rightarrow> (working_registry, exn, unit) act" where
  "working_delete_interface_type rid = working (\<lambda>r. delete_interface_type r rid)"

definition working_put_object_type ::
  "string set \<Rightarrow> object_type_definition \<Rightarrow> (working_registry, exn, unit) act" where
  "working_put_object_type C defn = working (\<lambda>r. put_object_type r defn C)"

definition working_delete_object_type :: "string \<Rightarrow> (working_registry, exn, unit) act" where
  "working_delete_object_type rid = working (\<lambda>r. delete_object_type r rid)"

definition working_put_link_type ::
  "string set \<Rightarrow> link_type_definition \<Rightarrow> (working_registry, exn, unit) act" where
  "working_put_link_type C defn = working (\<lambda>r. put_link_type r defn C)"

definition working_delete_link_type :: "string \<Rightarrow> (working_registry, exn, unit) act" where
  "working_delete_link_type rid = working (\<lambda>r. delete_link_type r rid)"

definition working_put_action_type ::
  "string set \<Rightarrow> action_type_definition \<Rightarrow> (working_registry, exn, unit) act" where
  "working_put_action_type C defn = working (\<lambda>r. put_action_type r defn C)"

definition working_delete_action_type :: "string \<Rightarrow> (working_registry, exn, unit) act" where
  "working_delete_action_type rid = working (\<lambda>r. delete_action_type r rid)"

definition working_set_asset_mapping ::
  "string set \<Rightarrow> string \<Rightarrow> asset_mapping \<Rightarrow> (working_registry, exn, unit) act" where
  "working_set_asset_mapping C target_rid am = working (\<lambda>r. set_asset_mapping r target_rid am C)"

definition working_import ::
  "string set \<Rightarrow> registry \<Rightarrow> import_mode \<Rightarrow> (working_registry, exn, unit) act" where
  "working_import C incoming mode = working (\<lambda>r. import_into_registry r incoming mode C)"

subsection \<open>Tool specifications\<close>

definition agent_tool :: "string \<Rightarrow> string \<Rightarrow> json \<Rightarrow> json" where
  "agent_tool name description schema =
     JObj [(''type'', JStr ''function''),
           (''function'', JObj [(''name'', JStr name), (''description'', JStr description),
                                (''parameters'', schema)])]"

definition props_schema :: "(string \<times> json) list \<Rightarrow> json" where
  "props_schema ps =
     JObj [(''type'', JStr ''object''), (''properties'', JObj ps),
           (''required'', JList (map (\<lambda>p. JStr (fst p)) ps))]"

definition json_type :: "string \<Rightarrow> json" where
  "json_type t = JObj [(''type'', JStr t)]"

definition AGENT_TOOLS :: "json list" where
  "AGENT_TOOLS =
     (let put = (\<lambda>name descr. agent_tool name descr (props_schema [(''definition'', json_type ''object'')]));
          del = (\<lambda>name descr. agent_tool name descr (props_schema [(''rid'', json_type ''string'')])) in
      [put ''working_put_shared_property_type'' ''Upsert a SharedPropertyType.'',
       put ''working_put_interface_type'' ''Upsert an InterfaceType.'',
       put ''working_put_object_type'' ''Upsert an ObjectType (with embedded property_types).'',
       put ''working_put_link_type'' ''Upsert a LinkType.'',
       put ''working_put_action_type'' ''Upsert an ActionType.'',
       del ''working_delete_shared_property_type'' ''Delete a SharedPropertyType (refuses if referenced).'',
       del ''working_delete_interface_type'' ''Delete an InterfaceType (refuses if referenced).'',
       del ''working_delete_object_type'' ''Delete an ObjectType (refuses if referenced).'',
       del ''working_delete_link_type'' ''Delete a LinkType (refuses if referenced).'',
       del ''working_delete_action_type'' ''Delete an ActionType (refuses if referenced).'',
       agent_tool ''working_set_asset_mapping'' ''Bind/unbind a connection on an Object or Link.''
         (props_schema [(''rid'', json_type ''string''), (''asset_mapping'', json_type ''object'')]),
       agent_tool ''working_import'' ''Replace or merge the working registry with a full registry payload.''
         (props_schema [(''registry'', json_type ''object''),
            (''mode'', JObj [(''type'', JStr ''string''), (''enum'', JList [JStr ''replace'', JStr ''merge''])])]),
       agent_tool ''working_validate'' ''Run the validator on the working registry without writing.''
         (JObj [(''type'', JStr ''object''), (''properties'', JObj []), (''additionalProperties'', JBool False)])])"

subsection \<open>Dispatch\<close>

definition item :: "string \<Rightarrow> (string, json) dict \<Rightarrow> exn + json" where
  "item k a = (case dict_get a k of None \<Rightarrow> Inl (KeyError k) | Some v \<Rightarrow> Inr v)"

definition item_str :: "string \<Rightarrow> (string, json) dict \<Rightarrow> exn + string" where
  "item_str k a = bind_sum (item k a) (\<lambda>v. case v of JStr s \<Rightarrow> Inr s | _ \<Rightarrow> Inl ill_typed)"

definition ok_result :: json where
  "ok_result = JObj [(''ok'', JBool True)]"

definition brief_finding :: "finding \<Rightarrow> json" where
  "brief_finding f =
     JObj [(''severity'', JStr (case fd_severity f of ERROR \<Rightarrow> ''ERROR'' | WARNING \<Rightarrow> ''WARNING'')),
           (''code'', JStr (fd_code f)), (''path'', JStr (fd_path f)), (''message'', JStr (fd_message f))]"

definition call_put ::
  "(json \<Rightarrow> exn + 'd) \<Rightarrow> ('d \<Rightarrow> (working_registry, exn, unit) act) \<Rightarrow> (string, json) dict
     \<Rightarrow> (working_registry, exn, json) act" where
  "call_put parse op a =
     bind (lift_sum (bind_sum (item ''definition'' a) parse)) (\<lambda>d. bind (op d) (\<lambda>_. ret ok_result))"

definition call_delete ::
  "(string \<Rightarrow> (working_registry, exn, unit) act) \<Rightarrow> (string, json) dict \<Rightarrow> (working_registry, exn, json) act" where
  "call_delete op a = bind (lift_sum (item_str ''rid'' a)) (\<lambda>rid. bind (op rid) (\<lambda>_. ret ok_result))"

definition dispatch_agent_call ::
  "'n platform \<Rightarrow> string set \<Rightarrow> string \<Rightarrow> (string, json) dict \<Rightarrow> (working_registry, exn, json) act" where
  "dispatch_agent_call P C name a =
     (if name = ''working_put_shared_property_type''
      then call_put (pf_parse_shared P) (working_put_shared_property_type C) a
      else if name = ''working_put_interface_type''
      then call_put (pf_parse_interface P) (working_put_interface_type C) a
      else if name = ''working_put_object_type''
      then call_put (pf_parse_object P) (working_put_object_type C) a
      else if name = ''working_put_link_type''
      then call_put (pf_parse_link P) (working_put_link_type C) a
      else if name = ''working_put_action_type''
      then call_put (pf_parse_action P) (working_put_action_type C) a
      else if name = ''working_delete_shared_property_type''
      then call_delete working_delete_shared_property_type a
      else if name = ''working_delete_interface_type'' then call_delete working_delete_interface_type a
      else if name = ''working_delete_object_type'' then call_delete working_delete_object_type a
      else if name = ''working_delete_link_type'' then call_delete working_delete_link_type a
      else if name = ''working_delete_action_type'' then call_delete working_delete_action_type a
      else if name = ''working_set_asset_mapping''
      then bind (lift_sum (item_str ''rid'' a)) (\<lambda>rid.
           bind (lift_sum (bind_sum (item ''asset_mapping'' a) (pf_parse_asset P))) (\<lambda>am.
           bind (working_set_asset_mapping C rid am) (\<lambda>_. ret ok_result)))
      else if name = ''working_import''
      then bind (lift_sum (bind_sum (item ''registry'' a) (pf_parse_registry P))) (\<lambda>incoming.
           bind (lift_sum (bind_sum (item_str ''mode'' a) parse_mode)) (\<lambda>mode.
           bind (working_import C incoming mode) (\<lambda>_. ret ok_result)))
      else if name = ''working_validate''
      then reads (\<lambda>wr. JObj [(''findings'', JList (map brief_finding (validate C (wr_snapshot wr))))])
      else raise (AgentToolError (''Unknown tool '' @ py_repr name)))"

subsection \<open>Facts\<close>

text \<open>Each call performs at most one edit, and exactly when it succeeds.\<close>

lemma working_run: "working f wr = (case f (wr_registry wr) of Inl e \<Rightarrow> (Inl e, wr)
    | Inr r \<Rightarrow> (Inr (), wr\<lparr>wr_registry := r\<rparr>))"
  by (simp add: working_def wr_replace_def act_simps split: sum.splits)

lemmas working_ops = working_put_shared_property_type_def working_delete_shared_property_type_def
  working_put_interface_type_def working_delete_interface_type_def working_put_object_type_def
  working_delete_object_type_def working_put_link_type_def working_delete_link_type_def
  working_put_action_type_def working_delete_action_type_def working_set_asset_mapping_def
  working_import_def

text \<open>An action on the working registry that is one allowed edit, or changes nothing.\<close>

definition one_edit :: "string set \<Rightarrow> (working_registry, exn, 'a) act \<Rightarrow> bool" where
  "one_edit C m \<longleftrightarrow> (\<forall>wr r wr'. m wr = (r, wr') \<longrightarrow> wr' = wr
     \<or> (\<exists>e x. edit_ok e \<and> r = Inr x \<and> apply_edit C e (wr_registry wr) = Inr (wr_registry wr')))"

lemma one_edit_working:
  assumes "edit_ok e" "\<And>r. f r = apply_edit C e r"
  shows "one_edit C (bind (working f) (\<lambda>_. ret x))"
  unfolding one_edit_def
proof (intro allI impI)
  fix wr r wr' assume run: "bind (working f) (\<lambda>_. ret x) wr = (r, wr')"
  show "wr' = wr \<or> (\<exists>e x. edit_ok e \<and> r = Inr x \<and> apply_edit C e (wr_registry wr) = Inr (wr_registry wr'))"
  proof (cases "f (wr_registry wr)")
    case (Inl e)
    with run show ?thesis by (simp add: act_simps working_run)
  next
    case (Inr reg)
    with run assms show ?thesis by (auto simp: act_simps working_run)
  qed
qed

lemma one_edit_lift:
  assumes "\<And>x. r = Inr x \<Longrightarrow> one_edit C (f x)"
  shows "one_edit C (bind (lift_sum r) f)"
  using assms unfolding one_edit_def by (cases r) (simp_all add: act_simps)

lemma one_edit_still: "one_edit C (raise e)" "one_edit C (reads g)"
  by (auto simp: one_edit_def act_simps)

lemma one_edit_put:
  assumes "\<And>d. op d = working (\<lambda>r. apply_edit C (mk d) r)" "\<And>j d. parse j = Inr d \<Longrightarrow> edit_ok (mk d)"
  shows "one_edit C (call_put parse op a)"
  unfolding call_put_def assms(1) using assms(2)
  by (intro one_edit_lift one_edit_working) (auto simp: bind_sum_Inr)

lemma one_edit_delete:
  assumes "\<And>rid. op rid = working (\<lambda>r. apply_edit C (mk rid) r)" "\<And>rid. edit_ok (mk rid)"
  shows "one_edit C (call_delete op a)"
  unfolding call_delete_def assms(1) using assms(2)
  by (intro one_edit_lift one_edit_working) auto

lemma one_edit_deletes:
  "one_edit C (call_delete working_delete_shared_property_type a)"
  "one_edit C (call_delete working_delete_interface_type a)"
  "one_edit C (call_delete working_delete_object_type a)"
  "one_edit C (call_delete working_delete_link_type a)"
  "one_edit C (call_delete working_delete_action_type a)"
  by (rule one_edit_delete [of _ _ Delete_shared] one_edit_delete [of _ _ Delete_interface]
        one_edit_delete [of _ _ Delete_object] one_edit_delete [of _ _ Delete_link]
        one_edit_delete [of _ _ Delete_action]; simp add: working_ops)+

lemma one_edit_puts:
  assumes "parsers_ok P"
  shows "one_edit C (call_put (pf_parse_shared P) (working_put_shared_property_type C) a)"
    "one_edit C (call_put (pf_parse_interface P) (working_put_interface_type C) a)"
    "one_edit C (call_put (pf_parse_object P) (working_put_object_type C) a)"
    "one_edit C (call_put (pf_parse_link P) (working_put_link_type C) a)"
    "one_edit C (call_put (pf_parse_action P) (working_put_action_type C) a)"
  by (rule one_edit_put [of _ _ Put_shared] one_edit_put [of _ _ Put_interface]
        one_edit_put [of _ _ Put_object] one_edit_put [of _ _ Put_link]
        one_edit_put [of _ _ Put_action];
      use assms in \<open>simp add: working_ops parsers_ok_def\<close>)+

lemma dispatch_one_edit:
  assumes "parsers_ok P"
  shows "one_edit C (dispatch_agent_call P C name a)"
proof -
  have asset: "one_edit C (bind (working_set_asset_mapping C rid am) (\<lambda>_. ret ok_result))" for rid am
    unfolding working_ops by (rule one_edit_working [of "Bind_asset rid am"]) simp_all
  have imp: "one_edit C (bind (working_import C incoming mode) (\<lambda>_. ret ok_result))"
    if "keys_ok incoming" for incoming mode
    unfolding working_ops using that by (intro one_edit_working [of "Import mode incoming"]) simp_all
  have keys: "keys_ok incoming" if "bind_sum (item ''registry'' a) (pf_parse_registry P) = Inr incoming" for incoming
    using that assms by (auto simp: bind_sum_Inr parsers_ok_def)
  show ?thesis
    unfolding dispatch_agent_call_def
    by (simp add: one_edit_puts [OF assms] one_edit_deletes one_edit_still)
      (auto intro!: one_edit_lift asset imp keys)
qed

end
