(* ===== verification/Agent.thy ===== *)
theory Agent
  imports Agent_Tools
begin

text \<open>
  \<open>ingestion/llm_client.py\<close> and \<open>agent.py\<close>: the loop in which a language model edits the working
  registry through tool calls. The model is a parameter: an action that answers a message history,
  on a state of its own. When the run is cancelled is a parameter too, a predicate on the history at
  which the code looks at its token: every look is at another history, so any moment can be chosen.
\<close>

subsection \<open>The client\<close>

record llm_tool_call =
  tc_id :: string
  tc_name :: string
  tc_arguments :: json
  tc_reason :: "string option"

record llm_response =
  rs_content :: "string option"
  rs_tool_calls :: "llm_tool_call list"

type_synonym 'l llm = "json list \<Rightarrow> json list \<Rightarrow> ('l, exn, llm_response) act"

record stub_llm =
  sl_responses :: "llm_response list"
  sl_calls :: "(json list \<times> json list) list"

definition stub_acompletion :: "stub_llm llm" where
  "stub_acompletion messages tools = (\<lambda>st.
     let st1 = st\<lparr>sl_calls := sl_calls st @ [(messages, tools)]\<rparr> in
     case sl_responses st of
       [] \<Rightarrow> (Inl (OtherException ''StubExhaustedError'' ''StubLiteLLM exhausted''), st1)
     | r # rs \<Rightarrow> (Inr r, st1\<lparr>sl_responses := rs\<rparr>))"

text \<open>A provider's answer: its text and its raw tool calls, with arguments still in JSON text.\<close>

record raw_tool_call =
  rw_id :: string
  rw_name :: string
  rw_arguments :: "string option"

definition parse_arguments :: "(string \<Rightarrow> json option) \<Rightarrow> string option \<Rightarrow> json" where
  "parse_arguments loads a =
     (case loads (case a of None \<Rightarrow> ''{}'' | Some t \<Rightarrow> if t = [] then ''{}'' else t) of
        None \<Rightarrow> JObj [] | Some v \<Rightarrow> v)"

definition litellm_response ::
  "(string \<Rightarrow> json option) \<Rightarrow> string option \<Rightarrow> raw_tool_call list option \<Rightarrow> llm_response" where
  "litellm_response loads content calls =
     \<lparr>rs_content = content,
      rs_tool_calls = map (\<lambda>r. \<lparr>tc_id = rw_id r, tc_name = rw_name r,
          tc_arguments = parse_arguments loads (rw_arguments r), tc_reason = None\<rparr>)
        (case calls of None \<Rightarrow> [] | Some cs \<Rightarrow> cs)\<rparr>"

subsection \<open>JSON text and the text of an exception\<close>

definition esc_char :: "char \<Rightarrow> string" where
  "esc_char c =
     (let n = code_point c; b = char_of (92::nat) in
      if n = 34 \<or> n = 92 then [b, c]
      else if n = 8 then [b, CHR ''b''] else if n = 12 then [b, CHR ''f'']
      else if n = 10 then [b, CHR ''n''] else if n = 13 then [b, CHR ''r'']
      else if n = 9 then [b, CHR ''t'']
      else if n < 32 \<or> 126 < n
      then [b, CHR ''u'', CHR ''0'', CHR ''0'', hex_digit (n div 16), hex_digit (n mod 16)]
      else [c])"

definition dumps_str :: "string \<Rightarrow> string" where
  "dumps_str s = [char_of (34::nat)] @ concat (map esc_char s) @ [char_of (34::nat)]"

fun json_dumps :: "(rat \<Rightarrow> string) \<Rightarrow> json \<Rightarrow> string" where
  "json_dumps rf JNull = ''null''"
| "json_dumps rf (JBool b) = (if b then ''true'' else ''false'')"
| "json_dumps rf (JInt i) = int_str i"
| "json_dumps rf (JFloat q) = rf q"
| "json_dumps rf (JStr s) = dumps_str s"
| "json_dumps rf (JList xs) = ''['' @ join_str '', '' (map (json_dumps rf) xs) @ '']''"
| "json_dumps rf (JObj d) =
     ''{'' @ join_str '', '' (map (\<lambda>p. dumps_str (fst p) @ '': '' @ json_dumps rf (snd p)) d) @ ''}''"

fun exn_name :: "exn \<Rightarrow> string" where
  "exn_name (ValidationFailedError fs) = ''ValidationFailedError''"
| "exn_name (ReferencedError rid rs) = ''ReferencedError''"
| "exn_name (StaleVersionError e x c) = ''StaleVersionError''"
| "exn_name UndoUnavailableError = ''UndoUnavailableError''"
| "exn_name (KeyError k) = ''KeyError''"
| "exn_name (ValueError m) = ''ValueError''"
| "exn_name (TypeError m) = ''TypeError''"
| "exn_name NoResultFound = ''NoResultFound''"
| "exn_name IntegrityError = ''IntegrityError''"
| "exn_name (SqlRejectedError r d) = ''SqlRejectedError''"
| "exn_name (ConnectionProbeError e) = ''ConnectionProbeError''"
| "exn_name (ConnectionNotFound m) = ''ConnectionNotFound''"
| "exn_name (ConnectionAlreadyExists m) = ''ConnectionAlreadyExists''"
| "exn_name (BoundAssetNotFoundError m) = ''BoundAssetNotFoundError''"
| "exn_name (AssetUnboundError m) = ''AssetUnboundError''"
| "exn_name (AgentToolError m) = ''AgentToolError''"
| "exn_name (ExtractionFailure m) = ''ExtractionFailure''"
| "exn_name (StepCapExceeded n) = ''StepCapExceeded''"
| "exn_name CancelledError = ''CancelledError''"
| "exn_name (QueryBuildError m) = ''QueryBuildError''"
| "exn_name (UnsupportedDialectError m) = ''UnsupportedDialectError''"
| "exn_name (SessionNotFoundError m) = ''SessionNotFoundError''"
| "exn_name (TurnInFlightError m) = ''TurnInFlightError''"
| "exn_name (StaleStagingError m) = ''StaleStagingError''"
| "exn_name (TooManySessionsError m) = ''TooManySessionsError''"
| "exn_name (HTTPException st m) = ''HTTPException''"
| "exn_name (OtherException n m) = n"

fun exn_str :: "exn \<Rightarrow> string" where
  "exn_str (ValidationFailedError fs) = ''Validation failed with '' @ nat_str (length fs) @ '' finding(s)''"
| "exn_str (ReferencedError rid rs) = rid @ '' is still referenced by '' @ nat_str (length rs) @ '' location(s)''"
| "exn_str (StaleVersionError e x c) =
     ''Stale version on '' @ env_value e @ '': expected '' @ int_str x @ '', current '' @ int_str c"
| "exn_str UndoUnavailableError = ''previous_production slot is empty; nothing to undo''"
| "exn_str (KeyError k) = py_repr k"
| "exn_str (ValueError m) = m"
| "exn_str (TypeError m) = m"
| "exn_str NoResultFound = ''No row was found when one was required''"
| "exn_str IntegrityError = []"
| "exn_str (SqlRejectedError r d) = ''SQL rejected: '' @ r"
| "exn_str (ConnectionProbeError e) = ''Connection probe failed: '' @ e"
| "exn_str (ConnectionNotFound m) = m"
| "exn_str (ConnectionAlreadyExists m) = m"
| "exn_str (BoundAssetNotFoundError m) = m"
| "exn_str (AssetUnboundError m) = m"
| "exn_str (AgentToolError m) = m"
| "exn_str (ExtractionFailure m) = m"
| "exn_str (StepCapExceeded n) = ''agent exceeded max_steps='' @ int_str n"
| "exn_str CancelledError = []"
| "exn_str (QueryBuildError m) = m"
| "exn_str (UnsupportedDialectError m) = m"
| "exn_str (SessionNotFoundError m) = m"
| "exn_str (TurnInFlightError m) = m"
| "exn_str (StaleStagingError m) = m"
| "exn_str (TooManySessionsError m) = m"
| "exn_str (HTTPException st m) = m"
| "exn_str (OtherException n m) = m"

subsection \<open>Decisions\<close>

record agent_decision =
  dn_tool :: string
  dn_args_summary :: "(string, json) dict"
  dn_outcome :: string
  dn_reason :: string
  dn_error :: string

record agent_run_result =
  ar_final_message :: string
  ar_steps :: int
  ar_decisions :: "agent_decision list"

definition kept :: "string list \<Rightarrow> (string, json) dict \<Rightarrow> json" where
  "kept ks d = JObj (List.map_filter (\<lambda>k. map_option (\<lambda>v. (k, v)) (dict_get d k)) ks)"

text \<open>\<open>len\<close> of a value, which raises on a number, a boolean or null.\<close>

fun json_len :: "json \<Rightarrow> exn + json" where
  "json_len (JStr s) = Inr (JInt (int (length s)))"
| "json_len (JList xs) = Inr (JInt (int (length xs)))"
| "json_len (JObj d) = Inr (JInt (int (length d)))"
| "json_len v = Inl (TypeError ''object has no len()'')"

fun counts_of :: "string list \<Rightarrow> (string, json) dict \<Rightarrow> exn + (string, json) dict" where
  "counts_of [] d = Inr []"
| "counts_of (k # ks) d =
     bind_sum (case dict_get d k of None \<Rightarrow> Inr (JInt 0) | Some v \<Rightarrow> json_len v) (\<lambda>n.
     bind_sum (counts_of ks d) (\<lambda>rest. Inr ((k, n) # rest)))"

definition entity_kinds :: "string list" where
  "entity_kinds = [''shared_property_types'', ''interface_types'', ''object_types'', ''link_types'', ''action_types'']"

definition summarize_agent_arg :: "string \<Rightarrow> json \<Rightarrow> exn + json" where
  "summarize_agent_arg k v =
     (case v of
        JObj d \<Rightarrow>
          (if k = ''definition'' then Inr (kept [''rid'', ''api_name'', ''lifecycle_status''] d)
           else if k = ''registry''
           then bind_sum (counts_of entity_kinds d) (\<lambda>ns. Inr (JObj [(''entity_counts'', JObj ns)]))
           else if k = ''asset_mapping'' then Inr (kept [''read_connection_id'', ''read_asset_path''] d)
           else Inr v)
      | _ \<Rightarrow> Inr v)"

fun summarize_agent_args :: "(string, json) dict \<Rightarrow> exn + (string, json) dict" where
  "summarize_agent_args [] = Inr []"
| "summarize_agent_args ((k, v) # d) =
     bind_sum (summarize_agent_arg k v) (\<lambda>x. bind_sum (summarize_agent_args d) (\<lambda>rest. Inr ((k, x) # rest)))"

subsection \<open>The loop\<close>

definition system_message :: "string \<Rightarrow> json" where
  "system_message prompt = JObj [(''role'', JStr ''system''), (''content'', JStr prompt)]"

definition user_message :: "string \<Rightarrow> json" where
  "user_message prompt = JObj [(''role'', JStr ''user''), (''content'', JStr prompt)]"

definition serialized_call :: "(rat \<Rightarrow> string) \<Rightarrow> llm_tool_call \<Rightarrow> json" where
  "serialized_call rf tc =
     JObj [(''id'', JStr (tc_id tc)), (''type'', JStr ''function''),
           (''function'', JObj [(''name'', JStr (tc_name tc)),
                                (''arguments'', JStr (json_dumps rf (tc_arguments tc)))])]"

definition assistant_message :: "(rat \<Rightarrow> string) \<Rightarrow> llm_response \<Rightarrow> json" where
  "assistant_message rf resp =
     JObj [(''role'', JStr ''assistant''),
           (''content'', (case rs_content resp of None \<Rightarrow> JNull | Some c \<Rightarrow> JStr c)),
           (''tool_calls'', if rs_tool_calls resp = [] then JNull
                            else JList (map (serialized_call rf) (rs_tool_calls resp)))]"

definition tool_message :: "string \<Rightarrow> string \<Rightarrow> json" where
  "tool_message call_id content =
     JObj [(''role'', JStr ''tool''), (''tool_call_id'', JStr call_id), (''content'', JStr content)]"

text \<open>
  What one call leaves in the history and in the report. The summary of the arguments is computed in
  the handler of every outcome, so an exception it raises ends the run. So do arguments that are no
  JSON object: whatever the dispatch makes of them, their summary has no \<open>items\<close>.
\<close>

definition call_outcome :: "(rat \<Rightarrow> string) \<Rightarrow> exn + json \<Rightarrow> string \<times> string \<times> string" where
  "call_outcome rf r =
     (case r of
        Inr res \<Rightarrow> (''ok'', [], json_dumps rf res)
      | Inl (AgentToolError m) \<Rightarrow>
          (''unknown_tool'', m,
           json_dumps rf (JObj [(''error'', JStr ''unknown_tool''), (''message'', JStr m)]))
      | Inl e \<Rightarrow>
          (''error'', exn_str e,
           json_dumps rf (JObj [(''error'', JStr (exn_name e)), (''message'', JStr (exn_str e))])))"

definition run_call ::
  "'n platform \<Rightarrow> (rat \<Rightarrow> string) \<Rightarrow> string set \<Rightarrow> llm_tool_call
     \<Rightarrow> (working_registry, exn, json \<times> agent_decision) act" where
  "run_call P rf C tc = (\<lambda>wr.
     case tc_arguments tc of
       JObj a \<Rightarrow>
         (case dispatch_agent_call P C (tc_name tc) a wr of (r, wr') \<Rightarrow>
            (case summarize_agent_args a of
               Inl e \<Rightarrow> (Inl e, wr')
             | Inr summary \<Rightarrow>
                 (case call_outcome rf r of (outcome, error, content) \<Rightarrow>
                    (Inr (tool_message (tc_id tc) content,
                          \<lparr>dn_tool = tc_name tc, dn_args_summary = summary, dn_outcome = outcome,
                           dn_reason = (case tc_reason tc of None \<Rightarrow> [] | Some t \<Rightarrow> t), dn_error = error\<rparr>), wr'))))
     | _ \<Rightarrow> (Inl (OtherException ''AttributeError'' ''object has no attribute items''), wr))"

fun run_calls ::
  "'n platform \<Rightarrow> (rat \<Rightarrow> string) \<Rightarrow> (json list \<Rightarrow> bool) \<Rightarrow> string set \<Rightarrow> llm_tool_call list
     \<Rightarrow> json list \<Rightarrow> agent_decision list
     \<Rightarrow> (working_registry, exn, json list \<times> agent_decision list) act" where
  "run_calls P rf cancelled C [] ms ds = ret (ms, ds)"
| "run_calls P rf cancelled C (tc # tcs) ms ds =
     (if cancelled ms then raise CancelledError
      else bind (run_call P rf C tc) (\<lambda>(m, d). run_calls P rf cancelled C tcs (ms @ [m]) (ds @ [d])))"

text \<open>Actions of the model and of the working registry on the pair of both states.\<close>

definition on_llm :: "('l, exn, 'a) act \<Rightarrow> (working_registry \<times> 'l, exn, 'a) act" where
  "on_llm m = (\<lambda>(wr, l). case m l of (r, l') \<Rightarrow> (r, (wr, l')))"

definition on_wr :: "(working_registry, exn, 'a) act \<Rightarrow> (working_registry \<times> 'l, exn, 'a) act" where
  "on_wr m = (\<lambda>(wr, l). case m wr of (r, wr') \<Rightarrow> (r, (wr', l)))"

fun agent_steps ::
  "'n platform \<Rightarrow> (rat \<Rightarrow> string) \<Rightarrow> 'l llm \<Rightarrow> (json list \<Rightarrow> bool) \<Rightarrow> string set \<Rightarrow> int \<Rightarrow> nat \<Rightarrow> int
     \<Rightarrow> json list \<Rightarrow> agent_decision list \<Rightarrow> (working_registry \<times> 'l, exn, agent_run_result) act" where
  "agent_steps P rf llm cancelled C max_steps 0 step ms ds = raise (StepCapExceeded max_steps)"
| "agent_steps P rf llm cancelled C max_steps (Suc n) step ms ds =
     (if cancelled ms then raise CancelledError
      else bind (on_llm (llm ms AGENT_TOOLS)) (\<lambda>resp.
        if rs_tool_calls resp = []
        then ret \<lparr>ar_final_message = (case rs_content resp of None \<Rightarrow> [] | Some c \<Rightarrow> c),
                  ar_steps = step, ar_decisions = ds\<rparr>
        else bind (on_wr (run_calls P rf cancelled C (rs_tool_calls resp) (ms @ [assistant_message rf resp]) ds))
          (\<lambda>(ms', ds'). agent_steps P rf llm cancelled C max_steps n (step + 1) ms' ds')))"

definition run_agent ::
  "'n platform \<Rightarrow> (rat \<Rightarrow> string) \<Rightarrow> 'l llm \<Rightarrow> (json list \<Rightarrow> bool) \<Rightarrow> string \<Rightarrow> string \<Rightarrow> string set \<Rightarrow> int
     \<Rightarrow> (working_registry \<times> 'l, exn, agent_run_result) act" where
  "run_agent P rf llm cancelled system_prompt user_prompt C max_steps =
     agent_steps P rf llm cancelled C max_steps (nat max_steps) 1
       [system_message system_prompt, user_message user_prompt] []"

subsection \<open>What a run does to the working registry\<close>

text \<open>A run of edits: each performed on the registry the last one left, the failing ones dropped.\<close>

definition edits_to :: "string set \<Rightarrow> working_registry \<Rightarrow> working_registry \<Rightarrow> bool" where
  "edits_to C wr wr' \<longleftrightarrow> (\<exists>es. (\<forall>e \<in> set es. edit_ok e)
     \<and> wr_registry wr' = run_edits C es (wr_registry wr))"

lemma edits_to_refl: "edits_to C wr wr"
  unfolding edits_to_def by (rule exI [where x = "[]"]) (simp add: run_edits_def)

lemma edits_to_trans:
  assumes "edits_to C a b" "edits_to C b c"
  shows "edits_to C a c"
proof -
  obtain es fs where "\<forall>e \<in> set es. edit_ok e" "wr_registry b = run_edits C es (wr_registry a)"
    "\<forall>e \<in> set fs. edit_ok e" "wr_registry c = run_edits C fs (wr_registry b)"
    using assms unfolding edits_to_def by blast
  then show ?thesis
    unfolding edits_to_def by (intro exI [where x = "es @ fs"]) (auto simp: run_edits_def)
qed

lemma one_edit_edits_to:
  assumes "one_edit C m" "m wr = (r, wr')"
  shows "edits_to C wr wr'"
proof -
  from assms have "wr' = wr \<or> (\<exists>e x. edit_ok e \<and> r = Inr x
      \<and> apply_edit C e (wr_registry wr) = Inr (wr_registry wr'))"
    unfolding one_edit_def by blast
  then show ?thesis
  proof
    assume "wr' = wr"
    then show ?thesis using edits_to_refl by simp
  next
    assume "\<exists>e x. edit_ok e \<and> r = Inr x \<and> apply_edit C e (wr_registry wr) = Inr (wr_registry wr')"
    then obtain e where "edit_ok e" "apply_edit C e (wr_registry wr) = Inr (wr_registry wr')" by blast
    then show ?thesis
      unfolding edits_to_def by (intro exI [where x = "[e]"]) (simp add: run_edits_def)
  qed
qed

lemma run_call_edits:
  assumes "parsers_ok P" "run_call P rf C tc wr = (r, wr')"
  shows "edits_to C wr wr'"
proof (cases "\<exists>a. tc_arguments tc = JObj a")
  case True
  then obtain a where a: "tc_arguments tc = JObj a" by blast
  obtain x u where d: "dispatch_agent_call P C (tc_name tc) a wr = (x, u)" by fastforce
  with assms(2) a have "wr' = u"
    by (auto simp: run_call_def split: sum.splits prod.splits)
  with one_edit_edits_to [OF dispatch_one_edit [OF assms(1)] d] show ?thesis by simp
next
  case False
  with assms(2) edits_to_refl show ?thesis
    by (cases "tc_arguments tc") (auto simp: run_call_def)
qed

lemma run_calls_edits:
  assumes "parsers_ok P"
  shows "run_calls P rf cancelled C tcs ms ds wr = (r, wr') \<Longrightarrow> edits_to C wr wr'"
proof (induction tcs arbitrary: ms ds wr)
  case Nil
  then show ?case using edits_to_refl by (simp add: act_simps)
next
  case (Cons tc tcs)
  obtain x u where c: "run_call P rf C tc wr = (x, u)" by fastforce
  note first = run_call_edits [OF assms c]
  show ?case
  proof (cases "cancelled ms \<or> (\<exists>e. x = Inl e)")
    case True
    with Cons.prems c first edits_to_refl show ?thesis by (auto simp: act_simps split: if_splits)
  next
    case False
    then obtain m d where "x = Inr (m, d)" by (cases x) auto
    with Cons.prems c False have "run_calls P rf cancelled C tcs (ms @ [m]) (ds @ [d]) u = (r, wr')"
      by (simp add: act_simps)
    from edits_to_trans [OF first Cons.IH [OF this]] show ?thesis .
  qed
qed

lemma agent_steps_edits:
  assumes "parsers_ok P"
  shows "agent_steps P rf llm cancelled C mx n step ms ds (wr, l) = (r, (wr', l')) \<Longrightarrow> edits_to C wr wr'"
proof (induction n arbitrary: step ms ds wr l)
  case 0
  then show ?case using edits_to_refl by (simp add: act_simps)
next
  case (Suc n)
  obtain x l1 where a: "llm ms AGENT_TOOLS l = (x, l1)" by fastforce
  show ?case
  proof (cases "cancelled ms \<or> (\<exists>e. x = Inl e) \<or> (\<exists>resp. x = Inr resp \<and> rs_tool_calls resp = [])")
    case True
    with Suc.prems a edits_to_refl show ?thesis
      by (auto simp: act_simps on_llm_def split: if_splits)
  next
    case False
    then obtain resp where x: "x = Inr resp" and calls: "rs_tool_calls resp \<noteq> []" by (cases x) auto
    let ?ms = "ms @ [assistant_message rf resp]"
    obtain y wr1 where c: "run_calls P rf cancelled C (rs_tool_calls resp) ?ms ds wr = (y, wr1)" by fastforce
    note first = run_calls_edits [OF assms c]
    show ?thesis
    proof (cases y)
      case (Inl e)
      with Suc.prems a x calls False c first show ?thesis
        by (simp add: act_simps on_llm_def on_wr_def)
    next
      case (Inr p)
      then obtain ms' ds' where "y = Inr (ms', ds')" by (cases p) auto
      with Suc.prems a x calls False c
      have "agent_steps P rf llm cancelled C mx n (step + 1) ms' ds' (wr1, l1) = (r, (wr', l'))"
        by (simp add: act_simps on_llm_def on_wr_def)
      from edits_to_trans [OF first Suc.IH [OF this]] show ?thesis .
    qed
  qed
qed

lemma edits_to_good: "edits_to C wr wr' \<Longrightarrow> good C (wr_registry wr) \<Longrightarrow> good C (wr_registry wr')"
  unfolding edits_to_def using run_edits_good by metis

subsection \<open>What the model is shown\<close>

text \<open>
  A conversation the providers accept: it opens with the system and user messages, and every tool
  call of an assistant message is answered, in order and under its identifier, before the next one.
\<close>

inductive conversation :: "(rat \<Rightarrow> string) \<Rightarrow> json list \<Rightarrow> bool" for rf where
  starts: "conversation rf [system_message sp, user_message up]"
| turn: "conversation rf ms \<Longrightarrow> rs_tool_calls resp \<noteq> [] \<Longrightarrow> length contents = length (rs_tool_calls resp) \<Longrightarrow>
    conversation rf (ms @ assistant_message rf resp # map2 tool_message (map tc_id (rs_tool_calls resp)) contents)"

lemma counts_error: "counts_of ks d = Inl e \<Longrightarrow> \<exists>m. e = TypeError m"
proof (induction ks)
  case (Cons k ks)
  have "json_len v = Inl e \<Longrightarrow> \<exists>m. e = TypeError m" for v by (cases v) auto
  with Cons show ?case by (auto simp: bind_sum_Inl split: option.splits)
qed simp

lemma summary_error: "summarize_agent_args d = Inl e \<Longrightarrow> \<exists>m. e = TypeError m"
  by (induction d rule: summarize_agent_args.induct)
    (auto simp: bind_sum_Inl summarize_agent_arg_def split: json.splits if_splits dest: counts_error)

lemma run_call_Inr: "run_call P rf C tc wr = (Inr (m, d), wr') \<Longrightarrow>
    (\<exists>content. m = tool_message (tc_id tc) content) \<and> dn_tool d = tc_name tc"
  by (auto simp: run_call_def split: json.splits prod.splits sum.splits)

lemma run_call_Inl: "run_call P rf C tc wr = (Inl e, wr') \<Longrightarrow> e \<noteq> StepCapExceeded n"
  by (auto simp: run_call_def split: json.splits prod.splits sum.splits dest: summary_error)

lemma run_calls_answers:
  "run_calls P rf cancelled C tcs ms ds wr = (Inr (ms', ds'), wr') \<Longrightarrow>
     (\<exists>contents. length contents = length tcs \<and> ms' = ms @ map2 tool_message (map tc_id tcs) contents)
     \<and> map dn_tool ds' = map dn_tool ds @ map tc_name tcs"
proof (induction tcs arbitrary: ms ds wr)
  case Nil
  then show ?case by (simp add: act_simps)
next
  case (Cons tc tcs)
  obtain x u where c: "run_call P rf C tc wr = (x, u)" by fastforce
  with Cons.prems obtain m d where x: "x = Inr (m, d)" by (cases x) (auto simp: act_simps split: if_splits)
  with Cons.prems c have rest: "run_calls P rf cancelled C tcs (ms @ [m]) (ds @ [d]) u = (Inr (ms', ds'), wr')"
    by (auto simp: act_simps split: if_splits)
  from run_call_Inr [OF c [unfolded x]] obtain content where
    m: "m = tool_message (tc_id tc) content" "dn_tool d = tc_name tc" by blast
  from Cons.IH [OF rest] obtain contents where
    "length contents = length tcs" "ms' = (ms @ [m]) @ map2 tool_message (map tc_id tcs) contents"
    "map dn_tool ds' = map dn_tool (ds @ [d]) @ map tc_name tcs" by blast
  with m show ?case
    by (intro conjI exI [where x = "content # contents"]) simp_all
qed

lemma run_calls_Inl: "run_calls P rf cancelled C tcs ms ds wr = (Inl e, wr') \<Longrightarrow> e \<noteq> StepCapExceeded n"
proof (induction tcs arbitrary: ms ds wr)
  case Nil
  then show ?case by (simp add: act_simps)
next
  case (Cons tc tcs)
  obtain x u where c: "run_call P rf C tc wr = (x, u)" by fastforce
  show ?case
  proof (cases x)
    case (Inl e')
    with Cons.prems c run_call_Inl [of P rf C tc wr e'] show ?thesis
      by (auto simp: act_simps split: if_splits)
  next
    case (Inr p)
    then obtain m d where "x = Inr (m, d)" by (cases p) auto
    with Cons c show ?thesis by (auto simp: act_simps split: if_splits)
  qed
qed

text \<open>With the scripted client, which records the histories it is given.\<close>

definition asked :: "stub_llm \<Rightarrow> stub_llm \<Rightarrow> json list list \<Rightarrow> bool" where
  "asked st st' hs \<longleftrightarrow> sl_calls st' = sl_calls st @ map (\<lambda>h. (h, AGENT_TOOLS)) hs"

lemma agent_steps_stub:
  assumes "conversation rf ms"
    and "agent_steps P rf stub_acompletion cancelled C mx n step ms ds (wr, st) = (r, (wr', st'))"
  shows "\<exists>hs. asked st st' hs \<and> (\<forall>h \<in> set hs. conversation rf h) \<and> length hs \<le> n
     \<and> (\<forall>res. r = Inr res \<longrightarrow> hs \<noteq> [] \<and> ar_steps res = step + int (length hs) - 1)
     \<and> (\<forall>m. r = Inl (StepCapExceeded m) \<longrightarrow> m = mx \<and> length hs = n)"
  using assms
proof (induction n arbitrary: step ms ds wr st)
  case 0
  then show ?case by (intro exI [where x = "[]"]) (auto simp: act_simps asked_def)
next
  case (Suc n)
  show ?case
  proof (cases "cancelled ms")
    case True
    with Suc.prems show ?thesis by (intro exI [where x = "[]"]) (auto simp: act_simps asked_def)
  next
    case False
    obtain x st1 where a: "stub_acompletion ms AGENT_TOOLS st = (x, st1)" by fastforce
    have st1: "asked st st1 [ms]"
      using a by (auto simp: stub_acompletion_def asked_def Let_def split: list.splits)
    show ?thesis
    proof (cases "\<exists>resp. x = Inr resp \<and> rs_tool_calls resp \<noteq> []")
      case False
      have "r = Inl (OtherException ''StubExhaustedError'' ''StubLiteLLM exhausted'')
          \<or> (\<exists>res. r = Inr res \<and> ar_steps res = step)" "st' = st1"
        using Suc.prems(2) a False \<open>\<not> cancelled ms\<close>
        by (auto simp: act_simps on_llm_def stub_acompletion_def Let_def split: list.splits if_splits)
      with st1 Suc.prems(1) show ?thesis by (intro exI [where x = "[ms]"]) auto
    next
      case True
      then obtain resp where x: "x = Inr resp" and calls: "rs_tool_calls resp \<noteq> []" by blast
      let ?ms = "ms @ [assistant_message rf resp]"
      obtain y wr1 where c: "run_calls P rf cancelled C (rs_tool_calls resp) ?ms ds wr = (y, wr1)" by fastforce
      show ?thesis
      proof (cases y)
        case (Inl e)
        with Suc.prems(2) a x calls \<open>\<not> cancelled ms\<close> c have "r = Inl e" "st' = st1"
          by (simp_all add: act_simps on_llm_def on_wr_def)
        with st1 Suc.prems(1) run_calls_Inl [OF c [unfolded Inl]] show ?thesis
          by (intro exI [where x = "[ms]"]) auto
      next
        case (Inr p)
        then obtain ms' ds' where y: "y = Inr (ms', ds')" by (cases p) auto
        with Suc.prems(2) a x calls \<open>\<not> cancelled ms\<close> c
        have rest: "agent_steps P rf stub_acompletion cancelled C mx n (step + 1) ms' ds' (wr1, st1) = (r, (wr', st'))"
          by (simp add: act_simps on_llm_def on_wr_def)
        from run_calls_answers [OF c [unfolded y]] obtain contents where
          "length contents = length (rs_tool_calls resp)"
          "ms' = ms @ assistant_message rf resp # map2 tool_message (map tc_id (rs_tool_calls resp)) contents" by auto
        with conversation.turn [OF Suc.prems(1) calls] have "conversation rf ms'" by blast
        from Suc.IH [OF this rest] obtain hs where hs: "asked st1 st' hs" "\<forall>h \<in> set hs. conversation rf h"
          "length hs \<le> n" "\<forall>res. r = Inr res \<longrightarrow> hs \<noteq> [] \<and> ar_steps res = step + 1 + int (length hs) - 1"
          "\<forall>m. r = Inl (StepCapExceeded m) \<longrightarrow> m = mx \<and> length hs = n" by blast
        have "asked st st' (ms # hs)" using st1 hs(1) by (simp add: asked_def)
        with hs Suc.prems(1) show ?thesis by (intro exI [where x = "ms # hs"]) auto
      qed
    qed
  qed
qed

subsection \<open>Properties\<close>

text \<open>C8: an agent cannot leave an ill-formed registry. Whatever the model answers and whenever the
  run is cancelled, stopped by the step cap or by an exception, the working registry is the one a
  sequence of allowed edits makes of the registry it started from, the failing ones dropped: from a
  well-formed registry with unique keys it is one again.\<close>
theorem agent_keeps_wellformedness:
  assumes "parsers_ok P" and "good C (wr_registry wr)"
    and "run_agent P rf llm cancelled sp up C max_steps (wr, l) = (r, (wr', l'))"
  shows "(\<exists>es. (\<forall>e \<in> set es. edit_ok e) \<and> wr_registry wr' = run_edits C es (wr_registry wr))
     \<and> keys_ok (wr_registry wr') \<and> wf_ontology C (wr_registry wr')"
proof -
  have "edits_to C wr wr'"
    using agent_steps_edits [OF assms(1) assms(3) [unfolded run_agent_def]] .
  with edits_to_good [OF this assms(2)] show ?thesis
    unfolding edits_to_def good_def by blast
qed

text \<open>A model that puts the sample action type and then says it is done.\<close>

definition put_script :: stub_llm where
  "put_script = \<lparr>sl_responses =
     [\<lparr>rs_content = None, rs_tool_calls = [\<lparr>tc_id = ''c1'', tc_name = ''working_put_action_type'',
          tc_arguments = JObj [(''definition'', JObj [])], tc_reason = None\<rparr>]\<rparr>,
      \<lparr>rs_content = Some ''built'', rs_tool_calls = []\<rparr>], sl_calls = []\<rparr>"

lemma put_script_run:
  "\<exists>res st. run_agent toy_platform (\<lambda>_. []) stub_acompletion (\<lambda>_. False) ''s'' ''u'' {} 5 (wr_empty, put_script)
     = (Inr res, (\<lparr>wr_registry = built_registry\<rparr>, st)) \<and> ar_steps res = 2 \<and> length (sl_calls st) = 2"
proof -
  have put: "put_action_type empty_registry sample_action {} = Inr built_registry"
    using built_registry_put by blast
  show ?thesis
    unfolding run_agent_def
    by (simp add: eval_nat_numeral act_simps on_llm_def on_wr_def stub_acompletion_def put_script_def Let_def run_call_def
        dispatch_agent_call_def call_put_def item_def working_run working_put_action_type_def wr_empty_def
        toy_platform_def put summarize_agent_arg_def kept_def List.map_filter_simps call_outcome_def)
qed

theorem agent_keeps_wellformedness_witness:
  "\<exists>res st wr'. run_agent toy_platform (\<lambda>_. []) stub_acompletion (\<lambda>_. False) ''s'' ''u'' {} 5 (wr_empty, put_script)
     = (Inr res, (wr', st)) \<and> wr_registry wr' = built_registry \<and> wf_ontology {} (wr_registry wr')"
proof -
  obtain res st where run: "run_agent toy_platform (\<lambda>_. []) stub_acompletion (\<lambda>_. False) ''s'' ''u'' {} 5
      (wr_empty, put_script) = (Inr res, (\<lparr>wr_registry = built_registry\<rparr>, st))"
    using put_script_run by blast
  have "good {} (wr_registry wr_empty)" by (simp add: wr_empty_def good_empty)
  from agent_keeps_wellformedness [OF toy_parsers this run] run show ?thesis by simp
qed

text \<open>C39: the loop is bounded and its conversation is one the providers accept. With the scripted
  client, at most \<open>max_steps\<close> completions are asked for, each with the tool list and with a history in
  which every earlier tool call has been answered under its identifier; the reported number of steps
  is the number of completions, and the step-cap error comes exactly at the cap.\<close>
theorem agent_conversation_bounded:
  assumes "run_agent P rf stub_acompletion cancelled sp up C max_steps (wr, st) = (r, (wr', st'))"
  shows "\<exists>hs. sl_calls st' = sl_calls st @ map (\<lambda>h. (h, AGENT_TOOLS)) hs
     \<and> (\<forall>h \<in> set hs. conversation rf h) \<and> int (length hs) \<le> max 0 max_steps
     \<and> (\<forall>res. r = Inr res \<longrightarrow> 1 \<le> ar_steps res \<and> ar_steps res = int (length hs))
     \<and> (\<forall>m. r = Inl (StepCapExceeded m) \<longrightarrow> m = max_steps \<and> int (length hs) = max 0 max_steps)"
proof -
  from agent_steps_stub [OF conversation.starts assms [unfolded run_agent_def]] obtain hs where
    hs: "asked st st' hs" "\<forall>h \<in> set hs. conversation rf h" "length hs \<le> nat max_steps"
      "\<forall>res. r = Inr res \<longrightarrow> hs \<noteq> [] \<and> ar_steps res = 1 + int (length hs) - 1"
      "\<forall>m. r = Inl (StepCapExceeded m) \<longrightarrow> m = max_steps \<and> length hs = nat max_steps" by blast
  have "1 \<le> length hs" if "hs \<noteq> []" using that by (cases hs) simp_all
  with hs show ?thesis
    unfolding asked_def by (intro exI [where x = hs]) auto
qed

theorem agent_conversation_bounded_witness:
  "\<exists>res st hs. run_agent toy_platform (\<lambda>_. []) stub_acompletion (\<lambda>_. False) ''s'' ''u'' {} 5 (wr_empty, put_script)
     = (Inr res, (\<lparr>wr_registry = built_registry\<rparr>, st)) \<and> length hs = 2 \<and> (\<forall>h \<in> set hs. conversation (\<lambda>_. []) h)"
proof -
  obtain res st where run: "run_agent toy_platform (\<lambda>_. []) stub_acompletion (\<lambda>_. False) ''s'' ''u'' {} 5
      (wr_empty, put_script) = (Inr res, (\<lparr>wr_registry = built_registry\<rparr>, st))" and steps: "ar_steps res = 2"
    using put_script_run by blast
  from agent_conversation_bounded [OF run] obtain hs where "\<forall>h \<in> set hs. conversation (\<lambda>_. []) h"
    "ar_steps res = int (length hs)" by blast
  with run steps show ?thesis by (intro exI [where x = res] exI [where x = st] exI [where x = hs]) simp
qed

end
