(* ===== verification/Event_Bus.thy ===== *)
theory Event_Bus
  imports Agent
begin

text \<open>
  \<open>chat/sse.py\<close>: the publish/subscribe bus of a turn's events and the text of an SSE frame, with the
  generator of \<open>chat/http.py\<close> that turns a subscription into a stream. The queues are unbounded, so
  a \<open>put\<close> never suspends and each operation runs without interleaving; a subscriber waits only in
  \<open>queue.get\<close>. A subscription is a number, its queue is found under it; the sentinel is \<open>None\<close>.
\<close>

type_synonym 'p event = "string \<times> 'p"

record 'p turn_state =
  ts_subs :: "nat list"
  ts_buffer :: "'p event list"
  ts_closed :: bool

record 'p event_bus =
  eb_turns :: "(string, 'p turn_state) dict"
  eb_queues :: "(nat, 'p event option list) dict"
  eb_next :: nat

definition new_turn :: "'p turn_state" where
  "new_turn = \<lparr>ts_subs = [], ts_buffer = [], ts_closed = False\<rparr>"

definition new_bus :: "'p event_bus" where
  "new_bus = \<lparr>eb_turns = [], eb_queues = [], eb_next = 0\<rparr>"

definition state_of :: "'p event_bus \<Rightarrow> string \<Rightarrow> 'p turn_state" where
  "state_of b t = (case dict_get (eb_turns b) t of None \<Rightarrow> new_turn | Some st \<Rightarrow> st)"

definition queue_of :: "'p event_bus \<Rightarrow> nat \<Rightarrow> 'p event option list" where
  "queue_of b i = (case dict_get (eb_queues b) i of None \<Rightarrow> [] | Some q \<Rightarrow> q)"

definition set_state :: "string \<Rightarrow> 'p turn_state \<Rightarrow> 'p event_bus \<Rightarrow> 'p event_bus" where
  "set_state t st b = b\<lparr>eb_turns := dict_set t st (eb_turns b)\<rparr>"

definition put_item :: "'p event option \<Rightarrow> nat \<Rightarrow> 'p event_bus \<Rightarrow> 'p event_bus" where
  "put_item x i b = b\<lparr>eb_queues := dict_set i (queue_of b i @ [x]) (eb_queues b)\<rparr>"

subsection \<open>Operations\<close>

text \<open>The part of \<open>subscribe\<close> before its loop: a new subscription that has missed nothing.\<close>

definition subscribe :: "string \<Rightarrow> 'p event_bus \<Rightarrow> nat \<times> 'p event_bus" where
  "subscribe t b =
     (let st = state_of b t; i = eb_next b;
          items = map Some (ts_buffer st) @ (if ts_closed st then [None] else [])
      in (i, set_state t (st\<lparr>ts_subs := ts_subs st @ [i]\<rparr>)
               (b\<lparr>eb_queues := dict_set i items (eb_queues b), eb_next := i + 1\<rparr>)))"

text \<open>The \<open>finally\<close> of \<open>subscribe\<close>.\<close>

definition unsubscribe :: "string \<Rightarrow> nat \<Rightarrow> 'p event_bus \<Rightarrow> 'p event_bus" where
  "unsubscribe t i b =
     (let st = state_of b t in
      if i \<in> set (ts_subs st) then set_state t (st\<lparr>ts_subs := remove1 i (ts_subs st)\<rparr>) b else b)"

text \<open>One round of its loop: it waits for an item, ends at the sentinel, or yields an event.\<close>

datatype 'p pulled = Blocks | Ends | Yields "'p event"

definition pull :: "string \<Rightarrow> nat \<Rightarrow> 'p event_bus \<Rightarrow> 'p pulled \<times> 'p event_bus" where
  "pull t i b =
     (case queue_of b i of
        [] \<Rightarrow> (Blocks, b)
      | x # q \<Rightarrow>
          (let b' = b\<lparr>eb_queues := dict_set i q (eb_queues b)\<rparr> in
           case x of None \<Rightarrow> (Ends, unsubscribe t i b') | Some e \<Rightarrow> (Yields e, b')))"

definition publish :: "string \<Rightarrow> string \<Rightarrow> 'p \<Rightarrow> 'p event_bus \<Rightarrow> 'p event_bus" where
  "publish t event_type payload b =
     (let st = state_of b t in
      if ts_closed st then set_state t st b
      else fold (put_item (Some (event_type, payload))) (ts_subs st)
             (set_state t (st\<lparr>ts_buffer := ts_buffer st @ [(event_type, payload)]\<rparr>) b))"

definition close_turn :: "string \<Rightarrow> 'p event_bus \<Rightarrow> 'p event_bus" where
  "close_turn t b =
     (case dict_get (eb_turns b) t of
        None \<Rightarrow> b
      | Some st \<Rightarrow>
          (if ts_closed st then b
           else fold (put_item None) (ts_subs st) (set_state t (st\<lparr>ts_closed := True\<rparr>) b)))"

text \<open>The clean-up task that \<open>close\<close> schedules, when its delay has passed.\<close>

definition RETAIN_AFTER_CLOSE_S :: int where "RETAIN_AFTER_CLOSE_S = 60"

definition cleanup :: "string \<Rightarrow> 'p event_bus \<Rightarrow> 'p event_bus" where
  "cleanup t b =
     (case dict_get (eb_turns b) t of
        None \<Rightarrow> b
      | Some st \<Rightarrow> if ts_subs st = [] then b\<lparr>eb_turns := dict_pop t (eb_turns b)\<rparr> else b)"

subsection \<open>Frames\<close>

text \<open>\<open>json.dumps\<close> with \<open>ensure_ascii=False\<close>: only quotes, backslashes and controls are escaped.\<close>

definition raw_esc_char :: "char \<Rightarrow> string" where
  "raw_esc_char c = (if 126 < (code_point c :: nat) then [c] else esc_char c)"

definition raw_dumps_str :: "string \<Rightarrow> string" where
  "raw_dumps_str s = [char_of (34::nat)] @ concat (map raw_esc_char s) @ [char_of (34::nat)]"

fun raw_dumps :: "(rat \<Rightarrow> string) \<Rightarrow> json \<Rightarrow> string" where
  "raw_dumps rf JNull = ''null''"
| "raw_dumps rf (JBool b) = (if b then ''true'' else ''false'')"
| "raw_dumps rf (JInt i) = int_str i"
| "raw_dumps rf (JFloat q) = rf q"
| "raw_dumps rf (JStr s) = raw_dumps_str s"
| "raw_dumps rf (JList xs) = ''['' @ join_str '', '' (map (raw_dumps rf) xs) @ '']''"
| "raw_dumps rf (JObj d) =
     ''{'' @ join_str '', '' (map (\<lambda>p. raw_dumps_str (fst p) @ '': '' @ raw_dumps rf (snd p)) d) @ ''}''"

definition line_end :: char where "line_end = char_of (10::nat)"

definition sse_format :: "(rat \<Rightarrow> string) \<Rightarrow> string \<Rightarrow> json \<Rightarrow> string" where
  "sse_format rf event_type payload =
     ''event: '' @ event_type @ [line_end] @ ''data: '' @ raw_dumps rf payload @ [line_end, line_end]"

subsection \<open>The stream\<close>

text \<open>
  The generator of \<open>stream_turn\<close>. Its subscription starts with its first round. \<open>wait_for\<close> cancels
  the pending \<open>__anext__\<close> when the heartbeat time has passed; the cancellation ends the
  subscription's generator, which afterwards only raises StopAsyncIteration.
\<close>

datatype generator = Fresh | Waiting nat | Exhausted

definition anext :: "string \<Rightarrow> generator \<Rightarrow> 'p event_bus \<Rightarrow> 'p pulled \<times> generator \<times> 'p event_bus" where
  "anext t g b =
     (let get = (\<lambda>i b. case pull t i b of
          (Ends, b') \<Rightarrow> (Ends, Exhausted, b') | (r, b') \<Rightarrow> (r, Waiting i, b'))
      in case g of
           Exhausted \<Rightarrow> (Ends, Exhausted, b)
         | Fresh \<Rightarrow> (case subscribe t b of (i, b') \<Rightarrow> get i b')
         | Waiting i \<Rightarrow> get i b)"

definition cancel_anext :: "string \<Rightarrow> generator \<Rightarrow> 'p event_bus \<Rightarrow> generator \<times> 'p event_bus" where
  "cancel_anext t g b = (case g of Waiting i \<Rightarrow> (Exhausted, unsubscribe t i b) | _ \<Rightarrow> (Exhausted, b))"

definition heartbeat_frame :: string where
  "heartbeat_frame = ''event: heartbeat'' @ [line_end] @ ''data: {}'' @ [line_end, line_end]"

text \<open>
  The stream, as what it prints. Before each round others change the bus (\<open>envs\<close>); a round that
  then still finds nothing waits until the heartbeat. The list bounds the rounds looked at; the flag
  says whether the stream has ended.
\<close>

fun stream ::
  "(rat \<Rightarrow> string) \<Rightarrow> string \<Rightarrow> (json event_bus \<Rightarrow> json event_bus) list \<Rightarrow> generator \<Rightarrow> json event_bus
     \<Rightarrow> string list \<times> bool" where
  "stream rf t [] g b = ([], False)"
| "stream rf t (env # envs) g b =
     (case anext t g (env b) of
        (Ends, g', b') \<Rightarrow> ([], True)
      | (Blocks, g', b') \<Rightarrow>
          (case cancel_anext t g' b' of
             (g'', b'') \<Rightarrow> (case stream rf t envs g'' b'' of (out, fin) \<Rightarrow> (heartbeat_frame # out, fin)))
      | (Yields (event_type, payload), g', b') \<Rightarrow>
          (if event_type \<in> {''turn_complete'', ''turn_error''}
           then ([sse_format rf event_type payload], True)
           else (case stream rf t envs g' b' of (out, fin) \<Rightarrow> (sse_format rf event_type payload # out, fin))))"

subsection \<open>What a turn has published\<close>

text \<open>
  The abstract bus: per turn the accepted events and whether it is closed. A subscriber's view of it
  is the reference for the queues of the code.
\<close>

datatype 'p call =
    Publish string "'p event" | Close string | Cleanup string
  | Subscribe string nat | Pull string nat "'p pulled" | Leave string nat

inductive bus_step :: "'p event_bus \<Rightarrow> 'p call \<Rightarrow> 'p event_bus \<Rightarrow> bool" where
  publishing: "bus_step b (Publish t (k, p)) (publish t k p b)"
| closing: "bus_step b (Close t) (close_turn t b)"
| cleaning: "bus_step b (Cleanup t) (cleanup t b)"
| subscribing: "subscribe t b = (i, b') \<Longrightarrow> bus_step b (Subscribe t i) b'"
| pulling: "i \<in> set (ts_subs (state_of b t)) \<Longrightarrow> pull t i b = (r, b') \<Longrightarrow> bus_step b (Pull t i r) b'"
| leaving: "bus_step b (Leave t i) (unsubscribe t i b)"

inductive bus_run :: "'p call list \<Rightarrow> 'p event_bus \<Rightarrow> bool" where
  start: "bus_run [] new_bus"
| more: "bus_run cs b \<Longrightarrow> bus_step b c b' \<Longrightarrow> bus_run (cs @ [c]) b'"

inductive_cases bus_stepE: "bus_step b c b'"

text \<open>The events a subscriber has received.\<close>

fun received1 :: "nat \<Rightarrow> 'p call \<Rightarrow> 'p event list" where
  "received1 i (Pull t j (Yields e)) = (if i = j then [e] else [])"
| "received1 i c = []"

definition received :: "nat \<Rightarrow> 'p call list \<Rightarrow> 'p event list" where
  "received i cs = concat (map (received1 i) cs)"

text \<open>
  The events a turn has accepted since it was last forgotten, and whether it is closed, read off the
  calls alone, with its current subscribers.
\<close>

record 'p turn_view =
  tv_events :: "'p event list"
  tv_closed :: bool
  tv_known :: bool
  tv_subs :: "nat list"

definition blank_view :: "'p turn_view" where
  "blank_view = \<lparr>tv_events = [], tv_closed = False, tv_known = False, tv_subs = []\<rparr>"

fun view_step :: "string \<Rightarrow> 'p call \<Rightarrow> 'p turn_view \<Rightarrow> 'p turn_view" where
  "view_step t (Publish u e) v = (if u \<noteq> t then v
     else if tv_closed v then v else v\<lparr>tv_events := tv_events v @ [e], tv_known := True\<rparr>)"
| "view_step t (Close u) v = (if u \<noteq> t then v else if tv_known v then v\<lparr>tv_closed := True\<rparr> else v)"
| "view_step t (Cleanup u) v = (if u \<noteq> t then v else if tv_subs v = [] then blank_view else v)"
| "view_step t (Subscribe u i) v = (if u \<noteq> t then v else v\<lparr>tv_subs := tv_subs v @ [i], tv_known := True\<rparr>)"
| "view_step t (Pull u i Ends) v = (if u \<noteq> t then v else v\<lparr>tv_subs := remove1 i (tv_subs v)\<rparr>)"
| "view_step t (Leave u i) v = (if u \<noteq> t then v else v\<lparr>tv_subs := remove1 i (tv_subs v)\<rparr>)"
| "view_step t c v = v"

definition view :: "string \<Rightarrow> 'p call list \<Rightarrow> 'p turn_view" where
  "view t cs = fold (view_step t) cs blank_view"

subsection \<open>Facts\<close>

lemma state_of_simps [simp]:
  "state_of (set_state t st b) u = (if u = t then st else state_of b u)"
  "state_of (put_item x i b) u = state_of b u"
  "state_of (b\<lparr>eb_queues := q\<rparr>) u = state_of b u" "state_of (b\<lparr>eb_next := n\<rparr>) u = state_of b u"
  by (simp_all add: state_of_def set_state_def put_item_def get_set)

lemma queue_of_simps [simp]:
  "queue_of (set_state t st b) i = queue_of b i"
  "queue_of (b\<lparr>eb_queues := dict_set j q (eb_queues b), eb_next := n\<rparr>) i = (if i = j then q else queue_of b i)"
  "queue_of (b\<lparr>eb_queues := dict_set j q (eb_queues b)\<rparr>) i = (if i = j then q else queue_of b i)"
  "queue_of (put_item x j b) i = (if i = j then queue_of b i @ [x] else queue_of b i)"
  by (simp_all add: queue_of_def set_state_def put_item_def get_set)

lemma eb_simps [simp]:
  "eb_next (set_state t st b) = eb_next b" "eb_next (put_item x i b) = eb_next b"
  "eb_turns (put_item x i b) = eb_turns b" "eb_turns (set_state t st b) = dict_set t st (eb_turns b)"
  by (simp_all add: set_state_def put_item_def)

lemma fold_put_item [simp]:
  "state_of (fold (put_item x) is b) u = state_of b u" "eb_next (fold (put_item x) is b) = eb_next b"
  "eb_turns (fold (put_item x) is b) = eb_turns b"
  by (induction "is" arbitrary: b) simp_all

lemma queue_fold_put_item: "distinct is \<Longrightarrow>
    queue_of (fold (put_item x) is b) i = (if i \<in> set is then queue_of b i @ [x] else queue_of b i)"
  by (induction "is" arbitrary: b) auto

lemma received_snoc [simp]: "received i (cs @ [c]) = received i cs @ received1 i c"
  by (simp add: received_def)

lemma view_snoc [simp]: "view t (cs @ [c]) = view_step t c (view t cs)"
  by (simp add: view_def)

text \<open>The relation between the calls made and the state they left: the bus implements the view.\<close>

definition shows_view :: "'p turn_view \<Rightarrow> 'p event_bus \<Rightarrow> string \<Rightarrow> bool" where
  "shows_view v b t \<longleftrightarrow>
     (tv_known v \<longleftrightarrow> dict_get (eb_turns b) t \<noteq> None) \<and>
     tv_subs v = ts_subs (state_of b t) \<and> tv_events v = ts_buffer (state_of b t)
     \<and> tv_closed v = ts_closed (state_of b t)"

definition in_step :: "'p call list \<Rightarrow> 'p event_bus \<Rightarrow> string \<Rightarrow> nat \<Rightarrow> bool" where
  "in_step cs b t i \<longleftrightarrow>
     map Some (received i cs) @ queue_of b i
       = map Some (ts_buffer (state_of b t)) @ (if ts_closed (state_of b t) then [None] else [])"

definition bus_ok :: "'p call list \<Rightarrow> 'p event_bus \<Rightarrow> bool" where
  "bus_ok cs b \<longleftrightarrow>
     (\<forall>t. shows_view (view t cs) b t \<and> distinct (ts_subs (state_of b t))
        \<and> (\<forall>i \<in> set (ts_subs (state_of b t)). i < eb_next b \<and> in_step cs b t i
             \<and> (\<forall>u. i \<in> set (ts_subs (state_of b u)) \<longrightarrow> u = t)))
     \<and> (\<forall>i \<ge> eb_next b. received i cs = [])"

lemma bus_ok_start: "bus_ok [] new_bus"
  by (simp add: bus_ok_def shows_view_def view_def blank_view_def new_bus_def state_of_def new_turn_def
      received_def)

lemma bus_okD:
  assumes "bus_ok cs b"
  shows "shows_view (view t cs) b t" "distinct (ts_subs (state_of b t))"
    "i \<in> set (ts_subs (state_of b t)) \<Longrightarrow> i < eb_next b"
    "i \<in> set (ts_subs (state_of b t)) \<Longrightarrow> in_step cs b t i"
    "i \<in> set (ts_subs (state_of b t)) \<Longrightarrow> i \<in> set (ts_subs (state_of b u)) \<Longrightarrow> u = t"
    "eb_next b \<le> i \<Longrightarrow> received i cs = []"
  using assms unfolding bus_ok_def by blast+

lemma publish_ok:
  assumes "bus_ok cs b"
  shows "bus_ok (cs @ [Publish t (k, p)]) (publish t k p b)"
proof -
  note ok = bus_okD [OF assms]
  have v: "shows_view (view t cs) b t" by (rule ok(1))
  show ?thesis
  proof (cases "ts_closed (state_of b t)")
    case True
    then have known: "dict_get (eb_turns b) t \<noteq> None"
      by (auto simp: state_of_def new_turn_def split: option.splits)
    with True v have closed: "tv_closed (view t cs)" "tv_known (view t cs)"
      by (auto simp: shows_view_def)
    with True known show ?thesis
      using assms by (auto simp: bus_ok_def publish_def Let_def shows_view_def in_step_def get_set)
  next
    case False
    with v have "\<not> tv_closed (view t cs)" by (simp add: shows_view_def)
    with False ok show ?thesis
      by (auto simp: bus_ok_def publish_def Let_def shows_view_def in_step_def get_set queue_fold_put_item)
  qed
qed

lemma close_ok:
  assumes "bus_ok cs b"
  shows "bus_ok (cs @ [Close t]) (close_turn t b)"
proof (cases "dict_get (eb_turns b) t")
  case None
  with bus_okD(1) [OF assms, of t] assms show ?thesis
    by (auto simp: bus_ok_def close_turn_def shows_view_def in_step_def)
next
  case (Some st)
  note ok = bus_okD [OF assms]
  have st: "state_of b t = st" by (simp add: state_of_def Some)
  have known: "tv_known (view t cs)" using ok(1) [of t] Some by (simp add: shows_view_def)
  show ?thesis
  proof (cases "ts_closed st")
    case True
    with known ok(1) [of t] st Some assms show ?thesis
      by (auto simp: bus_ok_def close_turn_def shows_view_def in_step_def)
  next
    case False
    with known ok st Some show ?thesis
      by (auto simp: bus_ok_def close_turn_def Let_def shows_view_def in_step_def get_set queue_fold_put_item)
  qed
qed

lemma cleanup_ok:
  assumes "bus_ok cs b"
  shows "bus_ok (cs @ [Cleanup t]) (cleanup t b)"
proof -
  note ok = bus_okD [OF assms]
  have subs: "tv_subs (view t cs) = ts_subs (state_of b t)"
    using ok(1) [of t] by (simp add: shows_view_def)
  show ?thesis
  proof (cases "ts_subs (state_of b t) = []")
    case True
    have state: "state_of (cleanup t b) u = (if u = t then new_turn else state_of b u)" for u
      using True by (auto simp: cleanup_def state_of_def get_pop split: option.splits)
    have "dict_get (eb_turns (cleanup t b)) u = (if u = t then None else dict_get (eb_turns b) u)" for u
      using True by (auto simp: cleanup_def state_of_def get_pop split: option.splits)
    moreover have "queue_of (cleanup t b) i = queue_of b i" "eb_next (cleanup t b) = eb_next b" for i
      by (simp_all add: cleanup_def queue_of_def split: option.splits)
    ultimately show ?thesis
      using ok True subs by (auto simp: bus_ok_def shows_view_def in_step_def state new_turn_def blank_view_def)
  next
    case False
    then have "cleanup t b = b" by (auto simp: cleanup_def state_of_def new_turn_def split: option.splits)
    with False subs assms show ?thesis by (auto simp: bus_ok_def in_step_def shows_view_def)
  qed
qed

lemma subscribe_ok:
  assumes "bus_ok cs b" "subscribe t b = (i, b')"
  shows "bus_ok (cs @ [Subscribe t i]) b'"
proof -
  note ok = bus_okD [OF assms(1)]
  let ?st = "state_of b t"
  have i: "i = eb_next b" and b': "b' = set_state t (?st\<lparr>ts_subs := ts_subs ?st @ [i]\<rparr>)
      (b\<lparr>eb_queues := dict_set i (map Some (ts_buffer ?st) @ (if ts_closed ?st then [None] else [])) (eb_queues b),
         eb_next := i + 1\<rparr>)"
    using assms(2) by (auto simp: subscribe_def Let_def)
  have "i \<notin> set (ts_subs (state_of b u))" for u
    using ok(3) [of i u] i by auto
  moreover have "received i cs = []" using ok(6) i by simp
  ultimately show ?thesis
    unfolding b' using ok i
    by (auto simp: bus_ok_def shows_view_def in_step_def get_set less_Suc_eq)
qed

lemma unsubscribe_state: "state_of (unsubscribe t i b) u =
    (if u = t then (state_of b t)\<lparr>ts_subs := remove1 i (ts_subs (state_of b t))\<rparr> else state_of b u)"
  by (simp add: unsubscribe_def Let_def remove1_idem)

lemma unsubscribe_simps [simp]: "queue_of (unsubscribe t i b) j = queue_of b j"
  "eb_next (unsubscribe t i b) = eb_next b"
  by (simp_all add: unsubscribe_def Let_def)

lemma unsubscribe_known: "dict_get (eb_turns (unsubscribe t i b)) u \<noteq> None \<longleftrightarrow> dict_get (eb_turns b) u \<noteq> None"
  by (auto simp: unsubscribe_def Let_def get_set state_of_def new_turn_def split: option.splits)

lemma leave_ok:
  assumes "bus_ok cs b"
  shows "bus_ok (cs @ [Leave t i]) (unsubscribe t i b)"
  using bus_okD [OF assms] unsubscribe_known [of t i b]
  by (auto simp: bus_ok_def shows_view_def in_step_def unsubscribe_state dest: notin_set_remove1)

text \<open>What a subscriber has still to come: the rest of the turn's events, and then the sentinel.\<close>

definition sentinel :: "bool \<Rightarrow> 'p event option list" where
  "sentinel shut = (if shut then [None] else [])"

lemma append_Some_split:
  assumes "map Some xs @ q = map Some ys @ sentinel c"
  shows "\<exists>rest. ys = xs @ rest \<and> q = map Some rest @ sentinel c"
proof -
  from assms consider us where "map Some xs @ us = map Some ys" "q = us @ sentinel c"
    | us where "map Some xs = map Some ys @ us" "us @ q = sentinel c"
    by (auto simp: append_eq_append_conv2)
  then show ?thesis
  proof cases
    case (1 us)
    then obtain zs where "ys = xs @ zs" "us = map Some zs"
      by (metis append_eq_map_conv inj_map_eq_map inj_Some)
    with 1(2) show ?thesis by blast
  next
    case (2 us)
    then obtain zs where zs: "xs = ys @ zs" "us = map Some zs"
      by (metis map_eq_append_conv inj_map_eq_map inj_Some)
    with 2(2) have "zs = []" by (cases zs) (auto simp: sentinel_def split: if_splits)
    with zs 2(2) show ?thesis by auto
  qed
qed

lemma pending:
  assumes "bus_ok cs b" "i \<in> set (ts_subs (state_of b t))"
  obtains rest where "ts_buffer (state_of b t) = received i cs @ rest"
    "queue_of b i = map Some rest @ sentinel (ts_closed (state_of b t))"
proof -
  have "map Some (received i cs) @ queue_of b i
      = map Some (ts_buffer (state_of b t)) @ sentinel (ts_closed (state_of b t))"
    using bus_okD(4) [OF assms] by (simp add: in_step_def sentinel_def)
  from append_Some_split [OF this] that show thesis by blast
qed

lemma pull_next:
  "queue_of b i = map Some (e # rest) @ sentinel c \<Longrightarrow>
     pull t i b = (Yields e, b\<lparr>eb_queues := dict_set i (map Some rest @ sentinel c) (eb_queues b)\<rparr>)"
  "queue_of b i = sentinel True \<Longrightarrow>
     pull t i b = (Ends, unsubscribe t i (b\<lparr>eb_queues := dict_set i [] (eb_queues b)\<rparr>))"
  "queue_of b i = sentinel False \<Longrightarrow> pull t i b = (Blocks, b)"
  by (simp_all add: pull_def sentinel_def)

lemma pull_ok:
  assumes ok: "bus_ok cs b" and i: "i \<in> set (ts_subs (state_of b t))" and run: "pull t i b = (r, b')"
  shows "bus_ok (cs @ [Pull t i r]) b'"
proof -
  note D = bus_okD [OF ok]
  obtain rest where buf: "ts_buffer (state_of b t) = received i cs @ rest"
    and q: "queue_of b i = map Some rest @ sentinel (ts_closed (state_of b t))"
    by (rule pending [OF ok i])
  have next_i: "i < eb_next b" by (rule D(3) [OF i])
  have mine: "u = t" if "i \<in> set (ts_subs (state_of b u))" for u by (rule D(5) [OF i that])
  show ?thesis
  proof (cases rest)
    case (Cons e es)
    let ?q = "map Some es @ sentinel (ts_closed (state_of b t))"
    from q Cons have "pull t i b = (Yields e, b\<lparr>eb_queues := dict_set i ?q (eb_queues b)\<rparr>)"
      by (intro pull_next(1)) simp
    with run have r: "r = Yields e" and b': "b' = b\<lparr>eb_queues := dict_set i ?q (eb_queues b)\<rparr>" by simp_all
    show ?thesis
      unfolding bus_ok_def r b'
      using D buf Cons next_i mine
      by (auto simp: shows_view_def in_step_def sentinel_def)
  next
    case Nil
    show ?thesis
    proof (cases "ts_closed (state_of b t)")
      case True
      with q Nil have "pull t i b = (Ends, unsubscribe t i (b\<lparr>eb_queues := dict_set i [] (eb_queues b)\<rparr>))"
        by (intro pull_next(2)) simp
      with run have r: "r = Ends" and b': "b' = unsubscribe t i (b\<lparr>eb_queues := dict_set i [] (eb_queues b)\<rparr>)"
        by simp_all
      have gone: "i \<notin> set (ts_subs (state_of b' u))" for u
        using mine [of u] D(2) [of t] by (auto simp: b' unsubscribe_state)
      have sub: "j \<in> set (ts_subs (state_of b u))" if "j \<in> set (ts_subs (state_of b' u))" for j u
        using that by (auto simp: b' unsubscribe_state dest: set_remove1_subset [THEN subsetD] split: if_splits)
      show ?thesis
        unfolding bus_ok_def
      proof (intro allI conjI ballI impI)
        fix u
        show "shows_view (view u (cs @ [Pull t i r])) b' u" "distinct (ts_subs (state_of b' u))"
          using D(1,2) [of u] unsubscribe_known [of t i "b\<lparr>eb_queues := dict_set i [] (eb_queues b)\<rparr>" u]
          by (auto simp: shows_view_def r b' unsubscribe_state)
        fix j assume j: "j \<in> set (ts_subs (state_of b' u))"
        show "j < eb_next b'" using D(3) [OF sub [OF j]] by (simp add: b')
        have "j \<noteq> i" using gone j by auto
        with D(4) [OF sub [OF j]] show "in_step (cs @ [Pull t i r]) b' u j"
          by (auto simp: in_step_def r b' unsubscribe_state)
        fix w assume "j \<in> set (ts_subs (state_of b' w))"
        from D(5) [OF sub [OF j] sub [OF this]] show "w = u" .
      next
        fix j assume "eb_next b' \<le> j"
        with D(6) [of j] show "received j (cs @ [Pull t i r]) = []" by (simp add: r b')
      qed
    next
      case False
      with q Nil have "pull t i b = (Blocks, b)" by (intro pull_next(3)) simp
      with run have r: "r = Blocks" and b': "b' = b" by simp_all
      show ?thesis using ok unfolding bus_ok_def r b' by (simp add: in_step_def)
    qed
  qed
qed

lemma run_ok: "bus_run cs b \<Longrightarrow> bus_ok cs b"
proof (induction rule: bus_run.induct)
  case (more cs b c b')
  from more.hyps(2) more.IH show ?case
    by (elim bus_stepE) (auto intro: publish_ok close_ok cleanup_ok subscribe_ok pull_ok leave_ok)
qed (rule bus_ok_start)

subsection \<open>Properties\<close>

text \<open>C10: every subscriber sees the whole turn. After any sequence of calls on a fresh bus, what a
  subscriber of a turn has received is a prefix of the events the turn has accepted, whenever it
  subscribed, and its next round gives exactly the next of these events; when it has received them
  all it waits while the turn is open and ends once the turn is closed. So no event is lost,
  repeated or reordered.\<close>
theorem subscribers_see_whole_turn:
  assumes "bus_run cs b" "i \<in> set (tv_subs (view t cs))"
  shows "\<exists>rest. tv_events (view t cs) = received i cs @ rest
    \<and> fst (pull t i b) = (case rest of e # _ \<Rightarrow> Yields e | [] \<Rightarrow> if tv_closed (view t cs) then Ends else Blocks)"
proof -
  have ok: "bus_ok cs b" by (rule run_ok [OF assms(1)])
  have v: "tv_subs (view t cs) = ts_subs (state_of b t)" "tv_events (view t cs) = ts_buffer (state_of b t)"
    "tv_closed (view t cs) = ts_closed (state_of b t)"
    using bus_okD(1) [OF ok, of t] by (simp_all add: shows_view_def)
  from assms(2) have i: "i \<in> set (ts_subs (state_of b t))" by (simp add: v)
  obtain rest where rest: "ts_buffer (state_of b t) = received i cs @ rest"
    "queue_of b i = map Some rest @ sentinel (ts_closed (state_of b t))" by (rule pending [OF ok i])
  then show ?thesis
    by (intro exI [where x = rest]) (auto simp: v pull_def sentinel_def split: list.splits)
qed

theorem subscribers_see_whole_turn_witness:
  "\<exists>rest. [(''a'', 1), (''b'', 2)] = received 0 [Publish ''t'' (''a'', 1::nat), Subscribe ''t'' 0, Publish ''t'' (''b'', 2)] @ rest"
proof -
  let ?cs = "[Publish ''t'' (''a'', 1::nat), Subscribe ''t'' 0, Publish ''t'' (''b'', 2)]"
  have "bus_step new_bus (Publish ''t'' (''a'', 1::nat)) (publish ''t'' ''a'' 1 new_bus)" (is "bus_step _ _ ?b1")
    by (rule publishing)
  then have 1: "bus_run [Publish ''t'' (''a'', 1::nat)] ?b1" using bus_run.more [OF bus_run.start] by fastforce
  have "subscribe ''t'' ?b1 = (0, snd (subscribe ''t'' ?b1))" (is "_ = (0, ?b2)")
    by (simp add: subscribe_def Let_def publish_def new_bus_def state_of_def new_turn_def set_state_def)
  then have "bus_step ?b1 (Subscribe ''t'' 0) ?b2" by (rule subscribing)
  with bus_run.more [OF 1] have 2: "bus_run [Publish ''t'' (''a'', 1), Subscribe ''t'' 0] ?b2" by fastforce
  have "bus_step ?b2 (Publish ''t'' (''b'', 2)) (publish ''t'' ''b'' 2 ?b2)" (is "bus_step _ _ ?b3") by (rule publishing)
  with bus_run.more [OF 2] have 3: "bus_run ?cs ?b3" by fastforce
  from subscribers_see_whole_turn [OF 3, of 0 "''t''"] show ?thesis
    by (auto simp: view_def blank_view_def)
qed

text \<open>The first heartbeat ends the stream. When a round of the stream finds no event, it prints the
  heartbeat; whatever is published or closed afterwards, the stream then ends and prints nothing
  more, although the turn goes on.\<close>
theorem heartbeat_ends_stream:
  assumes "fst (anext t g (env b)) = Blocks"
  shows "stream rf t (env # env' # envs) g b = ([heartbeat_frame], True)"
proof -
  obtain g' b' where a: "anext t g (env b) = (Blocks, g', b')" using assms by (cases "anext t g (env b)") auto
  have "fst (cancel_anext t g' b') = Exhausted" by (simp add: cancel_anext_def split: generator.splits)
  then obtain b'' where c: "cancel_anext t g' b' = (Exhausted, b'')" by (cases "cancel_anext t g' b'") auto
  show ?thesis by (simp add: a c) (simp add: anext_def)
qed

theorem heartbeat_ends_stream_witness:
  "stream (\<lambda>_. []) ''t'' [(\<lambda>b. b), publish ''t'' ''turn_complete'' JNull] Fresh new_bus = ([heartbeat_frame], True)"
  by (rule heartbeat_ends_stream)
    (simp add: anext_def Let_def subscribe_def pull_def new_bus_def state_of_def new_turn_def set_state_def
      queue_of_def dict_set_def)

text \<open>The events of a turn up to the one that ends the stream.\<close>

fun until_terminal :: "'p event list \<Rightarrow> 'p event list" where
  "until_terminal [] = []"
| "until_terminal (e # es) = (if fst e \<in> {''turn_complete'', ''turn_error''} then [e] else e # until_terminal es)"

lemma stream_waiting:
  "queue_of b i = map Some rest @ [None] \<Longrightarrow> length rest < n \<Longrightarrow>
     stream rf t (replicate n (\<lambda>b. b)) (Waiting i) b
       = (map (\<lambda>(k, p). sse_format rf k p) (until_terminal rest), True)"
proof (induction rest arbitrary: b n)
  case Nil
  then have q: "queue_of b i = sentinel True" by (simp add: sentinel_def)
  from Nil obtain m where "n = Suc m" by (cases n) auto
  then show ?case using pull_next(2) [OF q, of t] by (simp add: anext_def)
next
  case (Cons e rest)
  from Cons.prems(2) obtain m where n: "n = Suc m" by (cases n) auto
  let ?b = "b\<lparr>eb_queues := dict_set i (map Some rest @ sentinel True) (eb_queues b)\<rparr>"
  from Cons.prems(1) have pull: "pull t i b = (Yields e, ?b)"
    by (intro pull_next(1)) (simp add: sentinel_def)
  have "stream rf t (replicate m (\<lambda>b. b)) (Waiting i) ?b
      = (map (\<lambda>(k, p). sse_format rf k p) (until_terminal rest), True)"
    using Cons.prems(2) n by (intro Cons.IH) (simp_all add: sentinel_def)
  then show ?case by (cases e) (simp add: n anext_def pull)
qed

text \<open>A closed turn streams out. A stream opened after its turn has been closed prints the frames of
  all its events in order, up to and including the first turn_complete or turn_error, and ends; it
  never waits.\<close>
theorem closed_turn_streams_out:
  assumes "ts_closed (state_of b t)" "length (ts_buffer (state_of b t)) < n"
  shows "stream rf t (replicate n (\<lambda>b. b)) Fresh b
      = (map (\<lambda>(k, p). sse_format rf k p) (until_terminal (ts_buffer (state_of b t))), True)"
proof -
  obtain i b' where sub: "subscribe t b = (i, b')" by (cases "subscribe t b")
  then have "queue_of b' i = map Some (ts_buffer (state_of b t)) @ [None]"
    using assms(1) by (auto simp: subscribe_def Let_def)
  from stream_waiting [OF this assms(2), of rf t] have "stream rf t (replicate n (\<lambda>b. b)) (Waiting i) b'
      = (map (\<lambda>(k, p). sse_format rf k p) (until_terminal (ts_buffer (state_of b t))), True)" .
  moreover obtain m where "n = Suc m" using assms(2) by (cases n) auto
  ultimately show ?thesis using sub by (simp add: anext_def)
qed

theorem closed_turn_streams_out_witness:
  "stream (\<lambda>_. []) ''t'' (replicate 2 (\<lambda>b. b)) Fresh (close_turn ''t'' (publish ''t'' ''turn_error'' JNull new_bus))
     = ([sse_format (\<lambda>_. []) ''turn_error'' JNull], True)"
proof -
  let ?b = "close_turn ''t'' (publish ''t'' ''turn_error'' JNull new_bus)"
  have "state_of ?b ''t'' = \<lparr>ts_subs = [], ts_buffer = [(''turn_error'', JNull)], ts_closed = True\<rparr>"
    by (simp add: close_turn_def publish_def Let_def new_bus_def state_of_def new_turn_def set_state_def dict_set_def)
  with closed_turn_streams_out [of ?b "''t''" 2 "\<lambda>_. []"] show ?thesis by simp
qed

text \<open>A frame stays on its lines.\<close>

lemma line_end_point: "c = line_end \<longleftrightarrow> code_point c = (10::nat)"
proof
  assume "code_point c = (10::nat)"
  then have "char_of (code_point c :: nat) = line_end" by (simp only: line_end_def)
  then show "c = line_end" by simp
qed (simp add: line_end_def)

lemma line_end_digits: "line_end \<notin> set ''0123456789abcdef''" "line_end \<notin> set ''0bfnrtu-{}[], :truefalsenulldata: event: ''"
  "line_end \<noteq> char_of (92::nat)" "line_end \<noteq> char_of (34::nat)"
  by code_simp+

lemma hex_digit_line: "n < 16 \<Longrightarrow> hex_digit n \<noteq> line_end"
proof -
  assume "n < 16"
  then have "hex_digit n \<in> set ''0123456789abcdef''"
    unfolding hex_digit_def by (intro nth_mem) simp
  then show "hex_digit n \<noteq> line_end" using line_end_digits(1) by metis
qed

lemma raw_esc_char_line: "line_end \<notin> set (raw_esc_char c)"
proof -
  have "code_point c div 16 < (16::nat)" "code_point c mod 16 < (16::nat)"
    using mod_less_divisor [of 256 "code_point c"] unfolding of_char_mod_256 by (simp_all add: less_mult_imp_div_less)
  note hex = this [THEN hex_digit_line]
  show ?thesis
    using hex line_end_digits(2-4) line_end_point [of c]
    by (auto simp: raw_esc_char_def esc_char_def Let_def)
qed

lemma raw_dumps_str_line: "line_end \<notin> set (raw_dumps_str s)"
  using raw_esc_char_line line_end_digits(4) by (auto simp: raw_dumps_str_def)

lemma nat_str_line: "line_end \<notin> set (nat_str n)"
proof (induction n rule: nat_str.induct)
  case (1 n)
  moreover have "n mod 10 < 16" using mod_less_divisor [of 10 n] by linarith
  ultimately show ?case
    using hex_digit_line [of n] hex_digit_line [of "n mod 10"] by (subst nat_str.simps) auto
qed

lemma join_str_line: "line_end \<notin> set sep \<Longrightarrow> (\<And>x. x \<in> set xs \<Longrightarrow> line_end \<notin> set x) \<Longrightarrow> line_end \<notin> set (join_str sep xs)"
  by (induction sep xs rule: join_str.induct) auto

lemma raw_dumps_line: "(\<And>q. line_end \<notin> set (rf q)) \<Longrightarrow> line_end \<notin> set (raw_dumps rf j)"
proof (induction rf j rule: raw_dumps.induct)
  case (6 rf xs)
  then have "line_end \<notin> set (join_str '', '' (map (raw_dumps rf) xs))"
    using line_end_digits(2) by (intro join_str_line) auto
  then show ?case using line_end_digits(2) by auto
next
  case (7 rf d)
  then have "line_end \<notin> set (join_str '', '' (map (\<lambda>p. raw_dumps_str (fst p) @ '': '' @ raw_dumps rf (snd p)) d))"
    using line_end_digits(2) raw_dumps_str_line by (intro join_str_line) auto
  then show ?case using line_end_digits(2) by auto
next
  case (3 rf i)
  then show ?case using nat_str_line line_end_digits(2) by (auto simp: int_str_def)
qed (use line_end_digits(2) raw_dumps_str_line in auto)

lemma split_char_line: "c \<notin> set a \<Longrightarrow> split_char c (a @ c # s) = a # split_char c s"
  by (induction a) (auto split: list.splits)

text \<open>A frame carries its event. Split at its line ends, a frame is the event line, one data line
  with the JSON text and the empty line that ends it, whatever the payload holds.\<close>
theorem sse_frame_fields:
  assumes "line_end \<notin> set event_type" "\<And>q. line_end \<notin> set (rf q)"
  shows "split_char line_end (sse_format rf event_type payload)
      = [''event: '' @ event_type, ''data: '' @ raw_dumps rf payload, [], []]"
proof -
  have "line_end \<notin> set (''event: '' @ event_type)" "line_end \<notin> set (''data: '' @ raw_dumps rf payload)"
    using assms raw_dumps_line [of rf payload] line_end_digits(2) by auto
  note fields = this [THEN split_char_line]
  have "sse_format rf event_type payload = (''event: '' @ event_type) @ line_end #
      (''data: '' @ raw_dumps rf payload) @ line_end # [line_end]"
    by (simp add: sse_format_def)
  then show ?thesis by (simp only: fields) simp
qed

theorem sse_frame_fields_witness:
  "split_char line_end (sse_format (\<lambda>_. []) ''tool_call'' (JStr [line_end]))
     = [''event: tool_call'', ''data: '' @ raw_dumps (\<lambda>_. []) (JStr [line_end]), [], []]"
proof -
  have "line_end \<notin> set ''tool_call''" by code_simp
  from sse_frame_fields [OF this, of "\<lambda>_. []"] show ?thesis by simp
qed

end
