(* ===== verification/Mcp_Editor.thy ===== *)
theory Mcp_Editor
  imports Mcp_Read
begin

text \<open>
  \<open>mcp_tools_editor.py\<close>: the tools that edit staging. Each loads staging, applies one edit of
  \<open>Crud\<close> under the live connection identifiers, and saves the result under the version the caller
  expects or the one a second load finds.
\<close>

definition save_staging :: "principal \<Rightarrow> registry \<Rightarrow> int option \<Rightarrow> (db, exn, json) act" where
  "save_staging p new_reg expected_version =
     bind (load Staging) (\<lambda>snap.
     bind (save Staging new_reg
             (Some (case expected_version of None \<Rightarrow> sn_version snap | Some v \<Rightarrow> v)) (Some (pr_label p)) None)
       (\<lambda>new_version. ret (JObj [(''staging_version'', JInt new_version)])))"

definition validate_staging :: handler where
  "validate_staging p a =
     bind (lift_sum (only_keys [] a)) (\<lambda>_.
     bind (load Staging) (\<lambda>snap.
     bind conn_ids (\<lambda>ids.
     ret (JObj [(''findings'', JList (map finding_json (validate ids (sn_registry snap))))]))))"

text \<open>One edit of staging: the common shape of the put, delete, import and binding tools.\<close>

definition edit_staging ::
  "principal \<Rightarrow> (registry \<Rightarrow> exn + edit) \<Rightarrow> bool \<Rightarrow> int option \<Rightarrow> (db, exn, json) act" where
  "edit_staging p mk_edit validates expected_version =
     bind (load Staging) (\<lambda>snap.
     bind (lift_sum (mk_edit (sn_registry snap))) (\<lambda>e.
     bind (if validates then conn_ids else ret {}) (\<lambda>ids.
     bind (lift_sum (apply_edit ids e (sn_registry snap))) (\<lambda>new_reg.
     save_staging p new_reg expected_version))))"

definition put_factory :: "(json \<Rightarrow> exn + edit) \<Rightarrow> handler" where
  "put_factory parse p a =
     bind (lift_sum (only_keys [''definition'', ''expected_version''] a)) (\<lambda>_.
     bind (lift_sum (arg_obj ''definition'' a)) (\<lambda>defn.
     bind (lift_sum (opt_arg_int ''expected_version'' a)) (\<lambda>ver.
     edit_staging p (\<lambda>_. parse defn) True ver)))"

definition del_factory :: "(string \<Rightarrow> edit) \<Rightarrow> handler" where
  "del_factory mk p a =
     bind (lift_sum (only_keys [''rid'', ''expected_version''] a)) (\<lambda>_.
     bind (lift_sum (arg_str ''rid'' a)) (\<lambda>rid.
     bind (lift_sum (opt_arg_int ''expected_version'' a)) (\<lambda>ver.
     edit_staging p (\<lambda>_. Inr (mk rid)) False ver)))"

definition parsed :: "(json \<Rightarrow> exn + 'd) \<Rightarrow> ('d \<Rightarrow> edit) \<Rightarrow> json \<Rightarrow> exn + edit" where
  "parsed parse mk j = bind_sum (parse j) (\<lambda>d. Inr (mk d))"

definition import_full :: "'n platform \<Rightarrow> handler" where
  "import_full P p a =
     bind (lift_sum (only_keys [''registry'', ''mode'', ''expected_version''] a)) (\<lambda>_.
     bind (lift_sum (arg_obj ''registry'' a)) (\<lambda>reg.
     bind (lift_sum (arg_str ''mode'' a)) (\<lambda>mode.
     bind (lift_sum (opt_arg_int ''expected_version'' a)) (\<lambda>ver.
     edit_staging p (\<lambda>_. bind_sum (pf_parse_registry P reg) (\<lambda>incoming.
                        bind_sum (parse_mode mode) (\<lambda>m. Inr (Import m incoming)))) True ver))))"

definition mcp_set_asset_mapping :: "'n platform \<Rightarrow> handler" where
  "mcp_set_asset_mapping P p a =
     bind (lift_sum (only_keys [''rid'', ''asset_mapping'', ''expected_version''] a)) (\<lambda>_.
     bind (lift_sum (arg_str ''rid'' a)) (\<lambda>rid.
     bind (lift_sum (arg_obj ''asset_mapping'' a)) (\<lambda>am.
     bind (lift_sum (opt_arg_int ''expected_version'' a)) (\<lambda>ver.
     edit_staging p (\<lambda>_. parsed (pf_parse_asset P) (Bind_asset rid) am) True ver))))"

definition editor_handlers :: "'n platform \<Rightarrow> handler list" where
  "editor_handlers P =
     [put_factory (parsed (pf_parse_shared P) Put_shared), del_factory Delete_shared,
      put_factory (parsed (pf_parse_interface P) Put_interface), del_factory Delete_interface,
      put_factory (parsed (pf_parse_object P) Put_object), del_factory Delete_object,
      put_factory (parsed (pf_parse_link P) Put_link), del_factory Delete_link,
      put_factory (parsed (pf_parse_action P) Put_action), del_factory Delete_action,
      import_full P, mcp_set_asset_mapping P]"

subsection \<open>Facts\<close>

text \<open>The database's own guarantee about connection kinds (a CHECK constraint).\<close>

definition kinds_ok :: "db \<Rightarrow> bool" where
  "kinds_ok s \<longleftrightarrow> (\<forall>row \<in> set (connections s). cn_kind row \<in> {''postgres'', ''mysql'', ''sqlite''})"

lemma conn_ids_Inr:
  assumes "conn_ids s = (Inr ids, s')" "kinds_ok s"
  shows "ids = conn_ids_of s \<and> s' = s"
proof (cases "tx_aborted s")
  case True
  with assms(1) show ?thesis
    by (simp add: conn_ids_def list_all_connections_def statement_def act_simps)
next
  case False
  with assms conn_ids_run [OF False] show ?thesis by (auto simp: kinds_ok_def)
qed

lemma read_only_conn_ids: "read_only conn_ids"
  unfolding conn_ids_def list_all_connections_def
  by (intro read_only_intros) (simp add: read_only_def)

text \<open>What an edit of staging does when it answers, and that it does nothing when it raises.\<close>

lemma edit_staging_Inr:
  assumes "edit_staging p mk v ver s = (Inr j, s')" "kinds_ok s"
  obtains reg n e reg' where "slot s Staging = Some (reg, n)" "mk reg = Inr e"
    "apply_edit (if v then conn_ids_of s else {}) e reg = Inr reg'"
    "ver = None \<or> ver = Some n" "s' = saved Staging reg' (Some (pr_label p)) None s"
    "j = JObj [(''staging_version'', JInt (n + 1))]"
proof -
  from assms(1) obtain snap s1 where l: "load Staging s = (Inr snap, s1)"
    and k1: "bind (lift_sum (mk (sn_registry snap))) (\<lambda>e.
       bind (if v then conn_ids else ret {}) (\<lambda>ids.
       bind (lift_sum (apply_edit ids e (sn_registry snap))) (\<lambda>new_reg. save_staging p new_reg ver))) s1
       = (Inr j, s')"
    unfolding edit_staging_def by (rule bind_InrE)
  from l obtain reg n where slot: "slot s Staging = Some (reg, n)"
    and snap: "snap = \<lparr>sn_env = Staging, sn_registry = reg, sn_version = n\<rparr>" "s1 = s"
    by (auto simp: load_run split: option.splits)
  from k1 obtain e where e: "mk reg = Inr e"
    and k2: "bind (if v then conn_ids else ret {}) (\<lambda>ids.
       bind (lift_sum (apply_edit ids e reg)) (\<lambda>new_reg. save_staging p new_reg ver)) s = (Inr j, s')"
    unfolding snap by (auto simp: lift_sum_apply elim: bind_InrE)
  from k2 obtain ids s2 where c: "(if v then conn_ids else ret {}) s = (Inr ids, s2)"
    and k3: "bind (lift_sum (apply_edit ids e reg)) (\<lambda>new_reg. save_staging p new_reg ver) s2 = (Inr j, s')"
    by (rule bind_InrE)
  have ids: "ids = (if v then conn_ids_of s else {})" "s2 = s"
    using c conn_ids_Inr [OF _ assms(2)] by (auto simp: ret_apply split: if_splits)
  from k3 obtain reg' where r: "apply_edit ids e reg = Inr reg'"
    and k4: "save_staging p reg' ver s = (Inr j, s')"
    unfolding ids(2) by (auto simp: lift_sum_apply elim: bind_InrE)
  from k4 slot have "ver = None \<or> ver = Some n" "s' = saved Staging reg' (Some (pr_label p)) None s"
      "j = JObj [(''staging_version'', JInt (n + 1))]"
    by (auto simp: save_staging_def act_simps split: option.splits if_splits)
  with that [OF slot e r [unfolded ids(1)]] show thesis by blast
qed

lemma save_staging_Inl: "save_staging p reg ver s = (Inl e, s') \<Longrightarrow> s' = s"
  by (auto simp: save_staging_def act_simps split: option.splits if_splits sum.splits prod.splits)

lemma edit_staging_Inl:
  assumes "edit_staging p mk v ver s = (Inl e, s')"
  shows "s' = s"
proof -
  have ids: "read_only (if v then conn_ids else ret {})"
    by (simp add: read_only_conn_ids read_only_simple)
  obtain r1 s1 where l: "load Staging s = (r1, s1)" by fastforce
  then have s1: "s1 = s" using read_only_load unfolding read_only_def by blast
  show ?thesis
  proof (cases r1)
    case (Inl e1)
    with assms l s1 show ?thesis by (simp add: edit_staging_def bind_def)
  next
    case (Inr snap)
    obtain r2 s2 where c: "(if v then conn_ids else ret {}) s = (r2, s2)" by fastforce
    then have "s2 = s" using ids unfolding read_only_def by blast
    with assms l s1 Inr c show ?thesis
      by (cases "mk (sn_registry snap)"; cases r2)
        (auto simp: edit_staging_def bind_def lift_sum_def dest: save_staging_Inl split: sum.splits prod.splits)
  qed
qed

end
