(* ===== verification/Mcp_Admin.thy ===== *)
theory Mcp_Admin
  imports Mcp_Editor
begin

text \<open>
  \<open>mcp_tools_admin.py\<close> and \<open>mcp_tools_ingestion.py\<close>: promotion, tokens, connections and ingestion
  jobs. The row of an upload is here; writing its bytes to disk is in theory Upload_Files.
\<close>

definition ok_json :: json where
  "ok_json = JObj [(''ok'', JBool True)]"

definition mcp_promote :: handler where
  "mcp_promote p a =
     bind (lift_sum (only_keys [''commit_message''] a)) (\<lambda>_.
     bind (lift_sum (arg_str ''commit_message'' a)) (\<lambda>msg.
     bind conn_ids (\<lambda>ids.
     bind (promote_staging_to_production msg (Some (pr_label p)) ids) (\<lambda>_. ret ok_json))))"

definition mcp_revert :: handler where
  "mcp_revert p a =
     bind (lift_sum (only_keys [] a)) (\<lambda>_.
     bind (revert_staging_to_production (Some (pr_label p))) (\<lambda>_. ret ok_json))"

definition mcp_undo :: handler where
  "mcp_undo p a =
     bind (lift_sum (only_keys [] a)) (\<lambda>_.
     bind (undo_promote (Some (pr_label p))) (\<lambda>_. ret ok_json))"

definition mcp_mint :: "'n platform \<Rightarrow> handler" where
  "mcp_mint P p a =
     bind (lift_sum (only_keys [''scope'', ''label''] a)) (\<lambda>_.
     bind (lift_sum (arg_str ''scope'' a)) (\<lambda>scope.
     bind (lift_sum (arg_str ''label'' a)) (\<lambda>label.
     bind (reads (\<lambda>s. (generate_token (pf_random P s), pf_new_uuid P s))) (\<lambda>(plaintext, new_id).
     bind (lift_sum (scope_of_name scope)) (\<lambda>sc.
     bind (insert_token (pf_hasher P) new_id plaintext sc label (Some (pr_token_id p))) (\<lambda>tid.
     ret (JObj [(''token'', JStr plaintext), (''token_id'', JStr tid)])))))))"

definition mcp_revoke :: handler where
  "mcp_revoke p a =
     bind (lift_sum (only_keys [''token_id''] a)) (\<lambda>_.
     bind (lift_sum (arg_str ''token_id'' a)) (\<lambda>token_id.
     bind (lift_sum (parse_uuid token_id)) (\<lambda>tid.
     bind (revoke_token tid) (\<lambda>done_ok. ret (JObj [(''revoked'', JBool done_ok)])))))"

definition token_item_json :: "'n platform \<Rightarrow> token_item \<Rightarrow> json" where
  "token_item_json P t =
     JObj [(''id'', JStr (ti_token_id t)), (''scope'', JStr (scope_name (ti_scope t))),
           (''label'', JStr (ti_label t)), (''created_at'', JStr (pf_isoformat P (ti_created_at t))),
           (''revoked_at'', iso_opt P (ti_revoked_at t))]"

definition mcp_list_tokens :: "'n platform \<Rightarrow> handler" where
  "mcp_list_tokens P p a =
     bind (lift_sum (only_keys [] a)) (\<lambda>_.
     bind list_tokens (\<lambda>items. ret (JObj [(''items'', JList (map (token_item_json P) items))])))"

definition connection_json :: "'n platform \<Rightarrow> connection \<Rightarrow> json" where
  "connection_json P c =
     JObj [(''id'', JStr (co_id c)), (''label'', JStr (co_label c)),
           (''kind'', JStr (kind_value (co_kind c))), (''last_probe_ok_at'', iso_opt P (co_last_probe c))]"

definition mcp_add_connection :: "'n platform \<Rightarrow> handler" where
  "mcp_add_connection P p a =
     bind (lift_sum (only_keys [''label'', ''kind'', ''dsn''] a)) (\<lambda>_.
     bind (lift_sum (arg_str ''label'' a)) (\<lambda>label.
     bind (lift_sum (arg_str ''kind'' a)) (\<lambda>kind.
     bind (lift_sum (arg_str ''dsn'' a)) (\<lambda>dsn.
     bind (lift_sum (parse_kind kind)) (\<lambda>k.
     bind (reads (pf_new_uuid P)) (\<lambda>new_id.
     bind (register_connection (pf_fernet P) (pf_prober P) new_id label k dsn) (\<lambda>c.
     ret (connection_json P c))))))))"

text \<open>The identifiers that mention a connection: it is compared as the text the caller gave.\<close>

definition binds_connection :: "string \<Rightarrow> registry \<Rightarrow> (string \<times> string) list" where
  "binds_connection cid r =
     map (\<lambda>(rid, _). (''object_type'', rid))
       (filter (\<lambda>(_, e). read_connection_id (ob_asset_mapping e) = cid) (object_types r))
     @ map (\<lambda>(rid, _). (''link_type'', rid))
       (filter (\<lambda>(_, e). read_connection_id (lk_asset_mapping e) = cid) (link_types r))"

definition refuse_if_bound :: "string \<Rightarrow> registry \<Rightarrow> exn + unit" where
  "refuse_if_bound cid r =
     (case binds_connection cid r of
        [] \<Rightarrow> Inr ()
      | (kind, rid) # _ \<Rightarrow>
          Inl (ValueError (''Connection '' @ cid @ '' is referenced by '' @ kind @ '' '' @ rid)))"

definition mcp_delete_connection :: handler where
  "mcp_delete_connection p a =
     bind (lift_sum (only_keys [''connection_id''] a)) (\<lambda>_.
     bind (lift_sum (arg_str ''connection_id'' a)) (\<lambda>connection_id.
     bind (load Staging) (\<lambda>staging.
     bind (lift_sum (refuse_if_bound connection_id (sn_registry staging))) (\<lambda>_.
     bind (load Production) (\<lambda>production.
     bind (lift_sum (refuse_if_bound connection_id (sn_registry production))) (\<lambda>_.
     bind (lift_sum (parse_uuid connection_id)) (\<lambda>cid.
     bind (delete_connection_row cid) (\<lambda>_. ret (JObj [(''deleted'', JBool True)])))))))))"

definition mcp_list_connections :: "'n platform \<Rightarrow> handler" where
  "mcp_list_connections P p a =
     bind (lift_sum (only_keys [] a)) (\<lambda>_.
     bind list_all_connections (\<lambda>items. ret (JObj [(''items'', JList (map (connection_json P) items))])))"

subsection \<open>Ingestion tools\<close>

text \<open>\<open>pathlib.Path(filename).name\<close> and its suffix, without the leading dots and in lower case.\<close>

definition path_name :: "string \<Rightarrow> string" where
  "path_name filename =
     (case rev (filter (\<lambda>part. part \<noteq> [] \<and> part \<noteq> ''.'') (split_char (CHR ''/'') filename)) of
        [] \<Rightarrow> [] | n # _ \<Rightarrow> n)"

definition path_suffix :: "string \<Rightarrow> string" where
  "path_suffix filename =
     (let n = path_name filename;
          ext = takeWhile (\<lambda>c. c \<noteq> CHR ''.'') (rev n);
          stem = dropWhile (\<lambda>c. c \<noteq> CHR ''.'') (rev n)
      in if ext = [] \<or> length stem \<le> 1 \<or> n = ''..'' then [] else rev ext)"

definition upload_kinds :: "string list" where
  "upload_kinds = [''sql'', ''pdf'', ''docx'', ''pptx'', ''xlsx'']"

definition register_upload :: "'n platform \<Rightarrow> handler" where
  "register_upload P p a =
     bind (lift_sum (only_keys [''filename'', ''base64_content''] a)) (\<lambda>_.
     bind (lift_sum (arg_str ''filename'' a)) (\<lambda>filename.
     bind (lift_sum (arg_str ''base64_content'' a)) (\<lambda>content.
     bind (lift_sum (pf_b64decode P content)) (\<lambda>body.
     let cap = ingestion_max_upload_bytes (pf_settings P); ext = py_lower (path_suffix filename) in
     if int (length body) > cap
     then raise (ValueError (''upload exceeds '' @ int_str cap @ '' bytes''))
     else if ext \<notin> set upload_kinds
     then raise (ValueError (''unsupported extension: '' @ py_repr ext))
     else
       bind (reads (pf_new_uuid P)) (\<lambda>uid.
       bind (insert_upload uid filename ext (int (length body)) (pf_sha256 P body)
               (ingestion_data_dir (pf_settings P) @ ''/orphan/'' @ uid @ ''_'' @ path_name filename)
               (Some (pr_token_id p))) (\<lambda>_.
       ret (JObj [(''upload_id'', JStr uid), (''kind'', JStr ext),
                  (''size_bytes'', JInt (int (length body))), (''sha256'', JStr (pf_sha256 P body))])))))))"

fun arg_strings :: "json list \<Rightarrow> exn + string list" where
  "arg_strings [] = Inr []"
| "arg_strings (JStr x # xs) = bind_sum (arg_strings xs) (\<lambda>ys. Inr (x # ys))"
| "arg_strings (_ # xs) = Inl ill_typed"

fun parse_uuids :: "string list \<Rightarrow> exn + uuid list" where
  "parse_uuids [] = Inr []"
| "parse_uuids (x # xs) = bind_sum (parse_uuid x) (\<lambda>u. bind_sum (parse_uuids xs) (\<lambda>us. Inr (u # us)))"

definition submit_ingestion_job :: "'n platform \<Rightarrow> handler" where
  "submit_ingestion_job P p a =
     bind (lift_sum (only_keys [''upload_ids'', ''mode'', ''instructions''] a)) (\<lambda>_.
     bind (lift_sum (bind_sum (arg ''upload_ids'' a) (\<lambda>v. case v of JList xs \<Rightarrow> arg_strings xs | _ \<Rightarrow> Inl ill_typed)))
       (\<lambda>upload_ids.
     bind (lift_sum (arg_str ''mode'' a)) (\<lambda>mode.
     bind (lift_sum (opt_arg_str ''instructions'' a)) (\<lambda>instructions.
     let cap = ingestion_max_files_per_job (pf_settings P) in
     if int (length upload_ids) > cap
     then raise (ValueError (''too many files (max '' @ int_str cap @ '')''))
     else
       bind (lift_sum (parse_mode mode)) (\<lambda>m.
       bind (lift_sum (parse_uuids upload_ids)) (\<lambda>ups.
       bind (reads (pf_new_uuid P)) (\<lambda>new_id.
       bind (create_job new_id m (if instructions = Some [] then None else instructions) ups
               (Some (pr_token_id p))) (\<lambda>jid.
       ret (JObj [(''job_id'', JStr jid), (''status'', JStr ''queued'')])))))))))"

definition opt_json :: "json option \<Rightarrow> json" where
  "opt_json j = (case j of None \<Rightarrow> JNull | Some x \<Rightarrow> x)"

definition get_ingestion_job :: handler where
  "get_ingestion_job p a =
     bind (lift_sum (only_keys [''job_id''] a)) (\<lambda>_.
     bind (lift_sum (arg_str ''job_id'' a)) (\<lambda>job_id.
     bind (lift_sum (parse_uuid job_id)) (\<lambda>jid.
     bind (get_job jid) (\<lambda>j.
     ret (JObj [(''id'', JStr (jo_id j)), (''status'', JStr (status_value (jo_status j))),
                (''phase'', JStr (jo_phase_message j)), (''progress_pct'', JInt (jo_progress_pct j)),
                (''mode'', JStr (mode_value (jo_mode j))),
                (''decisions_report'', opt_json (jo_decisions_report j)),
                (''staging_version_after'',
                   (case jo_staging_version_after j of None \<Rightarrow> JNull | Some v \<Rightarrow> JInt v)),
                (''error_code'', opt_str (jo_error_code j)),
                (''error_details'', opt_json (jo_error_details j))])))))"

definition job_summary_json :: "'n platform \<Rightarrow> job_row \<Rightarrow> json" where
  "job_summary_json P j =
     JObj [(''id'', JStr (jb_id j)), (''status'', JStr (jb_status j)), (''mode'', JStr (jb_mode j)),
           (''progress_pct'', JInt (jb_progress_pct j)), (''error_code'', opt_str (jb_error_code j)),
           (''created_at'', JStr (pf_isoformat P (jb_created_at j)))]"

definition list_ingestion_jobs :: "'n platform \<Rightarrow> handler" where
  "list_ingestion_jobs P p a =
     bind (lift_sum (only_keys [''limit''] a)) (\<lambda>_.
     bind (lift_sum (opt_arg_int ''limit'' a)) (\<lambda>limit.
     let n = min (max 1 (case limit of None \<Rightarrow> 50 | Some v \<Rightarrow> v)) 200 in
     bind (statement (reads (\<lambda>s. take (nat n) (sort_key (\<lambda>j. - jb_created_at j) (ingestion_jobs s))))) (\<lambda>rows.
     ret (JObj [(''items'', JList (map (job_summary_json P) rows))]))))"

definition cancellable :: "job_row \<Rightarrow> bool" where
  "cancellable j \<longleftrightarrow> jb_status j \<notin> {''imported'', ''failed'', ''cancelled''}"

text \<open>\<open>WHERE id = :i\<close> casts the text to a uuid: PostgreSQL rejects one it cannot read.\<close>

definition cancel_ingestion_job :: handler where
  "cancel_ingestion_job p a =
     bind (lift_sum (only_keys [''job_id''] a)) (\<lambda>_.
     bind (lift_sum (arg_str ''job_id'' a)) (\<lambda>job_id.
     bind (statement (\<lambda>s.
       case py_uuid job_id of
         None \<Rightarrow> (Inl (OtherException ''DBAPIError'' ''invalid UUID''), s\<lparr>tx_aborted := True\<rparr>)
       | Some jid \<Rightarrow>
           (Inr (), s\<lparr>ingestion_jobs := update_where (\<lambda>j. jb_id j = jid \<and> cancellable j)
              (\<lambda>j. j\<lparr>jb_status := ''cancelled'', jb_finished_at := Some (db_now s)\<rparr>) (ingestion_jobs s)\<rparr>)))
       (\<lambda>_. ret (JObj [(''cancelled'', JBool True)]))))"

definition delete_orphan_uploads :: handler where
  "delete_orphan_uploads p a =
     bind (lift_sum (only_keys [''older_than_minutes''] a)) (\<lambda>_.
     bind (lift_sum (bind_sum (arg ''older_than_minutes'' a) (\<lambda>v. case v of JInt i \<Rightarrow> Inr i | _ \<Rightarrow> Inl ill_typed)))
       (\<lambda>m.
     bind (statement (\<lambda>s. (Inr (length (filter (is_orphan m s) (ingestion_uploads s))),
         s\<lparr>ingestion_uploads := filter (\<lambda>u. \<not> is_orphan m s u) (ingestion_uploads s)\<rparr>))) (\<lambda>n.
     ret (JObj [(''deleted'', JInt (int n))]))))"

subsection \<open>The guard of \<open>delete_connection\<close>\<close>

lemma refuse_if_bound_cases:
  "refuse_if_bound cid r = Inr () \<and> binds_connection cid r = []
   \<or> (\<exists>msg. refuse_if_bound cid r = Inl (ValueError msg)) \<and> binds_connection cid r \<noteq> []"
  unfolding refuse_if_bound_def by (cases "binds_connection cid r") (auto split: prod.splits)

lemma binds_connection_Nil: "binds_connection cid r = [] \<longleftrightarrow>
    (\<forall>(rid, d) \<in> set (object_types r). read_connection_id (ob_asset_mapping d) \<noteq> cid)
    \<and> (\<forall>(rid, d) \<in> set (link_types r). read_connection_id (lk_asset_mapping d) \<noteq> cid)"
  by (auto simp: binds_connection_def filter_empty_conv)

text \<open>Deleting a connection is refused, with nothing changed, exactly when staging or production
  has an object or link whose mapping names the identifier as the caller wrote it; otherwise the
  connection the identifier denotes is removed. The two readings differ: a UUID written in another
  form denotes a connection whose mappings it does not match.\<close>
theorem delete_connection_compares_text:
  assumes "\<not> tx_aborted s" and "slot s Staging = Some (st, v)" and "slot s Production = Some (pr, w)"
    and "py_uuid cid = Some u"
  shows "if binds_connection cid st \<noteq> [] \<or> binds_connection cid pr \<noteq> []
    then \<exists>msg. mcp_delete_connection p [(''connection_id'', JStr cid)] s = (Inl (ValueError msg), s)
    else mcp_delete_connection p [(''connection_id'', JStr cid)] s =
      (Inr (JObj [(''deleted'', JBool True)]), s\<lparr>connections := filter (\<lambda>c. cn_id c \<noteq> u) (connections s)\<rparr>)"
proof -
  have load: "load Staging s = (Inr \<lparr>sn_env = Staging, sn_registry = st, sn_version = v\<rparr>, s)"
    "load Production s = (Inr \<lparr>sn_env = Production, sn_registry = pr, sn_version = w\<rparr>, s)"
    using assms(2,3) by (auto simp: load_def slot_def)
  have args: "only_keys [''connection_id''] [(''connection_id'', JStr cid)] = Inr ()"
    "arg_str ''connection_id'' [(''connection_id'', JStr cid)] = Inr cid"
    by (simp_all add: only_keys_def arg_str_def arg_def)
  from refuse_if_bound_cases [of cid st] refuse_if_bound_cases [of cid pr] show ?thesis
    by (auto simp: mcp_delete_connection_def args act_simps load parse_uuid_def assms
        delete_connection_row_def statement_def)
qed

definition bound_registry :: registry where
  "bound_registry = empty_registry\<lparr>object_types := [(''ri.obj.1'',
     (mk_object_type ''ri.obj.1'')\<lparr>ob_asset_mapping := mk_asset_mapping
        \<lparr>read_connection_id := ''00000000-0000-0000-0000-00000000000a'', read_asset_path := ''t''\<rparr>\<rparr>)]\<rparr>"

definition bound_db :: db where
  "bound_db = saved Staging bound_registry None None ((migrated 0)\<lparr>connections :=
     [\<lparr>cn_id = ''00000000-0000-0000-0000-00000000000a'', cn_label = ''main'', cn_kind = ''postgres'',
       cn_dsn_encrypted = ''x'', cn_created_at = 0, cn_last_probe_ok_at = None\<rparr>]\<rparr>)"

definition boss :: principal where
  "boss = \<lparr>pr_token_id = ''t'', pr_label = ''boss'', pr_scope = Admin\<rparr>"

text \<open>The identifier as stored is refused; in upper case it deletes the connection an object still uses.\<close>
theorem delete_connection_compares_text_witness:
  "(\<exists>msg. mcp_delete_connection boss [(''connection_id'', JStr ''00000000-0000-0000-0000-00000000000a'')] bound_db
       = (Inl (ValueError msg), bound_db))
   \<and> (\<exists>s'. mcp_delete_connection boss [(''connection_id'', JStr ''00000000-0000-0000-0000-00000000000A'')] bound_db
       = (Inr (JObj [(''deleted'', JBool True)]), s') \<and> connections s' = []
       \<and> slot s' Staging = Some (bound_registry, 1))"
proof -
  have ok: "\<not> tx_aborted bound_db" and st: "slot bound_db Staging = Some (bound_registry, 1)"
    and pr: "slot bound_db Production = Some (empty_registry, 0)"
    by (simp_all add: bound_db_def migrated_def slot_def saved_def save_def Let_def)
  have cs: "map cn_id (connections bound_db) = [''00000000-0000-0000-0000-00000000000a'']"
    by (simp add: bound_db_def saved_def save_def migrated_def Let_def)
  have b: "binds_connection ''00000000-0000-0000-0000-00000000000a'' bound_registry \<noteq> []"
    "binds_connection ''00000000-0000-0000-0000-00000000000A'' bound_registry = []"
    "binds_connection cid empty_registry = []" for cid
    unfolding binds_connection_Nil by (simp_all add: bound_registry_def empty_registry_def)
  from delete_connection_compares_text [OF ok st pr py_uuid_sample_canonical, of boss] b
  have "\<exists>msg. mcp_delete_connection boss [(''connection_id'', JStr ''00000000-0000-0000-0000-00000000000a'')] bound_db
       = (Inl (ValueError msg), bound_db)" by simp
  moreover from delete_connection_compares_text [OF ok st pr py_uuid_sample, of boss] b
  have "mcp_delete_connection boss [(''connection_id'', JStr ''00000000-0000-0000-0000-00000000000A'')] bound_db
     = (Inr (JObj [(''deleted'', JBool True)]), bound_db\<lparr>connections :=
         filter (\<lambda>c. cn_id c \<noteq> ''00000000-0000-0000-0000-00000000000a'') (connections bound_db)\<rparr>)" by simp
  moreover have "filter (\<lambda>c. cn_id c \<noteq> ''00000000-0000-0000-0000-00000000000a'') (connections bound_db) = []"
    using cs by (auto simp: filter_empty_conv map_eq_Cons_conv)
  ultimately show ?thesis
    using st by (simp add: slot_def)
qed

end
