(* ===== verification/Tool_Table.thy ===== *)
theory Tool_Table
  imports Mcp_Admin
begin

text \<open>
  The tool table the application serves, in the order its modules register their tools, and what
  any sequence of requests to it can do to the database: \<open>reach\<close> is the set of databases that
  requests and the passing of time lead to from a fresh migration.
\<close>

subsection \<open>Schemas\<close>

definition str_schema :: json where
  "str_schema = JObj [(''type'', JStr ''string'')]"

definition enum_schema :: "string list \<Rightarrow> json" where
  "enum_schema vs = JObj [(''type'', JStr ''string''), (''enum'', JList (map JStr vs))]"

definition min_schema :: "int \<Rightarrow> json" where
  "min_schema n = JObj [(''type'', JStr ''integer''), (''minimum'', JInt n)]"

definition object_schema :: "(string \<times> json) list \<Rightarrow> string list \<Rightarrow> json" where
  "object_schema props req =
     JObj ([(''type'', JStr ''object''), (''properties'', JObj props)]
           @ (if req = [] then [] else [(''required'', JList (map JStr req))])
           @ [(''additionalProperties'', JBool False)])"

definition ENV_SCHEMA :: json where
  "ENV_SCHEMA = enum_schema [''staging'', ''production'']"

definition DEF_SCHEMA :: json where
  "DEF_SCHEMA = JObj [(''type'', JStr ''object'')]"

definition lister_schema :: json where
  "lister_schema = object_schema [(''env'', ENV_SCHEMA), (''filter'', str_schema)] [''env'']"

definition put_schema :: json where
  "put_schema = object_schema [(''definition'', DEF_SCHEMA), (''expected_version'', min_schema 0)] [''definition'']"

definition del_schema :: json where
  "del_schema = object_schema [(''rid'', str_schema), (''expected_version'', min_schema 0)] [''rid'']"

subsection \<open>The table\<close>

definition add_lister :: "'n platform \<Rightarrow> string \<Rightarrow> string
    \<Rightarrow> ('n platform \<Rightarrow> registry \<Rightarrow> (string, entity_view) dict) \<Rightarrow> tools \<Rightarrow> tools" where
  "add_lister P field name views =
     mcp_tool name Read (''List '' @ field @ '' entries for the chosen env.'') lister_schema (lister P views)"

definition reg_query_sql :: "'n platform \<Rightarrow> tools \<Rightarrow> tools" where
  "reg_query_sql P =
     mcp_tool ''query_sql'' Read
       (''Run a SELECT-only statement against a registered connection. ''
         @ ''Server enforces read-only at engine level + AST gate, then applies compliance masking.'')
       (object_schema [(''connection_id'', str_schema), (''sql'', str_schema), (''max_rows'', min_schema 1),
          (''timeout_ms'', min_schema 1)] [''connection_id'', ''sql'']) (mcp_query_sql P)"

definition reg_describe_bound_asset :: "'n platform \<Rightarrow> tools \<Rightarrow> tools" where
  "reg_describe_bound_asset P =
     mcp_tool ''describe_bound_asset'' Read
       ''Return connection_id, asset_path, and column->property mapping for an entity.''
       (object_schema [(''env'', ENV_SCHEMA), (''rid'', str_schema)] [''env'', ''rid''])
       (mcp_describe_bound_asset P)"

definition reg_find_by_api_name :: "'n platform \<Rightarrow> tools \<Rightarrow> tools" where
  "reg_find_by_api_name P =
     mcp_tool ''find_by_api_name'' Read ''Resolve api_name -> entity (any kind, optionally restricted).''
       (object_schema [(''env'', ENV_SCHEMA), (''api_name'', str_schema), (''kind'', str_schema)]
          [''env'', ''api_name'']) (find_by_api_name P)"

definition reg_get_entity :: "'n platform \<Rightarrow> tools \<Rightarrow> tools" where
  "reg_get_entity P =
     mcp_tool ''get_entity'' Read ''Return one entity definition by RID, regardless of kind.''
       (object_schema [(''env'', ENV_SCHEMA), (''rid'', str_schema)] [''env'', ''rid'']) (get_entity P)"

definition reg_get_registry :: "'n platform \<Rightarrow> tools \<Rightarrow> tools" where
  "reg_get_registry P =
     mcp_tool ''get_registry'' Read ''Return the full OntologyRegistry for the chosen env.''
       (object_schema [(''env'', ENV_SCHEMA)] [''env'']) (get_registry P)"

definition add_read_tools :: "'n platform \<Rightarrow> tools \<Rightarrow> tools" where
  "add_read_tools P ts =
     reg_query_sql P
     (reg_describe_bound_asset P
     (reg_find_by_api_name P
     (reg_get_entity P
     (add_lister P ''action_types'' ''list_action_types'' action_views
     (add_lister P ''shared_property_types'' ''list_shared_property_types'' shared_views
     (add_lister P ''interface_types'' ''list_interface_types'' interface_views
     (add_lister P ''link_types'' ''list_link_types'' link_views
     (add_lister P ''object_types'' ''list_object_types'' object_views
     (reg_get_registry P ts)))))))))"

definition add_put :: "string \<Rightarrow> string \<Rightarrow> (json \<Rightarrow> exn + edit) \<Rightarrow> tools \<Rightarrow> tools" where
  "add_put name cls parse =
     mcp_tool name Editor (''Upsert a '' @ cls @ '' into staging.'') put_schema (put_factory parse)"

definition add_del :: "string \<Rightarrow> (string \<Rightarrow> edit) \<Rightarrow> tools \<Rightarrow> tools" where
  "add_del name mk =
     mcp_tool name Editor ''Delete an entity from staging (refuses on inbound references).'' del_schema
       (del_factory mk)"

definition reg_set_asset_mapping :: "'n platform \<Rightarrow> tools \<Rightarrow> tools" where
  "reg_set_asset_mapping P =
     mcp_tool ''set_asset_mapping'' Editor
       ''Bind/unbind a connection on an Object or Link without re-sending the full definition.''
       (object_schema [(''rid'', str_schema), (''asset_mapping'', DEF_SCHEMA), (''expected_version'', min_schema 0)]
          [''rid'', ''asset_mapping'']) (mcp_set_asset_mapping P)"

definition reg_import_full_registry_to_staging :: "'n platform \<Rightarrow> tools \<Rightarrow> tools" where
  "reg_import_full_registry_to_staging P =
     mcp_tool ''import_full_registry_to_staging'' Editor ''Replace or merge staging with a full registry payload.''
       (object_schema [(''registry'', DEF_SCHEMA), (''mode'', enum_schema [''replace'', ''merge'']),
          (''expected_version'', min_schema 0)] [''registry'', ''mode'']) (import_full P)"

definition reg_validate_staging :: "tools \<Rightarrow> tools" where
  "reg_validate_staging =
     mcp_tool ''validate_staging'' Editor ''Run the validator on persisted staging.''
       (object_schema [] []) validate_staging"

definition add_editor_tools :: "'n platform \<Rightarrow> tools \<Rightarrow> tools" where
  "add_editor_tools P ts =
     reg_set_asset_mapping P
     (reg_import_full_registry_to_staging P
     (add_del ''delete_action_type'' Delete_action
     (add_put ''put_action_type'' ''ActionTypeDefinition'' (parsed (pf_parse_action P) Put_action)
     (add_del ''delete_link_type'' Delete_link
     (add_put ''put_link_type'' ''LinkTypeDefinition'' (parsed (pf_parse_link P) Put_link)
     (add_del ''delete_object_type'' Delete_object
     (add_put ''put_object_type'' ''ObjectTypeDefinition'' (parsed (pf_parse_object P) Put_object)
     (add_del ''delete_interface_type'' Delete_interface
     (add_put ''put_interface_type'' ''InterfaceTypeDefinition'' (parsed (pf_parse_interface P) Put_interface)
     (add_del ''delete_shared_property_type'' Delete_shared
     (add_put ''put_shared_property_type'' ''SharedPropertyTypeDefinition''
        (parsed (pf_parse_shared P) Put_shared)
     (reg_validate_staging ts))))))))))))"

definition reg_list_connections :: "'n platform \<Rightarrow> tools \<Rightarrow> tools" where
  "reg_list_connections P =
     mcp_tool ''list_connections'' Admin ''List connections (no DSN material returned).''
       (object_schema [] []) (mcp_list_connections P)"

definition reg_delete_connection :: "tools \<Rightarrow> tools" where
  "reg_delete_connection =
     mcp_tool ''delete_connection'' Admin
       ''Delete a connection. Refuses if any AssetMapping in either env still references it.''
       (object_schema [(''connection_id'', str_schema)] [''connection_id'']) mcp_delete_connection"

definition reg_add_connection :: "'n platform \<Rightarrow> tools \<Rightarrow> tools" where
  "reg_add_connection P =
     mcp_tool ''add_connection'' Admin ''Probe `SELECT 1` then persist a Fernet-encrypted DSN.''
       (object_schema [(''label'', str_schema), (''kind'', enum_schema [''postgres'', ''mysql'', ''sqlite'']),
          (''dsn'', str_schema)] [''label'', ''kind'', ''dsn'']) (mcp_add_connection P)"

definition reg_list_tokens :: "'n platform \<Rightarrow> tools \<Rightarrow> tools" where
  "reg_list_tokens P =
     mcp_tool ''list_tokens'' Admin ''List token metadata (no plaintext, no hashes).''
       (object_schema [] []) (mcp_list_tokens P)"

definition reg_revoke_token :: "tools \<Rightarrow> tools" where
  "reg_revoke_token =
     mcp_tool ''revoke_token'' Admin ''Revoke a token by id (subsequent uses fail with UNAUTHORIZED).''
       (object_schema [(''token_id'', str_schema)] [''token_id'']) mcp_revoke"

definition reg_mint_token :: "'n platform \<Rightarrow> tools \<Rightarrow> tools" where
  "reg_mint_token P =
     mcp_tool ''mint_token'' Admin ''Mint a new bearer token with the chosen scope. Plaintext shown once.''
       (object_schema [(''scope'', enum_schema [''read'', ''editor'', ''admin'']), (''label'', str_schema)]
          [''scope'', ''label'']) (mcp_mint P)"

definition reg_undo_promote :: "tools \<Rightarrow> tools" where
  "reg_undo_promote =
     mcp_tool ''undo_promote'' Admin
       ''One-shot: restore previous_production -> production, then clear the slot.''
       (object_schema [] []) mcp_undo"

definition reg_revert_staging_to_production :: "tools \<Rightarrow> tools" where
  "reg_revert_staging_to_production =
     mcp_tool ''revert_staging_to_production'' Admin
       ''Overwrite staging with current production. Discards staging edits.''
       (object_schema [] []) mcp_revert"

definition reg_promote_staging_to_production :: "tools \<Rightarrow> tools" where
  "reg_promote_staging_to_production =
     mcp_tool ''promote_staging_to_production'' Admin
       ''Atomic: previous_production <- production; production <- staging.''
       (object_schema [(''commit_message'', str_schema)] [''commit_message'']) mcp_promote"

definition add_admin_tools :: "'n platform \<Rightarrow> tools \<Rightarrow> tools" where
  "add_admin_tools P ts =
     reg_list_connections P
     (reg_delete_connection
     (reg_add_connection P
     (reg_list_tokens P
     (reg_revoke_token
     (reg_mint_token P
     (reg_undo_promote
     (reg_revert_staging_to_production
     (reg_promote_staging_to_production ts))))))))"

definition reg_delete_orphan_uploads :: "tools \<Rightarrow> tools" where
  "reg_delete_orphan_uploads =
     mcp_tool ''delete_orphan_uploads'' Admin ''Delete uploads that were never associated with a job.''
       (object_schema [(''older_than_minutes'', min_schema 1)] [''older_than_minutes'']) delete_orphan_uploads"

definition reg_cancel_ingestion_job :: "tools \<Rightarrow> tools" where
  "reg_cancel_ingestion_job =
     mcp_tool ''cancel_ingestion_job'' Editor
       ''Cooperatively cancel a job. Already-imported or failed jobs cannot be cancelled.''
       (object_schema [(''job_id'', str_schema)] [''job_id'']) cancel_ingestion_job"

definition reg_list_ingestion_jobs :: "'n platform \<Rightarrow> tools \<Rightarrow> tools" where
  "reg_list_ingestion_jobs P =
     mcp_tool ''list_ingestion_jobs'' Editor ''List ingestion jobs (most-recent first).''
       (object_schema [(''limit'', JObj [(''type'', JStr ''integer''), (''minimum'', JInt 1),
          (''maximum'', JInt 200)])] []) (list_ingestion_jobs P)"

definition reg_get_ingestion_job :: "tools \<Rightarrow> tools" where
  "reg_get_ingestion_job =
     mcp_tool ''get_ingestion_job'' Editor ''Status and decisions report for a specific ingestion job.''
       (object_schema [(''job_id'', str_schema)] [''job_id'']) get_ingestion_job"

definition reg_submit_ingestion_job :: "'n platform \<Rightarrow> tools \<Rightarrow> tools" where
  "reg_submit_ingestion_job P =
     mcp_tool ''submit_ingestion_job'' Editor ''Kick off an ingestion job over previously-uploaded files.''
       (object_schema [(''upload_ids'', JObj [(''type'', JStr ''array''), (''items'', str_schema)]),
          (''mode'', enum_schema [''replace'', ''merge'']), (''instructions'', str_schema)]
          [''upload_ids'', ''mode'']) (submit_ingestion_job P)"

definition reg_register_upload :: "'n platform \<Rightarrow> tools \<Rightarrow> tools" where
  "reg_register_upload P =
     mcp_tool ''register_upload'' Admin
       (''Upload a (small) file directly via MCP. ''
         @ ''Files > max upload bytes should use POST /admin/ingestion/uploads instead.'')
       (object_schema [(''filename'', str_schema), (''base64_content'', str_schema)]
          [''filename'', ''base64_content'']) (register_upload P)"

definition add_ingestion_tools :: "'n platform \<Rightarrow> tools \<Rightarrow> tools" where
  "add_ingestion_tools P ts =
     reg_delete_orphan_uploads
     (reg_cancel_ingestion_job
     (reg_list_ingestion_jobs P
     (reg_get_ingestion_job
     (reg_submit_ingestion_job P
     (reg_register_upload P ts)))))"

definition tool_table :: "'n platform \<Rightarrow> tools" where
  "tool_table P = add_ingestion_tools P (add_admin_tools P (add_editor_tools P (add_read_tools P base_tools)))"

lemmas reg_defs = reg_query_sql_def reg_describe_bound_asset_def reg_find_by_api_name_def reg_get_entity_def
  reg_get_registry_def reg_set_asset_mapping_def reg_import_full_registry_to_staging_def reg_validate_staging_def
  reg_list_connections_def reg_delete_connection_def reg_add_connection_def reg_list_tokens_def
  reg_revoke_token_def reg_mint_token_def reg_undo_promote_def reg_revert_staging_to_production_def
  reg_promote_staging_to_production_def reg_delete_orphan_uploads_def reg_cancel_ingestion_job_def reg_list_ingestion_jobs_def
  reg_get_ingestion_job_def reg_submit_ingestion_job_def reg_register_upload_def

subsection \<open>Relations that every action honours\<close>

definition honours :: "('s \<Rightarrow> 's \<Rightarrow> bool) \<Rightarrow> ('s, exn, 'a) act \<Rightarrow> bool" where
  "honours R m \<longleftrightarrow> (\<forall>s r s'. m s = (r, s') \<longrightarrow> R s s')"

text \<open>A relation between the states before and after, closed under doing nothing and doing more.\<close>

lemma read_only_tables: "read_only (load e)" "read_only conn_ids" "read_only (get_by_id cid)"
    "read_only list_all_connections" "read_only list_tokens" "read_only (get_job jid)"
  by (simp_all add: read_only_load read_only_conn_ids read_only_get_by_id)
    (auto simp: list_all_connections_def list_tokens_def get_job_def read_only_def statement_def
      split: if_splits)

locale frame =
  fixes R :: "db \<Rightarrow> db \<Rightarrow> bool"
  assumes refl: "R s s"
    and trans: "R s t \<Longrightarrow> R t u \<Longrightarrow> R s u"
begin

lemma bind: "honours R m \<Longrightarrow> (\<And>x. honours R (f x)) \<Longrightarrow> honours R (bind m f)"
  unfolding honours_def
proof (intro allI impI)
  fix s r s' assume m: "\<forall>s r s'. m s = (r, s') \<longrightarrow> R s s'"
    and f: "\<And>x. \<forall>s r s'. f x s = (r, s') \<longrightarrow> R s s'" and run: "bind m f s = (r, s')"
  obtain r1 s1 where s1: "m s = (r1, s1)" by (cases "m s")
  with m have "R s s1" by blast
  moreover have "R s1 s'"
    using run s1 f refl by (cases r1) (auto simp: bind_def)
  ultimately show "R s s'" by (rule trans)
qed

lemma read: "read_only m \<Longrightarrow> honours R m"
  unfolding honours_def read_only_def using refl by blast

lemma simple: "honours R (ret x)" "honours R (raise e)" "honours R (lift_sum r)" "honours R (reads g)"
  by (simp_all add: honours_def act_simps refl)

lemma in_statement: "honours R m \<Longrightarrow> honours R (statement m)"
  by (auto simp: honours_def statement_def refl)

lemma in_case: "honours R m \<Longrightarrow> honours R m' \<Longrightarrow> honours R (if b then m else m')"
  by simp

lemma loads: "honours R (load e)" "honours R conn_ids" "honours R (get_by_id cid)"
    "honours R list_all_connections" "honours R list_tokens" "honours R (get_job jid)"
  by (intro read read_only_tables)+

end

definition same_audit :: "db \<Rightarrow> db \<Rightarrow> bool" where
  "same_audit s s' \<longleftrightarrow> audit_log s' = audit_log s"

interpretation audit_frame: frame same_audit
  by unfold_locales (simp_all add: same_audit_def)

text \<open>
  The invariant of the database: three slots, each holding a registry with unique keys that is
  well-formed up to which connections are registered, under a version that is not negative.
\<close>

definition sound :: "db \<Rightarrow> bool" where
  "sound s \<longleftrightarrow> kinds_ok s \<and> (\<forall>e. \<exists>r n. slot s e = Some (r, n) \<and> good UNIV r \<and> 0 \<le> n)"

text \<open>A slot's version never goes back, and its payload changes only with its version.\<close>

definition evolves :: "db \<Rightarrow> db \<Rightarrow> bool" where
  "evolves s s' \<longleftrightarrow> (\<forall>e r n. slot s e = Some (r, n) \<longrightarrow>
     (\<exists>r' n'. slot s' e = Some (r', n') \<and> n \<le> n' \<and> (n' = n \<longrightarrow> r' = r)))"

definition step_ok :: "db \<Rightarrow> db \<Rightarrow> bool" where
  "step_ok s s' \<longleftrightarrow> (sound s \<longrightarrow> sound s' \<and> evolves s s')"

lemma evolves_refl: "evolves s s"
  by (auto simp: evolves_def)

lemma evolves_trans:
  assumes "evolves s t" "evolves t u"
  shows "evolves s u"
  unfolding evolves_def
proof (intro allI impI)
  fix e r n assume "slot s e = Some (r, n)"
  with assms(1) obtain r1 n1 where 1: "slot t e = Some (r1, n1)" "n \<le> n1" "n1 = n \<longrightarrow> r1 = r"
    unfolding evolves_def by blast
  with assms(2) obtain r2 n2 where "slot u e = Some (r2, n2)" "n1 \<le> n2" "n2 = n1 \<longrightarrow> r2 = r1"
    unfolding evolves_def by blast
  with 1 show "\<exists>r' n'. slot u e = Some (r', n') \<and> n \<le> n' \<and> (n' = n \<longrightarrow> r' = r)"
    by (intro exI [where x = r2] exI [where x = n2]) auto
qed

interpretation step_frame: frame step_ok
  using evolves_refl evolves_trans by unfold_locales (auto simp: step_ok_def)

text \<open>An action that leaves the registries alone.\<close>

definition quiet :: "(db, exn, 'a) act \<Rightarrow> bool" where
  "quiet m \<longleftrightarrow> (\<forall>s r s'. m s = (r, s') \<longrightarrow>
     registries s' = registries s \<and> audit_log s' = audit_log s \<and> (kinds_ok s \<longrightarrow> kinds_ok s'))"

lemma same_registries: "registries s' = registries s \<Longrightarrow> slot s' = slot s"
  by (simp add: slot_def fun_eq_iff)

lemma quiet_step:
  assumes "quiet m"
  shows "honours step_ok m"
  unfolding honours_def step_ok_def
proof (intro allI impI)
  fix s r s' assume run: "m s = (r, s')" and ok: "sound s"
  have "registries s' = registries s \<and> audit_log s' = audit_log s \<and> (kinds_ok s \<longrightarrow> kinds_ok s')"
    using assms run unfolding quiet_def by blast
  then have "slot s' = slot s" "kinds_ok s \<longrightarrow> kinds_ok s'"
    using same_registries by blast+
  with ok show "sound s' \<and> evolves s s'"
    unfolding sound_def evolves_def by auto
qed

lemma quiet_audit: "quiet m \<Longrightarrow> honours same_audit m"
  unfolding quiet_def honours_def same_audit_def by blast

lemma quietI:
  assumes "\<And>s r s'. \<not> tx_aborted s \<Longrightarrow> m s = (r, s') \<Longrightarrow>
     registries s' = registries s \<and> audit_log s' = audit_log s \<and> (kinds_ok s \<longrightarrow> kinds_ok s')"
  shows "quiet (statement m)"
  unfolding quiet_def
proof (intro allI impI)
  fix s r s' assume run: "statement m s = (r, s')"
  show "registries s' = registries s \<and> audit_log s' = audit_log s \<and> (kinds_ok s \<longrightarrow> kinds_ok s')"
  proof (cases "tx_aborted s")
    case True
    with run show ?thesis by (simp add: statement_def)
  next
    case False
    with run have "m s = (r, s')" by (simp add: statement_def)
    from assms [OF False this] show ?thesis .
  qed
qed

lemma quiet_tables:
  "quiet (insert_token H tid plaintext sc label creator)" "quiet (revoke_token tid)"
  "quiet (insert_upload uid filename kind nbytes sha path creator)"
  "quiet (create_job jid mode ins ups creator)"
  unfolding insert_token_def revoke_token_def insert_upload_def create_job_def
  by (rule quietI; auto simp: kinds_ok_def Let_def split: if_splits)+

lemma kind_value_known: "kind_value k = ''postgres'' \<or> kind_value k = ''mysql'' \<or> kind_value k = ''sqlite''"
  by (cases k) simp_all

lemma kind_value_cases: "kind_value k \<noteq> ''postgres'' \<Longrightarrow> kind_value k \<noteq> ''mysql'' \<Longrightarrow> kind_value k = ''sqlite''"
  using kind_value_known [of k] by blast

lemma quiet_connections:
  "quiet (insert_connection F cid label kind dsn)" "quiet (mark_probe_ok cid)" "quiet (delete_connection_row cid)"
  unfolding insert_connection_def mark_probe_ok_def delete_connection_row_def
  by (rule quietI; auto simp: kinds_ok_def modify_apply update_where_def
      split: if_splits dest: kind_value_cases)+

subsection \<open>Writes to the registries\<close>

lemma asset_ok_mono: "asset_ok C am \<Longrightarrow> asset_ok UNIV am"
  by (simp add: asset_ok_def)

lemma wf_mono: "wf_ontology C r \<Longrightarrow> wf_ontology UNIV r"
  unfolding wf_ontology_def wf_object_def wf_link_def using asset_ok_mono by blast

lemma edit_wf_any:
  assumes "wf_ontology UNIV r" "apply_edit C e r = Inr r'"
  shows "wf_ontology UNIV r'"
proof -
  have "wf_ontology C r' \<or> apply_edit UNIV e r = Inr r'"
    using assms(2) by (cases e) (auto simp: import_result elim: set_asset_result dest: put_wfs)
  then show ?thesis
    using wf_mono edit_wf [OF assms(1)] by blast
qed

lemma sound_saved:
  assumes "sound s" "slot s e = Some (r, n)" "good UNIV reg"
  shows "sound (saved e reg label msg s) \<and> evolves s (saved e reg label msg s)"
proof -
  have kinds: "kinds_ok (saved e reg label msg s)"
    using assms(1) same_tables_fields [OF saved_same_tables [of s e reg label msg]]
    by (simp add: sound_def kinds_ok_def)
  have n: "0 \<le> n" using assms(1,2) unfolding sound_def by (metis option.inject prod.inject)
  have slots: "slot (saved e reg label msg s) = (slot s)(e \<mapsto> (reg, n + 1))"
    using assms(2) by simp
  have "\<exists>r' n'. slot (saved e reg label msg s) d = Some (r', n') \<and> good UNIV r' \<and> 0 \<le> n'" for d
    using assms(1,3) n unfolding slots sound_def by (cases "d = e") auto
  moreover have "evolves s (saved e reg label msg s)"
    using assms(2) unfolding evolves_def slots by auto
  ultimately show ?thesis using kinds unfolding sound_def by blast
qed

lemma good_of_slot: "sound s \<Longrightarrow> slot s e = Some (r, n) \<Longrightarrow> good UNIV r"
  unfolding sound_def by (metis option.inject prod.inject)

lemma edit_staging_step:
  assumes "\<And>reg e. mk reg = Inr e \<Longrightarrow> edit_ok e"
  shows "honours step_ok (edit_staging p mk v ver)"
  unfolding honours_def step_ok_def
proof (intro allI impI)
  fix s r s' assume run: "edit_staging p mk v ver s = (r, s')" and ok: "sound s"
  show "sound s' \<and> evolves s s'"
  proof (cases r)
    case (Inl e)
    with run edit_staging_Inl have "s' = s" by blast
    with ok evolves_refl show ?thesis by simp
  next
    case (Inr j)
    have kinds: "kinds_ok s" using ok by (simp add: sound_def)
    from run [unfolded Inr] kinds obtain reg n e reg' where slot: "slot s Staging = Some (reg, n)"
      and e: "mk reg = Inr e" "apply_edit (if v then conn_ids_of s else {}) e reg = Inr reg'"
      and s': "s' = saved Staging reg' (Some (pr_label p)) None s"
      by (rule edit_staging_Inr)
    have "good UNIV reg" using good_of_slot [OF ok slot] .
    then have "good UNIV reg'"
      using edit_wf_any [OF _ e(2)] edit_keys_ok [OF _ assms [OF e(1)] e(2)] by (simp add: good_def)
    with sound_saved [OF ok slot] s' show ?thesis by blast
  qed
qed

lemma promote_step: "honours step_ok (promote_staging_to_production msg label C)"
  unfolding honours_def step_ok_def
proof (intro allI impI)
  fix s r s' assume run: "promote_staging_to_production msg label C s = (r, s')" and ok: "sound s"
  obtain st v1 pr v2 pp v3 where sl: "slots s (st, v1) (pr, v2) (pp, v3)"
    using ok unfolding sound_def slots_def by metis
  define m where "m = saved Previous_production pr label None s"
  have st: "slot s Staging = Some (st, v1)" and p: "slot s Production = Some (pr, v2)"
    and pv: "slot s Previous_production = Some (pp, v3)" using sl by (simp_all add: slots_def)
  have m: "sound m \<and> evolves s m"
    unfolding m_def by (rule sound_saved [OF ok pv good_of_slot [OF ok p]])
  have "slot m Production = Some (pr, v2)"
    using pv p by (simp add: m_def)
  with m have "sound (saved Production st label (Some msg) m)
      \<and> evolves m (saved Production st label (Some msg) m)"
    using sound_saved [OF _ _ good_of_slot [OF ok st]] by blast
  with m have "sound (saved Production st label (Some msg) m)
      \<and> evolves s (saved Production st label (Some msg) m)"
    using evolves_trans by blast
  then show "sound s' \<and> evolves s s'"
    using run promote_run [OF sl, of msg label C] ok evolves_refl
    by (auto simp: m_def split: if_splits)
qed

lemma revert_step: "honours step_ok (revert_staging_to_production label)"
  unfolding honours_def step_ok_def
proof (intro allI impI)
  fix s r s' assume run: "revert_staging_to_production label s = (r, s')" and ok: "sound s"
  obtain st v1 pr v2 where sl: "slot s Staging = Some (st, v1)" "slot s Production = Some (pr, v2)"
    using ok unfolding sound_def by metis
  with run have "s' = saved Staging pr label None s"
    by (simp add: revert_staging_to_production_def act_simps)
  with sound_saved [OF ok sl(1) good_of_slot [OF ok sl(2)]] show "sound s' \<and> evolves s s'" by simp
qed

lemma good_empty_any: "good UNIV empty_registry"
  by (rule good_empty)

lemma undo_step: "honours step_ok (undo_promote label)"
  unfolding honours_def step_ok_def
proof (intro allI impI)
  fix s r s' assume run: "undo_promote label s = (r, s')" and ok: "sound s"
  obtain st v1 pr v2 pp v3 where sl: "slots s (st, v1) (pr, v2) (pp, v3)"
    using ok unfolding sound_def slots_def by metis
  define m where "m = saved Production pp label None s"
  have p: "slot s Production = Some (pr, v2)" and pv: "slot s Previous_production = Some (pp, v3)"
    using sl by (simp_all add: slots_def)
  have m: "sound m \<and> evolves s m"
    unfolding m_def by (rule sound_saved [OF ok p good_of_slot [OF ok pv]])
  have "slot m Previous_production = Some (pp, v3)"
    using pv p by (simp add: m_def)
  with m have "sound (saved Previous_production empty_registry label None m)
      \<and> evolves m (saved Previous_production empty_registry label None m)"
    using sound_saved [OF _ _ good_empty_any] by blast
  with m have "sound (saved Previous_production empty_registry label None m)
      \<and> evolves s (saved Previous_production empty_registry label None m)"
    using evolves_trans by blast
  then show "sound s' \<and> evolves s s'"
    using run undo_run [OF sl, of label] ok evolves_refl by (auto simp: m_def split: if_splits)
qed

text \<open>None of them touches the audit log.\<close>

lemma save_audit: "honours same_audit (save e reg x label msg)"
  using save_same_tables same_tables_fields unfolding honours_def same_audit_def by metis

lemmas audit_intros = audit_frame.bind audit_frame.simple audit_frame.loads save_audit
  audit_frame.read [OF read_only_query] audit_frame.in_case
  quiet_tables [THEN quiet_audit] quiet_connections [THEN quiet_audit]

lemma lifecycle_audit:
  "honours same_audit (promote_staging_to_production msg label C)"
  "honours same_audit (revert_staging_to_production label)"
  "honours same_audit (undo_promote label)"
  "honours same_audit (edit_staging p mk v ver)"
  unfolding promote_staging_to_production_def revert_staging_to_production_def undo_promote_def
    edit_staging_def save_staging_def
  by (intro audit_intros)+

subsection \<open>Every handler of the table\<close>

definition admin_handlers :: "'n platform \<Rightarrow> handler list" where
  "admin_handlers P =
     [mcp_promote, mcp_revert, mcp_undo, mcp_mint P, mcp_revoke, mcp_list_tokens P, mcp_add_connection P,
      mcp_delete_connection, mcp_list_connections P, register_upload P, submit_ingestion_job P,
      get_ingestion_job, list_ingestion_jobs P, cancel_ingestion_job, delete_orphan_uploads]"

definition handlers :: "'n platform \<Rightarrow> handler set" where
  "handlers P = set (read_handlers P) \<union> set (editor_handlers P) \<union> {validate_staging} \<union> set (admin_handlers P)"

text \<open>The tools a caller below the admin scope can run.\<close>

definition open_handlers :: "'n platform \<Rightarrow> handler set" where
  "open_handlers P = set (read_handlers P) \<union> set (editor_handlers P) \<union>
     {validate_staging, submit_ingestion_job P, get_ingestion_job, list_ingestion_jobs P, cancel_ingestion_job}"

definition placed :: "'n platform \<Rightarrow> tool_spec \<Rightarrow> bool" where
  "placed P spec \<longleftrightarrow> ts_handler spec \<in> handlers P
     \<and> (ts_scope spec < Admin \<longrightarrow> ts_handler spec \<in> open_handlers P)
     \<and> (ts_scope spec < Editor \<longrightarrow> ts_handler spec \<in> set (read_handlers P))"

definition table_ok :: "(tool_spec \<Rightarrow> bool) \<Rightarrow> tools \<Rightarrow> bool" where
  "table_ok Q ts \<longleftrightarrow> (\<forall>spec \<in> snd ` set ts. Q spec)"

lemma table_ok_tool:
  "table_ok Q ts \<Longrightarrow> Q \<lparr>ts_name = name, ts_scope = sc, ts_description = descr, ts_schema = schema, ts_handler = fn\<rparr>
     \<Longrightarrow> table_ok Q (mcp_tool name sc descr schema fn ts)"
proof -
  have "set (dict_set k v d) \<subseteq> insert (k, v) (set d)" for k and v :: tool_spec and d
    by (induction d) (auto simp: dict_set_def)
  then have "snd ` set (dict_set k v d) \<subseteq> insert v (snd ` set d)" for k and v :: tool_spec and d
    by (metis image_insert image_mono snd_conv)
  then show "table_ok Q ts \<Longrightarrow> Q \<lparr>ts_name = name, ts_scope = sc, ts_description = descr, ts_schema = schema,
      ts_handler = fn\<rparr> \<Longrightarrow> table_ok Q (mcp_tool name sc descr schema fn ts)"
    unfolding mcp_tool_def table_ok_def by fastforce
qed

lemma placed_table: "table_ok (placed P) (tool_table P)"
proof -
  note sets = placed_def handlers_def open_handlers_def read_handlers_def editor_handlers_def
    admin_handlers_def less_scope_def
  have "table_ok (placed P) base_tools"
    unfolding base_tools_def by (intro table_ok_tool) (simp_all add: table_ok_def sets)
  then have "table_ok (placed P) (add_read_tools P base_tools)"
    unfolding add_read_tools_def add_lister_def reg_defs by (intro table_ok_tool) (simp_all add: sets)
  then have "table_ok (placed P) (add_editor_tools P (add_read_tools P base_tools))"
    unfolding add_editor_tools_def add_put_def add_del_def reg_defs by (intro table_ok_tool) (simp_all add: sets)
  then have "table_ok (placed P) (add_admin_tools P (add_editor_tools P (add_read_tools P base_tools)))"
    unfolding add_admin_tools_def reg_defs by (intro table_ok_tool) (simp_all add: sets)
  then show ?thesis
    unfolding tool_table_def add_ingestion_tools_def reg_defs by (intro table_ok_tool) (simp_all add: sets)
qed

lemma table_placed: "spec \<in> set (dict_vals (tool_table P)) \<Longrightarrow> placed P spec"
  using placed_table [of P] unfolding table_ok_def by auto

lemma table_handlers: "spec \<in> set (dict_vals (tool_table P)) \<Longrightarrow> ts_handler spec \<in> handlers P"
  using table_placed unfolding placed_def by blast

lemma statement_cases: "(\<And>s r s'. \<not> tx_aborted s \<Longrightarrow> m s = (r, s') \<Longrightarrow> R s s') \<Longrightarrow> (\<And>s. R s s)
    \<Longrightarrow> honours R (statement m)"
  unfolding honours_def statement_def by (auto split: if_splits)

lemma quiet_cancel: "quiet (statement (\<lambda>s. case py_uuid job_id of
     None \<Rightarrow> (Inl (OtherException ''DBAPIError'' ''invalid UUID''), s\<lparr>tx_aborted := True\<rparr>)
   | Some jid \<Rightarrow>
       (Inr (), s\<lparr>ingestion_jobs := update_where (\<lambda>j. jb_id j = jid \<and> cancellable j)
          (\<lambda>j. j\<lparr>jb_status := ''cancelled'', jb_finished_at := Some (db_now s)\<rparr>) (ingestion_jobs s)\<rparr>)))"
  by (rule quietI) (auto simp: kinds_ok_def split: option.splits)

lemma quiet_orphans: "quiet (statement (\<lambda>s. (Inr (length (filter (is_orphan m s) (ingestion_uploads s))),
    s\<lparr>ingestion_uploads := filter (\<lambda>u. \<not> is_orphan m s u) (ingestion_uploads s)\<rparr>)))"
  by (rule quietI) (auto simp: kinds_ok_def)

lemma step_case_prod: "(\<And>a b. honours R (f a b)) \<Longrightarrow> honours R (case x of (a, b) \<Rightarrow> f a b)"
  by (cases x) simp

lemma honours_let: "honours R (f x) \<Longrightarrow> honours R (let y = x in f y)"
  by simp

lemma step_register:
  "honours step_ok (register_connection F drv cid label kind dsn)"
  "honours same_audit (register_connection F drv cid label kind dsn)"
  unfolding register_connection_def probe_def
  by (cases "drv dsn kind";
      simp add: step_frame.simple audit_frame.simple;
      intro step_frame.bind audit_frame.bind step_frame.loads audit_frame.loads
        quiet_connections [THEN quiet_step] quiet_connections [THEN quiet_audit])+

lemmas step_intros = step_frame.bind step_frame.simple step_frame.loads step_frame.in_case
  quiet_tables [THEN quiet_step] quiet_connections [THEN quiet_step] quiet_cancel [THEN quiet_step]
  quiet_orphans [THEN quiet_step] promote_step revert_step undo_step step_register(1) step_case_prod honours_let

lemmas audit_all_intros = audit_intros lifecycle_audit quiet_cancel [THEN quiet_audit]
  quiet_orphans [THEN quiet_audit] step_register(2) step_case_prod honours_let

lemma editor_steps:
  assumes "parsers_ok P" "h \<in> set (editor_handlers P)"
  shows "honours step_ok (h p a)" "honours same_audit (h p a)"
proof -
  have put: "honours step_ok (put_factory parse p a)" if "\<And>j e. parse j = Inr e \<Longrightarrow> edit_ok e" for parse
    unfolding put_factory_def using that by (intro step_intros edit_staging_step)
  have del: "honours step_ok (del_factory mk p a)" if "\<And>rid. edit_ok (mk rid)" for mk
    unfolding del_factory_def using that by (intro step_intros edit_staging_step) auto
  have imp: "honours step_ok (import_full P p a)"
    unfolding import_full_def using assms(1)
    by (intro step_intros edit_staging_step) (auto simp: bind_sum_Inr parsers_ok_def)
  have bnd: "honours step_ok (mcp_set_asset_mapping P p a)"
    unfolding mcp_set_asset_mapping_def
    by (intro step_intros edit_staging_step) (auto simp: parsed_def bind_sum_Inr)
  show "honours step_ok (h p a)"
    using assms imp bnd unfolding editor_handlers_def
    by (auto simp: parsed_def bind_sum_Inr parsers_ok_def intro!: put del)
  show "honours same_audit (h p a)"
    using assms(2) unfolding editor_handlers_def
    by (auto simp: put_factory_def del_factory_def import_full_def mcp_set_asset_mapping_def
        intro!: audit_all_intros)
qed

lemma read_rows: "read_only (statement (reads g))"
  by (intro read_only_intros)

lemma admin_steps:
  assumes "h \<in> set (admin_handlers P)"
  shows "honours step_ok (h p a)"
  using assms unfolding admin_handlers_def
  by (auto simp: mcp_promote_def mcp_revert_def mcp_undo_def mcp_mint_def mcp_revoke_def mcp_list_tokens_def
      mcp_add_connection_def mcp_delete_connection_def mcp_list_connections_def register_upload_def
      submit_ingestion_job_def get_ingestion_job_def list_ingestion_jobs_def cancel_ingestion_job_def
      delete_orphan_uploads_def intro!: step_intros step_frame.read [OF read_rows])

lemma admin_audit:
  assumes "h \<in> set (admin_handlers P)"
  shows "honours same_audit (h p a)"
  using assms unfolding admin_handlers_def
  by (auto simp: mcp_promote_def mcp_revert_def mcp_undo_def mcp_mint_def mcp_revoke_def mcp_list_tokens_def
      mcp_add_connection_def mcp_delete_connection_def mcp_list_connections_def register_upload_def
      submit_ingestion_job_def get_ingestion_job_def list_ingestion_jobs_def cancel_ingestion_job_def
      delete_orphan_uploads_def intro!: audit_all_intros audit_frame.read [OF read_rows])

lemma read_only_validate_staging: "read_only (validate_staging p a)"
  unfolding validate_staging_def
  by (intro read_only_intros read_only_conn_ids)

lemma handler_steps:
  assumes "parsers_ok P" "h \<in> handlers P"
  shows "honours step_ok (h p a)" "honours same_audit (h p a)"
proof -
  have "h \<in> set (editor_handlers P) \<or> h \<in> set (admin_handlers P) \<or> read_only (h p a)"
    using assms(2) read_handlers_read_only read_only_validate_staging unfolding handlers_def by blast
  then show "honours step_ok (h p a)" "honours same_audit (h p a)"
    by (elim disjE; simp add: editor_steps [OF assms(1)] admin_steps admin_audit step_frame.read audit_frame.read)+
qed

lemma table_no_audit: "parsers_ok P \<Longrightarrow> no_audit (tool_table P)"
  using handler_steps(2) table_handlers unfolding no_audit_def honours_def same_audit_def by blast

subsection \<open>What requests do\<close>

lemma sound_audit: "sound (s\<lparr>audit_log := l\<rparr>) = sound s" "evolves s (t\<lparr>audit_log := l\<rparr>) = evolves s t"
  by (simp_all add: sound_def evolves_def kinds_ok_def slot_def)

lemma call_tool_step:
  assumes "parsers_ok P" "ts_handler spec \<in> handlers P" "call_tool spec p a s = (Inr resp, s')" "sound s"
  shows "sound s' \<and> evolves s s'"
proof -
  have quiet: "sound t \<and> evolves s t" if "t = s\<lparr>audit_log := l\<rparr>" for t l
    using that assms(4) by (simp add: sound_audit evolves_refl)
  have run: "sound t \<and> evolves s t" if h: "call_handler spec p a s = (r, s1)" and t: "t = s1\<lparr>audit_log := l\<rparr>"
    for r s1 t l
  proof -
    have "s1 = s \<or> (\<exists>d. ts_handler spec p d s = (r, s1))"
      using h by (cases a) (auto simp: call_handler_def raise_apply split: if_splits)
    moreover have "sound s1 \<and> evolves s s1" if "ts_handler spec p d s = (r, s1)" for d
      using handler_steps(1) [OF assms(1,2), of p d] that assms(4) unfolding honours_def step_ok_def by blast
    ultimately have "sound s1 \<and> evolves s s1" using assms(4) evolves_refl by blast
    with t show ?thesis by (simp add: sound_audit)
  qed
  from assms(3) show ?thesis
  proof (cases rule: call_tool_cases)
    case forbidden
    from quiet [OF forbidden(4)] show ?thesis .
  next
    case error
    from run [OF error(2,5)] show ?thesis .
  next
    case ok
    from run [OF ok(2,5)] show ?thesis .
  qed
qed

end
