(* ===== verification/Reachability.thy ===== *)
theory Reachability
  imports Tool_Table
begin

text \<open>
  The running service: what any sequence of requests to the tool endpoint, logins, logouts and the
  passing of time do to the database that the migrations leave. Each request is one transaction, so
  a step is atomic, except for the last section, which splits an edit at the point where another
  request can commit between its read and its write.
\<close>

subsection \<open>Steps\<close>

text \<open>The first token is minted when the application starts on a database without tokens.\<close>

inductive system_step :: "'n platform \<Rightarrow> (rat \<Rightarrow> string) \<Rightarrow> db \<Rightarrow> db \<Rightarrow> bool" for P rf where
  boot: "bootstrap_admin_token_if_needed (pf_hasher P) new_id random s = (Inr r, s') \<Longrightarrow> system_step P rf s s'"
| request: "mcp_endpoint rf (pf_hasher P) (tool_table P) header body s = (resp, s') \<Longrightarrow> system_step P rf s s'"
| ui_login: "login (pf_settings P) (pf_hasher P) clock sid token s = (Inr r, s') \<Longrightarrow> system_step P rf s s'"
| ui_logout: "logout cookie s = (Inr (), s') \<Longrightarrow> system_step P rf s s'"
| tick: "db_now s \<le> t \<Longrightarrow> system_step P rf s (s\<lparr>db_now := t\<rparr>)"

inductive_cases system_stepE [elim]: "system_step P rf s s'"

definition reachable :: "'n platform \<Rightarrow> (rat \<Rightarrow> string) \<Rightarrow> db \<Rightarrow> bool" where
  "reachable P rf s \<longleftrightarrow> (\<exists>t. (system_step P rf)\<^sup>*\<^sup>* (migrated t) s)"

subsection \<open>Steps keep the invariant and the history\<close>

text \<open>The audit log only grows.\<close>

definition extends_log :: "db \<Rightarrow> db \<Rightarrow> bool" where
  "extends_log s s' \<longleftrightarrow> (\<exists>rows. audit_log s' = audit_log s @ rows)"

interpretation log_frame: frame extends_log
  by unfold_locales (auto simp: extends_log_def)

lemma quiet_bootstrap: "quiet (bootstrap_admin_token_if_needed H new_id random)"
  using quiet_tables(1) [of H new_id "generate_token random" Admin "''bootstrap''" None]
  unfolding quiet_def bootstrap_admin_token_if_needed_def Let_def
  by (auto simp: act_simps split: sum.splits prod.splits if_splits)

lemma quiet_modify: "(\<And>s. registries (f s) = registries s \<and> audit_log (f s) = audit_log s
    \<and> connections (f s) = connections s) \<Longrightarrow> quiet (statement (modify f))"
  by (rule quietI) (auto simp: kinds_ok_def modify_apply)

lemma quiet_login: "quiet (login cfg H clock sid token)"
  unfolding quiet_def
proof (intro allI impI)
  fix s r s' assume run: "login cfg H clock sid token s = (r, s')"
  let ?add = "\<lambda>p. statement (modify (\<lambda>s. s\<lparr>ui_sessions := ui_sessions s @
     [\<lparr>us_id = sid, us_token_id = pr_token_id p, us_scope = scope_name (pr_scope p),
       us_created_at = db_now s, us_expires_at = clock + 1000000 * ui_session_ttl_seconds cfg,
       us_revoked_at = None\<rparr>]\<rparr>))"
  have add: "quiet (?add p)" for p by (rule quiet_modify) simp
  obtain x t where look: "lookup_token H token s = (x, t)" by fastforce
  with lookup_token_frame have t: "t = s" by blast
  show "registries s' = registries s \<and> audit_log s' = audit_log s \<and> (kinds_ok s \<longrightarrow> kinds_ok s')"
  proof (cases "\<exists>p. x = Inr (Some p)")
    case True
    then obtain p where p: "x = Inr (Some p)" by blast
    obtain y v where y: "?add p s = (y, v)" by fastforce
    with run look t p have "s' = v"
      unfolding login_def by (cases y) (simp_all add: act_simps)
    with y add [of p] show ?thesis unfolding quiet_def by blast
  next
    case False
    with run look t have "s' = s"
      unfolding login_def by (auto simp: act_simps split: sum.splits option.splits)
    then show ?thesis by simp
  qed
qed

lemma quiet_logout: "quiet (logout cookie)"
proof -
  have "quiet (ret ())" by (simp add: quiet_def ret_apply)
  then show ?thesis
    unfolding logout_def by (auto split: option.split intro!: quiet_modify)
qed

lemma quiet_tick: "quiet (modify (\<lambda>s. s\<lparr>db_now := t\<rparr>))"
  by (auto simp: quiet_def modify_apply kinds_ok_def)

text \<open>How the endpoint leaves the database: unchanged, or as a call of a tool of the table left it.\<close>

lemma mcp_call_cases:
  assumes "mcp_call rf ts p params s = (x, s')" "dict_get ts [] = None"
  shows "s' = s \<or> (\<exists>n spec. dict_get params ''name'' = Some (JStr n) \<and> n \<noteq> [] \<and> dict_get ts n = Some spec
     \<and> call_tool spec p (get_or ''arguments'' (JObj []) params) s = (x, s'))"
  using assms
  by (auto simp: mcp_call_def Let_def act_simps split: option.splits json.splits if_splits)

lemma endpoint_cases:
  assumes "mcp_endpoint rf H ts header body s = (resp, s')" "dict_get ts [] = None"
  obtains (same) "s' = s"
  | (call) p spec a where "accepted_call H ts header body s p spec a"
      "call_tool spec p a s = (Inr resp, s')" "spec \<in> set (dict_vals ts)"
proof (cases "s' = s")
  case True
  then show thesis by (rule same)
next
  case changed: False
  obtain r u where auth: "require_scope H Read header s = (r, u)" by fastforce
  have u: "u = s" using require_scope_frame [OF auth] .
  from assms(1) auth u changed obtain p params where r: "r = Inr p"
    and m: "dict_get body ''method'' = Some (JStr ''tools/call'')"
    and ps: "get_or ''params'' (JObj []) body = JObj params"
    and f: "finish s (mcp_call rf ts p params s) = (resp, s')"
    by (auto simp: mcp_endpoint_def Let_def split: if_splits json.splits sum.splits exn.splits)
  have run: "mcp_call rf ts p params s = (Inr resp, s')"
    using f changed by (auto simp: finish_def split: prod.splits sum.splits)
  from mcp_call_cases [OF this assms(2)] changed obtain n spec where
    n: "dict_get params ''name'' = Some (JStr n)" "n \<noteq> []" "dict_get ts n = Some spec"
      "call_tool spec p (get_or ''arguments'' (JObj []) params) s = (Inr resp, s')" by blast
  show thesis
  proof (rule call [OF _ n(4)])
    show "accepted_call H ts header body s p spec (get_or ''arguments'' (JObj []) params)"
      using auth u r m ps n unfolding accepted_call_def by blast
    show "spec \<in> set (dict_vals ts)" using n(3) by (force dest: map_of_SomeD)
  qed
qed

lemma get_mcp_tool: "dict_get (mcp_tool name sc descr schema fn ts) n =
    (if n = name then Some \<lparr>ts_name = name, ts_scope = sc, ts_description = descr, ts_schema = schema,
       ts_handler = fn\<rparr> else dict_get ts n)"
  by (simp add: mcp_tool_def get_set)

lemmas table_parts = tool_table_def add_ingestion_tools_def add_admin_tools_def add_editor_tools_def
  add_put_def add_del_def add_read_tools_def add_lister_def base_tools_def reg_defs

lemma no_empty_name: "dict_get (tool_table P) [] = None"
  by (simp add: table_parts get_mcp_tool)

lemma quiet_log: "quiet m \<Longrightarrow> m s = (r, s') \<Longrightarrow> audit_log s' = audit_log s"
  unfolding quiet_def by blast

lemma quiet_keeps: "quiet m \<Longrightarrow> m s = (r, s') \<Longrightarrow> sound s \<Longrightarrow> sound s' \<and> evolves s s'"
  using quiet_step unfolding honours_def step_ok_def by blast

lemma step_sound:
  assumes "system_step P rf s s'" "parsers_ok P" "sound s"
  shows "sound s' \<and> evolves s s'"
  using assms(1)
proof cases
  case (boot new_id random r)
  with quiet_keeps [OF quiet_bootstrap _ assms(3)] show ?thesis by blast
next
  case (request header body resp)
  from this no_empty_name show ?thesis
  proof (cases rule: endpoint_cases)
    case same
    with assms(3) evolves_refl show ?thesis by simp
  next
    case (call p spec a)
    with call_tool_step [OF assms(2) table_handlers _ assms(3)] show ?thesis by blast
  qed
next
  case (ui_login clock sid token r)
  with quiet_keeps [OF quiet_login _ assms(3)] show ?thesis by blast
next
  case (ui_logout cookie)
  with quiet_keeps [OF quiet_logout _ assms(3)] show ?thesis by blast
next
  case (tick t)
  with quiet_keeps [OF quiet_tick modify_apply assms(3)] show ?thesis by blast
qed

lemma step_log:
  assumes "system_step P rf s s'" "parsers_ok P"
  shows "extends_log s s'"
  using assms(1)
proof cases
  case (boot new_id random r)
  with quiet_log [OF quiet_bootstrap] show ?thesis by (auto simp: extends_log_def)
next
  case (request header body resp)
  from this no_empty_name show ?thesis
  proof (cases rule: endpoint_cases)
    case same
    then show ?thesis by (simp add: log_frame.refl)
  next
    case (call p spec a)
    note handler = call_handler_audit [OF table_no_audit [OF assms(2)] call(3)]
    from call(2) show ?thesis
      by (cases rule: call_tool_cases) (auto simp: extends_log_def dest: handler)
  qed
next
  case (ui_login clock sid token r)
  with quiet_log [OF quiet_login] show ?thesis by (auto simp: extends_log_def)
next
  case (ui_logout cookie)
  with quiet_log [OF quiet_logout] show ?thesis by (auto simp: extends_log_def)
qed (simp add: extends_log_def)

text \<open>From steps to runs.\<close>

lemma run_keeps:
  assumes "(system_step P rf)\<^sup>*\<^sup>* s s'" "parsers_ok P" "sound s"
  shows "sound s' \<and> evolves s s' \<and> extends_log s s'"
  using assms(1)
proof (induction rule: rtranclp_induct)
  case base
  with assms(3) evolves_refl log_frame.refl show ?case by blast
next
  case (step t u)
  with step_sound [OF step(2) assms(2)] step_log [OF step(2) assms(2)] show ?case
    using evolves_trans log_frame.trans by blast
qed

lemma sound_migrated: "sound (migrated t)"
  using good_empty by (simp add: sound_def migrated_def kinds_ok_def slot_def)

lemma reachable_sound: "reachable P rf s \<Longrightarrow> parsers_ok P \<Longrightarrow> sound s"
  unfolding reachable_def using run_keeps sound_migrated by blast

subsection \<open>What a scope cannot change\<close>

text \<open>Production, its predecessor, the tokens and the connections are the admin's.\<close>

definition below_admin :: "db \<Rightarrow> db \<Rightarrow> bool" where
  "below_admin s s' \<longleftrightarrow> slot s' Production = slot s Production
     \<and> slot s' Previous_production = slot s Previous_production
     \<and> api_tokens s' = api_tokens s \<and> connections s' = connections s"

interpretation staging_frame: frame below_admin
  by unfold_locales (simp_all add: below_admin_def)

lemma staging_statement:
  assumes "\<And>s r s'. \<not> tx_aborted s \<Longrightarrow> m s = (r, s') \<Longrightarrow> below_admin s s'"
  shows "honours below_admin (statement m)"
  using statement_cases [of m below_admin, OF assms staging_frame.refl] .

lemma save_staging_below: "honours below_admin (save Staging reg x label msg)"
  unfolding honours_def
proof (intro allI impI)
  fix s r s' assume run: "save Staging reg x label msg s = (r, s')"
  have "slot s' e = slot s e" if "e \<noteq> Staging" for e
    using registry_store.other_keys [OF run that] .
  moreover have "same_tables s s'" using save_same_tables [OF run] .
  ultimately show "below_admin s s'"
    using same_tables_fields [of s s'] by (simp add: below_admin_def)
qed

lemma below_admin_tables:
  "honours below_admin (create_job jid mode ins ups creator)"
  "honours below_admin (statement (\<lambda>s. case py_uuid job_id of
     None \<Rightarrow> (Inl (OtherException ''DBAPIError'' ''invalid UUID''), s\<lparr>tx_aborted := True\<rparr>)
   | Some jid \<Rightarrow>
       (Inr (), s\<lparr>ingestion_jobs := update_where (\<lambda>j. jb_id j = jid \<and> cancellable j)
          (\<lambda>j. j\<lparr>jb_status := ''cancelled'', jb_finished_at := Some (db_now s)\<rparr>) (ingestion_jobs s)\<rparr>)))"
proof -
  show "honours below_admin (create_job jid mode ins ups creator)"
    unfolding create_job_def
    by (rule staging_statement) (auto simp: below_admin_def slot_def Let_def split: if_splits)
  show "honours below_admin (statement (\<lambda>s. case py_uuid job_id of
     None \<Rightarrow> (Inl (OtherException ''DBAPIError'' ''invalid UUID''), s\<lparr>tx_aborted := True\<rparr>)
   | Some jid \<Rightarrow>
       (Inr (), s\<lparr>ingestion_jobs := update_where (\<lambda>j. jb_id j = jid \<and> cancellable j)
          (\<lambda>j. j\<lparr>jb_status := ''cancelled'', jb_finished_at := Some (db_now s)\<rparr>) (ingestion_jobs s)\<rparr>)))"
    by (rule staging_statement) (auto simp: below_admin_def slot_def split: option.splits)
qed

lemmas staging_intros = staging_frame.bind staging_frame.simple staging_frame.loads staging_frame.in_case
  staging_frame.read [OF read_rows] save_staging_below below_admin_tables

lemma edit_staging_below: "honours below_admin (edit_staging p mk v ver)"
  unfolding edit_staging_def save_staging_def by (intro staging_intros)

lemma open_below_admin:
  assumes "h \<in> open_handlers P"
  shows "honours below_admin (h p a)"
proof -
  have reads: "h \<in> set (read_handlers P) \<Longrightarrow> honours below_admin (h p a)"
    using read_handlers_read_only staging_frame.read by blast
  have validate: "honours below_admin (validate_staging p a)"
    using read_only_validate_staging staging_frame.read by blast
  have edits: "h \<in> set (editor_handlers P) \<Longrightarrow> honours below_admin (h p a)"
    unfolding editor_handlers_def
    by (auto simp: put_factory_def del_factory_def import_full_def mcp_set_asset_mapping_def
        intro!: staging_intros edit_staging_below)
  have "honours below_admin (submit_ingestion_job P p a)" "honours below_admin (get_ingestion_job p a)"
    "honours below_admin (list_ingestion_jobs P p a)" "honours below_admin (cancel_ingestion_job p a)"
    unfolding submit_ingestion_job_def get_ingestion_job_def list_ingestion_jobs_def cancel_ingestion_job_def
    by (intro staging_intros honours_let)+
  with assms reads validate edits show ?thesis
    unfolding open_handlers_def by blast
qed

subsection \<open>A first step\<close>

lemma toy_boot:
  obtains s where "system_step toy_platform rf (migrated 0) s" "length (api_tokens s) = 1"
proof -
  have "\<exists>s. bootstrap_admin_token_if_needed plain_hasher ''t0'' ''abc'' (migrated 0) = (Inr (Some ''op_abc''), s)
      \<and> length (api_tokens s) = 1"
    by (simp add: bootstrap_admin_token_if_needed_def act_simps migrated_def insert_token_def statement_def Let_def
        generate_token_def TOKEN_PREFIX_def)
  then obtain s where "bootstrap_admin_token_if_needed (pf_hasher toy_platform) ''t0'' ''abc'' (migrated 0)
      = (Inr (Some ''op_abc''), s)" and one: "length (api_tokens s) = 1"
    by (auto simp: toy_platform_def)
  from that [OF system_step.boot [OF this(1)] one] show thesis .
qed

subsection \<open>Properties\<close>

text \<open>Whatever requests are served, the three slots always hold well-formed registries. In every
  reachable database each environment has a registry whose keys are unique and that satisfies every
  rule of the validator (up to which connections are registered at the moment), at a version that
  is not negative.\<close>
theorem reachable_registries_wellformed:
  assumes "reachable P rf s" and "parsers_ok P"
  shows "\<forall>e. \<exists>r n. slot s e = Some (r, n) \<and> keys_ok r \<and> wf_ontology UNIV r \<and> 0 \<le> n"
  using reachable_sound [OF assms] unfolding sound_def good_def by blast

theorem reachable_registries_wellformed_witness:
  "\<exists>s. reachable toy_platform (\<lambda>_. []) s \<and> length (api_tokens s) = 1
     \<and> (\<exists>r n. slot s Production = Some (r, n) \<and> wf_ontology UNIV r)"
proof -
  obtain s where step: "system_step toy_platform (\<lambda>_. []) (migrated 0) s" and one: "length (api_tokens s) = 1"
    by (rule toy_boot)
  have reach: "reachable toy_platform (\<lambda>_. []) s"
    unfolding reachable_def using step by blast
  from reachable_registries_wellformed [OF reach toy_parsers] one reach show ?thesis by blast
qed

text \<open>History only grows. From any reachable database, every further run keeps the audit rows
  there are, in their order, and never takes a slot's version back; a slot whose version is the same
  still holds the same registry, so a version names one registry for ever.\<close>
theorem history_only_grows:
  assumes "reachable P rf s" and "parsers_ok P" and "(system_step P rf)\<^sup>*\<^sup>* s s'"
  shows "(\<exists>rows. audit_log s' = audit_log s @ rows)
     \<and> (\<forall>e r n. slot s e = Some (r, n) \<longrightarrow>
          (\<exists>r' n'. slot s' e = Some (r', n') \<and> n \<le> n' \<and> (n' = n \<longrightarrow> r' = r)))"
  using run_keeps [OF assms(3,2) reachable_sound [OF assms(1,2)]]
  unfolding extends_log_def evolves_def by blast

theorem history_only_grows_witness:
  "\<exists>s. reachable toy_platform (\<lambda>_. []) s \<and> length (api_tokens s) = 1
     \<and> (\<exists>r n. slot s Staging = Some (r, n) \<and> 0 \<le> n \<and> (n = 0 \<longrightarrow> r = empty_registry))"
proof -
  obtain s where step: "system_step toy_platform (\<lambda>_. []) (migrated 0) s" and one: "length (api_tokens s) = 1"
    by (rule toy_boot)
  have start: "reachable toy_platform (\<lambda>_. []) (migrated 0)" and reach: "reachable toy_platform (\<lambda>_. []) s"
    unfolding reachable_def using step by blast+
  have "slot (migrated 0) Staging = Some (empty_registry, 0)"
    by (simp add: migrated_def slot_def)
  with history_only_grows [OF start toy_parsers, of s] step one reach show ?thesis by blast
qed



subsection \<open>An edit beside a concurrent commit\<close>

text \<open>
  An edit reads staging, computes the new registry and then saves it with \<open>_save\<close>, which reads the
  version again. Under PostgreSQL's default isolation the second read sees what other transactions
  have committed in between. The first half of an edit ends with the registry to be saved.
\<close>

definition prepare_edit :: "(registry \<Rightarrow> exn + edit) \<Rightarrow> bool \<Rightarrow> (db, exn, registry) act" where
  "prepare_edit mk_edit validates =
     bind (load Staging) (\<lambda>snap.
     bind (lift_sum (mk_edit (sn_registry snap))) (\<lambda>e.
     bind (if validates then conn_ids else ret {}) (\<lambda>ids.
     lift_sum (apply_edit ids e (sn_registry snap)))))"

lemma bind_assoc_act: "bind (bind m f) g = bind m (\<lambda>x. bind (f x) g)"
  by (auto simp: bind_def fun_eq_iff split: prod.splits sum.splits)

lemma edit_staging_halves:
  "edit_staging p mk v ver = bind (prepare_edit mk v) (\<lambda>new_reg. save_staging p new_reg ver)"
  by (simp add: edit_staging_def prepare_edit_def bind_assoc_act)

lemma prepare_edit_reads:
  assumes "prepare_edit mk v s = (Inr reg, s')"
  obtains old n e ids where "slot s Staging = Some (old, n)" "mk old = Inr e" "apply_edit ids e old = Inr reg"
proof -
  obtain x t where l: "load Staging s = (x, t)" by fastforce
  with assms obtain snap where x: "x = Inr snap"
    by (cases x) (auto simp: prepare_edit_def act_simps)
  from registry_store.read_result [OF l [unfolded x]] have
    sl: "slot s Staging = Some (sn_registry snap, sn_version snap)" .
  from assms l x obtain e where e: "mk (sn_registry snap) = Inr e"
    by (auto simp: prepare_edit_def act_simps split: sum.splits)
  obtain y u where c: "(if v then conn_ids else ret {}) t = (y, u)" by fastforce
  from assms l x e c obtain ids where "apply_edit ids e (sn_registry snap) = Inr reg"
    by (cases y) (auto simp: prepare_edit_def act_simps)
  with that [OF sl e] show thesis .
qed

lemma save_staging_run:
  assumes "slot s Staging = Some (r, n)"
  shows "save_staging p reg ver s =
    (if ver = None \<or> ver = Some n
     then (Inr (JObj [(''staging_version'', JInt (n + 1))]), saved Staging reg (Some (pr_label p)) None s)
     else (Inl (StaleVersionError Staging (the ver) n), s))"
  using assms by (auto simp: save_staging_def act_simps split: option.splits)

text \<open>The version check protects an edit only when the caller names the version. Let an edit
  compute its registry from one state and another transaction commit before it saves. Without
  \<open>expected_version\<close> the save succeeds whatever was committed, and staging then holds the edit of
  the old registry: the other commit is lost. With the version the edit started from, the save is
  refused as stale and nothing changes as soon as the version has moved.\<close>
theorem concurrent_edit_needs_version:
  assumes "prepare_edit mk v s0 = (Inr reg, s0)" and "slot s1 Staging = Some (r1, n1)"
  shows "(\<exists>old n0 e ids. slot s0 Staging = Some (old, n0) \<and> mk old = Inr e \<and> apply_edit ids e old = Inr reg
       \<and> (\<exists>s2. save_staging p reg None s1 = (Inr (JObj [(''staging_version'', JInt (n1 + 1))]), s2)
             \<and> slot s2 Staging = Some (reg, n1 + 1))
       \<and> (n0 \<noteq> n1 \<longrightarrow> save_staging p reg (Some n0) s1 = (Inl (StaleVersionError Staging n0 n1), s1)))"
proof -
  from prepare_edit_reads [OF assms(1)] obtain old n0 e ids where
    old: "slot s0 Staging = Some (old, n0)" "mk old = Inr e" "apply_edit ids e old = Inr reg" .
  have "slot (saved Staging reg (Some (pr_label p)) None s1) Staging = Some (reg, n1 + 1)"
    using assms(2) by simp
  with old save_staging_run [OF assms(2)] show ?thesis by auto
qed

text \<open>Two edits start from the empty registry; the import that saves last wipes out the action type.\<close>
theorem concurrent_edit_needs_version_witness:
  "\<exists>s2. save_staging \<lparr>pr_token_id = ''t'', pr_label = ''b'', pr_scope = Editor\<rparr> empty_registry None
          (saved Staging built_registry None None (migrated 0))
        = (Inr (JObj [(''staging_version'', JInt 2)]), s2)
     \<and> slot s2 Staging = Some (empty_registry, 2)
     \<and> dict_has (ac_rid sample_action) (action_types built_registry)"
proof -
  have "keys_ok empty_registry \<and> wf_ontology {} empty_registry"
    using good_empty [of "{}"] by (simp add: good_def)
  then have run: "prepare_edit (\<lambda>_. Inr (Import Replace empty_registry)) False (migrated 0) = (Inr empty_registry, migrated 0)"
    by (simp add: prepare_edit_def act_simps import_result load_def migrated_def)
  have "slot (saved Staging built_registry None None (migrated 0)) Staging = Some (built_registry, 1)"
    by (simp add: migrated_def slot_def)
  from concurrent_edit_needs_version [OF run this] show ?thesis
    by (auto simp: built_registry_is)
qed

end
