(* ===== verification/Job_Worker.thy ===== *)
theory Job_Worker
  imports Agent Reachability
begin

text \<open>
  \<open>ingestion/workers.py\<close>: one ingestion job from its files to the staging registry. The job opens a
  session for each step, and between two steps any other transaction can commit; a cancellation of
  its task is delivered at whatever step it is waiting in. Both are arguments of the model: \<open>jw_env\<close>
  is what the other transactions have made of the database when a step begins, \<open>jw_interrupt\<close> says in
  which steps the cancellation arrives. A step that ends with an exception is rolled back.
\<close>

datatype job_point =
    At_extracting | At_list | At_file nat | At_agent_running | At_load | At_validating | At_import
  | At_imported | At_report

text \<open>How the awaited agent run ends: by itself, by the wall-clock timeout, or cancelled.\<close>

datatype agent_event = Runs | Times_out | Interrupted

record 'l job_world =
  jw_env :: "job_point \<Rightarrow> db \<Rightarrow> db"
  jw_interrupt :: "job_point \<Rightarrow> bool"
  jw_agent_event :: agent_event
  jw_readers :: file_readers
  jw_llm :: "'l llm"
  jw_llm_state :: 'l
  jw_cancelled :: "json list \<Rightarrow> bool"
  jw_float_repr :: "rat \<Rightarrow> string"

definition in_session :: "(db, exn, 'a) act \<Rightarrow> (db, exn, 'a) act" where
  "in_session m = (\<lambda>s. case m s of (Inr x, s') \<Rightarrow> (Inr x, s') | (Inl e, _) \<Rightarrow> (Inl e, s))"

definition block :: "'l job_world \<Rightarrow> job_point \<Rightarrow> (db, exn, 'a) act \<Rightarrow> (db, exn, 'a) act" where
  "block W pt m = (\<lambda>s. if jw_interrupt W pt then (Inl CancelledError, jw_env W pt s)
     else in_session m (jw_env W pt s))"

definition attempt :: "(db, exn, 'a) act \<Rightarrow> (exn \<Rightarrow> (db, exn, 'a) act) \<Rightarrow> (db, exn, 'a) act" where
  "attempt m handle = (\<lambda>s. case m s of (Inl e, s') \<Rightarrow> handle e s' | (Inr x, s') \<Rightarrow> (Inr x, s'))"

subsection \<open>The prompt\<close>

definition document_parts :: "extracted_document \<Rightarrow> string list" where
  "document_parts doc =
     (''# '' @ xd_source_filename doc @ '' ('' @ xd_kind doc @ '')'')
     # concat (map (\<lambda>sec. [''## '' @ sx_heading sec, sx_text sec]) (xd_sections doc))"

definition agent_user_prompt :: "extracted_document list \<Rightarrow> string option \<Rightarrow> string" where
  "agent_user_prompt docs instructions =
     join_str (newline @ newline)
       ((case instructions of None \<Rightarrow> [] | Some t \<Rightarrow> if t = [] then [] else [''Operator instructions: '' @ t])
        @ concat (map document_parts docs))"

subsection \<open>Extraction\<close>

definition mark :: "'l job_world \<Rightarrow> uuid \<Rightarrow> job_status \<Rightarrow> status_update \<Rightarrow> (db, exn, 'a option) act" where
  "mark W jid st u = bind (block W At_report (set_status jid st u)) (\<lambda>_. ret None)"

definition failed :: "string \<Rightarrow> string \<Rightarrow> json option \<Rightarrow> status_update" where
  "failed phase code details = no_update\<lparr>su_phase := phase, su_error_code := Some code,
     su_error_details := details, su_mark_finished := True\<rparr>"

definition cancelled_update :: status_update where
  "cancelled_update = no_update\<lparr>su_phase := ''cancelled'', su_mark_finished := True\<rparr>"

definition failed_file :: "string \<Rightarrow> string \<Rightarrow> json" where
  "failed_file filename reason =
     JObj [(''failed_files'', JList [JObj [(''filename'', JStr filename), (''reason'', JStr reason)]])]"

text \<open>
  \<open>None\<close> is the early return of a job whose end has been reported. Only a failure of the extractor
  itself is reported with the file's name: an unknown kind is caught by the outer handler.
\<close>

definition extraction_failed ::
  "'l job_world \<Rightarrow> uuid \<Rightarrow> upload_row \<Rightarrow> exn \<Rightarrow> (db, exn, 'a option) act" where
  "extraction_failed W jid up e =
     (case e of
        ExtractionFailure m \<Rightarrow>
          mark W jid Failed (failed ''extraction failed'' ''EXTRACTION_FAILED''
            (Some (failed_file (up_filename up) m)))
      | _ \<Rightarrow> raise e)"

fun extract_all ::
  "'l job_world \<Rightarrow> uuid \<Rightarrow> nat \<Rightarrow> upload_row list \<Rightarrow> extracted_document list
     \<Rightarrow> (db, exn, extracted_document list option) act" where
  "extract_all W jid i [] docs = ret (Some docs)"
| "extract_all W jid i (up # ups) docs =
     bind (lift_sum (get_extractor (jw_readers W) (up_kind up))) (\<lambda>ex.
     bind (block W (At_file i) (reads (\<lambda>_. ex (up_path up) (up_filename up)))) (\<lambda>res.
       case res of
         Inr doc \<Rightarrow> extract_all W jid (i + 1) ups (docs @ [doc])
       | Inl e \<Rightarrow> extraction_failed W jid up e))"

definition extract_phase ::
  "'l job_world \<Rightarrow> uuid \<Rightarrow> (db, exn, extracted_document list option) act" where
  "extract_phase W jid =
     attempt
       (bind (block W At_extracting (set_status jid Extracting (no_update\<lparr>su_phase := ''extracting files'',
                su_progress := Some 10, su_mark_started := True\<rparr>))) (\<lambda>_.
        bind (block W At_list (list_uploads_for_job jid)) (\<lambda>uploads. extract_all W jid 0 uploads [])))
       (\<lambda>e. if e = CancelledError then mark W jid Cancelled cancelled_update
            else mark W jid Failed (failed ''extraction error'' ''EXTRACTION_FAILED''
                   (Some (JObj [(''reason'', JStr (exn_str e))]))))"

subsection \<open>The agent\<close>

record job_setup =
  js_snapshot :: snapshot
  js_job :: job
  js_conn_ids :: "string set"

definition setup_phase :: "'l job_world \<Rightarrow> uuid \<Rightarrow> (db, exn, job_setup) act" where
  "setup_phase W jid =
     bind (block W At_agent_running (set_status jid Agent_running
             (no_update\<lparr>su_phase := ''agent running'', su_progress := Some 40\<rparr>))) (\<lambda>_.
     block W At_load
       (bind (load Staging) (\<lambda>snap. bind (get_job jid) (\<lambda>j. bind conn_ids (\<lambda>ids.
          ret \<lparr>js_snapshot = snap, js_job = j, js_conn_ids = ids\<rparr>)))))"

definition agent_start :: "job_setup \<Rightarrow> working_registry" where
  "agent_start js = (if jo_mode (js_job js) = Replace then wr_empty
     else from_registry (sn_registry (js_snapshot js)))"

definition timeout_error :: exn where
  "timeout_error = OtherException ''TimeoutError'' []"

text \<open>The outcome of the agent run and the working registry it leaves.\<close>

definition agent_run ::
  "'n platform \<Rightarrow> 'l job_world \<Rightarrow> string \<Rightarrow> extracted_document list \<Rightarrow> job_setup
     \<Rightarrow> (exn + agent_run_result) \<times> working_registry" where
  "agent_run P W system_prompt docs js =
     (case jw_agent_event W of
        Times_out \<Rightarrow> (Inl timeout_error, agent_start js)
      | Interrupted \<Rightarrow> (Inl CancelledError, agent_start js)
      | Runs \<Rightarrow>
          (case run_agent P (jw_float_repr W) (jw_llm W) (jw_cancelled W) system_prompt
                  (agent_user_prompt docs (jo_instructions (js_job js))) (js_conn_ids js)
                  (llm_max_steps (pf_settings P)) (agent_start js, jw_llm_state W) of
             (r, (wr, l)) \<Rightarrow> (r, wr)))"

fun is_timeout :: "exn \<Rightarrow> bool" where
  "is_timeout (OtherException n m) = (n = ''TimeoutError'')"
| "is_timeout e = False"

definition report_agent_error :: "'n platform \<Rightarrow> 'l job_world \<Rightarrow> uuid \<Rightarrow> exn \<Rightarrow> (db, exn, 'a option) act" where
  "report_agent_error P W jid e =
     (if is_timeout e then mark W jid Failed (failed ''wall-clock timeout'' ''WALL_CLOCK_TIMEOUT'' None)
      else case e of
        StepCapExceeded n \<Rightarrow>
          mark W jid Failed (failed ''step cap exceeded'' ''STEP_CAP_EXCEEDED''
            (Some (JObj [(''max_steps'', JInt (llm_max_steps (pf_settings P)))])))
      | CancelledError \<Rightarrow> mark W jid Cancelled cancelled_update
      | _ \<Rightarrow> mark W jid Failed (failed ''LLM provider error'' ''LLM_PROVIDER_ERROR''
               (Some (JObj [(''driver_error'', JStr (exn_str e))]))))"

subsection \<open>The import\<close>

definition import_phase ::
  "'l job_world \<Rightarrow> uuid \<Rightarrow> job_setup \<Rightarrow> working_registry \<Rightarrow> (db, exn, (registry \<times> int) option) act" where
  "import_phase W jid js wr =
     attempt
       (block W At_import
         (bind (lift_sum (import_into_registry (sn_registry (js_snapshot js)) (wr_snapshot wr)
                  (jo_mode (js_job js)) (js_conn_ids js))) (\<lambda>new_reg.
          bind (save Staging new_reg (Some (sn_version (js_snapshot js))) (Some ''ingestion'') None)
            (\<lambda>new_version. ret (Some (new_reg, new_version))))))
       (\<lambda>e. case e of
          StaleVersionError env expected current \<Rightarrow>
            mark W jid Failed (failed ''stale staging'' ''STALE_VERSION''
              (Some (JObj [(''expected_version'', JInt expected), (''current_version'', JInt current)])))
        | ValidationFailedError fs \<Rightarrow>
            mark W jid Failed (failed ''validation failed'' ''VALIDATION_FAILED''
              (Some (JObj [(''findings'', JList (map brief_finding fs))])))
        | _ \<Rightarrow> raise e)"

definition decision_json :: "agent_decision \<Rightarrow> json" where
  "decision_json d =
     JObj [(''tool'', JStr (dn_tool d)), (''args_summary'', JObj (dn_args_summary d)),
           (''outcome'', JStr (dn_outcome d)), (''reason'', JStr (dn_reason d)), (''error'', JStr (dn_error d))]"

definition decisions_payload :: "agent_run_result \<Rightarrow> registry \<Rightarrow> json" where
  "decisions_payload res r =
     JObj [(''decisions'', JList (map decision_json (ar_decisions res))),
           (''imported_entity_counts'', JObj
              [(''shared_property_types'', JInt (int (length (shared_property_types r)))),
               (''interface_types'', JInt (int (length (interface_types r)))),
               (''object_types'', JInt (int (length (object_types r)))),
               (''link_types'', JInt (int (length (link_types r)))),
               (''action_types'', JInt (int (length (action_types r))))])]"

definition imported_update :: "agent_run_result \<Rightarrow> registry \<Rightarrow> int \<Rightarrow> status_update" where
  "imported_update res r v = no_update\<lparr>su_phase := ''imported'', su_progress := Some 100,
     su_decisions_report := Some (decisions_payload res r), su_staging_version_after := Some v,
     su_mark_finished := True\<rparr>"

definition finish_phase ::
  "'l job_world \<Rightarrow> uuid \<Rightarrow> job_setup \<Rightarrow> agent_run_result \<Rightarrow> working_registry \<Rightarrow> (db, exn, unit option) act" where
  "finish_phase W jid js res wr =
     bind (block W At_validating (set_status jid Validating
             (no_update\<lparr>su_phase := ''validating'', su_progress := Some 80\<rparr>))) (\<lambda>_.
     bind (import_phase W jid js wr) (\<lambda>out. case out of
       None \<Rightarrow> ret None
     | Some (new_reg, new_version) \<Rightarrow>
         bind (block W At_imported (set_status jid Imported (imported_update res new_reg new_version)))
           (\<lambda>_. ret None)))"

subsection \<open>The whole job\<close>

definition run_one_job ::
  "'n platform \<Rightarrow> 'l job_world \<Rightarrow> string \<Rightarrow> uuid \<Rightarrow> (db, exn, unit option) act" where
  "run_one_job P W system_prompt jid =
     bind (extract_phase W jid) (\<lambda>docs. case docs of
       None \<Rightarrow> ret None
     | Some ds \<Rightarrow>
         bind (setup_phase W jid) (\<lambda>js.
           case agent_run P W system_prompt ds js of
             (Inl e, _) \<Rightarrow> report_agent_error P W jid e
           | (Inr res, wr) \<Rightarrow> finish_phase W jid js res wr))"

subsection \<open>What every step of a job honours\<close>

text \<open>A relation that other transactions and the job's own status updates respect.\<close>

locale job_frame = frame R for R :: "db \<Rightarrow> db \<Rightarrow> bool" +
  fixes W :: "'l job_world" and jid :: uuid
  assumes env: "R s (jw_env W pt s)"
    and status: "honours R (set_status jid st u)"
begin

lemma in_block: "honours R m \<Longrightarrow> honours R (block W pt m)"
  unfolding honours_def
proof (intro allI impI)
  fix s r s' assume m: "\<forall>s r s'. m s = (r, s') \<longrightarrow> R s s'" and run: "block W pt m s = (r, s')"
  obtain x t where x: "m (jw_env W pt s) = (x, t)" by fastforce
  have "s' = jw_env W pt s \<or> s' = t"
    using run x by (cases x) (auto simp: block_def in_session_def split: if_splits)
  moreover have "R s t" using m x env trans by blast
  ultimately show "R s s'" using env by blast
qed

lemma attempted: "honours R m \<Longrightarrow> (\<And>e. honours R (h e)) \<Longrightarrow> honours R (attempt m h)"
  unfolding honours_def
proof (intro allI impI)
  fix s r s' assume m: "\<forall>s r s'. m s = (r, s') \<longrightarrow> R s s'"
    and h: "\<And>e. \<forall>s r s'. h e s = (r, s') \<longrightarrow> R s s'" and run: "attempt m h s = (r, s')"
  obtain x t where x: "m s = (x, t)" by fastforce
  have "s' = t \<or> (\<exists>e. h e t = (r, s'))"
    using run x by (cases x) (auto simp: attempt_def)
  with m x h show "R s s'" using trans by blast
qed

lemma marks: "honours R (mark W jid st u)"
  unfolding mark_def by (intro bind in_block status simple)

lemma in_sum_case: "(\<And>e. x = Inl e \<Longrightarrow> honours R (f e)) \<Longrightarrow> (\<And>y. x = Inr y \<Longrightarrow> honours R (g y))
    \<Longrightarrow> honours R (case x of Inl e \<Rightarrow> f e | Inr y \<Rightarrow> g y)"
  by (cases x) simp_all

lemma in_option_case: "honours R f \<Longrightarrow> (\<And>y. honours R (g y))
    \<Longrightarrow> honours R (case x of None \<Rightarrow> f | Some y \<Rightarrow> g y)"
  by (cases x) simp_all

lemma extracts: "honours R (extract_all W jid i ups docs)"
proof (induction ups arbitrary: i docs)
  case Nil
  show ?case by (simp add: simple)
next
  case (Cons up ups)
  have failure: "honours R (extraction_failed W jid up e)" for e
    unfolding extraction_failed_def by (cases e) (simp_all add: simple marks)
  show ?case
    unfolding extract_all.simps
    by (intro bind simple in_block in_sum_case failure Cons)
qed

lemma extraction: "honours R (extract_phase W jid)"
  unfolding extract_phase_def list_uploads_for_job_def
  by (intro attempted bind in_block status extracts in_case marks read read_rows)

lemma setting_up: "honours R (setup_phase W jid)"
  unfolding setup_phase_def by (intro bind in_block status loads simple)

lemma agent_report: "honours R (report_agent_error P W jid e)"
  unfolding report_agent_error_def by (cases e) (simp_all add: marks)

end

subsection \<open>A job that other transactions leave in the table\<close>

definition job_live :: "uuid \<Rightarrow> db \<Rightarrow> bool" where
  "job_live jid s \<longleftrightarrow> \<not> tx_aborted s \<and> kinds_ok s \<and> slot s Staging \<noteq> None
     \<and> (\<exists>j x. find_job jid s = Some j \<and> job_of_row j = Inr x)"

text \<open>Others may change anything, as long as the job and the staging slot stay there.\<close>

definition calm :: "'l job_world \<Rightarrow> uuid \<Rightarrow> bool" where
  "calm W jid \<longleftrightarrow> (\<forall>pt s. job_live jid s \<longrightarrow> job_live jid (jw_env W pt s))"

text \<open>Nobody else does anything.\<close>

definition alone :: "'l job_world \<Rightarrow> bool" where
  "alone W \<longleftrightarrow> (\<forall>pt s. jw_env W pt s = s)"

lemma updated_readable: "job_of_row j = Inr x \<Longrightarrow> \<exists>y. job_of_row (updated_job st u now j) = Inr y"
  by (auto simp: job_of_row_def updated_job_def bind_sum_Inr)

lemma set_status_live:
  assumes "job_live jid s"
  obtains s' j where "set_status jid st u s = (Inr (), s')" "job_live jid s'" "find_job jid s = Some j"
    "find_job jid s' = Some (updated_job st u (db_now s) j)" "s' = s\<lparr>ingestion_jobs := ingestion_jobs s'\<rparr>"
proof -
  from assms obtain j x where ok: "\<not> tx_aborted s" and j: "find_job jid s = Some j" "job_of_row j = Inr x"
    unfolding job_live_def by blast
  from set_status_run [OF ok j(1), of st u] obtain s' where
    s': "set_status jid st u s = (Inr (), s')" "find_job jid s' = Some (updated_job st u (db_now s) j)"
      "s' = s\<lparr>ingestion_jobs := ingestion_jobs s'\<rparr>" by blast
  have "tx_aborted s' = tx_aborted s" "connections s' = connections s" "registries s' = registries s"
    by (subst s'(3), simp)+
  with assms s'(2) updated_readable [OF j(2)] have "job_live jid s'"
    unfolding job_live_def kinds_ok_def slot_def by simp
  with that s' j show thesis by blast
qed

lemma set_status_registries: "honours (\<lambda>s s'. registries s' = registries s) (set_status jid st u)"
  by (auto simp: honours_def set_status_def statement_def act_simps split: if_splits)

interpretation live_frame: job_frame "\<lambda>s s'. calm W jid \<longrightarrow> job_live jid s \<longrightarrow> job_live jid s'" W jid
  for W :: "'l job_world" and jid
proof unfold_locales
  fix s st u
  show "honours (\<lambda>s s'. calm W jid \<longrightarrow> job_live jid s \<longrightarrow> job_live jid s') (set_status jid st u)"
    unfolding honours_def
  proof (intro allI impI)
    fix s r s' assume run: "set_status jid st u s = (r, s')" and live: "job_live jid s"
    from set_status_live [OF live, of st u] run show "job_live jid s'" by auto
  qed
qed (auto simp: calm_def)

interpretation quiet_frame: job_frame "\<lambda>s s'. alone W \<longrightarrow> registries s' = registries s" W jid
  for W :: "'l job_world" and jid
  using set_status_registries by unfold_locales (auto simp: alone_def honours_def)

definition ended :: "uuid \<Rightarrow> db \<Rightarrow> bool" where
  "ended jid s \<longleftrightarrow> (\<exists>j. find_job jid s = Some j \<and> jb_status j \<in> {''imported'', ''failed'', ''cancelled''}
     \<and> jb_finished_at j \<noteq> None)"

lemma status_block:
  assumes "calm W jid" "job_live jid s" "\<not> jw_interrupt W pt"
  obtains s' j where "block W pt (set_status jid st u) s = (Inr (), s')" "job_live jid s'"
    "find_job jid (jw_env W pt s) = Some j"
    "find_job jid s' = Some (updated_job st u (db_now (jw_env W pt s)) j)"
    "s' = (jw_env W pt s)\<lparr>ingestion_jobs := ingestion_jobs s'\<rparr>"
proof -
  have live: "job_live jid (jw_env W pt s)" using assms(1,2) by (simp add: calm_def)
  from set_status_live [OF live, of st u] obtain s' j where
    s': "set_status jid st u (jw_env W pt s) = (Inr (), s')" "job_live jid s'"
      "find_job jid (jw_env W pt s) = Some j"
      "find_job jid s' = Some (updated_job st u (db_now (jw_env W pt s)) j)"
      "s' = (jw_env W pt s)\<lparr>ingestion_jobs := ingestion_jobs s'\<rparr>" by blast
  moreover have "block W pt (set_status jid st u) s = (Inr (), s')"
    using s'(1) assms(3) by (simp add: block_def in_session_def)
  ultimately show thesis using that by blast
qed

lemma ended_updated:
  assumes "find_job jid s = Some (updated_job st u t j)" "st \<in> {Imported, Failed, Cancelled}" "su_mark_finished u"
  shows "ended jid s"
  using assms unfolding ended_def by (auto simp: updated_job_def)

lemma mark_ends:
  assumes "calm W jid" "job_live jid s" "\<not> jw_interrupt W At_report"
    and "st \<in> {Imported, Failed, Cancelled}" "su_mark_finished u"
  shows "\<exists>s'. mark W jid st u s = (Inr None, s') \<and> ended jid s'"
proof -
  from status_block [OF assms(1-3), of st u] obtain s' j where
    "block W At_report (set_status jid st u) s = (Inr (), s')"
    "find_job jid s' = Some (updated_job st u (db_now (jw_env W At_report s)) j)" by blast
  then have "mark W jid st u s = (Inr None, s')" and "ended jid s'"
    using ended_updated assms(4,5) by (simp_all add: mark_def act_simps)
  then show ?thesis by blast
qed

lemma finished_updates [simp]:
  "su_mark_finished (failed phase code details)" "su_mark_finished cancelled_update"
  "su_mark_finished (imported_update res r v)"
  by (simp_all add: failed_def cancelled_update_def imported_update_def)

lemma extract_all_ends:
  assumes "calm W jid" "\<not> jw_interrupt W At_report"
  shows "job_live jid s \<Longrightarrow> extract_all W jid i ups docs s = (r, s') \<Longrightarrow>
    (\<exists>ds. r = Inr (Some ds)) \<or> r = Inr None \<and> ended jid s' \<or> (\<exists>e. r = Inl e)"
proof (induction ups arbitrary: i docs s)
  case Nil
  then show ?case by (auto simp: act_simps)
next
  case (Cons up ups)
  show ?case
  proof (cases "get_extractor (jw_readers W) (up_kind up)")
    case (Inl e)
    with Cons.prems show ?thesis by (auto simp: act_simps)
  next
    case (Inr ex)
    let ?m = "reads (\<lambda>_. ex (up_path up) (up_filename up)) :: (db, exn, exn + extracted_document) act"
    obtain x t where x: "block W (At_file i) ?m s = (x, t)" by fastforce
    have t: "job_live jid t"
      using live_frame.in_block [OF live_frame.simple(4), of W jid "At_file i"] x Cons.prems(1) assms(1)
      unfolding honours_def by blast
    show ?thesis
    proof (cases x)
      case (Inl e)
      with Cons.prems Inr x show ?thesis by (auto simp: act_simps)
    next
      case y: (Inr y)
      show ?thesis
      proof (cases y)
        case (Inl e)
        show ?thesis
        proof (cases "\<exists>m. e = ExtractionFailure m")
          case True
          then obtain m where e: "e = ExtractionFailure m" by blast
          let ?u = "failed ''extraction failed'' ''EXTRACTION_FAILED''
            (Some (failed_file (up_filename up) m))"
          obtain t' where "(mark W jid Failed ?u :: (db, exn, extracted_document list option) act) t = (Inr None, t')"
            and "ended jid t'"
            using mark_ends [OF assms(1) t assms(2), of Failed ?u] by auto
          with Cons.prems Inr x y Inl e show ?thesis by (auto simp: act_simps extraction_failed_def)
        next
          case False
          with Cons.prems Inr x y Inl show ?thesis
            by (cases e) (auto simp: act_simps extraction_failed_def)
        qed
      next
        case (Inr doc)
        with Cons.prems \<open>get_extractor _ _ = Inr ex\<close> x y
        have "extract_all W jid (i + 1) ups (docs @ [doc]) t = (r, s')" by (simp add: act_simps)
        from Cons.IH [OF t this] show ?thesis .
      qed
    qed
  qed
qed

lemma extract_phase_ends:
  assumes "calm W jid" "job_live jid s" "\<not> jw_interrupt W At_report"
  obtains (docs) ds s' where "extract_phase W jid s = (Inr (Some ds), s')" "job_live jid s'"
  | (stopped) s' where "extract_phase W jid s = (Inr None, s')" "ended jid s'"
proof -
  let ?m = "bind (block W At_extracting (set_status jid Extracting (no_update\<lparr>su_phase := ''extracting files'',
                su_progress := Some 10, su_mark_started := True\<rparr>))) (\<lambda>_.
        bind (block W At_list (list_uploads_for_job jid)) (\<lambda>uploads. extract_all W jid 0 uploads []))"
  let ?h = "\<lambda>e. if e = CancelledError then mark W jid Cancelled cancelled_update
            else mark W jid Failed (failed ''extraction error'' ''EXTRACTION_FAILED''
                   (Some (JObj [(''reason'', JStr (exn_str e))])))"
  note frames = live_frame.in_block live_frame.status live_frame.bind live_frame.extracts
    live_frame.read [OF read_rows]
  obtain x t where x: "?m s = (x, t)" by fastforce
  have "honours (\<lambda>s s'. calm W jid \<longrightarrow> job_live jid s \<longrightarrow> job_live jid s') ?m"
    unfolding list_uploads_for_job_def by (intro frames)
  with x assms(1,2) have t: "job_live jid t" unfolding honours_def by blast
  have body: "(\<exists>ds. x = Inr (Some ds)) \<or> x = Inr None \<and> ended jid t \<or> (\<exists>e. x = Inl e)"
  proof (cases "\<exists>e. x = Inl e")
    case False
    then obtain y where y: "x = Inr y" by (cases x) auto
    from bind_InrE [OF x [unfolded y]] obtain u1 s1 where
      1: "block W At_extracting (set_status jid Extracting (no_update\<lparr>su_phase := ''extracting files'',
                su_progress := Some 10, su_mark_started := True\<rparr>)) s = (Inr u1, s1)"
      and 2: "bind (block W At_list (list_uploads_for_job jid)) (\<lambda>uploads. extract_all W jid 0 uploads []) s1 = (Inr y, t)"
      by blast
    have "honours (\<lambda>s s'. calm W jid \<longrightarrow> job_live jid s \<longrightarrow> job_live jid s')
        (block W At_extracting (set_status jid Extracting (no_update\<lparr>su_phase := ''extracting files'',
           su_progress := Some 10, su_mark_started := True\<rparr>)))" by (intro frames)
    with 1 assms(1,2) have s1: "job_live jid s1" unfolding honours_def by blast
    from bind_InrE [OF 2] obtain ups s2 where 3: "block W At_list (list_uploads_for_job jid) s1 = (Inr ups, s2)"
      and 4: "extract_all W jid 0 ups [] s2 = (Inr y, t)" by blast
    have "honours (\<lambda>s s'. calm W jid \<longrightarrow> job_live jid s \<longrightarrow> job_live jid s')
        (block W At_list (list_uploads_for_job jid))"
      unfolding list_uploads_for_job_def by (intro frames)
    with 3 assms(1) s1 have s2: "job_live jid s2" unfolding honours_def by blast
    from extract_all_ends [OF assms(1,3) s2 4] y show ?thesis by simp
  qed simp
  have ph: "extract_phase W jid s = (case x of Inl e \<Rightarrow> ?h e t | Inr y \<Rightarrow> (Inr y, t))"
    using x by (simp add: extract_phase_def attempt_def split: sum.splits)
  show thesis
  proof (cases x)
    case (Inr y)
    with body ph t docs stopped show thesis by auto
  next
    case (Inl e)
    have "\<exists>s'. (?h e :: (db, exn, extracted_document list option) act) t = (Inr None, s') \<and> ended jid s'"
      by (auto intro!: mark_ends [OF assms(1) t assms(3)])
    with ph Inl stopped show thesis by auto
  qed
qed

definition interrupts_outside :: "'l job_world \<Rightarrow> bool" where
  "interrupts_outside W \<longleftrightarrow> (\<exists>pt \<in> {At_agent_running, At_load, At_validating, At_import, At_imported, At_report}.
     jw_interrupt W pt)"

lemma setup_phase_ends:
  assumes "calm W jid" "job_live jid s" "\<not> jw_interrupt W At_agent_running" "\<not> jw_interrupt W At_load"
  obtains js s' where "setup_phase W jid s = (Inr js, s')" "job_live jid s'"
proof -
  let ?u = "no_update\<lparr>su_phase := ''agent running'', su_progress := Some 40\<rparr>"
  from status_block [OF assms(1-3), of Agent_running ?u] obtain s1 where
    1: "block W At_agent_running (set_status jid Agent_running ?u) s = (Inr (), s1)" "job_live jid s1" by blast
  have live: "job_live jid (jw_env W At_load s1)" using assms(1) 1(2) by (simp add: calm_def)
  then obtain r n j x where ok: "\<not> tx_aborted (jw_env W At_load s1)" "kinds_ok (jw_env W At_load s1)"
    and sl: "slot (jw_env W At_load s1) Staging = Some (r, n)"
    and j: "find_job jid (jw_env W At_load s1) = Some j" "job_of_row j = Inr x"
    unfolding job_live_def by auto
  have "load Staging (jw_env W At_load s1) = (Inr \<lparr>sn_env = Staging, sn_registry = r, sn_version = n\<rparr>, jw_env W At_load s1)"
    using sl by (auto simp: load_def slot_def)
  moreover have "get_job jid (jw_env W At_load s1) = (Inr x, jw_env W At_load s1)"
    using ok j by (simp add: get_job_def statement_def)
  moreover have "conn_ids (jw_env W At_load s1) = (Inr (conn_ids_of (jw_env W At_load s1)), jw_env W At_load s1)"
    using conn_ids_run ok by (simp add: kinds_ok_def)
  ultimately have "setup_phase W jid s = (Inr \<lparr>js_snapshot = \<lparr>sn_env = Staging, sn_registry = r, sn_version = n\<rparr>,
      js_job = x, js_conn_ids = conn_ids_of (jw_env W At_load s1)\<rparr>, jw_env W At_load s1)"
    using 1(1) assms(4) by (simp add: setup_phase_def act_simps block_def in_session_def)
  from that [OF this live] show thesis .
qed

lemma import_errors: "import_into_registry base incoming mode C = Inl e \<Longrightarrow> \<exists>fs. e = ValidationFailedError fs"
  by (auto simp: import_into_registry_def validated_Inl)

lemma saved_live: "job_live jid s \<Longrightarrow> job_live jid (saved Staging reg label msg s)"
proof -
  assume live: "job_live jid s"
  then obtain r n where "slot s Staging = Some (r, n)" unfolding job_live_def by auto
  then show ?thesis
    using live same_tables_fields [OF saved_same_tables [of s Staging reg label msg]]
    unfolding job_live_def kinds_ok_def find_job_def by auto
qed

lemma import_phase_ends:
  assumes "calm W jid" "job_live jid s" "\<not> interrupts_outside W"
  obtains (saved) reg v s' where "import_phase W jid js wr s = (Inr (Some (reg, v)), s')" "job_live jid s'"
  | (stopped) s' where "import_phase W jid js wr s = (Inr None, s')" "ended jid s'"
proof -
  have no: "\<not> jw_interrupt W At_import" "\<not> jw_interrupt W At_report"
    using assms(3) unfolding interrupts_outside_def by blast+
  let ?u = "jw_env W At_import s"
  have live: "job_live jid ?u" using assms(1,2) by (simp add: calm_def)
  then obtain r n where sl: "slot ?u Staging = Some (r, n)" unfolding job_live_def by auto
  let ?imp = "import_into_registry (sn_registry (js_snapshot js)) (wr_snapshot wr) (jo_mode (js_job js)) (js_conn_ids js)"
  have stop: "\<exists>s'. (mark W jid Failed (failed a b c) :: (db, exn, (registry \<times> int) option) act) ?u = (Inr None, s')
      \<and> ended jid s'" for a b c
    by (intro mark_ends [OF assms(1) live no(2)]) simp_all
  show thesis
  proof (cases ?imp)
    case (Inl e)
    then obtain fs where "e = ValidationFailedError fs" using import_errors by blast
    with Inl no stop stopped show thesis
      by (force simp: import_phase_def attempt_def block_def in_session_def act_simps)
  next
    case (Inr reg)
    show thesis
    proof (cases "sn_version (js_snapshot js) = n")
      case False
      with Inr sl no stop stopped show thesis
        by (force simp: import_phase_def attempt_def block_def in_session_def act_simps)
    next
      case True
      have "job_live jid (saved Staging reg (Some ''ingestion'') None ?u)" using saved_live [OF live] .
      moreover have "import_phase W jid js wr s = (Inr (Some (reg, n + 1)), saved Staging reg (Some ''ingestion'') None ?u)"
        using Inr sl no True
        by (simp add: import_phase_def attempt_def block_def in_session_def act_simps)
      ultimately show thesis using saved by blast
    qed
  qed
qed

lemma finish_phase_ends:
  assumes "calm W jid" "job_live jid s" "\<not> interrupts_outside W"
  shows "\<exists>s'. finish_phase W jid js res wr s = (Inr None, s') \<and> ended jid s'"
proof -
  have no: "\<not> jw_interrupt W At_validating" "\<not> jw_interrupt W At_imported"
    using assms(3) unfolding interrupts_outside_def by blast+
  let ?u = "no_update\<lparr>su_phase := ''validating'', su_progress := Some 80\<rparr>"
  from status_block [OF assms(1,2) no(1), of Validating ?u] obtain s1 where
    1: "block W At_validating (set_status jid Validating ?u) s = (Inr (), s1)" "job_live jid s1" by blast
  from assms(1) 1(2) assms(3) show ?thesis
  proof (cases rule: import_phase_ends [where js = js and wr = wr])
    case (saved reg v s2)
    from status_block [OF assms(1) saved(2) no(2), of Imported "imported_update res reg v"] obtain s3 j where
      "block W At_imported (set_status jid Imported (imported_update res reg v)) s2 = (Inr (), s3)"
      "find_job jid s3 = Some (updated_job Imported (imported_update res reg v) (db_now (jw_env W At_imported s2)) j)"
      by blast
    moreover from this(2) have "ended jid s3" by (rule ended_updated) simp_all
    ultimately show ?thesis
      using 1(1) saved(1) by (simp add: finish_phase_def act_simps)
  next
    case (stopped s2)
    with 1(1) show ?thesis by (simp add: finish_phase_def act_simps)
  qed
qed

lemma report_ends:
  assumes "calm W jid" "job_live jid s" "\<not> jw_interrupt W At_report"
  shows "\<exists>s'. report_agent_error P W jid e s = (Inr None, s') \<and> ended jid s'"
  unfolding report_agent_error_def
  by (cases e) (auto intro!: mark_ends [OF assms])

subsection \<open>What a job does to the registries\<close>

lemma alone_calm: "alone W \<Longrightarrow> calm W jid"
  by (simp add: alone_def calm_def)

lemma set_status_mode:
  "honours (\<lambda>s s'. map_option jb_mode (find_job jid s') = map_option jb_mode (find_job jid s)) (set_status jid st u)"
  unfolding honours_def
proof (intro allI impI)
  fix s r s' assume run: "set_status jid st u s = (r, s')"
  show "map_option jb_mode (find_job jid s') = map_option jb_mode (find_job jid s)"
  proof (cases "tx_aborted s \<or> find_job jid s = None")
    case True
    have "find_job jid s = None \<Longrightarrow> find_job jid (s\<lparr>ingestion_jobs :=
        update_where (\<lambda>j. jb_id j = jid) (updated_job st u (db_now s)) (ingestion_jobs s)\<rparr>) = None"
      by (auto simp: find_job_def find_None_iff update_where_def updated_job_def)
    with True run show ?thesis
      by (auto simp: set_status_def statement_def act_simps split: if_splits)
  next
    case False
    then obtain j where "find_job jid s = Some j" "\<not> tx_aborted s" by auto
    with set_status_run [OF this(2,1), of st u] run show ?thesis by (auto simp: updated_job_def)
  qed
qed

interpretation mode_frame: job_frame
  "\<lambda>s s'. alone W \<longrightarrow> map_option jb_mode (find_job jid s') = map_option jb_mode (find_job jid s)" W jid
  for W :: "'l job_world" and jid
  using set_status_mode [of jid] by unfold_locales (auto simp: alone_def honours_def)

lemma set_status_connections: "honours (\<lambda>s s'. connections s' = connections s) (set_status jid st u)"
  by (auto simp: honours_def set_status_def statement_def act_simps split: if_splits)

interpretation conn_frame: job_frame "\<lambda>s s'. alone W \<longrightarrow> connections s' = connections s" W jid
  for W :: "'l job_world" and jid
  using set_status_connections by unfold_locales (auto simp: alone_def honours_def)

text \<open>What a merge keeps and a replacement takes.\<close>

definition keeps_objects :: "registry \<Rightarrow> registry \<Rightarrow> bool" where
  "keeps_objects r0 r \<longleftrightarrow> (\<forall>rid. dict_has rid (object_types r0) \<longrightarrow> dict_has rid (object_types r))"

lemma merge_keeps: "keeps_objects r0 (merge_registry r0 r)"
  by (simp add: keeps_objects_def merge_registry_def dict_simps)

definition job_write :: "uuid \<Rightarrow> db \<Rightarrow> db \<Rightarrow> bool" where
  "job_write jid s s' \<longleftrightarrow> (\<exists>r0 n reg. slot s Staging = Some (r0, n) \<and> slot s' = (slot s)(Staging \<mapsto> (reg, n + 1))
     \<and> keys_ok reg \<and> wf_ontology UNIV reg
     \<and> (map_option jb_mode (find_job jid s) = Some ''merge'' \<longrightarrow> keeps_objects r0 reg))"

lemma setup_phase_reads:
  assumes "setup_phase W jid s = (Inr js, s')" "alone W" "kinds_ok s"
  shows "slot s Staging = Some (sn_registry (js_snapshot js), sn_version (js_snapshot js))"
    and "map_option jb_mode (find_job jid s) = Some (mode_value (jo_mode (js_job js)))"
    and "js_conn_ids js = conn_ids_of s"
proof -
  let ?u = "no_update\<lparr>su_phase := ''agent running'', su_progress := Some 40\<rparr>"
  obtain x s1 where
    1: "block W At_agent_running (set_status jid Agent_running ?u) s = (Inr x, s1)"
    and 2: "block W At_load (bind (load Staging) (\<lambda>snap. bind (get_job jid) (\<lambda>j. bind conn_ids (\<lambda>ids.
          ret \<lparr>js_snapshot = snap, js_job = j, js_conn_ids = ids\<rparr>)))) s1 = (Inr js, s')"
    by (rule bind_InrE [OF assms(1) [unfolded setup_phase_def]])
  have env: "jw_env W pt t = t" for pt t using assms(2) by (simp add: alone_def)
  from 1 have s1: "s1 = s\<lparr>ingestion_jobs := ingestion_jobs s1\<rparr>"
    by (auto simp: block_def in_session_def env set_status_def statement_def act_simps split: if_splits)
  have same: "registries s1 = registries s" "connections s1 = connections s"
    by (subst s1, simp)+
  have mode: "map_option jb_mode (find_job jid s1) = map_option jb_mode (find_job jid s)"
    using mode_frame.in_block [OF mode_frame.status, of W jid At_agent_running Agent_running ?u] 1 assms(2)
    unfolding honours_def by blast
  from 2 env have run: "bind (load Staging) (\<lambda>snap. bind (get_job jid) (\<lambda>j. bind conn_ids (\<lambda>ids.
          ret \<lparr>js_snapshot = snap, js_job = j, js_conn_ids = ids\<rparr>))) s1 = (Inr js, s')"
    by (auto simp: block_def in_session_def split: if_splits prod.splits sum.splits)
  obtain snap s2 where l: "load Staging s1 = (Inr snap, s2)"
    and r2: "bind (get_job jid) (\<lambda>j. bind conn_ids (\<lambda>ids. ret \<lparr>js_snapshot = snap, js_job = j, js_conn_ids = ids\<rparr>)) s2 = (Inr js, s')"
    by (rule bind_InrE [OF run])
  have s2: "s2 = s1" using registry_store.read_frame [OF l] .
  obtain j s3 where g: "get_job jid s2 = (Inr j, s3)"
    and r3: "bind conn_ids (\<lambda>ids. ret \<lparr>js_snapshot = snap, js_job = j, js_conn_ids = ids\<rparr>) s3 = (Inr js, s')"
    by (rule bind_InrE [OF r2])
  have g': "\<exists>row. find_job jid s1 = Some row \<and> job_of_row row = Inr j" "s3 = s1"
    using g s2 by (auto simp: get_job_def statement_def split: if_splits option.splits)
  obtain ids s4 where c: "conn_ids s3 = (Inr ids, s4)"
    and fin: "(ret \<lparr>js_snapshot = snap, js_job = j, js_conn_ids = ids\<rparr> :: (db, exn, job_setup) act) s4 = (Inr js, s')"
    by (rule bind_InrE [OF r3])
  from fin have js: "js = \<lparr>js_snapshot = snap, js_job = j, js_conn_ids = ids\<rparr>" by (simp add: act_simps)
  have "kinds_ok s3" using assms(3) g'(2) same by (simp add: kinds_ok_def)
  with conn_ids_Inr [OF c] g'(2) same js show "js_conn_ids js = conn_ids_of s" by (simp add: conn_ids_of_def)
  from registry_store.read_result [OF l] js same show
    "slot s Staging = Some (sn_registry (js_snapshot js), sn_version (js_snapshot js))" by (simp add: slot_def)
  from g'(1) have "map_option jb_mode (find_job jid s1) = Some (mode_value (jo_mode j))"
    by (auto simp: job_of_row_def bind_sum_Inr parse_mode_def split: if_splits)
  with mode js show "map_option jb_mode (find_job jid s) = Some (mode_value (jo_mode (js_job js)))" by simp
qed

interpretation key_editor: registry_editor "apply_edit C" edit_ok keys_ok for C
  by unfold_locales (rule edit_keys_ok)

lemma agent_run_keys:
  assumes "agent_run P W sp docs js = (r, wr)" "parsers_ok P" "keys_ok (sn_registry (js_snapshot js))"
  shows "keys_ok (wr_registry wr)"
proof -
  have start: "keys_ok (wr_registry (agent_start js))"
    using assms(3) keys_ok_empty by (simp add: agent_start_def wr_empty_def from_registry_def)
  have "wr = agent_start js \<or> edits_to (js_conn_ids js) (agent_start js) wr"
    using assms(1)
    by (auto simp: agent_run_def run_agent_def split: agent_event.splits prod.splits
        dest: agent_steps_edits [OF assms(2)])
  moreover have "keys_ok (wr_registry wr)" if "edits_to (js_conn_ids js) (agent_start js) wr"
  proof -
    from that obtain es where es: "\<forall>e \<in> set es. edit_ok e"
      and wr: "wr_registry wr = run_edits (js_conn_ids js) es (wr_registry (agent_start js))"
      unfolding edits_to_def by blast
    show ?thesis
      unfolding wr run_edits_def by (rule key_editor.run_inv [OF start es])
  qed
  ultimately show ?thesis using start by blast
qed

lemma import_phase_writes:
  assumes "import_phase W jid js wr s = (r, s')" "alone W"
    and "keys_ok (sn_registry (js_snapshot js))" "keys_ok (wr_registry wr)"
  shows "registries s' = registries s \<or> (\<exists>reg n. slot s Staging = Some (n)
     \<and> snd n = sn_version (js_snapshot js) \<and> slot s' = (slot s)(Staging \<mapsto> (reg, snd n + 1)) \<and> keys_ok reg
     \<and> wf_ontology (js_conn_ids js) reg
     \<and> (jo_mode (js_job js) = Merge \<longrightarrow> keeps_objects (sn_registry (js_snapshot js)) reg))"
proof -
  let ?imp = "import_into_registry (sn_registry (js_snapshot js)) (wr_snapshot wr) (jo_mode (js_job js)) (js_conn_ids js)"
  let ?body = "bind (lift_sum ?imp) (\<lambda>new_reg. bind (save Staging new_reg (Some (sn_version (js_snapshot js)))
      (Some ''ingestion'') None) (\<lambda>new_version. ret (Some (new_reg, new_version))))"
  have env: "jw_env W pt t = t" for pt t using assms(2) by (simp add: alone_def)
  obtain x t where x: "block W At_import ?body s = (x, t)" by fastforce
  show ?thesis
  proof (cases x)
    case (Inl e)
    with x env have t: "t = s"
      by (auto simp: block_def in_session_def split: if_splits prod.splits sum.splits)
    let ?h = "(case e of
          StaleVersionError env expected current \<Rightarrow>
            mark W jid Failed (failed ''stale staging'' ''STALE_VERSION''
              (Some (JObj [(''expected_version'', JInt expected), (''current_version'', JInt current)])))
        | ValidationFailedError fs \<Rightarrow>
            mark W jid Failed (failed ''validation failed'' ''VALIDATION_FAILED''
              (Some (JObj [(''findings'', JList (map brief_finding fs))])))
        | _ \<Rightarrow> raise e) :: (db, exn, (registry \<times> int) option) act"
    have "honours (\<lambda>s s'. alone W \<longrightarrow> registries s' = registries s) ?h"
      by (cases e) (simp_all add: quiet_frame.simple quiet_frame.marks)
    moreover have "?h s = (r, s')"
      using assms(1) x t Inl unfolding import_phase_def attempt_def by simp
    ultimately show ?thesis using assms(2) unfolding honours_def by blast
  next
    case (Inr y)
    with x env have run: "?body s = (Inr y, t)"
      by (auto simp: block_def in_session_def split: if_splits prod.splits sum.splits)
    obtain reg s1 where i: "lift_sum ?imp s = (Inr reg, s1)"
      and r2: "bind (save Staging reg (Some (sn_version (js_snapshot js))) (Some ''ingestion'') None)
         (\<lambda>new_version. ret (Some (reg, new_version))) s1 = (Inr y, t)"
    by (rule bind_InrE [OF run])
    from i have imp: "?imp = Inr reg" and s1: "s1 = s" by (simp_all add: act_simps)
    obtain v u where
      sv: "save Staging reg (Some (sn_version (js_snapshot js))) (Some ''ingestion'') None s = (Inr v, u)"
      and "(ret (Some (reg, v)) :: (db, exn, (registry \<times> int) option) act) u = (Inr y, t)"
    by (rule bind_InrE [OF r2 [unfolded s1]])
    then have u: "u = t" by (simp add: act_simps)
    from registry_store.write_result [OF sv] obtain r0 n where
      sl: "slot s Staging = Some (r0, n)" "n = sn_version (js_snapshot js)" "slot u = (slot s)(Staging \<mapsto> (reg, n + 1))"
      by auto
    have "s' = t" using assms(1) x Inr unfolding import_phase_def attempt_def by simp
    moreover have "keys_ok reg"
      using import_keys_ok [OF assms(3) _ imp] assms(4) by (simp add: wr_snapshot_def)
    moreover have "wf_ontology (js_conn_ids js) reg"
      using imp unfolding import_result by blast
    moreover have "keeps_objects (sn_registry (js_snapshot js)) reg" if "jo_mode (js_job js) = Merge"
      using imp that merge_keeps by (simp add: import_result)
    ultimately show ?thesis using sl u by auto
  qed
qed

lemma job_write_frame:
  assumes "job_write jid t u" "slot t = slot s" "slot s' = slot u"
    "map_option jb_mode (find_job jid t) = map_option jb_mode (find_job jid s)"
  shows "job_write jid s s'"
  using assms unfolding job_write_def by simp

lemma finish_phase_writes:
  assumes "finish_phase W jid js res wr s = (r, s')" "alone W"
    and "slot s Staging = Some (sn_registry (js_snapshot js), sn_version (js_snapshot js))"
    and "map_option jb_mode (find_job jid s) = Some (mode_value (jo_mode (js_job js)))"
    and "keys_ok (sn_registry (js_snapshot js))" "keys_ok (wr_registry wr)"
  shows "registries s' = registries s \<or> job_write jid s s'"
proof -
  let ?u = "no_update\<lparr>su_phase := ''validating'', su_progress := Some 80\<rparr>"
  have still: "registries t' = registries t" if "block W pt (set_status jid st u) t = (x, t')" for pt st u t x t'
    using quiet_frame.in_block [OF quiet_frame.status] that assms(2) unfolding honours_def by blast
  obtain x t where 1: "block W At_validating (set_status jid Validating ?u) s = (x, t)" by fastforce
  have t: "slot t = slot s" using same_registries [OF still [OF 1]] .
  show ?thesis
  proof (cases x)
    case (Inl e)
    with 1 assms(1) have "s' = t" by (simp add: finish_phase_def act_simps)
    with still [OF 1] show ?thesis by simp
  next
    case (Inr y)
    obtain z v where 2: "import_phase W jid js wr t = (z, v)" by fastforce
    from import_phase_writes [OF 2 assms(2,5,6)] have imp: "registries v = registries t \<or> job_write jid s v"
      using t assms(3,4) wf_mono unfolding job_write_def by (cases "jo_mode (js_job js)") fastforce+
    have "registries s' = registries v"
    proof (cases "\<exists>reg n. z = Inr (Some (reg, n))")
      case True
      then obtain reg n where z: "z = Inr (Some (reg, n))" by blast
      obtain w q where 3: "block W At_imported (set_status jid Imported (imported_update res reg n)) v = (w, q)" by fastforce
      with assms(1) 1 Inr 2 z have "s' = q"
        by (cases w) (simp_all add: finish_phase_def act_simps)
      with still [OF 3] show ?thesis by simp
    next
      case False
      with assms(1) 1 Inr 2 show ?thesis
        by (auto simp: finish_phase_def act_simps split: sum.splits option.splits)
    qed
    with imp still [OF 1] same_registries show ?thesis
      unfolding job_write_def by metis
  qed
qed

lemma run_job_writes:
  assumes "run_one_job P W sp jid s = (r, s')" "alone W" "parsers_ok P" "sound s"
  shows "registries s' = registries s \<or> job_write jid s s'"
proof -
  obtain x t where 1: "extract_phase W jid s = (x, t)" by fastforce
  have t: "registries t = registries s" "map_option jb_mode (find_job jid t) = map_option jb_mode (find_job jid s)"
    using quiet_frame.extraction [of W jid] mode_frame.extraction [of W jid] 1 assms(2) unfolding honours_def by blast+
  show ?thesis
  proof (cases "\<exists>ds. x = Inr (Some ds)")
    case False
    with assms(1) 1 t show ?thesis
      by (auto simp: run_one_job_def act_simps split: sum.splits option.splits)
  next
    case True
    then obtain ds where x: "x = Inr (Some ds)" by blast
    obtain y u where 2: "setup_phase W jid t = (y, u)" by fastforce
    have u: "registries u = registries t" "map_option jb_mode (find_job jid u) = map_option jb_mode (find_job jid t)"
      using quiet_frame.setting_up [of W jid] mode_frame.setting_up [of W jid] 2 assms(2) unfolding honours_def by blast+
    show ?thesis
    proof (cases y)
      case (Inl e)
      with assms(1) 1 2 x t u show ?thesis by (simp add: run_one_job_def act_simps)
    next
      case (Inr js)
      have kinds: "kinds_ok t"
        using conn_frame.extraction [of W jid] assms(2,4) 1 unfolding honours_def sound_def kinds_ok_def by metis
      note reads = setup_phase_reads [OF 2 [unfolded Inr] assms(2) kinds]
      have sl: "slot t = slot s" "slot u = slot t" using t(1) u(1) same_registries by blast+
      have keys: "keys_ok (sn_registry (js_snapshot js))"
        using good_of_slot [OF assms(4), of Staging] reads(1) sl by (auto simp: good_def)
      obtain o2 wr where a: "agent_run P W sp ds js = (o2, wr)" by fastforce
      note wr = agent_run_keys [OF a assms(3) keys]
      show ?thesis
      proof (cases o2)
        case (Inl e)
        with assms(1) 1 2 x Inr a have "report_agent_error P W jid e u = (r, s')"
          by (simp add: run_one_job_def act_simps)
        with quiet_frame.agent_report [of W P jid e] assms(2) have "registries s' = registries u"
          unfolding honours_def by blast
        with t u show ?thesis by simp
      next
        case res: (Inr res)
        with assms(1) 1 2 x Inr a have "finish_phase W jid js res wr u = (r, s')"
          by (simp add: run_one_job_def act_simps)
        from finish_phase_writes [OF this assms(2) _ _ keys wr] reads sl u
        have "registries s' = registries u \<or> job_write jid u s'" by simp
        with t u sl job_write_frame [of jid u s' s s'] show ?thesis by auto
      qed
    qed
  qed
qed

subsection \<open>Jobs for the examples\<close>

definition quiet_world :: "stub_llm job_world" where
  "quiet_world =
     \<lparr>jw_env = (\<lambda>_ s. s), jw_interrupt = (\<lambda>_. False), jw_agent_event = Runs,
      jw_readers = \<lparr>fr_sql = (\<lambda>_. Inr (Inr [])), fr_pdf = (\<lambda>_. Inr []), fr_docx = (\<lambda>_. Inr []),
                    fr_pptx = (\<lambda>_. Inr []), fr_xlsx = (\<lambda>_. Inr [])\<rparr>,
      jw_llm = stub_acompletion, jw_llm_state = put_script, jw_cancelled = (\<lambda>_. False),
      jw_float_repr = (\<lambda>_. [])\<rparr>"

definition job_db :: db where
  "job_db = snd (create_job ''j1'' Merge None [] None (migrated 0))"

lemma job_db_live: "job_live ''j1'' job_db" and job_db_sound: "sound job_db"
proof -
  have job: "ingestion_jobs job_db = [new_job ''j1'' Merge None None 0]" "registries job_db = registries (migrated 0)"
    "connections job_db = []" "\<not> tx_aborted job_db"
    by (simp_all add: job_db_def create_job_def statement_def migrated_def)
  have "job_of_row (new_job ''j1'' Merge None None 0) = Inr
      \<lparr>jo_id = ''j1'', jo_mode = Merge, jo_instructions = None, jo_status = Queued, jo_phase_message = [],
       jo_progress_pct = 0, jo_decisions_report = None, jo_staging_version_after = None, jo_error_code = None,
       jo_error_details = None, jo_created_at = 0, jo_started_at = None, jo_finished_at = None\<rparr>"
    by (simp add: job_of_row_def new_job_def parse_mode_def parse_status_def all_statuses_def)
  with job show "job_live ''j1'' job_db"
    by (simp add: job_live_def kinds_ok_def slot_def find_job_def migrated_def)
      (simp add: new_job_def)
  from job sound_migrated [of 0] show "sound job_db"
    by (simp add: sound_def kinds_ok_def slot_def)
qed

lemma quiet_world_alone: "alone quiet_world" and quiet_world_open: "\<not> interrupts_outside quiet_world"
  by (simp_all add: alone_def quiet_world_def interrupts_outside_def)

subsection \<open>Properties\<close>

text \<open>C9: a job ends. Whatever the files, the model and the other transactions do, as long as they
  leave the job's row and the staging slot in place, and even if a cancellation arrives while the
  files are extracted or the agent runs, the job returns with its status imported, failed or
  cancelled and its finishing time set. The exception is a cancellation during one of its other
  database steps.\<close>
theorem jobs_end:
  assumes "calm W jid" and "job_live jid s" and "\<not> interrupts_outside W"
  shows "\<exists>s' j. run_one_job P W sp jid s = (Inr None, s') \<and> find_job jid s' = Some j
     \<and> jb_status j \<in> {''imported'', ''failed'', ''cancelled''} \<and> jb_finished_at j \<noteq> None"
proof -
  have no: "\<not> jw_interrupt W At_report" "\<not> jw_interrupt W At_agent_running" "\<not> jw_interrupt W At_load"
    using assms(3) unfolding interrupts_outside_def by blast+
  have "\<exists>s'. run_one_job P W sp jid s = (Inr None, s') \<and> ended jid s'"
    using assms(1,2) no(1)
  proof (cases rule: extract_phase_ends)
    case (docs ds s1)
    from assms(1) docs(2) no(2,3) obtain js s2 where
      su: "setup_phase W jid s1 = (Inr js, s2)" "job_live jid s2" by (rule setup_phase_ends)
    obtain r wr where a: "agent_run P W sp ds js = (r, wr)" by fastforce
    show ?thesis
    proof (cases r)
      case (Inl e)
      from report_ends [OF assms(1) su(2) no(1), of P e] obtain s' where
        "report_agent_error P W jid e s2 = (Inr (None :: unit option), s')" "ended jid s'" by blast
      with docs su a Inl show ?thesis by (simp add: run_one_job_def act_simps)
    next
      case (Inr res)
      from finish_phase_ends [OF assms(1) su(2) assms(3), of js res wr] docs su a Inr
      show ?thesis by (auto simp: run_one_job_def act_simps)
    qed
  next
    case (stopped s1)
    then show ?thesis by (simp add: run_one_job_def act_simps)
  qed
  then show ?thesis unfolding ended_def by blast
qed

theorem jobs_end_witness:
  "\<exists>s' j. run_one_job toy_platform quiet_world ''s'' ''j1'' job_db = (Inr None, s') \<and> find_job ''j1'' s' = Some j
     \<and> jb_status j \<in> {''imported'', ''failed'', ''cancelled''} \<and> jb_finished_at j \<noteq> None"
  by (rule jobs_end [OF alone_calm [OF quiet_world_alone] job_db_live quiet_world_open])



text \<open>A job never overwrites a staging registry that moved while it ran: if another transaction
  has saved staging since the job read it, the import is refused, the registries stay as the others
  left them, and the job ends as failed with the code STALE_VERSION.\<close>
theorem job_refuses_moved_staging:
  assumes "calm W jid" and "job_live jid s" and "\<not> jw_interrupt W At_import" and "\<not> jw_interrupt W At_report"
    and "slot (jw_env W At_import s) Staging = Some (r1, n1)" and "n1 \<noteq> sn_version (js_snapshot js)"
    and "import_into_registry (sn_registry (js_snapshot js)) (wr_snapshot wr) (jo_mode (js_job js)) (js_conn_ids js)
      = Inr reg"
  shows "\<exists>s' j. import_phase W jid js wr s = (Inr None, s')
     \<and> registries s' = registries (jw_env W At_report (jw_env W At_import s))
     \<and> find_job jid s' = Some j \<and> jb_status j = ''failed'' \<and> jb_error_code j = Some ''STALE_VERSION''"
proof -
  let ?u = "jw_env W At_import s"
  let ?f = "failed ''stale staging'' ''STALE_VERSION'' (Some (JObj
     [(''expected_version'', JInt (sn_version (js_snapshot js))), (''current_version'', JInt n1)]))"
  have live: "job_live jid ?u" using assms(1,2) by (simp add: calm_def)
  from status_block [OF assms(1) live assms(4), of Failed ?f] obtain s' j where
    b: "block W At_report (set_status jid Failed ?f) ?u = (Inr (), s')"
    and j: "find_job jid s' = Some (updated_job Failed ?f (db_now (jw_env W At_report ?u)) j)"
    and s': "s' = (jw_env W At_report ?u)\<lparr>ingestion_jobs := ingestion_jobs s'\<rparr>" by blast
  have "import_phase W jid js wr s = (Inr None, s')"
    using assms(3,5,6,7) b by (simp add: import_phase_def attempt_def block_def [of _ At_import] in_session_def
        act_simps mark_def)
  moreover have "registries s' = registries (jw_env W At_report ?u)" by (subst s', simp)
  moreover have "jb_status (updated_job Failed ?f t j) = ''failed'' \<and> jb_error_code (updated_job Failed ?f t j)
      = Some ''STALE_VERSION''" for t
    by (simp add: updated_job_def failed_def no_update_def)
  ultimately show ?thesis using j by blast
qed

definition moved_world :: "stub_llm job_world" where
  "moved_world = quiet_world\<lparr>jw_env :=
     (\<lambda>pt s. if pt = At_import then saved Staging built_registry None None s else s)\<rparr>"

definition merge_job :: job where
  "merge_job = \<lparr>jo_id = ''j1'', jo_mode = Merge, jo_instructions = None, jo_status = Validating,
     jo_phase_message = [], jo_progress_pct = 80, jo_decisions_report = None, jo_staging_version_after = None,
     jo_error_code = None, jo_error_details = None, jo_created_at = 0, jo_started_at = None,
     jo_finished_at = None\<rparr>"

text \<open>Another editor saves the sample action type just before the import: it survives.\<close>
theorem job_refuses_moved_staging_witness:
  "\<exists>s' j. import_phase moved_world ''j1''
        \<lparr>js_snapshot = \<lparr>sn_env = Staging, sn_registry = empty_registry, sn_version = 0\<rparr>,
         js_job = merge_job, js_conn_ids = {}\<rparr> wr_empty job_db = (Inr None, s')
     \<and> slot s' Staging = Some (built_registry, 1)
     \<and> find_job ''j1'' s' = Some j \<and> jb_error_code j = Some ''STALE_VERSION''"
proof -
  let ?js = "\<lparr>js_snapshot = \<lparr>sn_env = Staging, sn_registry = empty_registry, sn_version = 0\<rparr>,
         js_job = merge_job, js_conn_ids = {}\<rparr>"
  have calm: "calm moved_world ''j1''"
    using saved_live by (simp add: calm_def moved_world_def)
  have open_steps: "\<not> jw_interrupt moved_world pt" for pt by (simp add: moved_world_def quiet_world_def)
  have env: "jw_env moved_world At_import job_db = saved Staging built_registry None None job_db"
    "jw_env moved_world At_report t = t" for t by (simp_all add: moved_world_def)
  have "slot job_db Staging = Some (empty_registry, 0)"
    by (simp add: job_db_def create_job_def statement_def migrated_def slot_def)
  then have sl: "slot (saved Staging built_registry None None job_db) Staging = Some (built_registry, 1)" by simp
  have "merge_registry empty_registry empty_registry = empty_registry"
    by (simp add: merge_registry_def empty_registry_def)
  then have imp: "import_into_registry (sn_registry (js_snapshot ?js)) (wr_snapshot wr_empty) (jo_mode (js_job ?js))
      (js_conn_ids ?js) = Inr empty_registry"
    using wf_empty [of "{}"] by (simp add: import_result merge_job_def wr_snapshot_def wr_empty_def)
  have "1 \<noteq> sn_version (js_snapshot ?js)" by simp
  from job_refuses_moved_staging [OF calm job_db_live open_steps open_steps sl [folded env] this imp]
  obtain s' j where "import_phase moved_world ''j1'' ?js wr_empty job_db = (Inr None, s')"
    "registries s' = registries (saved Staging built_registry None None job_db)"
    "find_job ''j1'' s' = Some j" "jb_error_code j = Some ''STALE_VERSION''"
    unfolding env by blast
  moreover from this(2) sl have "slot s' Staging = Some (built_registry, 1)" by (simp add: slot_def)
  ultimately show ?thesis by blast
qed

text \<open>A cancellation that arrives while the job sets up its agent is not handled: the job raises,
  and its row says agent_running, without a finishing time, for ever.\<close>
theorem interrupted_setup_leaves_running:
  assumes "alone W" and "job_live jid s" and "extract_phase W jid s = (Inr (Some ds), s1)"
    and "\<not> jw_interrupt W At_agent_running" and "jw_interrupt W At_load" and "\<not> jw_interrupt W At_report"
  shows "\<exists>s' j1 j. run_one_job P W sp jid s = (Inl CancelledError, s') \<and> find_job jid s1 = Some j1
     \<and> find_job jid s' = Some j \<and> jb_status j = ''agent_running'' \<and> jb_finished_at j = jb_finished_at j1"
proof -
  let ?u = "no_update\<lparr>su_phase := ''agent running'', su_progress := Some 40\<rparr>"
  have env: "jw_env W pt t = t" for pt t using assms(1) by (simp add: alone_def)
  have s1: "job_live jid s1"
    using alone_calm [OF assms(1)] assms(2,6)
    by (cases rule: extract_phase_ends) (use assms(3) in auto)
  from status_block [OF alone_calm [OF assms(1)] s1 assms(4), of Agent_running ?u] obtain s2 j1 where
    2: "block W At_agent_running (set_status jid Agent_running ?u) s1 = (Inr (), s2)"
      "find_job jid s1 = Some j1" "find_job jid s2 = Some (updated_job Agent_running ?u (db_now s1) j1)"
    unfolding env by blast
  have "setup_phase W jid s1 = (Inl CancelledError, s2)"
    using 2(1) assms(5) by (simp add: setup_phase_def act_simps block_def [of _ At_load] env)
  with assms(3) 2 show ?thesis
    by (simp add: run_one_job_def act_simps updated_job_def no_update_def)
qed

definition interrupted_world :: "stub_llm job_world" where
  "interrupted_world = quiet_world\<lparr>jw_interrupt := (\<lambda>pt. pt = At_load)\<rparr>"

theorem interrupted_setup_leaves_running_witness:
  "\<exists>s' j. run_one_job toy_platform interrupted_world ''s'' ''j1'' job_db = (Inl CancelledError, s')
     \<and> find_job ''j1'' s' = Some j \<and> jb_status j = ''agent_running''"
proof -
  have alone: "alone interrupted_world" using quiet_world_alone by (simp add: alone_def interrupted_world_def)
  have at: "\<not> jw_interrupt interrupted_world At_agent_running" "jw_interrupt interrupted_world At_load"
    "\<not> jw_interrupt interrupted_world At_report" by (simp_all add: interrupted_world_def)
  have "\<exists>s1. extract_phase interrupted_world ''j1'' job_db = (Inr (Some []), s1)"
    by (simp add: extract_phase_def attempt_def act_simps block_def in_session_def interrupted_world_def
        quiet_world_def set_status_def list_uploads_for_job_def statement_def job_db_def create_job_def migrated_def)
  then obtain s1 where "extract_phase interrupted_world ''j1'' job_db = (Inr (Some []), s1)" by blast
  from interrupted_setup_leaves_running [OF alone job_db_live this at] show ?thesis by blast
qed

end
