(* ===== verification/Ingestion_Http.thy ===== *)
theory Ingestion_Http
  imports Job_Worker
begin

text \<open>
  \<open>ingestion/http.py\<close> and the task registry of \<open>IngestionWorker\<close>: the routes under
  \<open>/admin/ingestion\<close>. The principal has passed the editor check (theory \<open>Auth\<close>). The code of an
  HTTP error stands for its detail. Writing the uploaded bytes to disk is in theory Upload_Files.
\<close>

subsection \<open>Running tasks\<close>

record ingestion_worker =
  iw_running :: "(uuid, nat) dict"
  iw_next_task :: nat
  iw_cancel_requests :: "nat list"

definition worker_submit :: "uuid \<Rightarrow> ingestion_worker \<Rightarrow> nat \<times> ingestion_worker" where
  "worker_submit jid w =
     (iw_next_task w, w\<lparr>iw_running := dict_set jid (iw_next_task w) (iw_running w),
                        iw_next_task := iw_next_task w + 1\<rparr>)"

text \<open>The callback of a task that is done.\<close>

definition worker_done :: "uuid \<Rightarrow> ingestion_worker \<Rightarrow> ingestion_worker" where
  "worker_done jid w = w\<lparr>iw_running := dict_pop jid (iw_running w)\<rparr>"

definition worker_cancel :: "uuid \<Rightarrow> ingestion_worker \<Rightarrow> bool \<times> ingestion_worker" where
  "worker_cancel jid w =
     (case dict_get (iw_running w) jid of
        None \<Rightarrow> (False, w)
      | Some task \<Rightarrow> (True, w\<lparr>iw_cancel_requests := iw_cancel_requests w @ [task]\<rparr>))"

subsection \<open>Uploads\<close>

definition process_upload ::
  "'n platform \<Rightarrow> string option \<Rightarrow> string \<Rightarrow> uuid option \<Rightarrow> (db, exn, json) act" where
  "process_upload P filename body created_by =
     (let name = (case filename of None \<Rightarrow> [] | Some f \<Rightarrow> f); ext = py_lower (path_suffix name);
          cap = ingestion_max_upload_bytes (pf_settings P) in
      if ext \<notin> set upload_kinds then raise (HTTPException 400 ''UPLOAD_KIND_UNSUPPORTED'')
      else if int (length body) > cap then raise (HTTPException 413 ''UPLOAD_TOO_LARGE'')
      else
        bind (reads (pf_new_uuid P)) (\<lambda>uid.
        bind (insert_upload uid name ext (int (length body)) (pf_sha256 P body)
                (ingestion_data_dir (pf_settings P) @ ''/orphan/'' @ uid @ ''_''
                   @ path_name (if name = [] then ''upload'' else name)) created_by) (\<lambda>_.
        ret (JObj [(''upload_id'', JStr uid), (''kind'', JStr ext),
                   (''size_bytes'', JInt (int (length body))), (''sha256'', JStr (pf_sha256 P body))]))))"

subsection \<open>Jobs\<close>

text \<open>\<open>SELECT COALESCE(SUM(size_bytes), 0) ... WHERE id = ANY(:ids)\<close>.\<close>

definition total_bytes :: "uuid list \<Rightarrow> db \<Rightarrow> int" where
  "total_bytes ids s = sum_list (map up_size_bytes (filter (\<lambda>u. up_id u \<in> set ids) (ingestion_uploads s)))"

text \<open>An identifier PostgreSQL cannot read as a uuid fails the query; the code parses them after it.\<close>

definition select_total :: "string list \<Rightarrow> (db, exn, int) act" where
  "select_total ids = statement (\<lambda>s.
     case parse_uuids ids of
       Inl e \<Rightarrow> (Inl (OtherException ''DBAPIError'' ''invalid UUID''), s\<lparr>tx_aborted := True\<rparr>)
     | Inr us \<Rightarrow> (Inr (total_bytes us s), s))"

text \<open>The body's fields as read with \<open>body.get(...) or ...\<close>; the job is committed, then submitted.\<close>

definition http_create_job ::
  "'n platform \<Rightarrow> string list \<Rightarrow> string \<Rightarrow> string option \<Rightarrow> uuid option \<Rightarrow> (db, exn, json) act" where
  "http_create_job P upload_ids mode instructions created_by =
     (if mode \<notin> {''replace'', ''merge''} then raise (HTTPException 400 ''INVALID_MODE'')
      else if int (length upload_ids) > ingestion_max_files_per_job (pf_settings P)
      then raise (HTTPException 400 ''JOB_TOO_LARGE'')
      else
        bind (select_total upload_ids) (\<lambda>total.
          if total > ingestion_max_total_bytes_per_job (pf_settings P)
          then raise (HTTPException 400 ''JOB_TOO_LARGE'')
          else
            bind (lift_sum (parse_mode mode)) (\<lambda>m.
            bind (lift_sum (parse_uuids upload_ids)) (\<lambda>ups.
            bind (reads (pf_new_uuid P)) (\<lambda>new_id.
            bind (create_job new_id m instructions ups created_by) (\<lambda>jid.
            ret (JObj [(''job_id'', JStr jid), (''status'', JStr ''queued'')])))))))"

definition http_list_jobs :: "'n platform \<Rightarrow> int \<Rightarrow> (db, exn, json) act" where
  "http_list_jobs P limit =
     (let n = min (max 1 limit) 200 in
      bind (statement (reads (\<lambda>s. take (nat n) (sort_key (\<lambda>j. - jb_created_at j) (ingestion_jobs s))))) (\<lambda>rows.
      ret (JObj [(''items'', JList (map (job_summary_json P) rows))])))"

definition job_json :: "'n platform \<Rightarrow> job \<Rightarrow> json" where
  "job_json P j =
     JObj [(''id'', JStr (jo_id j)), (''status'', JStr (status_value (jo_status j))),
           (''phase'', JStr (jo_phase_message j)), (''progress_pct'', JInt (jo_progress_pct j)),
           (''mode'', JStr (mode_value (jo_mode j))), (''instructions'', opt_str (jo_instructions j)),
           (''decisions_report'', opt_json (jo_decisions_report j)),
           (''staging_version_after'', (case jo_staging_version_after j of None \<Rightarrow> JNull | Some v \<Rightarrow> JInt v)),
           (''error_code'', opt_str (jo_error_code j)), (''error_details'', opt_json (jo_error_details j)),
           (''created_at'', JStr (pf_isoformat P (jo_created_at j))),
           (''started_at'', iso_opt P (jo_started_at j)), (''finished_at'', iso_opt P (jo_finished_at j))]"

definition parse_job_id :: "string \<Rightarrow> exn + uuid" where
  "parse_job_id job_id = (case py_uuid job_id of
     None \<Rightarrow> Inl (HTTPException 400 ''INVALID_JOB_ID'') | Some jid \<Rightarrow> Inr jid)"

definition http_get_job :: "'n platform \<Rightarrow> string \<Rightarrow> (db, exn, json) act" where
  "http_get_job P job_id =
     bind (lift_sum (parse_job_id job_id)) (\<lambda>jid. bind (get_job jid) (\<lambda>j. ret (job_json P j)))"

definition http_cancel_job :: "string \<Rightarrow> (ingestion_worker option, exn, json) act" where
  "http_cancel_job job_id = (\<lambda>worker.
     case parse_job_id job_id of
       Inl e \<Rightarrow> (Inl e, worker)
     | Inr jid \<Rightarrow>
         (case worker of
            None \<Rightarrow> (Inl (HTTPException 404 ''JOB_NOT_FOUND''), None)
          | Some w \<Rightarrow>
              (case worker_cancel jid w of
                 (True, w') \<Rightarrow> (Inr (JObj [(''cancelled'', JBool True)]), Some w')
               | (False, w') \<Rightarrow> (Inl (HTTPException 404 ''JOB_NOT_FOUND''), Some w'))))"

subsection \<open>Facts\<close>

lemma select_total_Inr: "select_total ids s = (Inr n, s') \<Longrightarrow>
    s' = s \<and> (\<exists>us. parse_uuids ids = Inr us \<and> n = total_bytes us s)"
  by (auto simp: select_total_def statement_def split: if_splits sum.splits)

lemma create_job_Inr: "create_job jid m ins ups cb s = (Inr x, s') \<Longrightarrow>
    x = jid \<and> s' = s\<lparr>ingestion_jobs := ingestion_jobs s @ [new_job jid m ins cb (db_now s)],
      ingestion_uploads := fold (attach_upload jid) ups (ingestion_uploads s)\<rparr>"
  by (auto simp: create_job_def statement_def split: if_splits)

lemma length_parse_uuids: "parse_uuids ids = Inr us \<Longrightarrow> length us = length ids"
  by (induction ids arbitrary: us) (auto simp: bind_sum_Inr)

subsection \<open>Properties\<close>

text \<open>The limits of a job. A request for a job that is accepted names at most the configured
  number of files, whose sizes together are at most the configured total, and a known mode; exactly
  one queued job is added, and nothing but jobs and uploads changes.\<close>
theorem accepted_job_within_limits:
  assumes "http_create_job P upload_ids mode instructions creator s = (Inr out, s')"
  shows "\<exists>us m j. parse_uuids upload_ids = Inr us \<and> mode = mode_value m
     \<and> int (length us) \<le> ingestion_max_files_per_job (pf_settings P)
     \<and> total_bytes us s \<le> ingestion_max_total_bytes_per_job (pf_settings P)
     \<and> ingestion_jobs s' = ingestion_jobs s @ [j] \<and> jb_status j = ''queued'' \<and> jb_mode j = mode
     \<and> s' = s\<lparr>ingestion_jobs := ingestion_jobs s', ingestion_uploads := ingestion_uploads s'\<rparr>"
proof -
  have guard: "mode \<in> {''replace'', ''merge''}" "int (length upload_ids) \<le> ingestion_max_files_per_job (pf_settings P)"
    using assms by (auto simp: http_create_job_def raise_apply split: if_splits)
  obtain m where m: "mode = mode_value m" "parse_mode mode = Inr m"
    using guard(1) by (cases "mode = ''replace''") (auto simp: parse_mode_def intro: that [of Replace] that [of Merge])
  let ?rest = "\<lambda>total. if total > ingestion_max_total_bytes_per_job (pf_settings P)
          then raise (HTTPException 400 ''JOB_TOO_LARGE'')
          else bind (lift_sum (parse_mode mode)) (\<lambda>m. bind (lift_sum (parse_uuids upload_ids)) (\<lambda>ups.
            bind (reads (pf_new_uuid P)) (\<lambda>new_id. bind (create_job new_id m instructions ups creator) (\<lambda>jid.
            ret (JObj [(''job_id'', JStr jid), (''status'', JStr ''queued'')])))))"
  have "bind (select_total upload_ids) ?rest s = (Inr out, s')"
    using assms guard by (auto simp: http_create_job_def split: if_splits)
  then obtain n s1 where n: "select_total upload_ids s = (Inr n, s1)" and rest: "?rest n s1 = (Inr out, s')"
    by (rule bind_InrE)
  from select_total_Inr [OF n] obtain us where us: "s1 = s" "parse_uuids upload_ids = Inr us" "n = total_bytes us s"
    by blast
  from rest have total: "n \<le> ingestion_max_total_bytes_per_job (pf_settings P)"
    by (auto simp: raise_apply split: if_splits)
  with rest m us obtain x where "create_job (pf_new_uuid P s) m instructions us creator s = (Inr x, s')"
    by (auto simp: act_simps split: sum.splits prod.splits)
  from create_job_Inr [OF this] have s': "s' = s\<lparr>ingestion_jobs := ingestion_jobs s
      @ [new_job (pf_new_uuid P s) m instructions creator (db_now s)],
      ingestion_uploads := fold (attach_upload (pf_new_uuid P s)) us (ingestion_uploads s)\<rparr>" by blast
  show ?thesis
    using us m total guard(2) length_parse_uuids [OF us(2)]
    by (intro exI [where x = us] exI [where x = m]
        exI [where x = "new_job (pf_new_uuid P s) m instructions creator (db_now s)"])
      (simp add: s' new_job_def)
qed

theorem accepted_job_within_limits_witness:
  "\<exists>out s' j. http_create_job toy_platform [] ''merge'' None None (migrated 0) = (Inr out, s')
     \<and> ingestion_jobs s' = [j] \<and> jb_status j = ''queued''"
proof -
  obtain out s' where run: "http_create_job toy_platform [] ''merge'' None None (migrated 0) = (Inr out, s')"
    by (simp add: http_create_job_def select_total_def statement_def migrated_def act_simps total_bytes_def
        toy_platform_def mk_settings_def parse_mode_def create_job_def)
  from accepted_job_within_limits [OF run] run show ?thesis by (auto simp: migrated_def)
qed

end
