(* ===== verification/Chat.thy ===== *)
theory Chat
  imports Event_Bus Ingestion_Http
begin

text \<open>
  \<open>chat/orchestrator.py\<close> and \<open>chat/recovery.py\<close>: chat sessions and their turns. A session remembers
  the staging registry it started from; a turn is an ingestion job in merge mode, run by the worker
  of theory \<open>Job_Worker\<close> and announced on the event bus; saving a session forgets the memory,
  cancelling it puts the remembered registry back. The orchestrator's table of running turns lives
  in memory, beside the database. Each method runs in a session of its own that is rolled back when
  it raises (\<open>in_session\<close>). The deletion of a session also deletes its messages and unlinks its
  jobs, as the foreign keys of migration 0004 say.
\<close>

type_synonym running_turns = "(uuid, uuid) dict"

subsection \<open>Rows\<close>

definition find_session :: "uuid \<Rightarrow> db \<Rightarrow> chat_session_row option" where
  "find_session sid s = List.find (\<lambda>r. cs_id r = sid) (chat_sessions s)"

definition active_sessions :: "uuid \<Rightarrow> db \<Rightarrow> chat_session_row list" where
  "active_sessions token s = filter (\<lambda>r. cs_token_id r = token \<and> cs_status r = ''active'') (chat_sessions s)"

definition session_messages :: "uuid \<Rightarrow> db \<Rightarrow> chat_message_row list" where
  "session_messages sid s = filter (\<lambda>m. cm_session_id m = sid) (chat_messages s)"

text \<open>\<open>UPDATE chat_sessions SET status = ... WHERE id = :i RETURNING ...\<close>\<close>

definition set_session_status :: "uuid \<Rightarrow> string \<Rightarrow> (db, exn, chat_session_row option) act" where
  "set_session_status sid st = statement (\<lambda>s. (Inr (find_session sid s),
     s\<lparr>chat_sessions := update_where (\<lambda>r. cs_id r = sid) (\<lambda>r. r\<lparr>cs_status := st\<rparr>) (chat_sessions s)\<rparr>))"

definition delete_session :: "uuid \<Rightarrow> (db, exn, unit) act" where
  "delete_session sid = statement (modify (\<lambda>s.
     s\<lparr>chat_sessions := filter (\<lambda>r. cs_id r \<noteq> sid) (chat_sessions s),
       chat_messages := filter (\<lambda>m. cm_session_id m \<noteq> sid) (chat_messages s),
       ingestion_jobs := update_where (\<lambda>j. jb_chat_session_id j = Some sid)
         (\<lambda>j. j\<lparr>jb_chat_session_id := None\<rparr>) (ingestion_jobs s)\<rparr>))"

text \<open>The serial number of a new message is the database's, an argument.\<close>

definition insert_message ::
  "(db \<Rightarrow> int) \<Rightarrow> uuid \<Rightarrow> int \<Rightarrow> string \<Rightarrow> json \<Rightarrow> (db, exn, unit) act" where
  "insert_message serial sid turn_index role content = statement (\<lambda>s.
     if find_session sid s = None then (Inl IntegrityError, s\<lparr>tx_aborted := True\<rparr>)
     else (Inr (), s\<lparr>chat_messages := chat_messages s @
        [\<lparr>cm_id = serial s, cm_session_id = sid, cm_turn_index = turn_index, cm_role = role,
          cm_content = content, cm_created_at = db_now s\<rparr>]\<rparr>))"

text \<open>\<open>SELECT COALESCE(MAX(turn_index), d) FROM chat_messages WHERE session_id = :i\<close>\<close>

definition max_turn_index :: "int \<Rightarrow> uuid \<Rightarrow> db \<Rightarrow> int" where
  "max_turn_index d sid s = (case map cm_turn_index (session_messages sid s) of [] \<Rightarrow> d | x # xs \<Rightarrow> fold max xs x)"

text \<open>A row for the requester; None stands for a caller inside the platform.\<close>

definition visible_to :: "uuid option \<Rightarrow> uuid \<Rightarrow> chat_session_row option \<Rightarrow> exn + chat_session_row" where
  "visible_to requester sid rec =
     (case rec of
        None \<Rightarrow> Inl (SessionNotFoundError sid)
      | Some r \<Rightarrow> if requester \<noteq> None \<and> requester \<noteq> Some (cs_token_id r) then Inl (SessionNotFoundError sid) else Inr r)"

subsection \<open>Sessions\<close>

record session_info =
  si_id :: uuid
  si_status :: string
  si_pre_session_version :: int
  si_messages :: "json list"

definition check_quota :: "int option \<Rightarrow> uuid \<Rightarrow> (db, exn, unit) act" where
  "check_quota max_sessions token =
     (case max_sessions of
        None \<Rightarrow> ret ()
      | Some n \<Rightarrow> statement (\<lambda>s. (if int (length (active_sessions token s)) \<ge> n
            then Inl (TooManySessionsError token) else Inr (), s)))"

definition insert_session :: "uuid \<Rightarrow> uuid \<Rightarrow> snapshot \<Rightarrow> (db, exn, unit) act" where
  "insert_session sid token snap = statement (modify (\<lambda>s. s\<lparr>chat_sessions := chat_sessions s @
     [\<lparr>cs_id = sid, cs_token_id = token, cs_status = ''active'', cs_pre_registry = sn_registry snap,
       cs_pre_version = sn_version snap, cs_created_at = db_now s, cs_last_turn_at = None\<rparr>]\<rparr>))"

definition create_session ::
  "(db \<Rightarrow> uuid) \<Rightarrow> int option \<Rightarrow> uuid \<Rightarrow> (db, exn, uuid) act" where
  "create_session new_uuid max_sessions token =
     in_session
       (bind (check_quota max_sessions token) (\<lambda>_.
        bind (load Staging) (\<lambda>snap.
        bind (reads new_uuid) (\<lambda>sid.
        bind (insert_session sid token snap) (\<lambda>_. ret sid)))))"

definition chat_message_json :: "'n platform \<Rightarrow> chat_message_row \<Rightarrow> json" where
  "chat_message_json P m =
     JObj [(''turn_index'', JInt (cm_turn_index m)), (''role'', JStr (cm_role m)), (''content'', cm_content m),
           (''created_at'', JStr (pf_isoformat P (cm_created_at m)))]"

definition get_session ::
  "'n platform \<Rightarrow> uuid \<Rightarrow> uuid option \<Rightarrow> (db, exn, session_info) act" where
  "get_session P sid requester =
     in_session
       (bind (statement (reads (find_session sid))) (\<lambda>rec.
        bind (lift_sum (visible_to requester sid rec)) (\<lambda>r.
        bind (statement (reads (\<lambda>s. sort_key cm_id (session_messages sid s)))) (\<lambda>msgs.
        ret \<lparr>si_id = sid, si_status = cs_status r, si_pre_session_version = cs_pre_version r,
             si_messages = map (chat_message_json P) msgs\<rparr>))))"

definition turn_guard :: "running_turns \<Rightarrow> uuid \<Rightarrow> exn + unit" where
  "turn_guard running sid = (if dict_has sid running then Inl (TurnInFlightError sid) else Inr ())"

definition save_session :: "running_turns \<Rightarrow> uuid \<Rightarrow> uuid option \<Rightarrow> (db, exn, unit) act" where
  "save_session running sid requester =
     bind (lift_sum (turn_guard running sid)) (\<lambda>_.
     in_session
       (bind (set_session_status sid ''saving'') (\<lambda>rec.
        bind (lift_sum (visible_to requester sid rec)) (\<lambda>_.
        delete_session sid))))"

text \<open>
  Between the reading of the version and the save another transaction may commit: \<open>others\<close>. When
  the save is refused as stale the transaction is committed, so the row stays 'cancelling'.
\<close>

definition restore_registry :: "uuid \<Rightarrow> chat_session_row \<Rightarrow> snapshot \<Rightarrow> (db, exn, int) act" where
  "restore_registry sid r current =
     save Staging (cs_pre_registry r) (Some (sn_version current)) (Some ''chat-cancel'')
       (Some (''cancel chat session '' @ sid))"

definition begin_cancel :: "uuid \<Rightarrow> uuid option \<Rightarrow> (db, exn, chat_session_row \<times> snapshot) act" where
  "begin_cancel sid requester =
     bind (set_session_status sid ''cancelling'') (\<lambda>rec.
     bind (lift_sum (visible_to requester sid rec)) (\<lambda>r.
     bind (load Staging) (\<lambda>current. ret (r, current))))"

definition cancel_session ::
  "(db \<Rightarrow> db) \<Rightarrow> running_turns \<Rightarrow> uuid \<Rightarrow> uuid option \<Rightarrow> (db, exn, unit) act" where
  "cancel_session others running sid requester =
     bind (lift_sum (turn_guard running sid)) (\<lambda>_ s.
     case begin_cancel sid requester s of
       (Inl e, _) \<Rightarrow> (Inl e, s)
     | (Inr (r, current), s1) \<Rightarrow>
         (case restore_registry sid r current (others s1) of
            (Inl (StaleVersionError env expected found), s2) \<Rightarrow>
              (Inl (StaleStagingError (exn_str (StaleVersionError env expected found))), s2)
          | (Inl e, _) \<Rightarrow> (Inl e, others s)
          | (Inr v, s2) \<Rightarrow>
              (case delete_session sid s2 of (Inl e, _) \<Rightarrow> (Inl e, others s) | (Inr _, s3) \<Rightarrow> (Inr (), s3))))"

subsection \<open>Turns\<close>

fun link_uploads :: "uuid \<Rightarrow> string list \<Rightarrow> (db, exn, unit) act" where
  "link_uploads jid [] = ret ()"
| "link_uploads jid (up # ups) =
     bind (statement (\<lambda>s. case py_uuid up of
         None \<Rightarrow> (Inl (OtherException ''DBAPIError'' ''invalid UUID''), s\<lparr>tx_aborted := True\<rparr>)
       | Some u \<Rightarrow> (Inr (), s\<lparr>ingestion_uploads := attach_upload jid u (ingestion_uploads s)\<rparr>))) (\<lambda>_.
     link_uploads jid ups)"

definition user_content :: "string \<Rightarrow> string list \<Rightarrow> json" where
  "user_content user_text upload_ids =
     JObj [(''text'', JStr user_text), (''upload_ids'', JList (map JStr upload_ids))]"

definition insert_turn_job :: "(db \<Rightarrow> uuid) \<Rightarrow> uuid \<Rightarrow> string \<Rightarrow> uuid \<Rightarrow> (db, exn, uuid) act" where
  "insert_turn_job new_uuid sid user_text token = statement (\<lambda>s.
     (Inr (new_uuid s), s\<lparr>ingestion_jobs := ingestion_jobs s @
        [(new_job (new_uuid s) Merge (Some user_text) (Some token) (db_now s))\<lparr>jb_chat_session_id := Some sid\<rparr>]\<rparr>))"

text \<open>The transaction of \<open>start_turn\<close>, after its check of the running turns.\<close>

definition start_turn_tx ::
  "(db \<Rightarrow> uuid) \<Rightarrow> (db \<Rightarrow> int) \<Rightarrow> uuid \<Rightarrow> string \<Rightarrow> string list \<Rightarrow> uuid \<Rightarrow> uuid option
     \<Rightarrow> (db, exn, uuid) act" where
  "start_turn_tx new_uuid serial sid user_text upload_ids token requester =
     in_session
       (bind (statement (reads (find_session sid))) (\<lambda>rec.
        bind (lift_sum (visible_to requester sid rec)) (\<lambda>r.
        if cs_status r \<noteq> ''active'' then raise (TurnInFlightError (''session not active: '' @ cs_status r))
        else
          bind (statement (reads (\<lambda>s. max_turn_index (- 1) sid s + 1))) (\<lambda>turn_index.
          bind (insert_message serial sid turn_index ''user'' (user_content user_text upload_ids)) (\<lambda>_.
          bind (statement (modify (\<lambda>s. s\<lparr>chat_sessions := update_where (\<lambda>r. cs_id r = sid)
                  (\<lambda>r. r\<lparr>cs_last_turn_at := Some (db_now s)\<rparr>) (chat_sessions s)\<rparr>))) (\<lambda>_.
          bind (insert_turn_job new_uuid sid user_text token) (\<lambda>turn_id.
          bind (link_uploads turn_id upload_ids) (\<lambda>_. ret turn_id))))))))"

definition start_turn ::
  "(db \<Rightarrow> uuid) \<Rightarrow> (db \<Rightarrow> int) \<Rightarrow> uuid \<Rightarrow> string \<Rightarrow> string list \<Rightarrow> uuid \<Rightarrow> uuid option
     \<Rightarrow> (running_turns \<times> db, exn, uuid) act" where
  "start_turn new_uuid serial sid user_text upload_ids token requester = (\<lambda>(running, s).
     case turn_guard running sid of
       Inl e \<Rightarrow> (Inl e, (running, s))
     | Inr _ \<Rightarrow>
         (case start_turn_tx new_uuid serial sid user_text upload_ids token requester s of
            (Inl e, s') \<Rightarrow> (Inl e, (running, s'))
          | (Inr turn_id, s') \<Rightarrow> (Inr turn_id, (dict_set sid turn_id running, s'))))"

text \<open>The texts of the assistant's message are Chinese; they are arguments.\<close>

record chat_texts =
  ct_imported :: string
  ct_cancelled :: string
  ct_failed :: string
  ct_unknown_error :: string

definition non_empty :: "string option \<Rightarrow> string option" where
  "non_empty x = (case x of Some t \<Rightarrow> if t = [] then None else Some t | None \<Rightarrow> None)"

definition turn_summary :: "chat_texts \<Rightarrow> job_row \<Rightarrow> string" where
  "turn_summary T j =
     (if jb_status j = ''imported'' then ct_imported T
      else if jb_status j = ''cancelled'' then ct_cancelled T
      else ct_failed T @ (case coalesce (non_empty (jb_phase_message j)) (non_empty (jb_error_code j)) of
                            None \<Rightarrow> ct_unknown_error T | Some t \<Rightarrow> t))"

text \<open>The decisions of a report as the worker writes it.\<close>

definition decisions_made :: "json option \<Rightarrow> int" where
  "decisions_made rep =
     (case rep of Some (JObj d) \<Rightarrow> (case dict_get d ''decisions'' of Some (JList ds) \<Rightarrow> int (length ds) | _ \<Rightarrow> 0)
      | _ \<Rightarrow> 0)"

definition mark_wall_clock :: "uuid \<Rightarrow> (db, exn, unit) act" where
  "mark_wall_clock jid = in_session (statement (modify (\<lambda>s. s\<lparr>ingestion_jobs :=
     update_where (\<lambda>j. jb_id j = jid \<and> jb_finished_at j = None)
       (\<lambda>j. j\<lparr>jb_status := ''failed'', jb_phase_message := Some ''wall-clock timeout'',
              jb_error_code := Some ''WALL_CLOCK_TIMEOUT'', jb_finished_at := Some (db_now s)\<rparr>)
       (ingestion_jobs s)\<rparr>)))"

text \<open>
  \<open>wait_for(_run_one_job(...), timeout)\<close>: when the time is up the job is cancelled wherever it
  waits (its \<open>job_world\<close> says where); TimeoutError is raised only if the cancellation comes out of
  the job.
\<close>

definition limited_job ::
  "'n platform \<Rightarrow> 'l job_world \<Rightarrow> string \<Rightarrow> uuid \<Rightarrow> bool \<Rightarrow> (db, exn, unit) act" where
  "limited_job P W system_prompt jid timed_out = (\<lambda>s.
     case run_one_job P W system_prompt jid s of
       (Inr _, s') \<Rightarrow> (Inr (), s')
     | (Inl e, s') \<Rightarrow> if e = CancelledError \<and> timed_out then mark_wall_clock jid s' else (Inl e, s'))"

definition record_outcome ::
  "(db \<Rightarrow> int) \<Rightarrow> chat_texts \<Rightarrow> uuid \<Rightarrow> uuid \<Rightarrow> (db, exn, job_row) act" where
  "record_outcome serial T sid turn_id =
     in_session
       (bind (statement (\<lambda>s. (case find_job turn_id s of None \<Rightarrow> Inl NoResultFound | Some j \<Rightarrow> Inr j, s))) (\<lambda>j.
        bind (statement (reads (max_turn_index 0 sid))) (\<lambda>turn_index.
        bind (insert_message serial sid turn_index ''assistant'' (JObj [(''text'', JStr (turn_summary T j))])) (\<lambda>_.
        ret j))))"

definition outcome_event :: "uuid \<Rightarrow> job_row \<Rightarrow> string \<times> json" where
  "outcome_event turn_id j =
     (if jb_status j = ''imported''
      then (''turn_complete'', JObj [(''turn_id'', JStr turn_id),
              (''tool_calls_made'', JInt (decisions_made (jb_decisions_report j)))])
      else (''turn_error'', JObj [(''kind'', JStr (case non_empty (jb_error_code j) of None \<Rightarrow> ''unknown'' | Some k \<Rightarrow> k)),
              (''message'', JStr (case jb_phase_message j of None \<Rightarrow> [] | Some m \<Rightarrow> m))]))"

record chat =
  ch_db :: db
  ch_running :: running_turns
  ch_bus :: "json event_bus"

text \<open>While the job runs, other requests change the running turns and the bus: \<open>others\<close>.\<close>

definition run_turn_worker ::
  "'n platform \<Rightarrow> 'l job_world \<Rightarrow> (db \<Rightarrow> int) \<Rightarrow> chat_texts \<Rightarrow> string \<Rightarrow> bool
     \<Rightarrow> (running_turns \<times> json event_bus \<Rightarrow> running_turns \<times> json event_bus) \<Rightarrow> uuid \<Rightarrow> uuid
     \<Rightarrow> (chat, exn, unit) act" where
  "run_turn_worker P W serial T system_prompt timed_out others sid turn_id = (\<lambda>c.
     let b1 = publish turn_id ''turn_start'' (JObj [(''turn_id'', JStr turn_id)]) (ch_bus c);
         (running, b2) = others (ch_running c, b1) in
     case bind (limited_job P W system_prompt turn_id timed_out)
            (\<lambda>_. record_outcome serial T sid turn_id) (ch_db c) of
       (Inl e, s') \<Rightarrow>
         (Inl e, \<lparr>ch_db = s', ch_running = dict_pop sid running, ch_bus = close_turn turn_id b2\<rparr>)
     | (Inr j, s') \<Rightarrow>
         (Inr (), \<lparr>ch_db = s', ch_running = dict_pop sid running,
            ch_bus = close_turn turn_id (case outcome_event turn_id j of (k, p) \<Rightarrow> publish turn_id k p b2)\<rparr>))"

subsection \<open>Orphaned sessions\<close>

definition is_orphaned :: "int \<Rightarrow> timestamp \<Rightarrow> chat_session_row \<Rightarrow> bool" where
  "is_orphaned orphan_after_s now r \<longleftrightarrow> cs_status r = ''active'' \<and>
     (let limit = now - orphan_after_s * 1000000 in
      case cs_last_turn_at r of None \<Rightarrow> cs_created_at r < limit | Some t \<Rightarrow> t < limit)"

record sweep_result =
  sw_recovered :: nat
  sw_failed :: nat

fun sweep_loop :: "(uuid \<Rightarrow> db \<Rightarrow> db) \<Rightarrow> running_turns \<Rightarrow> uuid list \<Rightarrow> sweep_result \<Rightarrow> db \<Rightarrow> sweep_result \<times> db" where
  "sweep_loop others running [] res s = (res, s)"
| "sweep_loop others running (sid # sids) res s =
     (case cancel_session (others sid) running sid None s of
        (Inr _, s') \<Rightarrow> sweep_loop others running sids (res\<lparr>sw_recovered := sw_recovered res + 1\<rparr>) s'
      | (Inl e, s') \<Rightarrow> sweep_loop others running sids (res\<lparr>sw_failed := sw_failed res + 1\<rparr>) s')"

definition sweep_orphan_sessions ::
  "(uuid \<Rightarrow> db \<Rightarrow> db) \<Rightarrow> running_turns \<Rightarrow> int \<Rightarrow> (db, exn, sweep_result) act" where
  "sweep_orphan_sessions others running orphan_after_s =
     bind (statement (reads (\<lambda>s. map cs_id (filter (is_orphaned orphan_after_s (db_now s)) (chat_sessions s))))) (\<lambda>sids s.
       case sweep_loop others running sids \<lparr>sw_recovered = 0, sw_failed = 0\<rparr> s of (res, s') \<Rightarrow> (Inr res, s'))"

subsection \<open>Facts\<close>

lemma in_session_cases:
  assumes "in_session m s = (r, s')"
  obtains (raised) e where "r = Inl e" "s' = s" | (finished) x where "r = Inr x" "m s = (Inr x, s')"
  using assms by (auto simp: in_session_def split: prod.splits sum.splits)

lemma in_session_Inl: "fst (m s) = Inl e \<Longrightarrow> in_session m s = (Inl e, s)"
  by (cases "m s") (auto simp: in_session_def)

lemma visible_to_other: "find_session sid s = Some r \<Longrightarrow> token \<noteq> cs_token_id r \<Longrightarrow>
    visible_to (Some token) sid (find_session sid s) = Inl (SessionNotFoundError sid)"
  by (simp add: visible_to_def)

lemma visible_to_Inr: "visible_to requester sid rec = Inr r \<longleftrightarrow>
    rec = Some r \<and> (requester = None \<or> requester = Some (cs_token_id r))"
  by (auto simp: visible_to_def split: option.splits)

lemma find_session_id: "find_session sid s = Some r \<Longrightarrow> cs_id r = sid \<and> r \<in> set (chat_sessions s)"
  unfolding find_session_def using find_mem by fastforce

lemma find_filter_other: "find_session sid (s\<lparr>chat_sessions := filter (\<lambda>r. cs_id r \<noteq> sid) rows\<rparr>) = None"
  by (auto simp: find_session_def find_None_iff)

text \<open>The first three statements of a cancellation.\<close>

definition marked_cancelling :: "uuid \<Rightarrow> db \<Rightarrow> db" where
  "marked_cancelling sid s = s\<lparr>chat_sessions :=
     update_where (\<lambda>r. cs_id r = sid) (\<lambda>r. r\<lparr>cs_status := ''cancelling''\<rparr>) (chat_sessions s)\<rparr>"

lemma slot_chat [simp]: "slot (s\<lparr>chat_sessions := a\<rparr>) = slot s" "slot (s\<lparr>chat_messages := b\<rparr>) = slot s"
  "slot (s\<lparr>ingestion_jobs := c\<rparr>) = slot s"
  by (auto simp: slot_def)

lemma slot_marked [simp]: "slot (marked_cancelling sid s) = slot s" "tx_aborted (marked_cancelling sid s) = tx_aborted s"
  by (auto simp: marked_cancelling_def slot_def)

lemma cancel_reads:
  assumes "find_session sid s = Some r" "requester = None \<or> requester = Some (cs_token_id r)"
    "\<not> tx_aborted s" "slot s Staging = Some (reg, v)"
  shows "begin_cancel sid requester s
      = (Inr (r, \<lparr>sn_env = Staging, sn_registry = reg, sn_version = v\<rparr>), marked_cancelling sid s)"
proof -
  have "set_session_status sid ''cancelling'' s = (Inr (Some r), marked_cancelling sid s)"
    using assms(1,3) by (simp add: set_session_status_def act_simps marked_cancelling_def)
  moreover have "visible_to requester sid (Some r) = Inr r" using assms(2) by (simp add: visible_to_Inr)
  moreover have "load Staging (marked_cancelling sid s)
      = (Inr \<lparr>sn_env = Staging, sn_registry = reg, sn_version = v\<rparr>, marked_cancelling sid s)"
    using assms(4) by (simp add: load_run)
  ultimately show ?thesis by (simp add: begin_cancel_def act_simps)
qed

lemma restore_run:
  assumes "slot s Staging = Some (reg, v)" "\<not> tx_aborted s" "sn_version cur = v"
  obtains s' where "restore_registry sid r cur s = (Inr (v + 1), s')"
    "slot s' = (slot s)(Staging \<mapsto> (cs_pre_registry r, v + 1))" "\<not> tx_aborted s'"
    "chat_sessions s' = chat_sessions s" "chat_messages s' = chat_messages s"
proof
  let ?s = "saved Staging (cs_pre_registry r) (Some ''chat-cancel'') (Some (''cancel chat session '' @ sid)) s"
  show "restore_registry sid r cur s = (Inr (v + 1), ?s)"
    using assms by (simp add: restore_registry_def save_run)
  show "slot ?s = (slot s)(Staging \<mapsto> (cs_pre_registry r, v + 1))" by (rule slot_saved [OF assms(1)])
  show "\<not> tx_aborted ?s" "chat_sessions ?s = chat_sessions s" "chat_messages ?s = chat_messages s"
    using same_tables_fields [OF saved_same_tables [of s]] assms(2) by blast+
qed

lemma delete_session_run: "\<not> tx_aborted s \<Longrightarrow> delete_session sid s = (Inr (),
    s\<lparr>chat_sessions := filter (\<lambda>r. cs_id r \<noteq> sid) (chat_sessions s),
       chat_messages := filter (\<lambda>m. cm_session_id m \<noteq> sid) (chat_messages s),
       ingestion_jobs := update_where (\<lambda>j. jb_chat_session_id j = Some sid)
         (\<lambda>j. j\<lparr>jb_chat_session_id := None\<rparr>) (ingestion_jobs s)\<rparr>)"
  by (simp add: delete_session_def act_simps)

lemma cancel_run:
  assumes "find_session sid s = Some r" "requester = None \<or> requester = Some (cs_token_id r)"
    "\<not> tx_aborted s" "\<not> dict_has sid running" "slot s Staging = Some (reg, v)"
  obtains s' where "cancel_session (\<lambda>s. s) running sid requester s = (Inr (), s')"
    "slot s' = (slot s)(Staging \<mapsto> (cs_pre_registry r, v + 1))"
    "chat_sessions s' = filter (\<lambda>r. cs_id r \<noteq> sid) (update_where (\<lambda>r. cs_id r = sid) (\<lambda>r. r\<lparr>cs_status := ''cancelling''\<rparr>) (chat_sessions s))"
    "chat_messages s' = filter (\<lambda>m. cm_session_id m \<noteq> sid) (chat_messages s)" "\<not> tx_aborted s'"
proof -
  let ?cur = "\<lparr>sn_env = Staging, sn_registry = reg, sn_version = v\<rparr>"
  obtain s2 where restore: "restore_registry sid r ?cur (marked_cancelling sid s) = (Inr (v + 1), s2)"
    and s2: "slot s2 = (slot s)(Staging \<mapsto> (cs_pre_registry r, v + 1))" "\<not> tx_aborted s2"
      "chat_sessions s2 = chat_sessions (marked_cancelling sid s)" "chat_messages s2 = chat_messages (marked_cancelling sid s)"
    by (rule restore_run [of "marked_cancelling sid s" reg v ?cur sid r]) (use assms(3,5) in auto)
  have run: "cancel_session (\<lambda>s. s) running sid requester s = delete_session sid s2"
    using assms(4) by (simp add: cancel_session_def turn_guard_def act_simps
        cancel_reads [OF assms(1-3,5)] restore delete_session_run [OF s2(2)])
  show thesis
    by (rule that [OF run [unfolded delete_session_run [OF s2(2)]]])
      (use s2 in \<open>simp_all add: marked_cancelling_def\<close>)
qed

subsection \<open>Properties\<close>


text \<open>Cancelling a session puts the registry it started from back into staging, under the next
  version, and removes the session with its messages; nothing else of the registries changes. It
  does so whatever staging holds by then: the version the session remembers is not compared, so
  what others have put into staging since the session began is overwritten.\<close>
theorem cancel_restores_start:
  assumes "find_session sid s = Some r" "requester = None \<or> requester = Some (cs_token_id r)"
    "\<not> tx_aborted s" "\<not> dict_has sid running" "slot s Staging = Some (reg, v)"
  shows "\<exists>s'. cancel_session (\<lambda>s. s) running sid requester s = (Inr (), s')
    \<and> slot s' = (slot s)(Staging \<mapsto> (cs_pre_registry r, v + 1))
    \<and> find_session sid s' = None \<and> session_messages sid s' = []"
  by (rule cancel_run [OF assms]) (auto simp: find_session_def find_None_iff session_messages_def)

text \<open>A cancellation that meets another save. When staging is saved between the reading of its
  version and the restoring save, the cancellation raises StaleStagingError, staging stays as the
  other transaction left it, and the session is kept, in the status cancelling; no further turn can
  be started in it.\<close>
theorem cancel_refused_when_moved:
  assumes "find_session sid s = Some r" "requester = None \<or> requester = Some (cs_token_id r)"
    "\<not> tx_aborted s" "\<not> dict_has sid running" "slot s Staging = Some (reg, v)"
    and "slot (others (marked_cancelling sid s)) Staging = Some (reg', v')" "v' \<noteq> v"
    and "chat_sessions (others (marked_cancelling sid s)) = chat_sessions (marked_cancelling sid s)"
    and "\<not> tx_aborted (others (marked_cancelling sid s))"
  shows "\<exists>m s'. cancel_session others running sid requester s = (Inl (StaleStagingError m), s')
    \<and> slot s' Staging = Some (reg', v')
    \<and> find_session sid s' = Some (r\<lparr>cs_status := ''cancelling''\<rparr>)
    \<and> fst (start_turn_tx new_uuid serial sid txt ups token None s')
        = Inl (TurnInFlightError ''session not active: cancelling'')"
proof -
  let ?s = "others (marked_cancelling sid s)"
  have "restore_registry sid r \<lparr>sn_env = Staging, sn_registry = reg, sn_version = v\<rparr> ?s
      = (Inl (StaleVersionError Staging v v'), ?s)"
    using assms(6,7) by (simp add: restore_registry_def save_run)
  then have run: "cancel_session others running sid requester s
      = (Inl (StaleStagingError (exn_str (StaleVersionError Staging v v'))), ?s)"
    using assms(4) by (simp add: cancel_session_def turn_guard_def act_simps cancel_reads [OF assms(1-3,5)])
  have found: "find_session sid ?s = Some (r\<lparr>cs_status := ''cancelling''\<rparr>)"
    using assms(1,8) find_session_id [OF assms(1)] by (simp add: marked_cancelling_def find_session_def find_update_where)
  have "fst (start_turn_tx new_uuid serial sid txt ups token None ?s)
      = Inl (TurnInFlightError ''session not active: cancelling'')"
    unfolding start_turn_tx_def
    by (subst in_session_Inl) (simp_all add: act_simps assms(9) found visible_to_def)
  with run found assms(6) show ?thesis by blast
qed

subsection \<open>An invariant of the chat tables\<close>

text \<open>
  The user messages of a session are its turns, numbered from zero; every message names one of
  these turns.
\<close>

definition user_turns :: "chat_message_row list \<Rightarrow> chat_message_row list" where
  "user_turns ms = filter (\<lambda>m. cm_role m = ''user'') ms"

definition numbered :: "chat_message_row list \<Rightarrow> bool" where
  "numbered ms \<longleftrightarrow> map cm_turn_index (user_turns ms) = map int [0..<length (user_turns ms)]
     \<and> (\<forall>m \<in> set ms. 0 \<le> cm_turn_index m \<and> cm_turn_index m < int (length (user_turns ms)))"

definition active_of :: "uuid \<Rightarrow> chat_session_row list \<Rightarrow> chat_session_row list" where
  "active_of token S = filter (\<lambda>r. cs_token_id r = token \<and> cs_status r = ''active'') S"

definition messages_of :: "uuid \<Rightarrow> chat_message_row list \<Rightarrow> chat_message_row list" where
  "messages_of sid M = filter (\<lambda>m. cm_session_id m = sid) M"

definition chat_ok :: "int \<Rightarrow> chat_session_row list \<Rightarrow> chat_message_row list \<Rightarrow> bool" where
  "chat_ok n S M \<longleftrightarrow> (\<forall>token. int (length (active_of token S)) \<le> n)
     \<and> (\<forall>sid. numbered (messages_of sid M))
     \<and> (\<forall>m \<in> set M. \<exists>r \<in> set S. cs_id r = cm_session_id m)"

lemma rows_of_session: "session_messages sid s = messages_of sid (chat_messages s)"
  "active_sessions token s = active_of token (chat_sessions s)"
  by (simp_all add: session_messages_def messages_of_def active_sessions_def active_of_def)

lemma numbered_Nil [simp]: "numbered []"
  by (simp add: numbered_def user_turns_def)

lemma chat_ok_update:
  assumes "chat_ok n S M" "\<And>r. cs_id (f r) = cs_id r"
    "\<And>r. cs_status (f r) = ''active'' \<Longrightarrow> cs_status r = ''active''" "\<And>r. cs_token_id (f r) = cs_token_id r"
  shows "chat_ok n (update_where p f S) M"
proof -
  have "length (active_of token (update_where p f S)) \<le> length (active_of token S)" for token
  proof (induction S)
    case (Cons r S)
    with assms(3) [of r] assms(4) show ?case by (auto simp: active_of_def update_where_def)
  qed (simp add: active_of_def update_where_def)
  moreover have "cs_id ` set (update_where p f S) = cs_id ` set S"
    using map_update_where [of p cs_id f S] assms(2) by (metis list.set_map)
  then have "\<exists>r \<in> set (update_where p f S). cs_id r = x" if "\<exists>r \<in> set S. cs_id r = x" for x
    using that by (metis (mono_tags, lifting) image_iff)
  ultimately show ?thesis
    using assms(1) unfolding chat_ok_def by (meson of_nat_le_iff order_trans)
qed

lemma messages_of_filter: "messages_of u (filter (\<lambda>m. cm_session_id m \<noteq> sid) M) = (if u = sid then [] else messages_of u M)"
  by (induction M) (auto simp: messages_of_def)

lemma chat_ok_delete:
  assumes "chat_ok n S M"
  shows "chat_ok n (filter (\<lambda>r. cs_id r \<noteq> sid) S) (filter (\<lambda>m. cm_session_id m \<noteq> sid) M)"
proof -
  have "length (active_of token (filter (\<lambda>r. cs_id r \<noteq> sid) S)) \<le> length (active_of token S)" for token
    by (induction S) (auto simp: active_of_def)
  then have "int (length (active_of token (filter (\<lambda>r. cs_id r \<noteq> sid) S))) \<le> n" for token
    using assms unfolding chat_ok_def by (meson of_nat_le_iff order_trans)
  then show ?thesis
    using assms unfolding chat_ok_def messages_of_filter by simp metis
qed

lemma chat_ok_create:
  assumes "chat_ok n S M" "int (length (active_of (cs_token_id r) S)) < n"
  shows "chat_ok n (S @ [r]) M"
  using assms unfolding chat_ok_def by (auto simp: active_of_def)

lemma max_turn_numbered:
  assumes "numbered ms"
  shows "(case map cm_turn_index ms of [] \<Rightarrow> d | x # xs \<Rightarrow> fold max xs x)
      = (if ms = [] then d else int (length (user_turns ms)) - 1)"
proof (cases ms)
  case (Cons m ms')
  let ?xs = "map cm_turn_index ms" and ?k = "length (user_turns ms)"
  have bound: "0 \<le> x \<and> x < int ?k" if "x \<in> set ?xs" for x
    using that assms unfolding numbered_def by fastforce
  then have "0 < ?k" using Cons by fastforce
  then have "int (?k - 1) \<in> set (map int [0..<?k])" by auto
  with assms have "int (?k - 1) \<in> cm_turn_index ` set (user_turns ms)"
    unfolding numbered_def by (metis list.set_map)
  then have "int (?k - 1) \<in> set ?xs" by (auto simp: user_turns_def)
  then have "Max (set ?xs) = int ?k - 1"
    using bound \<open>0 < ?k\<close> by (intro Max_eqI) (auto simp: of_nat_diff)
  with Cons show ?thesis using Max.set_eq_fold [of "cm_turn_index m" "map cm_turn_index ms'"] by simp
qed simp

lemma chat_ok_message:
  assumes "chat_ok n S M" "\<exists>r \<in> set S. cs_id r = cm_session_id m"
    "numbered (messages_of (cm_session_id m) M @ [m])"
  shows "chat_ok n S (M @ [m])"
  using assms unfolding chat_ok_def by (auto simp: messages_of_def)

lemma numbered_user:
  assumes "numbered ms" "cm_role m = ''user''"
    "cm_turn_index m = (if ms = [] then - 1 else int (length (user_turns ms)) - 1) + 1"
  shows "numbered (ms @ [m])"
  using assms by (auto simp: numbered_def user_turns_def)

lemma numbered_answer:
  assumes "numbered ms" "cm_role m \<noteq> ''user''" "ms \<noteq> []" "cm_turn_index m = int (length (user_turns ms)) - 1"
  shows "numbered (ms @ [m])"
proof -
  from assms(1,3) have "0 < length (user_turns ms)" by (cases ms) (auto simp: numbered_def)
  with assms show ?thesis by (auto simp: numbered_def user_turns_def)
qed

text \<open>
  The chat tables under the orchestrator's operations and other transactions. An identifier the
  database makes is new; the answer of a turn is recorded while the turn's own message is there.
\<close>

inductive chat_reach :: "int \<Rightarrow> db \<Rightarrow> bool" for n :: int where
  fresh_tables: "0 \<le> n \<Longrightarrow> chat_sessions s = [] \<Longrightarrow> chat_messages s = [] \<Longrightarrow> chat_reach n s"
| creating: "chat_reach n s \<Longrightarrow> create_session new_uuid (Some n) token s = (r, s') \<Longrightarrow> chat_reach n s'"
| saving: "chat_reach n s \<Longrightarrow> save_session running sid req s = (r', s') \<Longrightarrow> chat_reach n s'"
| cancelling: "chat_reach n s \<Longrightarrow> (\<And>t. chat_sessions (others t) = chat_sessions t \<and> chat_messages (others t) = chat_messages t)
    \<Longrightarrow> cancel_session others running sid req s = (r', s') \<Longrightarrow> chat_reach n s'"
| turning: "chat_reach n s \<Longrightarrow> start_turn_tx new_uuid serial sid txt ups token req s = (r, s') \<Longrightarrow> chat_reach n s'"
| answering: "chat_reach n s \<Longrightarrow> session_messages sid s \<noteq> [] \<Longrightarrow> record_outcome serial T sid turn_id s = (r'', s')
    \<Longrightarrow> chat_reach n s'"
| elsewhere: "chat_reach n s \<Longrightarrow> chat_sessions s' = chat_sessions s \<Longrightarrow> chat_messages s' = chat_messages s
    \<Longrightarrow> chat_reach n s'"

definition ok_db :: "int \<Rightarrow> db \<Rightarrow> bool" where
  "ok_db n s \<longleftrightarrow> chat_ok n (chat_sessions s) (chat_messages s)"

lemma creating_ok:
  assumes "ok_db n s" "create_session new_uuid (Some n) token s = (r, s')"
  shows "ok_db n s'"
  using assms(2)
proof (cases rule: in_session_cases [OF assms(2) [unfolded create_session_def]])
  case (2 x)
  then have room: "int (length (active_of token (chat_sessions s))) < n"
    and s': "chat_messages s' = chat_messages s"
      "\<exists>row. cs_token_id row = token \<and> chat_sessions s' = chat_sessions s @ [row]"
    by (auto simp: check_quota_def insert_session_def act_simps rows_of_session statement_def
        split: if_splits option.splits prod.splits)
  then show ?thesis
    using assms(1) chat_ok_create by (auto simp: ok_db_def)
qed (use assms(1) in simp)

lemma status_effect: "set_session_status sid st s = (Inr rec, s') \<Longrightarrow> chat_messages s' = chat_messages s
    \<and> chat_sessions s' = update_where (\<lambda>r. cs_id r = sid) (\<lambda>r. r\<lparr>cs_status := st\<rparr>) (chat_sessions s)"
  by (auto simp: set_session_status_def statement_def split: if_splits)

lemma delete_effect: "delete_session sid s = (Inr u, s') \<Longrightarrow>
    chat_sessions s' = filter (\<lambda>r. cs_id r \<noteq> sid) (chat_sessions s)
    \<and> chat_messages s' = filter (\<lambda>m. cm_session_id m \<noteq> sid) (chat_messages s)"
  by (auto simp: delete_session_def statement_def act_simps split: if_splits)

lemma status_ok: "ok_db n s \<Longrightarrow> set_session_status sid st s = (Inr rec, s') \<Longrightarrow> st \<noteq> ''active'' \<Longrightarrow> ok_db n s'"
  unfolding ok_db_def by (frule status_effect) (auto intro: chat_ok_update)

lemma delete_ok: "ok_db n s \<Longrightarrow> delete_session sid s = (Inr u, s') \<Longrightarrow> ok_db n s'"
  unfolding ok_db_def by (frule delete_effect) (simp add: chat_ok_delete)

lemma saving_ok:
  assumes "ok_db n s" "save_session running sid req s = (r, s')"
  shows "ok_db n s'"
proof (cases "turn_guard running sid")
  case (Inl e)
  with assms show ?thesis by (simp add: save_session_def act_simps)
next
  case (Inr u)
  then have run: "in_session (bind (set_session_status sid ''saving'') (\<lambda>rec.
        bind (lift_sum (visible_to req sid rec)) (\<lambda>_. delete_session sid))) s = (r, s')"
    using assms(2) by (simp add: save_session_def act_simps)
  show ?thesis
  proof (cases rule: in_session_cases [OF run])
    case (2 x)
    from bind_InrE [OF 2(2)] obtain rec s1 where 1: "set_session_status sid ''saving'' s = (Inr rec, s1)"
      "bind (lift_sum (visible_to req sid rec)) (\<lambda>_. delete_session sid) s1 = (Inr x, s')" by blast
    from 1(2) have "delete_session sid s1 = (Inr x, s')" by (auto simp: act_simps split: sum.splits)
    moreover have "ok_db n s1" using status_ok [OF assms(1) 1(1)] by simp
    ultimately show ?thesis by (rule delete_ok [rotated])
  qed (use assms(1) in simp)
qed

lemma begin_cancel_ok:
  assumes "ok_db n s" "begin_cancel sid req s = (Inr rc, s')"
  shows "ok_db n s'"
proof -
  from bind_InrE [OF assms(2) [unfolded begin_cancel_def]] obtain rec s1 where
    1: "set_session_status sid ''cancelling'' s = (Inr rec, s1)"
      "bind (lift_sum (visible_to req sid rec)) (\<lambda>r. bind (load Staging) (\<lambda>current. ret (r, current))) s1 = (Inr rc, s')"
    by blast
  from 1(2) have "s' = s1" by (auto simp: act_simps split: sum.splits option.splits)
  with status_ok [OF assms(1) 1(1)] show ?thesis by simp
qed

lemma restore_rows: "restore_registry sid r cur s = (x, s') \<Longrightarrow>
    chat_sessions s' = chat_sessions s \<and> chat_messages s' = chat_messages s"
  unfolding restore_registry_def using save_same_tables same_tables_fields by meson

lemma cancelling_ok:
  assumes ok: "ok_db n s" and env: "\<And>t. chat_sessions (others t) = chat_sessions t \<and> chat_messages (others t) = chat_messages t"
    and run: "cancel_session others running sid req s = (r, s')"
  shows "ok_db n s'"
proof -
  have others: "ok_db n (others t)" if "ok_db n t" for t using that env [of t] by (simp add: ok_db_def)
  show ?thesis
  proof (cases "turn_guard running sid")
    case (Inr u)
    show ?thesis
    proof (cases "begin_cancel sid req s")
      case (Pair a s1)
      show ?thesis
      proof (cases a)
        case (Inr rc)
        then obtain row cur where b: "begin_cancel sid req s = (Inr (row, cur), s1)" using Pair by (cases rc) auto
        obtain x s2 where x: "restore_registry sid row cur (others s1) = (x, s2)" by fastforce
        have s2: "ok_db n s2"
          using restore_rows [OF x] others [OF begin_cancel_ok [OF ok b]] by (simp add: ok_db_def)
        have "s' = s2 \<or> s' = others s \<or> delete_session sid s2 = (Inr (), s')"
          using run b x \<open>turn_guard running sid = Inr u\<close>
          by (auto simp: cancel_session_def act_simps split: sum.splits exn.splits prod.splits)
        with s2 others [OF ok] delete_ok show ?thesis by blast
      qed (use run Pair Inr ok in \<open>simp add: cancel_session_def act_simps\<close>)
    qed
  qed (use run ok in \<open>simp add: cancel_session_def act_simps\<close>)
qed

lemma message_effect: "insert_message serial sid k role content s = (Inr u, s') \<Longrightarrow>
    chat_sessions s' = chat_sessions s \<and> (\<exists>r \<in> set (chat_sessions s). cs_id r = sid)
    \<and> (\<exists>m. chat_messages s' = chat_messages s @ [m] \<and> cm_session_id m = sid \<and> cm_turn_index m = k
          \<and> cm_role m = role \<and> cm_content m = content)"
  using find_session_id [of sid s]
  by (auto simp: insert_message_def statement_def split: if_splits)

lemma max_turn_ok: "ok_db n s \<Longrightarrow> max_turn_index d sid s = (if session_messages sid s = [] then d
    else int (length (user_turns (session_messages sid s))) - 1)"
  using max_turn_numbered unfolding max_turn_index_def ok_db_def chat_ok_def rows_of_session by blast

lemma user_message_ok:
  assumes "ok_db n s" "insert_message serial sid (max_turn_index (- 1) sid s + 1) ''user'' content s = (Inr u, s')"
  shows "ok_db n s'"
proof -
  from message_effect [OF assms(2)] obtain m where s': "chat_sessions s' = chat_sessions s"
      "chat_messages s' = chat_messages s @ [m]" and m: "cm_session_id m = sid" "cm_role m = ''user''"
      "cm_turn_index m = max_turn_index (- 1) sid s + 1"
    and ex: "\<exists>r \<in> set (chat_sessions s). cs_id r = sid" by blast
  have "numbered (messages_of sid (chat_messages s))" using assms(1) by (simp add: ok_db_def chat_ok_def)
  then have "numbered (messages_of sid (chat_messages s) @ [m])"
    by (rule numbered_user) (simp_all add: m max_turn_ok [OF assms(1)] rows_of_session)
  with assms(1) ex s' m(1) show ?thesis by (simp add: ok_db_def chat_ok_message)
qed

lemma answer_ok:
  assumes "ok_db n s" "session_messages sid s \<noteq> []"
    "insert_message serial sid (max_turn_index 0 sid s) ''assistant'' content s = (Inr u, s')"
  shows "ok_db n s'"
proof -
  from message_effect [OF assms(3)] obtain m where s': "chat_sessions s' = chat_sessions s"
      "chat_messages s' = chat_messages s @ [m]" and m: "cm_session_id m = sid" "cm_role m = ''assistant''"
      "cm_turn_index m = max_turn_index 0 sid s"
    and ex: "\<exists>r \<in> set (chat_sessions s). cs_id r = sid" by blast
  have "numbered (messages_of sid (chat_messages s))" using assms(1) by (simp add: ok_db_def chat_ok_def)
  then have "numbered (messages_of sid (chat_messages s) @ [m])"
    by (rule numbered_answer) (use assms(2) in \<open>simp_all add: m max_turn_ok [OF assms(1)] rows_of_session\<close>)
  with assms(1) ex s' m(1) show ?thesis by (simp add: ok_db_def chat_ok_message)
qed

text \<open>The statements of a started turn after its message leave messages and tokens alone.\<close>

lemma link_uploads_effect: "link_uploads jid ups s = (Inr u, s') \<Longrightarrow>
    chat_sessions s' = chat_sessions s \<and> chat_messages s' = chat_messages s \<and> ingestion_jobs s' = ingestion_jobs s
    \<and> registries s' = registries s \<and> connections s' = connections s \<and> tx_aborted s' = tx_aborted s"
proof (induction ups arbitrary: s)
  case (Cons up ups)
  from bind_InrE [OF Cons.prems [unfolded link_uploads.simps]] obtain x s1 where
    1: "statement (\<lambda>s. case py_uuid up of
         None \<Rightarrow> (Inl (OtherException ''DBAPIError'' ''invalid UUID''), s\<lparr>tx_aborted := True\<rparr>)
       | Some u \<Rightarrow> (Inr (), s\<lparr>ingestion_uploads := attach_upload jid u (ingestion_uploads s)\<rparr>)) s = (Inr x, s1)"
      "link_uploads jid ups s1 = (Inr u, s')" by blast
  from 1(1) have "chat_sessions s1 = chat_sessions s \<and> chat_messages s1 = chat_messages s
      \<and> ingestion_jobs s1 = ingestion_jobs s \<and> registries s1 = registries s \<and> connections s1 = connections s
      \<and> tx_aborted s1 = tx_aborted s"
    by (auto simp: statement_def split: if_splits option.splits)
  with Cons.IH [OF 1(2)] show ?case by simp
qed (simp add: act_simps)

text \<open>A started turn, taken apart.\<close>

lemma start_turn_tx_Inr:
  assumes "start_turn_tx new_uuid serial sid txt ups token req s = (Inr tid, s')"
  obtains r s1 where "find_session sid s = Some r" "req = None \<or> req = Some (cs_token_id r)" "cs_status r = ''active''"
    "insert_message serial sid (max_turn_index (- 1) sid s + 1) ''user'' (user_content txt ups) s = (Inr (), s1)"
    "chat_messages s' = chat_messages s1"
    "chat_sessions s' = update_where (\<lambda>r. cs_id r = sid) (\<lambda>r. r\<lparr>cs_last_turn_at := Some (db_now s1)\<rparr>) (chat_sessions s1)"
    "ingestion_jobs s' = ingestion_jobs s
       @ [(new_job tid Merge (Some txt) (Some token) (db_now s))\<lparr>jb_chat_session_id := Some sid\<rparr>]"
    "registries s' = registries s" "connections s' = connections s" "\<not> tx_aborted s" "\<not> tx_aborted s'"
proof -
  let ?touch = "\<lambda>s. s\<lparr>chat_sessions := update_where (\<lambda>r. cs_id r = sid)
        (\<lambda>r. r\<lparr>cs_last_turn_at := Some (db_now s)\<rparr>) (chat_sessions s)\<rparr>"
  from assms have "bind (statement (reads (find_session sid))) (\<lambda>rec.
        bind (lift_sum (visible_to req sid rec)) (\<lambda>r.
        if cs_status r \<noteq> ''active'' then raise (TurnInFlightError (''session not active: '' @ cs_status r))
        else
          bind (statement (reads (\<lambda>s. max_turn_index (- 1) sid s + 1))) (\<lambda>turn_index.
          bind (insert_message serial sid turn_index ''user'' (user_content txt ups)) (\<lambda>_.
          bind (statement (modify ?touch)) (\<lambda>_.
          bind (insert_turn_job new_uuid sid txt token) (\<lambda>turn_id.
          bind (link_uploads turn_id ups) (\<lambda>_. ret turn_id))))))) s = (Inr tid, s')"
    unfolding start_turn_tx_def by (cases rule: in_session_cases [OF assms [unfolded start_turn_tx_def]]) auto
  then obtain r s1 where ok: "\<not> tx_aborted s" and r: "visible_to req sid (find_session sid s) = Inr r" "cs_status r = ''active''"
    and 1: "insert_message serial sid (max_turn_index (- 1) sid s + 1) ''user'' (user_content txt ups) s = (Inr (), s1)"
    and rest: "bind (statement (modify ?touch)) (\<lambda>_.
          bind (insert_turn_job new_uuid sid txt token) (\<lambda>turn_id.
          bind (link_uploads turn_id ups) (\<lambda>_. ret turn_id))) s1 = (Inr tid, s')"
    by (auto simp: act_simps statement_def split: if_splits sum.splits prod.splits)
  have s1: "ingestion_jobs s1 = ingestion_jobs s" "registries s1 = registries s" "connections s1 = connections s"
      "\<not> tx_aborted s1" "db_now s1 = db_now s"
    using 1 ok by (auto simp: insert_message_def statement_def split: if_splits)
  let ?s2 = "(?touch s1)\<lparr>ingestion_jobs := ingestion_jobs s1
       @ [(new_job (new_uuid (?touch s1)) Merge (Some txt) (Some token) (db_now s1))\<lparr>jb_chat_session_id := Some sid\<rparr>]\<rparr>"
  have link: "link_uploads tid ups ?s2 = (Inr (), s')" and tid: "tid = new_uuid (?touch s1)"
    using rest s1(4) by (auto simp: act_simps insert_turn_job_def split: sum.splits prod.splits)
  from link_uploads_effect [OF link] s1 r tid 1 ok that [of r s1] show thesis
    by (simp add: visible_to_Inr)
qed

lemma turning_ok:
  assumes "ok_db n s" "start_turn_tx new_uuid serial sid txt ups token req s = (r, s')"
  shows "ok_db n s'"
proof (cases r)
  case (Inl e)
  with assms show ?thesis
    by (cases rule: in_session_cases [OF assms(2) [unfolded start_turn_tx_def]]) auto
next
  case (Inr tid)
  from start_turn_tx_Inr [OF assms(2) [unfolded Inr]] obtain s1 where
    1: "insert_message serial sid (max_turn_index (- 1) sid s + 1) ''user'' (user_content txt ups) s = (Inr (), s1)"
      "chat_messages s' = chat_messages s1"
      "chat_sessions s' = update_where (\<lambda>r. cs_id r = sid) (\<lambda>r. r\<lparr>cs_last_turn_at := Some (db_now s1)\<rparr>) (chat_sessions s1)"
    by metis
  have "ok_db n s1" by (rule user_message_ok [OF assms(1) 1(1)])
  then show ?thesis unfolding ok_db_def 1(2,3) by (rule chat_ok_update) simp_all
qed

lemma answering_ok:
  assumes "ok_db n s" "session_messages sid s \<noteq> []" "record_outcome serial T sid tid s = (r, s')"
  shows "ok_db n s'"
proof (cases rule: in_session_cases [OF assms(3) [unfolded record_outcome_def]])
  case (2 j)
  then obtain j' where "insert_message serial sid (max_turn_index 0 sid s) ''assistant''
      (JObj [(''text'', JStr (turn_summary T j'))]) s = (Inr (), s')"
    by (auto simp: act_simps statement_def split: if_splits option.splits sum.splits prod.splits)
  then show ?thesis by (rule answer_ok [OF assms(1,2)])
qed (use assms(1) in simp)

lemma chat_reach_ok: "chat_reach n s \<Longrightarrow> ok_db n s"
proof (induction rule: chat_reach.induct)
  case (fresh_tables s)
  then show ?case by (simp add: ok_db_def chat_ok_def active_of_def messages_of_def)
next
  case (elsewhere s s')
  then show ?case by (simp add: ok_db_def)
qed (rule creating_ok saving_ok cancelling_ok turning_ok answering_ok, assumption+)+


definition chat_ids :: "db \<Rightarrow> uuid" where "chat_ids s = ''j'' @ nat_str (length (ingestion_jobs s))"
definition chat_serial :: "db \<Rightarrow> int" where "chat_serial s = int (length (chat_messages s))"

definition chat_db :: db where
  "chat_db = snd (create_session (\<lambda>_. ''c1'') (Some 3) ''tok'' (migrated 0))"

lemma chat_db_rows: "chat_sessions chat_db = [\<lparr>cs_id = ''c1'', cs_token_id = ''tok'', cs_status = ''active'',
      cs_pre_registry = empty_registry, cs_pre_version = 0, cs_created_at = 0, cs_last_turn_at = None\<rparr>]"
    "chat_messages chat_db = []" "ingestion_jobs chat_db = []" "registries chat_db = registries (migrated 0)"
    "connections chat_db = []" "\<not> tx_aborted chat_db" "ingestion_uploads chat_db = []" "db_now chat_db = 0"
  by (simp_all add: chat_db_def create_session_def in_session_def check_quota_def insert_session_def act_simps
      active_sessions_def migrated_def slot_def)

lemma chat_db_session: "find_session ''c1'' chat_db = Some \<lparr>cs_id = ''c1'', cs_token_id = ''tok'', cs_status = ''active'',
      cs_pre_registry = empty_registry, cs_pre_version = 0, cs_created_at = 0, cs_last_turn_at = None\<rparr>"
  by (simp add: find_session_def chat_db_rows)

lemma chat_db_reach: "chat_reach 3 chat_db"
proof -
  have "chat_reach 3 (migrated 0)" by (rule fresh_tables) (simp_all add: migrated_def)
  then show ?thesis
    by (rule creating [of 3 "migrated 0" "\<lambda>_. ''c1''" "''tok''" "fst (create_session (\<lambda>_. ''c1'') (Some 3) ''tok'' (migrated 0))"])
      (simp add: chat_db_def)
qed



theorem cancel_restores_start_witness:
  "\<exists>s'. cancel_session (\<lambda>s. s) [] ''c1'' (Some ''tok'') (saved Staging built_registry None None chat_db) = (Inr (), s')
     \<and> slot s' Staging = Some (empty_registry, 2)"
proof -
  let ?s = "saved Staging built_registry None None chat_db"
  have same: "chat_sessions ?s = chat_sessions chat_db" "tx_aborted ?s = tx_aborted chat_db"
    using same_tables_fields [OF saved_same_tables [of chat_db]] by blast+
  have "slot chat_db Staging = Some (empty_registry, 0)"
    by (simp add: slot_def chat_db_rows migrated_def)
  then have sl: "slot ?s Staging = Some (built_registry, 1)" by simp
  have f: "find_session ''c1'' ?s = find_session ''c1'' chat_db" by (simp add: find_session_def same(1))
  from cancel_restores_start [OF f [unfolded chat_db_session], of "Some ''tok''" "[]", OF _ _ _ sl]
  show ?thesis using same(2) chat_db_rows(6) by auto
qed

theorem cancel_refused_when_moved_witness:
  "\<exists>m s'. cancel_session (saved Staging built_registry None None) [] ''c1'' (Some ''tok'') chat_db
     = (Inl (StaleStagingError m), s') \<and> slot s' Staging = Some (built_registry, 1)"
proof -
  have sl: "slot chat_db Staging = Some (empty_registry, 0)"
    by (simp add: slot_def chat_db_rows migrated_def)
  let ?s = "saved Staging built_registry None None (marked_cancelling ''c1'' chat_db)"
  have "slot ?s Staging = Some (built_registry, 1)"
    by (subst slot_saved [of "marked_cancelling ''c1'' chat_db" Staging empty_registry 0]) (simp_all add: sl)
  moreover have "chat_sessions ?s = chat_sessions (marked_cancelling ''c1'' chat_db)"
    "tx_aborted ?s = tx_aborted (marked_cancelling ''c1'' chat_db)"
    using same_tables_fields [OF saved_same_tables [of "marked_cancelling ''c1'' chat_db"]] by blast+
  ultimately show ?thesis
    using cancel_refused_when_moved [OF chat_db_session _ chat_db_rows(6) _ sl, of "Some ''tok''" "[]"
        "saved Staging built_registry None None" built_registry 1 chat_ids chat_serial "[]" "[]" "[]"] chat_db_rows(6)
    by auto
qed


subsection \<open>Turns\<close>

text \<open>What a started turn writes. A turn that starts was asked for by the session's owner while the
  session was active and no turn was in flight; it stores one user message under the next number
  and queues one merge job, unfinished and linked to the session; the registries are untouched and
  the session counts as running.\<close>
theorem started_turn_queues_job:
  assumes "start_turn new_uuid serial sid txt ups token req (running, s) = (Inr tid, (running', s'))"
  shows "\<exists>r m j. find_session sid s = Some r \<and> (req = None \<or> req = Some (cs_token_id r)) \<and> cs_status r = ''active''
    \<and> \<not> dict_has sid running \<and> dict_get running' sid = Some tid
    \<and> chat_messages s' = chat_messages s @ [m] \<and> cm_session_id m = sid \<and> cm_role m = ''user''
    \<and> cm_content m = user_content txt ups \<and> cm_turn_index m = max_turn_index (- 1) sid s + 1
    \<and> ingestion_jobs s' = ingestion_jobs s @ [j] \<and> jb_id j = tid \<and> jb_mode j = ''merge'' \<and> jb_status j = ''queued''
    \<and> jb_finished_at j = None \<and> jb_chat_session_id j = Some sid \<and> registries s' = registries s"
proof -
  from assms have guard: "\<not> dict_has sid running" and run: "start_turn_tx new_uuid serial sid txt ups token req s = (Inr tid, s')"
    and running': "running' = dict_set sid tid running"
    by (auto simp: start_turn_def turn_guard_def split: if_splits sum.splits prod.splits)
  show ?thesis
  proof (rule start_turn_tx_Inr [OF run])
    fix r s1
    assume r: "find_session sid s = Some r" "req = None \<or> req = Some (cs_token_id r)" "cs_status r = ''active''"
      and 1: "insert_message serial sid (max_turn_index (- 1) sid s + 1) ''user'' (user_content txt ups) s = (Inr (), s1)"
      and s': "chat_messages s' = chat_messages s1" "registries s' = registries s"
        "ingestion_jobs s' = ingestion_jobs s
           @ [(new_job tid Merge (Some txt) (Some token) (db_now s))\<lparr>jb_chat_session_id := Some sid\<rparr>]"
    from message_effect [OF 1] obtain m where "chat_messages s1 = chat_messages s @ [m]" "cm_session_id m = sid"
      "cm_turn_index m = max_turn_index (- 1) sid s + 1" "cm_role m = ''user''" "cm_content m = user_content txt ups" by blast
    with r s' guard running' show ?thesis
      by (intro exI [where x = r] exI [where x = m]
          exI [where x = "(new_job tid Merge (Some txt) (Some token) (db_now s))\<lparr>jb_chat_session_id := Some sid\<rparr>"])
        (simp add: new_job_def get_set)
  qed
qed

lemma start_turn_tx_run:
  assumes "find_session sid s = Some r" "req = None \<or> req = Some (cs_token_id r)" "cs_status r = ''active''" "\<not> tx_aborted s"
  shows "\<exists>tid s'. start_turn_tx new_uuid serial sid txt [] token req s = (Inr tid, s') \<and> \<not> tx_aborted s'
    \<and> find_session sid s' = Some (r\<lparr>cs_last_turn_at := Some (db_now s)\<rparr>)
    \<and> (\<exists>j. ingestion_jobs s' = ingestion_jobs s @ [j] \<and> jb_id j = tid \<and> jb_status j = ''queued'')"
proof -
  have v: "visible_to req sid (Some r) = Inr r" using assms(2) by (simp add: visible_to_Inr)
  have "find_session sid (s\<lparr>chat_messages := ms, chat_sessions := update_where (\<lambda>r. cs_id r = sid)
      (\<lambda>r. r\<lparr>cs_last_turn_at := t\<rparr>) (chat_sessions s), ingestion_jobs := js\<rparr>) = Some (r\<lparr>cs_last_turn_at := t\<rparr>)" for ms js t
    using assms(1) find_session_id [OF assms(1)] by (simp add: find_session_def find_update_where)
  then show ?thesis
    using assms(1,3,4)
    by (simp add: start_turn_tx_def in_session_def act_simps v insert_message_def insert_turn_job_def new_job_def)
qed

text \<open>Two turns at once. Of two requests to start a turn that both pass the check before either has
  recorded its turn, both succeed: the session then has two queued jobs. The table of running turns
  keeps only the second, and when the worker of either turn ends the session counts as idle, so it
  can be saved, cancelled or given a third turn while the other job runs.\<close>
theorem two_turns_in_flight:
  assumes "find_session sid s = Some r" "req = None \<or> req = Some (cs_token_id r)" "cs_status r = ''active''"
    and "\<not> tx_aborted s" "turn_guard running sid = Inr ()"
  shows "\<exists>t1 s1 t2 s2 j1 j2. start_turn_tx new_uuid serial sid txt1 [] token req s = (Inr t1, s1)
    \<and> start_turn_tx new_uuid serial sid txt2 [] token req s1 = (Inr t2, s2)
    \<and> ingestion_jobs s2 = ingestion_jobs s @ [j1, j2] \<and> jb_id j1 = t1 \<and> jb_id j2 = t2
    \<and> jb_status j1 = ''queued'' \<and> jb_status j2 = ''queued''
    \<and> dict_get (dict_set sid t2 (dict_set sid t1 running)) sid = Some t2
    \<and> turn_guard (dict_pop sid (dict_set sid t2 (dict_set sid t1 running))) sid = Inr ()"
proof -
  from start_turn_tx_run [OF assms(1-4), of new_uuid serial txt1 token] obtain t1 s1 j1 where
    1: "start_turn_tx new_uuid serial sid txt1 [] token req s = (Inr t1, s1)" "\<not> tx_aborted s1"
      "find_session sid s1 = Some (r\<lparr>cs_last_turn_at := Some (db_now s)\<rparr>)"
      "ingestion_jobs s1 = ingestion_jobs s @ [j1]" "jb_id j1 = t1" "jb_status j1 = ''queued''" by blast
  from start_turn_tx_run [OF 1(3), of req new_uuid serial txt2 token] 1(2) assms(2,3) obtain t2 s2 j2 where
    2: "start_turn_tx new_uuid serial sid txt2 [] token req s1 = (Inr t2, s2)"
      "ingestion_jobs s2 = ingestion_jobs s1 @ [j2]" "jb_id j2 = t2" "jb_status j2 = ''queued''" by auto
  from 1 2 show ?thesis
    by (intro exI [where x = t1] exI [where x = s1] exI [where x = t2] exI [where x = s2]
        exI [where x = j1] exI [where x = j2]) (simp add: turn_guard_def dict_simps)
qed

theorem two_turns_in_flight_witness:
  "\<exists>t1 s1 t2 s2 j1 j2. start_turn_tx chat_ids chat_serial ''c1'' ''a'' [] ''tok'' None chat_db = (Inr t1, s1)
    \<and> start_turn_tx chat_ids chat_serial ''c1'' ''b'' [] ''tok'' None s1 = (Inr t2, s2)
    \<and> ingestion_jobs s2 = [j1, j2]"
proof -
  have "turn_guard [] ''c1'' = Inr ()" by (simp add: turn_guard_def)
  from two_turns_in_flight [OF chat_db_session _ _ chat_db_rows(6) this, of None chat_ids chat_serial "''a''" "''tok''" "''b''"]
  show ?thesis by (simp add: chat_db_rows(3)) blast
qed

theorem started_turn_queues_job_witness:
  "\<exists>tid running' s' j. start_turn chat_ids chat_serial ''c1'' ''add'' [] ''tok'' (Some ''tok'') ([], chat_db) = (Inr tid, (running', s'))
    \<and> ingestion_jobs s' = [j] \<and> jb_mode j = ''merge''"
proof -
  from start_turn_tx_run [OF chat_db_session, of "Some ''tok''" chat_ids chat_serial "''add''" "''tok''"]
  obtain tid s' where "start_turn_tx chat_ids chat_serial ''c1'' ''add'' [] ''tok'' (Some ''tok'') chat_db = (Inr tid, s')"
    by (auto simp: chat_db_rows)
  then have run: "start_turn chat_ids chat_serial ''c1'' ''add'' [] ''tok'' (Some ''tok'') ([], chat_db)
      = (Inr tid, (dict_set ''c1'' tid [], s'))"
    by (simp add: start_turn_def turn_guard_def)
  from started_turn_queues_job [OF run] run show ?thesis by (auto simp: chat_db_rows(3))
qed

subsection \<open>The end of a turn\<close>

text \<open>The other requests publish nothing on the turn's channel and do not close it.\<close>

definition leaves_turn ::
  "(running_turns \<times> json event_bus \<Rightarrow> running_turns \<times> json event_bus) \<Rightarrow> string \<Rightarrow> bool" where
  "leaves_turn others t \<longleftrightarrow> (\<forall>x. dict_get (eb_turns (snd x)) t \<noteq> None \<longrightarrow>
     dict_get (eb_turns (snd (others x))) t \<noteq> None
     \<and> ts_buffer (state_of (snd (others x)) t) = ts_buffer (state_of (snd x) t)
     \<and> ts_closed (state_of (snd (others x)) t) = ts_closed (state_of (snd x) t))"

lemma publish_open:
  assumes "\<not> ts_closed (state_of b t)"
  shows "ts_buffer (state_of (publish t k p b) t) = ts_buffer (state_of b t) @ [(k, p)]"
    "\<not> ts_closed (state_of (publish t k p b) t)" "dict_get (eb_turns (publish t k p b)) t \<noteq> None"
  using assms by (simp_all add: publish_def Let_def get_set)

lemma close_known:
  assumes "dict_get (eb_turns b) t \<noteq> None"
  shows "ts_closed (state_of (close_turn t b) t)" "ts_buffer (state_of (close_turn t b) t) = ts_buffer (state_of b t)"
  using assms by (auto simp: close_turn_def state_of_def [of b] Let_def)

text \<open>C17: every turn ends. However the worker of a turn ends, the session is no longer counted as
  running and the turn's channel is closed, so its streams end; the channel has carried turn_start
  and then, when the worker finished, exactly one turn_complete or turn_error, which says
  turn_complete exactly when the job was imported. When the worker raised, it has carried
  turn_start alone.\<close>
theorem every_turn_ends:
  assumes "run_turn_worker P W serial T sp timed_out others sid tid c = (r, c')"
    and "\<not> ts_closed (state_of (ch_bus c) tid)" "leaves_turn others tid"
  shows "\<not> dict_has sid (ch_running c') \<and> ts_closed (state_of (ch_bus c') tid)
    \<and> (\<exists>j. ts_buffer (state_of (ch_bus c') tid) = ts_buffer (state_of (ch_bus c) tid)
          @ [(''turn_start'', JObj [(''turn_id'', JStr tid)])]
          @ (case r of Inl e \<Rightarrow> [] | Inr u \<Rightarrow> [outcome_event tid j])
        \<and> fst (outcome_event tid j) = (if jb_status j = ''imported'' then ''turn_complete'' else ''turn_error'')
        \<and> (r = Inr () \<longrightarrow> (\<exists>s1. find_job tid s1 = Some j)))"
proof -
  let ?b1 = "publish tid ''turn_start'' (JObj [(''turn_id'', JStr tid)]) (ch_bus c)"
  obtain running b2 where o: "others (ch_running c, ?b1) = (running, b2)" by fastforce
  note b1 = publish_open [OF assms(2), of "''turn_start''" "JObj [(''turn_id'', JStr tid)]"]
  have b2: "dict_get (eb_turns b2) tid \<noteq> None" "\<not> ts_closed (state_of b2 tid)"
      "ts_buffer (state_of b2 tid) = ts_buffer (state_of (ch_bus c) tid) @ [(''turn_start'', JObj [(''turn_id'', JStr tid)])]"
    using assms(3) [unfolded leaves_turn_def, rule_format, of "(ch_running c, ?b1)"] b1 o by simp_all
  obtain x s' where x: "bind (limited_job P W sp tid timed_out) (\<lambda>_. record_outcome serial T sid tid) (ch_db c) = (x, s')"
    by fastforce
  show ?thesis
  proof (cases x)
    case (Inl e)
    with assms(1) o x have c': "r = Inl e" "ch_running c' = dict_pop sid running" "ch_bus c' = close_turn tid b2"
      by (auto simp: run_turn_worker_def Let_def)
    show ?thesis
      unfolding c' using close_known [OF b2(1)] b2(3)
      by (simp add: dict_simps outcome_event_def)
  next
    case (Inr j)
    obtain k p where e: "outcome_event tid j = (k, p)" by fastforce
    with assms(1) o x Inr have c': "r = Inr ()" "ch_running c' = dict_pop sid running"
      "ch_bus c' = close_turn tid (publish tid k p b2)"
      by (auto simp: run_turn_worker_def Let_def)
    from bind_InrE [OF x [unfolded Inr]] obtain s1 where
      "record_outcome serial T sid tid s1 = (Inr j, s')" by blast
    then have "find_job tid s1 = Some j"
      by (auto simp: record_outcome_def act_simps statement_def
          elim!: in_session_cases split: if_splits option.splits sum.splits prod.splits)
    moreover note b3 = publish_open [OF b2(2), of k p]
    ultimately show ?thesis
      unfolding c' using close_known [OF b3(3)] b3(1) b2(3)
      by (intro conjI exI [where x = j]) (auto simp: dict_simps e [symmetric] outcome_event_def)
  qed
qed

definition latin_texts :: chat_texts where
  "latin_texts = \<lparr>ct_imported = ''done'', ct_cancelled = ''cancelled'', ct_failed = ''failed: '', ct_unknown_error = ''unknown''\<rparr>"

definition idle_chat :: chat where
  "idle_chat = \<lparr>ch_db = chat_db, ch_running = [(''c1'', ''j1'')], ch_bus = new_bus\<rparr>"

theorem every_turn_ends_witness:
  "\<not> dict_has ''c1'' (ch_running (snd (run_turn_worker toy_platform quiet_world chat_serial latin_texts []
      False (\<lambda>x. x) ''c1'' ''j1'' idle_chat)))"
proof -
  obtain r c' where run: "run_turn_worker toy_platform quiet_world chat_serial latin_texts [] False (\<lambda>x. x)
      ''c1'' ''j1'' idle_chat = (r, c')" by fastforce
  have "\<not> ts_closed (state_of (ch_bus idle_chat) ''j1'')"
    by (simp add: idle_chat_def new_bus_def state_of_def new_turn_def)
  moreover have "leaves_turn (\<lambda>x. x) ''j1''" by (simp add: leaves_turn_def)
  ultimately show ?thesis using every_turn_ends [OF run] run by simp
qed

text \<open>A chat turn that runs out of time reads as cancelled. When the wall-clock limit of the chat
  cancels the job while its agent runs, the job handles the cancellation itself, so no TimeoutError
  is raised and WALL_CLOCK_TIMEOUT is not recorded: the row says cancelled, the user is told the
  turn was cancelled, and the channel's turn_error carries the message 'cancelled'.\<close>
theorem chat_timeout_reads_as_cancel:
  assumes "alone W" "job_live tid s" "extract_phase W tid s = (Inr (Some ds), s1)"
    "\<not> interrupts_outside W" "jw_agent_event W = Interrupted"
  shows "\<exists>s' j. limited_job P W sp tid True s = (Inr (), s') \<and> find_job tid s' = Some j
    \<and> jb_status j = ''cancelled'' \<and> jb_finished_at j \<noteq> None \<and> turn_summary T j = ct_cancelled T
    \<and> outcome_event tid j = (''turn_error'', JObj [(''kind'', JStr (case non_empty (jb_error_code j) of
          None \<Rightarrow> ''unknown'' | Some k \<Rightarrow> k)), (''message'', JStr ''cancelled'')])"
proof -
  note calm = alone_calm [OF assms(1)]
  have no: "\<not> jw_interrupt W At_report" "\<not> jw_interrupt W At_agent_running" "\<not> jw_interrupt W At_load"
    using assms(4) unfolding interrupts_outside_def by blast+
  have s1: "job_live tid s1"
    using calm assms(2) no(1) by (cases rule: extract_phase_ends) (use assms(3) in auto)
  obtain js s2 where su: "setup_phase W tid s1 = (Inr js, s2)" "job_live tid s2"
    by (rule setup_phase_ends [OF calm s1 no(2,3)])
  from status_block [OF calm su(2) no(1), of Cancelled cancelled_update] obtain s3 j where
    3: "block W At_report (set_status tid Cancelled cancelled_update) s2 = (Inr (), s3)"
      "find_job tid s3 = Some (updated_job Cancelled cancelled_update (db_now (jw_env W At_report s2)) j)" by blast
  have "run_one_job P W sp tid s = (Inr None, s3)"
    using assms(3,5) su(1) 3(1)
    by (simp add: run_one_job_def act_simps agent_run_def report_agent_error_def mark_def)
  with 3(2) show ?thesis
    by (simp add: limited_job_def updated_job_def cancelled_update_def turn_summary_def outcome_event_def no_update_def)
qed

theorem chat_timeout_reads_as_cancel_witness:
  "\<exists>s' j. limited_job toy_platform (quiet_world\<lparr>jw_agent_event := Interrupted\<rparr>) ''s'' ''j1'' True job_db = (Inr (), s')
     \<and> find_job ''j1'' s' = Some j \<and> turn_summary latin_texts j = ''cancelled''"
proof -
  let ?W = "quiet_world\<lparr>jw_agent_event := Interrupted\<rparr>"
  have W: "alone ?W" "\<not> interrupts_outside ?W" "jw_agent_event ?W = Interrupted"
    using quiet_world_alone quiet_world_open by (simp_all add: alone_def interrupts_outside_def)
  have "\<exists>s1. extract_phase ?W ''j1'' job_db = (Inr (Some []), s1)"
    by (simp add: extract_phase_def attempt_def act_simps block_def in_session_def
        quiet_world_def set_status_def list_uploads_for_job_def statement_def job_db_def create_job_def migrated_def)
  then obtain s1 where "extract_phase ?W ''j1'' job_db = (Inr (Some []), s1)" by blast
  from chat_timeout_reads_as_cancel [OF W(1) job_db_live this W(2,3), of toy_platform "''s''" latin_texts]
  show ?thesis by (auto simp: latin_texts_def)
qed

subsection \<open>The sweep\<close>

lemma sweep_run:
  assumes "distinct sids" "\<forall>sid \<in> set sids. find_session sid s = Some (row sid)" "\<not> tx_aborted s"
    "slot s Staging = Some (reg, v)"
  shows "\<exists>s'. sweep_loop (\<lambda>_ s. s) [] sids res s = (res\<lparr>sw_recovered := sw_recovered res + length sids\<rparr>, s')
    \<and> chat_sessions s' = filter (\<lambda>r. cs_id r \<notin> set sids) (chat_sessions s)
    \<and> slot s' = (slot s)(Staging \<mapsto>
          (if sids = [] then reg else cs_pre_registry (row (last sids)), v + int (length sids)))"
  using assms
proof (induction sids arbitrary: s res reg v)
  case Nil
  then show ?case by (auto simp: fun_eq_iff)
next
  case (Cons sid sids)
  have others: "filter (\<lambda>r. cs_id r \<noteq> sid) (update_where (\<lambda>r. cs_id r = sid) f rows)
      = filter (\<lambda>r. cs_id r \<noteq> sid) rows" if "\<And>r. cs_id (f r) = cs_id r" for f and rows :: "chat_session_row list"
    using that by (induction rows) (auto simp: update_where_def)
  from Cons.prems(2) have f: "find_session sid s = Some (row sid)" by simp
  obtain s1 where 1: "cancel_session (\<lambda>s. s) [] sid None s = (Inr (), s1)"
    "slot s1 = (slot s)(Staging \<mapsto> (cs_pre_registry (row sid), v + 1))"
    "chat_sessions s1 = filter (\<lambda>r. cs_id r \<noteq> sid) (chat_sessions s)" "\<not> tx_aborted s1"
    by (rule cancel_run [OF f _ Cons.prems(3) _ Cons.prems(4), of None "[]"]) (simp_all add: others)
  have found: "\<forall>u \<in> set sids. find_session u s1 = Some (row u)"
  proof
    fix u assume u: "u \<in> set sids"
    with Cons.prems(1) have "u \<noteq> sid" by auto
    then have "List.find (\<lambda>r. cs_id r = u) (filter (\<lambda>r. cs_id r \<noteq> sid) rows) = List.find (\<lambda>r. cs_id r = u) rows" for rows :: "chat_session_row list"
      by (induction rows) auto
    with u Cons.prems(2) show "find_session u s1 = Some (row u)" by (simp add: find_session_def 1(3))
  qed
  have "slot s1 Staging = Some (cs_pre_registry (row sid), v + 1)" by (simp add: 1(2))
  from Cons.IH [OF _ found 1(4) this, of "res\<lparr>sw_recovered := sw_recovered res + 1\<rparr>"] Cons.prems(1)
  show ?case by (auto simp: 1 filter_filter conj_commute add.assoc fun_eq_iff intro!: filter_cong)
qed

text \<open>The sweep at start-up. With no turn running and nothing else going on, it cancels every active
  session whose last turn, or whose beginning if it has had none, is longer ago than the limit, and
  no other session, and reports their number. Staging ends as the registry the last of the cancelled
  sessions started from, whatever it held and whatever the others started from.\<close>
theorem sweep_cancels_orphans:
  assumes "distinct (map cs_id (chat_sessions s))" "\<not> tx_aborted s" "slot s Staging = Some (reg, v)"
    and "orphans = filter (is_orphaned secs (db_now s)) (chat_sessions s)"
  shows "\<exists>s'. sweep_orphan_sessions (\<lambda>_ s. s) [] secs s
        = (Inr \<lparr>sw_recovered = length orphans, sw_failed = 0\<rparr>, s')
    \<and> chat_sessions s' = filter (\<lambda>r. \<not> is_orphaned secs (db_now s) r) (chat_sessions s)
    \<and> slot s' = (slot s)(Staging \<mapsto>
        (if orphans = [] then reg else cs_pre_registry (last orphans), v + int (length orphans)))"
proof -
  let ?row = "\<lambda>sid. the (find_session sid s)" and ?sids = "map cs_id orphans"
  have find: "List.find (\<lambda>x. cs_id x = cs_id r) rows = Some r" if "distinct (map cs_id rows)" "r \<in> set rows"
    for r and rows :: "chat_session_row list"
    using that by (induction rows) auto
  have found: "find_session (cs_id r) s = Some r" if "r \<in> set orphans" for r
    using that find [OF assms(1)] by (simp add: find_session_def assms(4))
  have "distinct ?sids" unfolding assms(4) by (rule distinct_map_filter [OF assms(1)])
  moreover have "\<forall>sid \<in> set ?sids. find_session sid s = Some (?row sid)" using found by auto
  ultimately obtain s' where s': "sweep_loop (\<lambda>_ s. s) [] ?sids \<lparr>sw_recovered = 0, sw_failed = 0\<rparr> s
      = (\<lparr>sw_recovered = length orphans, sw_failed = 0\<rparr>, s')"
    "chat_sessions s' = filter (\<lambda>r. cs_id r \<notin> set ?sids) (chat_sessions s)"
    "slot s' = (slot s)(Staging \<mapsto>
        (if ?sids = [] then reg else cs_pre_registry (?row (last ?sids)), v + int (length ?sids)))"
    using sweep_run [OF _ _ assms(2,3), of ?sids ?row "\<lparr>sw_recovered = 0, sw_failed = 0\<rparr>"] by auto
  have "filter (\<lambda>r. cs_id r \<notin> set ?sids) (chat_sessions s)
      = filter (\<lambda>r. \<not> is_orphaned secs (db_now s) r) (chat_sessions s)"
    using find [OF assms(1)] by (intro filter_cong refl) (auto simp: assms(4) image_iff, metis option.inject)
  moreover have "?row (last ?sids) = last orphans" if "orphans \<noteq> []"
    using found that by (simp add: last_map)
  ultimately show ?thesis
    using s' assms(2) by (auto simp: sweep_orphan_sessions_def act_simps assms(4) [symmetric])
qed

theorem sweep_cancels_orphans_witness:
  "\<exists>s'. sweep_orphan_sessions (\<lambda>_ s. s) [] 1800 (chat_db\<lparr>db_now := 1800000001\<rparr>)
     = (Inr \<lparr>sw_recovered = 1, sw_failed = 0\<rparr>, s')"
proof -
  let ?s = "chat_db\<lparr>db_now := 1800000001\<rparr>"
  have "distinct (map cs_id (chat_sessions ?s))" "\<not> tx_aborted ?s" "slot ?s Staging = Some (empty_registry, 0)"
    by (simp_all add: chat_db_rows slot_def migrated_def)
  from sweep_cancels_orphans [OF this refl, of 1800] show ?thesis
    by (auto simp: chat_db_rows is_orphaned_def)
qed

end
