(* ===== verification/Chat_Http.thy ===== *)
theory Chat_Http
  imports Chat
begin

text \<open>
  \<open>chat/http.py\<close>: the routes under \<open>/chat\<close>. The caller has passed the editor check (theory
  \<open>Auth\<close>); \<open>token\<close> is its token's identifier. The code of an HTTP error stands for its detail. The
  body of the stream is \<open>Event_Bus.stream\<close>, the task started for a turn is \<open>Chat.run_turn_worker\<close>.
\<close>

definition not_found :: exn where "not_found = HTTPException 404 ''NOT_FOUND''"

definition parse_path_uuid :: "string \<Rightarrow> exn + uuid" where
  "parse_path_uuid v = (case py_uuid v of None \<Rightarrow> Inl not_found | Some u \<Rightarrow> Inr u)"

text \<open>The \<open>except\<close> clauses around a call.\<close>

definition catching :: "(exn \<Rightarrow> exn) \<Rightarrow> ('s, exn, 'a) act \<Rightarrow> ('s, exn, 'a) act" where
  "catching f m = (\<lambda>s. case m s of (Inl e, s') \<Rightarrow> (Inl (f e), s') | (Inr x, s') \<Rightarrow> (Inr x, s'))"

fun quota_errors :: "exn \<Rightarrow> exn" where
  "quota_errors (TooManySessionsError m) = HTTPException 429 ''TOO_MANY_SESSIONS''"
| "quota_errors e = e"

fun lookup_errors :: "exn \<Rightarrow> exn" where
  "lookup_errors (SessionNotFoundError m) = not_found"
| "lookup_errors e = e"

fun turn_errors :: "exn \<Rightarrow> exn" where
  "turn_errors (SessionNotFoundError m) = not_found"
| "turn_errors (TurnInFlightError m) = HTTPException 409 ''TURN_IN_FLIGHT''"
| "turn_errors e = e"

fun cancel_errors :: "exn \<Rightarrow> exn" where
  "cancel_errors (SessionNotFoundError m) = not_found"
| "cancel_errors (TurnInFlightError m) = HTTPException 409 ''TURN_IN_FLIGHT''"
| "cancel_errors (StaleStagingError m) = HTTPException 409 ''STALE_STAGING''"
| "cancel_errors e = e"

subsection \<open>Routes\<close>

definition http_create_session :: "'n platform \<Rightarrow> uuid \<Rightarrow> (db, exn, json) act" where
  "http_create_session P token =
     bind (catching quota_errors
             (create_session (pf_new_uuid P) (Some (chat_max_concurrent_sessions_per_token (pf_settings P))) token))
       (\<lambda>sid. ret (JObj [(''session_id'', JStr sid)]))"

definition http_get_session :: "'n platform \<Rightarrow> string \<Rightarrow> uuid \<Rightarrow> (db, exn, json) act" where
  "http_get_session P session_id token =
     bind (lift_sum (parse_path_uuid session_id)) (\<lambda>sid.
     bind (catching lookup_errors (get_session P sid (Some token))) (\<lambda>info.
     ret (JObj [(''session_id'', JStr (si_id info)), (''status'', JStr (si_status info)),
                (''messages'', JList (si_messages info))])))"

definition http_save_session :: "running_turns \<Rightarrow> string \<Rightarrow> uuid \<Rightarrow> (db, exn, unit) act" where
  "http_save_session running session_id token =
     bind (lift_sum (parse_path_uuid session_id)) (\<lambda>sid.
     catching turn_errors (save_session running sid (Some token)))"

definition http_cancel_session ::
  "(db \<Rightarrow> db) \<Rightarrow> running_turns \<Rightarrow> string \<Rightarrow> uuid \<Rightarrow> (db, exn, unit) act" where
  "http_cancel_session others running session_id token =
     bind (lift_sum (parse_path_uuid session_id)) (\<lambda>sid.
     catching cancel_errors (cancel_session others running sid (Some token)))"

definition http_session_upload ::
  "'n platform \<Rightarrow> string \<Rightarrow> string option \<Rightarrow> string \<Rightarrow> uuid \<Rightarrow> (db, exn, json) act" where
  "http_session_upload P session_id filename body token =
     bind (lift_sum (parse_path_uuid session_id)) (\<lambda>sid.
     bind (catching lookup_errors (get_session P sid (Some token))) (\<lambda>_.
     process_upload P filename body (Some token)))"

text \<open>The body of a turn: a message that is not blank and a list of uploads, each read with \<open>str\<close>.\<close>

definition turn_body :: "'n platform \<Rightarrow> (string, json) dict \<Rightarrow> exn + string \<times> string list" where
  "turn_body P body =
     (case dict_get body ''message'' of
        Some (JStr msg) \<Rightarrow>
          (if py_strip msg = [] then Inl (HTTPException 422 ''INVALID_BODY'')
           else case (case dict_get body ''upload_ids'' of None \<Rightarrow> JList [] | Some v \<Rightarrow> v) of
             JList us \<Rightarrow> Inr (msg, map (\<lambda>u. case u of JStr t \<Rightarrow> t | _ \<Rightarrow> pf_value_str P u) us)
           | _ \<Rightarrow> Inl (HTTPException 422 ''INVALID_BODY''))
      | _ \<Rightarrow> Inl (HTTPException 422 ''INVALID_BODY''))"

definition http_submit_turn ::
  "'n platform \<Rightarrow> (db \<Rightarrow> int) \<Rightarrow> string \<Rightarrow> (string, json) dict \<Rightarrow> uuid
     \<Rightarrow> (running_turns \<times> db, exn, json) act" where
  "http_submit_turn P serial session_id body token =
     bind (lift_sum (parse_path_uuid session_id)) (\<lambda>sid.
     bind (lift_sum (turn_body P body)) (\<lambda>(msg, ups).
     bind (catching turn_errors (start_turn (pf_new_uuid P) serial sid msg ups token (Some token))) (\<lambda>tid.
     ret (JObj [(''turn_id'', JStr tid)]))))"

text \<open>The turn whose events the response streams.\<close>

definition http_stream_turn :: "'n platform \<Rightarrow> string \<Rightarrow> string \<Rightarrow> uuid \<Rightarrow> (db, exn, uuid) act" where
  "http_stream_turn P session_id turn_id token =
     bind (lift_sum (parse_path_uuid session_id)) (\<lambda>sid.
     bind (lift_sum (parse_path_uuid turn_id)) (\<lambda>tid.
     bind (catching lookup_errors (get_session P sid (Some token))) (\<lambda>_.
     ret tid)))"

subsection \<open>Properties\<close>

lemma get_session_owner:
  assumes "find_session sid s = Some r" "cs_token_id r = token" "\<not> tx_aborted s"
  shows "\<exists>info. get_session P sid (Some token) s = (Inr info, s)"
  using assms by (simp add: get_session_def in_session_def act_simps visible_to_def)

lemma start_turn_Inl:
  assumes "start_turn new_uuid serial sid txt ups token req (running, s) = (Inl e, st)"
  shows "st = (running, s)"
proof (cases "turn_guard running sid")
  case (Inr u)
  with assms obtain s' where run: "start_turn_tx new_uuid serial sid txt ups token req s = (Inl e, s')" "st = (running, s')"
    by (auto simp: start_turn_def split: sum.splits prod.splits)
  then show ?thesis
    by (cases rule: in_session_cases [OF run(1) [unfolded start_turn_tx_def]]) simp_all
qed (use assms in \<open>simp add: start_turn_def\<close>)

text \<open>A refused turn leaves no trace. A submission that does not succeed changes neither the
  database nor the running turns; and it succeeds only for the session's owner, on an active
  session without a turn in flight, with a message that is not blank.\<close>
theorem refused_turn_changes_nothing:
  assumes "http_submit_turn P serial session_id body token (running, s) = (res, (running', s'))"
  shows "(\<forall>e. res = Inl e \<longrightarrow> running' = running \<and> s' = s)
    \<and> (\<forall>j. res = Inr j \<longrightarrow> (\<exists>sid r msg. py_uuid session_id = Some sid \<and> find_session sid s = Some r
          \<and> cs_token_id r = token \<and> cs_status r = ''active'' \<and> \<not> dict_has sid running
          \<and> dict_get body ''message'' = Some (JStr msg) \<and> py_strip msg \<noteq> []))"
proof -
  have body: "\<exists>m. dict_get body ''message'' = Some (JStr m) \<and> py_strip m \<noteq> []" if "turn_body P body = Inr x" for x
    using that by (auto simp: turn_body_def split: option.splits json.splits if_splits)
  show ?thesis
  proof (cases "parse_path_uuid session_id")
    case (Inr sid)
    then have sid: "py_uuid session_id = Some sid" by (auto simp: parse_path_uuid_def split: option.splits)
    show ?thesis
    proof (cases "turn_body P body")
      case (Inr x)
      obtain msg ups where x: "x = (msg, ups)" by (cases x)
      obtain y st where y: "start_turn (pf_new_uuid P) serial sid msg ups token (Some token) (running, s) = (y, st)"
        by (metis prod.exhaust)
      show ?thesis
      proof (cases y)
        case (Inl e)
        with start_turn_Inl y assms \<open>parse_path_uuid session_id = Inr sid\<close> \<open>turn_body P body = Inr x\<close> x
        show ?thesis by (fastforce simp: http_submit_turn_def act_simps catching_def)
      next
        case (Inr tid)
        with y have "turn_guard running sid = Inr ()"
          "\<exists>s2. start_turn_tx (pf_new_uuid P) serial sid msg ups token (Some token) s = (Inr tid, s2)"
          by (auto simp: start_turn_def split: sum.splits prod.splits)
        then obtain s2 where g: "\<not> dict_has sid running"
          and t: "start_turn_tx (pf_new_uuid P) serial sid msg ups token (Some token) s = (Inr tid, s2)"
          by (auto simp: turn_guard_def split: if_splits)
        from start_turn_tx_Inr [OF t] obtain r where "find_session sid s = Some r" "cs_token_id r = token"
          "cs_status r = ''active''" by (metis option.distinct(1) option.inject)
        with g sid body [OF \<open>turn_body P body = Inr x\<close>] assms y Inr \<open>parse_path_uuid session_id = Inr sid\<close>
          \<open>turn_body P body = Inr x\<close> x
        show ?thesis by (auto simp: http_submit_turn_def act_simps catching_def)
      qed
    qed (use assms Inr in \<open>auto simp: http_submit_turn_def act_simps\<close>)
  qed (use assms in \<open>auto simp: http_submit_turn_def act_simps\<close>)
qed

text \<open>The stream is not tied to its session. The owner of any session gets the stream of any turn
  whose identifier it names, also one that is another token's job in another session.\<close>
theorem stream_ignores_session:
  assumes "py_uuid session_id = Some sid" "find_session sid s = Some r" "cs_token_id r = token" "\<not> tx_aborted s"
    and "py_uuid turn_id = Some tid" "find_job tid s = Some j" "jb_chat_session_id j = Some other" "other \<noteq> sid"
  shows "http_stream_turn P session_id turn_id token s = (Inr tid, s)"
proof -
  obtain info where "get_session P sid (Some token) s = (Inr info, s)"
    using get_session_owner [OF assms(2-4)] by blast
  with assms(1,5) show ?thesis
    by (simp add: http_stream_turn_def parse_path_uuid_def act_simps catching_def)
qed

definition uuid_a :: string where "uuid_a = ''00000000-0000-0000-0000-00000000000a''"

definition owned_db :: db where
  "owned_db = chat_db\<lparr>chat_sessions := map (\<lambda>r. r\<lparr>cs_id := uuid_a\<rparr>) (chat_sessions chat_db),
     ingestion_jobs := [(new_job uuid_a Merge None None 0)\<lparr>jb_chat_session_id := Some ''elsewhere''\<rparr>]\<rparr>"

lemma py_uuid_a: "py_uuid uuid_a = Some uuid_a"
  unfolding uuid_a_def by (rule py_uuid_sample_canonical)

lemma owned_session: "find_session uuid_a owned_db = Some \<lparr>cs_id = uuid_a, cs_token_id = ''tok'', cs_status = ''active'',
      cs_pre_registry = empty_registry, cs_pre_version = 0, cs_created_at = 0, cs_last_turn_at = None\<rparr>"
  "\<not> tx_aborted owned_db"
  by (simp_all add: find_session_def owned_db_def chat_db_rows)

theorem stream_ignores_session_witness:
  "http_stream_turn toy_platform uuid_a uuid_a ''tok'' owned_db = (Inr uuid_a, owned_db)"
  by (rule stream_ignores_session [OF py_uuid_a owned_session(1) _ owned_session(2) py_uuid_a,
        where other = "''elsewhere''" and j = "(new_job uuid_a Merge None None 0)\<lparr>jb_chat_session_id := Some ''elsewhere''\<rparr>"])
    (simp_all add: find_job_def owned_db_def new_job_def uuid_a_def)

theorem refused_turn_changes_nothing_witness:
  "\<exists>e. http_submit_turn toy_platform chat_serial uuid_a [(''message'', JStr '' '')] ''tok'' ([], owned_db)
     = (Inl e, ([], owned_db))"
proof -
  have "turn_body toy_platform [(''message'', JStr '' '')] = Inl (HTTPException 422 ''INVALID_BODY'')"
    by (simp add: turn_body_def py_strip_def is_space_def)
  then obtain st where run: "http_submit_turn toy_platform chat_serial uuid_a [(''message'', JStr '' '')] ''tok'' ([], owned_db)
      = (Inl (HTTPException 422 ''INVALID_BODY''), st)"
    by (auto simp: http_submit_turn_def parse_path_uuid_def py_uuid_a act_simps)
  obtain running' s' where st: "st = (running', s')" by (cases st)
  from refused_turn_changes_nothing [OF run [unfolded st]] run st show ?thesis by simp
qed

end
