(* ===== verification/Rest_Api.thy ===== *)
theory Rest_Api
  imports Chat_Http
begin

text \<open>
  \<open>api_routes.py\<close>: the routes under \<open>/api\<close>, and the public schema route. A route checks the caller's
  scope by bearer token or cookie and works in one session, which is rolled back when it raises
  (\<open>in_session\<close>). The JSON a model dumps to is the platform's. The graph route is in theory Graph_Sync.
\<close>

definition for_scope ::
  "'n platform \<Rightarrow> timestamp \<Rightarrow> scope \<Rightarrow> string \<Rightarrow> string option \<Rightarrow> (principal \<Rightarrow> (db, exn, json) act)
     \<Rightarrow> (db, exn, json) act" where
  "for_scope P clock sc header cookie route =
     in_session (bind (require_scope_via_cookie_or_bearer (pf_hasher P) clock sc header cookie) route)"

definition api_whoami :: "principal \<Rightarrow> (db, exn, json) act" where
  "api_whoami p = ret (JObj [(''token_label'', JStr (pr_label p)), (''scope'', JStr (scope_name (pr_scope p))),
     (''server_version'', JStr ''0.1.0'')])"

definition entity_counts :: "registry \<Rightarrow> json" where
  "entity_counts r = JObj
     [(''shared_property_types'', JInt (int (length (shared_property_types r)))),
      (''interface_types'', JInt (int (length (interface_types r)))),
      (''object_types'', JInt (int (length (object_types r)))),
      (''link_types'', JInt (int (length (link_types r)))),
      (''action_types'', JInt (int (length (action_types r))))]"

definition rest_summary :: "string \<Rightarrow> (db, exn, json) act" where
  "rest_summary env =
     bind (lift_sum (parse_env env)) (\<lambda>e.
     bind (load e) (\<lambda>snap.
     ret (JObj [(''env'', JStr env), (''version'', JInt (sn_version snap)),
                (''entity_counts'', entity_counts (sn_registry snap))])))"

text \<open>The diff of theory Diff is kept by kind; the answer is grouped by change.\<close>

definition diff_json :: "(string, kind_diff) dict \<Rightarrow> json" where
  "diff_json ds =
     JObj [(''added'', JObj (map (\<lambda>(k, d). (k, JObj (kd_added d))) ds)),
           (''removed'', JObj (map (\<lambda>(k, d). (k, JObj (kd_removed d))) ds)),
           (''modified'', JObj (map (\<lambda>(k, d). (k, JObj (map (\<lambda>(rid, (a, b)).
              (rid, JObj [(''staging'', a), (''production'', b)])) (kd_modified d)))) ds))]"

definition rest_diff :: "'n platform \<Rightarrow> (db, exn, json) act" where
  "rest_diff P =
     bind (load Staging) (\<lambda>st.
     bind (load Production) (\<lambda>pr.
     ret (diff_json (compute_diff (pf_dumps P) (sn_registry st) (sn_registry pr)))))"

definition rest_full :: "'n platform \<Rightarrow> string \<Rightarrow> (db, exn, json) act" where
  "rest_full P env =
     bind (lift_sum (parse_env env)) (\<lambda>e.
     bind (load e) (\<lambda>snap. ret (pf_dump_registry P (sn_registry snap))))"

text \<open>
  \<open>getattr(registry, kind + "s", None)\<close>: one of the five maps, or an attribute of pydantic's base
  class whose name ends in s; \<open>other\<close> says what using that as a map of entities raises, if it does.
\<close>

definition registry_map ::
  "'n platform \<Rightarrow> (string \<Rightarrow> exn option) \<Rightarrow> registry \<Rightarrow> string \<Rightarrow> exn + (string, entity_view) dict" where
  "registry_map P other r kind =
     (case dict_get (kind_views P r) (kind @ ''s'') of
        Some d \<Rightarrow> Inr d
      | None \<Rightarrow> (case other (kind @ ''s'') of Some e \<Rightarrow> Inl e | None \<Rightarrow> Inl not_found))"

definition rest_list_entities ::
  "'n platform \<Rightarrow> (string \<Rightarrow> exn option) \<Rightarrow> string \<Rightarrow> string \<Rightarrow> (db, exn, json) act" where
  "rest_list_entities P other env kind =
     bind (lift_sum (parse_env env)) (\<lambda>e.
     bind (load e) (\<lambda>snap.
     bind (lift_sum (registry_map P other (sn_registry snap) kind)) (\<lambda>d.
     ret (JList (map ev_dump (dict_vals d))))))"

definition rest_get_entity ::
  "'n platform \<Rightarrow> (string \<Rightarrow> exn option) \<Rightarrow> string \<Rightarrow> string \<Rightarrow> string \<Rightarrow> (db, exn, json) act" where
  "rest_get_entity P other env kind rid =
     bind (lift_sum (parse_env env)) (\<lambda>e.
     bind (load e) (\<lambda>snap.
     bind (lift_sum (registry_map P other (sn_registry snap) kind)) (\<lambda>d.
     case dict_get d rid of None \<Rightarrow> raise not_found | Some v \<Rightarrow> ret (ev_dump v))))"

subsection \<open>Recent audit rows\<close>

definition clamp_audit_limit :: "int \<Rightarrow> int" where
  "clamp_audit_limit x = min (max 1 x) 50"

definition opt_str_json :: "string option \<Rightarrow> json" where
  "opt_str_json x = (case x of None \<Rightarrow> JNull | Some t \<Rightarrow> JStr t)"

text \<open>\<open>serial\<close> gives the identifier of the row at a position: the table grows in the order of identifiers.\<close>

definition audit_item :: "'n platform \<Rightarrow> (nat \<Rightarrow> int) \<Rightarrow> nat \<times> audit_row \<Rightarrow> json" where
  "audit_item P serial row =
     (case row of (i, a) \<Rightarrow>
        JObj [(''id'', JInt (serial i)), (''ts'', JStr (pf_isoformat P (au_ts a))),
              (''token_label'', opt_str_json (au_token_label a)), (''scope'', opt_str_json (au_scope a)),
              (''tool'', JStr (au_tool a)), (''outcome'', JStr (au_outcome a)),
              (''error_code'', opt_str_json (au_error_code a))])"

definition rest_audit_recent :: "'n platform \<Rightarrow> (nat \<Rightarrow> int) \<Rightarrow> int \<Rightarrow> (db, exn, json) act" where
  "rest_audit_recent P serial limit =
     statement (reads (\<lambda>s. JObj [(''items'', JList (map (audit_item P serial)
       (take (nat (clamp_audit_limit limit)) (rev (enumerate 0 (audit_log s))))))]))"

subsection \<open>Lifecycle\<close>

definition rest_promote :: "principal \<Rightarrow> (db, exn, json) act" where
  "rest_promote p =
     bind conn_ids (\<lambda>ids.
     bind (promote_staging_to_production ''Promoted via API'' (Some (pr_label p)) ids) (\<lambda>_. ret ok_json))"

definition rest_revert :: "principal \<Rightarrow> (db, exn, json) act" where
  "rest_revert p = bind (revert_staging_to_production (Some (pr_label p))) (\<lambda>_. ret ok_json)"

definition rest_undo :: "principal \<Rightarrow> (db, exn, json) act" where
  "rest_undo p = bind (undo_promote (Some (pr_label p))) (\<lambda>_. ret ok_json)"

datatype lifecycle_route = Promote | Revert | Undo_promote

fun lifecycle_action :: "lifecycle_route \<Rightarrow> principal \<Rightarrow> (db, exn, json) act" where
  "lifecycle_action Promote = rest_promote"
| "lifecycle_action Revert = rest_revert"
| "lifecycle_action Undo_promote = rest_undo"

definition rest_lifecycle ::
  "'n platform \<Rightarrow> timestamp \<Rightarrow> string \<Rightarrow> string option \<Rightarrow> lifecycle_route \<Rightarrow> (db, exn, json) act" where
  "rest_lifecycle P clock header cookie rt = for_scope P clock Admin header cookie (lifecycle_action rt)"

subsection \<open>The public schema\<close>

text \<open>
  A pydantic object as \<open>_to_dict\<close> and \<open>model_dump\<close> see it: \<open>PyModel\<close> an object with its fields, \<open>PyEnum\<close> a
  member with its value, \<open>PyPlain\<close> any other value. \<open>encoded\<close> is the JSON the framework makes of it.
\<close>

datatype pyval =
    PyNone
  | PyModel "(string \<times> pyval) list"
  | PyDict "(string \<times> pyval) list"
  | PyList "pyval list"
  | PyEnum json
  | PyPlain json

fun is_model :: "pyval \<Rightarrow> bool" where
  "is_model (PyModel fs) = True"
| "is_model v = False"

text \<open>The value a field gets; \<open>_to_dict\<close> of an object is the value of the object itself.\<close>

fun to_dict_value :: "pyval \<Rightarrow> pyval" where
  "to_dict_value PyNone = PyNone"
| "to_dict_value (PyModel fs) = PyDict (map (\<lambda>(k, v). (k, to_dict_value v)) fs)"
| "to_dict_value (PyDict d) = PyDict (map (\<lambda>(k, v). (k, if is_model v then to_dict_value v else v)) d)"
| "to_dict_value (PyList xs) = PyList (map (\<lambda>v. if is_model v then to_dict_value v else v) xs)"
| "to_dict_value (PyEnum j) = PyPlain j"
| "to_dict_value (PyPlain j) = PyPlain j"

fun encoded :: "pyval \<Rightarrow> json" where
  "encoded PyNone = JNull"
| "encoded (PyModel fs) = JObj (map (\<lambda>(k, v). (k, encoded v)) fs)"
| "encoded (PyDict d) = JObj (map (\<lambda>(k, v). (k, encoded v)) d)"
| "encoded (PyList xs) = JList (map encoded xs)"
| "encoded (PyEnum j) = j"
| "encoded (PyPlain j) = j"

definition get_ontology_schema :: "(registry \<Rightarrow> pyval) \<Rightarrow> string \<Rightarrow> (db, exn, json) act" where
  "get_ontology_schema as_py env =
     bind (lift_sum (parse_env env)) (\<lambda>e.
     bind (load e) (\<lambda>snap. ret (encoded (to_dict_value (as_py (sn_registry snap))))))"

subsection \<open>Facts\<close>

lemma encoded_to_dict: "encoded (to_dict_value v) = encoded v"
  by (induction v rule: to_dict_value.induct) (auto simp: map_idI)

lemma lifecycle_tool:
  "lifecycle_action Promote p = mcp_promote p [(''commit_message'', JStr ''Promoted via API'')]"
  "lifecycle_action Revert p = mcp_revert p []"
  "lifecycle_action Undo_promote p = mcp_undo p []"
  by (simp_all add: rest_promote_def rest_revert_def rest_undo_def mcp_promote_def mcp_revert_def mcp_undo_def
      only_keys_def arg_str_def arg_def fun_eq_iff bind_def lift_sum_def)

fun lifecycle_tool_call :: "lifecycle_route \<Rightarrow> principal \<Rightarrow> (db, exn, json) act" where
  "lifecycle_tool_call Promote p = mcp_promote p [(''commit_message'', JStr ''Promoted via API'')]"
| "lifecycle_tool_call Revert p = mcp_revert p []"
| "lifecycle_tool_call Undo_promote p = mcp_undo p []"

lemma lifecycle_action_tool: "lifecycle_action rt p = lifecycle_tool_call rt p"
  by (cases rt) (simp_all add: lifecycle_tool [simplified])

lemma lifecycle_frames:
  "honours step_ok (lifecycle_action rt p)" "honours same_audit (lifecycle_action rt p)"
  by (cases rt; simp add: rest_promote_def rest_revert_def rest_undo_def; intro step_intros audit_all_intros)+

lemma rest_lifecycle_cases:
  assumes "rest_lifecycle P clock header cookie rt s = (r, s')"
  obtains (refused) e where "r = Inl e" "s' = s"
  | (passed) p x where "require_scope_via_cookie_or_bearer (pf_hasher P) clock Admin header cookie s = (Inr p, s)"
      "lifecycle_action rt p s = (Inr x, s')" "r = Inr x"
proof -
  from assms have run: "in_session (bind (require_scope_via_cookie_or_bearer (pf_hasher P) clock Admin header cookie)
      (lifecycle_action rt)) s = (r, s')" by (simp add: rest_lifecycle_def for_scope_def)
  then show thesis
  proof (cases rule: in_session_cases)
    case (finished x)
    from bind_InrE [OF finished(2)] obtain p t where
      p: "require_scope_via_cookie_or_bearer (pf_hasher P) clock Admin header cookie s = (Inr p, t)"
      and run: "lifecycle_action rt p t = (Inr x, s')" by blast
    from via_cookie_Inr [OF p] have "t = s" by blast
    with passed p run finished(1) show thesis by blast
  qed (rule refused)
qed

subsection \<open>Properties\<close>

text \<open>C30: the lifecycle routes do what the tools do, for an administrator, without a trace. A call either
  raises and leaves the database alone, or the caller has a live token of the admin scope and the
  database becomes what the tool of the same name makes of it; but where the endpoint of the tools
  adds a row to the audit log, the route adds none.\<close>
theorem rest_lifecycle_like_tools:
  assumes "rest_lifecycle P clock header cookie rt s = (r, s')"
  shows "(\<exists>e. r = Inl e) \<and> s' = s
    \<or> (\<exists>p x. authorised (pf_hasher P) clock Admin header cookie s p \<and> pr_scope p = Admin
        \<and> lifecycle_tool_call rt p s = (Inr x, s') \<and> r = Inr x \<and> audit_log s' = audit_log s)"
  using assms
proof (cases rule: rest_lifecycle_cases)
  case (passed p x)
  then have "authorised (pf_hasher P) clock Admin header cookie s p" unfolding authorised_def by blast
  moreover from via_cookie_Inr [OF passed(1)] have "pr_scope p = Admin"
    by (cases "pr_scope p") (auto simp: less_eq_scope_def)
  moreover from passed(2) have "audit_log s' = audit_log s"
    using lifecycle_frames(2) unfolding honours_def same_audit_def by blast
  ultimately show ?thesis using passed lifecycle_action_tool by metis
qed blast

definition admin_db :: db where
  "admin_db = snd (insert_token plain_hasher ''t1'' ''op_secret_1'' Admin ''root'' None (migrated 7))"

lemma admin_db_facts: "\<not> tx_aborted admin_db" "registries admin_db = registries (migrated 7)" "audit_log admin_db = []"
  by (simp_all add: admin_db_def insert_token_def statement_def migrated_def plain_hasher_def token_prefix_def)

lemma admin_db_passes:
  "require_scope_via_cookie_or_bearer plain_hasher clock Admin ''Bearer op_secret_1'' None admin_db =
     (Inr \<lparr>pr_token_id = ''t1'', pr_label = ''root'', pr_scope = Admin\<rparr>, admin_db)"
  by (simp add: require_scope_via_cookie_or_bearer_def extract_bearer_def py_strip_def is_space_def act_simps
      lookup_token_def candidates_def admin_db_def insert_token_def migrated_def statement_def token_prefix_def
      plain_hasher_def principal_of_def scope_of_name_def check_scope_def less_scope_def)

theorem rest_lifecycle_like_tools_witness:
  "\<exists>s'. rest_lifecycle toy_platform 0 ''Bearer op_secret_1'' None Revert admin_db = (Inr ok_json, s')
     \<and> slot s' Staging = Some (empty_registry, 1) \<and> audit_log s' = []"
proof -
  let ?s = "saved Staging empty_registry (Some ''root'') None admin_db"
  have slots: "slot admin_db e = Some (empty_registry, 0)" for e
    using migrated_slots [of 7] by (cases e) (simp_all add: slots_def slot_def admin_db_facts)
  have run: "rest_lifecycle toy_platform 0 ''Bearer op_secret_1'' None Revert admin_db = (Inr ok_json, ?s)"
    by (simp add: rest_lifecycle_def for_scope_def in_session_def toy_platform_def admin_db_passes rest_revert_def
        revert_staging_to_production_def act_simps slots)
  from rest_lifecycle_like_tools [OF run] have "audit_log ?s = audit_log admin_db" by blast
  with run slots [of Staging] show ?thesis by (simp add: admin_db_facts)
qed

text \<open>The public schema route answers, without any authentication and for any of the three
  environments, exactly what the full-registry route answers to a caller with the read scope.\<close>
theorem schema_is_full:
  assumes "\<And>r. pf_dump_registry P r = encoded (as_py r)"
  shows "get_ontology_schema as_py env = rest_full P env"
  by (simp add: get_ontology_schema_def rest_full_def encoded_to_dict assms)

theorem schema_is_full_witness:
  "get_ontology_schema (\<lambda>_. PyModel [(''version'', PyPlain (JStr ''1''))]) ''staging'' (migrated 0)
   = rest_full (toy_platform\<lparr>pf_dump_registry := (\<lambda>_. JObj [(''version'', JStr ''1'')])\<rparr>) ''staging'' (migrated 0)"
  using schema_is_full [of "toy_platform\<lparr>pf_dump_registry := (\<lambda>_. JObj [(''version'', JStr ''1'')])\<rparr>"
      "\<lambda>_. PyModel [(''version'', PyPlain (JStr ''1''))]" "''staging''"] by simp

text \<open>The recent-activity route answers with the newest rows of the audit log, newest first, at least
  one and at most fifty of them however many are asked for, and with the whole log when it is shorter.\<close>
theorem recent_audit_window:
  assumes "\<not> tx_aborted s"
  shows "\<exists>n. 1 \<le> n \<and> n \<le> 50 \<and> (1 \<le> limit \<and> limit \<le> 50 \<longrightarrow> int n = limit)
    \<and> rest_audit_recent P serial limit s = (Inr (JObj [(''items'', JList (map (audit_item P serial)
        (rev (drop (length (audit_log s) - n) (enumerate 0 (audit_log s))))))]), s)"
  by (rule exI [where x = "nat (clamp_audit_limit limit)"])
    (use assms in \<open>auto simp: rest_audit_recent_def statement_def act_simps clamp_audit_limit_def take_rev\<close>)

theorem recent_audit_window_witness:
  "\<exists>j. rest_audit_recent toy_platform int 900 (migrated 0) = (Inr j, migrated 0)"
  using recent_audit_window [of "migrated 0" 900 toy_platform int] by (auto simp: migrated_def)

end
