(* ===== verification/Service.thy ===== *)
theory Service
  imports Rest_Api
begin

text \<open>
  The whole service over one database: requests to the tools, logins, the REST lifecycle routes,
  uploads, ingestion jobs, chat sessions, turns and the sweep, in any order, and nested: while a job
  or a cancellation is between two of its steps, any of the others may run. \<open>serves\<close> is the relation
  between the databases before and after such an activity; \<open>keeps\<close> is what every activity honours.
\<close>

subsection \<open>Tools leave the chat sessions alone\<close>

definition same_chat :: "db \<Rightarrow> db \<Rightarrow> bool" where
  "same_chat s s' \<longleftrightarrow> chat_sessions s' = chat_sessions s"

interpretation chat_frame: frame same_chat
  by unfold_locales (simp_all add: same_chat_def)

lemma chat_statement:
  assumes "\<And>s r s'. m s = (r, s') \<Longrightarrow> chat_sessions s' = chat_sessions s"
  shows "honours same_chat (statement m)"
  by (rule statement_cases) (use assms in \<open>auto simp: same_chat_def\<close>)

lemma chat_tables:
  "honours same_chat (insert_token H tid plaintext sc label creator)" "honours same_chat (revoke_token tid)"
  "honours same_chat (insert_upload uid filename kind nbytes sha path creator)"
  "honours same_chat (create_job jid mode ins ups creator)"
  "honours same_chat (insert_connection F cid label k dsn)" "honours same_chat (mark_probe_ok cid)"
  "honours same_chat (delete_connection_row cid)" "honours same_chat (set_status jid st u)"
  unfolding insert_token_def revoke_token_def insert_upload_def create_job_def insert_connection_def
    mark_probe_ok_def delete_connection_row_def set_status_def
  by (rule chat_statement; auto simp: Let_def modify_apply split: if_splits)+

lemma chat_save: "honours same_chat (save e reg x label msg)"
  using save_same_tables same_tables_fields unfolding honours_def same_chat_def by metis

lemma chat_cancel_job: "honours same_chat (statement (\<lambda>s. case py_uuid job_id of
     None \<Rightarrow> (Inl (OtherException ''DBAPIError'' ''invalid UUID''), s\<lparr>tx_aborted := True\<rparr>)
   | Some jid \<Rightarrow>
       (Inr (), s\<lparr>ingestion_jobs := update_where (\<lambda>j. jb_id j = jid \<and> cancellable j)
          (\<lambda>j. j\<lparr>jb_status := ''cancelled'', jb_finished_at := Some (db_now s)\<rparr>) (ingestion_jobs s)\<rparr>)))"
  by (rule chat_statement) (auto split: option.splits)

lemma chat_orphans: "honours same_chat (statement (\<lambda>s. (Inr (length (filter (is_orphan m s) (ingestion_uploads s))),
    s\<lparr>ingestion_uploads := filter (\<lambda>u. \<not> is_orphan m s u) (ingestion_uploads s)\<rparr>)))"
  by (rule chat_statement) auto

lemma chat_register: "honours same_chat (register_connection F drv cid label kind dsn)"
  unfolding register_connection_def probe_def
  by (cases "drv dsn kind"; simp add: chat_frame.simple; intro chat_frame.bind chat_frame.loads chat_tables)

lemmas chat_intros = chat_frame.bind chat_frame.simple chat_frame.loads chat_frame.in_case chat_save chat_tables
  chat_cancel_job chat_orphans chat_register chat_frame.read [OF read_only_query] chat_frame.read [OF read_rows]
  step_case_prod honours_let

lemma chat_lifecycle:
  "honours same_chat (promote_staging_to_production msg label C)"
  "honours same_chat (revert_staging_to_production label)"
  "honours same_chat (undo_promote label)"
  "honours same_chat (edit_staging p mk v ver)"
  unfolding promote_staging_to_production_def revert_staging_to_production_def undo_promote_def
    edit_staging_def save_staging_def
  by (intro chat_intros)+

lemma handler_chat:
  assumes "h \<in> handlers P"
  shows "honours same_chat (h p a)"
proof -
  have "h \<in> set (editor_handlers P) \<or> h \<in> set (admin_handlers P) \<or> read_only (h p a)"
    using assms read_handlers_read_only read_only_validate_staging unfolding handlers_def by blast
  then show ?thesis
  proof (elim disjE)
    assume "h \<in> set (editor_handlers P)"
    then show ?thesis
      unfolding editor_handlers_def
      by (auto simp: put_factory_def del_factory_def import_full_def mcp_set_asset_mapping_def
          intro!: chat_intros chat_lifecycle)
  next
    assume "h \<in> set (admin_handlers P)"
    then show ?thesis
      unfolding admin_handlers_def
      by (auto simp: mcp_promote_def mcp_revert_def mcp_undo_def mcp_mint_def mcp_revoke_def mcp_list_tokens_def
          mcp_add_connection_def mcp_delete_connection_def mcp_list_connections_def register_upload_def
          submit_ingestion_job_def get_ingestion_job_def list_ingestion_jobs_def cancel_ingestion_job_def
          delete_orphan_uploads_def intro!: chat_intros chat_lifecycle)
  qed (rule chat_frame.read)
qed

subsection \<open>The invariant of the service\<close>

definition service_sound :: "db \<Rightarrow> bool" where
  "service_sound s \<longleftrightarrow> sound s \<and> (\<forall>r \<in> set (chat_sessions s). good UNIV (cs_pre_registry r))"

definition keeps :: "db \<Rightarrow> db \<Rightarrow> bool" where
  "keeps s s' \<longleftrightarrow> (service_sound s \<longrightarrow> service_sound s' \<and> evolves s s')"

interpretation kept_frame: frame keeps
  using evolves_refl evolves_trans by unfold_locales (auto simp: keeps_def)

lemma keptI:
  assumes "service_sound s \<Longrightarrow> sound s' \<and> evolves s s'"
    and "service_sound s \<Longrightarrow> \<forall>r \<in> set (chat_sessions s'). good UNIV (cs_pre_registry r)"
  shows "keeps s s'"
  using assms unfolding keeps_def service_sound_def by blast

text \<open>An activity that keeps the registries in order and does not touch the sessions.\<close>

lemma kept_same: "step_ok s s' \<Longrightarrow> same_chat s s' \<Longrightarrow> keeps s s'"
  unfolding step_ok_def same_chat_def keeps_def service_sound_def by simp

lemma kept_tool: "honours step_ok m \<Longrightarrow> honours same_chat m \<Longrightarrow> honours keeps m"
  using kept_same unfolding honours_def by blast

text \<open>An activity that leaves the registries alone and adds no session but with what staging holds.\<close>

lemma kept_quiet:
  assumes "registries s' = registries s" "kinds_ok s \<longrightarrow> kinds_ok s'"
    and "\<And>r. service_sound s \<Longrightarrow> r \<in> set (chat_sessions s') \<Longrightarrow> good UNIV (cs_pre_registry r)"
  shows "keeps s s'"
proof (rule keptI)
  from assms(1) have "slot s' = slot s" by (rule same_registries)
  with assms(2) show "service_sound s \<Longrightarrow> sound s' \<and> evolves s s'"
    unfolding service_sound_def sound_def evolves_def by auto
qed (use assms(3) in blast)

lemma kept_statement:
  assumes "\<And>s r s'. m s = (r, s') \<Longrightarrow> registries s' = registries s \<and> connections s' = connections s
      \<and> cs_pre_registry ` set (chat_sessions s') \<subseteq> cs_pre_registry ` set (chat_sessions s)"
  shows "honours keeps (statement m)"
proof (rule statement_cases)
  fix s r s' assume "m s = (r, s')"
  from assms [OF this] have m: "registries s' = registries s" "connections s' = connections s"
    "cs_pre_registry ` set (chat_sessions s') \<subseteq> cs_pre_registry ` set (chat_sessions s)" by blast+
  show "keeps s s'"
  proof (rule kept_quiet [OF m(1)])
    show "kinds_ok s \<longrightarrow> kinds_ok s'" by (simp add: kinds_ok_def m(2))
  next
    fix r assume "service_sound s" "r \<in> set (chat_sessions s')"
    with m(3) show "good UNIV (cs_pre_registry r)" unfolding service_sound_def by (metis image_iff subset_iff)
  qed
qed (rule kept_frame.refl)

lemma kept_save: "good UNIV reg \<Longrightarrow> honours keeps (save e reg x label msg)"
  unfolding honours_def
proof (intro allI impI)
  fix s r s' assume reg: "good UNIV reg" and run: "save e reg x label msg s = (r, s')"
  have "s' = s \<or> (\<exists>n r0. slot s e = Some (r0, n) \<and> s' = saved e reg label msg s)"
    using run by (auto simp: save_def saved_def slot_def Let_def split: if_splits option.splits)
  then show "keeps s s'"
  proof
    assume "\<exists>n r0. slot s e = Some (r0, n) \<and> s' = saved e reg label msg s"
    then obtain r0 n where sl: "slot s e = Some (r0, n)" and s': "s' = saved e reg label msg s" by blast
    have "step_ok s s'"
      using sound_saved [OF _ sl reg] unfolding step_ok_def s' by blast
    moreover have "same_chat s s'" using chat_save run unfolding honours_def by blast
    ultimately show ?thesis by (rule kept_same)
  qed (simp add: kept_frame.refl)
qed

subsection \<open>Requests and lifecycle routes\<close>

lemma kept_system:
  assumes "system_step P rf s s'" "parsers_ok P"
  shows "keeps s s'"
proof (rule kept_same)
  show "step_ok s s'" using step_sound [OF assms] unfolding step_ok_def by blast
  from assms(1) show "same_chat s s'"
  proof cases
    case (boot new_id random r)
    then show ?thesis
      unfolding bootstrap_admin_token_if_needed_def insert_token_def statement_def same_chat_def
      by (auto simp: act_simps Let_def split: if_splits sum.splits prod.splits)
  next
    case (request header body resp)
    from this no_empty_name show ?thesis
    proof (cases rule: endpoint_cases)
      case (call p spec a)
      have handler: "same_chat s s1" if "call_handler spec p a s = (r, s1)" for r s1
        using that handler_chat [OF table_handlers [OF call(3)]]
        by (cases a) (auto simp: call_handler_def raise_apply honours_def same_chat_def split: if_splits)
      from call(2) show ?thesis
        by (cases rule: call_tool_cases) (use handler in \<open>fastforce simp: same_chat_def\<close>)+
    qed (simp add: same_chat_def)
  next
    case (ui_login clock sid token r)
    obtain x t where l: "lookup_token (pf_hasher P) token s = (x, t)" by fastforce
    with lookup_token_frame have "t = s" by blast
    with ui_login l show ?thesis
      unfolding login_def same_chat_def
      by (auto simp: act_simps statement_def split: if_splits sum.splits option.splits)
  next
    case (ui_logout cookie)
    then show ?thesis
      unfolding logout_def statement_def same_chat_def
      by (auto simp: act_simps split: if_splits option.splits)
  qed (simp add: same_chat_def)
qed

lemma kept_rest:
  assumes "rest_lifecycle P clock header cookie rt s = (r, s')"
  shows "keeps s s'"
  using assms
proof (cases rule: rest_lifecycle_cases)
  case (passed p x)
  have "honours same_chat (lifecycle_action rt p)"
    by (cases rt; simp add: rest_promote_def rest_revert_def rest_undo_def; intro chat_intros chat_lifecycle)
  with kept_tool lifecycle_frames(1) passed(2) show ?thesis unfolding honours_def by blast
qed (simp add: kept_frame.refl)

lemma kept_process_upload: "honours keeps (process_upload P filename body creator)"
  unfolding process_upload_def Let_def
  by (intro kept_tool step_intros chat_intros)

lemma kept_in_session: "honours keeps m \<Longrightarrow> honours keeps (in_session m)"
  unfolding honours_def
proof (intro allI impI)
  fix s r s' assume m: "\<forall>s r s'. m s = (r, s') \<longrightarrow> keeps s s'" and run: "in_session m s = (r, s')"
  from run show "keeps s s'"
    by (cases rule: in_session_cases) (use m kept_frame.refl in blast)+
qed

lemma kept_select_total: "honours keeps (select_total ids)"
  unfolding select_total_def by (rule kept_statement) (auto split: sum.splits)

lemmas kept_intros = kept_frame.bind kept_frame.simple kept_frame.loads kept_frame.in_case kept_in_session
  kept_select_total kept_frame.read [OF read_only_query] kept_frame.read [OF read_rows] kept_process_upload
  step_case_prod honours_let

lemma kept_create_job: "honours keeps (http_create_job P ups mode ins creator)"
proof -
  have "honours keeps (create_job jid m i us c)" for jid m i us c
    by (intro kept_tool step_intros chat_intros)
  then show ?thesis unfolding http_create_job_def by (intro kept_intros)
qed

subsection \<open>Chat sessions\<close>

lemma kept_catching: "honours keeps m \<Longrightarrow> honours keeps (catching f m)"
  unfolding honours_def catching_def by (auto split: prod.splits sum.splits)

lemma kept_open: "honours keeps (create_session new_uuid n token)"
proof -
  let ?open = "\<lambda>snap. bind (reads new_uuid) (\<lambda>sid. bind (insert_session sid token snap) (\<lambda>_. ret sid)) :: (db, exn, uuid) act"
  have "honours keeps (bind (load Staging) ?open)"
    unfolding honours_def
  proof (intro allI impI)
    fix s r s' assume run: "bind (load Staging) ?open s = (r, s')"
    show "keeps s s'"
    proof (cases "\<exists>reg n. slot s Staging = Some (reg, n) \<and> \<not> tx_aborted s")
      case False
      with run have "s' = s" by (auto simp: act_simps insert_session_def statement_def split: option.splits)
      then show ?thesis by (simp add: kept_frame.refl)
    next
      case True
      then obtain reg n where sl: "slot s Staging = Some (reg, n)" "\<not> tx_aborted s" by blast
      then have s': "s' = s\<lparr>chat_sessions := chat_sessions s @ [\<lparr>cs_id = new_uuid s, cs_token_id = token,
          cs_status = ''active'', cs_pre_registry = reg, cs_pre_version = n, cs_created_at = db_now s,
          cs_last_turn_at = None\<rparr>]\<rparr>"
        using run by (simp add: act_simps insert_session_def statement_def)
      show ?thesis
        by (rule kept_quiet)
          (use sl good_of_slot in \<open>auto simp: s' kinds_ok_def service_sound_def\<close>)
    qed
  qed
  moreover have "honours keeps (check_quota n token)"
    unfolding check_quota_def by (cases n) (auto intro!: kept_frame.simple kept_statement)
  ultimately show ?thesis unfolding create_session_def by - (rule kept_in_session, rule kept_frame.bind)
qed

lemma kept_status: "honours keeps (set_session_status sid st)"
  unfolding set_session_status_def by (rule kept_statement) (auto simp: update_where_def image_image)

lemma kept_delete: "honours keeps (delete_session sid)"
  unfolding delete_session_def by (rule kept_statement) (auto simp: modify_apply)

lemma kept_save_session: "honours keeps (save_session running sid requester)"
  unfolding save_session_def by (intro kept_intros kept_status kept_delete)

lemma kept_begin_cancel: "honours keeps (begin_cancel sid requester)"
  unfolding begin_cancel_def by (intro kept_intros kept_status)

lemma begin_cancel_row:
  assumes "begin_cancel sid requester s = (Inr (r, current), s')" "service_sound s"
  shows "good UNIV (cs_pre_registry r)"
proof -
  from assms(1) have "find_session sid s = Some r"
    by (auto simp: begin_cancel_def set_session_status_def statement_def act_simps visible_to_Inr
        split: if_splits sum.splits option.splits prod.splits)
  with find_session_id assms(2) show ?thesis unfolding service_sound_def by blast
qed

lemma kept_cancel_session:
  assumes "\<And>t. keeps t (others t)"
  shows "honours keeps (cancel_session others running sid requester)"
  unfolding honours_def
proof (intro allI impI)
  fix s r s' assume run: "cancel_session others running sid requester s = (r, s')"
  show "keeps s s'"
  proof (cases "turn_guard running sid")
    case (Inl e)
    with run show ?thesis by (simp add: cancel_session_def act_simps kept_frame.refl)
  next
    case guard: (Inr u)
    obtain x t where b: "begin_cancel sid requester s = (x, t)" by fastforce
    have t: "keeps s t" using kept_begin_cancel b unfolding honours_def by blast
    show ?thesis
    proof (cases x)
      case (Inl e)
      with run guard b show ?thesis by (simp add: cancel_session_def act_simps kept_frame.refl)
    next
      case (Inr y)
      obtain row current where y: "y = (row, current)" by fastforce
      obtain z v where v: "restore_registry sid row current (others t) = (z, v)" by fastforce
      obtain w q where q: "delete_session sid v = (w, q)" by fastforce
      have s': "s' \<in> {v, others s, q}"
        using run guard b Inr y v q
        by (cases z; cases w; cases "projl z") (auto simp: cancel_session_def act_simps split: exn.splits)
      show ?thesis
      proof (cases "service_sound s")
        case sound: True
        have "good UNIV (cs_pre_registry row)" using begin_cancel_row b Inr y sound by blast
        then have "keeps (others t) v"
          using kept_save v unfolding restore_registry_def honours_def by blast
        with t assms have "keeps s v" using kept_frame.trans by blast
        moreover have "keeps v q" using kept_delete q unfolding honours_def by blast
        ultimately show ?thesis using s' assms kept_frame.trans by blast
      qed (simp add: keeps_def)
    qed
  qed
qed

lemma kept_link: "honours keeps (link_uploads jid ups)"
proof (induction ups)
  case (Cons up ups)
  show ?case
    unfolding link_uploads.simps
    by (rule kept_frame.bind [OF kept_statement Cons]) (auto split: option.splits)
qed (simp add: kept_frame.simple)

lemma kept_message: "honours keeps (insert_message serial sid i role content)"
  unfolding insert_message_def by (rule kept_statement) (auto split: if_splits)

lemma kept_turn_tx: "honours keeps (start_turn_tx new_uuid serial sid msg ups token requester)"
proof -
  have "honours keeps (insert_turn_job new_uuid sid msg token)"
    unfolding insert_turn_job_def by (rule kept_statement) auto
  moreover have "honours keeps (statement (modify (\<lambda>s. s\<lparr>chat_sessions := update_where (\<lambda>r. cs_id r = sid)
      (\<lambda>r. r\<lparr>cs_last_turn_at := Some (db_now s)\<rparr>) (chat_sessions s)\<rparr>)))"
    by (rule kept_statement) (auto simp: modify_apply update_where_def image_image)
  ultimately show ?thesis
    unfolding start_turn_tx_def by (intro kept_intros kept_message kept_link)
qed

lemma kept_submit_turn:
  assumes "http_submit_turn P serial session_id body token (running, s) = (r, (running', s'))"
  shows "keeps s s'"
proof -
  have start: "keeps t t'" if "start_turn nu serial i msg ups tk req (rn, t) = (x, (rn', t'))"
    for nu i msg ups tk req rn t x rn' t'
  proof (cases "turn_guard rn i")
    case (Inl e)
    with that show ?thesis by (simp add: start_turn_def kept_frame.refl)
  next
    case (Inr u)
    obtain y v where y: "start_turn_tx nu serial i msg ups tk req t = (y, v)" by fastforce
    with that Inr have "t' = v" by (cases y) (simp_all add: start_turn_def)
    with kept_turn_tx y show ?thesis unfolding honours_def by blast
  qed
  show ?thesis
  proof (cases "\<exists>sid msg ups. parse_path_uuid session_id = Inr sid \<and> turn_body P body = Inr (msg, ups)")
    case False
    with assms have "s' = s"
      by (cases "parse_path_uuid session_id"; cases "turn_body P body") (auto simp: http_submit_turn_def act_simps)
    then show ?thesis by (simp add: kept_frame.refl)
  next
    case True
    then obtain sid msg ups where ok: "parse_path_uuid session_id = Inr sid" "turn_body P body = Inr (msg, ups)" by blast
    obtain y rn' v where y: "start_turn (pf_new_uuid P) serial sid msg ups token (Some token) (running, s) = (y, (rn', v))"
      by (metis prod.exhaust)
    with assms ok have "s' = v"
      by (cases y) (simp_all add: http_submit_turn_def catching_def act_simps)
    with start [OF y] show ?thesis by simp
  qed
qed

lemma kept_outcome: "honours keeps (record_outcome serial T sid tid)"
  unfolding record_outcome_def
  by (intro kept_intros kept_message kept_statement) (auto split: option.splits)

lemma kept_sweep_loop:
  "(\<And>sid t. keeps t (others sid t)) \<Longrightarrow> sweep_loop others running sids res s = (res', s') \<Longrightarrow> keeps s s'"
proof (induction sids arbitrary: res s)
  case (Cons sid sids)
  obtain x t where x: "cancel_session (others sid) running sid None s = (x, t)" by fastforce
  with kept_cancel_session [of "others sid"] Cons.prems(1) have "keeps s t" unfolding honours_def by blast
  moreover from Cons.prems x have "keeps t s'"
    by (cases x) (auto intro: Cons.IH)
  ultimately show ?case by (rule kept_frame.trans)
qed (simp add: kept_frame.refl)

lemma kept_sweep:
  assumes "\<And>sid t. keeps t (others sid t)"
  shows "honours keeps (sweep_orphan_sessions others running secs)"
proof -
  have "honours keeps (\<lambda>s. case sweep_loop others running sids res s of (res, s') \<Rightarrow> (Inr res, s'))" for sids res
    using kept_sweep_loop [OF assms] unfolding honours_def by (auto split: prod.splits)
  then show ?thesis
    unfolding sweep_orphan_sessions_def by (intro kept_frame.bind kept_frame.read [OF read_rows])
qed

subsection \<open>Jobs\<close>

definition keeps_env :: "'l job_world \<Rightarrow> bool" where
  "keeps_env W \<longleftrightarrow> (\<forall>pt t. keeps t (jw_env W pt t))"

lemma kept_set_status: "honours keeps (set_status jid st u)"
  unfolding set_status_def by (rule kept_statement) (auto simp: modify_apply split: if_splits)

interpretation service_frame: job_frame "\<lambda>s s'. keeps_env W \<longrightarrow> keeps s s'" W jid
  for W :: "'l job_world" and jid
proof unfold_locales
  show "honours (\<lambda>s s'. keeps_env W \<longrightarrow> keeps s s') (set_status jid st u)" for st u
    using kept_set_status unfolding honours_def by blast
qed (use kept_frame.refl kept_frame.trans in \<open>auto simp: keeps_env_def\<close>)

lemma in_service: "honours (\<lambda>s s'. keeps_env W \<longrightarrow> keeps s s') m \<Longrightarrow> keeps_env W \<Longrightarrow> m s = (r, s') \<Longrightarrow> keeps s s'"
  unfolding honours_def by blast

lemma kept_import:
  assumes "\<And>reg. import_into_registry (sn_registry (js_snapshot js)) (wr_snapshot wr) (jo_mode (js_job js))
      (js_conn_ids js) = Inr reg \<Longrightarrow> good UNIV reg"
  shows "honours (\<lambda>s s'. keeps_env W \<longrightarrow> keeps s s') (import_phase W jid js wr)"
proof -
  let ?R = "\<lambda>s s'. keeps_env W \<longrightarrow> keeps s s'"
  let ?imp = "import_into_registry (sn_registry (js_snapshot js)) (wr_snapshot wr) (jo_mode (js_job js)) (js_conn_ids js)"
  let ?save = "\<lambda>reg. bind (save Staging reg (Some (sn_version (js_snapshot js))) (Some ''ingestion'') None)
      (\<lambda>new_version. ret (Some (reg, new_version))) :: (db, exn, (registry \<times> int) option) act"
  have save: "honours ?R (?save reg)" if "?imp = Inr reg" for reg
  proof -
    have "honours keeps (?save reg)"
      by (intro kept_frame.bind kept_save assms [OF that] kept_frame.simple)
    then show ?thesis unfolding honours_def by blast
  qed
  have body: "honours ?R (bind (lift_sum ?imp) ?save)"
  proof (cases ?imp)
    case (Inl e)
    then show ?thesis by (auto simp: honours_def act_simps kept_frame.refl)
  next
    case (Inr reg)
    with save [OF Inr] show ?thesis by (simp add: honours_def act_simps)
  qed
  show ?thesis
    unfolding import_phase_def
  proof (rule service_frame.attempted [OF service_frame.in_block [OF body]])
    fix e :: exn
    show "honours ?R (case e of StaleVersionError env expected current \<Rightarrow>
            mark W jid Failed (failed ''stale staging'' ''STALE_VERSION''
              (Some (JObj [(''expected_version'', JInt expected), (''current_version'', JInt current)])))
        | ValidationFailedError fs \<Rightarrow>
            mark W jid Failed (failed ''validation failed'' ''VALIDATION_FAILED''
              (Some (JObj [(''findings'', JList (map brief_finding fs))])))
        | _ \<Rightarrow> raise e)"
      by (cases e) (simp_all add: service_frame.simple service_frame.marks)
  qed
qed

lemma kept_finish:
  assumes "\<And>reg. import_into_registry (sn_registry (js_snapshot js)) (wr_snapshot wr) (jo_mode (js_job js))
      (js_conn_ids js) = Inr reg \<Longrightarrow> good UNIV reg"
  shows "honours (\<lambda>s s'. keeps_env W \<longrightarrow> keeps s s') (finish_phase W jid js res wr)"
  unfolding finish_phase_def
  by (intro service_frame.bind service_frame.in_block service_frame.status kept_import [OF assms]
      service_frame.in_option_case service_frame.simple step_case_prod)

text \<open>What a job starts from is a registry that staging held.\<close>

lemma setup_phase_keys:
  assumes "setup_phase W jid s = (Inr js, s')" "keeps_env W" "service_sound s"
  shows "keys_ok (sn_registry (js_snapshot js))"
proof -
  let ?u = "no_update\<lparr>su_phase := ''agent running'', su_progress := Some 40\<rparr>"
  obtain x t where
    1: "block W At_agent_running (set_status jid Agent_running ?u) s = (Inr x, t)"
    and 2: "block W At_load (bind (load Staging) (\<lambda>snap. bind (get_job jid) (\<lambda>j. bind conn_ids (\<lambda>ids.
          ret \<lparr>js_snapshot = snap, js_job = j, js_conn_ids = ids\<rparr>)))) t = (Inr js, s')"
    by (rule bind_InrE [OF assms(1) [unfolded setup_phase_def]])
  have "keeps s t" by (rule in_service [OF service_frame.in_block [OF service_frame.status] assms(2) 1])
  with assms(2) have "keeps s (jw_env W At_load t)" unfolding keeps_env_def by (blast intro: kept_frame.trans)
  with assms(3) have sound: "service_sound (jw_env W At_load t)" by (simp add: keeps_def)
  from 2 have "in_session (bind (load Staging) (\<lambda>snap. bind (get_job jid) (\<lambda>j. bind conn_ids (\<lambda>ids.
          ret \<lparr>js_snapshot = snap, js_job = j, js_conn_ids = ids\<rparr>)))) (jw_env W At_load t) = (Inr js, s')"
    by (simp add: block_def split: if_splits)
  then have run: "bind (load Staging) (\<lambda>snap. bind (get_job jid) (\<lambda>j. bind conn_ids (\<lambda>ids.
          ret \<lparr>js_snapshot = snap, js_job = j, js_conn_ids = ids\<rparr>))) (jw_env W At_load t) = (Inr js, s')"
    by (cases rule: in_session_cases) auto
  obtain snap v where l: "load Staging (jw_env W At_load t) = (Inr snap, v)"
    and rest: "bind (get_job jid) (\<lambda>j. bind conn_ids (\<lambda>ids. ret \<lparr>js_snapshot = snap, js_job = j, js_conn_ids = ids\<rparr>)) v
      = (Inr js, s')" by (rule bind_InrE [OF run])
  from rest have "js_snapshot js = snap"
    by (auto simp: act_simps split: sum.splits prod.splits elim!: bind_InrE)
  with registry_store.read_result [OF l] good_of_slot sound show ?thesis
    unfolding service_sound_def good_def by blast
qed

lemma kept_job:
  assumes "run_one_job P W sp jid s = (r, s')" "keeps_env W" "parsers_ok P"
  shows "keeps s s'"
proof (cases "service_sound s")
  case sound: True
  obtain x t where 1: "extract_phase W jid s = (x, t)" by fastforce
  have t: "keeps s t" by (rule in_service [OF service_frame.extraction assms(2) 1])
  show ?thesis
  proof (cases "\<exists>ds. x = Inr (Some ds)")
    case False
    with assms(1) 1 t show ?thesis
      by (auto simp: run_one_job_def act_simps split: sum.splits option.splits)
  next
    case True
    then obtain ds where x: "x = Inr (Some ds)" by blast
    obtain y u where 2: "setup_phase W jid t = (y, u)" by fastforce
    have u: "keeps t u" by (rule in_service [OF service_frame.setting_up assms(2) 2])
    have su: "keeps s u" by (rule kept_frame.trans [OF t u])
    show ?thesis
    proof (cases y)
      case (Inl e)
      with assms(1) 1 2 x su show ?thesis by (simp add: run_one_job_def act_simps)
    next
      case (Inr js)
      from t sound have "service_sound t" by (simp add: keeps_def)
      with setup_phase_keys [OF 2 [unfolded Inr] assms(2)] have keys: "keys_ok (sn_registry (js_snapshot js))" .
      obtain out wr where a: "agent_run P W sp ds js = (out, wr)" by fastforce
      note wr = agent_run_keys [OF a assms(3) keys]
      have good: "good UNIV reg" if "import_into_registry (sn_registry (js_snapshot js)) (wr_snapshot wr)
          (jo_mode (js_job js)) (js_conn_ids js) = Inr reg" for reg
        using import_keys_ok [OF keys _ that] wr that wf_mono by (auto simp: good_def wr_snapshot_def import_result)
      have last: "keeps u s'"
      proof (cases out)
        case (Inl e)
        with assms(1) 1 2 x Inr a have "report_agent_error P W jid e u = (r, s')"
          by (simp add: run_one_job_def act_simps \<open>y = Inr js\<close>)
        from in_service [OF service_frame.agent_report assms(2) this] show ?thesis .
      next
        case out: (Inr res)
        with assms(1) 1 2 x a have "finish_phase W jid js res wr u = (r, s')"
          by (simp add: run_one_job_def act_simps \<open>y = Inr js\<close>)
        from in_service [OF kept_finish [OF good] assms(2) this] show ?thesis by blast
      qed
      show ?thesis by (rule kept_frame.trans [OF su last])
    qed
  qed
qed (simp add: keeps_def)

lemma kept_mark: "honours keeps (mark_wall_clock jid)"
  unfolding mark_wall_clock_def by (intro kept_in_session kept_statement) (auto simp: modify_apply)

lemma kept_turn_worker:
  assumes "run_turn_worker P W serial T sp timed_out others sid tid c = (r, c')" "keeps_env W" "parsers_ok P"
  shows "keeps (ch_db c) (ch_db c')"
proof -
  have "honours keeps (limited_job P W sp tid timed_out)"
    unfolding honours_def
  proof (intro allI impI)
    fix s x s' assume run: "limited_job P W sp tid timed_out s = (x, s')"
    obtain y t where y: "run_one_job P W sp tid s = (y, t)" by fastforce
    have t: "keeps s t" by (rule kept_job [OF y assms(2,3)])
    have "s' = t \<or> (\<exists>z. mark_wall_clock tid t = (z, s'))"
      using run y by (cases y) (auto simp: limited_job_def split: if_splits)
    with t kept_mark kept_frame.trans show "keeps s s'" unfolding honours_def by blast
  qed
  then have "honours keeps (bind (limited_job P W sp tid timed_out) (\<lambda>_. record_outcome serial T sid tid))"
    by (intro kept_frame.bind kept_outcome)
  then show ?thesis
    using assms(1) unfolding honours_def run_turn_worker_def Let_def
    by (auto split: prod.splits sum.splits)
qed

subsection \<open>The whole service\<close>

text \<open>
  The activities, each from the database it starts with to the one it ends with. What runs between
  the steps of a job, of a cancellation or of a sweep is again the service.
\<close>

inductive serves :: "'n platform \<Rightarrow> (rat \<Rightarrow> string) \<Rightarrow> 'l llm \<Rightarrow> db \<Rightarrow> db \<Rightarrow> bool" for P rf L where
  idle: "serves P rf L s s"
| further: "serves P rf L s t \<Longrightarrow> serves P rf L t u \<Longrightarrow> serves P rf L s u"
| system: "system_step P rf s s' \<Longrightarrow> serves P rf L s s'"
| rest_route: "rest_lifecycle P clock header cookie rt s = (r, s') \<Longrightarrow> serves P rf L s s'"
| uploading: "in_session (process_upload P filename body creator) s = (r, s') \<Longrightarrow> serves P rf L s s'"
| queueing: "in_session (http_create_job P ups mode ins creator) s = (r, s') \<Longrightarrow> serves P rf L s s'"
| working: "run_one_job P W sp jid s = (r, s') \<Longrightarrow> jw_llm W = L
     \<Longrightarrow> (\<forall>pt t. serves P rf L t (jw_env W pt t)) \<Longrightarrow> serves P rf L s s'"
| chat_open: "http_create_session P token s = (r, s') \<Longrightarrow> serves P rf L s s'"
| chat_save: "http_save_session running session_id token s = (r, s') \<Longrightarrow> serves P rf L s s'"
| chat_cancel: "http_cancel_session others running session_id token s = (r, s')
     \<Longrightarrow> (\<forall>t. serves P rf L t (others t)) \<Longrightarrow> serves P rf L s s'"
| chat_turn: "http_submit_turn P serial session_id body token (running, s) = (r, (running', s')) \<Longrightarrow> serves P rf L s s'"
| chat_work: "run_turn_worker P W serial T sp timed_out on_bus sid tid c = (r, c') \<Longrightarrow> jw_llm W = L
     \<Longrightarrow> (\<forall>pt t. serves P rf L t (jw_env W pt t)) \<Longrightarrow> serves P rf L (ch_db c) (ch_db c')"
| chat_sweep: "sweep_orphan_sessions others_of running secs s = (r, s')
     \<Longrightarrow> (\<forall>sid t. serves P rf L t (others_of sid t)) \<Longrightarrow> serves P rf L s s'"

lemma serves_keeps:
  assumes "serves P rf L s s'" "parsers_ok P"
  shows "keeps s s'"
  using assms(1)
proof (induction rule: serves.induct)
  case (further s t u)
  then show ?case by (blast intro: kept_frame.trans)
next
  case (system s s')
  from kept_system [OF this assms(2)] show ?case .
next
  case (rest_route clock header cookie rt s r s')
  from kept_rest [OF this] show ?case .
next
  case (uploading filename body creator s r s')
  with kept_in_session [OF kept_process_upload] show ?case unfolding honours_def by blast
next
  case (queueing ups mode ins creator s r s')
  with kept_in_session [OF kept_create_job] show ?case unfolding honours_def by blast
next
  case (working W sp jid s r s')
  then have "keeps_env W" unfolding keeps_env_def by blast
  from kept_job [OF working(1) this assms(2)] show ?case .
next
  case (chat_open token s r s')
  moreover have "honours keeps (http_create_session P token)"
    unfolding http_create_session_def by (intro kept_frame.bind kept_catching kept_open kept_frame.simple)
  ultimately show ?case unfolding honours_def by blast
next
  case (chat_save running session_id token s r s')
  moreover have "honours keeps (http_save_session running session_id token)"
    unfolding http_save_session_def by (intro kept_frame.bind kept_catching kept_save_session kept_frame.simple)
  ultimately show ?case unfolding honours_def by blast
next
  case (chat_cancel others running session_id token s r s')
  moreover have "honours keeps (http_cancel_session others running session_id token)"
    unfolding http_cancel_session_def
    using chat_cancel.IH by (intro kept_frame.bind kept_catching kept_cancel_session kept_frame.simple) blast
  ultimately show ?case unfolding honours_def by blast
next
  case (chat_turn serial session_id body token running s r running' s')
  from kept_submit_turn [OF this] show ?case .
next
  case (chat_work W serial T sp timed_out on_bus sid tid c r c')
  then have "keeps_env W" unfolding keeps_env_def by blast
  from kept_turn_worker [OF chat_work(1) this assms(2)] show ?case .
next
  case (chat_sweep others_of running secs s r s')
  then have "honours keeps (sweep_orphan_sessions others_of running secs)" by (intro kept_sweep) blast
  with chat_sweep(1) show ?case unfolding honours_def by blast
qed (rule kept_frame.refl)

lemma service_migrated: "service_sound (migrated t)"
  using sound_migrated [of t] by (simp add: service_sound_def migrated_def)

subsection \<open>Properties\<close>


text \<open>A chat is opened; two seconds later the sweep for chats idle for one second cancels it.\<close>

definition open_chat_db :: db where
  "open_chat_db = snd (http_create_session toy_platform ''tok'' (migrated 0))"

definition idle_chat_db :: db where
  "idle_chat_db = open_chat_db\<lparr>db_now := 2000000\<rparr>"

lemma open_chat_rows: "chat_sessions open_chat_db = [\<lparr>cs_id = ''u1'', cs_token_id = ''tok'',
      cs_status = ''active'', cs_pre_registry = empty_registry, cs_pre_version = 0, cs_created_at = 0,
      cs_last_turn_at = None\<rparr>]"
    "\<not> tx_aborted open_chat_db" "slot open_chat_db = slot (migrated 0)" "db_now open_chat_db = 0"
  by (simp_all add: open_chat_db_def http_create_session_def catching_def create_session_def in_session_def
      check_quota_def insert_session_def active_sessions_def toy_platform_def mk_settings_def migrated_def slot_def
      act_simps fun_eq_iff)

lemma open_chat_served: "serves toy_platform (\<lambda>_. []) stub_acompletion (migrated 0) open_chat_db"
  by (rule serves.chat_open [of _ "''tok''" _ "fst (http_create_session toy_platform ''tok'' (migrated 0))"])
    (simp add: open_chat_db_def)

lemma idle_chat_swept:
  obtains s' where "sweep_orphan_sessions (\<lambda>_ s. s) [] 1 idle_chat_db = (Inr \<lparr>sw_recovered = 1, sw_failed = 0\<rparr>, s')"
    "slot s' = (slot (migrated 0))(Staging \<mapsto> (empty_registry, 1))" "chat_sessions s' = []"
proof -
  have sl: "slot idle_chat_db = slot (migrated 0)"
    using open_chat_rows(3) by (simp add: idle_chat_db_def slot_def fun_eq_iff)
  have f: "find_session ''u1'' idle_chat_db = Some \<lparr>cs_id = ''u1'', cs_token_id = ''tok'',
      cs_status = ''active'', cs_pre_registry = empty_registry, cs_pre_version = 0, cs_created_at = 0,
      cs_last_turn_at = None\<rparr>"
    by (simp add: find_session_def idle_chat_db_def open_chat_rows)
  have ok: "\<not> tx_aborted idle_chat_db" by (simp add: idle_chat_db_def open_chat_rows)
  have st: "slot idle_chat_db Staging = Some (empty_registry, 0)"
    using migrated_slots [of 0] by (simp add: slots_def sl)
  have idle: "\<not> dict_has ''u1'' ([] :: running_turns)" by simp
  have due: "sweep_orphan_sessions others [] 1 idle_chat_db =
      (case sweep_loop others [] [''u1''] \<lparr>sw_recovered = 0, sw_failed = 0\<rparr> idle_chat_db of (res, s') \<Rightarrow> (Inr res, s'))" for others
    using ok by (simp add: sweep_orphan_sessions_def act_simps statement_def)
      (simp add: idle_chat_db_def open_chat_rows is_orphaned_def)
  show thesis
    apply (rule cancel_run [OF f disjI1 [OF refl] ok idle st])
    subgoal premises p for s'
      by (rule that [of s'])
        (use p(1-3) in \<open>simp_all add: due sl, simp add: idle_chat_db_def open_chat_rows update_where_def\<close>)
    done
qed


text \<open>A version names one registry for ever, in the whole service: from any database it reaches, no
  activity takes the version of an environment back, and an environment whose version is the same
  holds the same registry.\<close>
theorem service_versions_grow:
  assumes "serves P rf L (migrated t) s" and "serves P rf L s s'" and "parsers_ok P" and "slot s e = Some (r, n)"
  shows "\<exists>r' n'. slot s' e = Some (r', n') \<and> n \<le> n' \<and> (n' = n \<longrightarrow> r' = r)"
  using serves_keeps [OF assms(1,3)] serves_keeps [OF assms(2,3)] service_migrated [of t] assms(4)
  unfolding keeps_def evolves_def by blast


theorem service_versions_grow_witness:
  "\<exists>r n. slot open_chat_db Staging = Some (r, n) \<and> 0 \<le> n \<and> (n = 0 \<longrightarrow> r = empty_registry)"
proof -
  have "slot (migrated 0) Staging = Some (empty_registry, 0)"
    using migrated_slots [of 0] by (simp add: slots_def)
  from service_versions_grow [OF serves.idle open_chat_served toy_parsers this] show ?thesis by blast
qed

text \<open>A deleted connection can come back in production. A connection that only the remembered
  production mentions can be deleted, since the tool looks at staging and production alone; undoing
  the promotion afterwards succeeds without validation, and production then names a connection that
  is not registered.\<close>
theorem undo_revives_deleted_connection:
  assumes "\<not> tx_aborted s" "slots s (st, v1) (pr, v2) (pp, v3)" "py_uuid cid = Some cid"
    and "binds_connection cid st = []" "binds_connection cid pr = []" "binds_connection cid pp \<noteq> []"
    and "rg_version pp \<noteq> EMPTY_REGISTRY_VERSION"
  shows "\<exists>s1 s2. mcp_delete_connection p [(''connection_id'', JStr cid)] s = (Inr (JObj [(''deleted'', JBool True)]), s1)
    \<and> undo_promote label s1 = (Inr (), s2)
    \<and> slot s2 Production = Some (pp, v2 + 1) \<and> binds_connection cid pp \<noteq> [] \<and> cid \<notin> conn_ids_of s2"
proof -
  let ?s1 = "s\<lparr>connections := filter (\<lambda>c. cn_id c \<noteq> cid) (connections s)\<rparr>"
  have sl: "slot s Staging = Some (st, v1)" "slot s Production = Some (pr, v2)"
    using assms(2) by (simp_all add: slots_def)
  from delete_connection_compares_text [OF assms(1) sl assms(3), of p] assms(4,5)
  have 1: "mcp_delete_connection p [(''connection_id'', JStr cid)] s = (Inr (JObj [(''deleted'', JBool True)]), ?s1)"
    by simp
  have "slots ?s1 (st, v1) (pr, v2) (pp, v3)" using assms(2) by (simp add: slots_def slot_def)
  note run = undo_run [OF this, of label] and slots = undo_slots [OF this, of label]
  define s2 where "s2 = saved Previous_production empty_registry label None (saved Production pp label None ?s1)"
  have 2: "undo_promote label ?s1 = (Inr (), s2)" using run assms(7) by (simp add: s2_def)
  have "slot s2 Production = Some (pp, v2 + 1)" using slots [OF 2] by (simp add: slots_def)
  moreover have "connections s2 = connections ?s1"
    using same_tables_fields [OF saved_same_tables [of "saved Production pp label None ?s1"]]
      same_tables_fields [OF saved_same_tables [of ?s1]] unfolding s2_def by metis
  then have "cid \<notin> conn_ids_of s2" by (auto simp: conn_ids_of_def)
  ultimately show ?thesis using 1 2 assms(6) by blast
qed

definition unbound_db :: db where
  "unbound_db = saved Previous_production (bound_registry\<lparr>rg_version := ''1''\<rparr>) None None ((migrated 0)\<lparr>connections :=
     [\<lparr>cn_id = ''00000000-0000-0000-0000-00000000000a'', cn_label = ''main'', cn_kind = ''postgres'',
       cn_dsn_encrypted = ''x'', cn_created_at = 0, cn_last_probe_ok_at = None\<rparr>]\<rparr>)"

theorem undo_revives_deleted_connection_witness:
  "\<exists>s1 s2. mcp_delete_connection boss [(''connection_id'', JStr ''00000000-0000-0000-0000-00000000000a'')] unbound_db
      = (Inr (JObj [(''deleted'', JBool True)]), s1)
    \<and> undo_promote None s1 = (Inr (), s2)
    \<and> slot s2 Production = Some (bound_registry\<lparr>rg_version := ''1''\<rparr>, 1)
    \<and> ''00000000-0000-0000-0000-00000000000a'' \<notin> conn_ids_of s2"
proof -
  have ok: "\<not> tx_aborted unbound_db"
    and sl: "slots unbound_db (empty_registry, 0) (empty_registry, 0) (bound_registry\<lparr>rg_version := ''1''\<rparr>, 1)"
    by (simp_all add: unbound_db_def migrated_def slots_def slot_def saved_def save_def Let_def)
  have b: "binds_connection c empty_registry = []"
    "binds_connection ''00000000-0000-0000-0000-00000000000a'' (bound_registry\<lparr>rg_version := ''1''\<rparr>) \<noteq> []" for c
    unfolding binds_connection_Nil by (simp_all add: bound_registry_def empty_registry_def)
  have v: "rg_version (bound_registry\<lparr>rg_version := ''1''\<rparr>) \<noteq> EMPTY_REGISTRY_VERSION"
    by (simp add: EMPTY_REGISTRY_VERSION_def)
  from undo_revives_deleted_connection [OF ok sl py_uuid_sample_canonical b(1) b(1) b(2) v, of boss None]
  show ?thesis by auto
qed

end
