(* ===== verification/Graph_Sync.thy ===== *)
theory Graph_Sync
  imports Wellformed
begin

text \<open>
  \<open>neo4j_syncer.py\<close>: the copy of a registry in a graph database, and the reader of that graph in
  \<open>api_routes.py\<close>. The code sends Cypher statements; the statements it uses are the datatype
  \<open>cypher\<close>, with the meaning Cypher gives them: MERGE of a node takes the nodes with the label and
  identifier, or makes one; MERGE of a relationship between matched nodes takes the relationships of
  the type between them, or makes one; a MATCH that finds nothing makes nothing. A relationship is
  found under its type and the positions of its two nodes.
\<close>

fun cardinality_value :: "cardinality \<Rightarrow> string" where
  "cardinality_value CARDINALITY_UNSPECIFIED = ''CARDINALITY_UNSPECIFIED''"
| "cardinality_value ONE_TO_ONE = ''ONE_TO_ONE''"
| "cardinality_value ONE_TO_MANY = ''ONE_TO_MANY''"
| "cardinality_value MANY_TO_MANY = ''MANY_TO_MANY''"

fun safety_level_value :: "action_safety_level \<Rightarrow> string" where
  "safety_level_value SAFETY_UNSPECIFIED = ''SAFETY_UNSPECIFIED''"
| "safety_level_value SAFETY_READ_ONLY = ''SAFETY_READ_ONLY''"
| "safety_level_value SAFETY_IDEMPOTENT_WRITE = ''SAFETY_IDEMPOTENT_WRITE''"
| "safety_level_value SAFETY_NON_IDEMPOTENT = ''SAFETY_NON_IDEMPOTENT''"
| "safety_level_value SAFETY_CRITICAL = ''SAFETY_CRITICAL''"

subsection \<open>Graphs\<close>

type_synonym props = "(string, string) dict"

record gnode =
  gn_labels :: "string list"
  gn_props :: props

record graph =
  gr_nodes :: "gnode list"
  gr_rels :: "(string \<times> nat \<times> nat, props) dict"

definition empty_graph :: graph where
  "empty_graph = \<lparr>gr_nodes = [], gr_rels = []\<rparr>"

datatype cypher =
    Delete_all
  | Merge_node string string props
  | Merge_rel string "string \<times> string" "string \<times> string" props

definition node_is :: "string \<Rightarrow> string \<Rightarrow> gnode \<Rightarrow> bool" where
  "node_is label rid n \<longleftrightarrow> label \<in> set (gn_labels n) \<and> dict_get (gn_props n) ''rid'' = Some rid"

definition matches :: "graph \<Rightarrow> string \<times> string \<Rightarrow> nat list" where
  "matches g lr = filter (\<lambda>i. node_is (fst lr) (snd lr) (gr_nodes g ! i)) [0..<length (gr_nodes g)]"

definition merge_one_rel :: "string \<Rightarrow> props \<Rightarrow> nat \<times> nat \<Rightarrow> (string \<times> nat \<times> nat, props) dict
    \<Rightarrow> (string \<times> nat \<times> nat, props) dict" where
  "merge_one_rel ty ps ij rels = dict_set (ty, ij)
     (dict_merge (case dict_get rels (ty, ij) of None \<Rightarrow> [] | Some old \<Rightarrow> old) ps) rels"

fun exec :: "cypher \<Rightarrow> graph \<Rightarrow> graph" where
  "exec Delete_all g = empty_graph"
| "exec (Merge_node label rid ps) g =
     (if list_ex (node_is label rid) (gr_nodes g)
      then g\<lparr>gr_nodes := map (\<lambda>n. if node_is label rid n then n\<lparr>gn_props := dict_merge (gn_props n) ps\<rparr> else n) (gr_nodes g)\<rparr>
      else g\<lparr>gr_nodes := gr_nodes g @ [\<lparr>gn_labels = [label], gn_props = dict_merge [(''rid'', rid)] ps\<rparr>]\<rparr>)"
| "exec (Merge_rel ty a b ps) g =
     g\<lparr>gr_rels := fold (merge_one_rel ty ps) (List.product (matches g a) (matches g b)) (gr_rels g)\<rparr>"

subsection \<open>The synchronisation\<close>

definition object_props :: "object_type_definition \<Rightarrow> props" where
  "object_props d = [(''api_name'', ob_api_name d), (''display_name'', ob_display_name d),
     (''description'', ob_description d), (''lifecycle_status'', lifecycle_status_value (ob_lifecycle_status d))]"

definition upsert_object_type :: "object_type_definition \<Rightarrow> cypher" where
  "upsert_object_type d = Merge_node ''ObjectType'' (ob_rid d) (object_props d)"

definition interface_props :: "interface_type_definition \<Rightarrow> props" where
  "interface_props d = [(''api_name'', if_api_name d), (''display_name'', if_display_name d),
     (''description'', if_description d), (''category'', interface_category_value (if_category d))]"

definition upsert_interface_type :: "interface_type_definition \<Rightarrow> cypher" where
  "upsert_interface_type d = Merge_node ''InterfaceType'' (if_rid d) (interface_props d)"

definition action_props :: "action_type_definition \<Rightarrow> props" where
  "action_props d = [(''api_name'', ac_api_name d), (''display_name'', ac_display_name d),
     (''description'', ac_description d), (''safety_level'', safety_level_value (safety_level d))]"

definition upsert_action_type :: "action_type_definition \<Rightarrow> cypher" where
  "upsert_action_type d = Merge_node ''ActionType'' (ac_rid d) (action_props d)"

definition link_props :: "link_type_definition \<Rightarrow> props" where
  "link_props d = [(''rid'', lk_rid d), (''api_name'', lk_api_name d), (''display_name'', lk_display_name d),
     (''description'', lk_description d), (''cardinality'', cardinality_value (lk_cardinality d))]"

definition upsert_link_relation :: "link_type_definition \<Rightarrow> cypher list" where
  "upsert_link_relation d =
     (if source_object_type_rid d = [] \<or> target_object_type_rid d = [] then []
      else [Merge_rel ''LINK'' (''ObjectType'', source_object_type_rid d) (''ObjectType'', target_object_type_rid d)
              (link_props d)])"

definition upsert_implements :: "string \<Rightarrow> string \<Rightarrow> cypher" where
  "upsert_implements obj_rid iface_rid =
     Merge_rel ''IMPLEMENTS'' (''ObjectType'', obj_rid) (''InterfaceType'', iface_rid) []"

definition upsert_acts_on :: "string \<Rightarrow> string \<Rightarrow> cypher" where
  "upsert_acts_on action_rid obj_rid =
     Merge_rel ''ACTS_ON'' (''ActionType'', action_rid) (''ObjectType'', obj_rid) []"

definition node_statements :: "registry \<Rightarrow> cypher list" where
  "node_statements r =
     map upsert_object_type (dict_vals (object_types r))
     @ map upsert_interface_type (dict_vals (interface_types r))
     @ map upsert_action_type (dict_vals (action_types r))"

definition link_statements :: "registry \<Rightarrow> cypher list" where
  "link_statements r = concat (map upsert_link_relation (dict_vals (link_types r)))"

definition implements_statements :: "registry \<Rightarrow> cypher list" where
  "implements_statements r = concat (map (\<lambda>(rid, d). map (upsert_implements rid) (ob_implements d)) (object_types r))"

definition acts_on_statements :: "registry \<Rightarrow> cypher list" where
  "acts_on_statements r = concat (map (\<lambda>(rid, d). map (upsert_acts_on rid) (edited_object_types d)) (action_types r))"

definition rel_statements :: "registry \<Rightarrow> cypher list" where
  "rel_statements r = link_statements r @ implements_statements r @ acts_on_statements r"

definition sync_statements :: "registry \<Rightarrow> cypher list" where
  "sync_statements r = Delete_all # node_statements r @ rel_statements r"

text \<open>Every statement commits by itself: a run that fails after k of them leaves their effect.\<close>

definition sync_registry :: "registry \<Rightarrow> graph \<Rightarrow> graph" where
  "sync_registry r g = fold exec (sync_statements r) g"

definition interrupted_sync :: "nat \<Rightarrow> registry \<Rightarrow> graph \<Rightarrow> graph" where
  "interrupted_sync k r g = fold exec (take k (sync_statements r)) g"

subsection \<open>The graph route\<close>

text \<open>
  \<open>GET /ontology/graph\<close> asks for nodes with two labels each. A property that is missing reads as
  null. Without a connection it answers with empty lists; a failure between two of its queries,
  which would keep what has been read, is not modelled.
\<close>

definition gprop :: "string \<Rightarrow> props \<Rightarrow> string option" where
  "gprop k ps = dict_get ps k"

definition or_text :: "string option \<Rightarrow> string \<Rightarrow> string" where
  "or_text x d = (case x of None \<Rightarrow> d | Some t \<Rightarrow> if t = [] then d else t)"

definition opt_json_str :: "string option \<Rightarrow> json" where
  "opt_json_str x = (case x of None \<Rightarrow> JNull | Some t \<Rightarrow> JStr t)"

definition py_none :: "string option \<Rightarrow> string" where
  "py_none x = (case x of None \<Rightarrow> ''None'' | Some t \<Rightarrow> t)"

definition has_labels :: "string list \<Rightarrow> gnode \<Rightarrow> bool" where
  "has_labels ls n \<longleftrightarrow> set ls \<subseteq> set (gn_labels n)"

definition graph_node_item :: "string \<Rightarrow> string \<Rightarrow> gnode \<Rightarrow> json" where
  "graph_node_item node_type grp n =
     (let ps = gn_props n; api = gprop ''apiName'' ps in
      JObj [(''id'', opt_json_str api),
            (''label'', JStr (or_text (gprop ''displayName'' ps) (or_text api []))),
            (''description'', JStr (or_text (gprop ''description'' ps) [])),
            (''nodeType'', JStr node_type), (''group'', JStr grp)])"

definition graph_edges :: "graph \<Rightarrow> string \<Rightarrow> string list \<Rightarrow> string list \<Rightarrow> (props \<times> gnode \<times> gnode) list" where
  "graph_edges g ty from_labels to_labels =
     map (\<lambda>((t, i, j), ps). (ps, gr_nodes g ! i, gr_nodes g ! j))
       (filter (\<lambda>((t, i, j), ps). t = ty \<and> has_labels from_labels (gr_nodes g ! i)
          \<and> has_labels to_labels (gr_nodes g ! j)) (gr_rels g))"

definition link_edge_item :: "props \<times> gnode \<times> gnode \<Rightarrow> json" where
  "link_edge_item e =
     (case e of (ps, a, b) \<Rightarrow>
        let src = gprop ''apiName'' (gn_props a); tgt = gprop ''apiName'' (gn_props b) in
        JObj [(''id'', JStr (or_text (gprop ''apiName'' ps) (''link-'' @ py_none src @ ''-'' @ py_none tgt))),
              (''source'', opt_json_str src), (''target'', opt_json_str tgt), (''edgeType'', JStr ''LINK''),
              (''label'', JStr (or_text (gprop ''displayName'' ps) []))])"

definition implements_edge_item :: "props \<times> gnode \<times> gnode \<Rightarrow> json" where
  "implements_edge_item e =
     (case e of (ps, a, b) \<Rightarrow>
        let src = gprop ''apiName'' (gn_props a); tgt = gprop ''apiName'' (gn_props b) in
        JObj [(''id'', JStr (''impl-'' @ py_none src @ ''-'' @ py_none tgt)),
              (''source'', opt_json_str src), (''target'', opt_json_str tgt), (''edgeType'', JStr ''IMPLEMENTS''),
              (''label'', JStr ''implements'')])"

definition get_ontology_graph :: "graph option \<Rightarrow> json" where
  "get_ontology_graph conn =
     (case conn of
        None \<Rightarrow> JObj [(''nodes'', JList []), (''edges'', JList [])]
      | Some g \<Rightarrow>
          JObj [(''nodes'', JList
                   (map (graph_node_item ''ObjectTypeDef'' ''objects'')
                      (filter (has_labels [''ObjectTypeDef'', ''Manufacturing'']) (gr_nodes g))
                    @ map (graph_node_item ''InterfaceTypeDef'' ''interfaces'')
                        (filter (has_labels [''InterfaceDef'', ''Manufacturing'']) (gr_nodes g))
                    @ map (graph_node_item ''ActionTypeDef'' ''actions'')
                        (filter (has_labels [''ActionTypeDef'', ''Manufacturing'']) (gr_nodes g)))),
                (''edges'', JList
                   (map link_edge_item (graph_edges g ''LINKS_TO'' [''ObjectTypeDef'', ''Manufacturing'']
                      [''ObjectTypeDef'', ''Manufacturing''])
                    @ map implements_edge_item (graph_edges g ''IMPLEMENTS'' [''ObjectTypeDef'', ''Manufacturing'']
                        [''InterfaceDef'', ''Manufacturing''])))])"

subsection \<open>Facts on nodes\<close>

definition fresh_node :: "string \<Rightarrow> string \<Rightarrow> props \<Rightarrow> gnode" where
  "fresh_node label rid ps = \<lparr>gn_labels = [label], gn_props = dict_merge [(''rid'', rid)] ps\<rparr>"

definition plain_props :: "props \<Rightarrow> bool" where
  "plain_props ps \<longleftrightarrow> dict_ok ps \<and> dict_get ps ''rid'' = None"

lemma plain_upserts [simp]: "plain_props (object_props d)" "plain_props (interface_props i)" "plain_props (action_props a)"
  by (simp_all add: plain_props_def object_props_def interface_props_def action_props_def dict_ok_def)

lemma node_is_fresh [simp]: "plain_props ps \<Longrightarrow> node_is l x (fresh_node label rid ps) \<longleftrightarrow> l = label \<and> x = rid"
  by (auto simp: node_is_def fresh_node_def plain_props_def get_merge map_add_def)

lemma merge_nodes:
  assumes "distinct (map f ds)" "\<And>d. plain_props (ps d)"
    "\<And>d. d \<in> set ds \<Longrightarrow> \<not> list_ex (node_is label (f d)) (gr_nodes g)"
  shows "fold exec (map (\<lambda>d. Merge_node label (f d) (ps d)) ds) g
    = g\<lparr>gr_nodes := gr_nodes g @ map (\<lambda>d. fresh_node label (f d) (ps d)) ds\<rparr>"
  using assms
proof (induction ds arbitrary: g)
  case (Cons d ds)
  let ?g = "g\<lparr>gr_nodes := gr_nodes g @ [fresh_node label (f d) (ps d)]\<rparr>"
  have one: "exec (Merge_node label (f d) (ps d)) g = ?g"
    using Cons.prems(3) [of d] by (simp add: fresh_node_def)
  have "\<not> list_ex (node_is label (f e)) (gr_nodes ?g)" if "e \<in> set ds" for e
  proof -
    from that Cons.prems(1) have "f e \<noteq> f d" by (metis distinct.simps(2) image_eqI list.set_map list.simps(9))
    with that Cons.prems(2,3) show ?thesis by simp
  qed
  with Cons.IH [OF _ Cons.prems(2) this] Cons.prems(1) one show ?case by simp
qed simp

definition object_nodes :: "registry \<Rightarrow> gnode list" where
  "object_nodes r = map (\<lambda>d. fresh_node ''ObjectType'' (ob_rid d) (object_props d)) (dict_vals (object_types r))"

definition interface_nodes :: "registry \<Rightarrow> gnode list" where
  "interface_nodes r = map (\<lambda>d. fresh_node ''InterfaceType'' (if_rid d) (interface_props d)) (dict_vals (interface_types r))"

definition action_nodes :: "registry \<Rightarrow> gnode list" where
  "action_nodes r = map (\<lambda>d. fresh_node ''ActionType'' (ac_rid d) (action_props d)) (dict_vals (action_types r))"

lemmas node_lists = object_nodes_def interface_nodes_def action_nodes_def

definition rids_distinct :: "registry \<Rightarrow> bool" where
  "rids_distinct r \<longleftrightarrow> distinct (map ob_rid (dict_vals (object_types r)))
     \<and> distinct (map if_rid (dict_vals (interface_types r))) \<and> distinct (map ac_rid (dict_vals (action_types r)))"

lemma run_node_statements:
  assumes "rids_distinct r"
  shows "fold exec (node_statements r) empty_graph
    = \<lparr>gr_nodes = object_nodes r @ interface_nodes r @ action_nodes r, gr_rels = []\<rparr>"
proof -
  have up: "upsert_object_type = (\<lambda>d. Merge_node ''ObjectType'' (ob_rid d) (object_props d))"
    "upsert_interface_type = (\<lambda>d. Merge_node ''InterfaceType'' (if_rid d) (interface_props d))"
    "upsert_action_type = (\<lambda>d. Merge_node ''ActionType'' (ac_rid d) (action_props d))"
    by (simp_all add: fun_eq_iff upsert_object_type_def upsert_interface_type_def upsert_action_type_def)
  note step = merge_nodes [where ps = object_props] merge_nodes [where ps = interface_props]
    merge_nodes [where ps = action_props]
  from assms show ?thesis
    unfolding node_statements_def up fold_append comp_apply rids_distinct_def node_lists
    by (subst step; (subst step)?; (subst step)?)
      (auto simp: empty_graph_def list_ex_iff simp del: map_map)
qed

subsection \<open>Facts on relationships\<close>

definition is_rel :: "cypher \<Rightarrow> bool" where
  "is_rel c \<longleftrightarrow> (case c of Merge_rel _ _ _ _ \<Rightarrow> True | _ \<Rightarrow> False)"

lemma rel_nodes: "\<forall>c \<in> set cs. is_rel c \<Longrightarrow> gr_nodes (fold exec cs g) = gr_nodes g"
  by (induction cs arbitrary: g) (auto simp: is_rel_def split: cypher.splits)

lemma in_link_statements:
  "c \<in> set (link_statements r) \<Longrightarrow> \<exists>a b ps. c = Merge_rel ''LINK'' a b ps"
  by (auto simp: link_statements_def upsert_link_relation_def split: if_splits)

lemma in_implements_statements:
  "c \<in> set (implements_statements r) \<longleftrightarrow> (\<exists>rid d i. (rid, d) \<in> set (object_types r) \<and> i \<in> set (ob_implements d)
     \<and> c = Merge_rel ''IMPLEMENTS'' (''ObjectType'', rid) (''InterfaceType'', i) [])"
  unfolding implements_statements_def upsert_implements_def by fastforce

lemma in_acts_on_statements:
  "c \<in> set (acts_on_statements r) \<longleftrightarrow> (\<exists>rid d x. (rid, d) \<in> set (action_types r) \<and> x \<in> set (edited_object_types d)
     \<and> c = Merge_rel ''ACTS_ON'' (''ActionType'', rid) (''ObjectType'', x) [])"
  unfolding acts_on_statements_def upsert_acts_on_def by fastforce

lemma rel_statements_rel: "c \<in> set (rel_statements r) \<Longrightarrow> is_rel c"
  by (auto simp: rel_statements_def is_rel_def in_implements_statements in_acts_on_statements
      dest!: in_link_statements)

lemma matches_nodes: "gr_nodes g = gr_nodes h \<Longrightarrow> matches g lr = matches h lr"
  by (simp add: matches_def)

lemma get_merge_fold:
  "distinct ijs \<Longrightarrow> dict_get (fold (merge_one_rel ty ps) ijs rels) (t, ij) =
    (if t = ty \<and> ij \<in> set ijs
     then Some (dict_merge (case dict_get rels (t, ij) of None \<Rightarrow> [] | Some old \<Rightarrow> old) ps)
     else dict_get rels (t, ij))"
  by (induction ijs arbitrary: rels) (auto simp: merge_one_rel_def get_set)

lemma get_merge_rel:
  "dict_get (gr_rels (exec (Merge_rel ty a b ps) g)) (t, i, j) =
    (if t = ty \<and> i \<in> set (matches g a) \<and> j \<in> set (matches g b)
     then Some (dict_merge (case dict_get (gr_rels g) (t, i, j) of None \<Rightarrow> [] | Some old \<Rightarrow> old) ps)
     else dict_get (gr_rels g) (t, i, j))"
  by (simp add: get_merge_fold distinct_product matches_def)

lemma has_rel_fold:
  "\<forall>c \<in> set cs. is_rel c \<Longrightarrow> dict_has (t, i, j) (gr_rels (fold exec cs g)) \<longleftrightarrow>
    dict_has (t, i, j) (gr_rels g)
    \<or> (\<exists>a b ps. Merge_rel t a b ps \<in> set cs \<and> i \<in> set (matches g a) \<and> j \<in> set (matches g b))"
proof (induction cs arbitrary: g)
  case (Cons c cs)
  then obtain ty a b ps where c: "c = Merge_rel ty a b ps" by (auto simp: is_rel_def split: cypher.splits)
  have m: "matches (exec c g) lr = matches g lr" for lr by (rule matches_nodes) (simp add: c)
  have h: "dict_has (t, i, j) (gr_rels (exec c g)) \<longleftrightarrow> dict_has (t, i, j) (gr_rels g)
      \<or> t = ty \<and> i \<in> set (matches g a) \<and> j \<in> set (matches g b)"
    unfolding c dict_has_iff_get get_merge_rel by auto
  have ex: "(\<exists>a' b' p. Merge_rel t a' b' p \<in> set (c # cs) \<and> M a' b') \<longleftrightarrow>
      t = ty \<and> M a b \<or> (\<exists>a' b' p. Merge_rel t a' b' p \<in> set cs \<and> M a' b')" for M
    by (auto simp: c simp del: split_paired_Ex)
  from Cons.IH [of "exec c g"] Cons.prems show ?case unfolding ex by (simp add: h m disj_assoc)
qed simp

definition rel_of :: "string \<Rightarrow> cypher \<Rightarrow> bool" where
  "rel_of t c \<longleftrightarrow> (case c of Merge_rel ty _ _ _ \<Rightarrow> ty = t | _ \<Rightarrow> False)"

lemma other_rel_fold:
  "\<forall>c \<in> set cs. is_rel c \<and> \<not> rel_of t c \<Longrightarrow>
    dict_get (gr_rels (fold exec cs g)) (t, i, j) = dict_get (gr_rels g) (t, i, j)"
proof (induction cs arbitrary: g)
  case (Cons c cs)
  then obtain ty a b ps where c: "c = Merge_rel ty a b ps" "ty \<noteq> t"
    by (auto simp: is_rel_def rel_of_def split: cypher.splits)
  from Cons.IH [of "exec c g"] Cons.prems c show ?case
    by (simp add: get_merge_rel del: exec.simps)
qed simp

subsection \<open>The synchronised graph\<close>

definition node_graph :: "registry \<Rightarrow> graph" where
  "node_graph r = \<lparr>gr_nodes = object_nodes r @ interface_nodes r @ action_nodes r, gr_rels = []\<rparr>"

lemma sync_eq: "rids_distinct r \<Longrightarrow> sync_registry r g = fold exec (rel_statements r) (node_graph r)"
  by (simp add: sync_registry_def sync_statements_def run_node_statements node_graph_def)

lemma matches_object:
  "i \<in> set (matches (node_graph r) (''ObjectType'', x)) \<longleftrightarrow>
     i < length (object_types r) \<and> ob_rid (dict_vals (object_types r) ! i) = x"
  by (auto simp: matches_def node_graph_def node_lists nth_append)

lemma matches_interface:
  "i \<in> set (matches (node_graph r) (''InterfaceType'', x)) \<longleftrightarrow>
     (\<exists>j < length (interface_types r). i = length (object_types r) + j \<and> if_rid (dict_vals (interface_types r) ! j) = x)"
  by (auto simp: matches_def node_graph_def node_lists nth_append intro: exI [of _ "i - length (object_types r)"])

lemma matches_action:
  "i \<in> set (matches (node_graph r) (''ActionType'', x)) \<longleftrightarrow>
     (\<exists>j < length (action_types r). i = length (object_types r) + length (interface_types r) + j
        \<and> ac_rid (dict_vals (action_types r) ! j) = x)"
  by (auto simp: matches_def node_graph_def node_lists nth_append
      intro: exI [of _ "i - length (object_types r) - length (interface_types r)"])

lemma has_implements:
  assumes "rids_distinct r"
  shows "dict_has (''IMPLEMENTS'', i, j) (gr_rels (sync_registry r g)) \<longleftrightarrow>
    (\<exists>rid d x. (rid, d) \<in> set (object_types r) \<and> x \<in> set (ob_implements d)
       \<and> i \<in> set (matches (node_graph r) (''ObjectType'', rid)) \<and> j \<in> set (matches (node_graph r) (''InterfaceType'', x)))"
proof -
  have "Merge_rel ''IMPLEMENTS'' a b ps \<in> set (rel_statements r) \<longleftrightarrow>
      Merge_rel ''IMPLEMENTS'' a b ps \<in> set (implements_statements r)" for a b ps
    by (auto simp: rel_statements_def in_acts_on_statements dest!: in_link_statements)
  moreover have "dict_has (''IMPLEMENTS'', i, j) (gr_rels (sync_registry r g)) \<longleftrightarrow> (\<exists>a b ps.
      Merge_rel ''IMPLEMENTS'' a b ps \<in> set (rel_statements r) \<and> i \<in> set (matches (node_graph r) a) \<and> j \<in> set (matches (node_graph r) b))"
    unfolding sync_eq [OF assms] by (subst has_rel_fold) (simp_all add: rel_statements_rel, simp add: node_graph_def)
  ultimately show ?thesis
    unfolding in_implements_statements by (simp only: cypher.inject) blast
qed

lemma has_acts_on:
  assumes "rids_distinct r"
  shows "dict_has (''ACTS_ON'', i, j) (gr_rels (sync_registry r g)) \<longleftrightarrow>
    (\<exists>rid d x. (rid, d) \<in> set (action_types r) \<and> x \<in> set (edited_object_types d)
       \<and> i \<in> set (matches (node_graph r) (''ActionType'', rid)) \<and> j \<in> set (matches (node_graph r) (''ObjectType'', x)))"
proof -
  have "Merge_rel ''ACTS_ON'' a b ps \<in> set (rel_statements r) \<longleftrightarrow>
      Merge_rel ''ACTS_ON'' a b ps \<in> set (acts_on_statements r)" for a b ps
    by (auto simp: rel_statements_def in_implements_statements dest!: in_link_statements)
  moreover have "dict_has (''ACTS_ON'', i, j) (gr_rels (sync_registry r g)) \<longleftrightarrow> (\<exists>a b ps.
      Merge_rel ''ACTS_ON'' a b ps \<in> set (rel_statements r) \<and> i \<in> set (matches (node_graph r) a) \<and> j \<in> set (matches (node_graph r) b))"
    unfolding sync_eq [OF assms] by (subst has_rel_fold) (simp_all add: rel_statements_rel, simp add: node_graph_def)
  ultimately show ?thesis
    unfolding in_acts_on_statements by (simp only: cypher.inject) blast
qed

definition last_option :: "'a list \<Rightarrow> 'a option" where
  "last_option xs = (if xs = [] then None else Some (last xs))"

definition joins :: "string \<Rightarrow> string \<Rightarrow> link_type_definition \<Rightarrow> bool" where
  "joins a b l \<longleftrightarrow> a \<noteq> [] \<and> b \<noteq> [] \<and> source_object_type_rid l = a \<and> target_object_type_rid l = b"

lemma merge_link_props: "dict_merge (link_props a) (link_props b) = link_props b" "dict_merge [] (link_props b) = link_props b"
  by (simp_all add: link_props_def dict_set_def)

lemma link_fold:
  assumes "i < length (object_types r)" "j < length (object_types r)"
  shows "dict_get (gr_rels (fold exec (concat (map upsert_link_relation ls)) (node_graph r))) (''LINK'', i, j)
    = map_option link_props (last_option (filter
        (joins (ob_rid (dict_vals (object_types r) ! i)) (ob_rid (dict_vals (object_types r) ! j))) ls))"
proof (induction ls rule: rev_induct)
  case Nil
  then show ?case by (simp add: node_graph_def last_option_def)
next
  case (snoc l ls)
  let ?g = "fold exec (concat (map upsert_link_relation ls)) (node_graph r)"
  have "matches ?g lr = matches (node_graph r) lr" for lr
    by (rule matches_nodes, rule rel_nodes) (auto simp: upsert_link_relation_def is_rel_def)
  note m = this
  let ?P = "joins (ob_rid (dict_vals (object_types r) ! i)) (ob_rid (dict_vals (object_types r) ! j))"
  have "dict_get (gr_rels (fold exec (upsert_link_relation l) ?g)) (''LINK'', i, j) =
      (if ?P l then Some (dict_merge (case dict_get (gr_rels ?g) (''LINK'', i, j) of None \<Rightarrow> [] | Some old \<Rightarrow> old) (link_props l))
       else dict_get (gr_rels ?g) (''LINK'', i, j))"
    using assms by (auto simp: upsert_link_relation_def get_merge_rel m matches_object joins_def simp del: exec.simps)
  moreover have "dict_merge (case map_option link_props x of None \<Rightarrow> [] | Some old \<Rightarrow> old) (link_props l) = link_props l" for x
    by (cases x) (simp_all add: merge_link_props)
  ultimately show ?case
    by (simp add: snoc last_option_def)
qed

lemma sync_LINK:
  assumes "rids_distinct r"
  shows "dict_get (gr_rels (sync_registry r g)) (''LINK'', i, j)
    = dict_get (gr_rels (fold exec (concat (map upsert_link_relation (dict_vals (link_types r)))) (node_graph r)))
        (''LINK'', i, j)"
proof -
  let ?cs = "implements_statements r @ acts_on_statements r"
  have other: "\<forall>c \<in> set ?cs. is_rel c \<and> \<not> rel_of ''LINK'' c"
    by (auto simp: in_implements_statements in_acts_on_statements is_rel_def rel_of_def)
  have "fold exec (rel_statements r) h = fold exec ?cs (fold exec (link_statements r) h)" for h
    by (simp only: rel_statements_def fold_append comp_apply)
  with other_rel_fold [OF other] show ?thesis
    by (simp only: sync_eq [OF assms] link_statements_def)
qed

subsection \<open>Properties\<close>

text \<open>C27: a synchronisation replaces the graph, whatever it held, by one node for each object type,
  interface type and action type with its properties, in the registry's order; an object type is
  joined by \<open>IMPLEMENTS\<close> to exactly the interfaces it lists, and an action by \<open>ACTS_ON\<close> to exactly the
  object types it edits.
\<close>

theorem sync_copies_registry:
  assumes "rids_distinct r" "\<forall>(k, d) \<in> set (object_types r). k = ob_rid d"
    "\<forall>(k, d) \<in> set (action_types r). k = ac_rid d"
  shows "gr_nodes (sync_registry r g) = object_nodes r @ interface_nodes r @ action_nodes r
    \<and> (\<forall>i j. i < length (object_types r) \<and> j < length (interface_types r) \<longrightarrow>
         (dict_has (''IMPLEMENTS'', i, length (object_types r) + j) (gr_rels (sync_registry r g)) \<longleftrightarrow>
          if_rid (dict_vals (interface_types r) ! j) \<in> set (ob_implements (dict_vals (object_types r) ! i))))
    \<and> (\<forall>i j. i < length (action_types r) \<and> j < length (object_types r) \<longrightarrow>
         (dict_has (''ACTS_ON'', length (object_types r) + length (interface_types r) + i, j)
            (gr_rels (sync_registry r g)) \<longleftrightarrow>
          ob_rid (dict_vals (object_types r) ! j) \<in> set (edited_object_types (dict_vals (action_types r) ! i))))"
proof -
  let ?no = "length (object_types r)" and ?ni = "length (interface_types r)"
  have key: "\<exists>k. (k, dict_vals ds ! i) \<in> set ds \<and> f (dict_vals ds ! i) = k"
    if "i < length ds" "\<forall>(k, d) \<in> set ds. k = f d" for i f and ds :: "(string, 'd) dict"
    using that nth_mem [OF that(1)] by (cases "ds ! i") auto
  have uniq: "d = dict_vals ds ! i"
    if "(f (dict_vals ds ! i), d) \<in> set ds" "i < length ds" "distinct (map f (dict_vals ds))"
      "\<forall>(k, d) \<in> set ds. k = f d" for d i f and ds :: "(string, 'd) dict"
  proof -
    from that(1) have "d \<in> set (dict_vals ds)" by force
    moreover from that(2) have "dict_vals ds ! i \<in> set (dict_vals ds)" by (simp only: nth_mem length_map)
    moreover from that(1,4) have "f d = f (dict_vals ds ! i)" by auto
    ultimately show ?thesis using that(3) by (meson distinct_map inj_onD)
  qed
  have "gr_nodes (sync_registry r g) = gr_nodes (node_graph r)"
    unfolding sync_eq [OF assms(1)] by (rule rel_nodes) (simp add: rel_statements_rel)
  moreover have "dict_has (''IMPLEMENTS'', i, ?no + j) (gr_rels (sync_registry r g)) \<longleftrightarrow>
      if_rid (dict_vals (interface_types r) ! j) \<in> set (ob_implements (dict_vals (object_types r) ! i))"
    if "i < ?no" "j < ?ni" for i j
    unfolding has_implements [OF assms(1)] matches_object matches_interface
    using that key [OF that(1) assms(2)] uniq [of ob_rid "object_types r" i] assms(1,2)
    unfolding rids_distinct_def by (intro iffI; elim exE conjE) (metis add_left_imp_eq, metis)
  moreover have "dict_has (''ACTS_ON'', ?no + ?ni + i, j) (gr_rels (sync_registry r g)) \<longleftrightarrow>
      ob_rid (dict_vals (object_types r) ! j) \<in> set (edited_object_types (dict_vals (action_types r) ! i))"
    if "i < length (action_types r)" "j < ?no" for i j
    unfolding has_acts_on [OF assms(1)] matches_object matches_action
    using that key [OF that(1) assms(3)] uniq [of ac_rid "action_types r" i] assms(1,3)
    unfolding rids_distinct_def by (intro iffI; elim exE conjE) (metis add_left_imp_eq, metis)
  ultimately show ?thesis by (simp add: node_graph_def)
qed

definition sample_graph_registry :: registry where
  "sample_graph_registry = empty_registry
     \<lparr>interface_types := [(''i'', mk_interface_type ''i'')],
      object_types := [(''o1'', (mk_object_type ''o1'')\<lparr>ob_implements := [''i'']\<rparr>), (''o2'', mk_object_type ''o2'')],
      link_types := [(''l1'', (mk_link_type ''l1'')\<lparr>source_object_type_rid := ''o1'', target_object_type_rid := ''o2''\<rparr>),
                     (''l2'', (mk_link_type ''l2'')\<lparr>source_object_type_rid := ''o1'', target_object_type_rid := ''o2''\<rparr>)],
      action_types := [(''a'', (mk_action_type ''a'')\<lparr>edited_object_types := [''o2'']\<rparr>)]\<rparr>"

lemmas sample_graph = sample_graph_registry_def mk_object_type_def mk_interface_type_def mk_link_type_def
  mk_action_type_def

lemma sample_graph_rids: "rids_distinct sample_graph_registry"
  by (simp add: rids_distinct_def sample_graph)

theorem sync_copies_registry_witness:
  "dict_has (''IMPLEMENTS'', 0, 2) (gr_rels (sync_registry sample_graph_registry empty_graph))
   \<and> \<not> dict_has (''IMPLEMENTS'', 1, 2) (gr_rels (sync_registry sample_graph_registry empty_graph))
   \<and> dict_has (''ACTS_ON'', 3, 1) (gr_rels (sync_registry sample_graph_registry empty_graph))"
proof -
  have keys: "\<forall>(k, d) \<in> set (object_types sample_graph_registry). k = ob_rid d"
    "\<forall>(k, d) \<in> set (action_types sample_graph_registry). k = ac_rid d"
    by (simp_all add: sample_graph)
  note rels = sync_copies_registry [OF sample_graph_rids keys, of empty_graph, THEN conjunct2]
  show ?thesis
    using rels [THEN conjunct1, rule_format, of 0 0] rels [THEN conjunct1, rule_format, of 1 0]
      rels [THEN conjunct2, rule_format, of 0 1]
    by (simp add: sample_graph eval_nat_numeral)
qed

text \<open>Of the link types between two object types only the last one is left in the graph: the
  relationship is merged on its two nodes alone, so each further link type overwrites the properties
  of the one before.
\<close>

theorem parallel_links_collapse:
  assumes "rids_distinct r" "i < length (object_types r)" "j < length (object_types r)"
  shows "dict_get (gr_rels (sync_registry r g)) (''LINK'', i, j) = map_option link_props (last_option (filter
      (joins (ob_rid (dict_vals (object_types r) ! i)) (ob_rid (dict_vals (object_types r) ! j)))
      (dict_vals (link_types r))))"
  using assms by (simp only: sync_LINK link_fold)

text \<open>Two link types join \<open>o1\<close> to \<open>o2\<close>; the graph holds the second and nothing of the first.\<close>

theorem parallel_links_collapse_witness:
  "dict_get (gr_rels (sync_registry sample_graph_registry empty_graph)) (''LINK'', 0, 1)
     = Some (link_props ((mk_link_type ''l2'')\<lparr>source_object_type_rid := ''o1'', target_object_type_rid := ''o2''\<rparr>))"
  using parallel_links_collapse [OF sample_graph_rids, of 0 1 empty_graph]
  by (simp add: sample_graph joins_def last_option_def)

definition graph_ok :: "graph \<Rightarrow> bool" where
  "graph_ok g \<longleftrightarrow> (\<forall>n \<in> set (gr_nodes g). length (gn_labels n) = 1)
     \<and> (\<forall>t i j. dict_has (t, i, j) (gr_rels g) \<longrightarrow> i < length (gr_nodes g) \<and> j < length (gr_nodes g))"

lemma exec_ok:
  assumes "graph_ok g"
  shows "graph_ok (exec c g)"
proof (cases c)
  case Delete_all
  then show ?thesis by (simp add: graph_ok_def empty_graph_def)
next
  case (Merge_node label rid ps)
  with assms show ?thesis by (auto simp: graph_ok_def less_Suc_eq)
next
  case (Merge_rel ty a b ps)
  have "gr_nodes (exec c g) = gr_nodes g" by (simp add: Merge_rel)
  moreover have "i \<in> set (matches g lr) \<Longrightarrow> i < length (gr_nodes g)" for i lr by (simp add: matches_def)
  ultimately show ?thesis
    using assms unfolding graph_ok_def dict_has_iff_get Merge_rel get_merge_rel
    by (cases a; cases b) (auto split: if_splits)
qed

lemma fold_exec_ok: "graph_ok g \<Longrightarrow> graph_ok (fold exec cs g)"
  by (induction cs arbitrary: g) (auto simp: exec_ok simp del: exec.simps)

lemma sync_ok: "graph_ok (sync_registry r g)"
proof -
  have "graph_ok empty_graph" by (simp add: graph_ok_def empty_graph_def)
  from fold_exec_ok [OF this] show ?thesis
    by (simp only: sync_registry_def sync_statements_def fold_simps exec.simps)
qed

lemma one_label: "length ls = 1 \<Longrightarrow> a \<noteq> b \<Longrightarrow> \<not> set [a, b] \<subseteq> set ls"
  by (cases ls) auto

text \<open>The graph route shows nothing of a synchronised registry: it asks for the labels
  \<open>ObjectTypeDef\<close>, \<open>InterfaceDef\<close> and \<open>ActionTypeDef\<close> together with \<open>Manufacturing\<close>, which no node of
  a synchronised graph has.
\<close>

theorem graph_route_blind_to_sync:
  "get_ontology_graph (Some (sync_registry r g)) = get_ontology_graph None"
proof -
  let ?g = "sync_registry r g"
  have two: "\<not> has_labels [a, b] n" if "n \<in> set (gr_nodes ?g)" "a \<noteq> b" for a b n
    using that sync_ok [of r g] one_label [of "gn_labels n" a b] by (auto simp: graph_ok_def has_labels_def)
  then have nodes: "filter (has_labels [a, b]) (gr_nodes ?g) = []" if "a \<noteq> b" for a b
    using that by (simp add: filter_empty_conv)
  have "\<not> has_labels [a, b] (gr_nodes ?g ! i)" if "((t, i, j), ps) \<in> set (gr_rels ?g)" "a \<noteq> b" for a b t i j ps
    using that sync_ok [of r g] by (intro two nth_mem) (force simp: graph_ok_def dict_has_def)+
  then have edges: "graph_edges ?g ty [a, b] ls = []" if "a \<noteq> b" for ty a b ls
    using that by (fastforce simp: graph_edges_def filter_empty_conv)
  show ?thesis by (simp add: get_ontology_graph_def nodes edges)
qed

end
