(* ===== verification/Schema_Import.thy ===== *)
theory Schema_Import
  imports Service Graph_Sync
begin

text \<open>
  \<open>scripts/import_to_postgres.py\<close>: the conversion of a schema file into the JSON of a registry, and the
  statement that writes it into production. Both are JSON; a value of the schema that does not have
  the type its use needs raises (\<open>ill_typed\<close>), and so does a property name that is no string. The Chinese descriptions of the automatic side effects
  are an argument. The script around them, with its files, is \<open>Import_Script\<close>.
\<close>

subsection \<open>Python's operations on JSON values\<close>

definition subscript :: "string \<Rightarrow> json \<Rightarrow> exn + json" where
  "subscript k j = (case j of JObj d \<Rightarrow> (case dict_get d k of None \<Rightarrow> Inl (KeyError k) | Some v \<Rightarrow> Inr v)
     | _ \<Rightarrow> Inl ill_typed)"

text \<open>\<open>d.get(k, default)\<close>\<close>

definition get_dflt :: "string \<Rightarrow> json \<Rightarrow> (string, json) dict \<Rightarrow> json" where
  "get_dflt k dflt d = (case dict_get d k of None \<Rightarrow> dflt | Some v \<Rightarrow> v)"

definition opt_item :: "string \<Rightarrow> json \<Rightarrow> json \<Rightarrow> exn + json" where
  "opt_item k dflt j = (case j of JObj d \<Rightarrow> Inr (get_dflt k dflt d) | _ \<Rightarrow> Inl ill_typed)"

definition as_text :: "json \<Rightarrow> exn + string" where
  "as_text j = (case j of JStr t \<Rightarrow> Inr t | _ \<Rightarrow> Inl ill_typed)"

text \<open>What \<open>for x in v\<close> runs over, and \<open>v[0]\<close>.\<close>

definition elements :: "json \<Rightarrow> exn + json list" where
  "elements j = (case j of JList xs \<Rightarrow> Inr xs | JStr t \<Rightarrow> Inr (map (\<lambda>c. JStr [c]) t)
     | JObj d \<Rightarrow> Inr (map JStr (dict_keys d)) | _ \<Rightarrow> Inl ill_typed)"

definition first_item :: "json \<Rightarrow> exn + json" where
  "first_item j = (case j of JList (x # _) \<Rightarrow> Inr x | JStr (c # _) \<Rightarrow> Inr (JStr [c]) | JObj _ \<Rightarrow> Inl (KeyError ''0'')
     | _ \<Rightarrow> Inl ill_typed)"

text \<open>\<open>for i, x in enumerate(xs)\<close> over a value that is built up.\<close>

fun each :: "(nat \<Rightarrow> json \<Rightarrow> 'a \<Rightarrow> exn + 'a) \<Rightarrow> nat \<Rightarrow> json list \<Rightarrow> 'a \<Rightarrow> exn + 'a" where
  "each f i [] acc = Inr acc"
| "each f i (x # xs) acc = bind_sum (f i x acc) (\<lambda>acc'. each f (i + 1) xs acc')"

subsection \<open>The conversion\<close>

text \<open>\<open>f"{n:04d}"\<close>\<close>

definition pad4 :: "nat \<Rightarrow> string" where
  "pad4 n = replicate (4 - length (nat_str n)) (CHR ''0'') @ nat_str n"

definition make_rid :: "string \<Rightarrow> nat \<Rightarrow> string" where
  "make_rid prefix index = ''ri.'' @ prefix @ ''.'' @ pad4 index"

definition data_type_name :: "string \<Rightarrow> string" where
  "data_type_name base =
     py_replace ''DATE'' ''DT_DATE'' (py_replace ''DATETIME'' ''DT_TIMESTAMP'' (py_replace ''BOOLEAN'' ''DT_BOOLEAN''
       (py_replace ''DECIMAL'' ''DT_DOUBLE'' (py_replace ''INTEGER'' ''DT_INTEGER''
         (py_replace ''STRING'' ''DT_STRING'' (py_upper base))))))"

definition no_rules :: json where "no_rules = JObj [(''rules'', JList [])]"

definition plain_compliance :: json where
  "plain_compliance = JObj [(''masking'', JStr ''MASK_NONE''), (''sensitivity'', JStr ''SENSITIVITY_UNSPECIFIED'')]"

definition unbound_asset :: json where
  "unbound_asset = JObj [(''read_connection_id'', JStr []), (''read_asset_path'', JStr []),
     (''writeback_enabled'', JBool False), (''writeback_connection_id'', JStr []), (''writeback_asset_path'', JStr [])]"

text \<open>A property of an object or a link: its key in the map, and its definition.\<close>

definition convert_property :: "bool \<Rightarrow> string \<Rightarrow> json \<Rightarrow> exn + string \<times> json" where
  "convert_property inherits prop_rid prop =
     bind_sum (subscript ''apiName'' prop) (\<lambda>name.
     bind_sum (subscript ''displayName'' prop) (\<lambda>display.
     bind_sum (opt_item ''description'' (JStr []) prop) (\<lambda>descr.
     bind_sum (subscript ''baseType'' prop) (\<lambda>base.
     bind_sum (as_text base) (\<lambda>b.
     bind_sum (if inherits then opt_item ''fromInterface'' (JStr []) prop else Inr (JStr [])) (\<lambda>inherit.
     bind_sum (as_text name) (\<lambda>key.
     Inr (key, JObj
       [(''rid'', JStr prop_rid), (''api_name'', name), (''display_name'', display), (''description'', descr),
        (''data_type'', JStr (data_type_name b)), (''lifecycle_status'', JStr ''ACTIVE''),
        (''inherit_from_shared_property_type_rid'', inherit), (''physical_column'', JStr []),
        (''virtual_expression'', JStr []), (''widget'', JObj []), (''validation'', no_rules),
        (''compliance'', plain_compliance)]))))))))"

definition property_rid :: "string \<Rightarrow> nat \<Rightarrow> string" where
  "property_rid rid j = rid @ ''.prop.'' @ pad4 j"

definition add_object_property ::
  "string \<Rightarrow> nat \<Rightarrow> json \<Rightarrow> (string, json) dict \<times> json list \<Rightarrow> exn + (string, json) dict \<times> json list" where
  "add_object_property rid j prop acc =
     (case acc of (pts, pks) \<Rightarrow>
        bind_sum (convert_property True (property_rid rid j) prop) (\<lambda>(key, body).
        bind_sum (opt_item ''isPrimaryKey'' JNull prop) (\<lambda>pk.
        Inr (dict_set key body pts, if truthy pk then pks @ [JStr (property_rid rid j)] else pks))))"

definition convert_object :: "nat \<Rightarrow> json \<Rightarrow> (string, json) dict \<Rightarrow> exn + (string, json) dict" where
  "convert_object i obj reg =
     (let rid = make_rid ''obj'' i in
      bind_sum (subscript ''apiName'' obj) (\<lambda>name.
      bind_sum (subscript ''displayName'' obj) (\<lambda>display.
      bind_sum (opt_item ''description'' (JStr []) obj) (\<lambda>descr.
      bind_sum (bind_sum (opt_item ''properties'' (JList []) obj) elements) (\<lambda>props.
      bind_sum (each (add_object_property rid) 0 props ([], [])) (\<lambda>(pts, pks).
      bind_sum (bind_sum (opt_item ''implementedInterfaces'' (JList []) obj) elements) (\<lambda>ifaces.
      Inr (dict_set rid (JObj
        [(''rid'', JStr rid), (''api_name'', name), (''display_name'', display), (''description'', descr),
         (''lifecycle_status'', JStr ''ACTIVE''), (''property_types'', JObj pts),
         (''implements_interface_type_rids'', JList ifaces), (''primary_key_property_type_rids'', JList pks),
         (''validation'', no_rules), (''asset_mapping'', unbound_asset)]) reg))))))))"

definition add_link_property :: "string \<Rightarrow> nat \<Rightarrow> json \<Rightarrow> (string, json) dict \<Rightarrow> exn + (string, json) dict" where
  "add_link_property rid j prop pts =
     bind_sum (convert_property False (property_rid rid j) prop) (\<lambda>(key, body). Inr (dict_set key body pts))"

definition link_cardinality :: "string \<Rightarrow> string" where
  "link_cardinality c = py_replace ''MANY_TO_ONE'' ''ONE_TO_MANY'' c"

definition convert_link :: "nat \<Rightarrow> json \<Rightarrow> (string, json) dict \<Rightarrow> exn + (string, json) dict" where
  "convert_link i link reg =
     (let rid = make_rid ''link'' i in
      bind_sum (subscript ''apiName'' link) (\<lambda>name.
      bind_sum (subscript ''displayName'' link) (\<lambda>display.
      bind_sum (opt_item ''description'' (JStr []) link) (\<lambda>descr.
      bind_sum (bind_sum (opt_item ''cardinality'' (JStr ''ONE_TO_MANY'') link) as_text) (\<lambda>card.
      bind_sum (subscript ''objectTypeA'' link) (\<lambda>a.
      bind_sum (subscript ''objectTypeB'' link) (\<lambda>b.
      bind_sum (bind_sum (opt_item ''properties'' (JList []) link) elements) (\<lambda>props.
      bind_sum (each (add_link_property rid) 0 props []) (\<lambda>pts.
      Inr (dict_set rid (JObj
        [(''rid'', JStr rid), (''api_name'', name), (''display_name'', display), (''description'', descr),
         (''lifecycle_status'', JStr ''ACTIVE''), (''cardinality'', JStr (link_cardinality card)),
         (''property_types'', JObj pts), (''source_object_type_rid'', a), (''target_object_type_rid'', b),
         (''source_interface_type_rid'', JStr []), (''target_interface_type_rid'', JStr []),
         (''primary_key_property_type_rids'', JList [])]) reg))))))))))"

definition safety_of :: "string \<Rightarrow> string" where
  "safety_of name =
     (if list_ex (\<lambda>p. starts_with p name) [''Get'', ''List'', ''Query'', ''Search''] then ''SAFETY_READ_ONLY''
      else if list_ex (\<lambda>p. starts_with p name) [''Delete'', ''Cancel'', ''Terminate''] then ''SAFETY_NON_IDEMPOTENT''
      else ''SAFETY_UNSPECIFIED'')"

definition plain_execution :: json where
  "plain_execution = JObj [(''type'', JStr ''ENGINE_UNSPECIFIED''), (''is_batch'', JBool False), (''is_sync'', JBool True),
     (''native_crud_json'', JStr []), (''python_script'', JStr []), (''sql_template'', JStr []),
     (''webhook_config_json'', JStr [])]"

definition convert_parameter :: "json \<Rightarrow> exn + json" where
  "convert_parameter param =
     bind_sum (subscript ''id'' param) (\<lambda>name.
     bind_sum (subscript ''displayName'' param) (\<lambda>display.
     bind_sum (opt_item ''description'' (JStr []) param) (\<lambda>descr.
     bind_sum (opt_item ''required'' (JBool False) param) (\<lambda>required.
     bind_sum (bind_sum (subscript ''baseType'' param) as_text) (\<lambda>b.
     Inr (JObj [(''api_name'', name), (''display_name'', display), (''description'', descr), (''required'', required),
        (''explicit_type'', JStr (data_type_name b)), (''derived_from_object_type_rid'', JStr []),
        (''derived_from_link_type_rid'', JStr []), (''derived_from_interface_type_rid'', JStr [])]))))))"

definition convert_edit :: "json \<Rightarrow> exn + json" where
  "convert_edit edit =
     bind_sum (opt_item ''propertyUpdates'' (JList []) edit) (\<lambda>updates.
     bind_sum (if truthy updates then first_item updates else Inr (JObj [])) (\<lambda>first.
     bind_sum (opt_item ''editType'' (JStr []) edit) (\<lambda>ty.
     bind_sum (opt_item ''objectType'' (JStr []) edit) (\<lambda>obj.
     bind_sum (opt_item ''property'' (JStr []) first) (\<lambda>prop_name.
     bind_sum (opt_item ''value'' (JStr []) first) (\<lambda>val.
     bind_sum (opt_item ''condition'' (JStr []) edit) (\<lambda>cond.
     bind_sum (opt_item ''errorMessage'' (JStr []) edit) (\<lambda>msg.
     Inr (JObj [(''edit_type'', ty), (''object_type'', obj), (''target_object_type'', obj),
        (''property_updates'', updates), (''target_property'', prop_name), (''property_value_change'', val),
        (''condition'', cond), (''error_message'', msg)])))))))))"

definition effect_category :: "string \<Rightarrow> string" where
  "effect_category ty = (if ty = ''NOTIFICATION'' then ''NOTIFICATION'' else if ty = ''WEBHOOK'' then ''EXTERNAL_API_CALL''
     else ''OTHER'')"

definition convert_effect :: "json \<Rightarrow> exn + json" where
  "convert_effect effect =
     bind_sum (bind_sum (opt_item ''type'' (JStr ''NOTIFICATION'') effect) as_text) (\<lambda>ty.
     bind_sum (opt_item ''url'' (JStr []) effect) (\<lambda>url.
     bind_sum (opt_item ''template'' url effect) (\<lambda>descr.
     Inr (JObj [(''category'', JStr (effect_category (py_upper ty))), (''description'', descr)]))))"

text \<open>\<open>auto_effects\<close>: the category and description of the side effects added to an action without any.\<close>

definition effects_or_auto :: "(string, (string \<times> string) list) dict \<Rightarrow> string \<Rightarrow> json list \<Rightarrow> json list" where
  "effects_or_auto auto_effects name effects =
     (if effects \<noteq> [] then effects
      else case dict_get auto_effects name of
        None \<Rightarrow> []
      | Some es \<Rightarrow> map (\<lambda>(c, d). JObj [(''category'', JStr c), (''description'', JStr d)]) es)"

definition convert_action ::
  "(string, (string \<times> string) list) dict \<Rightarrow> nat \<Rightarrow> json \<Rightarrow> (string, json) dict \<Rightarrow> exn + (string, json) dict" where
  "convert_action auto_effects i action reg =
     (let rid = make_rid ''action'' i; listed = (\<lambda>k. bind_sum (opt_item k (JList []) action) elements) in
      bind_sum (subscript ''apiName'' action) (\<lambda>name.
      bind_sum (as_text name) (\<lambda>api_name.
      bind_sum (subscript ''displayName'' action) (\<lambda>display.
      bind_sum (opt_item ''description'' (JStr []) action) (\<lambda>descr.
      bind_sum (opt_item ''editedObjectTypes'' (JList []) action) (\<lambda>edited.
      bind_sum (bind_sum (listed ''parameters'') (\<lambda>xs. collect (map convert_parameter xs))) (\<lambda>params.
      bind_sum (bind_sum (listed ''edits'') (\<lambda>xs. collect (map convert_edit xs))) (\<lambda>edits.
      bind_sum (bind_sum (listed ''sideEffects'') (\<lambda>xs. collect (map convert_effect xs))) (\<lambda>effects.
      Inr (dict_set rid (JObj
        [(''rid'', JStr rid), (''api_name'', name), (''display_name'', display), (''description'', descr),
         (''lifecycle_status'', JStr ''ACTIVE''), (''safety_level'', JStr (safety_of api_name)),
         (''parameters'', JList params), (''execution'', plain_execution),
         (''side_effects'', JList (effects_or_auto auto_effects api_name effects)),
         (''edited_object_types'', edited), (''edits'', JList edits)]) reg))))))))))"

definition convert_interface :: "nat \<Rightarrow> json \<Rightarrow> (string, json) dict \<Rightarrow> exn + (string, json) dict" where
  "convert_interface i iface reg =
     (let rid = make_rid ''iface'' i in
      bind_sum (subscript ''apiName'' iface) (\<lambda>name.
      bind_sum (subscript ''displayName'' iface) (\<lambda>display.
      bind_sum (opt_item ''description'' (JStr []) iface) (\<lambda>descr.
      Inr (dict_set rid (JObj
        [(''rid'', JStr rid), (''api_name'', name), (''display_name'', display), (''description'', descr),
         (''lifecycle_status'', JStr ''ACTIVE''), (''category'', JStr ''OBJECT_INTERFACE''),
         (''link_requirements'', JList []), (''object_constraint'', JNull),
         (''extends_interface_type_rids'', JList []), (''required_shared_property_type_rids'', JList [])]) reg)))))"

definition convert_shared :: "nat \<Rightarrow> json \<Rightarrow> (string, json) dict \<Rightarrow> exn + (string, json) dict" where
  "convert_shared i sp reg =
     (let rid = make_rid ''shprop'' i in
      bind_sum (subscript ''apiName'' sp) (\<lambda>name.
      bind_sum (subscript ''displayName'' sp) (\<lambda>display.
      bind_sum (opt_item ''description'' (JStr []) sp) (\<lambda>descr.
      Inr (dict_set rid (JObj
        [(''rid'', JStr rid), (''api_name'', name), (''display_name'', display), (''description'', descr),
         (''lifecycle_status'', JStr ''ACTIVE''), (''data_type'', JStr ''DT_STRING''), (''widget'', JObj []),
         (''validation'', no_rules), (''compliance'', plain_compliance)]) reg)))))"

text \<open>The kinds in the order the script converts them.\<close>

definition convert_kind ::
  "(nat \<Rightarrow> json \<Rightarrow> (string, json) dict \<Rightarrow> exn + (string, json) dict) \<Rightarrow> string \<Rightarrow> (string, json) dict
     \<Rightarrow> exn + (string, json) dict" where
  "convert_kind f k schema = bind_sum (elements (get_dflt k (JList []) schema)) (\<lambda>xs. each f 0 xs [])"

definition convert_to_registry_format ::
  "(string, (string \<times> string) list) dict \<Rightarrow> (string, json) dict \<Rightarrow> exn + json" where
  "convert_to_registry_format auto_effects schema =
     bind_sum (convert_kind convert_object ''objectTypes'' schema) (\<lambda>objs.
     bind_sum (convert_kind convert_link ''linkTypes'' schema) (\<lambda>links.
     bind_sum (convert_kind (convert_action auto_effects) ''actionTypes'' schema) (\<lambda>actions.
     bind_sum (convert_kind convert_interface ''interfaces'' schema) (\<lambda>ifaces.
     bind_sum (convert_kind convert_shared ''sharedProperties'' schema) (\<lambda>shared.
     Inr (JObj [(''version'', JStr ''8''), (''action_types'', JObj actions), (''object_types'', JObj objs),
       (''link_types'', JObj links), (''interface_types'', JObj ifaces), (''shared_property_types'', JObj shared)]))))))"

subsection \<open>The import\<close>

text \<open>
  The statement stores any payload; \<open>reg\<close> is what the service reads from it afterwards. A row that is
  there keeps its label and message.
\<close>

definition import_to_postgres :: "registry \<Rightarrow> db \<Rightarrow> db" where
  "import_to_postgres reg s = s\<lparr>registries := (registries s)(Production \<mapsto>
     (case registries s Production of
        None \<Rightarrow> \<lparr>rr_payload = reg, rr_version = 1, rr_updated_at = db_now s, rr_updated_by = None, rr_commit_message = None\<rparr>
      | Some row \<Rightarrow> row\<lparr>rr_payload := reg, rr_version := rr_version row + 1, rr_updated_at := db_now s\<rparr>))\<rparr>"

subsection \<open>The numbering\<close>

definition digit_of :: "char \<Rightarrow> nat" where
  "digit_of c = of_char c - 48"

definition decimal_value :: "string \<Rightarrow> nat" where
  "decimal_value s = foldl (\<lambda>n c. 10 * n + digit_of c) 0 s"

lemma digit_of_hex: "n < 10 \<Longrightarrow> digit_of (hex_digit n) = n"
  by (auto simp: digit_of_def hex_digit_def nth_Cons split: nat.splits)

lemma decimal_value_str: "decimal_value (nat_str n) = n"
proof (induction n rule: nat_str.induct)
  case (1 n)
  show ?case
  proof (cases "n < 10")
    case False
    then show ?thesis
      using 1 by (subst nat_str.simps) (simp add: decimal_value_def digit_of_hex)
  qed (simp add: nat_str.simps [of n] decimal_value_def digit_of_hex)
qed

lemma decimal_value_zeros: "decimal_value (replicate k (CHR ''0'') @ s) = decimal_value s"
  by (induction k) (simp_all add: decimal_value_def digit_of_def)

lemma make_rid_inject [simp]: "make_rid p i = make_rid p j \<longleftrightarrow> i = j"
  using decimal_value_str decimal_value_zeros by (metis make_rid_def pad4_def same_append_eq)

text \<open>A number has no dash, so a numbered rid is not of the form the validator asks for.\<close>

lemma hex_digit_not_dash: "n < 10 \<Longrightarrow> hex_digit n \<noteq> CHR ''-''"
  by (auto simp: hex_digit_def nth_Cons split: nat.splits)

lemma nat_str_not_dash: "CHR ''-'' \<notin> set (nat_str n)"
proof (induction n rule: nat_str.induct)
  case (1 n)
  then show ?case
    using hex_digit_not_dash [of n] hex_digit_not_dash [of "n mod 10"] by (subst nat_str.simps) auto
qed

lemma numbered_rid_rejected: "CHR ''-'' \<notin> set p \<Longrightarrow> \<not> rid_form k (make_rid p i)"
proof
  assume p: "CHR ''-'' \<notin> set p" and "rid_form k (make_rid p i)"
  then obtain u t where "make_rid p i = ''ri.'' @ k @ ''.'' @ u @ t" "uuid_form u" by (auto simp: rid_form_def)
  then have "CHR ''-'' \<in> set (make_rid p i)" by (auto simp: uuid_form_def)
  with p nat_str_not_dash show False by (auto simp: make_rid_def pad4_def)
qed

text \<open>The rid field of a definition, and a kind of definitions numbered from 0.\<close>

definition rid_of_json :: "json \<Rightarrow> string option" where
  "rid_of_json j = (case j of JObj d \<Rightarrow> (case dict_get d ''rid'' of Some (JStr t) \<Rightarrow> Some t | _ \<Rightarrow> None) | _ \<Rightarrow> None)"

definition rids_numbered :: "string \<Rightarrow> nat \<Rightarrow> (string, json) dict \<Rightarrow> bool" where
  "rids_numbered p n d \<longleftrightarrow> dict_keys d = map (make_rid p) [0..<n] \<and> map rid_of_json (dict_vals d) = map (Some \<circ> make_rid p) [0..<n]"

lemma dict_set_new: "k \<notin> set (dict_keys d) \<Longrightarrow> dict_set k v d = d @ [(k, v)]"
  by (induction d) (auto simp: dict_set_def)

lemma object_numbers:
  "convert_object i x acc = Inr acc' \<Longrightarrow>
     \<exists>b. acc' = dict_set (make_rid ''obj'' i) b acc \<and> rid_of_json b = Some (make_rid ''obj'' i)"
  by (auto simp: convert_object_def Let_def bind_sum_Inr rid_of_json_def)

lemma link_numbers:
  "convert_link i x acc = Inr acc' \<Longrightarrow>
     \<exists>b. acc' = dict_set (make_rid ''link'' i) b acc \<and> rid_of_json b = Some (make_rid ''link'' i)"
  by (auto simp: convert_link_def Let_def bind_sum_Inr rid_of_json_def)

lemma action_numbers:
  "convert_action auto_effects i x acc = Inr acc' \<Longrightarrow>
     \<exists>b. acc' = dict_set (make_rid ''action'' i) b acc \<and> rid_of_json b = Some (make_rid ''action'' i)"
  by (auto simp: convert_action_def Let_def bind_sum_Inr rid_of_json_def)

lemma interface_numbers:
  "convert_interface i x acc = Inr acc' \<Longrightarrow>
     \<exists>b. acc' = dict_set (make_rid ''iface'' i) b acc \<and> rid_of_json b = Some (make_rid ''iface'' i)"
  by (auto simp: convert_interface_def Let_def bind_sum_Inr rid_of_json_def)

lemma shared_numbers:
  "convert_shared i x acc = Inr acc' \<Longrightarrow>
     \<exists>b. acc' = dict_set (make_rid ''shprop'' i) b acc \<and> rid_of_json b = Some (make_rid ''shprop'' i)"
  by (auto simp: convert_shared_def Let_def bind_sum_Inr rid_of_json_def)

text \<open>
  What the service's models make of a stored payload: a definition's \<open>rid\<close> is the \<open>rid\<close> field of its
  JSON, in the order of the object.
\<close>

definition reads_rids :: "(json \<Rightarrow> exn + registry) \<Rightarrow> bool" where
  "reads_rids parse \<longleftrightarrow> (\<forall>d objs r. dict_get d ''object_types'' = Some (JObj objs) \<longrightarrow> parse (JObj d) = Inr r \<longrightarrow>
     map (Some \<circ> ob_rid) (dict_vals (object_types r)) = map rid_of_json (dict_vals objs))"

lemma imported_slot: "\<exists>n. slot (import_to_postgres reg s) Production = Some (reg, n)"
  by (simp add: import_to_postgres_def slot_def split: option.splits)

text \<open>The script's cardinality: a link from many to one is stored as one from one to many, with its ends as they were.\<close>

lemma cardinality_flipped:
  "link_cardinality ''MANY_TO_ONE'' = ''ONE_TO_MANY''" "link_cardinality ''ONE_TO_MANY'' = ''ONE_TO_MANY''"
  "link_cardinality ''MANY_TO_MANY'' = ''MANY_TO_MANY''" "link_cardinality ''ONE_TO_ONE'' = ''ONE_TO_ONE''"
  by (simp_all add: link_cardinality_def py_replace_def)

lemma base_types:
  "data_type_name ''string'' = ''DT_STRING''" "data_type_name ''integer'' = ''DT_INTEGER''"
  "data_type_name ''decimal'' = ''DT_DOUBLE''" "data_type_name ''boolean'' = ''DT_BOOLEAN''"
  "data_type_name ''datetime'' = ''DT_TIMESTAMP''" "data_type_name ''date'' = ''DT_DATE''"
  by (code_simp)+

subsection \<open>Types of the schema and of the payload\<close>

text \<open>
  The format of the schema file, and of the payload as the models of \<open>proto_models.py\<close> declare its
  fields: the enumerations hold names of their type, the other fields texts and lists.
\<close>

fun is_text :: "json \<Rightarrow> bool" where
  "is_text (JStr _) = True"
| "is_text _ = False"

fun list_of :: "(json \<Rightarrow> bool) \<Rightarrow> json \<Rightarrow> bool" where
  "list_of P (JList xs) = list_all P xs"
| "list_of P _ = False"

fun obj_with :: "((string, json) dict \<Rightarrow> bool) \<Rightarrow> json \<Rightarrow> bool" where
  "obj_with F (JObj d) = F d"
| "obj_with F _ = False"

definition field :: "string \<Rightarrow> (json \<Rightarrow> bool) \<Rightarrow> (string, json) dict \<Rightarrow> bool" where
  "field k P d \<longleftrightarrow> (case dict_get d k of None \<Rightarrow> False | Some v \<Rightarrow> P v)"

definition opt_field :: "string \<Rightarrow> (json \<Rightarrow> bool) \<Rightarrow> (string, json) dict \<Rightarrow> bool" where
  "opt_field k P d \<longleftrightarrow> (case dict_get d k of None \<Rightarrow> True | Some v \<Rightarrow> P v)"

definition texts :: "string list \<Rightarrow> (string, json) dict \<Rightarrow> bool" where
  "texts ks d \<longleftrightarrow> list_all (\<lambda>k. field k is_text d) ks"

definition base_type_name :: "json \<Rightarrow> bool" where
  "base_type_name j \<longleftrightarrow> list_ex (\<lambda>b. j = JStr b)
     [''string'', ''integer'', ''decimal'', ''boolean'', ''datetime'', ''date'']"

definition property_format :: "json \<Rightarrow> bool" where
  "property_format = obj_with (\<lambda>d. texts [''apiName'', ''displayName''] d \<and> field ''baseType'' base_type_name d
     \<and> opt_field ''description'' is_text d \<and> opt_field ''fromInterface'' is_text d)"

definition object_format :: "json \<Rightarrow> bool" where
  "object_format = obj_with (\<lambda>d. texts [''apiName'', ''displayName''] d \<and> opt_field ''description'' is_text d
     \<and> opt_field ''properties'' (list_of property_format) d
     \<and> opt_field ''implementedInterfaces'' (list_of is_text) d)"

definition cardinality_name :: "json \<Rightarrow> bool" where
  "cardinality_name j \<longleftrightarrow> list_ex (\<lambda>b. j = JStr b) [''ONE_TO_ONE'', ''ONE_TO_MANY'', ''MANY_TO_ONE'', ''MANY_TO_MANY'']"

definition link_format :: "json \<Rightarrow> bool" where
  "link_format = obj_with (\<lambda>d. texts [''apiName'', ''displayName'', ''objectTypeA'', ''objectTypeB''] d
     \<and> opt_field ''description'' is_text d \<and> opt_field ''cardinality'' cardinality_name d
     \<and> opt_field ''properties'' (list_of property_format) d)"

definition parameter_format :: "json \<Rightarrow> bool" where
  "parameter_format = obj_with (\<lambda>d. texts [''id'', ''displayName''] d \<and> field ''baseType'' base_type_name d)"

definition edit_format :: "json \<Rightarrow> bool" where
  "edit_format = obj_with (opt_field ''propertyUpdates'' (list_of (obj_with (\<lambda>_. True))))"

definition effect_format :: "json \<Rightarrow> bool" where
  "effect_format = obj_with (opt_field ''type'' is_text)"

definition action_format :: "json \<Rightarrow> bool" where
  "action_format = obj_with (\<lambda>d. texts [''apiName'', ''displayName''] d
     \<and> opt_field ''parameters'' (list_of parameter_format) d \<and> opt_field ''edits'' (list_of edit_format) d
     \<and> opt_field ''sideEffects'' (list_of effect_format) d)"

definition named_format :: "json \<Rightarrow> bool" where
  "named_format = obj_with (texts [''apiName'', ''displayName''])"

definition schema_file :: "(string, json) dict \<Rightarrow> bool" where
  "schema_file s \<longleftrightarrow> opt_field ''objectTypes'' (list_of object_format) s
     \<and> opt_field ''linkTypes'' (list_of link_format) s \<and> opt_field ''actionTypes'' (list_of action_format) s
     \<and> opt_field ''interfaces'' (list_of named_format) s \<and> opt_field ''sharedProperties'' (list_of named_format) s"

definition names :: "('e \<Rightarrow> string) \<Rightarrow> json \<Rightarrow> bool" where
  "names f j \<longleftrightarrow> (\<exists>e. j = JStr (f e))"

fun side_effect_category_value :: "side_effect_category \<Rightarrow> string" where
  "side_effect_category_value CATEGORY_UNSPECIFIED = ''CATEGORY_UNSPECIFIED''"
| "side_effect_category_value DATA_MUTATION = ''DATA_MUTATION''"
| "side_effect_category_value DATA_DELETION = ''DATA_DELETION''"
| "side_effect_category_value NOTIFICATION = ''NOTIFICATION''"
| "side_effect_category_value EXTERNAL_API_CALL = ''EXTERNAL_API_CALL''"
| "side_effect_category_value BILLING_EVENT = ''BILLING_EVENT''"
| "side_effect_category_value ACCESS_CONTROL = ''ACCESS_CONTROL''"
| "side_effect_category_value OTHER = ''OTHER''"

definition property_payload :: "json \<Rightarrow> bool" where
  "property_payload = obj_with (\<lambda>d. texts [''rid'', ''api_name'', ''display_name'', ''description'',
     ''inherit_from_shared_property_type_rid'', ''virtual_expression''] d \<and> opt_field ''physical_column'' is_text d
     \<and> field ''data_type'' (names data_type_value) d \<and> field ''lifecycle_status'' (names lifecycle_status_value) d)"

definition properties_payload :: "json \<Rightarrow> bool" where
  "properties_payload = obj_with (\<lambda>d. list_all property_payload (dict_vals d))"

definition object_payload :: "json \<Rightarrow> bool" where
  "object_payload = obj_with (\<lambda>d. texts [''rid'', ''api_name'', ''display_name'', ''description''] d
     \<and> field ''lifecycle_status'' (names lifecycle_status_value) d
     \<and> field ''property_types'' properties_payload d
     \<and> field ''implements_interface_type_rids'' (list_of is_text) d
     \<and> field ''primary_key_property_type_rids'' (list_of is_text) d)"

definition link_payload :: "json \<Rightarrow> bool" where
  "link_payload = obj_with (\<lambda>d. texts [''rid'', ''api_name'', ''display_name'', ''description'',
     ''source_object_type_rid'', ''target_object_type_rid'', ''source_interface_type_rid'', ''target_interface_type_rid''] d
     \<and> field ''lifecycle_status'' (names lifecycle_status_value) d
     \<and> field ''cardinality'' (names cardinality_value) d \<and> field ''property_types'' properties_payload d)"

definition action_payload :: "json \<Rightarrow> bool" where
  "action_payload = obj_with (\<lambda>d. texts [''rid'', ''api_name'', ''display_name''] d
     \<and> field ''lifecycle_status'' (names lifecycle_status_value) d
     \<and> field ''safety_level'' (names safety_level_value) d
     \<and> field ''parameters'' (list_of (obj_with (\<lambda>p. texts [''api_name'', ''display_name''] p
          \<and> field ''explicit_type'' (names data_type_value) p))) d
     \<and> field ''side_effects'' (list_of (obj_with (field ''category'' (names side_effect_category_value)))) d)"

definition named_payload :: "json \<Rightarrow> bool" where
  "named_payload = obj_with (\<lambda>d. texts [''rid'', ''api_name'', ''display_name''] d
     \<and> field ''lifecycle_status'' (names lifecycle_status_value) d)"

definition kind_payload :: "(json \<Rightarrow> bool) \<Rightarrow> json \<Rightarrow> bool" where
  "kind_payload P = obj_with (\<lambda>d. list_all P (dict_vals d))"

definition registry_payload :: "json \<Rightarrow> bool" where
  "registry_payload = obj_with (\<lambda>d. field ''version'' is_text d
     \<and> field ''object_types'' (kind_payload object_payload) d \<and> field ''link_types'' (kind_payload link_payload) d
     \<and> field ''action_types'' (kind_payload action_payload) d
     \<and> field ''interface_types'' (kind_payload named_payload) d
     \<and> field ''shared_property_types'' (kind_payload named_payload) d)"

named_theorems schema_simps \<open>the formats of the schema and the payload\<close>

lemmas [schema_simps] = field_def opt_field_def texts_def subscript_def opt_item_def get_dflt_def

lemma texts_simps [simp]: "texts [] d" "texts (k # ks) d \<longleftrightarrow> field k is_text d \<and> texts ks d"
  by (simp_all add: texts_def)

lemma obj_withE: "obj_with F j \<Longrightarrow> (\<And>d. j = JObj d \<Longrightarrow> F d \<Longrightarrow> thesis) \<Longrightarrow> thesis"
  by (cases j) auto

lemma is_textE: "is_text j \<Longrightarrow> (\<And>t. j = JStr t \<Longrightarrow> thesis) \<Longrightarrow> thesis"
  by (cases j) auto

lemma list_ofE: "list_of P j \<Longrightarrow> (\<And>xs. j = JList xs \<Longrightarrow> \<forall>x \<in> set xs. P x \<Longrightarrow> thesis) \<Longrightarrow> thesis"
  by (cases j) (auto simp: list_all_iff)

lemma field_get: "field k P d \<Longrightarrow> (\<And>v. subscript k (JObj d) = Inr v \<Longrightarrow> P v \<Longrightarrow> thesis) \<Longrightarrow> thesis"
  by (auto simp: schema_simps split: option.splits)

lemma opt_field_get:
  "opt_field k P d \<Longrightarrow> P dflt \<Longrightarrow> (\<And>v. opt_item k dflt (JObj d) = Inr v \<Longrightarrow> P v \<Longrightarrow> thesis) \<Longrightarrow> thesis"
  by (auto simp: schema_simps split: option.splits)

lemma opt_list_get:
  assumes "opt_field k (list_of P) d"
  obtains xs where "bind_sum (opt_item k (JList []) (JObj d)) elements = Inr xs" "\<forall>x \<in> set xs. P x"
  using assms by (auto simp: schema_simps elements_def split: option.splits elim!: list_ofE)

lemma names_value: "names f (JStr (f e))"
  by (auto simp: names_def)

lemmas data_names [simp] =
  names_value [of data_type_value DT_STRING, unfolded data_type_value.simps]
  names_value [of data_type_value DT_INTEGER, unfolded data_type_value.simps]
  names_value [of data_type_value DT_DOUBLE, unfolded data_type_value.simps]
  names_value [of data_type_value DT_BOOLEAN, unfolded data_type_value.simps]
  names_value [of data_type_value DT_TIMESTAMP, unfolded data_type_value.simps]
  names_value [of data_type_value DT_DATE, unfolded data_type_value.simps]

lemmas other_names [simp] =
  names_value [of lifecycle_status_value ACTIVE, unfolded lifecycle_status_value.simps]
  names_value [of safety_level_value SAFETY_UNSPECIFIED, unfolded safety_level_value.simps]
  names_value [of safety_level_value SAFETY_READ_ONLY, unfolded safety_level_value.simps]
  names_value [of safety_level_value SAFETY_NON_IDEMPOTENT, unfolded safety_level_value.simps]
  names_value [of side_effect_category_value NOTIFICATION, unfolded side_effect_category_value.simps]
  names_value [of side_effect_category_value EXTERNAL_API_CALL, unfolded side_effect_category_value.simps]
  names_value [of side_effect_category_value OTHER, unfolded side_effect_category_value.simps]
  names_value [of cardinality_value ONE_TO_ONE, unfolded cardinality_value.simps]
  names_value [of cardinality_value ONE_TO_MANY, unfolded cardinality_value.simps]
  names_value [of cardinality_value MANY_TO_MANY, unfolded cardinality_value.simps]

lemma base_type_data: "base_type_name j \<Longrightarrow> \<exists>b. j = JStr b \<and> names data_type_value (JStr (data_type_name b))"
  by (auto simp: base_type_name_def base_types)

lemma cardinality_data: "cardinality_name j \<Longrightarrow> \<exists>c. j = JStr c \<and> names cardinality_value (JStr (link_cardinality c))"
  by (auto simp: cardinality_name_def cardinality_flipped)

lemma safety_data: "names safety_level_value (JStr (safety_of t))"
  by (simp add: safety_of_def)

lemma effect_data: "names side_effect_category_value (JStr (effect_category t))"
  by (simp add: effect_category_def)

text \<open>Each conversion of a value of the right format succeeds, with a result of the right format.\<close>

lemma property_converts:
  assumes "property_format prop"
  obtains key body where "convert_property inherits prid prop = Inr (key, body)" "property_payload body"
    "\<And>k dflt. \<exists>v. opt_item k dflt prop = Inr v"
proof -
  from assms obtain d where d: "prop = JObj d" "texts [''apiName'', ''displayName''] d"
    "field ''baseType'' base_type_name d" "opt_field ''description'' is_text d" "opt_field ''fromInterface'' is_text d"
    unfolding property_format_def by (auto elim!: obj_withE)
  from d(2) obtain name display where n: "subscript ''apiName'' prop = Inr (JStr name)"
    "subscript ''displayName'' prop = Inr (JStr display)"
    unfolding d(1) by (auto elim!: field_get is_textE)
  from field_get [OF d(3)] obtain b where b: "subscript ''baseType'' prop = Inr (JStr b)"
    "names data_type_value (JStr (data_type_name b))" unfolding d(1) using base_type_data by metis
  from opt_field_get [OF d(4), of "JStr []"] obtain descr where ds: "opt_item ''description'' (JStr []) prop = Inr (JStr descr)"
    unfolding d(1) by (auto elim!: is_textE)
  from opt_field_get [OF d(5), of "JStr []"] obtain i where i: "opt_item ''fromInterface'' (JStr []) prop = Inr (JStr i)"
    unfolding d(1) by (auto elim!: is_textE)
  have "\<exists>body. convert_property inherits prid prop = Inr (name, body) \<and> property_payload body"
    using b(2) by (simp add: convert_property_def n b(1) ds i as_text_def property_payload_def field_def opt_field_def)
  then obtain body where "convert_property inherits prid prop = Inr (name, body)" "property_payload body" by blast
  moreover have "\<exists>v. opt_item k dflt prop = Inr v" for k dflt by (simp add: opt_item_def d(1))
  ultimately show thesis by (rule that)
qed

lemma each_keeps:
  assumes "\<And>i x acc. x \<in> set xs \<Longrightarrow> Q acc \<Longrightarrow> \<exists>acc'. f i x acc = Inr acc' \<and> Q acc'" "Q acc"
  shows "\<exists>acc'. each f i xs acc = Inr acc' \<and> Q acc'"
  using assms
proof (induction xs arbitrary: i acc)
  case (Cons x xs)
  from Cons.prems(1) [of x acc i] Cons.prems(2) obtain acc' where "f i x acc = Inr acc'" "Q acc'" by auto
  with Cons.IH [of acc' "i + 1"] Cons.prems(1) show ?case by fastforce
qed simp

lemma vals_set: "list_all P (dict_vals d) \<Longrightarrow> P v \<Longrightarrow> list_all P (dict_vals (dict_set k v d))"
  by (induction d) (auto simp: dict_set_def)

lemma object_properties_convert:
  assumes "\<forall>x \<in> set props. property_format x"
  shows "\<exists>pts pks. each (add_object_property rid) i props ([], []) = Inr (pts, pks)
    \<and> list_all property_payload (dict_vals pts) \<and> list_all is_text pks"
proof -
  let ?Q = "\<lambda>acc. list_all property_payload (dict_vals (fst acc)) \<and> list_all is_text (snd acc)"
  have "\<exists>acc'. add_object_property rid i x acc = Inr acc' \<and> ?Q acc'" if x: "x \<in> set props" and Q: "?Q acc" for i x acc
  proof -
    from assms x obtain key body where c: "convert_property True (property_rid rid i) x = Inr (key, body)"
      "property_payload body" and o: "\<And>k dflt. \<exists>v. opt_item k dflt x = Inr v" by (metis property_converts)
    from o obtain pk where pk: "opt_item ''isPrimaryKey'' JNull x = Inr pk" by blast
    from Q c pk show ?thesis by (cases acc) (simp add: add_object_property_def vals_set)
  qed
  from each_keeps [where Q = ?Q and f = "add_object_property rid" and xs = props, OF this, of "([], [])"]
  show ?thesis by auto
qed

lemma link_properties_convert:
  assumes "\<forall>x \<in> set props. property_format x"
  shows "\<exists>pts. each (add_link_property rid) i props [] = Inr pts \<and> list_all property_payload (dict_vals pts)"
proof (rule each_keeps)
  show "\<exists>acc'. add_link_property rid i x acc = Inr acc' \<and> list_all property_payload (dict_vals acc')"
    if "x \<in> set props" "list_all property_payload (dict_vals acc)" for i x acc
    using assms that by (metis (no_types, lifting) property_converts add_link_property_def bind_sum.simps(2) case_prod_conv vals_set)
qed simp

lemma texts_get: "field k is_text d \<Longrightarrow> \<exists>t. subscript k (JObj d) = Inr (JStr t)"
  by (auto elim!: field_get is_textE)

lemma opt_text_get: "opt_field k is_text d \<Longrightarrow> \<exists>t. opt_item k (JStr []) (JObj d) = Inr (JStr t)"
  by (erule opt_field_get [where dflt = "JStr []"]) (auto elim!: is_textE)

lemma list_all_text: "list_all is_text xs \<longleftrightarrow> (\<forall>x \<in> set xs. is_text x)"
  by (simp add: list_all_iff)

lemma object_converts:
  assumes "object_format x"
  shows "\<exists>body. convert_object i x reg = Inr (dict_set (make_rid ''obj'' i) body reg) \<and> object_payload body"
proof -
  from assms obtain d where d: "x = JObj d" "field ''apiName'' is_text d" "field ''displayName'' is_text d"
    "opt_field ''description'' is_text d" "opt_field ''properties'' (list_of property_format) d"
    "opt_field ''implementedInterfaces'' (list_of is_text) d"
    unfolding object_format_def by (auto elim!: obj_withE)
  from texts_get [OF d(2)] texts_get [OF d(3)] opt_text_get [OF d(4)] obtain name display descr where
    n: "subscript ''apiName'' x = Inr (JStr name)" "subscript ''displayName'' x = Inr (JStr display)"
      "opt_item ''description'' (JStr []) x = Inr (JStr descr)" unfolding d(1) by blast
  obtain props where p: "bind_sum (opt_item ''properties'' (JList []) x) elements = Inr props"
    "\<forall>y \<in> set props. property_format y" unfolding d(1) by (rule opt_list_get [OF d(5)])
  obtain ifs where f: "bind_sum (opt_item ''implementedInterfaces'' (JList []) x) elements = Inr ifs"
    "\<forall>y \<in> set ifs. is_text y" unfolding d(1) by (rule opt_list_get [OF d(6)])
  from object_properties_convert [OF p(2), of "make_rid ''obj'' i" 0] obtain pts pks where
    q: "each (add_object_property (make_rid ''obj'' i)) 0 props ([], []) = Inr (pts, pks)"
      "list_all property_payload (dict_vals pts)" "list_all is_text pks" by blast
  show ?thesis
    using f(2) q(2,3)
    by (simp add: convert_object_def n p(1) f(1) q(1) Let_def)
      (rule exI, rule conjI [OF refl], simp add: object_payload_def properties_payload_def field_def list_all_iff)
qed

lemma link_converts:
  assumes "link_format x"
  shows "\<exists>body. convert_link i x reg = Inr (dict_set (make_rid ''link'' i) body reg) \<and> link_payload body"
proof -
  from assms obtain d where d: "x = JObj d" "field ''apiName'' is_text d" "field ''displayName'' is_text d"
    "opt_field ''description'' is_text d" "opt_field ''properties'' (list_of property_format) d"
    "field ''objectTypeA'' is_text d" "field ''objectTypeB'' is_text d" "opt_field ''cardinality'' cardinality_name d"
    unfolding link_format_def by (auto elim!: obj_withE)
  from texts_get [OF d(2)] texts_get [OF d(3)] opt_text_get [OF d(4)] texts_get [OF d(6)] texts_get [OF d(7)]
  obtain name display descr a b where
    n: "subscript ''apiName'' x = Inr (JStr name)" "subscript ''displayName'' x = Inr (JStr display)"
      "opt_item ''description'' (JStr []) x = Inr (JStr descr)" "subscript ''objectTypeA'' x = Inr (JStr a)"
      "subscript ''objectTypeB'' x = Inr (JStr b)" unfolding d(1) by blast
  obtain props where p: "bind_sum (opt_item ''properties'' (JList []) x) elements = Inr props"
    "\<forall>y \<in> set props. property_format y" unfolding d(1) by (rule opt_list_get [OF d(5)])
  have "cardinality_name (JStr ''ONE_TO_MANY'')" by (simp add: cardinality_name_def)
  then obtain c where c: "opt_item ''cardinality'' (JStr ''ONE_TO_MANY'') x = Inr (JStr c)"
    "names cardinality_value (JStr (link_cardinality c))"
    unfolding d(1) using opt_field_get [OF d(8)] cardinality_data by metis
  from link_properties_convert [OF p(2), of "make_rid ''link'' i" 0] obtain pts where
    q: "each (add_link_property (make_rid ''link'' i)) 0 props [] = Inr pts"
      "list_all property_payload (dict_vals pts)" by blast
  show ?thesis
    using q(2) c(2)
    by (simp add: convert_link_def n p(1) c(1) as_text_def q(1) Let_def)
      (rule exI, rule conjI [OF refl], simp add: link_payload_def properties_payload_def field_def)
qed

lemma collect_maps:
  assumes "\<And>x. P x \<Longrightarrow> \<exists>y. f x = Inr y \<and> R y" "\<forall>x \<in> set xs. P x"
  shows "\<exists>ys. collect (map f xs) = Inr ys \<and> list_all R ys"
  using assms(2)
proof (induction xs)
  case (Cons x xs)
  with assms(1) [of x] show ?case by fastforce
qed simp

lemma parameter_converts:
  assumes "parameter_format x"
  shows "\<exists>y. convert_parameter x = Inr y \<and> obj_with (\<lambda>p. texts [''api_name'', ''display_name''] p
    \<and> field ''explicit_type'' (names data_type_value) p) y"
proof -
  from assms obtain d where d: "x = JObj d" "field ''id'' is_text d" "field ''displayName'' is_text d"
    "field ''baseType'' base_type_name d" unfolding parameter_format_def by (auto elim!: obj_withE)
  from texts_get [OF d(2)] texts_get [OF d(3)] obtain name display where
    n: "subscript ''id'' x = Inr (JStr name)" "subscript ''displayName'' x = Inr (JStr display)" unfolding d(1) by blast
  from field_get [OF d(4)] obtain b where b: "subscript ''baseType'' x = Inr (JStr b)"
    "names data_type_value (JStr (data_type_name b))" unfolding d(1) using base_type_data by metis
  have "opt_item k v x = Inr (get_dflt k v d)" for k v by (simp add: opt_item_def d(1))
  with b(2) show ?thesis by (simp add: convert_parameter_def n b(1) as_text_def field_def)
qed

lemma edit_converts: "edit_format x \<Longrightarrow> \<exists>y. convert_edit x = Inr y \<and> True"
  by (auto simp: edit_format_def convert_edit_def schema_simps first_item_def list_all_iff neq_Nil_conv
      elim!: obj_withE list_ofE split: option.splits)

lemma effect_converts:
  assumes "effect_format x"
  shows "\<exists>y. convert_effect x = Inr y \<and> obj_with (field ''category'' (names side_effect_category_value)) y"
  using assms effect_data
  by (auto simp: effect_format_def convert_effect_def opt_item_def opt_field_def get_dflt_def field_def as_text_def
      elim!: obj_withE is_textE split: option.splits)

definition auto_effects_typed :: "(string, (string \<times> string) list) dict \<Rightarrow> bool" where
  "auto_effects_typed auto_effects \<longleftrightarrow>
     (\<forall>es \<in> set (dict_vals auto_effects). \<forall>(c, d) \<in> set es. names side_effect_category_value (JStr c))"

lemma effects_typed:
  assumes "auto_effects_typed auto_effects" "list_all (obj_with (field ''category'' (names side_effect_category_value))) es"
  shows "list_all (obj_with (field ''category'' (names side_effect_category_value))) (effects_or_auto auto_effects name es)"
proof (cases "es = [] \<and> dict_get auto_effects name \<noteq> None")
  case True
  then obtain as where as: "dict_get auto_effects name = Some as" by auto
  then have "as \<in> set (dict_vals auto_effects)" by (force dest: map_of_SomeD)
  with assms(1) True as show ?thesis
    by (fastforce simp: effects_or_auto_def auto_effects_typed_def list_all_iff field_def)
qed (use assms(2) in \<open>auto simp: effects_or_auto_def split: option.splits\<close>)

lemma action_converts:
  assumes "auto_effects_typed auto_effects" "action_format x"
  shows "\<exists>body. convert_action auto_effects i x reg = Inr (dict_set (make_rid ''action'' i) body reg) \<and> action_payload body"
proof -
  from assms(2) obtain d where d: "x = JObj d" "field ''apiName'' is_text d" "field ''displayName'' is_text d"
    "opt_field ''parameters'' (list_of parameter_format) d" "opt_field ''edits'' (list_of edit_format) d"
    "opt_field ''sideEffects'' (list_of effect_format) d" unfolding action_format_def by (auto elim!: obj_withE)
  from texts_get [OF d(2)] texts_get [OF d(3)] obtain name display where
    n: "subscript ''apiName'' x = Inr (JStr name)" "subscript ''displayName'' x = Inr (JStr display)" unfolding d(1) by blast
  have o: "opt_item k v x = Inr (get_dflt k v d)" for k v by (simp add: opt_item_def d(1))
  obtain ps where "bind_sum (opt_item ''parameters'' (JList []) x) elements = Inr ps"
    "\<forall>y \<in> set ps. parameter_format y" unfolding d(1) by (rule opt_list_get [OF d(4)])
  moreover from collect_maps [where f = convert_parameter and P = parameter_format, OF parameter_converts this(2)] obtain ps' where
    "collect (map convert_parameter ps) = Inr ps'" and ps: "list_all (obj_with (\<lambda>p. texts [''api_name'', ''display_name''] p
    \<and> field ''explicit_type'' (names data_type_value) p)) ps'" by blast
  moreover obtain eds where "bind_sum (opt_item ''edits'' (JList []) x) elements = Inr eds"
    "\<forall>y \<in> set eds. edit_format y" unfolding d(1) by (rule opt_list_get [OF d(5)])
  moreover from collect_maps [where f = convert_edit and P = edit_format, OF edit_converts this(2)] obtain eds' where
    "collect (map convert_edit eds) = Inr eds'" by blast
  moreover obtain es where "bind_sum (opt_item ''sideEffects'' (JList []) x) elements = Inr es"
    "\<forall>y \<in> set es. effect_format y" unfolding d(1) by (rule opt_list_get [OF d(6)])
  moreover from collect_maps [where f = convert_effect and P = effect_format, OF effect_converts this(2)] obtain es' where
    "collect (map convert_effect es) = Inr es'"
    and es: "list_all (obj_with (field ''category'' (names side_effect_category_value))) es'" by blast
  ultimately show ?thesis
    using ps effects_typed [OF assms(1) es] safety_data
    by (simp add: convert_action_def n as_text_def o [of "''description''"] o [of "''editedObjectTypes''"] Let_def)
      (rule exI, rule conjI [OF refl], simp add: action_payload_def field_def)
qed

lemma named_format_get:
  assumes "named_format x"
  obtains name display descr where "subscript ''apiName'' x = Inr (JStr name)"
    "subscript ''displayName'' x = Inr (JStr display)" "opt_item ''description'' (JStr []) x = Inr descr"
proof -
  from assms obtain d where d: "x = JObj d" "field ''apiName'' is_text d" "field ''displayName'' is_text d"
    unfolding named_format_def by (auto elim!: obj_withE)
  with texts_get [OF d(2)] texts_get [OF d(3)] show thesis using that by (auto simp: opt_item_def)
qed

lemma interface_converts:
  assumes "named_format x"
  shows "\<exists>body. convert_interface i x reg = Inr (dict_set (make_rid ''iface'' i) body reg) \<and> named_payload body"
  by (rule named_format_get [OF assms], simp add: convert_interface_def Let_def)
    (rule exI, rule conjI [OF refl], simp add: named_payload_def field_def)

lemma shared_converts:
  assumes "named_format x"
  shows "\<exists>body. convert_shared i x reg = Inr (dict_set (make_rid ''shprop'' i) body reg) \<and> named_payload body"
  by (rule named_format_get [OF assms], simp add: convert_shared_def Let_def)
    (rule exI, rule conjI [OF refl], simp add: named_payload_def field_def)

text \<open>
  The contract of a conversion of one kind of definitions: a step puts one definition under the next
  number, and a value of the right format is converted. What the loop over all of them does follows.
\<close>

locale kind_conversion =
  fixes conv :: "nat \<Rightarrow> json \<Rightarrow> (string, json) dict \<Rightarrow> exn + (string, json) dict"
    and pre :: string and fmt :: "json \<Rightarrow> bool" and out :: "json \<Rightarrow> bool"
  assumes step_numbers: "conv i x acc = Inr acc' \<Longrightarrow>
      \<exists>b. acc' = dict_set (make_rid pre i) b acc \<and> rid_of_json b = Some (make_rid pre i)"
    and step_converts: "fmt x \<Longrightarrow> \<exists>body. conv i x reg = Inr (dict_set (make_rid pre i) body reg) \<and> out body"
begin

lemma each_numbered:
  assumes "rids_numbered pre i acc" "each conv i xs acc = Inr d"
  shows "rids_numbered pre (i + length xs) d"
  using assms
proof (induction xs arbitrary: i acc)
  case (Cons x xs)
  from Cons.prems(2) obtain acc' where step: "conv i x acc = Inr acc'" "each conv (i + 1) xs acc' = Inr d"
    by (auto simp: bind_sum_Inr)
  from step_numbers [OF step(1)] obtain b where
    b: "acc' = dict_set (make_rid pre i) b acc" "rid_of_json b = Some (make_rid pre i)" by blast
  have "make_rid pre i \<notin> set (dict_keys acc)" using Cons.prems(1) by (auto simp: rids_numbered_def)
  with b Cons.prems(1) have "rids_numbered pre (i + 1) acc'"
    by (simp add: rids_numbered_def dict_set_new)
  from Cons.IH [OF this step(2)] show ?case by simp
qed simp

lemma all_numbered:
  assumes "convert_kind conv k schema = Inr d" "get_dflt k (JList []) schema = JList xs"
  shows "rids_numbered pre (length xs) d"
  using each_numbered [of 0 "[]" xs d] assms
  by (simp add: convert_kind_def elements_def rids_numbered_def)

lemma all_convert:
  assumes "opt_field k (list_of fmt) schema"
  shows "\<exists>d. convert_kind conv k schema = Inr d \<and> list_all out (dict_vals d)"
proof -
  have "list_of fmt (get_dflt k (JList []) schema)"
    using assms by (simp add: opt_field_def get_dflt_def split: option.splits)
  then obtain xs where xs: "get_dflt k (JList []) schema = JList xs" "\<forall>x \<in> set xs. fmt x" by (rule list_ofE)
  have "\<exists>d. each conv 0 xs [] = Inr d \<and> list_all out (dict_vals d)"
    by (rule each_keeps) (use step_converts xs(2) vals_set in metis, simp)
  then show ?thesis by (simp add: convert_kind_def xs(1) elements_def)
qed

end

interpretation object_kind: kind_conversion convert_object "''obj''" object_format object_payload
  by unfold_locales (fact object_numbers object_converts)+

interpretation link_kind: kind_conversion convert_link "''link''" link_format link_payload
  by unfold_locales (fact link_numbers link_converts)+

interpretation action_kind: kind_conversion "convert_action auto_effects" "''action''"
  "\<lambda>x. auto_effects_typed auto_effects \<and> action_format x" action_payload for auto_effects
  by unfold_locales (fact action_numbers, use action_converts in blast)

interpretation interface_kind: kind_conversion convert_interface "''iface''" named_format named_payload
  by unfold_locales (fact interface_numbers interface_converts)+

interpretation shared_kind: kind_conversion convert_shared "''shprop''" named_format named_payload
  by unfold_locales (fact shared_numbers shared_converts)+

lemma conversion_numbered:
  assumes "convert_to_registry_format auto_effects schema = Inr j" "dict_get schema ''objectTypes'' = Some (JList objs)"
  obtains d ds where "j = JObj d" "dict_get d ''object_types'' = Some (JObj ds)" "rids_numbered ''obj'' (length objs) ds"
proof -
  from assms(1) obtain ds d where "convert_kind convert_object ''objectTypes'' schema = Inr ds"
    "j = JObj d" "dict_get d ''object_types'' = Some (JObj ds)"
    by (auto simp: convert_to_registry_format_def bind_sum_Inr)
  with object_kind.all_numbered [OF this(1)] assms(2) that show thesis by (simp add: get_dflt_def)
qed

subsection \<open>Properties\<close>

text \<open>C29: a schema file of the expected format goes through. Every value the conversion looks up is
  there with the type its use needs, so no exception is raised, and the payload has the types the
  service's models declare: every data type, lifecycle status, cardinality, safety level and side
  effect category is one of its enumeration, and the names, rids and keys are texts.\<close>
theorem typed_schema_converts:
  assumes "schema_file schema" "auto_effects_typed auto_effects"
  shows "\<exists>j. convert_to_registry_format auto_effects schema = Inr j \<and> registry_payload j"
proof -
  note S = assms(1) [unfolded schema_file_def]
  from object_kind.all_convert S obtain objs where
    o: "convert_kind convert_object ''objectTypes'' schema = Inr objs" "list_all object_payload (dict_vals objs)" by blast
  from link_kind.all_convert S obtain links where
    l: "convert_kind convert_link ''linkTypes'' schema = Inr links" "list_all link_payload (dict_vals links)" by blast
  from action_kind.all_convert [of _ auto_effects schema, simplified assms(2) simp_thms] S obtain acts where
    a: "convert_kind (convert_action auto_effects) ''actionTypes'' schema = Inr acts"
      "list_all action_payload (dict_vals acts)" by blast
  from interface_kind.all_convert S obtain ifs where
    i: "convert_kind convert_interface ''interfaces'' schema = Inr ifs" "list_all named_payload (dict_vals ifs)" by blast
  from shared_kind.all_convert S obtain shs where
    h: "convert_kind convert_shared ''sharedProperties'' schema = Inr shs" "list_all named_payload (dict_vals shs)" by blast
  show ?thesis
    using o(2) l(2) a(2) i(2) h(2)
    by (simp add: convert_to_registry_format_def o(1) l(1) a(1) i(1) h(1) registry_payload_def field_def kind_payload_def)
qed

text \<open>C37: the imported schema. A conversion that succeeds numbers the object types of the schema file
  from 0 in their order, no two alike, and what the service reads from the payload has exactly these
  rids. A numbered rid is not one the validator accepts, so when the file has an object type, the
  registry that the script puts into production is not well-formed and the database is outside the
  states the service keeps to.\<close>
theorem imported_schema_rejected:
  assumes "convert_to_registry_format auto_effects schema = Inr j"
    and "dict_get schema ''objectTypes'' = Some (JList objs)" "objs \<noteq> []"
    and "reads_rids parse" "parse j = Inr reg"
  shows "map ob_rid (dict_vals (object_types reg)) = map (make_rid ''obj'') [0..<length objs]
    \<and> distinct (map (make_rid ''obj'') [0..<length objs])
    \<and> \<not> wf_ontology C reg \<and> \<not> service_sound (import_to_postgres reg s)"
proof -
  obtain d ds where d: "j = JObj d" "dict_get d ''object_types'' = Some (JObj ds)" "rids_numbered ''obj'' (length objs) ds"
    by (rule conversion_numbered [OF assms(1,2)])
  have "map Some (map ob_rid (dict_vals (object_types reg))) = map Some (map (make_rid ''obj'') [0..<length objs])"
    using assms(4,5) d unfolding reads_rids_def rids_numbered_def by (simp add: o_assoc)
  then have rids: "map ob_rid (dict_vals (object_types reg)) = map (make_rid ''obj'') [0..<length objs]"
    by (simp only: inj_map_eq_map [OF inj_Some])
  with assms(3) have "make_rid ''obj'' 0 \<in> set (map ob_rid (dict_vals (object_types reg)))" by simp
  then obtain obj where obj: "obj \<in> set (dict_vals (object_types reg))" "ob_rid obj = make_rid ''obj'' 0"
    by (metis (no_types, lifting) imageE list.set_map)
  have "\<not> rid_form ''obj'' (ob_rid obj)" unfolding obj(2) by (rule numbered_rid_rejected) simp
  with obj(1) have bad: "\<not> wf_ontology D reg" for D
    unfolding wf_ontology_def wf_object_def named_def by blast
  have "\<not> service_sound (import_to_postgres reg s)"
  proof
    assume "service_sound (import_to_postgres reg s)"
    then have "sound (import_to_postgres reg s)" by (simp add: service_sound_def)
    moreover obtain n where "slot (import_to_postgres reg s) Production = Some (reg, n)"
      using imported_slot by blast
    ultimately have "good UNIV reg" by (rule good_of_slot)
    with bad show False by (simp add: good_def)
  qed
  with rids bad show ?thesis by (simp add: distinct_map inj_on_def)
qed

subsection \<open>Witnesses\<close>

definition demo_property :: json where
  "demo_property = JObj [(''apiName'', JStr ''code''), (''displayName'', JStr ''Code''), (''baseType'', JStr ''string''),
     (''isPrimaryKey'', JBool True)]"

definition demo_schema :: "(string, json) dict" where
  "demo_schema =
     [(''objectTypes'', JList [JObj [(''apiName'', JStr ''Product''), (''displayName'', JStr ''Product''),
        (''properties'', JList [demo_property]), (''implementedInterfaces'', JList [JStr ''Identifiable''])]]),
      (''linkTypes'', JList [JObj [(''apiName'', JStr ''L''), (''displayName'', JStr ''L''),
        (''objectTypeA'', JStr ''Product''), (''objectTypeB'', JStr ''Product''), (''cardinality'', JStr ''MANY_TO_ONE'')]]),
      (''actionTypes'', JList [JObj [(''apiName'', JStr ''CancelMo''), (''displayName'', JStr ''Cancel''),
        (''parameters'', JList [JObj [(''id'', JStr ''n''), (''displayName'', JStr ''N''), (''baseType'', JStr ''date'')]])]])]"

definition demo_effects :: "(string, (string \<times> string) list) dict" where
  "demo_effects = [(''CancelMo'', [(''NOTIFICATION'', ''cancelled'')])]"

lemma demo_formats: "schema_file demo_schema" "auto_effects_typed demo_effects"
  by (simp_all add: schema_file_def demo_schema_def demo_property_def demo_effects_def auto_effects_typed_def
      opt_field_def field_def object_format_def property_format_def link_format_def action_format_def
      parameter_format_def base_type_name_def cardinality_name_def)

theorem typed_schema_converts_witness:
  "\<exists>j. convert_to_registry_format demo_effects demo_schema = Inr j \<and> registry_payload j"
  by (rule typed_schema_converts [OF demo_formats])

definition rids_parser :: "json \<Rightarrow> exn + registry" where
  "rids_parser j = (case j of
     JObj d \<Rightarrow> (case dict_get d ''object_types'' of
        Some (JObj objs) \<Rightarrow> (case those (map rid_of_json (dict_vals objs)) of
           Some rids \<Rightarrow> Inr (empty_registry\<lparr>object_types := map (\<lambda>r. (r, mk_object_type r)) rids\<rparr>)
         | None \<Rightarrow> Inl ill_typed)
      | _ \<Rightarrow> Inr empty_registry)
   | _ \<Rightarrow> Inl ill_typed)"

lemma those_some: "those xs = Some ys \<longleftrightarrow> xs = map Some ys"
proof (induction xs arbitrary: ys)
  case (Cons x xs)
  show ?case by (cases x; cases ys) (auto simp: Cons.IH)
qed auto

lemma rids_parser_reads: "reads_rids rids_parser"
  by (auto simp: reads_rids_def rids_parser_def those_some mk_object_type_def comp_def split: option.splits)

theorem imported_schema_rejected_witness:
  "\<exists>j reg. convert_to_registry_format [] [(''objectTypes'', JList [JObj [(''apiName'', JStr ''Product''),
       (''displayName'', JStr ''Product'')]])] = Inr j \<and> rids_parser j = Inr reg
     \<and> map ob_rid (dict_vals (object_types reg)) = [''ri.obj.0000'']
     \<and> \<not> service_sound (import_to_postgres reg (migrated 0))"
proof -
  let ?objs = "[JObj [(''apiName'', JStr ''Product''), (''displayName'', JStr ''Product'')]]"
  let ?schema = "[(''objectTypes'', JList ?objs)]"
  have zero: "make_rid ''obj'' 0 = ''ri.obj.0000''"
    by (simp add: make_rid_def pad4_def nat_str.simps hex_digit_def numeral_3_eq_3)
  obtain ds where j: "convert_to_registry_format [] ?schema = Inr (JObj ds)"
    "\<exists>b. dict_get ds ''object_types'' = Some (JObj [(make_rid ''obj'' 0, b)]) \<and> rid_of_json b = Some (make_rid ''obj'' 0)"
    by (simp add: convert_to_registry_format_def convert_kind_def get_dflt_def elements_def convert_object_def Let_def
        subscript_def opt_item_def dict_set_def rid_of_json_def)
  then obtain reg where reg: "rids_parser (JObj ds) = Inr reg" by (auto simp: rids_parser_def)
  from imported_schema_rejected [OF j(1) _ _ rids_parser_reads reg, of ?objs UNIV "migrated 0"] j(1) reg zero
  show ?thesis by auto
qed

end
