(* ===== verification/Upload_Files.thy ===== *)
theory Upload_Files
  imports Service
begin

text \<open>
  The disk side of an upload (\<open>process_upload\<close> of \<open>ingestion/http.py\<close>, \<open>register_upload\<close> of
  \<open>mcp_tools_ingestion.py\<close>): the bytes are written under the data directory before the row is
  inserted. The disk is a map from paths to bytes; the data directory is given in pathlib's normal
  form, and creating it and writing succeed.
\<close>

type_synonym disk = "string \<Rightarrow> string option"

definition upload_path :: "'n platform \<Rightarrow> uuid \<Rightarrow> string \<Rightarrow> string" where
  "upload_path P uid filename = ingestion_data_dir (pf_settings P) @ ''/orphan/'' @ uid @ ''_'' @ path_name filename"

definition write_bytes :: "string \<Rightarrow> string \<Rightarrow> (disk \<times> db, exn, unit) act" where
  "write_bytes path body = (\<lambda>(fs, s). (Inr (), (fs(path \<mapsto> body), s)))"

text \<open>An action on the database, with the disk left alone.\<close>

definition on_db :: "(db, exn, 'a) act \<Rightarrow> (disk \<times> db, exn, 'a) act" where
  "on_db m = (\<lambda>(fs, s). case m s of (r, s') \<Rightarrow> (r, (fs, s')))"

definition upload_answer :: "'n platform \<Rightarrow> uuid \<Rightarrow> string \<Rightarrow> string \<Rightarrow> json" where
  "upload_answer P uid ext body =
     JObj [(''upload_id'', JStr uid), (''kind'', JStr ext), (''size_bytes'', JInt (int (length body))),
           (''sha256'', JStr (pf_sha256 P body))]"

definition http_upload ::
  "'n platform \<Rightarrow> string option \<Rightarrow> string \<Rightarrow> uuid option \<Rightarrow> (disk \<times> db, exn, json) act" where
  "http_upload P filename body created_by =
     (let name = (case filename of None \<Rightarrow> [] | Some f \<Rightarrow> f); ext = py_lower (path_suffix name);
          cap = ingestion_max_upload_bytes (pf_settings P) in
      if ext \<notin> set upload_kinds then raise (HTTPException 400 ''UPLOAD_KIND_UNSUPPORTED'')
      else if int (length body) > cap then raise (HTTPException 413 ''UPLOAD_TOO_LARGE'')
      else
        bind (on_db (reads (pf_new_uuid P))) (\<lambda>uid.
        let target = upload_path P uid (if name = [] then ''upload'' else name) in
        bind (write_bytes target body) (\<lambda>_.
        bind (on_db (insert_upload uid name ext (int (length body)) (pf_sha256 P body) target created_by)) (\<lambda>_.
        ret (upload_answer P uid ext body)))))"

definition tool_upload :: "'n platform \<Rightarrow> principal \<Rightarrow> string \<Rightarrow> string \<Rightarrow> (disk \<times> db, exn, json) act" where
  "tool_upload P p filename content =
     bind (on_db (lift_sum (pf_b64decode P content))) (\<lambda>body.
     let cap = ingestion_max_upload_bytes (pf_settings P); ext = py_lower (path_suffix filename) in
     if int (length body) > cap
     then raise (ValueError (''upload exceeds '' @ int_str cap @ '' bytes''))
     else if ext \<notin> set upload_kinds
     then raise (ValueError (''unsupported extension: '' @ py_repr ext))
     else
       bind (on_db (reads (pf_new_uuid P))) (\<lambda>uid.
       let target = upload_path P uid filename in
       bind (write_bytes target body) (\<lambda>_.
       bind (on_db (insert_upload uid filename ext (int (length body)) (pf_sha256 P body) target
               (Some (pr_token_id p)))) (\<lambda>_.
       ret (upload_answer P uid ext body)))))"

subsection \<open>On the database the uploads are the operations of the other theories\<close>

lemma on_db_apply [act_simps]: "on_db m (fs, s) = (fst (m s), (fs, snd (m s)))"
  by (simp add: on_db_def split: prod.splits)

lemma write_bytes_apply [act_simps]: "write_bytes path body (fs, s) = (Inr (), (fs(path \<mapsto> body), s))"
  by (simp add: write_bytes_def)

lemma insert_upload_result:
  "insert_upload uid f k n h path c s = (r, s') \<Longrightarrow>
     tx_aborted s \<and> s' = s \<and> (\<exists>e. r = Inl e)
     \<or> r = Inr uid \<and> ingestion_uploads s' = ingestion_uploads s @
        [\<lparr>up_id = uid, up_job_id = None, up_filename = f, up_kind = k, up_size_bytes = n, up_sha256 = h,
          up_path = path, up_created_at = db_now s, up_created_by = c\<rparr>]"
  by (auto simp: insert_upload_def statement_def split: if_splits)

lemma http_upload_db:
  assumes "http_upload P filename body c (fs, s) = (r, (fs', s'))"
  shows "process_upload P filename body c s = (r, s')"
proof (cases "py_lower (path_suffix (case filename of None \<Rightarrow> [] | Some f \<Rightarrow> f)) \<in> set upload_kinds
    \<and> int (length body) \<le> ingestion_max_upload_bytes (pf_settings P)")
  case False
  with assms show ?thesis by (auto simp: http_upload_def process_upload_def Let_def act_simps)
next
  case True
  let ?name = "case filename of None \<Rightarrow> [] | Some f \<Rightarrow> f"
  let ?path = "upload_path P (pf_new_uuid P s) (if ?name = [] then ''upload'' else ?name)"
  obtain x t where "insert_upload (pf_new_uuid P s) ?name (py_lower (path_suffix ?name)) (int (length body))
      (pf_sha256 P body) ?path c s = (x, t)" by fastforce
  with assms True show ?thesis
    by (cases x) (auto simp: http_upload_def process_upload_def Let_def act_simps upload_path_def upload_answer_def)
qed

lemma tool_upload_db:
  assumes "tool_upload P p filename content (fs, s) = (r, (fs', s'))"
  shows "register_upload P p [(''filename'', JStr filename), (''base64_content'', JStr content)] s = (r, s')"
proof (cases "pf_b64decode P content")
  case (Inl e)
  with assms show ?thesis
    by (simp add: tool_upload_def register_upload_def act_simps only_keys_def arg_str_def arg_def)
next
  case (Inr body)
  show ?thesis
  proof (cases "py_lower (path_suffix filename) \<in> set upload_kinds
      \<and> int (length body) \<le> ingestion_max_upload_bytes (pf_settings P)")
    case False
    with assms Inr show ?thesis
      by (auto simp: tool_upload_def register_upload_def Let_def act_simps only_keys_def arg_str_def arg_def)
  next
    case True
    obtain x t where "insert_upload (pf_new_uuid P s) filename (py_lower (path_suffix filename)) (int (length body))
        (pf_sha256 P body) (upload_path P (pf_new_uuid P s) filename) (Some (pr_token_id p)) s = (x, t)" by fastforce
    with assms True Inr show ?thesis
      by (cases x) (auto simp: tool_upload_def register_upload_def Let_def act_simps upload_path_def upload_answer_def
        only_keys_def arg_str_def arg_def)
  qed
qed

subsection \<open>Rows and files\<close>

text \<open>
  What an upload does: nothing to the rows, with the bytes perhaps written under a fresh name, or the
  bytes and a row that describes them.
\<close>

definition describes :: "'n platform \<Rightarrow> upload_row \<Rightarrow> string \<Rightarrow> bool" where
  "describes P row body \<longleftrightarrow> up_size_bytes row = int (length body) \<and> up_sha256 row = pf_sha256 P body"

definition upload_effect :: "'n platform \<Rightarrow> disk \<times> db \<Rightarrow> disk \<times> db \<Rightarrow> bool" where
  "upload_effect P x y \<longleftrightarrow> (case (x, y) of ((fs, s), (fs', s')) \<Rightarrow>
     fs' = fs \<and> s' = s \<or>
     (\<exists>name body. fs' = fs(upload_path P (pf_new_uuid P s) name \<mapsto> body) \<and>
        (s' = s \<or> (\<exists>row. ingestion_uploads s' = ingestion_uploads s @ [row] \<and> up_id row = pf_new_uuid P s
           \<and> up_path row = upload_path P (pf_new_uuid P s) name \<and> describes P row body))))"

lemma insert_effect:
  assumes "insert_upload (pf_new_uuid P s) f k (int (length body)) (pf_sha256 P body) (upload_path P (pf_new_uuid P s) name) c s = (x, s')"
  shows "upload_effect P (fs, s) (fs(upload_path P (pf_new_uuid P s) name \<mapsto> body), s')"
proof -
  from insert_upload_result [OF assms] have "s' = s \<or> (\<exists>row. ingestion_uploads s' = ingestion_uploads s @ [row]
      \<and> up_id row = pf_new_uuid P s \<and> up_path row = upload_path P (pf_new_uuid P s) name \<and> describes P row body)"
    by (auto simp: describes_def)
  then show ?thesis unfolding upload_effect_def by (simp only: prod.case) blast
qed

lemma http_upload_effect:
  assumes "http_upload P filename body c (fs, s) = (r, y)"
  shows "upload_effect P (fs, s) y"
proof (cases "py_lower (path_suffix (case filename of None \<Rightarrow> [] | Some f \<Rightarrow> f)) \<in> set upload_kinds
    \<and> int (length body) \<le> ingestion_max_upload_bytes (pf_settings P)")
  case False
  with assms have "y = (fs, s)" by (auto simp: http_upload_def Let_def act_simps split: if_splits)
  then show ?thesis by (simp add: upload_effect_def)
next
  case True
  let ?name = "case filename of None \<Rightarrow> [] | Some f \<Rightarrow> f"
  let ?path = "upload_path P (pf_new_uuid P s) (if ?name = [] then ''upload'' else ?name)"
  obtain x t where i: "insert_upload (pf_new_uuid P s) ?name (py_lower (path_suffix ?name)) (int (length body))
      (pf_sha256 P body) ?path c s = (x, t)" by fastforce
  with assms True have "y = (fs(?path \<mapsto> body), t)"
    by (cases x) (auto simp: http_upload_def Let_def act_simps)
  with insert_effect [OF i] show ?thesis by simp
qed

lemma tool_upload_effect:
  assumes "tool_upload P p filename content (fs, s) = (r, y)"
  shows "upload_effect P (fs, s) y"
proof (cases "\<exists>body. pf_b64decode P content = Inr body \<and> py_lower (path_suffix filename) \<in> set upload_kinds
      \<and> int (length body) \<le> ingestion_max_upload_bytes (pf_settings P)")
  case False
  with assms have "y = (fs, s)"
    by (cases "pf_b64decode P content") (auto simp: tool_upload_def Let_def act_simps split: if_splits)
  then show ?thesis by (simp add: upload_effect_def)
next
  case True
  then obtain body where b: "pf_b64decode P content = Inr body" "py_lower (path_suffix filename) \<in> set upload_kinds"
    "int (length body) \<le> ingestion_max_upload_bytes (pf_settings P)" by blast
  obtain x t where i: "insert_upload (pf_new_uuid P s) filename (py_lower (path_suffix filename)) (int (length body))
      (pf_sha256 P body) (upload_path P (pf_new_uuid P s) filename) (Some (pr_token_id p)) s = (x, t)" by fastforce
  with assms b have "y = (fs(upload_path P (pf_new_uuid P s) filename \<mapsto> body), t)"
    by (cases x) (auto simp: tool_upload_def Let_def act_simps)
  with insert_effect [OF i] show ?thesis by simp
qed

text \<open>The invariant: each row's file is there and is what the row says.\<close>

definition files_match :: "'n platform \<Rightarrow> disk \<times> db \<Rightarrow> bool" where
  "files_match P x \<longleftrightarrow> (case x of (fs, s) \<Rightarrow> \<forall>row \<in> set (ingestion_uploads s).
     CHR ''_'' \<notin> set (up_id row) \<and> (\<exists>name. up_path row = upload_path P (up_id row) name)
     \<and> (\<exists>body. fs (up_path row) = Some body \<and> describes P row body))"

definition fresh_uuids :: "'n platform \<Rightarrow> bool" where
  "fresh_uuids P \<longleftrightarrow> (\<forall>s. pf_new_uuid P s \<notin> up_id ` set (ingestion_uploads s) \<and> CHR ''_'' \<notin> set (pf_new_uuid P s))"

lemma upload_path_inject:
  assumes "upload_path P u m = upload_path P v n" "CHR ''_'' \<notin> set u" "CHR ''_'' \<notin> set v"
  shows "u = v"
proof -
  from assms(1) have "takeWhile (\<lambda>c. c \<noteq> CHR ''_'') (u @ CHR ''_'' # path_name m)
      = takeWhile (\<lambda>c. c \<noteq> CHR ''_'') (v @ CHR ''_'' # path_name n)" by (simp add: upload_path_def)
  then show ?thesis using assms(2,3) by (simp add: takeWhile_stop)
qed

lemma effect_keeps_files:
  assumes "upload_effect P x y" "fresh_uuids P" "files_match P x"
  shows "files_match P y"
proof -
  obtain fs s fs' s' where xy: "x = (fs, s)" "y = (fs', s')" by (cases x; cases y)
  have fresh: "pf_new_uuid P s \<notin> up_id ` set (ingestion_uploads s)" "CHR ''_'' \<notin> set (pf_new_uuid P s)"
    using assms(2) by (simp_all add: fresh_uuids_def)
  show ?thesis
  proof (cases "fs' = fs \<and> s' = s")
    case False
    with assms(1) xy obtain name body where
      fs': "fs' = fs(upload_path P (pf_new_uuid P s) name \<mapsto> body)" and
      rows: "s' = s \<or> (\<exists>row. ingestion_uploads s' = ingestion_uploads s @ [row] \<and> up_id row = pf_new_uuid P s
         \<and> up_path row = upload_path P (pf_new_uuid P s) name \<and> describes P row body)"
      by (auto simp: upload_effect_def)
    have old: "fs' (up_path row) = fs (up_path row)" if "row \<in> set (ingestion_uploads s)" for row
    proof -
      from assms(3) that xy obtain n where n: "up_path row = upload_path P (up_id row) n" "CHR ''_'' \<notin> set (up_id row)"
        by (auto simp: files_match_def)
      from fresh(1) that have "up_id row \<noteq> pf_new_uuid P s" by (metis image_eqI)
      with upload_path_inject [of P "up_id row" n "pf_new_uuid P s" name] n fresh(2)
      have "up_path row \<noteq> upload_path P (pf_new_uuid P s) name" by auto
      then show ?thesis by (simp add: fs')
    qed
    have new: "fs' (upload_path P (pf_new_uuid P s) name) = Some body" by (simp add: fs')
    show ?thesis
      using rows assms(3) old new fresh(2) unfolding files_match_def xy by auto metis
  qed (use assms(3) xy in simp)
qed

text \<open>Other operations keep the rows, but for the job a row belongs to, or drop some.\<close>

definition rows_within :: "db \<Rightarrow> db \<Rightarrow> bool" where
  "rows_within s s' \<longleftrightarrow> (\<forall>row' \<in> set (ingestion_uploads s'). \<exists>row \<in> set (ingestion_uploads s).
     \<exists>jid. row' = row\<lparr>up_job_id := jid\<rparr>)"

lemma rows_within_same: "ingestion_uploads s' = ingestion_uploads s \<Longrightarrow> rows_within s s'"
proof -
  assume "ingestion_uploads s' = ingestion_uploads s"
  moreover have "row = row\<lparr>up_job_id := up_job_id row\<rparr>" for row :: upload_row by simp
  ultimately show ?thesis unfolding rows_within_def by metis
qed

lemma within_keeps_files: "rows_within s s' \<Longrightarrow> files_match P (fs, s) \<Longrightarrow> files_match P (fs, s')"
  unfolding rows_within_def files_match_def describes_def by fastforce

lemma within_trans: "rows_within s t \<Longrightarrow> rows_within t u \<Longrightarrow> rows_within s u"
  unfolding rows_within_def by fastforce

lemma attach_within: "row' \<in> set (attach_upload jid up rows) \<Longrightarrow> \<exists>row \<in> set rows. \<exists>j. row' = row\<lparr>up_job_id := j\<rparr>"
proof -
  assume "row' \<in> set (attach_upload jid up rows)"
  then obtain row where row: "row \<in> set rows" "row' = row \<or> row' = row\<lparr>up_job_id := Some jid\<rparr>"
    by (auto simp: attach_upload_def update_where_def split: if_splits)
  moreover have "row = row\<lparr>up_job_id := up_job_id row\<rparr>" by simp
  ultimately show ?thesis by metis
qed

lemma attach_all_within:
  "row' \<in> set (fold (attach_upload jid) ups rows) \<Longrightarrow> \<exists>row \<in> set rows. \<exists>j. row' = row\<lparr>up_job_id := j\<rparr>"
proof (induction ups arbitrary: rows)
  case Nil
  then show ?case by (metis fold_simps(1) upload_row.surjective upload_row.update_convs(2))
next
  case (Cons up ups)
  then obtain row1 j1 where 1: "row1 \<in> set (attach_upload jid up rows)" "row' = row1\<lparr>up_job_id := j1\<rparr>" by fastforce
  from attach_within [OF 1(1)] 1(2) show ?case by fastforce
qed

lemma create_job_within: "create_job jid m i ups c s = (r, s') \<Longrightarrow> rows_within s s'"
  using attach_all_within [of _ jid ups "ingestion_uploads s"] rows_within_same [of s s]
  by (auto simp: create_job_def statement_def rows_within_def split: if_splits)

lemma link_within: "link_uploads jid ups s = (r, s') \<Longrightarrow> rows_within s s'"
proof (induction ups arbitrary: s)
  case (Cons up ups)
  show ?case
  proof (cases "tx_aborted s \<or> py_uuid up = None")
    case True
    with Cons.prems show ?thesis
      by (auto simp: statement_def act_simps rows_within_same split: option.splits if_splits)
  next
    case False
    then obtain u where u: "py_uuid up = Some u" by auto
    let ?t = "s\<lparr>ingestion_uploads := attach_upload jid u (ingestion_uploads s)\<rparr>"
    from Cons.prems False u have "link_uploads jid ups ?t = (r, s')" by (simp add: statement_def act_simps)
    with Cons.IH have "rows_within ?t s'" by blast
    moreover have "rows_within s ?t" using attach_within by (simp add: rows_within_def)
    ultimately show ?thesis by (rule within_trans [rotated])
  qed
qed (simp add: act_simps rows_within_same)

lemma within_subset: "set (ingestion_uploads s') \<subseteq> set (ingestion_uploads s) \<Longrightarrow> rows_within s s'"
proof -
  assume "set (ingestion_uploads s') \<subseteq> set (ingestion_uploads s)"
  moreover have "row = row\<lparr>up_job_id := up_job_id row\<rparr>" for row :: upload_row by simp
  ultimately show ?thesis unfolding rows_within_def by (metis subsetD)
qed

lemma clean_within: "delete_orphan_uploads p a s = (r, s') \<Longrightarrow> rows_within s s'"
  by (rule within_subset)
    (auto simp: delete_orphan_uploads_def statement_def act_simps split: if_splits sum.splits)

text \<open>
  The operations that touch the table of uploads or the disk; a request that raises is rolled back,
  but what it wrote to disk stays.
\<close>

inductive disk_step :: "'n platform \<Rightarrow> disk \<times> db \<Rightarrow> disk \<times> db \<Rightarrow> bool" for P where
  by_route: "http_upload P filename body c (fs, s) = (r, (fs', s')) \<Longrightarrow> t \<in> {s, s'} \<Longrightarrow> disk_step P (fs, s) (fs', t)"
| by_tool: "tool_upload P p filename content (fs, s) = (r, (fs', s')) \<Longrightarrow> t \<in> {s, s'} \<Longrightarrow> disk_step P (fs, s) (fs', t)"
| queued: "create_job jid m i ups c s = (r, s') \<Longrightarrow> disk_step P (fs, s) (fs, s')"
| linked: "link_uploads jid names s = (r, s') \<Longrightarrow> disk_step P (fs, s) (fs, s')"
| cleaned: "delete_orphan_uploads p a s = (r, s') \<Longrightarrow> disk_step P (fs, s) (fs, s')"
| elsewhere: "ingestion_uploads s' = ingestion_uploads s \<Longrightarrow> disk_step P (fs, s) (fs, s')"

lemma effect_rolled_back: "upload_effect P (fs, s) (fs', s') \<Longrightarrow> t \<in> {s, s'} \<Longrightarrow> upload_effect P (fs, s) (fs', t)"
  unfolding upload_effect_def by (simp only: prod.case) blast

lemma step_keeps_files:
  assumes "disk_step P x y" "fresh_uuids P" "files_match P x"
  shows "files_match P y"
  using assms(1)
proof cases
  case (by_route filename body c fs s r fs' s' t)
  with effect_rolled_back [OF http_upload_effect [OF by_route(3)]] effect_keeps_files assms(2,3) show ?thesis by blast
next
  case (by_tool p filename content fs s r fs' s' t)
  with effect_rolled_back [OF tool_upload_effect [OF by_tool(3)]] effect_keeps_files assms(2,3) show ?thesis by blast
next
  case (queued jid m i ups c s r s' fs)
  with within_keeps_files [OF create_job_within] assms(3) show ?thesis by blast
next
  case (linked jid names s r s' fs)
  with within_keeps_files [OF link_within] assms(3) show ?thesis by blast
next
  case (cleaned p a s r s' fs)
  with within_keeps_files [OF clean_within] assms(3) show ?thesis by blast
next
  case (elsewhere s' s fs)
  with within_keeps_files [OF rows_within_same] assms(3) show ?thesis by blast
qed

text \<open>Nothing is ever removed from the disk.\<close>

lemma step_keeps_disk: "disk_step P x y \<Longrightarrow> dom (fst x) \<subseteq> dom (fst y)"
proof (induction rule: disk_step.induct)
  case (by_route filename body c fs s r fs' s' t)
  with http_upload_effect [OF by_route(1)] show ?case by (auto simp: upload_effect_def)
next
  case (by_tool p filename content fs s r fs' s' t)
  with tool_upload_effect [OF by_tool(1)] show ?case by (auto simp: upload_effect_def)
qed simp_all

lemma disk_only_grows: "(disk_step P)\<^sup>*\<^sup>* x y \<Longrightarrow> dom (fst x) \<subseteq> dom (fst y)"
  by (induction rule: rtranclp_induct) (use step_keeps_disk in blast)+

lemma path_name_flat: "CHR ''/'' \<notin> set (path_name filename)"
proof (cases "rev (filter (\<lambda>part. part \<noteq> [] \<and> part \<noteq> ''.'') (split_char (CHR ''/'') filename))")
  case (Cons n ns)
  then have "n \<in> set (filter (\<lambda>part. part \<noteq> [] \<and> part \<noteq> ''.'') (split_char (CHR ''/'') filename))"
    by (metis list.set_intros(1) set_rev)
  then have "CHR ''/'' \<notin> set n" using split_char_no_sep by fastforce
  with Cons show ?thesis by (simp add: path_name_def)
qed (simp add: path_name_def)

subsection \<open>Properties\<close>

text \<open>C31: what an upload's row says is on disk. However uploads by route or tool, jobs, chat turns and
  clean-ups follow each other, and whichever of them fail, the file of every row lies in the orphan
  directory under the row's identifier and a name without a slash, whatever name the client sent;
  it holds bytes of the recorded size and hash, so no later upload has overwritten it.\<close>
theorem uploads_match_files:
  assumes "(disk_step P)\<^sup>*\<^sup>* (fs0, migrated t) (fs, s)" "fresh_uuids P" "row \<in> set (ingestion_uploads s)"
  shows "\<exists>name body. up_path row = ingestion_data_dir (pf_settings P) @ ''/orphan/'' @ up_id row @ ''_'' @ name
    \<and> CHR ''/'' \<notin> set name \<and> fs (up_path row) = Some body
    \<and> up_size_bytes row = int (length body) \<and> up_sha256 row = pf_sha256 P body"
proof -
  from assms(1) have "files_match P (fs, s)"
  proof (induction rule: rtranclp_induct)
    case base
    show ?case by (simp add: files_match_def migrated_def)
  next
    case (step y z)
    from step_keeps_files [OF step(2) assms(2) step(3)] show ?case .
  qed
  with assms(3) path_name_flat show ?thesis
    unfolding files_match_def describes_def upload_path_def by fastforce
qed

subsection \<open>Witnesses\<close>

definition counting_platform :: "tree platform" where
  "counting_platform = toy_platform\<lparr>pf_new_uuid :=
     (\<lambda>s. replicate (Suc (sum_list (map (\<lambda>u. length (up_id u)) (ingestion_uploads s)))) (CHR ''a''))\<rparr>"

lemma counting_fresh: "fresh_uuids counting_platform"
proof -
  have "length (up_id u) < length (pf_new_uuid counting_platform s)" if "u \<in> set (ingestion_uploads s)" for u s
    using member_le_sum_list [of "length (up_id u)" "map (\<lambda>u. length (up_id u)) (ingestion_uploads s)"] that
    by (simp add: counting_platform_def)
  then have "pf_new_uuid counting_platform s \<notin> up_id ` set (ingestion_uploads s)" for s by (metis imageE less_irrefl)
  then show ?thesis by (simp add: fresh_uuids_def) (simp add: counting_platform_def)
qed

theorem uploads_match_files_witness:
  "\<exists>fs (s :: db) row. ingestion_uploads s = [row] \<and> up_filename row = ''../a.sql''
     \<and> fs ''var/ingestion/orphan/a_a.sql'' = Some ''SELECT'' \<and> up_path row = ''var/ingestion/orphan/a_a.sql''
     \<and> (\<exists>name. up_path row = ''var/ingestion/orphan/'' @ up_id row @ ''_'' @ name \<and> CHR ''/'' \<notin> set name)"
proof -
  have run: "\<exists>j fs s row. http_upload counting_platform (Some ''../a.sql'') ''SELECT'' None (\<lambda>_. None, migrated 0) = (Inr j, (fs, s))
      \<and> ingestion_uploads s = [row] \<and> up_filename row = ''../a.sql'' \<and> up_path row = ''var/ingestion/orphan/a_a.sql''
      \<and> fs ''var/ingestion/orphan/a_a.sql'' = Some ''SELECT''"
    by (simp add: http_upload_def act_simps counting_platform_def toy_platform_def mk_settings_def migrated_def
        insert_upload_def statement_def upload_path_def path_name_def path_suffix_def upload_kinds_def py_lower_def
        lower_char_def Let_def)
  then obtain j fs s row where r: "http_upload counting_platform (Some ''../a.sql'') ''SELECT'' None (\<lambda>_. None, migrated 0) = (Inr j, (fs, s))"
    "ingestion_uploads s = [row]" "up_filename row = ''../a.sql''" "up_path row = ''var/ingestion/orphan/a_a.sql''"
    "fs ''var/ingestion/orphan/a_a.sql'' = Some ''SELECT''" by blast
  then have "(disk_step counting_platform)\<^sup>*\<^sup>* (\<lambda>_. None, migrated 0) (fs, s)"
    by (blast intro: disk_step.by_route)
  from uploads_match_files [OF this counting_fresh, of row] r(2) have
    "\<exists>name. up_path row = ingestion_data_dir (pf_settings counting_platform) @ ''/orphan/'' @ up_id row @ ''_'' @ name
       \<and> CHR ''/'' \<notin> set name" by auto
  moreover have "ingestion_data_dir (pf_settings counting_platform) = ''var/ingestion''"
    by (simp add: counting_platform_def toy_platform_def mk_settings_def)
  ultimately have "\<exists>name. up_path row = ''var/ingestion/orphan/'' @ up_id row @ ''_'' @ name \<and> CHR ''/'' \<notin> set name"
    by simp
  with r(2-5) show ?thesis by blast
qed

end
