(* ===== verification/Migrations.thy ===== *)
theory Migrations
  imports Database
begin

text \<open>
  \<open>migrations/versions/0001\<close> to \<open>0004\<close>: the statements of each revision, over a catalogue of tables,
  columns, constraints and indexes with the rows a revision inserts. A statement has PostgreSQL's
  documented effect, or the error it answers. Alembic runs the revisions after the current one in the
  order of \<open>down_revision\<close>, all in one transaction.
\<close>

subsection \<open>The catalogue\<close>

datatype column_type = Text_type | Jsonb_type | Integer_type | Big_integer_type | Timestamptz_type | Uuid_type | Bytea_type
  | Varchar_type nat | Timestamp_type

datatype on_delete = Cascade | Set_null

record column =
  cl_name :: string
  cl_type :: column_type
  cl_primary_key :: bool
  cl_nullable :: bool
  cl_unique :: bool
  cl_index :: bool
  cl_server_default :: "string option"
  cl_foreign_key :: "(string \<times> string \<times> on_delete) option"

text \<open>A check of the form \<open>column IN (values)\<close>, the only one the revisions use.\<close>

record check =
  ck_name :: string
  ck_column :: string
  ck_values :: "string list"

record table =
  tb_columns :: "column list"
  tb_checks :: "check list"
  tb_rows :: "(string, string) dict list"

record index =
  ix_table :: string
  ix_columns :: "string list"

record catalog =
  extensions :: "string list"
  tables :: "(string, table) dict"
  indexes :: "(string, index) dict"

datatype ddl =
    Create_extension string
  | Create_table string "column list" "check list"
  | Drop_table string
  | Add_column string column
  | Drop_column string string
  | Create_index string string "string list"
  | Drop_index string string
  | Insert_row string "(string, string) dict"

definition Column :: "string \<Rightarrow> column_type \<Rightarrow> column" where
  "Column name ty = \<lparr>cl_name = name, cl_type = ty, cl_primary_key = False, cl_nullable = True, cl_unique = False,
     cl_index = False, cl_server_default = None, cl_foreign_key = None\<rparr>"

definition column_names :: "table \<Rightarrow> string list" where
  "column_names t = map cl_name (tb_columns t)"

definition refers_to :: "string \<Rightarrow> string option \<Rightarrow> column \<Rightarrow> bool" where
  "refers_to name col c \<longleftrightarrow> (case cl_foreign_key c of None \<Rightarrow> False
     | Some (t, k, _) \<Rightarrow> t = name \<and> (col = None \<or> col = Some k))"

text \<open>The columns of other tables that refer to a table, or to one of its columns.\<close>

definition referenced :: "string \<Rightarrow> string option \<Rightarrow> catalog \<Rightarrow> bool" where
  "referenced name col s \<longleftrightarrow>
     list_ex (\<lambda>(n, t). n \<noteq> name \<and> list_ex (refers_to name col) (tb_columns t)) (tables s)"

definition target_exists :: "catalog \<Rightarrow> column \<Rightarrow> bool" where
  "target_exists s c \<longleftrightarrow> (case cl_foreign_key c of None \<Rightarrow> True
     | Some (t, k, _) \<Rightarrow> (case dict_get (tables s) t of None \<Rightarrow> False | Some tb \<Rightarrow> k \<in> set (column_names tb)))"

definition relation_exists :: "string \<Rightarrow> catalog \<Rightarrow> bool" where
  "relation_exists name s \<longleftrightarrow> dict_has name (tables s) \<or> dict_has name (indexes s)"

definition column_indexes :: "string \<Rightarrow> column list \<Rightarrow> (string, index) dict" where
  "column_indexes name cs = map (\<lambda>c. (''ix_'' @ name @ ''_'' @ cl_name c, \<lparr>ix_table = name, ix_columns = [cl_name c]\<rparr>))
     (filter cl_index cs)"

definition sql_error :: "string \<Rightarrow> exn" where
  "sql_error what = OtherException ''ProgrammingError'' what"

text \<open>An inserted row with the defaults of the columns it leaves out.\<close>

definition filled_row :: "table \<Rightarrow> (string, string) dict \<Rightarrow> (string, string) dict" where
  "filled_row t row = concat (map (\<lambda>c. case dict_get row (cl_name c) of
       Some v \<Rightarrow> [(cl_name c, v)]
     | None \<Rightarrow> (case cl_server_default c of None \<Rightarrow> [] | Some d \<Rightarrow> [(cl_name c, d)])) (tb_columns t))"

definition row_fits :: "table \<Rightarrow> (string, string) dict \<Rightarrow> bool" where
  "row_fits t row \<longleftrightarrow>
     list_all (\<lambda>c. cl_nullable c \<or> dict_has (cl_name c) row) (tb_columns t)
     \<and> list_all (\<lambda>k. case dict_get row (ck_column k) of None \<Rightarrow> True | Some v \<Rightarrow> v \<in> set (ck_values k)) (tb_checks t)
     \<and> list_all (\<lambda>c. \<not> (cl_primary_key c \<or> cl_unique c) \<or> dict_get row (cl_name c) = None
           \<or> \<not> list_ex (\<lambda>r. dict_get r (cl_name c) = dict_get row (cl_name c)) (tb_rows t)) (tb_columns t)"

fun execute :: "ddl \<Rightarrow> catalog \<Rightarrow> exn + catalog" where
  "execute (Create_extension e) s = Inr (if e \<in> set (extensions s) then s else s\<lparr>extensions := extensions s @ [e]\<rparr>)"
| "execute (Create_table name cs ks) s =
     (if relation_exists name s then Inl (sql_error ''relation already exists'')
      else if \<not> list_all (target_exists s) cs then Inl (sql_error ''relation does not exist'')
      else if list_ex (\<lambda>(i, _). relation_exists i s) (column_indexes name cs) then Inl (sql_error ''relation already exists'')
      else Inr (s\<lparr>tables := tables s @ [(name, \<lparr>tb_columns = cs, tb_checks = ks, tb_rows = []\<rparr>)],
                  indexes := indexes s @ column_indexes name cs\<rparr>))"
| "execute (Drop_table name) s =
     (if \<not> dict_has name (tables s) then Inl (sql_error ''table does not exist'')
      else if referenced name None s then Inl (sql_error ''other objects depend on it'')
      else Inr (s\<lparr>tables := dict_pop name (tables s), indexes := filter (\<lambda>(_, i). ix_table i \<noteq> name) (indexes s)\<rparr>))"
| "execute (Add_column name c) s =
     (case dict_get (tables s) name of
        None \<Rightarrow> Inl (sql_error ''relation does not exist'')
      | Some t \<Rightarrow>
          if cl_name c \<in> set (column_names t) then Inl (sql_error ''column already exists'')
          else if \<not> target_exists s c then Inl (sql_error ''relation does not exist'')
          else if \<not> cl_nullable c \<and> cl_server_default c = None \<and> tb_rows t \<noteq> []
            then Inl (sql_error ''column contains null values'')
          else Inr (s\<lparr>tables := dict_set name (t\<lparr>tb_columns := tb_columns t @ [c],
                 tb_rows := map (\<lambda>r. case cl_server_default c of None \<Rightarrow> r | Some d \<Rightarrow> r @ [(cl_name c, d)]) (tb_rows t)\<rparr>)
               (tables s)\<rparr>))"
| "execute (Drop_column name col) s =
     (case dict_get (tables s) name of
        None \<Rightarrow> Inl (sql_error ''relation does not exist'')
      | Some t \<Rightarrow>
          if col \<notin> set (column_names t) then Inl (sql_error ''column does not exist'')
          else if referenced name (Some col) s then Inl (sql_error ''other objects depend on it'')
          else Inr (s\<lparr>tables := dict_set name (t\<lparr>tb_columns := filter (\<lambda>c. cl_name c \<noteq> col) (tb_columns t),
                 tb_checks := filter (\<lambda>k. ck_column k \<noteq> col) (tb_checks t), tb_rows := map (dict_pop col) (tb_rows t)\<rparr>) (tables s),
               indexes := filter (\<lambda>(_, i). \<not> (ix_table i = name \<and> col \<in> set (ix_columns i))) (indexes s)\<rparr>))"
| "execute (Create_index ix name cols) s =
     (if relation_exists ix s then Inl (sql_error ''relation already exists'')
      else case dict_get (tables s) name of
        None \<Rightarrow> Inl (sql_error ''relation does not exist'')
      | Some t \<Rightarrow>
          if \<not> set cols \<subseteq> set (column_names t) then Inl (sql_error ''column does not exist'')
          else Inr (s\<lparr>indexes := indexes s @ [(ix, \<lparr>ix_table = name, ix_columns = cols\<rparr>)]\<rparr>))"
| "execute (Drop_index ix name) s =
     (if dict_has ix (indexes s) then Inr (s\<lparr>indexes := dict_pop ix (indexes s)\<rparr>)
      else Inl (sql_error ''index does not exist''))"
| "execute (Insert_row name row) s =
     (case dict_get (tables s) name of
        None \<Rightarrow> Inl (sql_error ''relation does not exist'')
      | Some t \<Rightarrow>
          if \<not> set (dict_keys row) \<subseteq> set (column_names t) then Inl (sql_error ''column does not exist'')
          else if \<not> row_fits t (filled_row t row) then Inl IntegrityError
          else Inr (s\<lparr>tables := dict_set name (t\<lparr>tb_rows := tb_rows t @ [filled_row t row]\<rparr>) (tables s)\<rparr>))"

fun execute_all :: "ddl list \<Rightarrow> catalog \<Rightarrow> exn + catalog" where
  "execute_all [] s = Inr s"
| "execute_all (d # ds) s = bind_sum (execute d s) (execute_all ds)"

subsection \<open>The revisions\<close>

record revision =
  rev_id :: string
  rev_down :: "string option"
  rev_upgrade :: "ddl list"
  rev_downgrade :: "ddl list"

text \<open>Columns that recur: the generated key, the time of insertion, and the flags of a column.\<close>

definition required :: "column \<Rightarrow> column" where
  "required c = c\<lparr>cl_nullable := False\<rparr>"

definition with_default :: "string \<Rightarrow> column \<Rightarrow> column" where
  "with_default d c = c\<lparr>cl_server_default := Some d\<rparr>"

definition primary_key :: "column \<Rightarrow> column" where
  "primary_key c = c\<lparr>cl_primary_key := True, cl_nullable := False\<rparr>"

definition id_column :: column where
  "id_column = with_default ''gen_random_uuid()'' (primary_key (Column ''id'' Uuid_type))"

definition created_at_column :: column where
  "created_at_column = with_default ''now()'' (required (Column ''created_at'' Timestamptz_type))"

definition EMPTY_REGISTRY :: string where
  "EMPTY_REGISTRY = ''{\"version\": \"__empty__\", \"shared_property_types\": {}, \"interface_types\": {}, \"object_types\": {}, \"link_types\": {}, \"action_types\": {}}''"

definition revision_0001 :: revision where
  "revision_0001 = \<lparr>rev_id = ''0001'', rev_down = None,
     rev_upgrade =
       [Create_extension ''pgcrypto'',
        Create_table ''registries''
          [primary_key (Column ''env'' Text_type),
           required (Column ''payload'' Jsonb_type),
           with_default ''0'' (required (Column ''version'' Integer_type)),
           with_default ''now()'' (required (Column ''updated_at'' Timestamptz_type)),
           Column ''updated_by_token_label'' Text_type,
           Column ''last_commit_message'' Text_type]
          [\<lparr>ck_name = ''registries_env_chk'', ck_column = ''env'', ck_values = [''staging'', ''production'', ''previous_production'']\<rparr>]]
       @ map (\<lambda>env. Insert_row ''registries'' [(''env'', env), (''payload'', EMPTY_REGISTRY)])
           [''staging'', ''production'', ''previous_production'']
       @ [Create_table ''api_tokens''
          [id_column,
           (required (Column ''token_hash'' Text_type))\<lparr>cl_unique := True\<rparr>,
           (required (Column ''token_prefix'' Text_type))\<lparr>cl_index := True\<rparr>,
           required (Column ''scope'' Text_type),
           required (Column ''label'' Text_type),
           created_at_column,
           Column ''created_by_token_id'' Uuid_type,
           Column ''revoked_at'' Timestamptz_type]
          [\<lparr>ck_name = ''api_tokens_scope_chk'', ck_column = ''scope'', ck_values = [''read'', ''editor'', ''admin'']\<rparr>],
        Create_table ''connections''
          [id_column,
           (required (Column ''label'' Text_type))\<lparr>cl_unique := True\<rparr>,
           required (Column ''kind'' Text_type),
           required (Column ''dsn_encrypted'' Bytea_type),
           created_at_column,
           Column ''last_probe_ok_at'' Timestamptz_type]
          [\<lparr>ck_name = ''connections_kind_chk'', ck_column = ''kind'', ck_values = [''postgres'', ''mysql'', ''sqlite'']\<rparr>],
        Create_table ''audit_log''
          [primary_key (Column ''id'' Big_integer_type),
           with_default ''now()'' (required (Column ''ts'' Timestamptz_type)),
           Column ''token_id'' Uuid_type,
           Column ''token_label'' Text_type,
           Column ''scope'' Text_type,
           required (Column ''tool'' Text_type),
           Column ''args_summary'' Jsonb_type,
           required (Column ''outcome'' Text_type),
           Column ''error_code'' Text_type]
          [],
        Create_index ''ix_audit_log_ts'' ''audit_log'' [''ts'']],
     rev_downgrade =
       [Drop_table ''audit_log'', Drop_table ''connections'', Drop_table ''api_tokens'', Drop_table ''registries'']\<rparr>"

definition revision_0002 :: revision where
  "revision_0002 = \<lparr>rev_id = ''0002'', rev_down = Some ''0001'',
     rev_upgrade =
       [Create_table ''ui_sessions''
          [id_column,
           required (Column ''token_id'' Uuid_type),
           required (Column ''scope'' Text_type),
           created_at_column,
           required (Column ''expires_at'' Timestamptz_type),
           Column ''revoked_at'' Timestamptz_type]
          [],
        Create_index ''ix_ui_sessions_expires_at'' ''ui_sessions'' [''expires_at'']],
     rev_downgrade = [Drop_table ''ui_sessions'']\<rparr>"

definition revision_0003 :: revision where
  "revision_0003 = \<lparr>rev_id = ''0003'', rev_down = Some ''0002'',
     rev_upgrade =
       [Create_table ''ingestion_uploads''
          [id_column,
           Column ''job_id'' Uuid_type,
           required (Column ''filename'' Text_type),
           required (Column ''kind'' Text_type),
           required (Column ''size_bytes'' Big_integer_type),
           required (Column ''sha256'' Text_type),
           required (Column ''path'' Text_type),
           created_at_column,
           Column ''created_by_token_id'' Uuid_type]
          [\<lparr>ck_name = ''ingestion_uploads_kind_chk'', ck_column = ''kind'', ck_values = [''sql'', ''pdf'', ''docx'', ''pptx'', ''xlsx'']\<rparr>],
        Create_index ''ix_ingestion_uploads_job_id'' ''ingestion_uploads'' [''job_id''],
        Create_table ''ingestion_jobs''
          [id_column,
           required (Column ''mode'' Text_type),
           Column ''instructions'' Text_type,
           with_default ''queued'' (required (Column ''status'' Text_type)),
           with_default [] (Column ''phase_message'' Text_type),
           with_default ''0'' (required (Column ''progress_pct'' Integer_type)),
           Column ''decisions_report'' Jsonb_type,
           Column ''staging_version_after'' Integer_type,
           Column ''error_code'' Text_type,
           Column ''error_details'' Jsonb_type,
           created_at_column,
           Column ''created_by_token_id'' Uuid_type,
           Column ''started_at'' Timestamptz_type,
           Column ''finished_at'' Timestamptz_type]
          [\<lparr>ck_name = ''ingestion_jobs_mode_chk'', ck_column = ''mode'', ck_values = [''replace'', ''merge'']\<rparr>,
           \<lparr>ck_name = ''ingestion_jobs_status_chk'', ck_column = ''status'',
             ck_values = [''queued'', ''extracting'', ''agent_running'', ''validating'', ''imported'', ''failed'', ''cancelled'']\<rparr>],
        Create_index ''ix_ingestion_jobs_status'' ''ingestion_jobs'' [''status''],
        Create_index ''ix_ingestion_jobs_created_at'' ''ingestion_jobs'' [''created_at'']],
     rev_downgrade = [Drop_table ''ingestion_jobs'', Drop_table ''ingestion_uploads'']\<rparr>"

definition revision_0004 :: revision where
  "revision_0004 = \<lparr>rev_id = ''0004'', rev_down = Some ''0003'',
     rev_upgrade =
       [Create_table ''chat_sessions''
          [id_column,
           required (Column ''token_id'' Uuid_type),
           with_default ''active'' (required (Column ''status'' Text_type)),
           required (Column ''pre_session_registry'' Jsonb_type),
           required (Column ''pre_session_version'' Integer_type),
           created_at_column,
           Column ''last_turn_at'' Timestamptz_type]
          [\<lparr>ck_name = ''chat_sessions_status_check'', ck_column = ''status'', ck_values = [''active'', ''saving'', ''cancelling'']\<rparr>],
        Create_index ''chat_sessions_token_idx'' ''chat_sessions'' [''token_id''],
        Create_index ''chat_sessions_active_idx'' ''chat_sessions'' [''status'', ''last_turn_at''],
        Create_table ''chat_messages''
          [primary_key (Column ''id'' Big_integer_type),
           (required (Column ''session_id'' Uuid_type))\<lparr>cl_foreign_key := Some (''chat_sessions'', ''id'', Cascade)\<rparr>,
           required (Column ''turn_index'' Integer_type),
           required (Column ''role'' Text_type),
           required (Column ''content'' Jsonb_type),
           created_at_column]
          [\<lparr>ck_name = ''chat_messages_role_check'', ck_column = ''role'', ck_values = [''user'', ''assistant'', ''tool_call'', ''tool_result'']\<rparr>],
        Create_index ''chat_messages_session_idx'' ''chat_messages'' [''session_id'', ''id''],
        Add_column ''ingestion_jobs''
          ((Column ''chat_session_id'' Uuid_type)\<lparr>cl_foreign_key := Some (''chat_sessions'', ''id'', Set_null)\<rparr>),
        Create_index ''ingestion_jobs_chat_session_idx'' ''ingestion_jobs'' [''chat_session_id'']],
     rev_downgrade =
       [Drop_index ''ingestion_jobs_chat_session_idx'' ''ingestion_jobs'',
        Drop_column ''ingestion_jobs'' ''chat_session_id'',
        Drop_index ''chat_messages_session_idx'' ''chat_messages'',
        Drop_table ''chat_messages'',
        Drop_index ''chat_sessions_active_idx'' ''chat_sessions'',
        Drop_index ''chat_sessions_token_idx'' ''chat_sessions'',
        Drop_table ''chat_sessions'']\<rparr>"

definition versions :: "revision list" where
  "versions = [revision_0001, revision_0002, revision_0003, revision_0004]"

subsection \<open>Alembic\<close>

record alembic =
  al_catalog :: catalog
  al_revision :: "string option"

definition fresh :: alembic where
  "fresh = \<lparr>al_catalog = \<lparr>extensions = [], tables = [], indexes = []\<rparr>, al_revision = None\<rparr>"

text \<open>\<open>upgrade +n\<close> and \<open>downgrade -n\<close>; \<open>upgrade head\<close> takes as many steps as there are revisions.\<close>

fun upgrade :: "nat \<Rightarrow> revision list \<Rightarrow> alembic \<Rightarrow> exn + alembic" where
  "upgrade 0 vs st = Inr st"
| "upgrade (Suc n) vs st =
     (case List.find (\<lambda>r. rev_down r = al_revision st) vs of
        None \<Rightarrow> Inr st
      | Some r \<Rightarrow> bind_sum (execute_all (rev_upgrade r) (al_catalog st)) (\<lambda>c.
          upgrade n vs \<lparr>al_catalog = c, al_revision = Some (rev_id r)\<rparr>))"

fun downgrade :: "nat \<Rightarrow> revision list \<Rightarrow> alembic \<Rightarrow> exn + alembic" where
  "downgrade 0 vs st = Inr st"
| "downgrade (Suc n) vs st =
     (case List.find (\<lambda>r. al_revision st = Some (rev_id r)) vs of
        None \<Rightarrow> Inr st
      | Some r \<Rightarrow> bind_sum (execute_all (rev_downgrade r) (al_catalog st)) (\<lambda>c.
          downgrade n vs \<lparr>al_catalog = c, al_revision = rev_down r\<rparr>))"

text \<open>The catalogue with other rows in its tables: what the service and its users have put there.\<close>

definition fill :: "(string \<Rightarrow> (string, string) dict list) \<Rightarrow> alembic \<Rightarrow> alembic" where
  "fill rows st = st\<lparr>al_catalog := (al_catalog st)\<lparr>tables := map (\<lambda>(n, t). (n, t\<lparr>tb_rows := rows n\<rparr>)) (tables (al_catalog st))\<rparr>\<rparr>"

text \<open>
  What is left in the rows after going back \<open>k\<close> revisions: the fourth revision added a column.
\<close>

definition kept_rows :: "nat \<Rightarrow> (string \<Rightarrow> (string, string) dict list) \<Rightarrow> string \<Rightarrow> (string, string) dict list" where
  "kept_rows k rows name =
     (if k > 0 \<and> name = ''ingestion_jobs'' then map (dict_pop ''chat_session_id'') (rows name) else rows name)"

definition head :: "exn + alembic" where
  "head = upgrade (length versions) versions fresh"

text \<open>Going back \<open>k\<close> revisions from the head, with any rows, meets the state of the revisions before them.\<close>

definition meets :: "nat \<Rightarrow> (string \<Rightarrow> (string, string) dict list) \<Rightarrow> bool" where
  "meets k rows \<longleftrightarrow> (case (head, upgrade (length versions - k) versions fresh) of
     (Inr h, Inr u) \<Rightarrow> (case downgrade k versions (fill rows h) of
        Inr d \<Rightarrow> al_revision d = al_revision u
          \<and> al_catalog d = (al_catalog (fill (kept_rows k rows) u))\<lparr>extensions := [''pgcrypto'']\<rparr>
      | Inl _ \<Rightarrow> False)
   | _ \<Rightarrow> False)"

lemma meets_0: "meets 0 rows" by code_simp
lemma meets_1: "meets 1 rows" by code_simp
lemma meets_2: "meets 2 rows" by code_simp
lemma meets_3: "meets 3 rows" by code_simp
lemma meets_4: "meets 4 rows" by code_simp

lemma meets_all: "k \<le> 4 \<Longrightarrow> meets k rows"
proof -
  assume "k \<le> 4"
  then consider "k = 0" | "k = 1" | "k = 2" | "k = 3" | "k = 4" by linarith
  then show ?thesis using meets_0 meets_1 meets_2 meets_3 meets_4 by cases simp_all
qed

text \<open>What the head holds: its tables, and the three registries every service starts from.\<close>

definition seeded_registries :: "alembic \<Rightarrow> bool" where
  "seeded_registries h \<longleftrightarrow> map_option tb_rows (dict_get (tables (al_catalog h)) ''registries'') =
     Some (map (\<lambda>env. [(''env'', env), (''payload'', EMPTY_REGISTRY), (''version'', ''0''), (''updated_at'', ''now()'')])
       [''staging'', ''production'', ''previous_production''])"

lemma head_holds:
  "case head of Inl _ \<Rightarrow> False | Inr h \<Rightarrow> al_revision h = Some ''0004'' \<and> seeded_registries h \<and> upgrade 1 versions h = Inr h"
  by code_simp

text \<open>The first revision needs a catalogue without its tables.\<close>

lemma table_in_the_way:
  assumes "dict_has ''registries'' (tables c)" "al_revision st = None" "al_catalog st = c"
  shows "upgrade (Suc n) versions st = Inl (sql_error ''relation already exists'')"
proof -
  have first: "List.find (\<lambda>r. rev_down r = al_revision st) versions = Some revision_0001"
    using assms(2) by (simp add: versions_def revision_0001_def)
  have "dict_has ''registries'' (tables c')" if "execute (Create_extension e) c = Inr c'" for e c'
    using that assms(1) by (auto split: if_splits)
  then have "execute_all (rev_upgrade revision_0001) c = Inl (sql_error ''relation already exists'')"
    using assms(1) by (simp add: revision_0001_def relation_exists_def)
  with first assms(3) show ?thesis by simp
qed

subsection \<open>Properties\<close>

text \<open>C21: the migrations run and can be taken back. From an empty database all four revisions succeed and
  end at the head, which holds the three empty registries at version 0 and has no revision after it.
  Going back any number of revisions succeeds as well, whatever rows the tables hold by then, and
  gives exactly the tables, constraints and indexes that the revisions before them made, with the
  rows that were in them (less the column the fourth revision added); only the extension stays.\<close>
theorem migrations_reversible:
  "\<exists>h. head = Inr h \<and> al_revision h = Some ''0004'' \<and> seeded_registries h \<and> upgrade 1 versions h = Inr h
    \<and> (\<forall>k. k \<le> length versions \<longrightarrow> (\<exists>u d. upgrade (length versions - k) versions fresh = Inr u
        \<and> downgrade k versions (fill rows h) = Inr d \<and> al_revision d = al_revision u
        \<and> al_catalog d = (al_catalog (fill (kept_rows k rows) u))\<lparr>extensions := [''pgcrypto'']\<rparr>))"
proof -
  obtain h where h: "head = Inr h" "al_revision h = Some ''0004''" "seeded_registries h" "upgrade 1 versions h = Inr h"
    using head_holds by (auto split: sum.splits)
  have "\<exists>u d. upgrade (length versions - k) versions fresh = Inr u
      \<and> downgrade k versions (fill rows h) = Inr d \<and> al_revision d = al_revision u
      \<and> al_catalog d = (al_catalog (fill (kept_rows k rows) u))\<lparr>extensions := [''pgcrypto'']\<rparr>" if "k \<le> length versions" for k
  proof -
    have "k \<le> 4" using that by (simp add: versions_def)
    from meets_all [OF this, of rows] show ?thesis unfolding meets_def h(1) by (auto split: sum.splits)
  qed
  with h show ?thesis by blast
qed

subsection \<open>Witness\<close>

theorem migrations_reversible_witness:
  "\<exists>h d. head = Inr h \<and> downgrade 2 versions (fill (\<lambda>_. []) h) = Inr d \<and> al_revision d = Some ''0002''"
proof -
  obtain h where h: "head = Inr h" and behind: "\<forall>k. k \<le> length versions \<longrightarrow> (\<exists>u d. upgrade (length versions - k) versions fresh = Inr u
      \<and> downgrade k versions (fill (\<lambda>_. []) h) = Inr d \<and> al_revision d = al_revision u
      \<and> al_catalog d = (al_catalog (fill (kept_rows k (\<lambda>_. [])) u))\<lparr>extensions := [''pgcrypto'']\<rparr>)"
    using migrations_reversible [of "\<lambda>_. []"] by blast
  have two: "2 \<le> length versions" "length versions - 2 = 2" by (simp_all add: versions_def)
  from behind two obtain u d where u: "upgrade 2 versions fresh = Inr u" and down: "downgrade 2 versions (fill (\<lambda>_. []) h) = Inr d"
    and same: "al_revision d = al_revision u" by metis
  have "case upgrade 2 versions fresh of Inr u \<Rightarrow> al_revision u = Some ''0002'' | Inl _ \<Rightarrow> False" by code_simp
  then have "al_revision d = Some ''0002''" using u same by simp
  with h down show ?thesis by blast
qed

end
