(* ===== verification/Import_Script.thy ===== *)
theory Import_Script
  imports Schema_Import Upload_Files Migrations
begin

text \<open>
  \<open>main\<close> of \<open>scripts/import_to_postgres.py\<close>: the schema file is read and converted, the payload is written
  beside it, and the database gets it over a connection or, when that fails, a SQL file is left for
  an operator. Reading and printing JSON is the standard library's (\<open>json.load\<close>, \<open>json.dump\<close>,
  \<open>json.dumps\<close>), the Chinese comments of the SQL file are arguments, and writing a file succeeds.
\<close>

record import_world =
  iw_driver_installed :: bool
  iw_connect_error :: "exn option"
  iw_statement_error :: "exn option"
  iw_table_exists :: bool
  iw_load :: "string \<Rightarrow> exn + json"
  iw_dump_indented :: "json \<Rightarrow> string"
  iw_dumps :: "json \<Rightarrow> string"
  iw_read_registry :: "json \<Rightarrow> registry"
  iw_auto_effects :: "(string, (string \<times> string) list) dict"
  iw_comments :: "string \<times> string"

definition project_file :: "string \<Rightarrow> string" where
  "project_file name = ''ontology_output/'' @ name"

definition load_schema :: "import_world \<Rightarrow> (disk \<times> db, exn, json) act" where
  "load_schema W = (\<lambda>(fs, s). (case fs (project_file ''manufacturing_ontology_v1.json'') of
     None \<Rightarrow> Inl (OtherException ''FileNotFoundError'' (project_file ''manufacturing_ontology_v1.json''))
   | Some body \<Rightarrow> iw_load W body, (fs, s)))"

text \<open>
  The connection: without the driver, the server or the success of a statement the answer is False.
  A table that is not there is created and committed before the row is inserted.
\<close>

definition connect_and_import :: "import_world \<Rightarrow> json \<Rightarrow> db \<Rightarrow> bool \<times> db" where
  "connect_and_import W payload s =
     (if \<not> iw_driver_installed W then (False, s)
      else if iw_connect_error W \<noteq> None then (False, s)
      else let s1 = (if iw_table_exists W then s else s\<lparr>registries := (\<lambda>_. None)\<rparr>) in
        if iw_statement_error W \<noteq> None then (False, s1)
        else (True, import_to_postgres (iw_read_registry W payload) s1))"

text \<open>The table the script creates when there is none, as a statement on the catalogue.\<close>

definition script_table :: ddl where
  "script_table = Create_table ''registries''
     [primary_key (Column ''env'' (Varchar_type 50)),
      required (Column ''payload'' Jsonb_type),
      with_default ''1'' (required (Column ''version'' Integer_type)),
      with_default ''CURRENT_TIMESTAMP'' (Column ''updated_at'' Timestamp_type),
      Column ''updated_by_token_label'' (Varchar_type 255),
      Column ''last_commit_message'' Text_type]
     []"

definition LF :: string where
  "LF = [CHR 10]"

text \<open>The SQL file: the payload as a literal, its quotes doubled.\<close>

definition sql_prefix :: "import_world \<Rightarrow> string" where
  "sql_prefix W = LF @ fst (iw_comments W) @ LF @ LF @ ''INSERT INTO registries (env, payload, version)'' @ LF
     @ ''VALUES (''  @ [CHR 39] @ ''production'' @ [CHR 39] @ '', ''"

definition sql_suffix :: "import_world \<Rightarrow> string" where
  "sql_suffix W = ''::jsonb, 1)'' @ LF @ ''ON CONFLICT (env) DO UPDATE'' @ LF
     @ ''SET payload = EXCLUDED.payload,'' @ LF @ ''    version = registries.version + 1,'' @ LF
     @ ''    updated_at = CURRENT_TIMESTAMP;'' @ LF @ LF @ snd (iw_comments W) @ LF
     @ ''SELECT env, version,'' @ LF
     @ ''       jsonb_object_keys(payload->'' @ [CHR 39] @ ''object_types'' @ [CHR 39] @ '') as object_type,'' @ LF
     @ ''       jsonb_object_keys(payload->'' @ [CHR 39] @ ''link_types'' @ [CHR 39] @ '') as link_type,'' @ LF
     @ ''       jsonb_object_keys(payload->'' @ [CHR 39] @ ''action_types'' @ [CHR 39] @ '') as action_type'' @ LF
     @ ''FROM registries WHERE env = '' @ [CHR 39] @ ''production'' @ [CHR 39] @ '';'' @ LF"

definition sql_text :: "import_world \<Rightarrow> json \<Rightarrow> string" where
  "sql_text W registry =
     sql_prefix W @ [CHR 39] @ py_replace [CHR 39] [CHR 39, CHR 39] (iw_dumps W registry) @ [CHR 39] @ sql_suffix W"

definition import_main :: "import_world \<Rightarrow> (disk \<times> db, exn, unit) act" where
  "import_main W =
     bind (load_schema W) (\<lambda>schema.
     bind (lift_sum (case schema of JObj d \<Rightarrow> convert_to_registry_format (iw_auto_effects W) d | _ \<Rightarrow> Inl ill_typed)) (\<lambda>registry.
     bind (write_bytes (project_file ''manufacturing_registry.json'') (iw_dump_indented W registry)) (\<lambda>_.
     bind (\<lambda>(fs, s). case connect_and_import W registry s of (ok, s') \<Rightarrow> (Inr ok, (fs, s'))) (\<lambda>success.
     if success then ret ()
     else write_bytes (project_file ''import_manufacturing.sql'') (sql_text W registry)))))"

subsection \<open>Literals of PostgreSQL\<close>

text \<open>
  The string constant that starts after an opening quote (with \<open>standard_conforming_strings\<close>): a doubled
  quote stands for one, the next single one ends it.
\<close>

fun string_constant :: "string \<Rightarrow> (string \<times> string) option" where
  "string_constant [] = None"
| "string_constant [c] = (if c = CHR 39 then Some ([], []) else None)"
| "string_constant (c # d # s) =
     (if c = CHR 39 then if d = CHR 39 then map_option (\<lambda>(v, r). (CHR 39 # v, r)) (string_constant s) else Some ([], d # s)
      else map_option (\<lambda>(v, r). (c # v, r)) (string_constant (d # s)))"

definition doubled :: "string \<Rightarrow> string" where
  "doubled s = concat (map (\<lambda>c. if c = CHR 39 then [CHR 39, CHR 39] else [c]) s)"

lemma replace_doubled: "length s \<le> n \<Longrightarrow> replace_fuel n [CHR 39] [CHR 39, CHR 39] s = doubled s"
  by (induction n arbitrary: s; case_tac s) (auto simp: doubled_def)

lemma py_replace_quote: "py_replace [CHR 39] [CHR 39, CHR 39] s = doubled s"
  by (simp add: py_replace_def replace_doubled)

lemma doubled_simps [simp]:
  "doubled [] = []" "doubled (c # s) = (if c = CHR 39 then [CHR 39, CHR 39] else [c]) @ doubled s"
  by (simp_all add: doubled_def)

text \<open>A literal decodes to the text that was doubled, whatever the text is: no value ends it early.\<close>

lemma string_constant_cons:
  "c \<noteq> CHR 39 \<Longrightarrow> s \<noteq> [] \<Longrightarrow> string_constant (c # s) = map_option (\<lambda>(v, r). (c # v, r)) (string_constant s)"
  by (cases s) simp_all

lemma literal_decodes:
  assumes "r = [] \<or> hd r \<noteq> CHR 39"
  shows "string_constant (doubled s @ CHR 39 # r) = Some (s, r)"
proof (induction s)
  case Nil
  from assms show ?case by (cases r) auto
qed (simp add: string_constant_cons)

lemma suffix_starts: "hd (sql_suffix W) \<noteq> CHR 39"
  by (simp add: sql_suffix_def)

lemma sql_literal: "string_constant (drop (length (sql_prefix W) + 1) (sql_text W j)) = Some (iw_dumps W j, sql_suffix W)"
  by (simp add: sql_text_def py_replace_quote literal_decodes suffix_starts)

subsection \<open>Properties\<close>

text \<open>C38: the import script on a schema file that is read and converted. It ends without an exception
  and leaves the payload beside the schema file; then either production holds what the payload stands
  for in the next version, or the database is as it was and the SQL file has, as the one string
  constant after its prefix, exactly the dumped payload: no quote in the schema ends the literal
  early, and what follows it is the fixed rest of the statement.\<close>
theorem import_script_leaves_payload:
  assumes "fs (project_file ''manufacturing_ontology_v1.json'') = Some body" "iw_load W body = Inr (JObj d)"
    and "convert_to_registry_format (iw_auto_effects W) d = Inr j"
    and "iw_table_exists W \<or> registries s = (\<lambda>_. None)"
  shows "\<exists>fs' s'. import_main W (fs, s) = (Inr (), (fs', s'))
    \<and> fs' (project_file ''manufacturing_registry.json'') = Some (iw_dump_indented W j)
    \<and> ((\<exists>row. registries s' Production = Some row \<and> rr_payload row = iw_read_registry W j
          \<and> rr_version row = (case registries s Production of None \<Rightarrow> 1 | Some old \<Rightarrow> rr_version old + 1)
          \<and> s' = s\<lparr>registries := (registries s)(Production \<mapsto> row)\<rparr>)
       \<or> s' = s \<and> (\<exists>sql. fs' (project_file ''import_manufacturing.sql'') = Some sql
          \<and> take (length (sql_prefix W) + 1) sql = sql_prefix W @ [CHR 39]
          \<and> string_constant (drop (length (sql_prefix W) + 1) sql) = Some (iw_dumps W j, sql_suffix W)))"
proof -
  have prefix: "take (length (sql_prefix W) + 1) (sql_text W j) = sql_prefix W @ [CHR 39]"
    by (simp add: sql_text_def)
  have same: "(if iw_table_exists W then s else s\<lparr>registries := (\<lambda>_. None)\<rparr>) = s" using assms(4) by auto
  have done_or_not: "connect_and_import W j s \<in> {(False, s), (True, import_to_postgres (iw_read_registry W j) s)}"
    using same by (auto simp: connect_and_import_def Let_def)
  note run = import_main_def load_schema_def bind_apply lift_sum_apply write_bytes_apply ret_def assms(1-3) project_file_def
  from done_or_not consider "connect_and_import W j s = (False, s)"
    | "connect_and_import W j s = (True, import_to_postgres (iw_read_registry W j) s)" by auto
  then show ?thesis
  proof cases
    case 1
    with prefix sql_literal [of W j] assms(1) show ?thesis by (simp add: run)
  next
    case 2
    then show ?thesis using assms(1)
      by (auto simp: run import_to_postgres_def split: option.splits)
  qed
qed

text \<open>The script before the migrations: the table it creates accepts a row of an environment the
  service does not know, and with it in the way no upgrade from the start succeeds.\<close>
theorem script_table_blocks_migrations:
  "\<exists>c. execute script_table (al_catalog fresh) = Inr c
    \<and> (\<exists>c'. execute (Insert_row ''registries'' [(''env'', ''archive''), (''payload'', payload)]) c = Inr c')
    \<and> upgrade (Suc n) versions (fresh\<lparr>al_catalog := c\<rparr>) = Inl (sql_error ''relation already exists'')"
proof -
  obtain c where c: "execute script_table (al_catalog fresh) = Inr c" "dict_has ''registries'' (tables c)"
    "\<exists>c'. execute (Insert_row ''registries'' [(''env'', ''archive''), (''payload'', payload)]) c = Inr c'"
    by (simp add: script_table_def fresh_def relation_exists_def column_indexes_def target_exists_def Column_def
        required_def with_default_def primary_key_def row_fits_def filled_row_def column_names_def)
  have "upgrade (Suc n) versions (fresh\<lparr>al_catalog := c\<rparr>) = Inl (sql_error ''relation already exists'')"
    by (rule table_in_the_way [OF c(2)]) (simp_all add: fresh_def)
  with c show ?thesis by blast
qed

subsection \<open>Witness\<close>

definition quoted_schema :: "(string, json) dict" where
  "quoted_schema = [(''objectTypes'', JList [JObj [(''apiName'', JStr ''Order''),
     (''displayName'', JStr (''Buyer'' @ CHR 39 # ''s order''))]])]"

definition quoted_payload :: json where
  "quoted_payload = (case convert_to_registry_format [] quoted_schema of Inr j \<Rightarrow> j | Inl _ \<Rightarrow> JNull)"

definition offline_world :: import_world where
  "offline_world = \<lparr>iw_driver_installed = True, iw_connect_error = Some (OtherException ''OperationalError'' ''no route''),
     iw_statement_error = None, iw_table_exists = True, iw_load = (\<lambda>_. Inr (JObj quoted_schema)),
     iw_dump_indented = (\<lambda>_. ''{}''), iw_dumps = (\<lambda>_. ''Buyer'' @ CHR 39 # ''s order''),
     iw_read_registry = (\<lambda>_. empty_registry), iw_auto_effects = [], iw_comments = (''-- import'', ''-- check'')\<rparr>"

lemma quoted_converts: "convert_to_registry_format (iw_auto_effects offline_world) quoted_schema = Inr quoted_payload"
  by (simp add: quoted_payload_def offline_world_def quoted_schema_def convert_to_registry_format_def convert_kind_def
      get_dflt_def elements_def convert_object_def Let_def subscript_def opt_item_def dict_set_def)

theorem import_script_leaves_payload_witness:
  "\<exists>fs' s'. import_main offline_world ([project_file ''manufacturing_ontology_v1.json'' \<mapsto> ''{...}''], migrated 0) = (Inr (), (fs', s'))
     \<and> fs' (project_file ''manufacturing_registry.json'') = Some ''{}''
     \<and> s' = migrated 0 \<and> (\<exists>sql r. fs' (project_file ''import_manufacturing.sql'') = Some sql
         \<and> string_constant (drop (length (sql_prefix offline_world) + 1) sql) = Some (''Buyer'' @ CHR 39 # ''s order'', r))"
proof -
  let ?fs = "[project_file ''manufacturing_ontology_v1.json'' \<mapsto> ''{...}'']"
  have load: "iw_load offline_world ''{...}'' = Inr (JObj quoted_schema)" by (simp add: offline_world_def)
  obtain fs' s' where run: "import_main offline_world (?fs, migrated 0) = (Inr (), (fs', s'))"
      "fs' (project_file ''manufacturing_registry.json'') = Some (iw_dump_indented offline_world quoted_payload)"
    and result: "(\<exists>row. registries s' Production = Some row \<and> rr_version row = 1)
      \<or> s' = migrated 0 \<and> (\<exists>sql. fs' (project_file ''import_manufacturing.sql'') = Some sql
          \<and> string_constant (drop (length (sql_prefix offline_world) + 1) sql)
              = Some (iw_dumps offline_world quoted_payload, sql_suffix offline_world))"
    using import_script_leaves_payload [of ?fs "''{...}''" offline_world quoted_schema quoted_payload "migrated 0"]
      quoted_converts load
    by (auto simp: migrated_def offline_world_def)
  have "snd (snd (import_main offline_world (?fs, migrated 0))) = migrated 0"
    using quoted_converts load
    by (simp add: import_main_def load_schema_def bind_apply lift_sum_apply write_bytes_apply connect_and_import_def)
      (simp add: offline_world_def write_bytes_apply)
  with run(1) have "s' = migrated 0" by simp
  with run result show ?thesis by (auto simp: offline_world_def migrated_def)
qed

end
