(* ===== verification/App_Start.thy ===== *)
theory App_Start
  imports Service
begin

text \<open>
  \<open>app.py\<close> and \<open>health.py\<close>: what happens before the first request, the readiness probe, the choice of
  the language model, and the fallback route that serves the files of the user interface. The routers
  are in theory Routing. \<open>os.path.join\<close> and \<open>os.path.normpath\<close> are those of POSIX; the file
  system is the two arguments \<open>isfile\<close> and \<open>realpath\<close>.
\<close>

subsection \<open>Start and readiness\<close>

text \<open>
  The life span: the first token, in a transaction of its own, then the sweep of orphaned chats, when
  no turn runs yet.
\<close>

definition lifespan_start ::
  "settings \<Rightarrow> hasher \<Rightarrow> uuid \<Rightarrow> string \<Rightarrow> (uuid \<Rightarrow> db \<Rightarrow> db) \<Rightarrow> (db, exn, string option \<times> sweep_result) act" where
  "lifespan_start st H new_id random others =
     bind (in_session (bootstrap_admin_token_if_needed H new_id random)) (\<lambda>minted.
     bind (sweep_orphan_sessions others [] (chat_session_orphan_after_s st)) (\<lambda>res. ret (minted, res)))"

text \<open>Without a key the model is the stub with no answers.\<close>

definition app_llm :: "settings \<Rightarrow> 'l llm \<Rightarrow> 'l llm \<Rightarrow> 'l llm" where
  "app_llm st litellm stub = (if llm_api_key st \<noteq> [] then litellm else stub)"

definition healthz :: json where
  "healthz = JObj [(''status'', JStr ''ok'')]"

text \<open>The missing environments are listed in no fixed order: they are a set here.\<close>

definition readyz :: "(db, exn, int \<times> env set) act" where
  "readyz = statement (\<lambda>s.
     let expected = {Staging, Production, Previous_production};
         envs = {e \<in> expected. registries s e \<noteq> None} in
     (Inr (if envs \<noteq> expected then (503, expected - envs) else (200, {})), s))"

subsection \<open>Paths\<close>

definition path_join :: "string \<Rightarrow> string \<Rightarrow> string" where
  "path_join a b =
     (if starts_with ''/'' b then b
      else if a = [] \<or> last a = CHR ''/'' then a @ b
      else a @ ''/'' @ b)"

fun norm_step :: "bool \<Rightarrow> string list \<Rightarrow> string \<Rightarrow> string list" where
  "norm_step absolute new_comps part =
     (if part = [] \<or> part = ''.'' then new_comps
      else if part \<noteq> ''..'' \<or> (\<not> absolute \<and> new_comps = []) \<or> (new_comps \<noteq> [] \<and> last new_comps = ''..'')
        then new_comps @ [part]
      else if new_comps \<noteq> [] then butlast new_comps
      else new_comps)"

definition initial_slashes :: "string \<Rightarrow> nat" where
  "initial_slashes p =
     (if \<not> starts_with ''/'' p then 0
      else if starts_with ''//'' p \<and> \<not> starts_with ''///'' p then 2 else 1)"

definition normpath :: "string \<Rightarrow> string" where
  "normpath p =
     (if p = [] then ''.''
      else let n = initial_slashes p;
               q = replicate n (CHR ''/'') @ join_str ''/'' (foldl (norm_step (n > 0)) [] (split_char (CHR ''/'') p)) in
        if q = [] then ''.'' else q)"

definition spa_fallback :: "(string \<Rightarrow> bool) \<Rightarrow> (string \<Rightarrow> string) \<Rightarrow> string \<Rightarrow> string \<Rightarrow> string" where
  "spa_fallback isfile realpath ui_dist full_path =
     (let index_html = path_join ui_dist ''index.html'';
          candidate = (if full_path \<noteq> [] then normpath (path_join ui_dist full_path) else index_html) in
      if starts_with (realpath ui_dist) candidate \<and> isfile candidate then candidate else index_html)"

subsection \<open>Facts about paths\<close>

text \<open>A component that names a file or a directory, and the path of some of them.\<close>

definition plain :: "string \<Rightarrow> bool" where
  "plain c \<longleftrightarrow> c \<noteq> [] \<and> c \<noteq> ''.'' \<and> c \<noteq> ''..'' \<and> CHR ''/'' \<notin> set c"

definition path_of :: "string list \<Rightarrow> string" where
  "path_of cs = ''/'' @ join_str ''/'' cs"

lemma split_not_Nil: "split_char c s \<noteq> []"
  by (induction s) (auto split: list.splits)

lemma split_single: "c \<notin> set s \<Longrightarrow> split_char c s = [s]"
  by (induction s) auto

lemma split_append: "c \<notin> set w \<Longrightarrow> split_char c (w @ c # s) = w # split_char c s"
  by (induction w) (auto split: list.splits)

lemma join_Cons: "cs \<noteq> [] \<Longrightarrow> join_str sep (c # cs) = c @ sep @ join_str sep cs"
  by (cases cs) auto

lemma split_join: "cs \<noteq> [] \<Longrightarrow> \<forall>c \<in> set cs. CHR ''/'' \<notin> set c \<Longrightarrow> split_char (CHR ''/'') (join_str ''/'' cs) = cs"
proof (induction cs)
  case (Cons c cs)
  then show ?case by (cases "cs = []") (simp_all add: split_single join_Cons split_append)
qed simp

text \<open>From the root nothing but plain components is kept.\<close>

lemma norm_step_plain:
  "list_all plain acc \<Longrightarrow> CHR ''/'' \<notin> set c \<Longrightarrow> list_all plain (norm_step True acc c)"
  by (auto simp: list_all_iff plain_def dest: in_set_butlastD)

lemma norm_fold_plain:
  "list_all plain acc \<Longrightarrow> \<forall>c \<in> set cs. CHR ''/'' \<notin> set c \<Longrightarrow> list_all plain (foldl (norm_step True) acc cs)"
  by (induction cs arbitrary: acc) (simp_all add: norm_step_plain del: norm_step.simps)

lemma norm_fold_keep: "list_all plain cs \<Longrightarrow> list_all plain acc \<Longrightarrow> foldl (norm_step True) acc cs = acc @ cs"
proof (induction cs arbitrary: acc)
  case (Cons c cs)
  then have "norm_step True acc c = acc @ [c]" by (simp add: plain_def)
  with Cons show ?case by (simp del: norm_step.simps)
qed simp

declare norm_step.simps [simp del]

lemma normpath_absolute:
  assumes "starts_with ''/'' p"
  obtains n cs where "n \<in> {1, 2}" "normpath p = replicate n (CHR ''/'') @ join_str ''/'' cs" "list_all plain cs"
proof -
  let ?n = "initial_slashes p" and ?cs = "foldl (norm_step True) [] (split_char (CHR ''/'') p)"
  have n: "?n \<in> {1, 2}" using assms by (simp add: initial_slashes_def)
  have "list_all plain ?cs" by (rule norm_fold_plain) (auto dest: split_char_no_sep)
  moreover have "normpath p = replicate ?n (CHR ''/'') @ join_str ''/'' ?cs"
    using n assms by (auto simp: normpath_def Let_def)
  ultimately show thesis using n that by blast
qed

lemma takeWhile_join: "list_all plain cs \<Longrightarrow> takeWhile (\<lambda>c. c \<noteq> CHR ''/'') (join_str ''/'' cs) = (case cs of [] \<Rightarrow> [] | c # _ \<Rightarrow> c)"
  by (cases cs rule: remdups_adj.cases) (auto simp: plain_def takeWhile_stop takeWhile_eq_all_conv)

lemma join_prefix:
  assumes "list_all plain (ds @ [l])" "list_all plain cs" "join_str ''/'' (ds @ [l]) @ r = join_str ''/'' cs"
  shows "\<exists>x below. cs = ds @ [l @ x] @ below"
  using assms
proof (induction ds arbitrary: cs)
  case Nil
  then have l: "l @ r = join_str ''/'' cs" "l \<noteq> []" "CHR ''/'' \<notin> set l" by (simp_all add: plain_def)
  then obtain c below where cs: "cs = c # below" by (cases cs) auto
  have "c = takeWhile (\<lambda>c. c \<noteq> CHR ''/'') (l @ r)" using takeWhile_join [OF Nil(2)] l(1) cs by simp
  also have "\<dots> = l @ takeWhile (\<lambda>c. c \<noteq> CHR ''/'') r" using l(3) by (subst takeWhile_append2) auto
  finally show ?case using cs by auto
next
  case (Cons d ds)
  from Cons.prems(1) have d: "CHR ''/'' \<notin> set d" "plain d" "list_all plain (ds @ [l])" by (auto simp: plain_def [of d])
  from Cons.prems(3) have eq: "d @ CHR ''/'' # (join_str ''/'' (ds @ [l]) @ r) = join_str ''/'' cs"
    by (simp add: join_Cons)
  then obtain c below where cs: "cs = c # below" by (cases cs) auto
  have c: "c = d" using takeWhile_join [OF Cons.prems(2)] eq d(1) cs by (metis list.simps(5) takeWhile_stop)
  have "below \<noteq> []"
  proof
    assume "below = []"
    with eq cs c show False by simp
  qed
  with eq cs c have "join_str ''/'' (ds @ [l]) @ r = join_str ''/'' below" by (simp add: join_Cons)
  with Cons.IH [OF d(3)] Cons.prems(2) cs c show ?case by auto
qed

lemma path_of_head: "list_all plain (c # cs) \<Longrightarrow> \<exists>x rest. x \<noteq> CHR ''/'' \<and> path_of (c # cs) = CHR ''/'' # x # rest"
  by (cases c; cases cs) (auto simp: plain_def path_of_def)

lemma path_of_prefix:
  assumes "list_all plain (ds @ [l])" "list_all plain cs" "n \<in> {1, 2}"
    and "starts_with (path_of (ds @ [l])) (replicate n (CHR ''/'') @ join_str ''/'' cs)"
  shows "n = 1 \<and> (\<exists>x below. cs = ds @ [l @ x] @ below)"
proof -
  from assms(4) obtain r where r: "replicate n (CHR ''/'') @ join_str ''/'' cs = path_of (ds @ [l]) @ r"
    by (auto simp: starts_with_iff)
  obtain c rest where "ds @ [l] = c # rest" by (cases ds) auto
  with path_of_head assms(1) obtain x q where x: "x \<noteq> CHR ''/''" "path_of (ds @ [l]) = CHR ''/'' # x # q" by metis
  have "n \<noteq> 2" using r x by (auto simp: numeral_2_eq_2)
  with assms(3) have n: "n = 1" by simp
  with r have "join_str ''/'' (ds @ [l]) @ r = join_str ''/'' cs" by (simp add: path_of_def)
  with join_prefix [OF assms(1,2)] n show ?thesis by blast
qed

lemma split_path_of: "list_all plain cs \<Longrightarrow> cs \<noteq> [] \<Longrightarrow> split_char (CHR ''/'') (path_of cs) = [] # cs"
  by (simp add: path_of_def split_join list_all_iff plain_def)

lemma join_snoc: "\<exists>p. join_str sep (ds @ [l]) = p @ l"
proof (induction ds)
  case (Cons d ds)
  then obtain p where "join_str sep (ds @ [l]) = p @ l" by blast
  then have "join_str sep ((d # ds) @ [l]) = (d @ sep @ p) @ l" by (simp add: join_Cons)
  then show ?case by blast
qed simp

lemma path_of_last: "plain l \<Longrightarrow> last (path_of (ds @ [l])) \<noteq> CHR ''/''"
proof -
  assume l: "plain l"
  obtain p where "path_of (ds @ [l]) = (''/'' @ p) @ l" using join_snoc [of "''/''" ds l] by (auto simp: path_of_def)
  with l have "last (path_of (ds @ [l])) = last l" by (simp add: plain_def)
  with l show ?thesis using last_in_set [of l] by (metis plain_def)
qed

text \<open>Going up from the directory and down another branch.\<close>

lemma normpath_up:
  assumes "list_all plain (ds @ [l])" "list_all plain below" "below \<noteq> []"
  shows "normpath (path_join (path_of (ds @ [l])) (join_str ''/'' (''..'' # below))) = path_of (ds @ below)"
proof -
  let ?p = "path_of (ds @ [l]) @ ''/'' @ join_str ''/'' (''..'' # below)"
  have noslash: "\<forall>c \<in> set (ds @ [l] @ ''..'' # below). CHR ''/'' \<notin> set c"
    using assms(1,2) by (auto simp: list_all_iff plain_def)
  have p: "?p = ''/'' @ join_str ''/'' (ds @ [l] @ ''..'' # below)"
    by (induction ds) (simp_all add: path_of_def join_Cons)
  obtain c rest where "ds @ [l] = c # rest" by (cases ds) auto
  with path_of_head assms(1) obtain x q where x: "x \<noteq> CHR ''/''" "path_of (ds @ [l]) = CHR ''/'' # x # q" by metis
  have join: "path_join (path_of (ds @ [l])) (join_str ''/'' (''..'' # below)) = ?p"
    using path_of_last [of l ds] assms(1,3) by (simp add: path_join_def join_Cons x(2))
  have "split_char (CHR ''/'') ?p = [] # ds @ [l] @ ''..'' # below"
    unfolding p using split_join [OF _ noslash] by simp
  moreover have "foldl (norm_step True) [] ([] # ds @ [l] @ ''..'' # below) = ds @ below"
  proof -
    have "foldl (norm_step True) [] (ds @ [l]) = ds @ [l]" using norm_fold_keep [OF assms(1), of "[]"] by simp
    moreover have "norm_step True (ds @ [l]) ''..'' = ds"
      using assms(1) by (simp add: norm_step.simps plain_def)
    ultimately have "foldl (norm_step True) [] ([] # (ds @ [l]) @ ''..'' # below) = foldl (norm_step True) ds below"
      by (simp add: norm_step.simps [of True "[]" "[]"])
    also have "\<dots> = ds @ below" by (rule norm_fold_keep) (use assms in auto)
    finally show ?thesis by simp
  qed
  moreover have "initial_slashes ?p = 1" by (simp add: initial_slashes_def x(2) x(1) not_sym [OF x(1)])
  ultimately have "normpath ?p = path_of (ds @ below)"
    by (simp add: normpath_def Let_def path_of_def)
  with join show ?thesis by simp
qed

text \<open>C32: what the fallback route serves. When the directory of the user interface is an absolute path
  without links, the paths it can be made to serve are the index and the existing files below the
  directory or below a sibling whose name only begins with the directory's name: the test compares
  strings, not components, so \<open>../dist-old/secret\<close> leads out of \<open>dist\<close>. Nothing else is reached.\<close>
theorem spa_serves_exactly:
  assumes "list_all plain (ds @ [l])" "realpath (path_of (ds @ [l])) = path_of (ds @ [l])"
  shows "range (spa_fallback isfile realpath (path_of (ds @ [l]))) =
    insert (path_join (path_of (ds @ [l])) ''index.html'')
      {f. isfile f \<and> (\<exists>x below. f = path_of (ds @ [l @ x] @ below) \<and> list_all plain ((l @ x) # below))}"
    (is "_ = insert ?index ?files")
proof (intro equalityI subsetI)
  fix f assume "f \<in> range (spa_fallback isfile realpath (path_of (ds @ [l])))"
  then obtain fp where f: "f = spa_fallback isfile realpath (path_of (ds @ [l])) fp" by blast
  let ?c = "normpath (path_join (path_of (ds @ [l])) fp)"
  show "f \<in> insert ?index ?files"
  proof (cases "fp \<noteq> [] \<and> starts_with (path_of (ds @ [l])) ?c \<and> isfile ?c")
    case False
    then show ?thesis using f assms(2) by (auto simp: spa_fallback_def Let_def split: if_splits)
  next
    case True
    then have fc: "f = ?c" using f assms(2) by (simp add: spa_fallback_def Let_def)
    have "starts_with ''/'' (path_join (path_of (ds @ [l])) fp)"
      by (simp add: path_join_def path_of_def)
    then obtain n cs where n: "n \<in> {1, 2}" "?c = replicate n (CHR ''/'') @ join_str ''/'' cs" "list_all plain cs"
      by (rule normpath_absolute)
    from True n(2) have "starts_with (path_of (ds @ [l])) (replicate n (CHR ''/'') @ join_str ''/'' cs)" by simp
    from path_of_prefix [OF assms(1) n(3,1) this] obtain x below where
      "n = 1" "cs = ds @ [l @ x] @ below" by blast
    with n fc True show ?thesis by (auto simp: path_of_def)
  qed
next
  fix f assume "f \<in> insert ?index ?files"
  then show "f \<in> range (spa_fallback isfile realpath (path_of (ds @ [l])))"
  proof
    assume "f = ?index"
    then have "f = spa_fallback isfile realpath (path_of (ds @ [l])) []" by (simp add: spa_fallback_def)
    then show ?thesis by blast
  next
    assume "f \<in> ?files"
    then obtain x below where f: "isfile f" "f = path_of (ds @ [l @ x] @ below)" "list_all plain ((l @ x) # below)" by blast
    let ?fp = "join_str ''/'' (''..'' # (l @ x) # below)"
    have "normpath (path_join (path_of (ds @ [l])) ?fp) = f"
      using normpath_up [OF assms(1) f(3)] f(2) by simp
    moreover have "starts_with (path_of (ds @ [l])) f"
    proof -
      have "\<exists>r. join_str ''/'' (ds @ [l @ x] @ below) = join_str ''/'' (ds @ [l]) @ r"
      proof (induction ds)
        case Nil
        show ?case by (cases below) (auto simp: join_Cons)
      next
        case (Cons d ds)
        then show ?case by (auto simp: join_Cons)
      qed
      then show ?thesis by (auto simp: f(2) path_of_def starts_with_iff)
    qed
    moreover have "?fp \<noteq> []" by simp
    ultimately have "f = spa_fallback isfile realpath (path_of (ds @ [l])) ?fp"
      using f(1) assms(2) by (simp add: spa_fallback_def Let_def)
    then show ?thesis by blast
  qed
qed

subsection \<open>Facts about the start\<close>

lemma all_envs: "{Staging, Production, Previous_production} = UNIV"
  by (auto intro: env.exhaust)

lemma readyz_run:
  "\<not> tx_aborted s \<Longrightarrow>
     readyz s = (Inr (if seeded s then (200, {}) else (503, {e. registries s e = None})), s)"
  unfolding readyz_def all_envs by (auto simp: statement_def Let_def seeded_def set_eq_iff)

lemma readyz_ok: "(\<forall>e. registries s e \<noteq> None) \<Longrightarrow> \<not> tx_aborted s \<Longrightarrow> readyz s = (Inr (200, {}), s)"
  by (simp add: readyz_run seeded_def)

subsection \<open>Properties of the start\<close>


subsection \<open>Witnesses\<close>


theorem spa_serves_exactly_witness:
  "spa_fallback (\<lambda>f. f = ''/srv/ui/dist-old/secret'') (\<lambda>p. p) ''/srv/ui/dist'' ''../dist-old/secret'' = ''/srv/ui/dist-old/secret''
   \<and> ''/etc/passwd'' \<notin> range (spa_fallback (\<lambda>_. True) (\<lambda>p. p) ''/srv/ui/dist'')"
proof
  have p: "path_of ([''srv'', ''ui''] @ [''dist'']) = ''/srv/ui/dist''" "list_all plain ([''srv'', ''ui''] @ [''dist''])"
    by (simp_all add: path_of_def plain_def)
  show "''/etc/passwd'' \<notin> range (spa_fallback (\<lambda>_. True) (\<lambda>p. p) ''/srv/ui/dist'')"
    using spa_serves_exactly [OF p(2), of "\<lambda>p. p" "\<lambda>_. True"] p(1)
    by (auto simp: path_join_def path_of_def join_Cons)
  show "spa_fallback (\<lambda>f. f = ''/srv/ui/dist-old/secret'') (\<lambda>p. p) ''/srv/ui/dist'' ''../dist-old/secret'' = ''/srv/ui/dist-old/secret''"
    by code_simp
qed

end
