(* ===== verification/Routing.thy ===== *)
theory Routing
  imports Rest_Api
begin

text \<open>
  The wiring of the routers (\<open>create_app\<close> of \<open>app.py\<close> and the \<open>make_..._router\<close> functions it includes):
  which handler answers a request, and which dependency checks its caller first. The table holds every
  route in the order of its inclusion, named by its handler; the handlers are those of the other theories
  and an argument here. Choosing a route is the framework's (\<open>framework\<close>), and so are the routes of its
  own documentation pages (\<open>own\<close>); the redirect of a trailing slash is left out.
\<close>

datatype guard = Open | By_bearer scope | By_cookie_or_bearer scope

text \<open>A mount has no methods: it takes every request under its path, as the pattern with a path at its end.\<close>

record route =
  rt_methods :: "string list option"
  rt_path :: string
  rt_guard :: guard
  rt_name :: string

definition get_route :: "guard \<Rightarrow> string \<Rightarrow> string \<Rightarrow> route" where
  "get_route g path name = \<lparr>rt_methods = Some [''GET''], rt_path = path, rt_guard = g, rt_name = name\<rparr>"

definition post_route :: "guard \<Rightarrow> string \<Rightarrow> string \<Rightarrow> route" where
  "post_route g path name = \<lparr>rt_methods = Some [''POST''], rt_path = path, rt_guard = g, rt_name = name\<rparr>"

definition with_prefix :: "string \<Rightarrow> route list \<Rightarrow> route list" where
  "with_prefix prefix rs = map (\<lambda>r. r\<lparr>rt_path := prefix @ rt_path r\<rparr>) rs"

subsection \<open>The routers\<close>

definition health_router :: "route list" where
  "health_router = [get_route Open ''/healthz'' ''healthz'', get_route Open ''/readyz'' ''readyz'']"

definition mcp_router :: "route list" where
  "mcp_router = [post_route (By_bearer Read) ''/mcp'' ''mcp_endpoint'']"

definition ui_auth_router :: "route list" where
  "ui_auth_router = [post_route Open ''/admin/login'' ''login'', post_route Open ''/admin/logout'' ''logout'']"

definition api_router :: "route list" where
  "api_router = with_prefix ''/api''
     (let read_dep = By_cookie_or_bearer Read; admin_dep = By_cookie_or_bearer Admin in
      [get_route read_dep ''/whoami'' ''api_whoami'',
       get_route read_dep ''/registries/{env}/summary'' ''summary'',
       get_route read_dep ''/registries/diff'' ''diff_endpoint'',
       get_route read_dep ''/registries/{env}/full'' ''full'',
       get_route read_dep ''/registries/{env}/entities/{kind}'' ''list_entities'',
       get_route read_dep ''/registries/{env}/entities/{kind}/{rid:path}'' ''get_entity'',
       get_route read_dep ''/audit-log/recent'' ''audit_recent'',
       post_route admin_dep ''/registries/promote'' ''promote'',
       post_route admin_dep ''/registries/revert'' ''revert'',
       post_route admin_dep ''/registries/undo-promote'' ''api_undo_promote''])"

text \<open>The router of the instances builds a dependency for readers, but its route does not use it.\<close>

definition data_router :: "route list" where
  "data_router = with_prefix ''/api/data'' [get_route Open ''/{object_type_rid}/instances'' ''list_instances'']"

definition ingestion_router :: "route list" where
  "ingestion_router = with_prefix ''/admin/ingestion''
     (let editor_dep = By_cookie_or_bearer Editor in
      [post_route editor_dep ''/uploads'' ''upload_file'',
       post_route editor_dep ''/jobs'' ''create_job'',
       get_route editor_dep ''/jobs'' ''list_jobs'',
       get_route editor_dep ''/jobs/{job_id}'' ''get_job'',
       post_route editor_dep ''/jobs/{job_id}:cancel'' ''cancel_job''])"

definition chat_router :: "route list" where
  "chat_router = with_prefix ''/chat''
     (let editor_dep = By_cookie_or_bearer Editor in
      [post_route editor_dep ''/sessions'' ''create_session'',
       get_route editor_dep ''/sessions/{session_id}'' ''get_session'',
       post_route editor_dep ''/sessions/{session_id}/save'' ''save_session'',
       post_route editor_dep ''/sessions/{session_id}/cancel'' ''cancel_session'',
       post_route editor_dep ''/sessions/{session_id}/uploads'' ''upload_for_session'',
       post_route editor_dep ''/sessions/{session_id}/turns'' ''submit_turn'',
       get_route editor_dep ''/sessions/{session_id}/stream'' ''stream_turn''])"

definition ontology_router :: "route list" where
  "ontology_router = with_prefix ''/ontology''
     [get_route Open ''/schema'' ''get_ontology_schema'', get_route Open ''/graph'' ''get_ontology_graph'']"

text \<open>The user interface: its directory and the directory of its assets may each be missing.\<close>

definition ui_routes :: "bool \<Rightarrow> bool \<Rightarrow> route list" where
  "ui_routes ui_dist assets =
     (if ui_dist
      then (if assets then [\<lparr>rt_methods = None, rt_path = ''/assets/{path:path}'', rt_guard = Open, rt_name = ''ui-assets''\<rparr>] else [])
        @ [get_route Open ''/{full_path:path}'' ''_spa_fallback'']
      else [])"

definition create_app :: "route list \<Rightarrow> bool \<Rightarrow> bool \<Rightarrow> route list" where
  "create_app own ui_dist assets =
     own @ health_router @ mcp_router @ ui_auth_router @ api_router @ data_router @ ingestion_router
       @ chat_router @ ontology_router @ ui_routes ui_dist assets"

subsection \<open>Answering a request\<close>

record http_request =
  rq_method :: string
  rq_path :: string
  rq_authorization :: string
  rq_cookie :: "string option"

definition takes :: "route \<Rightarrow> string \<Rightarrow> bool" where
  "takes r method = (case rt_methods r of None \<Rightarrow> True | Some ms \<Rightarrow> method \<in> set ms)"

text \<open>
  The framework chooses the route of a request, or refuses it (404, or 405 when only the method is
  wrong). It is documented to try the routes in the order of their inclusion.
\<close>

record framework =
  fw_pick :: "route list \<Rightarrow> http_request \<Rightarrow> route option"
  fw_refuse :: "route list \<Rightarrow> http_request \<Rightarrow> exn"

definition in_order :: "framework \<Rightarrow> (string \<Rightarrow> string \<Rightarrow> bool) \<Rightarrow> bool" where
  "in_order F covers \<longleftrightarrow>
     (\<forall>rs q. fw_pick F rs q = List.find (\<lambda>r. covers (rt_path r) (rq_path q) \<and> takes r (rq_method q)) rs)"

fun check_guard :: "hasher \<Rightarrow> timestamp \<Rightarrow> guard \<Rightarrow> http_request \<Rightarrow> (db, exn, principal option) act" where
  "check_guard H clock Open q = ret None"
| "check_guard H clock (By_bearer sc) q = bind (require_scope H sc (rq_authorization q)) (\<lambda>p. ret (Some p))"
| "check_guard H clock (By_cookie_or_bearer sc) q =
     bind (require_scope_via_cookie_or_bearer H clock sc (rq_authorization q) (rq_cookie q)) (\<lambda>p. ret (Some p))"

text \<open>The dependency of the route chosen runs before its handler, which gets the caller it found.\<close>

definition handle_request ::
  "hasher \<Rightarrow> timestamp \<Rightarrow> framework \<Rightarrow> route list
     \<Rightarrow> (string \<Rightarrow> principal option \<Rightarrow> (db, exn, 'a) act) \<Rightarrow> http_request \<Rightarrow> (db, exn, 'a) act" where
  "handle_request H clock F rs handler q =
     (case fw_pick F rs q of
        None \<Rightarrow> raise (fw_refuse F rs q)
      | Some r \<Rightarrow> bind (check_guard H clock (rt_guard r) q) (handler (rt_name r)))"

subsection \<open>Facts\<close>

lemmas routers = health_router_def mcp_router_def ui_auth_router_def api_router_def data_router_def ingestion_router_def
  chat_router_def ontology_router_def ui_routes_def with_prefix_def get_route_def post_route_def Let_def

lemma in_order_Some:
  assumes "in_order F covers" "fw_pick F rs q = Some r"
  shows "r \<in> set rs" "covers (rt_path r) (rq_path q)" "takes r (rq_method q)"
  using assms by (auto simp: in_order_def find_Some_iff)

definition live :: "db \<Rightarrow> principal \<Rightarrow> bool" where
  "live s p \<longleftrightarrow> (\<exists>t \<in> set (api_tokens s). tk_id t = pr_token_id p \<and> tk_revoked_at t = None)"

fun admits :: "guard \<Rightarrow> db \<Rightarrow> principal option \<Rightarrow> bool" where
  "admits Open s p \<longleftrightarrow> p = None"
| "admits (By_bearer sc) s p \<longleftrightarrow> (\<exists>x. p = Some x \<and> live s x \<and> sc \<le> pr_scope x)"
| "admits (By_cookie_or_bearer sc) s p \<longleftrightarrow> (\<exists>x. p = Some x \<and> live s x \<and> sc \<le> pr_scope x)"

lemma via_cookie_frame:
  assumes "require_scope_via_cookie_or_bearer H clock m header cookie s = (res, s')"
  shows "s' = s"
proof (cases "extract_bearer header")
  case (Some token)
  show ?thesis
    by (rule bind_frame [OF assms [unfolded require_scope_via_cookie_or_bearer_def Some option.case]])
      (auto simp: raise_apply split: option.splits dest: lookup_token_frame check_scope_frame)
next
  case None
  show ?thesis
  proof (cases "\<exists>raw sid. cookie = Some raw \<and> raw \<noteq> [] \<and> py_uuid raw = Some sid")
    case True
    then obtain raw sid where c: "cookie = Some raw" "raw \<noteq> []" "py_uuid raw = Some sid" by blast
    from assms None c have run: "bind (resolve_session clock sid) (\<lambda>res. case res of
        None \<Rightarrow> raise (unauthorized ''UNAUTHORIZED'') | Some p \<Rightarrow> check_scope m p) s = (res, s')"
      by (simp add: require_scope_via_cookie_or_bearer_def)
    show ?thesis
      by (rule bind_frame [OF run]) (auto simp: raise_apply split: option.splits dest: resolve_session_frame check_scope_frame)
  next
    case False
    with assms None show ?thesis
      by (auto simp: require_scope_via_cookie_or_bearer_def raise_apply split: option.splits if_splits)
  qed
qed

lemma bind_ret_frame: "bind m (\<lambda>p. ret (f p)) s = (res, s') \<Longrightarrow> (\<And>r u. m s = (r, u) \<Longrightarrow> u = s) \<Longrightarrow> s' = s"
  by (auto simp: bind_def ret_def split: prod.splits sum.splits)

lemma check_guard_frame: "check_guard H clock g q s = (res, s') \<Longrightarrow> s' = s"
  by (cases g) (auto simp: ret_apply elim!: bind_ret_frame dest: require_scope_frame via_cookie_frame)

lemma bind_ret_Inr: "bind m (\<lambda>p. ret (Some p)) s = (Inr x, s') \<Longrightarrow> \<exists>p. x = Some p \<and> m s = (Inr p, s')"
  by (auto simp: bind_def ret_def split: prod.splits sum.splits)

lemma check_guard_Inr:
  assumes "check_guard H clock g q s = (Inr p, s')"
  shows "admits g s p"
proof (cases g)
  case Open
  with assms show ?thesis by (simp add: ret_apply)
next
  case (By_bearer sc)
  with assms obtain x where "p = Some x" "require_scope H sc (rq_authorization q) s = (Inr x, s')"
    by (auto dest: bind_ret_Inr)
  with By_bearer authorised_live [of H clock sc "rq_authorization q" None s x] show ?thesis
    by (auto simp: authorised_def live_def)
next
  case (By_cookie_or_bearer sc)
  with assms obtain x where "p = Some x"
    "require_scope_via_cookie_or_bearer H clock sc (rq_authorization q) (rq_cookie q) s = (Inr x, s')"
    by (auto dest: bind_ret_Inr)
  with By_cookie_or_bearer authorised_live [of H clock sc "rq_authorization q" "rq_cookie q" s x] show ?thesis
    by (auto simp: authorised_def live_def)
qed

text \<open>A request either changes nothing and raises, or its answer is the handler's, behind the guard of its route.\<close>

lemma handle_request_cases:
  assumes "handle_request H clock F rs handler q s = (res, s')"
  obtains (refused) e where "res = Inl e" "s' = s"
    | (handled) r p where "fw_pick F rs q = Some r" "admits (rt_guard r) s p"
        "handler (rt_name r) p s = (res, s')"
proof (cases "fw_pick F rs q")
  case None
  with assms refused show ?thesis by (auto simp: handle_request_def raise_apply)
next
  case (Some r)
  obtain x u where g: "check_guard H clock (rt_guard r) q s = (x, u)" by fastforce
  with check_guard_frame have u: "u = s" by blast
  show ?thesis
  proof (cases x)
    case (Inl e)
    with assms Some g u refused show ?thesis by (auto simp: handle_request_def bind_def)
  next
    case (Inr p)
    with assms Some g u have "handler (rt_name r) p s = (res, s')" by (simp add: handle_request_def bind_def)
    with handled [OF Some] check_guard_Inr g Inr show ?thesis by blast
  qed
qed

text \<open>The scope a guarded route asks for, by the part of the service its path belongs to.\<close>

definition required_scope :: "string \<Rightarrow> scope" where
  "required_scope path =
     (if path \<in> {''/api/registries/promote'', ''/api/registries/revert'', ''/api/registries/undo-promote''} then Admin
      else if starts_with ''/chat/'' path \<or> starts_with ''/admin/'' path then Editor
      else Read)"

definition open_handlers :: "string set" where
  "open_handlers = {''healthz'', ''readyz'', ''login'', ''logout'', ''list_instances'', ''get_ontology_schema'',
     ''get_ontology_graph'', ''ui-assets'', ''_spa_fallback''}"

fun guard_fits :: "route \<Rightarrow> bool" where
  "guard_fits r \<longleftrightarrow> (case rt_guard r of
       Open \<Rightarrow> rt_name r \<in> open_handlers
     | By_bearer sc \<Rightarrow> sc = required_scope (rt_path r)
     | By_cookie_or_bearer sc \<Rightarrow> sc = required_scope (rt_path r))"

lemma app_guards_fit: "r \<in> set (create_app own ui_dist assets) \<Longrightarrow> r \<in> set own \<or> guard_fits r"
proof -
  have "list_all guard_fits health_router" "list_all guard_fits mcp_router" "list_all guard_fits ui_auth_router"
    "list_all guard_fits data_router" "list_all guard_fits ontology_router"
    by (simp_all add: routers open_handlers_def required_scope_def)
  moreover have "list_all guard_fits api_router" "list_all guard_fits ingestion_router" "list_all guard_fits chat_router"
    by (simp_all add: routers required_scope_def)
  moreover have "list_all guard_fits (ui_routes ui_dist assets)"
    by (simp add: routers open_handlers_def)
  ultimately show "r \<in> set (create_app own ui_dist assets) \<Longrightarrow> r \<in> set own \<or> guard_fits r"
    by (auto simp: create_app_def list_all_iff)
qed

subsection \<open>Properties\<close>

text \<open>C26: which handlers an unknown caller reaches. Whatever the handlers do and however paths are matched to patterns,
  a request either raises and changes nothing, or was answered by the handler of a route that takes it;
  and a handler ran without a caller only if it is one of nine (the probes, login and logout, the
  instances, the public schema and graph, the user interface) or a page of the framework's own. Every
  other handler ran for a token that is live and of at least the scope its part of the service asks for.\<close>
theorem requests_guarded:
  assumes "handle_request H clock F (create_app own ui_dist assets) handler q s = (res, s')" and "in_order F covers"
    and "\<And>r. r \<in> set own \<Longrightarrow> rt_guard r = Open"
  shows "(\<exists>e. res = Inl e) \<and> s' = s
    \<or> (\<exists>r \<in> set (create_app own ui_dist assets). covers (rt_path r) (rq_path q) \<and> takes r (rq_method q)
        \<and> ((r \<in> set own \<or> rt_name r \<in> open_handlers) \<and> handler (rt_name r) None s = (res, s')
          \<or> (\<exists>p. live s p \<and> required_scope (rt_path r) \<le> pr_scope p \<and> handler (rt_name r) (Some p) s = (res, s'))))"
  using assms(1)
proof (cases rule: handle_request_cases)
  case (handled r p)
  note r = in_order_Some [OF assms(2) handled(1)]
  show ?thesis
  proof (cases "rt_guard r")
    case Open
    with handled r app_guards_fit [OF r(1)] show ?thesis by auto
  next
    case (By_bearer sc)
    with handled r app_guards_fit [OF r(1)] assms(3) [of r] show ?thesis by auto
  next
    case (By_cookie_or_bearer sc)
    with handled r app_guards_fit [OF r(1)] assms(3) [of r] show ?thesis by auto
  qed
qed blast

text \<open>The lifecycle requests of the REST interface, at their paths and with their handlers behind the
  guard of the table, are \<open>rest_lifecycle\<close> of theory Rest_Api.\<close>

fun lifecycle_path :: "lifecycle_route \<Rightarrow> string" where
  "lifecycle_path Promote = ''/api/registries/promote''"
| "lifecycle_path Revert = ''/api/registries/revert''"
| "lifecycle_path Undo_promote = ''/api/registries/undo-promote''"

definition lifecycle_handler :: "string \<Rightarrow> principal option \<Rightarrow> (db, exn, json) act" where
  "lifecycle_handler name p =
     (case p of
        None \<Rightarrow> raise not_found
      | Some x \<Rightarrow> in_session (if name = ''promote'' then rest_promote x
          else if name = ''revert'' then rest_revert x
          else if name = ''api_undo_promote'' then rest_undo x else raise not_found))"

lemma guard_then_session:
  assumes "\<And>x. h (Some x) = in_session (f x)"
  shows "bind (check_guard H clock (By_cookie_or_bearer sc) q) h s
     = in_session (bind (require_scope_via_cookie_or_bearer H clock sc (rq_authorization q) (rq_cookie q)) f) s"
proof -
  obtain x u where g: "require_scope_via_cookie_or_bearer H clock sc (rq_authorization q) (rq_cookie q) s = (x, u)" by fastforce
  with via_cookie_frame have "u = s" by blast
  with g show ?thesis by (cases x) (simp_all add: assms in_session_def bind_def ret_def)
qed

lemma lifecycle_routed:
  assumes "\<And>p x. CHR ''{'' \<notin> set p \<Longrightarrow> covers p x \<longleftrightarrow> x = p"
    and "in_order F covers" "\<And>r. r \<in> set own \<Longrightarrow> \<not> takes r ''POST''"
    and "rq_method q = ''POST''" "rq_path q = lifecycle_path rt"
  shows "handle_request (pf_hasher P) clock F (create_app own ui_dist assets) lifecycle_handler q
    = rest_lifecycle P clock (rq_authorization q) (rq_cookie q) rt"
proof
  fix s
  have own: "List.find (\<lambda>r. covers (rt_path r) x \<and> takes r ''POST'') (own @ rs)
      = List.find (\<lambda>r. covers (rt_path r) x \<and> takes r ''POST'') rs" for x rs
    using assms(3) by (induction own) auto
  have r: "fw_pick F (create_app own ui_dist assets) q = Some (post_route (By_cookie_or_bearer Admin) (lifecycle_path rt)
      (case rt of Promote \<Rightarrow> ''promote'' | Revert \<Rightarrow> ''revert'' | Undo_promote \<Rightarrow> ''api_undo_promote''))"
    unfolding assms(2) [unfolded in_order_def, rule_format] create_app_def assms(4,5) own
    by (cases rt) (simp_all add: routers takes_def assms(1))
  show "handle_request (pf_hasher P) clock F (create_app own ui_dist assets) lifecycle_handler q s
      = rest_lifecycle P clock (rq_authorization q) (rq_cookie q) rt s"
    unfolding handle_request_def r rest_lifecycle_def for_scope_def
    by (cases rt) (auto simp: post_route_def lifecycle_handler_def intro!: guard_then_session simp del: check_guard.simps)
qed

subsection \<open>Witnesses\<close>

text \<open>A caller without credentials is served instances; an administrator reaches the promotion.\<close>

definition toy_covers :: "string \<Rightarrow> string \<Rightarrow> bool" where
  "toy_covers p x \<longleftrightarrow> x = p \<or> (p = ''/api/data/{object_type_rid}/instances'' \<and> x = ''/api/data/ri.obj.1/instances'')"

definition toy_request :: "string \<Rightarrow> string \<Rightarrow> string \<Rightarrow> http_request" where
  "toy_request m path header = \<lparr>rq_method = m, rq_path = path, rq_authorization = header, rq_cookie = None\<rparr>"

definition toy_framework :: framework where
  "toy_framework = \<lparr>fw_pick = (\<lambda>rs q. List.find (\<lambda>r. toy_covers (rt_path r) (rq_path q) \<and> takes r (rq_method q)) rs),
     fw_refuse = (\<lambda>_ _. HTTPException 404 ''Not Found'')\<rparr>"

lemma toy_in_order: "in_order toy_framework toy_covers"
  by (simp add: in_order_def toy_framework_def)

lemmas toy_app = handle_request_def toy_framework_def create_app_def routers takes_def toy_covers_def toy_request_def ret_apply bind_apply

theorem requests_guarded_witness:
  "(let ask = (\<lambda>q. handle_request plain_hasher 0 toy_framework (create_app [] False False) (\<lambda>name p. ret (name, p)) q admin_db) in
     ask (toy_request ''GET'' ''/api/data/ri.obj.1/instances'' []) = (Inr (''list_instances'', None), admin_db)
     \<and> ''list_instances'' \<in> open_handlers
     \<and> (\<exists>p. ask (toy_request ''POST'' ''/api/registries/promote'' ''Bearer op_secret_1'') = (Inr (''promote'', Some p), admin_db)
         \<and> live admin_db p \<and> Admin \<le> pr_scope p))"
proof -
  let ?h = "\<lambda>name p. ret (name, p) :: (db, exn, string \<times> principal option) act"
  let ?ask = "\<lambda>q. handle_request plain_hasher 0 toy_framework (create_app [] False False) ?h q admin_db"
  let ?q = "toy_request ''GET'' ''/api/data/ri.obj.1/instances'' []"
  let ?r = "toy_request ''POST'' ''/api/registries/promote'' ''Bearer op_secret_1''"
  let ?p = "\<lparr>pr_token_id = ''t1'', pr_label = ''root'', pr_scope = Admin\<rparr>"
  have 1: "?ask ?q = (Inr (''list_instances'', None), admin_db)" by (simp add: toy_app)
  have 2: "?ask ?r = (Inr (''promote'', Some ?p), admin_db)" by (simp add: toy_app admin_db_passes)
  from requests_guarded [OF 1 toy_in_order] have "''list_instances'' \<in> open_handlers" by (auto simp: ret_apply)
  moreover from requests_guarded [OF 2 toy_in_order] have "live admin_db ?p" by (auto simp: ret_apply)
  ultimately show ?thesis using 1 2 by (simp add: Let_def)
qed

end
