(* ===== verification/Admin_Cli.thy ===== *)
theory Admin_Cli
  imports Upload_Files
begin

text \<open>
  \<open>cli.py\<close>: the operator's commands. Each opens a session of its own, which is rolled back when the
  command raises (\<open>in_session\<close>). The commands on the database come first, then \<open>main\<close> with the files
  and the standard output. Parsing the arguments is the standard library's; \<open>db-migrate\<close> runs another
  program (\<open>migrate\<close>).
\<close>

definition cmd_dump_registry :: "'n platform \<Rightarrow> env \<Rightarrow> (db, exn, json) act" where
  "cmd_dump_registry P e = in_session (bind (load e) (\<lambda>snap. ret (pf_dump_registry P (sn_registry snap))))"

definition cmd_restore_registry :: "'n platform \<Rightarrow> env \<Rightarrow> json \<Rightarrow> (db, exn, unit) act" where
  "cmd_restore_registry P e payload =
     bind (lift_sum (pf_parse_registry P payload)) (\<lambda>reg.
     in_session
       (bind (load e) (\<lambda>snap.
        bind (save e reg (Some (sn_version snap)) (Some ''cli'') None) (\<lambda>_. ret ()))))"

text \<open>Each connection in turn: its DSN is decrypted with the old key and encrypted with the new one.\<close>

fun rotate_each :: "fernet \<Rightarrow> fernet \<Rightarrow> connection list \<Rightarrow> (db, exn, unit) act" where
  "rotate_each old new [] = ret ()"
| "rotate_each old new (c # cs) =
     bind (decrypt_dsn old (co_id c)) (\<lambda>plaintext.
     bind (update_dsn new (co_id c) plaintext) (\<lambda>_. rotate_each old new cs))"

definition cmd_rotate_secret :: "fernet \<Rightarrow> fernet \<Rightarrow> (db, exn, unit) act" where
  "cmd_rotate_secret old new = in_session (bind list_all_connections (\<lambda>cs. rotate_each old new cs))"

definition cmd_force_revoke_all :: "(db, exn, nat) act" where
  "cmd_force_revoke_all = in_session (statement (\<lambda>s.
     (Inr (length (filter (\<lambda>t. tk_revoked_at t = None) (api_tokens s))),
      s\<lparr>api_tokens := update_where (\<lambda>t. tk_revoked_at t = None) (\<lambda>t. t\<lparr>tk_revoked_at := Some (db_now s)\<rparr>)
          (api_tokens s)\<rparr>)))"

subsection \<open>The commands with their files and output\<close>

text \<open>The parsed command line: the subcommand with its options.\<close>

datatype command =
    Db_migrate
  | Bootstrap_admin
  | Dump_registry env string
  | Restore_registry env string
  | Rotate_secret string
  | Force_revoke_all_tokens

text \<open>
  What the commands use besides the platform: the other program, the cipher of a key (or what an
  unfit key raises), the text of a JSON value and back, a fresh identifier and random characters.
\<close>

record cli_world =
  cw_migrate :: "(disk \<times> db, exn, unit) act"
  cw_fernet :: "string \<Rightarrow> exn + fernet"
  cw_to_text :: "json \<Rightarrow> string"
  cw_of_text :: "string \<Rightarrow> exn + json"
  cw_token_id :: uuid
  cw_random :: string

definition read_text :: "string \<Rightarrow> (disk \<times> db, exn, string) act" where
  "read_text path = (\<lambda>(fs, s). (case fs path of
     None \<Rightarrow> Inl (OtherException ''FileNotFoundError'' path) | Some body \<Rightarrow> Inr body, (fs, s)))"

definition NEWLINE :: char where
  "NEWLINE = CHR 10"

definition cmd_bootstrap_admin :: "'n platform \<Rightarrow> cli_world \<Rightarrow> (disk \<times> db, exn, string) act" where
  "cmd_bootstrap_admin P W =
     bind (on_db (in_session (bootstrap_admin_token_if_needed (pf_hasher P) (cw_token_id W) (cw_random W)))) (\<lambda>minted.
     ret (case minted of None \<Rightarrow> [] | Some token \<Rightarrow> ''ADMIN BOOTSTRAP TOKEN: '' @ token @ [NEWLINE]))"

text \<open>The answer of a command is what it writes to the standard output.\<close>

fun run_command :: "'n platform \<Rightarrow> cli_world \<Rightarrow> command \<Rightarrow> (disk \<times> db, exn, string) act" where
  "run_command P W Db_migrate = bind (cw_migrate W) (\<lambda>_. ret [])"
| "run_command P W Bootstrap_admin = cmd_bootstrap_admin P W"
| "run_command P W (Dump_registry e out) =
     bind (on_db (cmd_dump_registry P e)) (\<lambda>j.
     if out = ''-'' then ret (cw_to_text W j @ [NEWLINE])
     else bind (write_bytes out (cw_to_text W j)) (\<lambda>_. ret []))"
| "run_command P W (Restore_registry e inp) =
     bind (read_text inp) (\<lambda>payload.
     bind (lift_sum (cw_of_text W payload)) (\<lambda>j.
     bind (on_db (cmd_restore_registry P e j)) (\<lambda>_. ret [])))"
| "run_command P W (Rotate_secret new_key) =
     bind (lift_sum (cw_fernet W (secret_key (pf_settings P)))) (\<lambda>old.
     bind (lift_sum (cw_fernet W new_key)) (\<lambda>new.
     bind (on_db (cmd_rotate_secret old new)) (\<lambda>_.
     ret (''rotated; restart the server with the new ONTO_SECRET_KEY'' @ [NEWLINE]))))"
| "run_command P W Force_revoke_all_tokens =
     bind (on_db cmd_force_revoke_all) (\<lambda>n. ret (''revoked '' @ int_str (int n) @ '' tokens'' @ [NEWLINE]))"

text \<open>The exit code of \<open>main\<close> with its output; a command that raises ends the process with a traceback.\<close>

definition cli_main :: "'n platform \<Rightarrow> cli_world \<Rightarrow> command \<Rightarrow> (disk \<times> db, exn, nat \<times> string) act" where
  "cli_main P W c = bind (run_command P W c) (\<lambda>out. ret (0, out))"

subsection \<open>Facts\<close>

text \<open>The rows of the connections listed so far carry the new cipher text, the others the old one.\<close>

definition rotated :: "fernet \<Rightarrow> (uuid \<Rightarrow> string) \<Rightarrow> string list \<Rightarrow> connection_row list \<Rightarrow> connection_row list" where
  "rotated new plain ids rows =
     map (\<lambda>r. if cn_id r \<in> set ids then r\<lparr>cn_dsn_encrypted := fernet_encrypt new (plain (cn_id r))\<rparr> else r) rows"

lemma rotated_Nil [simp]: "rotated new plain [] rows = rows"
  by (simp add: rotated_def)

lemma find_by_id: "distinct (map cn_id rows) \<Longrightarrow> r \<in> set rows \<Longrightarrow> List.find (\<lambda>x. cn_id x = cn_id r) rows = Some r"
  by (induction rows) auto

lemma rotate_step:
  assumes "\<not> tx_aborted s" "distinct (map cn_id (connections s))" "r \<in> set (connections s)"
    and "fernet_decrypt old (cn_dsn_encrypted r) = Inr (plain (cn_id r))"
  shows "bind (decrypt_dsn old (cn_id r)) (\<lambda>p. bind (update_dsn new (cn_id r) p) (\<lambda>_. m)) s
    = m (s\<lparr>connections := rotated new plain [cn_id r] (connections s)\<rparr>)"
proof -
  have "rotated new plain [cn_id r] (connections s) = update_where (\<lambda>x. cn_id x = cn_id r)
      (\<lambda>x. x\<lparr>cn_dsn_encrypted := fernet_encrypt new (plain (cn_id r))\<rparr>) (connections s)"
    by (auto simp: rotated_def update_where_def)
  then show ?thesis
    using assms find_by_id [OF assms(2,3)]
    by (simp add: decrypt_dsn_def update_dsn_def find_connection_def statement_def act_simps)
qed

lemma rotate_each_run:
  assumes "distinct (map co_id cs)" "\<not> tx_aborted s" "distinct (map cn_id (connections s))"
    and "\<forall>c \<in> set cs. \<exists>r \<in> set (connections s). cn_id r = co_id c
      \<and> fernet_decrypt old (cn_dsn_encrypted r) = Inr (plain (cn_id r))"
  shows "rotate_each old new cs s = (Inr (), s\<lparr>connections := rotated new plain (map co_id cs) (connections s)\<rparr>)"
  using assms
proof (induction cs arbitrary: s)
  case (Cons c cs)
  from Cons.prems(4) obtain r where r: "r \<in> set (connections s)" "cn_id r = co_id c"
    "fernet_decrypt old (cn_dsn_encrypted r) = Inr (plain (cn_id r))" by auto
  let ?s = "s\<lparr>connections := rotated new plain [cn_id r] (connections s)\<rparr>"
  have run: "rotate_each old new (c # cs) s = rotate_each old new cs ?s"
    using rotate_step [where plain = plain, OF Cons.prems(2,3) r(1,3), of new "rotate_each old new cs"] by (simp add: r(2))
  have ids: "map cn_id (rotated new plain ids rows) = map cn_id rows" for ids rows
    by (simp add: rotated_def comp_def cong: map_cong)
  have later: "\<forall>d \<in> set cs. \<exists>q \<in> set (connections ?s). cn_id q = co_id d
      \<and> fernet_decrypt old (cn_dsn_encrypted q) = Inr (plain (cn_id q))"
  proof
    fix d assume d: "d \<in> set cs"
    with Cons.prems(4) obtain q where q: "q \<in> set (connections s)" "cn_id q = co_id d"
      "fernet_decrypt old (cn_dsn_encrypted q) = Inr (plain (cn_id q))" by auto
    from d Cons.prems(1) r(2) q(2) have "cn_id q \<noteq> cn_id r" by force
    with q show "\<exists>q \<in> set (connections ?s). cn_id q = co_id d
      \<and> fernet_decrypt old (cn_dsn_encrypted q) = Inr (plain (cn_id q))"
      by (intro bexI [of _ q]) (auto simp: rotated_def)
  qed
  have "rotate_each old new cs ?s = (Inr (), ?s\<lparr>connections := rotated new plain (map co_id cs) (connections ?s)\<rparr>)"
    using Cons.IH [of ?s] Cons.prems(1-3) later ids by simp
  moreover have "rotated new plain (map co_id cs) (connections ?s) = rotated new plain (map co_id (c # cs)) (connections s)"
    by (auto simp: rotated_def r(2))
  ultimately show ?case unfolding run by simp
qed (simp add: act_simps)

text \<open>What a listing returns: the rows' identifiers in the order of their labels.\<close>

lemma list_all_run:
  assumes "\<not> tx_aborted s" "kinds_ok s"
  obtains cs where "list_all_connections s = (Inr cs, s)"
    "map co_id cs = map cn_id (sort_key cn_label (connections s))"
proof -
  have "\<exists>cs. collect (map connection_of_row rows) = Inr cs \<and> map co_id cs = map cn_id rows"
    if "\<forall>row \<in> set rows. cn_kind row \<in> {''postgres'', ''mysql'', ''sqlite''}" for rows
    using that by (induction rows) (auto simp: connection_of_row_def parse_kind_def)
  from this [of "sort_key cn_label (connections s)"] assms(2) obtain cs where
    "collect (map connection_of_row (sort_key cn_label (connections s))) = Inr cs"
    "map co_id cs = map cn_id (sort_key cn_label (connections s))" by (auto simp: kinds_ok_def)
  with assms(1) that show thesis by (simp add: list_all_connections_def statement_def)
qed

lemma revoked_tokens:
  assumes "cmd_force_revoke_all s = (Inr n, s')"
  shows "api_tokens s' = map (\<lambda>t. if tk_revoked_at t = None then t\<lparr>tk_revoked_at := Some (db_now s)\<rparr> else t) (api_tokens s)"
    "n = length (filter (\<lambda>t. tk_revoked_at t = None) (api_tokens s))" "s' = s\<lparr>api_tokens := api_tokens s'\<rparr>"
  using assms
  by (auto simp: cmd_force_revoke_all_def in_session_def statement_def update_where_def split: if_splits)

lemma restore_effect:
  assumes "cmd_restore_registry P e j s = (y, t)"
  shows "(\<exists>x. y = Inl x) \<and> t = s \<or> y = Inr () \<and> (\<exists>reg n. slot t = (slot s)(e \<mapsto> (reg, n)))"
proof (cases "pf_parse_registry P j")
  case (Inl x)
  with assms show ?thesis by (auto simp: cmd_restore_registry_def act_simps)
next
  case (Inr reg)
  show ?thesis
  proof (cases "slot s e")
    case None
    with assms Inr show ?thesis by (auto simp: cmd_restore_registry_def in_session_def act_simps)
  next
    case (Some old)
    with assms Inr have "y = Inr ()" "slot t = (slot s)(e \<mapsto> (reg, snd old + 1))"
      by (cases old; auto simp: cmd_restore_registry_def in_session_def act_simps)+
    then show ?thesis by blast
  qed
qed

text \<open>A command that is one session keeps the disk, and everything when it raises.\<close>

lemma session_command:
  assumes "bind (bind (on_db (in_session m)) (\<lambda>x. ret (f x))) (\<lambda>out. ret (0 :: nat, out)) (fs, s) = (res, (fs', s'))"
    and "slot (snd (m s)) = slot s"
  shows "fs' = fs \<and> slot s' = slot s \<and> ((\<exists>e. res = Inl e) \<longrightarrow> s' = s)"
proof -
  obtain y t where m: "m s = (y, t)" by fastforce
  with assms show ?thesis by (cases y) (auto simp: act_simps in_session_def)
qed

lemma bootstrap_slots: "bootstrap_admin_token_if_needed H i r s = (y, t) \<Longrightarrow> slot t = slot s"
  by (auto simp: bootstrap_admin_token_if_needed_def insert_token_def statement_def act_simps Let_def slot_def fun_eq_iff
      split: if_splits)

lemma decrypt_slots: "decrypt_dsn F i s = (y, t) \<Longrightarrow> t = s"
  by (auto simp: decrypt_dsn_def statement_def act_simps split: if_splits option.splits sum.splits)

lemma update_slots: "update_dsn F i x s = (y, t) \<Longrightarrow> slot t = slot s"
  by (auto simp: update_dsn_def statement_def act_simps slot_def fun_eq_iff split: if_splits)

lemma list_all_frame: "list_all_connections s = (y, t) \<Longrightarrow> t = s"
  by (auto simp: list_all_connections_def statement_def act_simps split: if_splits)

lemma rotate_slots: "rotate_each old new cs s = (y, t) \<Longrightarrow> slot t = slot s"
proof (induction cs arbitrary: s)
  case (Cons c cs)
  obtain x u where d: "decrypt_dsn old (co_id c) s = (x, u)" by fastforce
  show ?case
  proof (cases x)
    case (Inl e)
    with Cons.prems d decrypt_slots [OF d] show ?thesis by (simp add: act_simps)
  next
    case (Inr p)
    obtain z v where w: "update_dsn new (co_id c) p u = (z, v)" by fastforce
    with Cons d Inr decrypt_slots [OF d] update_slots [OF w] show ?thesis by (cases z) (auto simp: act_simps)
  qed
qed (simp add: act_simps)

subsection \<open>Properties\<close>

text \<open>What \<open>main\<close> leaves alone: a command that raises changes no table, none but a dump to a file touches
  the disk, and none but the migration and a restore touches a registry.\<close>
theorem commands_confined:
  assumes "cli_main P W c (fs, s) = (res, (fs', s'))" and "c \<noteq> Db_migrate"
  shows "((\<exists>e. res = Inl e) \<longrightarrow> fs' = fs \<and> s' = s)
    \<and> (fs' = fs \<or> (\<exists>e out body. c = Dump_registry e out \<and> out \<noteq> ''-'' \<and> fs' = fs(out \<mapsto> body) \<and> s' = s))
    \<and> (slot s' = slot s \<or> (\<exists>e inp reg n. c = Restore_registry e inp \<and> slot s' = (slot s)(e \<mapsto> (reg, n))))"
proof (cases c)
  case (Dump_registry e out)
  then show ?thesis using assms(1)
    by (cases "slot s e") (auto simp: cli_main_def act_simps cmd_dump_registry_def in_session_def split: if_splits)
next
  case (Restore_registry e inp)
  show ?thesis
  proof (cases "fs inp")
    case None
    with assms(1) Restore_registry show ?thesis by (auto simp: cli_main_def act_simps read_text_def)
  next
    case (Some payload)
    show ?thesis
    proof (cases "cw_of_text W payload")
      case (Inl x)
      with assms(1) Restore_registry Some show ?thesis by (auto simp: cli_main_def act_simps read_text_def)
    next
      case (Inr j)
      obtain y t where run: "cmd_restore_registry P e j s = (y, t)" by fastforce
      with assms(1) Restore_registry Some Inr have y: "fs' = fs" "s' = t" "(\<exists>x. res = Inl x) \<longleftrightarrow> (\<exists>x. y = Inl x)"
        by (cases y; auto simp: cli_main_def act_simps read_text_def)+
      with restore_effect [OF run] Restore_registry show ?thesis by auto
    qed
  qed
next
  case Bootstrap_admin
  with assms(1) have "bind (bind (on_db (in_session (bootstrap_admin_token_if_needed (pf_hasher P) (cw_token_id W) (cw_random W))))
      (\<lambda>minted. ret (case minted of None \<Rightarrow> [] | Some token \<Rightarrow> ''ADMIN BOOTSTRAP TOKEN: '' @ token @ [NEWLINE])))
      (\<lambda>out. ret (0, out)) (fs, s) = (res, (fs', s'))" by (simp add: cli_main_def cmd_bootstrap_admin_def)
  from session_command [OF this] bootstrap_slots show ?thesis by (metis prod.collapse)
next
  case (Rotate_secret key)
  show ?thesis
  proof (cases "\<exists>old new. cw_fernet W (secret_key (pf_settings P)) = Inr old \<and> cw_fernet W key = Inr new")
    case True
    then obtain old new where "cw_fernet W (secret_key (pf_settings P)) = Inr old" "cw_fernet W key = Inr new" by blast
    with assms(1) Rotate_secret have run: "bind (bind (on_db (in_session (bind list_all_connections (rotate_each old new))))
        (\<lambda>_. ret (''rotated; restart the server with the new ONTO_SECRET_KEY'' @ [NEWLINE]))) (\<lambda>out. ret (0, out)) (fs, s)
      = (res, (fs', s'))" by (simp add: cli_main_def cmd_rotate_secret_def bind_apply lift_sum_apply)
    have "slot (snd (bind list_all_connections (rotate_each old new) s)) = slot s"
    proof (cases "list_all_connections s")
      case (Pair x u)
      with list_all_frame rotate_slots [OF surjective_pairing] show ?thesis by (cases x) (auto simp: bind_def)
    qed
    from session_command [OF run this] show ?thesis by blast
  next
    case False
    with assms(1) Rotate_secret show ?thesis
      by (cases "cw_fernet W (secret_key (pf_settings P))"; cases "cw_fernet W key") (auto simp: cli_main_def act_simps)
  qed
next
  case Force_revoke_all_tokens
  with assms(1) have "bind (bind (on_db cmd_force_revoke_all) (\<lambda>n. ret (''revoked '' @ int_str (int n) @ '' tokens'' @ [NEWLINE])))
      (\<lambda>out. ret (0, out)) (fs, s) = (res, (fs', s'))" by (simp add: cli_main_def)
  from session_command [OF this [unfolded cmd_force_revoke_all_def]] show ?thesis
    by (auto simp: statement_def slot_def fun_eq_iff split: if_splits)
qed (use assms in simp)

text \<open>A registry survives a dump and a restore. What \<open>main\<close> dumped from an environment into a file,
  restored from that file on any later database, becomes the registry of the environment named, under
  the next version, and no other environment changes; a dump to the standard output is the same text.\<close>
theorem dump_restore_roundtrip:
  assumes "pf_parse_registry P (pf_dump_registry P reg) = Inr reg" "cw_of_text W (cw_to_text W (pf_dump_registry P reg)) = Inr (pf_dump_registry P reg)"
    and "slot s d = Some (reg, n)" "slot t e = Some (old, m)" "path \<noteq> ''-''"
  shows "\<exists>fs' t'. cli_main P W (Dump_registry d path) (fs, s) = (Inr (0, []), (fs', s))
    \<and> (\<exists>body. fs' = fs(path \<mapsto> body) \<and> cli_main P W (Dump_registry d ''-'') (fs, s) = (Inr (0, body @ [NEWLINE]), (fs, s)))
    \<and> cli_main P W (Restore_registry e path) (fs', t) = (Inr (0, []), (fs', t'))
    \<and> slot t' = (slot t)(e \<mapsto> (reg, m + 1))"
  using assms
  by (simp add: cli_main_def read_text_def cmd_dump_registry_def cmd_restore_registry_def in_session_def act_simps)

text \<open>A restore does not validate: whatever the file parses to, well-formed or not, becomes the
  registry of the environment, so the command can leave a state no other part of the service reaches.\<close>
theorem restore_skips_validation:
  assumes "pf_parse_registry P j = Inr bad" "\<not> wf_ontology UNIV bad" "service_sound s" "parsers_ok P"
  shows "\<exists>s'. cmd_restore_registry P Production j s = (Inr (), s')
    \<and> (\<exists>n. slot s' Production = Some (bad, n)) \<and> \<not> serves P rf L (migrated t) s'"
proof -
  from assms(3) obtain r n where sl: "slot s Production = Some (r, n)"
    unfolding service_sound_def sound_def by metis
  let ?s = "saved Production bad (Some ''cli'') None s"
  have run: "cmd_restore_registry P Production j s = (Inr (), ?s)"
    using assms(1) sl by (simp add: cmd_restore_registry_def in_session_def act_simps)
  have new: "slot ?s Production = Some (bad, n + 1)" using sl by simp
  have "\<not> serves P rf L (migrated t) ?s"
  proof
    assume "serves P rf L (migrated t) ?s"
    with serves_keeps [OF this assms(4)] service_migrated [of t] have "sound ?s"
      unfolding keeps_def service_sound_def by blast
    from good_of_slot [OF this new] assms(2) show False by (simp add: good_def)
  qed
  with run new show ?thesis by blast
qed

text \<open>C34: rotating the key keeps every connection string. When the old key reads the stored strings and
  the new key reads what it encrypts, then after the rotation the new key reads for every connection
  the string the old key read before; no row is added, lost or otherwise changed. When the old key
  fails on one of them the command raises and no string has been changed.\<close>
theorem rotate_secret_keeps_strings:
  assumes "\<not> tx_aborted s" "kinds_ok s" "distinct (map cn_id (connections s))"
    and "\<And>x. fernet_decrypt new (fernet_encrypt new x) = Inr x"
  shows "((\<forall>r \<in> set (connections s). fernet_decrypt old (cn_dsn_encrypted r) = Inr (plain (cn_id r))) \<longrightarrow>
      (\<exists>s'. cmd_rotate_secret old new s = (Inr (), s')
        \<and> s' = s\<lparr>connections := map (\<lambda>r. r\<lparr>cn_dsn_encrypted := fernet_encrypt new (plain (cn_id r))\<rparr>) (connections s)\<rparr>
        \<and> (\<forall>r \<in> set (connections s). decrypt_dsn new (cn_id r) s' = (Inr (plain (cn_id r)), s'))))
    \<and> (\<forall>e s'. cmd_rotate_secret old new s = (Inl e, s') \<longrightarrow> s' = s)"
proof (intro conjI impI allI)
  show "s' = s" if "cmd_rotate_secret old new s = (Inl e, s')" for e s'
    using that unfolding cmd_rotate_secret_def by (cases rule: in_session_cases) auto
next
  assume old: "\<forall>r \<in> set (connections s). fernet_decrypt old (cn_dsn_encrypted r) = Inr (plain (cn_id r))"
  obtain cs where cs: "list_all_connections s = (Inr cs, s)"
    and ids: "map co_id cs = map cn_id (sort_key cn_label (connections s))" by (rule list_all_run [OF assms(1,2)])
  have same: "set (map co_id cs) = set (map cn_id (connections s))" unfolding ids by simp
  have "distinct (map co_id cs)" unfolding ids using assms(3) by (simp add: distinct_map)
  moreover have "\<forall>c \<in> set cs. \<exists>r \<in> set (connections s). cn_id r = co_id c
      \<and> fernet_decrypt old (cn_dsn_encrypted r) = Inr (plain (cn_id r))"
  proof
    fix c assume "c \<in> set cs"
    then have "co_id c \<in> set (map cn_id (connections s))" unfolding same [symmetric] by simp
    with old show "\<exists>r \<in> set (connections s). cn_id r = co_id c
        \<and> fernet_decrypt old (cn_dsn_encrypted r) = Inr (plain (cn_id r))" by auto
  qed
  ultimately have run: "rotate_each old new cs s
      = (Inr (), s\<lparr>connections := rotated new plain (map co_id cs) (connections s)\<rparr>)"
    using rotate_each_run [of cs s old plain new] assms(1,3) by blast
  let ?rows = "map (\<lambda>r. r\<lparr>cn_dsn_encrypted := fernet_encrypt new (plain (cn_id r))\<rparr>) (connections s)"
  have rows: "rotated new plain (map co_id cs) (connections s) = ?rows"
    unfolding rotated_def same by simp
  have found: "List.find (\<lambda>x. cn_id x = cn_id r) ?rows = Some (r\<lparr>cn_dsn_encrypted := fernet_encrypt new (plain (cn_id r))\<rparr>)"
    if "r \<in> set (connections s)" for r
    using find_by_id [of ?rows "r\<lparr>cn_dsn_encrypted := fernet_encrypt new (plain (cn_id r))\<rparr>"] that assms(3)
    by (simp add: comp_def)
  show "\<exists>s'. cmd_rotate_secret old new s = (Inr (), s') \<and> s' = s\<lparr>connections := ?rows\<rparr>
      \<and> (\<forall>r \<in> set (connections s). decrypt_dsn new (cn_id r) s' = (Inr (plain (cn_id r)), s'))"
    using assms(1,4) found
    by (simp add: cmd_rotate_secret_def in_session_def act_simps cs run rows decrypt_dsn_def statement_def find_connection_def)
qed

text \<open>Revoking every token locks everyone out. After the command no request is authorised, by bearer
  or by cookie, at any scope; and since the table of tokens is not empty, the next start of the
  application mints no administrator's token either.\<close>
theorem force_revoke_locks_out:
  assumes "cmd_force_revoke_all s = (Inr n, s')" and "api_tokens s \<noteq> []"
  shows "n = length (filter (\<lambda>t. tk_revoked_at t = None) (api_tokens s))
    \<and> (\<forall>H clock m header cookie p. \<not> authorised H clock m header cookie s' p)
    \<and> bootstrap_admin_token_if_needed H new_id random s' = (Inr None, s')"
proof (intro conjI allI)
  note rev = revoked_tokens [OF assms(1)]
  show "n = length (filter (\<lambda>t. tk_revoked_at t = None) (api_tokens s))" by (rule rev(2))
  show "\<not> authorised H clock m header cookie s' p" for H clock m header cookie p
  proof
    assume "authorised H clock m header cookie s' p"
    from authorised_live(2) [OF this] obtain t where "t \<in> set (api_tokens s')" "tk_revoked_at t = None" by blast
    then show False unfolding rev(1) by (auto split: if_splits)
  qed
  from assms(2) rev(1) show "bootstrap_admin_token_if_needed H new_id random s' = (Inr None, s')"
    by (simp add: bootstrap_admin_token_if_needed_def act_simps)
qed

subsection \<open>Witnesses\<close>

definition toy_cli :: cli_world where
  "toy_cli = \<lparr>cw_migrate = ret (), cw_fernet = (\<lambda>_. Inr plain_fernet), cw_to_text = (\<lambda>_. ''{}''), cw_of_text = (\<lambda>_. Inr JNull),
     cw_token_id = ''t1'', cw_random = ''secret''\<rparr>"

theorem dump_restore_roundtrip_witness:
  "\<exists>fs' t'. cli_main toy_platform toy_cli (Dump_registry Staging ''/tmp/r.json'') (Map.empty, migrated 0) = (Inr (0, []), (fs', migrated 0))
     \<and> cli_main toy_platform toy_cli (Restore_registry Production ''/tmp/r.json'') (fs', migrated 0) = (Inr (0, []), (fs', t'))
     \<and> slot t' Production = Some (empty_registry, 1)"
proof -
  have parse: "pf_parse_registry toy_platform (pf_dump_registry toy_platform empty_registry) = Inr empty_registry"
    "cw_of_text toy_cli (cw_to_text toy_cli (pf_dump_registry toy_platform empty_registry)) = Inr (pf_dump_registry toy_platform empty_registry)"
    by (simp_all add: toy_platform_def toy_cli_def)
  have sl: "slot (migrated 0) e = Some (empty_registry, 0)" for e
    using migrated_slots [of 0] by (cases e) (simp_all add: slots_def)
  from dump_restore_roundtrip [where fs = Map.empty and path = "''/tmp/r.json''" and d = Staging and e = Production, OF parse sl sl] show ?thesis by force
qed

theorem commands_confined_witness:
  "\<exists>s'. cli_main toy_platform toy_cli Bootstrap_admin (Map.empty, migrated 0)
       = (Inr (0, ''ADMIN BOOTSTRAP TOKEN: op_secret'' @ [NEWLINE]), (Map.empty, s')) \<and> slot s' = slot (migrated 0)"
proof -
  have "\<exists>s'. cli_main toy_platform toy_cli Bootstrap_admin (Map.empty, migrated 0)
       = (Inr (0, ''ADMIN BOOTSTRAP TOKEN: op_secret'' @ [NEWLINE]), (Map.empty, s'))"
    by (simp add: cli_main_def cmd_bootstrap_admin_def toy_cli_def toy_platform_def in_session_def bootstrap_admin_token_if_needed_def insert_token_def
        statement_def generate_token_def TOKEN_PREFIX_def act_simps migrated_def Let_def)
  then obtain s' where run: "cli_main toy_platform toy_cli Bootstrap_admin (Map.empty, migrated 0)
       = (Inr (0, ''ADMIN BOOTSTRAP TOKEN: op_secret'' @ [NEWLINE]), (Map.empty, s'))" by blast
  from commands_confined [OF run] have "slot s' = slot (migrated 0)" by simp
  with run show ?thesis by blast
qed

definition bad_registry :: registry where
  "bad_registry = empty_registry\<lparr>action_types := [(''x'', mk_action_type ''x'')]\<rparr>"

theorem restore_skips_validation_witness:
  "\<exists>s'. cmd_restore_registry (toy_platform\<lparr>pf_parse_registry := (\<lambda>j. if j = JNull then Inr empty_registry else Inr bad_registry)\<rparr>)
      Production (JInt 1) (migrated 0) = (Inr (), s') \<and> (\<exists>n. slot s' Production = Some (bad_registry, n))"
proof -
  let ?P = "toy_platform\<lparr>pf_parse_registry := (\<lambda>j. if j = JNull then Inr empty_registry else Inr bad_registry)\<rparr>"
  have "\<not> rid_form ''action'' ''x''" by (simp add: rid_form_def)
  then have bad: "\<not> wf_ontology UNIV bad_registry"
    by (simp add: bad_registry_def wf_ontology_def wf_action_def named_def mk_action_type_def)
  have "keys_ok bad_registry" by (simp add: bad_registry_def keys_ok_def empty_registry_def dict_ok_def)
  then have "parsers_ok ?P"
    using toy_parsers by (auto simp: parsers_ok_def keys_ok_empty split: if_splits)
  from restore_skips_validation [where j = "JInt 1" and rf = "\<lambda>_. []" and L = stub_acompletion and t = 0,
      OF _ bad service_migrated [of 0] this] show ?thesis by auto
qed

definition prefix_fernet :: fernet where
  "prefix_fernet = \<lparr>fernet_encrypt = (\<lambda>x. CHR ''n'' # x), fernet_decrypt = (\<lambda>b. Inr (tl b))\<rparr>"

definition keyed_db :: db where
  "keyed_db = (migrated 0)\<lparr>connections := [\<lparr>cn_id = ''c1'', cn_label = ''main'', cn_kind = ''sqlite'',
     cn_dsn_encrypted = rev ''sqlite:///x'', cn_created_at = 0, cn_last_probe_ok_at = None\<rparr>]\<rparr>"

theorem rotate_secret_keeps_strings_witness:
  "\<exists>s'. cmd_rotate_secret plain_fernet prefix_fernet keyed_db = (Inr (), s')
     \<and> decrypt_dsn prefix_fernet ''c1'' s' = (Inr ''sqlite:///x'', s')"
proof -
  have db: "\<not> tx_aborted keyed_db" "kinds_ok keyed_db" "distinct (map cn_id (connections keyed_db))"
    by (simp_all add: keyed_db_def migrated_def kinds_ok_def)
  have new: "fernet_decrypt prefix_fernet (fernet_encrypt prefix_fernet x) = Inr x" for x
    by (simp add: prefix_fernet_def)
  have "\<forall>r \<in> set (connections keyed_db). fernet_decrypt plain_fernet (cn_dsn_encrypted r) = Inr ''sqlite:///x''"
    by (simp add: keyed_db_def plain_fernet_def)
  with rotate_secret_keeps_strings [OF db new, of plain_fernet "\<lambda>_. ''sqlite:///x''"] show ?thesis
    by (auto simp: keyed_db_def)
qed

theorem force_revoke_locks_out_witness:
  "\<exists>s'. cmd_force_revoke_all admin_db = (Inr 1, s')
     \<and> (\<forall>p. \<not> authorised plain_hasher 0 Read ''Bearer op_secret_1'' None s' p)"
proof -
  have tok: "api_tokens admin_db \<noteq> []" "length (filter (\<lambda>t. tk_revoked_at t = None) (api_tokens admin_db)) = 1"
    by (simp_all add: admin_db_def insert_token_def statement_def migrated_def plain_hasher_def)
  obtain n s' where run: "cmd_force_revoke_all admin_db = (Inr n, s')"
    by (simp add: cmd_force_revoke_all_def in_session_def statement_def admin_db_facts)
  from force_revoke_locks_out [OF run tok(1), of plain_hasher "[]" "[]"] tok(2) run show ?thesis by auto
qed

end
