(* ===== verification/Maintenance_Scripts.thy ===== *)
theory Maintenance_Scripts
  imports Schema_Import Admin_Cli
begin

text \<open>
  \<open>fix_mappings.py\<close> and \<open>scripts/register_connections.py\<close>: the script that binds nine imported object
  types to tables of one database, on the JSON of the production payload, and the script that
  registers four connections. Printing is left out.
\<close>

subsection \<open>Binding the object types\<close>

definition MES_SQLITE :: string where
  "MES_SQLITE = ''95a97bee-124f-46ec-a321-753b35c18e23''"

definition MAPPINGS :: "(string, string \<times> string \<times> (string, string) dict) dict" where
  "MAPPINGS = [
    (''ri.obj.0000'', MES_SQLITE, ''product'',
      [(''unit'', ''label''), (''status'', ''stock_real''), (''description'', ''description''),
       (''productCode'', ''ref''), (''productName'', ''label''), (''productType'', ''type''),
       (''standardCost'', ''price''), (''specification'', ''note_public'')]),
    (''ri.obj.0003'', MES_SQLITE, ''mo'',
      [(''status'', ''status''), (''orderNo'', ''ref''), (''priority'', ''qty''),
       (''quantity'', ''qty''), (''productId'', ''product_id''), (''notePublic'', ''note_public''),
       (''planDateEnd'', ''plan_date_end''), (''actualDateEnd'', ''plan_date_end''),
       (''planDateStart'', ''plan_date_start''), (''actualDateStart'', ''plan_date_start'')]),
    (''ri.obj.0007'', MES_SQLITE, ''stockmovement'',
      [(''lotNo'', ''label''), (''status'', ''type''), (''quantity'', ''qty''),
       (''recordId'', ''id''), (''productId'', ''product_id''), (''expiryDate'', ''datem''),
       (''locationId'', ''warehouse_id'')]),
    (''ri.obj.0008'', MES_SQLITE, ''warehouse'',
      [(''area'', ''description''), (''status'', ''ref''), (''locationCode'', ''ref''),
       (''locationName'', ''label''), (''locationType'', ''description''),
       (''parentLocation'', ''id'')]),
    (''ri.obj.0010'', MES_SQLITE, ''bom'',
      [(''bomId'', ''ref''), (''status'', ''status''), (''version'', ''qty''),
       (''productId'', ''product_id''), (''description'', ''label'')]),
    (''ri.obj.0012'', MES_SQLITE, ''stockmovement'',
      [(''type'', ''type''), (''datem'', ''datem''), (''label'', ''label''), (''quantity'', ''qty''),
       (''productId'', ''product_id''), (''movementId'', ''id''),
       (''warehouseId'', ''warehouse_id'')]),
    (''ri.obj.0013'', MES_SQLITE, ''operationreport'',
      [(''notes'', ''notes''), (''worker'', ''worker''), (''reportId'', ''id''),
       (''outputQty'', ''output_qty''), (''reportedAt'', ''reported_at''),
       (''workTimeMin'', ''work_time_min''), (''assignmentId'', ''assignment_id''),
       (''defectiveQty'', ''defective_qty''), (''qualifiedQty'', ''qualified_qty'')]),
    (''ri.obj.0014'', MES_SQLITE, ''materialconsumption'',
      [(''qty'', ''qty''), (''lotNo'', ''lot_no''), (''productId'', ''product_id''),
       (''recordedAt'', ''recorded_at''), (''assignmentId'', ''assignment_id''),
       (''consumptionId'', ''id'')]),
    (''ri.obj.0004'', MES_SQLITE, ''operationassignment'',
      [(''status'', ''status''), (''sequence'', ''sequence''), (''toolType'', ''machine_code''),
       (''setupTime'', ''setup_time''), (''machineType'', ''operation_code''),
       (''yieldTarget'', ''yield_rate''), (''operationCode'', ''operation_code''),
       (''operationName'', ''operation_name''), (''runTimePerUnit'', ''run_time_per_unit'')])]"

definition mapped_asset :: "string \<Rightarrow> string \<Rightarrow> json" where
  "mapped_asset conn_id table = JObj [(''read_connection_id'', JStr conn_id), (''read_asset_path'', JStr table),
     (''writeback_enabled'', JBool False), (''writeback_connection_id'', JStr []), (''writeback_asset_path'', JStr [])]"

text \<open>\<open>col_map.get(prop.get("api_name", ""), "")\<close>: a list or an object is not hashable.\<close>

definition mapped_column :: "(string, string) dict \<Rightarrow> (string, json) dict \<Rightarrow> exn + string" where
  "mapped_column col_map d =
     (case get_dflt ''api_name'' (JStr []) d of
        JStr t \<Rightarrow> Inr (case dict_get col_map t of None \<Rightarrow> [] | Some phys \<Rightarrow> phys)
      | JList _ \<Rightarrow> Inl ill_typed | JObj _ \<Rightarrow> Inl ill_typed | _ \<Rightarrow> Inr [])"

definition fix_property :: "(string, string) dict \<Rightarrow> string \<times> json \<Rightarrow> exn + string \<times> json" where
  "fix_property col_map entry =
     (case entry of (k, JObj d) \<Rightarrow> bind_sum (mapped_column col_map d) (\<lambda>phys.
          Inr (k, JObj (if phys \<noteq> [] then dict_set ''physical_column'' (JStr phys) d else dict_pop ''physical_column'' d)))
      | _ \<Rightarrow> Inl ill_typed)"

definition fix_properties :: "(string, string) dict \<Rightarrow> (string, json) dict \<Rightarrow> exn + (string, json) dict" where
  "fix_properties col_map d =
     (case dict_get d ''property_types'' of
        None \<Rightarrow> Inr d
      | Some (JObj pts) \<Rightarrow>
          bind_sum (collect (map (fix_property col_map) pts)) (\<lambda>pts'. Inr (dict_set ''property_types'' (JObj pts') d))
      | Some _ \<Rightarrow> Inl ill_typed)"

text \<open>The line printed for an object reads its \<open>api_name\<close>.\<close>

definition fix_object :: "string \<times> string \<times> (string, string) dict \<Rightarrow> json \<Rightarrow> exn + json" where
  "fix_object m obj =
     (case (m, obj) of ((conn_id, table, col_map), JObj d) \<Rightarrow>
          bind_sum (fix_properties col_map (dict_set ''asset_mapping'' (mapped_asset conn_id table) d)) (\<lambda>d'.
          bind_sum (subscript ''api_name'' (JObj d')) (\<lambda>_. Inr (JObj d')))
      | _ \<Rightarrow> Inl ill_typed)"

fun fix_each ::
  "(string, string \<times> string \<times> (string, string) dict) dict \<Rightarrow> (string, json) dict \<Rightarrow> exn + (string, json) dict" where
  "fix_each [] objs = Inr objs"
| "fix_each ((rid, m) # ms) objs =
     (case dict_get objs rid of
        None \<Rightarrow> fix_each ms objs
      | Some obj \<Rightarrow> if \<not> truthy obj then fix_each ms objs
          else bind_sum (fix_object m obj) (\<lambda>obj'. fix_each ms (dict_set rid obj' objs)))"

definition fix_payload :: "json \<Rightarrow> exn + json" where
  "fix_payload payload =
     bind_sum (subscript ''object_types'' payload) (\<lambda>ots. case (payload, ots) of
         (JObj d, JObj objs) \<Rightarrow>
           bind_sum (fix_each MAPPINGS objs) (\<lambda>objs'. Inr (JObj (dict_set ''object_types'' (JObj objs') d)))
       | _ \<Rightarrow> Inl ill_typed)"

text \<open>
  The statement that stores the payload; \<open>reg\<close> is what the service reads from it afterwards. It changes
  nothing when the row is not there.
\<close>

definition save_fixed :: "registry \<Rightarrow> db \<Rightarrow> db" where
  "save_fixed reg s = s\<lparr>registries := (registries s)(Production :=
     map_option (\<lambda>row. row\<lparr>rr_payload := reg, rr_version := rr_version row + 1, rr_updated_at := db_now s,
         rr_updated_by := Some ''dev-test'',
         rr_commit_message := Some ''Phase 1: fix physical_column mappings for 9 core ObjectTypes''\<rparr>)
       (registries s Production))\<rparr>"

subsection \<open>Registering connections\<close>

definition required_variable :: "(string \<Rightarrow> string option) \<Rightarrow> string \<Rightarrow> exn + string" where
  "required_variable environ k =
     (case environ k of None \<Rightarrow> Inl (OtherException ''RuntimeError'' (''Environment variable '' @ k @ '' is required''))
      | Some v \<Rightarrow> if v = [] then Inl (OtherException ''RuntimeError'' (''Environment variable '' @ k @ '' is required''))
          else Inr v)"

definition CONNECTIONS :: "(string \<Rightarrow> string option) \<Rightarrow> exn + string \<times> (string \<times> connection_kind \<times> string) list" where
  "CONNECTIONS environ =
     bind_sum (required_variable environ ''ONTO_SECRET_KEY'') (\<lambda>key.
     bind_sum (required_variable environ ''ONTO_DATABASE_URL'') (\<lambda>_.
     let mes = (case environ ''MES_SQLITE_DSN'' of None \<Rightarrow> ''sqlite+aiosqlite:///home/ubuntu/demo_mes/mes_lite.db'' | Some v \<Rightarrow> v);
         wms = (case environ ''WMS_SQLITE_DSN'' of None \<Rightarrow> ''sqlite+aiosqlite:///home/ubuntu/demo_wms/data/wms.sqlite3'' | Some v \<Rightarrow> v) in
     bind_sum (required_variable environ ''APS_POSTGRES_DSN'') (\<lambda>aps.
     bind_sum (required_variable environ ''TMS_POSTGRES_DSN'') (\<lambda>tms.
     Inr (key, [(''mes_sqlite'', Sqlite, mes), (''wms_sqlite'', Sqlite, wms),
                (''aps_postgres'', Postgres, aps), (''tms_postgres'', Postgres, tms)])))))"

text \<open>Each connection in a transaction of its own; whatever it raises is printed and the next one tried.\<close>

fun register_each :: "fernet \<Rightarrow> (db \<Rightarrow> uuid) \<Rightarrow> (string \<times> connection_kind \<times> string) list \<Rightarrow> db \<Rightarrow> db" where
  "register_each F new_id [] s = s"
| "register_each F new_id ((label, kind, dsn) # cs) s =
     register_each F new_id cs (snd (in_session (insert_connection F (new_id s) label kind dsn) s))"

text \<open>The verification: the labels still missing make the script exit with status 1.\<close>

definition missing_labels :: "string list \<Rightarrow> (db, exn, string set) act" where
  "missing_labels labels =
     bind (in_session list_all_connections) (\<lambda>cs. ret (set labels - co_label ` set cs))"

definition register_connections ::
  "(string \<Rightarrow> fernet) \<Rightarrow> (string \<Rightarrow> string option) \<Rightarrow> (db \<Rightarrow> uuid) \<Rightarrow> (db, exn, int) act" where
  "register_connections fernet_of environ new_id s =
     (case CONNECTIONS environ of
        Inl e \<Rightarrow> (Inl e, s)
      | Inr (key, cs) \<Rightarrow>
          bind (missing_labels (map fst cs)) (\<lambda>missing. ret (if missing \<noteq> {} then 1 else 0))
            (register_each (fernet_of key) new_id cs s))"

subsection \<open>Facts about the bindings\<close>

lemma dict_set_same: "dict_get d k = Some v \<Longrightarrow> dict_set k v d = d"
  by (induction d) (auto simp: dict_set_def)

lemma dict_pop_twice: "dict_pop k (dict_pop k d) = dict_pop k d"
  by (simp add: dict_pop_def AList.delete_eq)

lemma field_set [simp]: "field k P (dict_set k' v d) \<longleftrightarrow> (if k = k' then P v else field k P d)"
  by (simp add: field_def dict_simps)

lemma get_pop_other: "k \<noteq> k' \<Longrightarrow> dict_get (dict_pop k d) k' = dict_get d k'"
  by (simp add: dict_simps)

lemma field_pop [simp]: "k \<noteq> k' \<Longrightarrow> field k' P (dict_pop k d) \<longleftrightarrow> field k' P d"
  by (simp add: field_def get_pop_other)

text \<open>Fixing what is fixed changes nothing.\<close>

lemma fix_property_idem:
  assumes "fix_property cm e = Inr e'"
  shows "fix_property cm e' = Inr e'"
proof -
  from assms obtain k d phys where e: "e = (k, JObj d)" "mapped_column cm d = Inr phys"
    "e' = (k, JObj (if phys \<noteq> [] then dict_set ''physical_column'' (JStr phys) d else dict_pop ''physical_column'' d))"
    by (cases e; cases "snd e") (auto simp: fix_property_def bind_sum_Inr)
  let ?d = "if phys \<noteq> [] then dict_set ''physical_column'' (JStr phys) d else dict_pop ''physical_column'' d"
  have "dict_get ?d ''api_name'' = dict_get d ''api_name''"
    using get_pop_other [of "''physical_column''" "''api_name''" d] by (simp add: dict_simps)
  then have "mapped_column cm ?d = Inr phys" using e(2) by (simp add: mapped_column_def get_dflt_def)
  moreover have "dict_set ''physical_column'' (JStr phys) (dict_set ''physical_column'' (JStr phys) d)
      = dict_set ''physical_column'' (JStr phys) d" by (rule dict_set_same) (simp add: dict_simps)
  ultimately show ?thesis by (simp add: e(1,3) fix_property_def dict_pop_twice)
qed

lemma collect_idem:
  assumes "\<And>x y. f x = Inr y \<Longrightarrow> f y = Inr y" "collect (map f xs) = Inr ys"
  shows "collect (map f ys) = Inr ys"
  using assms(2)
proof (induction xs arbitrary: ys)
  case (Cons x xs)
  then obtain y zs where "f x = Inr y" "collect (map f xs) = Inr zs" "ys = y # zs"
    by (cases "f x") (auto simp: bind_sum_Inr)
  with Cons.IH assms(1) show ?case by simp
qed simp

lemma fix_properties_get:
  assumes "fix_properties cm d = Inr d'" "k \<noteq> ''property_types''"
  shows "dict_get d' k = dict_get d k"
  using assms by (auto simp: fix_properties_def bind_sum_Inr dict_simps split: option.splits json.splits)

lemma fix_properties_idem: "fix_properties cm d = Inr d' \<Longrightarrow> fix_properties cm d' = Inr d'"
  by (auto simp: fix_properties_def bind_sum_Inr dict_simps dict_set_same collect_idem [OF fix_property_idem]
      split: option.splits json.splits)

lemma fix_object_idem:
  assumes "fix_object m obj = Inr obj'"
  shows "fix_object m obj' = Inr obj'"
proof -
  obtain c t cm where m: "m = (c, t, cm)" by (cases m)
  from assms m obtain d d' where o: "obj = JObj d" "obj' = JObj d'"
    "fix_properties cm (dict_set ''asset_mapping'' (mapped_asset c t) d) = Inr d'"
    "\<exists>v. subscript ''api_name'' (JObj d') = Inr v"
    by (cases obj) (auto simp: fix_object_def bind_sum_Inr)
  have "dict_get d' ''asset_mapping'' = Some (mapped_asset c t)"
    using fix_properties_get [OF o(3), of "''asset_mapping''"] by (simp add: dict_simps)
  then have "dict_set ''asset_mapping'' (mapped_asset c t) d' = d'" by (rule dict_set_same)
  with fix_properties_idem [OF o(3)] o(4) show ?thesis by (auto simp: m o(2) fix_object_def)
qed

text \<open>What the loop makes of each object type.\<close>

definition fixed_entry ::
  "(string \<times> string \<times> (string, string) dict) option \<Rightarrow> json option \<Rightarrow> json option \<Rightarrow> bool" where
  "fixed_entry mo x y \<longleftrightarrow> (case (mo, x) of
     (Some m, Some obj) \<Rightarrow> if truthy obj then \<exists>obj'. fix_object m obj = Inr obj' \<and> y = Some obj' else y = x
   | _ \<Rightarrow> y = x)"

lemma fix_each_get:
  assumes "fix_each ms objs = Inr objs'" "distinct (map fst ms)"
  shows "fixed_entry (map_of ms rid) (dict_get objs rid) (dict_get objs' rid)"
  using assms
proof (induction ms arbitrary: objs)
  case Nil
  then show ?case by (simp add: fixed_entry_def)
next
  case (Cons e ms)
  obtain k m where e: "e = (k, m)" by (cases e)
  show ?case
  proof (cases "\<exists>obj. dict_get objs k = Some obj \<and> truthy obj")
    case False
    with Cons.prems e have run: "fix_each ms objs = Inr objs'" by (auto split: option.splits if_splits)
    from Cons.prems(2) e have "k = rid \<Longrightarrow> map_of ms rid = None" by (simp add: map_of_eq_None_iff)
    with Cons.IH [OF run] Cons.prems(2) e False show ?thesis
      by (cases "k = rid") (auto simp: fixed_entry_def split: option.splits)
  next
    case True
    with Cons.prems(1) e obtain obj obj' where o: "dict_get objs k = Some obj" "truthy obj"
      "fix_object m obj = Inr obj'" "fix_each ms (dict_set k obj' objs) = Inr objs'"
      by (auto simp: bind_sum_Inr)
    from Cons.prems(2) e have "k = rid \<Longrightarrow> map_of ms rid = None" by (simp add: map_of_eq_None_iff)
    with Cons.IH [OF o(4)] Cons.prems(2) e o(1-3) show ?thesis
      by (cases "k = rid") (auto simp: fixed_entry_def dict_simps split: option.splits)
  qed
qed

lemma keys_set_present: "dict_get d k = Some w \<Longrightarrow> dict_keys (dict_set k v d) = dict_keys d"
  by (induction d) (auto simp: dict_set_def split: if_splits)

lemma fix_each_keys: "fix_each ms objs = Inr objs' \<Longrightarrow> dict_keys objs' = dict_keys objs"
proof (induction ms arbitrary: objs)
  case (Cons e ms)
  then show ?case
    by (cases e) (auto simp: bind_sum_Inr keys_set_present split: option.splits if_splits)
qed simp

lemma fix_each_done:
  assumes "\<forall>(rid, m) \<in> set ms. \<forall>obj. dict_get objs rid = Some obj \<longrightarrow> truthy obj \<longrightarrow> fix_object m obj = Inr obj"
  shows "fix_each ms objs = Inr objs"
  using assms
proof (induction ms)
  case (Cons e ms)
  then show ?case by (cases e) (auto simp: dict_set_same split: option.splits)
qed simp

lemma fix_each_idem:
  assumes "fix_each ms objs = Inr objs'" "distinct (map fst ms)"
  shows "fix_each ms objs' = Inr objs'"
proof (rule fix_each_done, clarify)
  fix rid c t cm obj
  assume "(rid, c, t, cm) \<in> set ms" "dict_get objs' rid = Some obj" "truthy obj"
  moreover from this(1) assms(2) have "map_of ms rid = Some (c, t, cm)" by simp
  ultimately show "fix_object (c, t, cm) obj = Inr obj"
    using fix_each_get [OF assms, of rid] fix_object_idem
    by (auto simp: fixed_entry_def split: option.splits if_splits)
qed

text \<open>On a payload with the fields and types of the models the loop raises nothing and keeps them.\<close>

lemma property_fixes:
  assumes "property_payload (snd e)"
  shows "\<exists>e'. fix_property cm e = Inr e' \<and> property_payload (snd e')"
proof -
  from assms obtain k d where e: "e = (k, JObj d)" "property_payload (JObj d)"
    by (cases e) (auto simp: property_payload_def elim!: obj_withE)
  then have "field ''api_name'' is_text d" by (simp add: property_payload_def)
  then obtain t where t: "dict_get d ''api_name'' = Some (JStr t)"
    by (auto simp: field_def split: option.splits elim!: is_textE)
  define phys where "phys = (case dict_get cm t of None \<Rightarrow> [] | Some phys \<Rightarrow> phys)"
  have "mapped_column cm d = Inr phys" by (simp add: mapped_column_def get_dflt_def t phys_def)
  with e show ?thesis
    by (auto simp: fix_property_def property_payload_def opt_field_def dict_simps)
qed

lemma object_fixes:
  assumes "object_payload obj"
  shows "\<exists>obj'. fix_object m obj = Inr obj' \<and> object_payload obj'"
proof -
  obtain c t cm where m: "m = (c, t, cm)" by (cases m)
  from assms obtain d where d: "obj = JObj d" "object_payload (JObj d)"
    by (auto simp: object_payload_def elim!: obj_withE)
  let ?d = "dict_set ''asset_mapping'' (mapped_asset c t) d"
  from d(2) have "field ''property_types'' properties_payload d" "field ''api_name'' is_text d"
    by (simp_all add: object_payload_def)
  then obtain pts where pts: "dict_get d ''property_types'' = Some (JObj pts)" "\<forall>e \<in> set pts. property_payload (snd e)"
    by (auto simp: field_def properties_payload_def list_all_iff split: option.splits elim!: obj_withE)
  from collect_maps [where P = "\<lambda>e. property_payload (snd e)" and f = "fix_property cm", OF property_fixes pts(2)]
  obtain pts' where pts': "collect (map (fix_property cm) pts) = Inr pts'" "list_all (\<lambda>e. property_payload (snd e)) pts'"
    by blast
  have run: "fix_properties cm ?d = Inr (dict_set ''property_types'' (JObj pts') ?d)"
    by (simp add: fix_properties_def dict_simps pts(1) pts'(1))
  obtain a where "dict_get d ''api_name'' = Some a"
    using d(2) by (auto simp: object_payload_def field_def split: option.splits)
  then have "fix_object m obj = Inr (JObj (dict_set ''property_types'' (JObj pts') ?d))"
    by (simp add: m d(1) fix_object_def run subscript_def dict_simps)
  moreover have "object_payload (JObj (dict_set ''property_types'' (JObj pts') ?d))"
    using d(2) pts'(2) by (auto simp: object_payload_def properties_payload_def list_all_iff)
  ultimately show ?thesis by blast
qed

lemma each_fixes:
  assumes "list_all object_payload (dict_vals objs)"
  shows "\<exists>objs'. fix_each ms objs = Inr objs' \<and> list_all object_payload (dict_vals objs')"
  using assms
proof (induction ms arbitrary: objs)
  case (Cons e ms)
  obtain k m where e: "e = (k, m)" by (cases e)
  show ?case
  proof (cases "dict_get objs k")
    case (Some obj)
    then have "object_payload obj" using Cons.prems by (force simp: list_all_iff dest: map_of_SomeD)
    from object_fixes [OF this] obtain obj' where o: "fix_object m obj = Inr obj'" "object_payload obj'" by blast
    from Cons.IH [OF vals_set [OF Cons.prems o(2)], of k] Cons.IH [OF Cons.prems] Some o(1) e show ?thesis by simp
  qed (use Cons e in simp)
qed simp

lemma mappings_distinct: "distinct (map fst MAPPINGS)"
  by (simp add: MAPPINGS_def)

lemma mapped_columns_named: "(rid, c, t, cm) \<in> set MAPPINGS \<Longrightarrow> dict_get cm k \<noteq> Some []"
  by (auto simp: MAPPINGS_def split: if_splits)

lemma collect_fixed: "collect (map f xs) = Inr xs \<Longrightarrow> x \<in> set xs \<Longrightarrow> f x = Inr x"
proof (induction xs)
  case (Cons y ys)
  then show ?case by (cases "f y") (auto simp: bind_sum_Inr)
qed simp

text \<open>A fixed property shows the column listed for its name.\<close>

lemma fixed_column:
  assumes "fix_properties cm d = Inr d" "dict_get d ''property_types'' = Some (JObj pts)" "(k, JObj p) \<in> set pts"
    and "dict_get p ''api_name'' = Some (JStr t)" "\<And>k. dict_get cm k \<noteq> Some []"
  shows "dict_get p ''physical_column'' = map_option JStr (dict_get cm t)"
proof -
  from assms(1,2) obtain pts' where c: "collect (map (fix_property cm) pts) = Inr pts'"
    "dict_set ''property_types'' (JObj pts') d = d" by (auto simp: fix_properties_def bind_sum_Inr)
  then have "dict_get d ''property_types'' = Some (JObj pts')" by (metis fun_upd_same get_set)
  with assms(2) c(1) have "collect (map (fix_property cm) pts) = Inr pts" by simp
  then have fixed: "fix_property cm (k, JObj p) = Inr (k, JObj p)" using assms(3) by (rule collect_fixed)
  show ?thesis
  proof (cases "dict_get cm t")
    case None
    with fixed assms(4) have "dict_pop ''physical_column'' p = p"
      by (simp add: fix_property_def mapped_column_def get_dflt_def)
    then have "dict_get p ''physical_column'' = dict_get (dict_pop ''physical_column'' p) ''physical_column''" by simp
    with None show ?thesis by (simp add: dict_simps)
  next
    case (Some phys)
    with fixed assms(4) assms(5) [of t] have "dict_set ''physical_column'' (JStr phys) p = p"
      by (simp add: fix_property_def mapped_column_def get_dflt_def split: if_splits)
    then have "dict_get p ''physical_column'' = Some (JStr phys)" by (metis fun_upd_same get_set)
    with Some show ?thesis by simp
  qed
qed

subsection \<open>Facts about the registration\<close>

lemma collect_labels: "collect (map connection_of_row rows) = Inr cs \<Longrightarrow> map co_label cs = map cn_label rows"
proof (induction rows arbitrary: cs)
  case (Cons r rows)
  then show ?case by (cases "connection_of_row r") (auto simp: bind_sum_Inr connection_of_row_def)
qed simp

lemma list_all_labels:
  assumes "\<not> tx_aborted s" "kinds_ok s"
  obtains cs where "in_session list_all_connections s = (Inr cs, s)" "co_label ` set cs = cn_label ` set (connections s)"
proof -
  obtain cs where cs: "list_all_connections s = (Inr cs, s)" by (rule list_all_run [OF assms])
  then have "map co_label cs = map cn_label (sort_key cn_label (connections s))"
    using assms(1) by (auto simp: list_all_connections_def statement_def intro: collect_labels)
  then have "set (map co_label cs) = set (map cn_label (sort_key cn_label (connections s)))" by simp
  then have "co_label ` set cs = cn_label ` set (connections s)" by simp
  with cs that show thesis by (simp add: in_session_def)
qed

lemma missing_labels_run:
  "\<not> tx_aborted s \<Longrightarrow> kinds_ok s \<Longrightarrow>
     missing_labels ls s = (Inr (set ls - cn_label ` set (connections s)), s)"
  by (rule list_all_labels [of s], assumption+) (simp add: missing_labels_def act_simps)

text \<open>The rows a run adds: one for each label that was not there, of the listed kind and string.\<close>

definition rows_for :: "fernet \<Rightarrow> (string \<times> connection_kind \<times> string) list \<Rightarrow> connection_row list \<Rightarrow> bool" where
  "rows_for F cs rows \<longleftrightarrow> (\<forall>row \<in> set rows. \<exists>kind dsn. (cn_label row, kind, dsn) \<in> set cs
     \<and> cn_kind row = kind_value kind \<and> cn_dsn_encrypted row = fernet_encrypt F dsn)"

lemma rows_for_Cons: "rows_for F cs rows \<Longrightarrow> rows_for F (c # cs) rows"
  unfolding rows_for_def by (meson list.set_intros(2))

lemma register_each_run:
  assumes "distinct (map fst cs)" "\<not> tx_aborted s"
  shows "\<exists>rows. register_each F new_id cs s = s\<lparr>connections := connections s @ rows\<rparr>
    \<and> map cn_label rows = filter (\<lambda>l. l \<notin> cn_label ` set (connections s)) (map fst cs) \<and> rows_for F cs rows"
  using assms
proof (induction cs arbitrary: s)
  case Nil
  then show ?case by (intro exI [of _ "[]"]) (simp add: rows_for_def)
next
  case (Cons c cs)
  obtain label kind dsn where c: "c = (label, kind, dsn)" by (cases c)
  show ?case
  proof (cases "label \<in> cn_label ` set (connections s)")
    case True
    then have "register_each F new_id (c # cs) s = register_each F new_id cs s"
      using Cons.prems(2) by (simp add: c in_session_def insert_connection_def statement_def)
    moreover from Cons.IH [of s] Cons.prems obtain rows where
      "register_each F new_id cs s = s\<lparr>connections := connections s @ rows\<rparr>"
      "map cn_label rows = filter (\<lambda>l. l \<notin> cn_label ` set (connections s)) (map fst cs)" "rows_for F cs rows" by auto
    ultimately show ?thesis
      using True c rows_for_Cons by (intro exI [of _ rows]) auto
  next
    case False
    let ?row = "\<lparr>cn_id = new_id s, cn_label = label, cn_kind = kind_value kind,
                 cn_dsn_encrypted = fernet_encrypt F dsn, cn_created_at = db_now s, cn_last_probe_ok_at = None\<rparr>"
    let ?s = "s\<lparr>connections := connections s @ [?row]\<rparr>"
    have run: "register_each F new_id (c # cs) s = register_each F new_id cs ?s"
      using Cons.prems(2) False by (simp add: c in_session_def insert_connection_def statement_def)
    from Cons.IH [of ?s] Cons.prems obtain rows where
      "register_each F new_id cs ?s = ?s\<lparr>connections := connections ?s @ rows\<rparr>"
      "map cn_label rows = filter (\<lambda>l. l \<notin> cn_label ` set (connections ?s)) (map fst cs)" "rows_for F cs rows" by auto
    moreover from this(3) have "rows_for F (c # cs) (?row # rows)"
      using rows_for_Cons [of F cs rows c] c by (auto simp: rows_for_def)
    moreover have "filter (\<lambda>l. l \<notin> cn_label ` set (connections ?s)) (map fst cs)
        = filter (\<lambda>l. l \<notin> cn_label ` set (connections s)) (map fst cs)"
      using Cons.prems(1) c by (intro filter_cong) auto
    ultimately show ?thesis
      unfolding run using False c by (intro exI [of _ "?row # rows"]) simp
  qed
qed

lemma connections_labels: "CONNECTIONS environ = Inr (key, cs) \<Longrightarrow>
    map fst cs = [''mes_sqlite'', ''wms_sqlite'', ''aps_postgres'', ''tms_postgres'']"
  by (auto simp: CONNECTIONS_def bind_sum_Inr Let_def)

lemma rows_for_kinds: "rows_for F cs rows \<Longrightarrow> kinds_ok s \<Longrightarrow> kinds_ok (s\<lparr>connections := connections s @ rows\<rparr>)"
proof -
  assume r: "rows_for F cs rows" and k: "kinds_ok s"
  have "cn_kind row \<in> {''postgres'', ''mysql'', ''sqlite''}" if "row \<in> set rows" for row
  proof -
    from r that obtain kind where "cn_kind row = kind_value kind" unfolding rows_for_def by blast
    then show ?thesis by (cases kind) simp_all
  qed
  with k show ?thesis unfolding kinds_ok_def by auto
qed

subsection \<open>Properties\<close>

text \<open>C33: binding is safe to repeat. On any payload of the models' types, in particular on what the schema
  import writes, the script raises nothing, the result is again of the models' types, and a second run
  changes nothing.\<close>
theorem fix_payload_idempotent:
  assumes "registry_payload j"
  shows "\<exists>q. fix_payload j = Inr q \<and> registry_payload q \<and> fix_payload q = Inr q"
proof -
  from assms obtain d where d: "j = JObj d" "registry_payload (JObj d)"
    by (auto simp: registry_payload_def elim!: obj_withE)
  then have "field ''object_types'' (kind_payload object_payload) d" by (simp add: registry_payload_def)
  then obtain objs where objs: "dict_get d ''object_types'' = Some (JObj objs)" "list_all object_payload (dict_vals objs)"
    by (auto simp: field_def kind_payload_def split: option.splits elim!: obj_withE)
  from each_fixes [OF objs(2), of MAPPINGS] obtain objs' where
    f: "fix_each MAPPINGS objs = Inr objs'" "list_all object_payload (dict_vals objs')" by blast
  let ?q = "dict_set ''object_types'' (JObj objs') d"
  have 1: "fix_payload j = Inr (JObj ?q)" by (simp add: fix_payload_def subscript_def d(1) objs(1) f(1))
  have 2: "registry_payload (JObj ?q)" using d(2) f(2) by (simp add: registry_payload_def kind_payload_def)
  have 3: "dict_set ''object_types'' (JObj objs') ?q = ?q" by (rule dict_set_same) (simp add: dict_simps)
  have "fix_payload (JObj ?q) = Inr (JObj ?q)"
    by (simp add: fix_payload_def subscript_def dict_simps fix_each_idem [OF f(1) mappings_distinct] 3)
  with 1 2 show ?thesis by blast
qed

text \<open>What the script binds. It keeps the object types and their order; one that the table of mappings
  does not name is left as it was, and one that it names gets the table's asset and, property by
  property, the column listed for the property's api name, or no column when none is listed.\<close>
theorem fix_binds_named_objects:
  assumes "fix_payload (JObj d) = Inr (JObj d')" "dict_get d ''object_types'' = Some (JObj objs)"
  shows "\<exists>objs'. dict_get d' ''object_types'' = Some (JObj objs') \<and> dict_keys objs' = dict_keys objs
    \<and> (\<forall>k. k \<noteq> ''object_types'' \<longrightarrow> dict_get d' k = dict_get d k)
    \<and> (\<forall>rid. rid \<notin> set (dict_keys MAPPINGS) \<longrightarrow> dict_get objs' rid = dict_get objs rid)
    \<and> (\<forall>(rid, conn_id, table, cols) \<in> set MAPPINGS. \<forall>obj. dict_get objs rid = Some obj \<longrightarrow> truthy obj \<longrightarrow>
        (\<exists>o'. dict_get objs' rid = Some (JObj o') \<and> dict_get o' ''asset_mapping'' = Some (mapped_asset conn_id table)
          \<and> (\<forall>pts k p t. dict_get o' ''property_types'' = Some (JObj pts) \<longrightarrow> (k, JObj p) \<in> set pts \<longrightarrow>
               dict_get p ''api_name'' = Some (JStr t) \<longrightarrow>
               dict_get p ''physical_column'' = map_option JStr (dict_get cols t))))"
proof -
  from assms obtain objs' where f: "fix_each MAPPINGS objs = Inr objs'" "d' = dict_set ''object_types'' (JObj objs') d"
    by (auto simp: fix_payload_def subscript_def bind_sum_Inr)
  note get = fix_each_get [OF f(1) mappings_distinct]
  have other: "dict_get objs' rid = dict_get objs rid" if "rid \<notin> set (dict_keys MAPPINGS)" for rid
  proof -
    from that have "map_of MAPPINGS rid = None" by (simp add: map_of_eq_None_iff)
    with get [of rid] show ?thesis by (simp add: fixed_entry_def)
  qed
  have bound: "\<exists>o'. dict_get objs' rid = Some (JObj o') \<and> dict_get o' ''asset_mapping'' = Some (mapped_asset c t)
      \<and> fix_properties cm o' = Inr o'"
    if "(rid, c, t, cm) \<in> set MAPPINGS" "dict_get objs rid = Some obj" "truthy obj" for rid c t cm obj
  proof -
    from that(1) mappings_distinct have "map_of MAPPINGS rid = Some (c, t, cm)" by simp
    with get [of rid] that(2,3) obtain obj' where o: "fix_object (c, t, cm) obj = Inr obj'" "dict_get objs' rid = Some obj'"
      by (auto simp: fixed_entry_def)
    from fix_object_idem [OF o(1)] obtain o' where o': "obj' = JObj o'"
      "fix_properties cm (dict_set ''asset_mapping'' (mapped_asset c t) o') = Inr o'"
      by (cases obj') (auto simp: fix_object_def bind_sum_Inr)
    have am: "dict_get o' ''asset_mapping'' = Some (mapped_asset c t)"
      using fix_properties_get [OF o'(2), of "''asset_mapping''"] by (simp add: dict_simps)
    with o' o(2) show ?thesis by (simp add: dict_set_same)
  qed
  have kept: "dict_get d' ''object_types'' = Some (JObj objs')" "dict_keys objs' = dict_keys objs"
    "\<forall>k. k \<noteq> ''object_types'' \<longrightarrow> dict_get d' k = dict_get d k"
    using fix_each_keys [OF f(1)] by (simp_all add: f(2) dict_simps)
  have columns: "\<exists>o'. dict_get objs' rid = Some (JObj o') \<and> dict_get o' ''asset_mapping'' = Some (mapped_asset c t)
      \<and> (\<forall>pts k p n. dict_get o' ''property_types'' = Some (JObj pts) \<longrightarrow> (k, JObj p) \<in> set pts \<longrightarrow>
           dict_get p ''api_name'' = Some (JStr n) \<longrightarrow>
           dict_get p ''physical_column'' = map_option JStr (dict_get cm n))"
    if "(rid, c, t, cm) \<in> set MAPPINGS" "dict_get objs rid = Some obj" "truthy obj" for rid c t cm obj
    using bound [OF that] fixed_column [where cm = cm, OF _ _ _ _ mapped_columns_named [OF that(1)]] by blast
  show ?thesis
    by (intro exI [of _ objs'] conjI kept allI impI other ballI) (use columns in auto)
qed

text \<open>The registration script on a working database. With the variables it requires it exits with
  status 0, having kept every connection and added one, of the listed kind and encrypted string, for
  each of its four labels that was not there; run again, it changes nothing and exits with 0 again.\<close>
theorem register_connections_completes:
  assumes "CONNECTIONS environ = Inr (key, cs)" "\<not> tx_aborted s" "kinds_ok s"
  shows "\<exists>rows. register_connections fernet_of environ new_id s = (Inr 0, s\<lparr>connections := connections s @ rows\<rparr>)
    \<and> map cn_label rows = filter (\<lambda>l. l \<notin> cn_label ` set (connections s)) (map fst cs)
    \<and> rows_for (fernet_of key) cs rows
    \<and> register_connections fernet_of environ new_id' (s\<lparr>connections := connections s @ rows\<rparr>)
        = (Inr 0, s\<lparr>connections := connections s @ rows\<rparr>)"
proof -
  have dist: "distinct (map fst cs)" using connections_labels [OF assms(1)] by simp
  from register_each_run [OF dist assms(2)] obtain rows where
    r: "register_each (fernet_of key) new_id cs s = s\<lparr>connections := connections s @ rows\<rparr>"
      "map cn_label rows = filter (\<lambda>l. l \<notin> cn_label ` set (connections s)) (map fst cs)"
      "rows_for (fernet_of key) cs rows" by blast
  let ?s = "s\<lparr>connections := connections s @ rows\<rparr>"
  have ok: "\<not> tx_aborted ?s" "kinds_ok ?s" using assms(2,3) rows_for_kinds [OF r(3)] by simp_all
  have "cn_label ` set rows = set (map cn_label rows)" by simp
  then have all: "set (map fst cs) \<subseteq> cn_label ` set (connections ?s)" unfolding r(2) by auto
  then have exit0: "missing_labels (map fst cs) ?s = (Inr {}, ?s)"
    using missing_labels_run [OF ok, of "map fst cs"] by auto
  have again: "register_each (fernet_of key) new_id' cs ?s = ?s"
  proof -
    from register_each_run [OF dist ok(1)] obtain rows' where r':
      "register_each (fernet_of key) new_id' cs ?s = ?s\<lparr>connections := connections ?s @ rows'\<rparr>"
      "map cn_label rows' = filter (\<lambda>l. l \<notin> cn_label ` set (connections ?s)) (map fst cs)" by blast
    have "filter (\<lambda>l. l \<notin> cn_label ` set (connections ?s)) (map fst cs) = []"
      using all by (auto simp: filter_empty_conv)
    with r' show ?thesis by simp
  qed
  show ?thesis
    using r exit0 again by (intro exI [of _ rows]) (simp add: register_connections_def assms(1) act_simps)
qed

subsection \<open>Witnesses\<close>

definition demo_payload :: json where
  "demo_payload = JObj [(''version'', JStr ''8''), (''object_types'', JObj
     [(''ri.obj.0000'', JObj
        [(''rid'', JStr ''ri.obj.0000''), (''api_name'', JStr ''Product''), (''display_name'', JStr ''P''),
         (''description'', JStr []), (''lifecycle_status'', JStr ''ACTIVE''),
         (''property_types'', JObj [(''unit'', JObj
            [(''rid'', JStr ''p''), (''api_name'', JStr ''unit''), (''display_name'', JStr ''U''), (''description'', JStr []),
             (''inherit_from_shared_property_type_rid'', JStr []), (''virtual_expression'', JStr []),
             (''data_type'', JStr ''DT_STRING''), (''lifecycle_status'', JStr ''ACTIVE'')])]),
         (''implements_interface_type_rids'', JList []), (''primary_key_property_type_rids'', JList [])])]),
     (''link_types'', JObj []), (''action_types'', JObj []), (''interface_types'', JObj []),
     (''shared_property_types'', JObj [])]"

lemma demo_payload_typed: "registry_payload demo_payload"
  by (simp add: demo_payload_def registry_payload_def field_def kind_payload_def object_payload_def properties_payload_def
      property_payload_def opt_field_def)

theorem fix_payload_idempotent_witness:
  "\<exists>q. fix_payload demo_payload = Inr q \<and> registry_payload q \<and> fix_payload q = Inr q"
  by (rule fix_payload_idempotent [OF demo_payload_typed])

theorem fix_binds_named_objects_witness:
  "\<exists>d d'. demo_payload = JObj d \<and> fix_payload (JObj d) = Inr (JObj d')
     \<and> (\<exists>objs'. dict_get d' ''object_types'' = Some (JObj objs') \<and> dict_keys objs' = [''ri.obj.0000''])"
proof -
  obtain d where d: "demo_payload = JObj d" by (simp add: demo_payload_def)
  obtain objs where objs: "dict_get d ''object_types'' = Some (JObj objs)" "dict_keys objs = [''ri.obj.0000'']"
    using d by (auto simp: demo_payload_def)
  obtain q where q: "fix_payload (JObj d) = Inr q" using fix_payload_idempotent_witness d by auto
  then obtain d' where q': "q = JObj d'" using objs(1) by (auto simp: fix_payload_def subscript_def bind_sum_Inr)
  from fix_binds_named_objects [OF q [unfolded q'] objs(1)] objs(2) q q' d show ?thesis by auto
qed

definition full_environ :: "string \<Rightarrow> string option" where
  "full_environ k = (if k \<in> {''ONTO_SECRET_KEY'', ''ONTO_DATABASE_URL'', ''APS_POSTGRES_DSN'', ''TMS_POSTGRES_DSN''}
     then Some ''x'' else None)"

theorem register_connections_completes_witness:
  "\<exists>s'. register_connections (\<lambda>_. plain_fernet) full_environ (\<lambda>s. nat_str (length (connections s))) (migrated 0) = (Inr 0, s')
     \<and> map cn_label (connections s') = [''mes_sqlite'', ''wms_sqlite'', ''aps_postgres'', ''tms_postgres'']"
proof -
  obtain cs where cs: "CONNECTIONS full_environ = Inr (''x'', cs)"
    by (simp add: CONNECTIONS_def required_variable_def full_environ_def Let_def)
  have db: "\<not> tx_aborted (migrated 0)" "kinds_ok (migrated 0)" by (simp_all add: migrated_def kinds_ok_def)
  have none: "connections (migrated 0) = []" by (simp add: migrated_def)
  from register_connections_completes [OF cs db, of "\<lambda>_. plain_fernet" "\<lambda>s. nat_str (length (connections s))"]
  obtain rows where "register_connections (\<lambda>_. plain_fernet) full_environ (\<lambda>s. nat_str (length (connections s))) (migrated 0)
      = (Inr 0, (migrated 0)\<lparr>connections := rows\<rparr>)" "map cn_label rows = map fst cs" unfolding none by auto
  with connections_labels [OF cs] show ?thesis by auto
qed

end
