(* ===== verification/Row_Steps.thy ===== *)
theory Row_Steps
  imports Service
begin

text \<open>
  What the whole service does to the rows of its tables: \<open>row_step\<close> lists the single changes, with
  the guards under which the code makes them, and every activity of theory Service is a sequence of
  them. What holds of each change holds of the service.
\<close>

subsection \<open>The single changes\<close>

definition same_job :: "job_row \<Rightarrow> job_row \<Rightarrow> bool" where
  "same_job j j' \<longleftrightarrow> jb_id j' = jb_id j \<and> jb_mode j' = jb_mode j \<and> jb_chat_session_id j' = jb_chat_session_id j"

definition same_session :: "chat_session_row \<Rightarrow> chat_session_row \<Rightarrow> bool" where
  "same_session r r' \<longleftrightarrow> cs_id r' = cs_id r \<and> cs_token_id r' = cs_token_id r
     \<and> cs_pre_registry r' = cs_pre_registry r \<and> cs_pre_version r' = cs_pre_version r"

inductive row_step :: "db \<Rightarrow> db \<Rightarrow> bool" where
  transaction: "row_step s (s\<lparr>tx_aborted := b\<rparr>)"
| clock: "db_now s \<le> t \<Longrightarrow> row_step s (s\<lparr>db_now := t\<rparr>)"
| registry_saved: "slot s e = Some (r, n) \<Longrightarrow> row_step s (saved e reg label msg s)"
| audited: "row_step s (s\<lparr>audit_log := audit_log s @ [row]\<rparr>)"
| token_added: "tk_hash row \<notin> set (map tk_hash (api_tokens s)) \<Longrightarrow> tk_scope row = scope_name sc
    \<Longrightarrow> row_step s (s\<lparr>api_tokens := api_tokens s @ [row]\<rparr>)"
| token_revoked: "row_step s (s\<lparr>api_tokens := update_where (\<lambda>r. tk_id r = tid \<and> tk_revoked_at r = None)
    (\<lambda>r. r\<lparr>tk_revoked_at := Some (db_now s)\<rparr>) (api_tokens s)\<rparr>)"
| login_added: "us_scope row = scope_name sc \<Longrightarrow> row_step s (s\<lparr>ui_sessions := ui_sessions s @ [row]\<rparr>)"
| login_revoked: "row_step s (s\<lparr>ui_sessions := update_where (\<lambda>u. us_id u = sid)
    (\<lambda>u. u\<lparr>us_revoked_at := Some (db_now s)\<rparr>) (ui_sessions s)\<rparr>)"
| connection_added: "cn_label row \<notin> set (map cn_label (connections s)) \<Longrightarrow> cn_kind row = kind_value k
    \<Longrightarrow> row_step s (s\<lparr>connections := connections s @ [row]\<rparr>)"
| connection_probed: "row_step s (s\<lparr>connections := update_where (\<lambda>r. cn_id r = cid)
    (\<lambda>r. r\<lparr>cn_last_probe_ok_at := Some (db_now s)\<rparr>) (connections s)\<rparr>)"
| connection_deleted: "row_step s (s\<lparr>connections := filter (\<lambda>r. cn_id r \<noteq> cid) (connections s)\<rparr>)"
| upload_added: "up_kind row \<in> set upload_kinds \<Longrightarrow> up_job_id row = None
    \<Longrightarrow> row_step s (s\<lparr>ingestion_uploads := ingestion_uploads s @ [row]\<rparr>)"
| upload_attached: "row_step s (s\<lparr>ingestion_uploads := attach_upload jid up (ingestion_uploads s)\<rparr>)"
| uploads_removed: "row_step s (s\<lparr>ingestion_uploads := filter (\<lambda>u. \<not> is_orphan m s u) (ingestion_uploads s)\<rparr>)"
| job_added: "jb_mode row = mode_value mode \<Longrightarrow> jb_status row = ''queued''
    \<Longrightarrow> (\<forall>sid. jb_chat_session_id row = Some sid \<longrightarrow> find_session sid s \<noteq> None)
    \<Longrightarrow> row_step s (s\<lparr>ingestion_jobs := ingestion_jobs s @ [row]\<rparr>)"
| jobs_changed: "(\<forall>j. p j \<longrightarrow> same_job j (f j) \<and> jb_status (f j) \<in> range status_value)
    \<Longrightarrow> row_step s (s\<lparr>ingestion_jobs := update_where p f (ingestion_jobs s)\<rparr>)"
| session_opened: "cs_status row = ''active'' \<Longrightarrow> slot s Staging = Some (cs_pre_registry row, cs_pre_version row)
    \<Longrightarrow> row_step s (s\<lparr>chat_sessions := chat_sessions s @ [row]\<rparr>)"
| session_marked: "st \<in> {''saving'', ''cancelling''}
    \<Longrightarrow> row_step s (s\<lparr>chat_sessions := update_where (\<lambda>r. cs_id r = sid) (\<lambda>r. r\<lparr>cs_status := st\<rparr>) (chat_sessions s)\<rparr>)"
| session_used: "row_step s (s\<lparr>chat_sessions := update_where (\<lambda>r. cs_id r = sid)
    (\<lambda>r. r\<lparr>cs_last_turn_at := Some (db_now s)\<rparr>) (chat_sessions s)\<rparr>)"
| session_deleted: "row_step s (s\<lparr>chat_sessions := filter (\<lambda>r. cs_id r \<noteq> sid) (chat_sessions s),
    chat_messages := filter (\<lambda>m. cm_session_id m \<noteq> sid) (chat_messages s),
    ingestion_jobs := update_where (\<lambda>j. jb_chat_session_id j = Some sid) (\<lambda>j. j\<lparr>jb_chat_session_id := None\<rparr>) (ingestion_jobs s)\<rparr>)"
| message_added: "find_session (cm_session_id row) s \<noteq> None \<Longrightarrow> cm_role row \<in> {''user'', ''assistant''}
    \<Longrightarrow> row_step s (s\<lparr>chat_messages := chat_messages s @ [row]\<rparr>)"

inductive_cases row_stepE: "row_step s s'"

abbreviation rows :: "db \<Rightarrow> db \<Rightarrow> bool" where
  "rows \<equiv> row_step\<^sup>*\<^sup>*"

interpretation rows_frame: frame rows
  by unfold_locales auto

lemma rows_step: "row_step s s' \<Longrightarrow> rows s s'"
  by blast

lemma rowed_statement: "(\<And>s r s'. \<not> tx_aborted s \<Longrightarrow> m s = (r, s') \<Longrightarrow> rows s s') \<Longrightarrow> honours rows (statement m)"
  by (rule statement_cases) auto

subsection \<open>The stores\<close>

lemma rowed_save: "honours rows (save e reg x label msg)"
  unfolding honours_def
proof (intro allI impI)
  fix s r s' assume run: "save e reg x label msg s = (r, s')"
  have "s' = s \<or> (\<exists>r0 n. slot s e = Some (r0, n) \<and> s' = saved e reg label msg s)"
    using run by (auto simp: save_run split: if_splits option.splits)
  then show "rows s s'" by (auto intro: row_step.registry_saved)
qed

lemma rowed_insert_token: "honours rows (insert_token H tid plaintext sc label creator)"
  unfolding insert_token_def
  by (rule rowed_statement) (auto split: if_splits intro!: rows_step row_step.transaction row_step.token_added)

lemma rowed_revoke: "honours rows (revoke_token tid)"
  unfolding revoke_token_def Let_def
  by (rule rowed_statement) (auto intro!: rows_step row_step.token_revoked)

lemma rowed_audit: "honours rows (record_audit tool tid label sc args oc code)"
  unfolding record_audit_def
  by (intro rows_frame.bind rows_frame.simple rowed_statement) (auto simp: modify_apply intro!: rows_step row_step.audited)

lemma rowed_connections:
  "honours rows (insert_connection F cid label kind dsn)" "honours rows (mark_probe_ok cid)"
  "honours rows (delete_connection_row cid)"
  unfolding insert_connection_def mark_probe_ok_def delete_connection_row_def
  by (rule rowed_statement; auto simp: modify_apply split: if_splits
      intro!: rows_step row_step.transaction row_step.connection_added row_step.connection_probed row_step.connection_deleted)+

lemma rowed_upload: "kind \<in> set upload_kinds \<Longrightarrow> honours rows (insert_upload uid filename kind nbytes sha path creator)"
  unfolding insert_upload_def
  by (rule rowed_statement) (auto intro!: rows_step row_step.upload_added)

lemma rows_attach: "rows (s :: db) (s\<lparr>ingestion_uploads := fold (attach_upload jid) ups (ingestion_uploads s)\<rparr>)"
proof (induction ups arbitrary: s)
  case (Cons up ups s)
  let ?s = "s\<lparr>ingestion_uploads := attach_upload jid up (ingestion_uploads s)\<rparr>"
  have "rows s ?s" by (rule rows_step [OF row_step.upload_attached])
  moreover have "rows ?s (?s\<lparr>ingestion_uploads := fold (attach_upload jid) ups (ingestion_uploads ?s)\<rparr>)" by (rule Cons)
  ultimately show ?case by simp
qed simp

lemma rowed_create_job: "honours rows (create_job jid mode ins ups creator)"
  unfolding create_job_def
proof (rule rowed_statement)
  fix s s' :: db and r assume "(Inr jid, s\<lparr>ingestion_jobs := ingestion_jobs s @ [new_job jid mode ins creator (db_now s)],
      ingestion_uploads := fold (attach_upload jid) ups (ingestion_uploads s)\<rparr>) = (r, s')"
  then have s': "s' = (s\<lparr>ingestion_jobs := ingestion_jobs s @ [new_job jid mode ins creator (db_now s)]\<rparr>)
      \<lparr>ingestion_uploads := fold (attach_upload jid) ups (ingestion_uploads (s\<lparr>ingestion_jobs := ingestion_jobs s
        @ [new_job jid mode ins creator (db_now s)]\<rparr>))\<rparr>" by auto
  have "rows s (s\<lparr>ingestion_jobs := ingestion_jobs s @ [new_job jid mode ins creator (db_now s)]\<rparr>)"
    by (intro rows_step row_step.job_added [where mode = mode]) (simp_all add: new_job_def)
  from this rows_attach show "rows s s'" unfolding s' by (rule rtranclp_trans)
qed

lemma rowed_status: "honours rows (set_status jid st u)"
  unfolding set_status_def
  by (rule rowed_statement) (auto simp: modify_apply same_job_def updated_job_def intro!: rows_step row_step.jobs_changed)

lemma rowed_cancel: "honours rows (statement (\<lambda>s. case py_uuid job_id of
     None \<Rightarrow> (Inl (OtherException ''DBAPIError'' ''invalid UUID''), s\<lparr>tx_aborted := True\<rparr>)
   | Some jid \<Rightarrow>
       (Inr (), s\<lparr>ingestion_jobs := update_where (\<lambda>j. jb_id j = jid \<and> cancellable j)
          (\<lambda>j. j\<lparr>jb_status := ''cancelled'', jb_finished_at := Some (db_now s)\<rparr>) (ingestion_jobs s)\<rparr>)))"
proof (rule rowed_statement)
  have known: "''cancelled'' \<in> range status_value" by (metis rangeI status_value.simps(7))
  show "rows s s'" if "(case py_uuid job_id of
     None \<Rightarrow> (Inl (OtherException ''DBAPIError'' ''invalid UUID''), s\<lparr>tx_aborted := True\<rparr>)
   | Some jid \<Rightarrow>
       (Inr (), s\<lparr>ingestion_jobs := update_where (\<lambda>j. jb_id j = jid \<and> cancellable j)
          (\<lambda>j. j\<lparr>jb_status := ''cancelled'', jb_finished_at := Some (db_now s)\<rparr>) (ingestion_jobs s)\<rparr>)) = (r, s')" for s r s'
    using that known by (auto simp: same_job_def split: option.splits
        intro!: rows_step row_step.jobs_changed row_step.transaction)
qed

lemma rowed_orphans: "honours rows (statement (\<lambda>s. (Inr (length (filter (is_orphan m s) (ingestion_uploads s))),
    s\<lparr>ingestion_uploads := filter (\<lambda>u. \<not> is_orphan m s u) (ingestion_uploads s)\<rparr>)))"
  by (rule rowed_statement) (auto intro!: rows_step row_step.uploads_removed)

lemma rowed_register: "honours rows (register_connection F drv cid label kind dsn)"
  unfolding register_connection_def probe_def
  by (cases "drv dsn kind"; simp add: rows_frame.simple; intro rows_frame.bind rows_frame.loads rowed_connections)

lemmas rowed_intros = rows_frame.bind rows_frame.simple rows_frame.loads rows_frame.in_case rowed_save
  rowed_insert_token rowed_revoke rowed_connections rowed_create_job rowed_status
  rowed_cancel rowed_orphans rowed_register rows_frame.read [OF read_only_query] rows_frame.read [OF read_rows]
  step_case_prod honours_let

subsection \<open>Tools\<close>

lemma rowed_lifecycle:
  "honours rows (promote_staging_to_production msg label C)"
  "honours rows (revert_staging_to_production label)"
  "honours rows (undo_promote label)"
  "honours rows (edit_staging p mk v ver)"
  unfolding promote_staging_to_production_def revert_staging_to_production_def undo_promote_def
    edit_staging_def save_staging_def
  by (intro rowed_intros)+

text \<open>An upload passes the test of its extension before its row is written.\<close>

lemma rowed_if_known: "(ext \<in> set upload_kinds \<Longrightarrow> honours rows m) \<Longrightarrow> honours rows (if ext \<notin> set upload_kinds then raise e else m)"
  by (cases "ext \<in> set upload_kinds") (simp_all add: rows_frame.simple)

lemma rowed_upload_tool: "honours rows (register_upload P p a)"
proof -
  have row: "honours rows (if ext \<notin> set upload_kinds then raise e
      else bind (reads (pf_new_uuid P)) (\<lambda>uid. bind (insert_upload uid f ext n sha (path uid) c) (\<lambda>_. ret (ans uid))))"
    for ext e f n sha path c and ans :: "uuid \<Rightarrow> json"
    by (rule rowed_if_known) (intro rows_frame.bind rows_frame.simple rowed_upload)
  show ?thesis
    unfolding register_upload_def Let_def
    by (intro rows_frame.bind rows_frame.simple rows_frame.in_case [where m = "raise _"] row)
qed

lemma rowed_process_upload: "honours rows (process_upload P filename body creator)"
proof -
  have row: "honours rows (if ext \<notin> set upload_kinds then raise e else if big then raise e'
      else bind (reads (pf_new_uuid P)) (\<lambda>uid. bind (insert_upload uid f ext n sha (path uid) c) (\<lambda>_. ret (ans uid))))"
    for ext e e' big f n sha path c and ans :: "uuid \<Rightarrow> json"
    by (rule rowed_if_known) (intro rows_frame.bind rows_frame.simple rows_frame.in_case rowed_upload)
  show ?thesis unfolding process_upload_def Let_def by (rule row)
qed

lemma handler_rows:
  assumes "h \<in> handlers P"
  shows "honours rows (h p a)"
proof -
  have "h \<in> set (editor_handlers P) \<or> h \<in> set (admin_handlers P) \<or> read_only (h p a)"
    using assms read_handlers_read_only read_only_validate_staging unfolding handlers_def by blast
  then show ?thesis
  proof (elim disjE)
    assume "h \<in> set (editor_handlers P)"
    then show ?thesis
      unfolding editor_handlers_def
      by (auto simp: put_factory_def del_factory_def import_full_def mcp_set_asset_mapping_def
          intro!: rowed_intros rowed_lifecycle)
  next
    assume "h \<in> set (admin_handlers P)"
    then show ?thesis
      unfolding admin_handlers_def
      by (auto simp: mcp_promote_def mcp_revert_def mcp_undo_def mcp_mint_def mcp_revoke_def mcp_list_tokens_def
          mcp_add_connection_def mcp_delete_connection_def mcp_list_connections_def
          submit_ingestion_job_def get_ingestion_job_def list_ingestion_jobs_def cancel_ingestion_job_def
          delete_orphan_uploads_def intro!: rowed_intros rowed_lifecycle rowed_upload_tool)
  qed (rule rows_frame.read)
qed

text \<open>The row of the audit log that ends a call.\<close>

lemma rows_audited:
  assumes "rows s t" "audit_log s' = audit_log t @ [row]" "s' = t\<lparr>audit_log := audit_log s'\<rparr>"
  shows "rows s s'"
proof -
  have "s' = t\<lparr>audit_log := audit_log t @ [row]\<rparr>" using assms(2,3) by simp
  then have "row_step t s'" by (simp add: row_step.audited)
  with assms(1) show ?thesis by (rule rtranclp.rtrancl_into_rtrancl)
qed

lemma system_rows:
  assumes "system_step P rf s s'"
  shows "rows s s'"
  using assms
proof cases
  case (boot new_id random r)
  have "honours rows (bootstrap_admin_token_if_needed (pf_hasher P) new_id random)"
    unfolding bootstrap_admin_token_if_needed_def by (intro rowed_intros)
  with boot show ?thesis unfolding honours_def by blast
next
  case (request header body resp)
  from this no_empty_name show ?thesis
  proof (cases rule: endpoint_cases)
    case (call p spec a)
    have handler: "rows s s1" if "call_handler spec p a s = (r, s1)" for r s1
      using that handler_rows [OF table_handlers [OF call(3)]]
      by (cases a) (auto simp: call_handler_def raise_apply honours_def split: if_splits)
    from call(2) show ?thesis
    proof (cases rule: call_tool_cases)
      case (forbidden row)
      with rows_audited show ?thesis by blast
    next
      case (error e s1 row)
      with rows_audited handler show ?thesis by blast
    next
      case (ok res s1 row)
      with rows_audited handler show ?thesis by blast
    qed
  qed simp
next
  case (ui_login clock sid token r)
  obtain x t where l: "lookup_token (pf_hasher P) token s = (x, t)" by fastforce
  with lookup_token_frame have "t = s" by blast
  with ui_login l show ?thesis
    unfolding login_def
    by (auto simp: act_simps statement_def split: if_splits sum.splits option.splits intro!: rows_step row_step.login_added)
next
  case (ui_logout cookie)
  then show ?thesis
    unfolding logout_def statement_def
    by (auto simp: act_simps split: if_splits option.splits intro!: rows_step row_step.login_revoked)
next
  case (tick t)
  then show ?thesis by (simp add: rows_step row_step.clock)
qed

lemma rest_rows:
  assumes "rest_lifecycle P clock header cookie rt s = (r, s')"
  shows "rows s s'"
  using assms
proof (cases rule: rest_lifecycle_cases)
  case (passed p x)
  have "honours rows (lifecycle_action rt p)"
    by (cases rt; simp add: rest_promote_def rest_revert_def rest_undo_def; intro rowed_intros rowed_lifecycle)
  with passed(2) show ?thesis unfolding honours_def by blast
qed simp

lemma rowed_in_session: "honours rows m \<Longrightarrow> honours rows (in_session m)"
  unfolding honours_def by (auto elim!: in_session_cases)

lemma rowed_select_total: "honours rows (select_total ids)"
  unfolding select_total_def
  by (rule rowed_statement) (auto split: sum.splits intro!: rows_step row_step.transaction)

lemma rowed_http_create_job: "honours rows (http_create_job P ups mode ins creator)"
  unfolding http_create_job_def by (intro rowed_intros rowed_select_total)

subsection \<open>Chat sessions\<close>

lemma rowed_catching: "honours rows m \<Longrightarrow> honours rows (catching f m)"
  unfolding honours_def catching_def by (auto split: prod.splits sum.splits)

lemma rowed_open: "honours rows (create_session new_uuid n token)"
proof -
  let ?open = "\<lambda>snap. bind (reads new_uuid) (\<lambda>sid. bind (insert_session sid token snap) (\<lambda>_. ret sid)) :: (db, exn, uuid) act"
  have "honours rows (bind (load Staging) ?open)"
    unfolding honours_def
  proof (intro allI impI)
    fix s r s' assume run: "bind (load Staging) ?open s = (r, s')"
    show "rows s s'"
    proof (cases "\<exists>reg n. slot s Staging = Some (reg, n) \<and> \<not> tx_aborted s")
      case False
      with run have "s' = s" by (auto simp: act_simps insert_session_def statement_def split: option.splits)
      then show ?thesis by simp
    next
      case True
      then obtain reg n where "slot s Staging = Some (reg, n)" "\<not> tx_aborted s" by blast
      with run show ?thesis
        by (auto simp: act_simps insert_session_def statement_def intro!: rows_step row_step.session_opened)
    qed
  qed
  moreover have "honours rows (check_quota n token)"
    unfolding check_quota_def by (cases n) (auto intro!: rows_frame.simple rowed_statement)
  ultimately show ?thesis unfolding create_session_def by - (rule rowed_in_session, rule rows_frame.bind)
qed

lemma rowed_mark_session: "st \<in> {''saving'', ''cancelling''} \<Longrightarrow> honours rows (set_session_status sid st)"
  unfolding set_session_status_def
  by (rule rowed_statement) (auto intro!: rows_step row_step.session_marked)

lemma rowed_delete: "honours rows (delete_session sid)"
  unfolding delete_session_def
  by (rule rowed_statement) (auto simp: modify_apply intro!: rows_step row_step.session_deleted)

lemma rowed_save_session: "honours rows (save_session running sid requester)"
  unfolding save_session_def by (intro rowed_intros rowed_in_session rowed_delete rowed_mark_session) simp

lemma rowed_begin_cancel: "honours rows (begin_cancel sid requester)"
  unfolding begin_cancel_def by (intro rowed_intros rowed_mark_session) simp

lemma rowed_cancel_session:
  assumes "\<And>t. rows t (others t)"
  shows "honours rows (cancel_session others running sid requester)"
  unfolding honours_def
proof (intro allI impI)
  fix s r s' assume run: "cancel_session others running sid requester s = (r, s')"
  show "rows s s'"
  proof (cases "turn_guard running sid")
    case (Inl e)
    with run show ?thesis by (simp add: cancel_session_def act_simps)
  next
    case guard: (Inr u)
    obtain x t where b: "begin_cancel sid requester s = (x, t)" by fastforce
    have t: "rows s t" using rowed_begin_cancel b unfolding honours_def by blast
    show ?thesis
    proof (cases x)
      case (Inl e)
      with run guard b show ?thesis by (simp add: cancel_session_def act_simps)
    next
      case (Inr y)
      obtain row current where y: "y = (row, current)" by fastforce
      obtain z v where v: "restore_registry sid row current (others t) = (z, v)" by fastforce
      obtain w q where q: "delete_session sid v = (w, q)" by fastforce
      have s': "s' \<in> {v, others s, q}"
        using run guard b Inr y v q
        by (cases z; cases w; cases "projl z") (auto simp: cancel_session_def act_simps split: exn.splits)
      have "rows (others t) v" using rowed_save v unfolding restore_registry_def honours_def by blast
      with t assms have "rows s v" by (meson rtranclp_trans)
      moreover have "rows v q" using rowed_delete q unfolding honours_def by blast
      ultimately show ?thesis using s' assms by (auto intro: rtranclp_trans)
    qed
  qed
qed

lemma rowed_link: "honours rows (link_uploads jid ups)"
proof (induction ups)
  case (Cons up ups)
  show ?case
    unfolding link_uploads.simps
    by (rule rows_frame.bind [OF rowed_statement Cons])
      (auto split: option.splits intro!: rows_step row_step.transaction row_step.upload_attached)
qed (simp add: rows_frame.simple)

lemma rowed_message: "role \<in> {''user'', ''assistant''} \<Longrightarrow> honours rows (insert_message serial sid i role content)"
  unfolding insert_message_def
  by (rule rowed_statement) (auto split: if_splits intro!: rows_step row_step.transaction row_step.message_added)

text \<open>The rows of a turn: its session is there, so the message and the job may refer to it.\<close>

lemma rows_turn_body:
  assumes "find_session sid s \<noteq> None"
    and "bind (insert_message serial sid i ''user'' content) (\<lambda>_.
      bind (statement (modify (\<lambda>s. s\<lparr>chat_sessions := update_where (\<lambda>r. cs_id r = sid)
        (\<lambda>r. r\<lparr>cs_last_turn_at := Some (db_now s)\<rparr>) (chat_sessions s)\<rparr>))) (\<lambda>_.
      bind (insert_turn_job new_uuid sid msg token) (\<lambda>turn_id.
      bind (link_uploads turn_id ups) (\<lambda>_. ret turn_id)))) s = (r, s')"
  shows "rows s s'"
proof (cases "tx_aborted s")
  case True
  with assms(2) show ?thesis by (auto simp: insert_message_def statement_def bind_def)
next
  case live: False
  obtain m where m: "insert_message serial sid i ''user'' content s = (Inr (), s\<lparr>chat_messages := chat_messages s @ [m]\<rparr>)"
    "cm_session_id m = sid" "cm_role m = ''user''"
    using live assms(1) by (simp add: insert_message_def statement_def)
  let ?s1 = "s\<lparr>chat_messages := chat_messages s @ [m]\<rparr>"
  let ?s2 = "?s1\<lparr>chat_sessions := update_where (\<lambda>r. cs_id r = sid) (\<lambda>r. r\<lparr>cs_last_turn_at := Some (db_now ?s1)\<rparr>) (chat_sessions ?s1)\<rparr>"
  let ?job = "(new_job (new_uuid ?s2) Merge (Some msg) (Some token) (db_now ?s2))\<lparr>jb_chat_session_id := Some sid\<rparr>"
  let ?s3 = "?s2\<lparr>ingestion_jobs := ingestion_jobs ?s2 @ [?job]\<rparr>"
  have 1: "rows s ?s1" by (rule rows_step [OF row_step.message_added]) (use m assms(1) in simp_all)
  have 2: "rows ?s1 ?s2" by (rule rows_step [OF row_step.session_used])
  have "find_session sid ?s2 \<noteq> None"
    using assms(1) by (auto simp: find_session_def find_None_iff update_where_def split: if_splits)
  then have 3: "rows ?s2 ?s3"
    by (intro rows_step row_step.job_added [where mode = Merge]) (simp_all add: new_job_def)
  obtain x t where 4: "link_uploads (new_uuid ?s2) ups ?s3 = (x, t)" by fastforce
  with rowed_link have "rows ?s3 t" unfolding honours_def by blast
  moreover have "s' = t"
    using assms(2) live m(1) 4 by (cases x) (auto simp: bind_def statement_def modify_apply insert_turn_job_def ret_def)
  ultimately show ?thesis using 1 2 3 by (meson rtranclp_trans)
qed

lemma rows_turn:
  assumes "start_turn_tx new_uuid serial sid msg ups token requester s = (r, s')"
  shows "rows s s'"
  using assms unfolding start_turn_tx_def
proof (cases rule: in_session_cases)
  case (finished x)
  let ?body = "\<lambda>i. bind (insert_message serial sid i ''user'' (user_content msg ups)) (\<lambda>_.
      bind (statement (modify (\<lambda>s. s\<lparr>chat_sessions := update_where (\<lambda>r. cs_id r = sid)
              (\<lambda>r. r\<lparr>cs_last_turn_at := Some (db_now s)\<rparr>) (chat_sessions s)\<rparr>))) (\<lambda>_.
      bind (insert_turn_job new_uuid sid msg token) (\<lambda>turn_id.
      bind (link_uploads turn_id ups) (\<lambda>_. ret turn_id))))"
  from finished(2) obtain rec t where 1: "statement (reads (find_session sid)) s = (Inr rec, t)"
    and rest1: "bind (lift_sum (visible_to requester sid rec)) (\<lambda>r.
        if cs_status r \<noteq> ''active'' then raise (TurnInFlightError (''session not active: '' @ cs_status r))
        else bind (statement (reads (\<lambda>s. max_turn_index (- 1) sid s + 1))) (\<lambda>turn_index.
          ?body turn_index)) t = (Inr x, s')"
    by (rule bind_InrE)
  from 1 have t: "t = s" "rec = find_session sid s" by (auto simp: statement_def reads_apply split: if_splits)
  from rest1 obtain row u where 2: "lift_sum (visible_to requester sid rec) t = (Inr row, u)"
    and rest2: "(if cs_status row \<noteq> ''active'' then raise (TurnInFlightError (''session not active: '' @ cs_status row))
        else bind (statement (reads (\<lambda>s. max_turn_index (- 1) sid s + 1))) (\<lambda>turn_index.
          ?body turn_index)) u = (Inr x, s')"
    by (rule bind_InrE)
  from 2 t have there: "find_session sid s \<noteq> None" and u: "u = s"
    by (auto simp: lift_sum_apply visible_to_def split: option.splits)
  from rest2 u have "bind (statement (reads (\<lambda>s. max_turn_index (- 1) sid s + 1))) (\<lambda>turn_index.
          ?body turn_index) s = (Inr x, s')"
    by (simp add: raise_apply split: if_splits)
  then obtain i v where 3: "statement (reads (\<lambda>s. max_turn_index (- 1) sid s + 1)) s = (Inr i, v)"
    and rest3: "?body i v = (Inr x, s')"
    by (rule bind_InrE)
  from 3 have "v = s" by (auto simp: statement_def reads_apply split: if_splits)
  with rest3 rows_turn_body [OF there] show ?thesis by blast
qed simp

lemma rows_submit_turn:
  assumes "http_submit_turn P serial session_id body token (running, s) = (r, (running', s'))"
  shows "rows s s'"
proof -
  have start: "rows t t'" if "start_turn nu serial i msg ups tk req (rn, t) = (x, (rn', t'))"
    for nu i msg ups tk req rn t x rn' t'
  proof (cases "turn_guard rn i")
    case (Inl e)
    with that show ?thesis by (simp add: start_turn_def)
  next
    case (Inr u)
    obtain y v where y: "start_turn_tx nu serial i msg ups tk req t = (y, v)" by fastforce
    with that Inr have "t' = v" by (cases y) (simp_all add: start_turn_def)
    with rows_turn [OF y] show ?thesis by simp
  qed
  show ?thesis
  proof (cases "\<exists>sid msg ups. parse_path_uuid session_id = Inr sid \<and> turn_body P body = Inr (msg, ups)")
    case False
    with assms have "s' = s"
      by (cases "parse_path_uuid session_id"; cases "turn_body P body") (auto simp: http_submit_turn_def act_simps)
    then show ?thesis by simp
  next
    case True
    then obtain sid msg ups where ok: "parse_path_uuid session_id = Inr sid" "turn_body P body = Inr (msg, ups)" by blast
    obtain y rn' v where y: "start_turn (pf_new_uuid P) serial sid msg ups token (Some token) (running, s) = (y, (rn', v))"
      by (metis prod.exhaust)
    with assms ok have "s' = v"
      by (cases y) (simp_all add: http_submit_turn_def catching_def act_simps)
    with start [OF y] show ?thesis by simp
  qed
qed

lemma rowed_outcome: "honours rows (record_outcome serial T sid tid)"
proof -
  have "honours rows (statement (\<lambda>s. (case find_job tid s of None \<Rightarrow> Inl NoResultFound | Some j \<Rightarrow> Inr j, s)))"
    by (rule rowed_statement) (auto split: option.splits)
  then show ?thesis
    unfolding record_outcome_def
    by (intro rowed_in_session rows_frame.bind rows_frame.simple rowed_message rowed_statement rows_frame.in_statement) simp_all
qed

lemma rows_sweep_loop:
  "(\<And>sid t. rows t (others sid t)) \<Longrightarrow> sweep_loop others running sids res s = (res', s') \<Longrightarrow> rows s s'"
proof (induction sids arbitrary: res s)
  case (Cons sid sids)
  obtain x t where x: "cancel_session (others sid) running sid None s = (x, t)" by fastforce
  with rowed_cancel_session [of "others sid"] Cons.prems(1) have "rows s t" unfolding honours_def by blast
  moreover from Cons.prems x have "rows t s'"
    by (cases x) (auto intro: Cons.IH)
  ultimately show ?case by (rule rtranclp_trans)
qed simp

lemma rowed_sweep:
  assumes "\<And>sid t. rows t (others sid t)"
  shows "honours rows (sweep_orphan_sessions others running secs)"
proof -
  have "honours rows (\<lambda>s. case sweep_loop others running sids res s of (res, s') \<Rightarrow> (Inr res, s'))" for sids res
    using rows_sweep_loop [OF assms] unfolding honours_def by (auto split: prod.splits)
  then show ?thesis
    unfolding sweep_orphan_sessions_def by (intro rows_frame.bind rows_frame.read [OF read_rows])
qed

subsection \<open>Jobs\<close>

definition rows_env :: "'l job_world \<Rightarrow> bool" where
  "rows_env W \<longleftrightarrow> (\<forall>pt t. rows t (jw_env W pt t))"

interpretation rows_jobs: job_frame "\<lambda>s s'. rows_env W \<longrightarrow> rows s s'" W jid
  for W :: "'l job_world" and jid
proof unfold_locales
  show "honours (\<lambda>s s'. rows_env W \<longrightarrow> rows s s') (set_status jid st u)" for st u
    using rowed_status unfolding honours_def by blast
qed (auto simp: rows_env_def intro: rtranclp_trans)

lemma rows_in: "honours (\<lambda>s s'. rows_env W \<longrightarrow> rows s s') m \<Longrightarrow> rows_env W \<Longrightarrow> m s = (r, s') \<Longrightarrow> rows s s'"
  unfolding honours_def by blast

lemma rowed_job: "honours rows m \<Longrightarrow> honours (\<lambda>s s'. rows_env W \<longrightarrow> rows s s') m"
  unfolding honours_def by blast

lemma rows_import: "honours (\<lambda>s s'. rows_env W \<longrightarrow> rows s s') (import_phase W jid js wr)"
  unfolding import_phase_def
proof (rule rows_jobs.attempted [OF rows_jobs.in_block [OF rowed_job]])
  show "honours rows (bind (lift_sum (import_into_registry (sn_registry (js_snapshot js)) (wr_snapshot wr)
      (jo_mode (js_job js)) (js_conn_ids js))) (\<lambda>reg.
      bind (save Staging reg (Some (sn_version (js_snapshot js))) (Some ''ingestion'') None)
      (\<lambda>new_version. ret (Some (reg, new_version)))))"
    by (intro rows_frame.bind rows_frame.simple rowed_save)
  fix e :: exn
  show "honours (\<lambda>s s'. rows_env W \<longrightarrow> rows s s') (case e of StaleVersionError env expected current \<Rightarrow>
          mark W jid Failed (failed ''stale staging'' ''STALE_VERSION''
            (Some (JObj [(''expected_version'', JInt expected), (''current_version'', JInt current)])))
      | ValidationFailedError fs \<Rightarrow>
          mark W jid Failed (failed ''validation failed'' ''VALIDATION_FAILED''
            (Some (JObj [(''findings'', JList (map brief_finding fs))])))
      | _ \<Rightarrow> raise e)"
    by (cases e) (simp_all add: rows_jobs.simple rows_jobs.marks)
qed

lemma rows_finish: "honours (\<lambda>s s'. rows_env W \<longrightarrow> rows s s') (finish_phase W jid js res wr)"
  unfolding finish_phase_def
  by (intro rows_jobs.bind rows_jobs.in_block rows_jobs.status rows_import rows_jobs.in_option_case rows_jobs.simple
      step_case_prod)

lemma rows_job:
  assumes "run_one_job P W sp jid s = (r, s')" "rows_env W"
  shows "rows s s'"
proof -
  obtain x t where 1: "extract_phase W jid s = (x, t)" by fastforce
  have t: "rows s t" by (rule rows_in [OF rows_jobs.extraction assms(2) 1])
  show ?thesis
  proof (cases "\<exists>ds. x = Inr (Some ds)")
    case False
    with assms(1) 1 t show ?thesis
      by (auto simp: run_one_job_def act_simps split: sum.splits option.splits)
  next
    case True
    then obtain ds where x: "x = Inr (Some ds)" by blast
    obtain y u where 2: "setup_phase W jid t = (y, u)" by fastforce
    have u: "rows s u" using t rows_in [OF rows_jobs.setting_up assms(2) 2] by (rule rtranclp_trans)
    show ?thesis
    proof (cases y)
      case (Inl e)
      with assms(1) 1 2 x u show ?thesis by (simp add: run_one_job_def act_simps)
    next
      case (Inr js)
      obtain out wr where a: "agent_run P W sp ds js = (out, wr)" by fastforce
      have "rows u s'"
      proof (cases out)
        case (Inl e)
        with assms(1) 1 2 x Inr a have "report_agent_error P W jid e u = (r, s')"
          by (simp add: run_one_job_def act_simps \<open>y = Inr js\<close>)
        from rows_in [OF rows_jobs.agent_report assms(2) this] show ?thesis .
      next
        case out: (Inr res)
        with assms(1) 1 2 x a have "finish_phase W jid js res wr u = (r, s')"
          by (simp add: run_one_job_def act_simps \<open>y = Inr js\<close>)
        from rows_in [OF rows_finish assms(2) this] show ?thesis .
      qed
      with u show ?thesis by (rule rtranclp_trans)
    qed
  qed
qed

lemma rowed_mark: "honours rows (mark_wall_clock jid)"
proof -
  have "''failed'' \<in> range status_value" by (metis rangeI status_value.simps(6))
  then show ?thesis
    unfolding mark_wall_clock_def
    by (intro rowed_in_session rowed_statement) (auto simp: modify_apply same_job_def intro!: rows_step row_step.jobs_changed)
qed

lemma rows_turn_worker:
  assumes "run_turn_worker P W serial T sp timed_out others sid tid c = (r, c')" "rows_env W"
  shows "rows (ch_db c) (ch_db c')"
proof -
  have "honours rows (limited_job P W sp tid timed_out)"
    unfolding honours_def
  proof (intro allI impI)
    fix s x s' assume run: "limited_job P W sp tid timed_out s = (x, s')"
    obtain y t where y: "run_one_job P W sp tid s = (y, t)" by fastforce
    have t: "rows s t" by (rule rows_job [OF y assms(2)])
    have "s' = t \<or> (\<exists>z. mark_wall_clock tid t = (z, s'))"
      using run y by (cases y) (auto simp: limited_job_def split: if_splits)
    with t rowed_mark show "rows s s'" unfolding honours_def by (auto intro: rtranclp_trans)
  qed
  then have "honours rows (bind (limited_job P W sp tid timed_out) (\<lambda>_. record_outcome serial T sid tid))"
    by (intro rows_frame.bind rowed_outcome)
  then show ?thesis
    using assms(1) unfolding honours_def run_turn_worker_def Let_def
    by (auto split: prod.splits sum.splits)
qed

subsection \<open>The whole service\<close>

lemma serves_rows:
  assumes "serves P rf L s s'"
  shows "rows s s'"
  using assms
proof (induction rule: serves.induct)
  case (further s t u)
  then show ?case by (meson rtranclp_trans)
next
  case (system s s')
  then show ?case by (rule system_rows)
next
  case (rest_route clock header cookie rt s r s')
  then show ?case by (rule rest_rows)
next
  case (uploading filename body creator s r s')
  with rowed_in_session [OF rowed_process_upload] show ?case unfolding honours_def by blast
next
  case (queueing ups mode ins creator s r s')
  with rowed_in_session [OF rowed_http_create_job] show ?case unfolding honours_def by blast
next
  case (working W sp jid s r s')
  then have "rows_env W" unfolding rows_env_def by blast
  from rows_job [OF working(1) this] show ?case .
next
  case (chat_open token s r s')
  moreover have "honours rows (http_create_session P token)"
    unfolding http_create_session_def by (intro rows_frame.bind rowed_catching rowed_open rows_frame.simple)
  ultimately show ?case unfolding honours_def by blast
next
  case (chat_save running session_id token s r s')
  moreover have "honours rows (http_save_session running session_id token)"
    unfolding http_save_session_def by (intro rows_frame.bind rowed_catching rowed_save_session rows_frame.simple)
  ultimately show ?case unfolding honours_def by blast
next
  case (chat_cancel others running session_id token s r s')
  moreover have "honours rows (http_cancel_session others running session_id token)"
    unfolding http_cancel_session_def
    using chat_cancel.IH by (intro rows_frame.bind rowed_catching rowed_cancel_session rows_frame.simple) blast
  ultimately show ?case unfolding honours_def by blast
next
  case (chat_turn serial session_id body token running s r running' s')
  from rows_submit_turn [OF this] show ?case .
next
  case (chat_work W serial T sp timed_out on_bus sid tid c r c')
  then have "rows_env W" unfolding rows_env_def by blast
  from rows_turn_worker [OF chat_work(1) this] show ?case .
next
  case (chat_sweep others_of running secs s r s')
  then have "honours rows (sweep_orphan_sessions others_of running secs)" by (intro rowed_sweep) blast
  with chat_sweep(1) show ?case unfolding honours_def by blast
qed simp

end
