(* ===== verification/Constraints.thy ===== *)
theory Constraints
  imports Row_Steps Migrations
begin

text \<open>
  The constraints the migrations declare, on the rows the service writes: each value allowed by a
  check is the value of one of the code's enumerations, and no activity of the service breaks a check,
  a unique column or a foreign key. What the service never takes back: audit rows, revocations,
  versions.
\<close>

subsection \<open>The constraints of the head on the tables\<close>

text \<open>The checks, the unique columns and the foreign keys of each table.\<close>

record constraints =
  cn_checks :: "(string, string list) dict"
  cn_unique :: "string list"
  cn_foreign_keys :: "(string, string \<times> string \<times> on_delete) dict"

definition table_constraints :: "table \<Rightarrow> constraints" where
  "table_constraints t =
     \<lparr>cn_checks = map (\<lambda>k. (ck_column k, ck_values k)) (tb_checks t),
      cn_unique = map cl_name (filter cl_unique (tb_columns t)),
      cn_foreign_keys = concat (map (\<lambda>c. case cl_foreign_key c of None \<Rightarrow> [] | Some k \<Rightarrow> [(cl_name c, k)]) (tb_columns t))\<rparr>"

definition head_constraints :: "(string, constraints) dict" where
  "head_constraints = (case head of Inl _ \<Rightarrow> []
     | Inr h \<Rightarrow> map (\<lambda>(n, t). (n, table_constraints t)) (tables (al_catalog h)))"

definition constraints_of :: "string \<Rightarrow> constraints" where
  "constraints_of table = (case dict_get head_constraints table of Some c \<Rightarrow> c
     | None \<Rightarrow> \<lparr>cn_checks = [], cn_unique = [], cn_foreign_keys = []\<rparr>)"

definition allowed :: "string \<Rightarrow> string \<Rightarrow> string list" where
  "allowed table column = (case dict_get (cn_checks (constraints_of table)) column of None \<Rightarrow> [] | Some vs \<Rightarrow> vs)"

lemma head_constraints_are:
  "head_constraints =
    [(''registries'', \<lparr>cn_checks = [(''env'', [''staging'', ''production'', ''previous_production''])],
        cn_unique = [], cn_foreign_keys = []\<rparr>),
     (''api_tokens'', \<lparr>cn_checks = [(''scope'', [''read'', ''editor'', ''admin''])],
        cn_unique = [''token_hash''], cn_foreign_keys = []\<rparr>),
     (''connections'', \<lparr>cn_checks = [(''kind'', [''postgres'', ''mysql'', ''sqlite''])],
        cn_unique = [''label''], cn_foreign_keys = []\<rparr>),
     (''audit_log'', \<lparr>cn_checks = [], cn_unique = [], cn_foreign_keys = []\<rparr>),
     (''ui_sessions'', \<lparr>cn_checks = [], cn_unique = [], cn_foreign_keys = []\<rparr>),
     (''ingestion_uploads'', \<lparr>cn_checks = [(''kind'', [''sql'', ''pdf'', ''docx'', ''pptx'', ''xlsx''])],
        cn_unique = [], cn_foreign_keys = []\<rparr>),
     (''ingestion_jobs'', \<lparr>cn_checks = [(''mode'', [''replace'', ''merge'']),
          (''status'', [''queued'', ''extracting'', ''agent_running'', ''validating'', ''imported'', ''failed'', ''cancelled''])],
        cn_unique = [], cn_foreign_keys = [(''chat_session_id'', ''chat_sessions'', ''id'', Set_null)]\<rparr>),
     (''chat_sessions'', \<lparr>cn_checks = [(''status'', [''active'', ''saving'', ''cancelling''])],
        cn_unique = [], cn_foreign_keys = []\<rparr>),
     (''chat_messages'', \<lparr>cn_checks = [(''role'', [''user'', ''assistant'', ''tool_call'', ''tool_result''])],
        cn_unique = [], cn_foreign_keys = [(''session_id'', ''chat_sessions'', ''id'', Cascade)]\<rparr>)]"
  by code_simp

lemmas head_simps = allowed_def constraints_of_def head_constraints_are

text \<open>The references of messages and jobs to the sessions that exist.\<close>

definition references_hold :: "uuid set \<Rightarrow> chat_message_row list \<Rightarrow> job_row list \<Rightarrow> bool" where
  "references_hold ids ms js \<longleftrightarrow> (\<forall>m \<in> set ms. cm_session_id m \<in> ids)
     \<and> (\<forall>j \<in> set js. \<forall>sid. jb_chat_session_id j = Some sid \<longrightarrow> sid \<in> ids)"

definition job_allowed :: "job_row \<Rightarrow> bool" where
  "job_allowed j \<longleftrightarrow> jb_mode j \<in> set (allowed ''ingestion_jobs'' ''mode'')
     \<and> jb_status j \<in> set (allowed ''ingestion_jobs'' ''status'')"

text \<open>The rows of the database under them. The environments of \<open>registries\<close> are a type here.\<close>

definition satisfies_schema :: "db \<Rightarrow> bool" where
  "satisfies_schema s \<longleftrightarrow>
     (\<forall>r \<in> set (api_tokens s). tk_scope r \<in> set (allowed ''api_tokens'' ''scope''))
     \<and> (\<forall>r \<in> set (connections s). cn_kind r \<in> set (allowed ''connections'' ''kind''))
     \<and> (\<forall>u \<in> set (ingestion_uploads s). up_kind u \<in> set (allowed ''ingestion_uploads'' ''kind''))
     \<and> (\<forall>j \<in> set (ingestion_jobs s). job_allowed j)
     \<and> (\<forall>r \<in> set (chat_sessions s). cs_status r \<in> set (allowed ''chat_sessions'' ''status''))
     \<and> (\<forall>m \<in> set (chat_messages s). cm_role m \<in> set (allowed ''chat_messages'' ''role''))
     \<and> distinct (map tk_hash (api_tokens s)) \<and> distinct (map cn_label (connections s))
     \<and> references_hold (cs_id ` set (chat_sessions s)) (chat_messages s) (ingestion_jobs s)"

text \<open>The unique columns and foreign keys of the catalogue are those spelled out above.\<close>

lemma keys_covered:
  "concat (map (\<lambda>(n, c). map (Pair n) (cn_unique c)) head_constraints) = [(''api_tokens'', ''token_hash''), (''connections'', ''label'')]"
  "concat (map (\<lambda>(n, c). map (\<lambda>(k, t, _). (n, k, t)) (cn_foreign_keys c)) head_constraints)
    = [(''ingestion_jobs'', ''chat_session_id'', ''chat_sessions''), (''chat_messages'', ''session_id'', ''chat_sessions'')]"
  by (simp_all add: head_constraints_are)

subsection \<open>The enumerations of the code\<close>

lemma enumerations:
  "range scope_name = set (allowed ''api_tokens'' ''scope'')"
  "range kind_value = set (allowed ''connections'' ''kind'')"
  "set upload_kinds = set (allowed ''ingestion_uploads'' ''kind'')"
  "range mode_value = set (allowed ''ingestion_jobs'' ''mode'')"
  "range status_value = set (allowed ''ingestion_jobs'' ''status'')"
proof -
  have scopes: "(UNIV :: scope set) = {Read, Editor, Admin}" by (auto intro: scope.exhaust)
  have kinds: "(UNIV :: connection_kind set) = {Postgres, Mysql, Sqlite}" by (auto intro: connection_kind.exhaust)
  have modes: "(UNIV :: import_mode set) = {Replace, Merge}" by (auto intro: import_mode.exhaust)
  have statuses: "(UNIV :: job_status set) = {Queued, Extracting, Agent_running, Validating, Imported, Failed, Cancelled}"
    by (auto intro: job_status.exhaust)
  show "range scope_name = set (allowed ''api_tokens'' ''scope'')" by (simp add: scopes head_simps)
  show "range kind_value = set (allowed ''connections'' ''kind'')" by (simp add: kinds head_simps)
  show "set upload_kinds = set (allowed ''ingestion_uploads'' ''kind'')" by (simp add: upload_kinds_def head_simps)
  show "range mode_value = set (allowed ''ingestion_jobs'' ''mode'')" by (simp add: modes head_simps)
  show "range status_value = set (allowed ''ingestion_jobs'' ''status'')" by (simp add: statuses head_simps)
qed

lemma value_allowed:
  "scope_name sc \<in> set (allowed ''api_tokens'' ''scope'')" "kind_value k \<in> set (allowed ''connections'' ''kind'')"
  "mode_value md \<in> set (allowed ''ingestion_jobs'' ''mode'')" "status_value st \<in> set (allowed ''ingestion_jobs'' ''status'')"
  unfolding enumerations [symmetric] by (rule rangeI)+

subsection \<open>Every change satisfies the schema\<close>

lemma saved_uploads: "ingestion_uploads (saved e reg label msg s) = ingestion_uploads s"
  by (simp add: saved_def save_def Let_def split: option.splits)

lemma ids_update: "(\<And>r. p r \<Longrightarrow> cs_id (f r) = cs_id r) \<Longrightarrow> cs_id ` set (update_where p f rs) = cs_id ` set rs"
  using map_update_where [of p cs_id f rs] by (metis list.set_map)

lemma references_deleted:
  assumes "references_hold (cs_id ` set rs) ms js"
  shows "references_hold (cs_id ` set (filter (\<lambda>r. cs_id r \<noteq> sid) rs)) (filter (\<lambda>m. cm_session_id m \<noteq> sid) ms)
    (update_where (\<lambda>j. jb_chat_session_id j = Some sid) (\<lambda>j. j\<lparr>jb_chat_session_id := None\<rparr>) js)"
proof -
  have ids: "cs_id ` set (filter (\<lambda>r. cs_id r \<noteq> sid) rs) = cs_id ` set rs - {sid}" by auto
  have "sid' \<in> cs_id ` set rs - {sid}" if "jb_chat_session_id j = Some sid'"
    "j \<in> set (update_where (\<lambda>j. jb_chat_session_id j = Some sid) (\<lambda>j. j\<lparr>jb_chat_session_id := None\<rparr>) js)" for j sid'
    using set_update_where [OF that(2)] that(1) assms by (auto simp: references_hold_def)
  with assms show ?thesis unfolding references_hold_def ids by auto
qed

lemma references_kept:
  assumes "references_hold ids ms js" "\<forall>j. p j \<longrightarrow> jb_chat_session_id (f j) = jb_chat_session_id j"
  shows "references_hold ids ms (update_where p f js)"
  using assms by (auto simp: references_hold_def dest!: set_update_where)

lemma row_step_schema:
  assumes "row_step s s'" "satisfies_schema s"
  shows "satisfies_schema s'"
  using assms
proof (induction rule: row_step.induct)
  case (registry_saved s e r n reg label msg)
  from same_tables_fields [OF saved_same_tables [of s e reg label msg]] registry_saved(2) show ?case
    by (simp add: satisfies_schema_def saved_uploads)
next
  case (token_added row s sc)
  then show ?case by (auto simp: satisfies_schema_def value_allowed)
next
  case (token_revoked s tid)
  then show ?case by (auto simp: satisfies_schema_def map_update_where dest!: set_update_where)
next
  case (connection_added row s k)
  then show ?case by (auto simp: satisfies_schema_def value_allowed)
next
  case (connection_probed s cid)
  then show ?case by (auto simp: satisfies_schema_def map_update_where dest!: set_update_where)
next
  case (connection_deleted s cid)
  then show ?case by (auto simp: satisfies_schema_def distinct_map_filter)
next
  case (upload_added row s)
  then show ?case by (auto simp: satisfies_schema_def enumerations)
next
  case (upload_attached s jid up)
  then show ?case by (auto simp: satisfies_schema_def attach_upload_def dest!: set_update_where)
next
  case (job_added row mode s)
  have "job_allowed row" using job_added(1,2) by (simp add: job_allowed_def value_allowed) (simp add: head_simps)
  moreover have "sid \<in> cs_id ` set (chat_sessions s)" if "jb_chat_session_id row = Some sid" for sid
    using job_added(3) that find_session_id by (metis imageI not_None_eq)
  ultimately show ?case using job_added(4) by (auto simp: satisfies_schema_def references_hold_def)
next
  case (jobs_changed p f s)
  have "\<forall>j \<in> set (update_where p f (ingestion_jobs s)). job_allowed j"
    using jobs_changed by (auto simp: satisfies_schema_def job_allowed_def same_job_def enumerations dest!: set_update_where)
  moreover have "references_hold (cs_id ` set (chat_sessions s)) (chat_messages s) (update_where p f (ingestion_jobs s))"
    by (rule references_kept) (use jobs_changed in \<open>auto simp: satisfies_schema_def same_job_def\<close>)
  ultimately show ?case using jobs_changed(2) by (simp add: satisfies_schema_def)
next
  case (session_opened row s)
  then show ?case by (auto simp: satisfies_schema_def references_hold_def) (simp add: head_simps)
next
  case (session_marked st s sid)
  have "st \<in> set (allowed ''chat_sessions'' ''status'')" using session_marked(1) by (auto simp: head_simps)
  moreover have "cs_id ` set (update_where (\<lambda>r. cs_id r = sid) (\<lambda>r. r\<lparr>cs_status := st\<rparr>) (chat_sessions s)) = cs_id ` set (chat_sessions s)"
    by (rule ids_update) simp
  ultimately show ?case using session_marked(2) by (auto simp: satisfies_schema_def dest!: set_update_where)
next
  case (session_used s sid)
  have "cs_id ` set (update_where (\<lambda>r. cs_id r = sid) (\<lambda>r. r\<lparr>cs_last_turn_at := Some (db_now s)\<rparr>) (chat_sessions s)) = cs_id ` set (chat_sessions s)"
    by (rule ids_update) simp
  with session_used show ?case by (auto simp: satisfies_schema_def dest!: set_update_where)
next
  case (session_deleted s sid)
  let ?js = "update_where (\<lambda>j. jb_chat_session_id j = Some sid) (\<lambda>j. j\<lparr>jb_chat_session_id := None\<rparr>) (ingestion_jobs s)"
  have "references_hold (cs_id ` set (filter (\<lambda>r. cs_id r \<noteq> sid) (chat_sessions s)))
      (filter (\<lambda>m. cm_session_id m \<noteq> sid) (chat_messages s)) ?js"
    by (rule references_deleted) (use session_deleted in \<open>simp add: satisfies_schema_def\<close>)
  moreover have "\<forall>j \<in> set ?js. job_allowed j"
    using session_deleted by (auto simp: satisfies_schema_def job_allowed_def dest!: set_update_where)
  ultimately show ?case using session_deleted by (simp add: satisfies_schema_def)
next
  case (message_added row s)
  have "cm_role row \<in> set (allowed ''chat_messages'' ''role'')" using message_added(2) by (auto simp: head_simps)
  moreover have "cm_session_id row \<in> cs_id ` set (chat_sessions s)"
    using message_added(1) find_session_id by (metis imageI not_None_eq)
  ultimately show ?case using message_added(3) by (auto simp: satisfies_schema_def references_hold_def)
qed (simp_all add: satisfies_schema_def)

lemma rows_schema: "rows s s' \<Longrightarrow> satisfies_schema s \<Longrightarrow> satisfies_schema s'"
  by (induction rule: rtranclp_induct) (auto intro: row_step_schema)

subsection \<open>What is never taken back\<close>

definition kept_token :: "token_row \<Rightarrow> token_row \<Rightarrow> bool" where
  "kept_token r r' \<longleftrightarrow> r' = r \<or> tk_revoked_at r = None \<and> (\<exists>t. r' = r\<lparr>tk_revoked_at := Some t\<rparr>)"

definition never_back :: "db \<Rightarrow> db \<Rightarrow> bool" where
  "never_back s s' \<longleftrightarrow> (\<exists>rows. audit_log s' = audit_log s @ rows)
     \<and> (\<exists>old new. api_tokens s' = old @ new \<and> list_all2 kept_token (api_tokens s) old)"

lemma kept_token_refl: "list_all2 kept_token rs rs"
  by (simp add: list_all2_refl kept_token_def)

lemma kept_token_trans: "kept_token a b \<Longrightarrow> kept_token b c \<Longrightarrow> kept_token a c"
  by (auto simp: kept_token_def)

interpretation never_back_frame: frame never_back
proof
  show "never_back s s" for s
    unfolding never_back_def using kept_token_refl by (intro conjI exI [where x = "[]"] exI [where x = "api_tokens s"]) auto
  show "never_back s u" if "never_back s t" "never_back t u" for s t u
  proof -
    from that obtain old new old' new' where 1: "api_tokens t = old @ new" "list_all2 kept_token (api_tokens s) old"
      and 2: "api_tokens u = old' @ new'" "list_all2 kept_token (old @ new) old'" unfolding never_back_def by metis
    from 2(2) obtain a b where ab: "old' = a @ b" "list_all2 kept_token old a" by (auto simp: list_all2_append1)
    from ab(1) 2(1) have "api_tokens u = a @ (b @ new')" by simp
    moreover have "list_all2 kept_token (api_tokens s) a"
      using list_all2_trans [OF kept_token_trans 1(2) ab(2)] .
    moreover from that have "\<exists>rows. audit_log u = audit_log s @ rows" unfolding never_back_def by (metis append.assoc)
    ultimately show ?thesis unfolding never_back_def by blast
  qed
qed

lemma row_step_never_back: "row_step s s' \<Longrightarrow> never_back s s'"
proof (induction rule: row_step.induct)
  case (registry_saved s e r n reg label msg)
  from same_tables_fields [OF saved_same_tables [of s e reg label msg]] show ?case
    using never_back_frame.refl [of s] by (simp add: never_back_def)
next
  case (token_added row s sc)
  then show ?case using kept_token_refl by (auto simp: never_back_def)
next
  case (token_revoked s tid)
  have "list_all2 kept_token rs (update_where (\<lambda>r. tk_id r = tid \<and> tk_revoked_at r = None)
      (\<lambda>r. r\<lparr>tk_revoked_at := Some (db_now s)\<rparr>) rs)" for rs
    by (induction rs) (auto simp: update_where_def kept_token_def)
  then show ?case by (auto simp: never_back_def)
qed (use kept_token_refl in \<open>auto simp: never_back_def\<close>)

lemma rows_never_back: "rows s s' \<Longrightarrow> never_back s s'"
  by (induction rule: rtranclp_induct) (blast intro: never_back_frame.refl never_back_frame.trans row_step_never_back)+

subsection \<open>Properties\<close>

text \<open>C7: the service keeps the schema's promises. The values of the code's enumerations are exactly the
  values the migrations' checks allow; and in every database any mixture of tool calls, routes, jobs,
  chats and sweeps leads to, all checks, unique columns and foreign keys hold: no row has an unknown
  scope, kind, mode, status or role, no two tokens share a hash and no two connections a label, and
  no message or job refers to a chat session that is gone.\<close>
theorem service_satisfies_schema:
  assumes "serves P rf L (migrated t) s"
  shows "satisfies_schema s \<and> range scope_name = set (allowed ''api_tokens'' ''scope'')
    \<and> range kind_value = set (allowed ''connections'' ''kind'')
    \<and> range mode_value = set (allowed ''ingestion_jobs'' ''mode'')
    \<and> range status_value = set (allowed ''ingestion_jobs'' ''status'')
    \<and> set upload_kinds = set (allowed ''ingestion_uploads'' ''kind'')"
proof -
  have "satisfies_schema (migrated t)" by (simp add: satisfies_schema_def migrated_def references_hold_def)
  with rows_schema serves_rows [OF assms] have "satisfies_schema s" by blast
  then show ?thesis by (simp add: enumerations)
qed

text \<open>C6: what the service never takes back. From any database it reaches, whatever runs next and however
  it is interleaved: the rows of the audit log stay as they are and new ones come after them; every
  token keeps its row, with its identifier, hash, scope and label, and one that is revoked stays so;
  no environment goes back to an earlier version, and a version names one registry.\<close>
theorem service_never_takes_back:
  assumes "serves P rf L (migrated t) s" and "serves P rf L s s'" and "parsers_ok P"
  shows "(\<exists>new. audit_log s' = audit_log s @ new)
    \<and> (\<forall>i < length (api_tokens s). i < length (api_tokens s') \<and> kept_token (api_tokens s ! i) (api_tokens s' ! i))
    \<and> (\<forall>e r n. slot s e = Some (r, n) \<longrightarrow> (\<exists>r' n'. slot s' e = Some (r', n') \<and> n \<le> n' \<and> (n' = n \<longrightarrow> r' = r)))"
proof (intro conjI)
  note kept = rows_never_back [OF serves_rows [OF assms(2)]]
  from kept show "\<exists>new. audit_log s' = audit_log s @ new" by (simp add: never_back_def)
  from kept obtain old new where "api_tokens s' = old @ new" "list_all2 kept_token (api_tokens s) old"
    unfolding never_back_def by blast
  then show "\<forall>i < length (api_tokens s). i < length (api_tokens s') \<and> kept_token (api_tokens s ! i) (api_tokens s' ! i)"
    by (auto simp: list_all2_conv_all_nth nth_append)
  show "\<forall>e r n. slot s e = Some (r, n) \<longrightarrow> (\<exists>r' n'. slot s' e = Some (r', n') \<and> n \<le> n' \<and> (n' = n \<longrightarrow> r' = r))"
    using serves_keeps [OF assms(1,3)] serves_keeps [OF assms(2,3)] service_migrated [of t]
    unfolding keeps_def evolves_def by blast
qed

subsection \<open>Witnesses\<close>

theorem service_satisfies_schema_witness:
  "satisfies_schema open_chat_db \<and> length (chat_sessions open_chat_db) = 1"
  using service_satisfies_schema [OF open_chat_served] by (simp add: open_chat_rows)

text \<open>A token is minted by the bootstrap, and the chat of theory Service is opened beside it.\<close>

theorem service_never_takes_back_witness:
  "\<exists>s r. serves toy_platform (\<lambda>_. []) stub_acompletion (migrated 7) s \<and> api_tokens s = [r]
     \<and> (\<forall>s'. serves toy_platform (\<lambda>_. []) stub_acompletion s s' \<longrightarrow> api_tokens s' \<noteq> [] \<and> kept_token r (api_tokens s' ! 0))"
proof -
  have boot: "bootstrap_admin_token_if_needed (pf_hasher toy_platform) ''t1'' ''secret'' (migrated 7)
      = (fst (bootstrap_admin_token_if_needed (pf_hasher toy_platform) ''t1'' ''secret'' (migrated 7)),
         snd (bootstrap_admin_token_if_needed (pf_hasher toy_platform) ''t1'' ''secret'' (migrated 7)))" by simp
  let ?s = "snd (bootstrap_admin_token_if_needed (pf_hasher toy_platform) ''t1'' ''secret'' (migrated 7))"
  have ok: "bootstrap_admin_token_if_needed (pf_hasher toy_platform) ''t1'' ''secret'' (migrated 7) = (Inr (Some ''op_secret''), ?s)"
    "\<exists>r. api_tokens ?s = [r]"
    by (simp_all add: bootstrap_admin_token_if_needed_def insert_token_def statement_def migrated_def act_simps Let_def
        generate_token_def TOKEN_PREFIX_def)
  have served: "serves toy_platform (\<lambda>_. []) stub_acompletion (migrated 7) ?s"
    by (rule serves.system [OF system_step.boot [OF ok(1)]])
  from ok(2) obtain r where r: "api_tokens ?s = [r]" by blast
  have "api_tokens s' \<noteq> [] \<and> kept_token r (api_tokens s' ! 0)" if "serves toy_platform (\<lambda>_. []) stub_acompletion ?s s'" for s'
    using service_never_takes_back [OF served that toy_parsers] r by force
  with served r show ?thesis by blast
qed

end
