(* ===== verification/Prompts.thy ===== *)
theory Prompts
  imports Job_Worker
begin

text \<open>
  \<open>ingestion/prompts.py\<close>: the system prompt every job's agent runs with. Its one character that is not
  ASCII is an argument. The rules of names and identifiers it tells the model are read back from the
  text and compared with what the validator checks.
\<close>

definition SYSTEM_PROMPT :: "string \<Rightarrow> string" where
  "SYSTEM_PROMPT dash = join_str [CHR 10]
    [''You are an ontology modeling assistant. You build an'',
     ''OntologyRegistry by calling tool functions that mutate an in-memory'',
     ''working registry. Follow the proto3 rules:'',
     [],
     ''- RIDs are '' @ [CHR 39] @ ''ri.{prefix}.{uuid}'' @ [CHR 39] @ '' with prefix in {shprop, prop, iface, obj, link, action}.'',
     ''- api_name is snake_case: ^[a-z][a-z0-9]*(_[a-z0-9]+)*$'',
     ''- Each PropertyType must set exactly one of physical_column or virtual_expression.'',
     ''- ObjectType.implements_interface_type_rids must point at OBJECT_INTERFACE entries.'',
     ''- LinkType source/target must point at ObjectType (or LINK_INTERFACE).'',
     [],
     ''When you call a put tool, also include a `reason` field summarising why'',
     ''this entity belongs in the ontology '' @ dash @ '' this is captured in the'',
     ''decisions report and presented to the operator.'',
     [],
     ''When you have produced the registry that captures every relevant'',
     ''table/concept from the input, return a final assistant message (no'',
     ''tool calls) summarising what you built.'',
     []]"

text \<open>The worker starts every job with it (\<open>workers.py\<close>).\<close>

definition run_prompted_job :: "'n platform \<Rightarrow> 'l job_world \<Rightarrow> string \<Rightarrow> uuid \<Rightarrow> (db, exn, unit option) act" where
  "run_prompted_job P W dash jid = run_one_job P W (SYSTEM_PROMPT dash) jid"

subsection \<open>Reading the rules back\<close>

text \<open>What follows the first occurrence of a mark, and the kinds listed after ``prefix in''.\<close>

fun behind :: "string \<Rightarrow> string \<Rightarrow> string" where
  "behind m [] = []"
| "behind m (c # s) = (if starts_with m (c # s) then drop (length m) (c # s) else behind m s)"

definition prompt_kinds :: "string \<Rightarrow> string list" where
  "prompt_kinds text = split_char CHR '','' (filter (\<lambda>c. c \<noteq> CHR '' '')
     (takeWhile (\<lambda>c. c \<noteq> CHR ''}'') (behind ''prefix in {'' text)))"

definition prompt_name_pattern :: "string \<Rightarrow> string" where
  "prompt_name_pattern text = takeWhile (\<lambda>c. c \<noteq> CHR 10) (behind ''snake_case: '' text)"

lemma prompt_rules:
  "prompt_kinds (SYSTEM_PROMPT dash) = rid_kinds" "prompt_name_pattern (SYSTEM_PROMPT dash) = api_name_pattern"
  by code_simp+

lemma accepted_kind: "\<not> has_errors (check_rid rid k path) \<Longrightarrow> k \<in> set rid_kinds"
proof -
  assume "\<not> has_errors (check_rid rid k path)"
  then have m: "re_match_end RID_RE rid" "rid_kind rid = k" by (auto simp: check_rid_def split: if_splits)
  from m(1) obtain k' u t where w: "rid = ''ri.'' @ k' @ ''.'' @ u @ t" "k' \<in> set rid_kinds"
    unfolding re_match_end_iff lang_RID by (metis append_assoc)
  have "rid_kind rid = k'" unfolding w(1) by (rule rid_kind_of [OF kind_no_dot [OF w(2)]])
  with m(2) w(2) show ?thesis by simp
qed

subsection \<open>Properties\<close>

text \<open>The prompt tells the model the validator's rules: the kinds it lists are exactly those for which
  some rid passes the check, and the pattern it gives for names is the one the check reports.\<close>
theorem prompt_states_checked_rules:
  "set (prompt_kinds (SYSTEM_PROMPT dash)) = {k. \<exists>rid. \<not> has_errors (check_rid rid k path)}
     \<and> prompt_name_pattern (SYSTEM_PROMPT dash) = api_name_pattern"
proof (intro conjI prompt_rules(2) equalityI subsetI)
  fix k assume "k \<in> set (prompt_kinds (SYSTEM_PROMPT dash))"
  then have k: "k \<in> set rid_kinds" by (simp add: prompt_rules(1))
  have "rid_form k (''ri.'' @ k @ ''.'' @ ''00000000-0000-0000-0000-000000000001'')"
    unfolding rid_form_def maybe_newline_def using sample_uuid by (intro exI [where x = "[]"] exI [where x = "''00000000-0000-0000-0000-000000000001''"]) simp
  with check_rid_ok [OF k] show "k \<in> {k. \<exists>rid. \<not> has_errors (check_rid rid k path)}" by blast
next
  fix k assume "k \<in> {k. \<exists>rid. \<not> has_errors (check_rid rid k path)}"
  then show "k \<in> set (prompt_kinds (SYSTEM_PROMPT dash))" using accepted_kind by (auto simp: prompt_rules(1))
qed

end
