(* ===== verification/Spec2Isabelle.thy ===== *)
theory Spec2Isabelle
  imports Query_Builder Import_Script App_Start Routing Maintenance_Scripts Reachability Constraints Prompts
begin

text \<open>
  Verification development of the ontology platform backend (the Python package
  \<open>src/onto_platform\<close>).

  The program is a service around a registry of ontology definitions: shared properties, interface
  types, object types, link types and action types, which name each other by rid. Three registries
  are kept, each with a version: staging, which editors change, production, which queries read, and
  the slot that remembers the production a promotion replaced. Callers reach them through a
  JSON-RPC endpoint with a table of tools (\<open>mcp_server.py\<close>, \<open>mcp_tools_*.py\<close>), through HTTP routes
  for uploads, ingestion jobs, chats, data and the lifecycle, through the operator's commands and
  scripts, and through a language model that edits a registry in
  memory for an ingestion job or a chat turn. Object types can be bound to tables of registered
  databases, whose rows the service reads under a gate and a mask. Every change of a registry passes
  the validator, and every tool call leaves a row in the audit log.

  \<^bold>\<open>State.\<close> The record \<open>db\<close> (theory Database) holds the tables of the migrations; a handler is a
  function of type \<open>(db, exn, 'a) act\<close>, which takes the database to a result or an exception and a
  database. A transaction that has failed is marked (\<open>tx_aborted\<close>) and a request that raises is rolled
  back by its caller. Where the program commits more than once, or another transaction can commit
  between two of its steps, the operation takes the other transactions as an argument, a function on
  the database that runs at that point. The engine cache is \<open>pool\<close>, the event bus \<open>event_bus\<close>, the
  table of running turns \<open>running_turns\<close>, and the graph database \<open>graph\<close>.

  \<^bold>\<open>Theories and the code they model.\<close>

  \<^item> Prelude: Python dictionaries with the contract \<open>dictionary\<close>, results that may be exceptions, the
    action type, strings. Py_Parse: \<open>int\<close>, \<open>uuid.UUID\<close> and the like on user input. Regex: regular
    expressions with a matcher by derivatives.
  \<^item> Proto_Models (\<open>proto_models.py\<close>) and Registry_Types: the data model, findings, exceptions. Config
    (\<open>config.py\<close>).
  \<^item> Interface_Cycles and Validator (\<open>registry/validator.py\<close>, \<open>registry/checks\<close>), with Wellformed, the
    rules stated without the checkers. Refs_Scan, Crud (\<open>registry/crud.py\<close>, \<open>imports.py\<close>) and Diff.
  \<^item> Database: the tables as records; Migrations (\<open>migrations/versions\<close>): the revisions as the lists of
    statements they run, forth and back, on a catalogue. Registry_Store and Lifecycle
    (\<open>registry/store.py\<close>, \<open>lifecycle.py\<close>).
  \<^item> Auth (\<open>auth.py\<close>, \<open>token_store.py\<close>, \<open>ui_auth.py\<close>, \<open>bootstrap.py\<close>), Audit_Log (\<open>audit.py\<close>).
  \<^item> Connection_Store (\<open>connections/store.py\<close>, \<open>probe.py\<close>, \<open>pool.py\<close>), Sql_Gate, Masking and
    Data_Query: an ad-hoc query; Dialect_Engine and Query_Builder (\<open>dialect_engine.py\<close>,
    \<open>query_builder.py\<close>, \<open>data_routes.py\<close>): the pages of an object type's instances.
  \<^item> Mcp_Server: the endpoint. Platform: what its tools share. Mcp_Read, Mcp_Editor, Mcp_Admin: the
    tools. Tool_Table: the table, in the order of registration, and the frame of each tool.
    Reachability: what any sequence of requests does.
  \<^item> Ingestion_Store, Extractors, Agent_Tools, Agent, Job_Worker, Ingestion_Http: uploads, documents,
    the model's edits and its loop, the job and its routes (\<open>ingestion\<close>). Prompts: the system prompt,
    an argument of the loop, and that it tells the model the validator's rules for rids and names.
    Upload_Files: the disk side of an upload.
  \<^item> Event_Bus, Chat, Chat_Http: the channel of a turn's events, sessions and turns, their sweep and
    their routes (\<open>chat\<close>).
  \<^item> Graph_Sync (\<open>neo4j_syncer.py\<close> and the graph route of \<open>api_routes.py\<close>). Rest_Api: the other routes of
    \<open>api_routes.py\<close>.
  \<^item> Service: the composition. \<open>serves\<close> is the relation between a database and the ones that tool calls,
    routes, uploads, jobs, chats and sweeps lead to, where what runs between the commits of a job, a
    turn or a sweep is again the service. Row_Steps refines it: whatever the service does is a
    sequence of single-row statements (\<open>row_step\<close>). Constraints reads from the migrations what each
    row must satisfy and shows that the service keeps to it.
  \<^item> App_Start (\<open>app.py\<close>, \<open>health.py\<close>): what runs before the first request, the probes, and the route that
    serves the files of the user interface. Routing (\<open>app.py\<close>): the table of all routes, with what
    checks the caller of each. Admin_Cli (\<open>cli.py\<close>): the operator's commands.
  \<^item> Schema_Import and Import_Script (\<open>scripts/import_to_postgres.py\<close>), Maintenance_Scripts
    (\<open>fix_mappings.py\<close>, \<open>scripts/register_connections.py\<close>): the conversion of a schema file to a
    registry's JSON and the script that stores it or leaves a SQL file, the binding of object types
    to tables, and the registration of their connections.

  \<^bold>\<open>Interfaces.\<close> \<open>dictionary\<close> (Prelude) is the contract of Python's dictionaries; \<open>registry_component\<close>
  (Crud) that of one of the five maps in a registry, interpreted at each; \<open>registry_editor\<close> (Crud) that
  of a set of edits under an invariant, interpreted for well-formedness and for unique keys;
  \<open>versioned_store\<close> (Registry_Store) that of optimistic saving; \<open>frame\<close> (Tool_Table) that of a relation
  between the databases before and after an operation, interpreted for each of the questions of who
  may change what, for the invariant of the whole service (Service), for its single-row statements
  (Row_Steps) and for what it never takes back (Constraints), and extended by \<open>job_frame\<close>
  (Job_Worker) to the steps of a job; \<open>kind_conversion\<close> (Schema_Import) that of a script's conversion of
  one kind of definitions, interpreted for the five kinds.

  \<^bold>\<open>What is shown.\<close>

  \<^item> Registries: the validator reports no error exactly on the well-formed registries, its search for
    cycles ends and is exact, each edit keeps well-formedness and changes one entry or refuses, and
    every database the whole service reaches (\<open>serves\<close>) holds well-formed registries only; versions never go back and
    name one registry each; promotion and its undo; saves under a version are not lost.
  \<^item> Schema: the four revisions run, and can be taken back to any of them with the rows that are left;
    every row the service writes satisfies the checks, unique columns and foreign keys they declare;
    audit rows, tokens, revocations and versions are never taken back.
  \<^item> Access: what a request may change follows from the caller's scope; a result needs a live token
    of the tool's scope; a revoked token is never let through again; which
    nine handlers an unknown caller reaches, the instances of an object type among them; another token's chat session
    answers as if it did not exist; secrets do not reach the audit log.
  \<^item> Data: the gate lets through only reads; an ad-hoc query is bounded, read-only and masked; the
    pages of an instance query read the mapped columns, partition the selected rows, and select by
    the search; their values are not masked.
  \<^item> Files: each upload's file is where its row says, under a name the client cannot steer elsewhere,
    with the recorded size and hash; nothing is ever removed from the disk.
  \<^item> Operation: a start keeps the service's invariant and ends ready; rotating the key keeps every
    connection string; revoking all tokens shuts everyone out for good; the route for the interface's
    files reaches exactly the files below its directory and its siblings of the same beginning.
  \<^item> Scripts: a schema file of the expected format converts without an exception to a payload of the
    types the models declare, numbered in order, under rids the validator refuses; binding is
    idempotent and keeps these types; the import leaves the payload in production or, quoted so that
    it reads back exactly, in a SQL file, and the table it creates blocks the migrations; registering
    connections adds what is missing and nothing else.
  \<^item> Jobs and turns: a job ends, writes nothing or a well-formed registry, and refuses a staging that
    moved; the agent's loop is bounded and its working registry stays well-formed; every turn ends
    with its channel closed; a subscriber sees the whole turn in order; the chat tables stay ordered;
    cancelling a session restores its start.
  \<^item> Graph: a synchronisation is a function of the registry alone, exact on nodes and on two of the
    three kinds of relationships; parallel links collapse.

  \<^bold>\<open>Bounds.\<close> The depth-first search takes as fuel the number of interfaces plus one, which a path
  without repetition cannot exceed (its termination theorem). The agent loop counts down from
  \<open>max_steps\<close>, as the code does. \<open>sub_fuel\<close> in Dialect_Engine and the redactor of Audit_Log take the length
  of the text, and each round consumes a character. \<open>stream\<close> takes its readings as a list, one per
  round of the generator. Integers of Python are \<open>int\<close>; the columns PostgreSQL keeps as bigint are \<open>int\<close>
  as well, without its overflow.

  \<^bold>\<open>Parameters.\<close> Code that is not in the repository is an argument: sqlglot's parser, scopes and printer
  (with a tree type), Fernet, Argon2, the generators of tokens, uuids and serial numbers, database
  drivers and probes, the language model, the readers of documents, pydantic's parsing and dumping of
  JSON, and the texts that are not ASCII. What a theorem needs of them is a hypothesis with a witness.
  PostgreSQL's DDL has its documented meaning on a catalogue of tables, and a string constant ends at
  a quote that is not doubled. FastAPI tries the routes in the order of their inclusion.
  Neo4j's MERGE, DELETE and SET have their documented meaning on a graph of labelled nodes.

  \<^bold>\<open>Not modelled.\<close> FastAPI's parsing of requests and serialisation of responses; the environment
  variables; the two calls that configure logging and the engine, and Alembic's start-up
  (\<open>logging_setup.py\<close>, \<open>db.py\<close>, \<open>migrations/env.py\<close>), which only call their libraries; the parsing of
  the command line; the user interface. Of PostgreSQL's
  catalogue Migrations has the statements the revisions use, without the types' own behaviour.
  The conversion of a schema file takes property names to be strings. Arguments of tools that do not have the JSON types of their schema are not followed
  through the code (\<open>ill_typed\<close> stands for what it does on them).
\<close>

end
